(* ===== verification/Prelude.thy ===== *)
theory Prelude
  imports Main "HOL-Library.Finite_Map" "HOL-Library.Word"
begin

text \<open>
  Shared vocabulary of the development.

  \<^item> Machine types. A Rust \<open>u64\<close> is a \<open>64 word\<close> and a \<open>u32\<close> a \<open>32 word\<close>; plain \<open>+\<close> wraps,
    which is what the release build (\<open>cargo build --release\<close>, no \<open>overflow-checks\<close>) does.
    A \<open>[u8; 16]\<close> identifier is the \<open>128 word\<close> with these bytes in big-endian order;
    lemma \<open>bytes_be_less_iff\<close> below shows that the derived lexicographic order on equally
    long byte arrays is the numeric order.
  \<^item> Containers. A \<open>BTreeMap\<close> is a finite map \<open>('k, 'v) fmap\<close>: equality is equality of the
    entries, iteration is \<open>sorted_list_of_fmap\<close>, in ascending key order. A \<open>BTreeSet\<close> or a
    \<open>HashSet\<close> is an \<open>fset\<close>. A \<open>Vec\<close> is a list.
  \<^item> Strings. A Rust \<open>String\<close> is the list of the bytes of its UTF-8 encoding.
  \<^item> Loops \<^verbatim>\<open>for (k, v) in &map { ... }\<close> are \<open>for_entries\<close>; the loops of the CRDTs that update
    one entry of the receiver per entry of the argument are characterised once, by
    \<open>for_entries_upd\<close> and \<open>for_entries_upd_flag\<close>.
\<close>

section \<open>Collections of facts\<close>

named_theorems fm_simps \<open>lookups after the map operations the code uses\<close>
named_theorems kernel_simps \<open>definitions of the kernel's accessors\<close>
named_theorems agg_simps \<open>case distinctions of the aggregates' decide and apply\<close>

section \<open>Machine types\<close>

type_synonym u64 = "64 word"
type_synonym u32 = "32 word"
type_synonym bytes16 = "128 word"

text \<open>Results: \<open>Inl\<close> is Rust's \<open>Err\<close>, \<open>Inr\<close> its \<open>Ok\<close>.\<close>

type_synonym ('a, 'e) result = "'e + 'a"

abbreviation u64_MAX :: u64 where
  "u64_MAX \<equiv> - 1"

definition saturating_sub :: "u64 \<Rightarrow> u64 \<Rightarrow> u64" where
  "saturating_sub a b = (if a < b then 0 else a - b)"

definition saturating_mul :: "u64 \<Rightarrow> u64 \<Rightarrow> u64" where
  "saturating_mul a b = (if unat a * unat b < 2 ^ 64 then a * b else u64_MAX)"

definition checked_add :: "u64 \<Rightarrow> u64 \<Rightarrow> u64 option" where
  "checked_add a b = (if unat a + unat b < 2 ^ 64 then Some (a + b) else None)"

lemma unat_add_u64_le:
  fixes a b :: u64
  assumes "unat a + unat b < 2 ^ 64"
  shows "unat (a + b) = unat a + unat b"
  using assms by (simp add: unat_word_ariths)

lemma unat_saturating_sub: "unat (saturating_sub a b) = unat a - unat b"
  by (auto simp: saturating_sub_def unat_sub_if' word_less_nat_alt not_less)

lemma unat_succ_u64:
  fixes a :: u64
  assumes "a \<noteq> u64_MAX"
  shows "unat (a + 1) = Suc (unat a)"
proof -
  have "1 + a \<noteq> 0" using assms by (metis add_eq_0_iff)
  then show ?thesis using unatSuc [of a] by (simp add: add.commute)
qed

lemma less_succ_u64:
  fixes a :: u64
  assumes "a \<noteq> u64_MAX"
  shows "a < a + 1"
  using unat_succ_u64 [OF assms] by (simp add: word_less_nat_alt)

text \<open>Big-endian reading of a byte array; the arrays of one type all have the same length.\<close>

definition bytes_be :: "8 word list \<Rightarrow> nat" where
  "bytes_be bs = foldl (\<lambda>n b. n * 256 + unat b) 0 bs"

lemma foldl_bytes_be:
  "foldl (\<lambda>n b. n * 256 + unat (b :: 8 word)) k bs = k * 256 ^ length bs + bytes_be bs"
proof (induction bs arbitrary: k)
  case Nil
  then show ?case by (simp add: bytes_be_def)
next
  case (Cons b bs)
  show ?case
    using Cons [of "k * 256 + unat b"] Cons [of "unat b"]
    by (simp add: bytes_be_def algebra_simps)
qed

lemma bytes_be_Cons: "bytes_be (b # bs) = unat b * 256 ^ length bs + bytes_be bs"
  using foldl_bytes_be [of "unat b" bs] by (simp add: bytes_be_def)

lemma bytes_be_bound: "bytes_be bs < 256 ^ length bs"
proof (induction bs)
  case Nil
  then show ?case by (simp add: bytes_be_def)
next
  case (Cons b bs)
  have "unat b < 2 ^ LENGTH(8)" by (rule unsigned_less)
  then have "unat b \<le> 255" by simp
  then have "unat b * 256 ^ length bs \<le> 255 * 256 ^ length bs" by (rule mult_le_mono1)
  with Cons have "unat b * 256 ^ length bs + bytes_be bs < 256 * 256 ^ length bs" by linarith
  then show ?case by (simp add: bytes_be_Cons)
qed

fun bytes_less :: "8 word list \<Rightarrow> 8 word list \<Rightarrow> bool" where
  "bytes_less (x # xs) (y # ys) = (x < y \<or> x = y \<and> bytes_less xs ys)"
| "bytes_less _ _ = False"

lemma digit_less_iff:
  fixes a b m n p :: nat
  assumes "m < p" and "n < p"
  shows "a * p + m < b * p + n \<longleftrightarrow> a < b \<or> a = b \<and> m < n"
proof -
  have "a * p + m < b * p + n" if "a < b"
  proof -
    from that have "Suc a * p \<le> b * p" by (intro mult_le_mono1) simp
    with assms show ?thesis by simp
  qed
  moreover have "b * p + n < a * p + m" if "b < a"
  proof -
    from that have "Suc b * p \<le> a * p" by (intro mult_le_mono1) simp
    with assms show ?thesis by simp
  qed
  ultimately show ?thesis by (cases a b rule: linorder_cases) auto
qed

lemma bytes_be_less_iff:
  "length xs = length ys \<Longrightarrow> bytes_less xs ys \<longleftrightarrow> bytes_be xs < bytes_be ys"
proof (induction xs ys rule: list_induct2)
  case Nil
  then show ?case by (simp add: bytes_be_def)
next
  case (Cons x xs y ys)
  then have "bytes_be xs < 256 ^ length ys" "bytes_be ys < 256 ^ length ys"
    using bytes_be_bound [of xs] bytes_be_bound [of ys] by simp_all
  from digit_less_iff [OF this, of "unat x" "unat y"] Cons show ?case
    by (simp add: bytes_be_Cons word_less_nat_alt word_unat_eq_iff)
qed

section \<open>Strings\<close>

text \<open>
  \<open>s.trim().is_empty()\<close>: the string is a sequence of Unicode \<open>White_Space\<close> characters, here
  recognised on the UTF-8 bytes (U+0009 to U+000D, U+0020, U+0085, U+00A0, U+1680,
  U+2000 to U+200A, U+2028, U+2029, U+202F, U+205F, U+3000).
\<close>

abbreviation code :: "char \<Rightarrow> nat" where
  "code \<equiv> of_char"

definition is_ws3 :: "nat \<Rightarrow> nat \<Rightarrow> nat \<Rightarrow> bool" where
  "is_ws3 a b c \<longleftrightarrow>
     a = 225 \<and> b = 154 \<and> c = 128
   \<or> a = 226 \<and> b = 128 \<and> (128 \<le> c \<and> c \<le> 138 \<or> c = 168 \<or> c = 169 \<or> c = 175)
   \<or> a = 226 \<and> b = 129 \<and> c = 159
   \<or> a = 227 \<and> b = 128 \<and> c = 128"

fun trim_is_empty :: "string \<Rightarrow> bool" where
  "trim_is_empty [] = True"
| "trim_is_empty (a # s) =
     (if 9 \<le> code a \<and> code a \<le> 13 \<or> code a = 32 then trim_is_empty s
      else case s of
        [] \<Rightarrow> False
      | b # s' \<Rightarrow>
          if code a = 194 \<and> (code b = 133 \<or> code b = 160) then trim_is_empty s'
          else (case s' of
            [] \<Rightarrow> False
          | c # s'' \<Rightarrow> if is_ws3 (code a) (code b) (code c) then trim_is_empty s'' else False))"

text \<open>\<open>s.trim()\<close>: without the white space at its two ends.\<close>

fun trim_start :: "string \<Rightarrow> string" where
  "trim_start [] = []"
| "trim_start (a # s) =
     (if 9 \<le> code a \<and> code a \<le> 13 \<or> code a = 32 then trim_start s
      else case s of
        [] \<Rightarrow> [a]
      | b # s' \<Rightarrow>
          if code a = 194 \<and> (code b = 133 \<or> code b = 160) then trim_start s'
          else (case s' of
            [] \<Rightarrow> [a, b]
          | c # s'' \<Rightarrow> if is_ws3 (code a) (code b) (code c) then trim_start s'' else a # b # c # s''))"

fun trim_end :: "string \<Rightarrow> string" where
  "trim_end [] = []"
| "trim_end (a # s) = (if trim_is_empty (a # s) then [] else a # trim_end s)"

definition trim :: "string \<Rightarrow> string" where
  "trim s = trim_end (trim_start s)"

text \<open>The equations of the scanners unfold without end: one step at a time.\<close>

lemma trim_start_eq_Nil: "trim_start s = [] \<longleftrightarrow> trim_is_empty s"
proof (induction s rule: trim_start.induct)
  case (2 a s)
  show ?case
    using "2.IH" unfolding trim_start.simps(2) [of a s] trim_is_empty.simps(2) [of a s]
    by (auto simp del: trim_start.simps trim_is_empty.simps split: list.split)
qed simp

lemma trim_start_empty: "trim_is_empty (trim_start s) \<longleftrightarrow> trim_is_empty s"
proof (induction s rule: trim_start.induct)
  case (2 a s)
  show ?case
  proof (cases "trim_start (a # s) = a # s")
    case False
    with "2.IH" show ?thesis unfolding trim_start.simps(2) [of a s] trim_is_empty.simps(2) [of a s]
      by (auto simp del: trim_start.simps trim_is_empty.simps split: list.splits if_splits)
  qed simp
qed simp

lemma trim_end_eq_Nil: "trim_end s = [] \<longleftrightarrow> trim_is_empty s"
  by (cases s) auto

lemma trim_eq_Nil: "trim s = [] \<longleftrightarrow> trim_is_empty s"
  by (simp add: trim_def trim_end_eq_Nil trim_start_empty)

text \<open>\<open>std::str::from_utf8\<close> accepts exactly the well-formed UTF-8 sequences.\<close>

definition is_cont :: "char \<Rightarrow> bool" where
  "is_cont c \<longleftrightarrow> 128 \<le> code c \<and> code c \<le> 191"

fun utf8_valid :: "string \<Rightarrow> bool" where
  "utf8_valid [] = True"
| "utf8_valid (a # s) =
     (if code a < 128 then utf8_valid s
      else case s of
        [] \<Rightarrow> False
      | b # s' \<Rightarrow>
          if 194 \<le> code a \<and> code a \<le> 223 then is_cont b \<and> utf8_valid s'
          else (case s' of
            [] \<Rightarrow> False
          | c # s'' \<Rightarrow>
              if 224 \<le> code a \<and> code a \<le> 239
                then is_cont b \<and> (code a = 224 \<longrightarrow> 160 \<le> code b) \<and> (code a = 237 \<longrightarrow> code b \<le> 159) \<and> is_cont c \<and> utf8_valid s''
              else (case s'' of
                [] \<Rightarrow> False
              | d # s3 \<Rightarrow> 240 \<le> code a \<and> code a \<le> 244 \<and> is_cont b \<and> (code a = 240 \<longrightarrow> 144 \<le> code b)
                  \<and> (code a = 244 \<longrightarrow> code b \<le> 143) \<and> is_cont c \<and> is_cont d \<and> utf8_valid s3)))"

lemma is_cont_nonzero: "is_cont c \<Longrightarrow> c \<noteq> CHR 0x00"
  by (auto simp: is_cont_def)

lemma utf8_valid_until_zero: "utf8_valid s \<Longrightarrow> utf8_valid (takeWhile (\<lambda>b. b \<noteq> CHR 0x00) s)"
proof (induction s rule: utf8_valid.induct)
  case (2 a s)
  show ?case
  proof (cases "code a < 128")
    case True
    with 2 show ?thesis by (simp add: utf8_valid.simps(2) [of a s] del: utf8_valid.simps(2)) (simp add: utf8_valid.simps(2) [of a])
  next
    case False
    then have a: "a \<noteq> CHR 0x00" by auto
    let ?t = "takeWhile (\<lambda>b. b \<noteq> CHR 0x00)"
    have scan: "utf8_valid (?t (a # s)) = utf8_valid (a # ?t s)" using a by simp
    note scan = scan [unfolded utf8_valid.simps(2) [of a "?t s"]]
    note a_bytes = "2.prems" [unfolded utf8_valid.simps(2) [of a s]]
    consider b s' where "s = b # s'" "194 \<le> code a \<and> code a \<le> 223"
      | b c s' where "s = b # c # s'" "\<not> (194 \<le> code a \<and> code a \<le> 223)" "224 \<le> code a \<and> code a \<le> 239"
      | b c d s' where "s = b # c # d # s'" "\<not> (194 \<le> code a \<and> code a \<le> 223)" "\<not> (224 \<le> code a \<and> code a \<le> 239)"
      using False a_bytes by (auto simp del: utf8_valid.simps split: list.splits if_splits)
    then show ?thesis
    proof cases
      case 1
      from a_bytes have "is_cont b" "utf8_valid s'" using 1 False by simp_all
      with 1 a_bytes False "2.IH"(2) [OF False] show ?thesis
        unfolding scan by (simp add: is_cont_nonzero del: utf8_valid.simps)
    next
      case 2
      from a_bytes have "is_cont b" "is_cont c" "utf8_valid s'" using 2 False by simp_all
      with 2 a_bytes False "2.IH"(3) [OF False] show ?thesis
        unfolding scan by (simp add: is_cont_nonzero del: utf8_valid.simps)
    next
      case 3
      from a_bytes have "is_cont b" "is_cont c" "is_cont d" "utf8_valid s'" using 3 False by simp_all
      with 3(1) "2.IH"(4) [OF False 3(1) 3(2) refl 3(3) refl] a_bytes [unfolded 3(1) list.case if_not_P [OF False] if_not_P [OF 3(2)] if_not_P [OF 3(3)]]
      show ?thesis unfolding scan if_not_P [OF False] if_not_P [OF 3(2)] if_not_P [OF 3(3)]
        by (simp add: is_cont_nonzero del: utf8_valid.simps)
    qed
  qed
qed simp

text \<open>The decimal digits of a number, as \<open>Display\<close> prints it.\<close>

fun show_nat :: "nat \<Rightarrow> string" where
  "show_nat n = (if n < 10 then [char_of (48 + n)] else show_nat (n div 10) @ [char_of (48 + n mod 10)])"

section \<open>Finite maps\<close>

text \<open>\<open>map.get(k).copied().unwrap_or(d)\<close>\<close>

definition get_or :: "'v \<Rightarrow> ('k, 'v) fmap \<Rightarrow> 'k \<Rightarrow> 'v" where
  "get_or d m k = (case fmlookup m k of None \<Rightarrow> d | Some v \<Rightarrow> v)"

lemma get_or_empty [fm_simps, simp]: "get_or d fmempty k = d"
  by (simp add: get_or_def)

lemma get_or_upd [fm_simps, simp]: "get_or d (fmupd k v m) k' = (if k' = k then v else get_or d m k')"
  by (simp add: get_or_def)

text \<open>\<^verbatim>\<open>for (k, v) in &m { body }\<close> over a \<open>BTreeMap\<close>: ascending keys.\<close>

definition for_entries :: "('k::linorder \<Rightarrow> 'v \<Rightarrow> 's \<Rightarrow> 's) \<Rightarrow> ('k, 'v) fmap \<Rightarrow> 's \<Rightarrow> 's" where
  "for_entries body m s = fold (\<lambda>(k, v). body k v) (sorted_list_of_fmap m) s"

lemma map_fst_sorted_list_of_fmap: "map fst (sorted_list_of_fmap m) = sorted_list_of_fset (fmdom m)"
  by (simp add: sorted_list_of_fmap_def comp_def)

lemma distinct_sorted_list_of_fmap: "distinct (map fst (sorted_list_of_fmap m))"
  by (simp add: map_fst_sorted_list_of_fmap sorted_list_of_fset.rep_eq)

lemma set_sorted_list_of_fmap:
  "(k, v) \<in> set (sorted_list_of_fmap m) \<longleftrightarrow> fmlookup m k = Some v"
  using map_of_eq_Some_iff [OF distinct_sorted_list_of_fmap, of m k v]
  by simp

text \<open>
  A loop that rewrites, for each entry \<open>(k, v)\<close> of the argument, the receiver's entry at \<open>k\<close>
  and raises a flag on some condition: the result of all iterations at once.
\<close>

definition entries_upd :: "('v option \<Rightarrow> 'w \<Rightarrow> 'v) \<Rightarrow> ('k, 'v) fmap \<Rightarrow> ('k, 'w) fmap \<Rightarrow> 'k \<Rightarrow> 'v option" where
  "entries_upd f a b k = (case fmlookup b k of None \<Rightarrow> fmlookup a k | Some v \<Rightarrow> Some (f (fmlookup a k) v))"

lemma fold_upd_flag:
  assumes "distinct (map fst xs)"
  shows "fold (\<lambda>(k, v) (m, c). (fmupd k (f (fmlookup m k) v) m, c \<or> g (fmlookup m k) v)) xs (m0, c0) = (m, c)
    \<Longrightarrow> (\<forall>k. fmlookup m k = (case map_of xs k of None \<Rightarrow> fmlookup m0 k | Some v \<Rightarrow> Some (f (fmlookup m0 k) v)))
      \<and> (c \<longleftrightarrow> c0 \<or> (\<exists>(k, v) \<in> set xs. g (fmlookup m0 k) v))"
  using assms
proof (induction xs arbitrary: m0 c0)
  case Nil
  then show ?case by simp
next
  case (Cons x xs)
  obtain k v where x: "x = (k, v)" by force
  let ?m = "fmupd k (f (fmlookup m0 k) v) m0" and ?c = "c0 \<or> g (fmlookup m0 k) v"
  from Cons.prems x have dist: "k \<notin> fst ` set xs" "distinct (map fst xs)" by auto
  from Cons.prems(1) x have "fold (\<lambda>(k, v) (m, c). (fmupd k (f (fmlookup m k) v) m, c \<or> g (fmlookup m k) v)) xs (?m, ?c) = (m, c)"
    by simp
  from Cons.IH [OF this dist(2)]
  have l: "\<forall>k'. fmlookup m k' = (case map_of xs k' of None \<Rightarrow> fmlookup ?m k' | Some v \<Rightarrow> Some (f (fmlookup ?m k') v))"
    and c: "c \<longleftrightarrow> ?c \<or> (\<exists>(k', v) \<in> set xs. g (fmlookup ?m k') v)" by auto
  have "map_of xs k = None" using dist by (simp add: map_of_eq_None_iff)
  with l x have "\<forall>k'. fmlookup m k' = (case map_of (x # xs) k' of None \<Rightarrow> fmlookup m0 k' | Some v \<Rightarrow> Some (f (fmlookup m0 k') v))"
    by (auto split: option.splits)
  moreover have "(\<exists>(k', v) \<in> set xs. g (fmlookup ?m k') v) \<longleftrightarrow> (\<exists>(k', v) \<in> set xs. g (fmlookup m0 k') v)"
    using dist by (intro bex_cong) force+
  ultimately show ?case using c x by auto
qed

lemma for_entries_upd_flag:
  assumes body: "\<And>k v m c. body k v (m, c) = (fmupd k (f (fmlookup m k) v) m, c \<or> g (fmlookup m k) v)"
    and loop: "for_entries body b (a, c0) = (m, c)"
  shows "fmlookup m k = entries_upd f a b k"
    and "c \<longleftrightarrow> c0 \<or> (\<exists>k v. fmlookup b k = Some v \<and> g (fmlookup a k) v)"
proof -
  have "body = (\<lambda>k v (m, c). (fmupd k (f (fmlookup m k) v) m, c \<or> g (fmlookup m k) v))"
    by (auto simp: fun_eq_iff body)
  note loop = fold_upd_flag [OF distinct_sorted_list_of_fmap loop [unfolded for_entries_def this]]
  from loop show "fmlookup m k = entries_upd f a b k"
    by (simp add: entries_upd_def)
  from loop show "c \<longleftrightarrow> c0 \<or> (\<exists>k v. fmlookup b k = Some v \<and> g (fmlookup a k) v)"
    by (auto simp: set_sorted_list_of_fmap)
qed

lemma for_entries_upd:
  "fmlookup (for_entries (\<lambda>k v m. fmupd k (f (fmlookup m k) v) m) b a) k = entries_upd f a b k"
proof -
  have fold_fst: "fst (fold (\<lambda>(k, v) (m, c). (fmupd k (f (fmlookup m k) v) m, c \<or> False)) xs (m0, c0))
    = fold (\<lambda>(k, v) m. fmupd k (f (fmlookup m k) v) m) xs m0" for xs m0 c0
    by (induction xs arbitrary: m0 c0) auto
  obtain m c where
    loop: "for_entries (\<lambda>k v (m, c). (fmupd k (f (fmlookup m k) v) m, c \<or> False)) b (a, False) = (m, c)"
    by force
  from for_entries_upd_flag(1) [OF _ this, where f = f and g = "\<lambda>_ _. False"] fold_fst [of "sorted_list_of_fmap b" a False] loop
  show ?thesis by (simp add: for_entries_def)
qed

end
