(* ===== verification/Convergence.thy ===== *)
theory Convergence
  imports Prelude
begin

text \<open>
  The contract a state-based merge has to meet, and what a replica gets from it.

  \<open>ok\<close> delimits the states the contract is about. For the merges that are total laws on all
  states (vector clocks, OR-sets, PN-counters) it is \<open>\<lambda>_. True\<close>; for the registers and the
  sequence it says that the states stem from one common history of uniquely tagged writes.
\<close>

locale convergent_merge =
  fixes mrg :: "'s \<Rightarrow> 's \<Rightarrow> 's" and ok :: "'s \<Rightarrow> bool"
  assumes ok_mrg: "ok a \<Longrightarrow> ok b \<Longrightarrow> ok (mrg a b)"
    and mrg_comm: "ok a \<Longrightarrow> ok b \<Longrightarrow> mrg a b = mrg b a"
    and mrg_assoc: "ok a \<Longrightarrow> ok b \<Longrightarrow> ok c \<Longrightarrow> mrg (mrg a b) c = mrg a (mrg b c)"
    and mrg_idem: "ok a \<Longrightarrow> mrg a a = a"
begin

text \<open>\<open>a\<close> is subsumed by \<open>b\<close> when merging \<open>a\<close> into \<open>b\<close> changes nothing.\<close>

definition subsumed :: "'s \<Rightarrow> 's \<Rightarrow> bool" where
  "subsumed a b \<longleftrightarrow> mrg b a = b"

lemma subsumed_refl: "ok a \<Longrightarrow> subsumed a a"
  by (simp add: subsumed_def mrg_idem)

lemma subsumed_antisym:
  assumes "ok a" "ok b" "subsumed a b" "subsumed b a"
  shows "a = b"
  using assms mrg_comm [of a b] by (simp add: subsumed_def)

lemma subsumed_trans:
  assumes "ok a" "ok b" "ok c" "subsumed a b" "subsumed b c"
  shows "subsumed a c"
proof -
  have "mrg c a = mrg (mrg c b) a" using assms by (simp add: subsumed_def)
  also have "\<dots> = mrg c (mrg b a)" using assms by (simp add: mrg_assoc)
  also have "\<dots> = c" using assms by (simp add: subsumed_def)
  finally show ?thesis by (simp add: subsumed_def)
qed

lemma subsumed_left:
  assumes "ok a" "ok b"
  shows "subsumed a (mrg a b)"
proof -
  have "mrg (mrg a b) a = mrg (mrg b a) a" using assms by (simp add: mrg_comm)
  also have "\<dots> = mrg b (mrg a a)" using assms by (simp add: mrg_assoc)
  also have "\<dots> = mrg a b" using assms by (simp add: mrg_idem mrg_comm [of b a])
  finally show ?thesis by (simp add: subsumed_def)
qed

lemma subsumed_right: "ok a \<Longrightarrow> ok b \<Longrightarrow> subsumed b (mrg a b)"
  using subsumed_left [of b a] by (simp add: mrg_comm)

lemma subsumed_lub:
  assumes "ok a" "ok b" "ok c" "subsumed a c" "subsumed b c"
  shows "subsumed (mrg a b) c"
proof -
  have "mrg c (mrg a b) = mrg (mrg c a) b" using assms by (simp add: mrg_assoc)
  with assms show ?thesis by (simp add: subsumed_def)
qed

text \<open>A replica that starts at \<open>s\<close> and merges in the states \<open>xs\<close> one after the other.\<close>

lemma ok_foldl:
  "ok s \<Longrightarrow> (\<forall>x \<in> set xs. ok x) \<Longrightarrow> ok (foldl mrg s xs)"
  by (induction xs arbitrary: s) (auto simp: ok_mrg)

lemma foldl_upper:
  "ok s \<Longrightarrow> (\<forall>x \<in> set xs. ok x) \<Longrightarrow> y = s \<or> y \<in> set xs \<Longrightarrow> subsumed y (foldl mrg s xs)"
proof (induction xs arbitrary: s y)
  case Nil
  then show ?case by (simp add: subsumed_refl)
next
  case (Cons x xs)
  let ?R = "foldl mrg (mrg s x) xs"
  from Cons.prems have ok: "ok s" "ok x" "ok (mrg s x)" "\<forall>x \<in> set xs. ok x" by (simp_all add: ok_mrg)
  have top: "subsumed (mrg s x) ?R" using Cons.IH [of "mrg s x"] ok by simp
  have R: "ok ?R" using ok by (simp add: ok_foldl)
  have "subsumed s ?R"
    by (rule subsumed_trans [OF ok(1) ok(3) R subsumed_left [OF ok(1,2)] top])
  moreover have "subsumed x ?R"
    by (rule subsumed_trans [OF ok(2) ok(3) R subsumed_right [OF ok(1,2)] top])
  moreover have "subsumed y ?R" if "y \<in> set xs" using Cons.IH [of "mrg s x"] ok that by simp
  ultimately show ?case using Cons.prems(3) by auto
qed

lemma foldl_least:
  "ok s \<Longrightarrow> (\<forall>x \<in> set xs. ok x) \<Longrightarrow> ok u \<Longrightarrow> subsumed s u \<Longrightarrow> (\<forall>x \<in> set xs. subsumed x u)
    \<Longrightarrow> subsumed (foldl mrg s xs) u"
  by (induction xs arbitrary: s) (auto simp: ok_mrg subsumed_lub)

text \<open>
  Strong convergence: the outcome depends only on which states were received, not on their
  order and not on how often each one was delivered.
\<close>

lemma converge:
  assumes "ok s" and "\<forall>x \<in> set xs. ok x" and "set xs = set ys"
  shows "foldl mrg s xs = foldl mrg s ys"
proof (rule subsumed_antisym)
  from assms have ys: "\<forall>x \<in> set ys. ok x" by simp
  show "ok (foldl mrg s xs)" and "ok (foldl mrg s ys)" using assms ys by (simp_all add: ok_foldl)
  show "subsumed (foldl mrg s xs) (foldl mrg s ys)"
    using assms ys by (intro foldl_least) (auto simp: ok_foldl foldl_upper)
  show "subsumed (foldl mrg s ys) (foldl mrg s xs)"
    using assms ys by (intro foldl_least) (auto simp: ok_foldl foldl_upper)
qed

text \<open>Two replicas that exchange their states, in either direction, agree afterwards.\<close>

lemma exchange:
  assumes "ok a" and "ok b"
  shows "mrg a b = mrg b a \<and> mrg (mrg a b) b = mrg a b \<and> mrg (mrg a b) a = mrg a b"
  using assms mrg_comm [of a b] subsumed_left [of a b] subsumed_right [of a b] by (simp add: subsumed_def)

end

end
