(* ===== verification/Kernel.thy ===== *)
theory Kernel
  imports Convergence
begin

text \<open>
  The kernel crate (\<open>crates/kernel/platform-kernel\<close>): identifiers, versions and epochs, time,
  actor and authority types, object references, and the vector clocks that order the events
  of the replicas.
\<close>

section \<open>Identifiers\<close>

type_synonym ObjectId = bytes16
type_synonym OperationId = bytes16
type_synonym EventId = bytes16
type_synonym CommandId = bytes16
type_synonym CorrelationId = bytes16
type_synonym ConflictId = bytes16
type_synonym ReplicaId = bytes16
type_synonym UserId = ObjectId
type_synonym DeviceId = ObjectId
type_synonym OrganizationId = ObjectId

section \<open>Versions and epochs\<close>

type_synonym ObjectVersion = u64
type_synonym LifecycleEpoch = u64
type_synonym AuthorityEpoch = u64
type_synonym SchemaVersion = string

definition ObjectVersion_INITIAL :: ObjectVersion where
  "ObjectVersion_INITIAL = 0"

definition ObjectVersion_next :: "ObjectVersion \<Rightarrow> ObjectVersion" where
  "ObjectVersion_next v = v + 1"

definition LifecycleEpoch_INITIAL :: LifecycleEpoch where
  "LifecycleEpoch_INITIAL = 0"

definition LifecycleEpoch_advance :: "LifecycleEpoch \<Rightarrow> LifecycleEpoch" where
  "LifecycleEpoch_advance e = e + 1"

definition AuthorityEpoch_INITIAL :: AuthorityEpoch where
  "AuthorityEpoch_INITIAL = 0"

definition AuthorityEpoch_advance :: "AuthorityEpoch \<Rightarrow> AuthorityEpoch" where
  "AuthorityEpoch_advance e = e + 1"

lemmas version_defs [kernel_simps] =
  ObjectVersion_INITIAL_def ObjectVersion_next_def
  LifecycleEpoch_INITIAL_def LifecycleEpoch_advance_def
  AuthorityEpoch_INITIAL_def AuthorityEpoch_advance_def

section \<open>Time\<close>

type_synonym Timestamp = u64
type_synonym Duration = u64

definition Timestamp_checked_add :: "Timestamp \<Rightarrow> Duration \<Rightarrow> Timestamp option" where
  "Timestamp_checked_add t d = checked_add t d"

definition Duration_from_secs :: "u64 \<Rightarrow> Duration" where
  "Duration_from_secs secs = saturating_mul secs 1000000000"

section \<open>Actors, authority and references\<close>

record ActorContext =
  user_id :: UserId
  device_id :: DeviceId
  actor_organization_id :: OrganizationId

datatype ProofType = Jwt | Paseto | DelegationChain

record AuthorityScope =
  scope_organization_id :: OrganizationId
  scope_object_type :: string
  scope_object_id :: "ObjectId option"
  scope_command_types :: "string list"
  delegation_depth :: u32

record AuthorityProof =
  proof_type :: ProofType
  proof_scope :: AuthorityScope
  proof_issued_at :: Timestamp
  proof_expires_at :: Timestamp
  signature :: "8 word list option"

datatype VerifiedAuthority = VerifiedAuthority

text \<open>The kernel's \<open>is_authorized\<close> ignores its argument and always answers \<open>true\<close>.\<close>

definition is_authorized :: "VerifiedAuthority \<Rightarrow> string \<Rightarrow> bool" where
  "is_authorized _ _ = True"

record DomainObjectRef =
  ref_id :: ObjectId
  ref_type :: string
  ref_organization_id :: OrganizationId

section \<open>Vector clocks\<close>

record VectorClock =
  vc_entries :: "(ReplicaId, u64) fmap"

datatype CausalRelation = Before | After | Equal | Concurrent

definition vc_new :: VectorClock where
  "vc_new = \<lparr>vc_entries = fmempty\<rparr>"

definition vc_get :: "VectorClock \<Rightarrow> ReplicaId \<Rightarrow> u64" where
  "vc_get c r = get_or 0 (vc_entries c) r"

text \<open>One flag per side, raised while walking over the replicas either side mentions.\<close>

definition vc_compare_flags :: "VectorClock \<Rightarrow> VectorClock \<Rightarrow> bool \<times> bool" where
  "vc_compare_flags a b =
     (let all_replicas = sorted_list_of_fset (fmdom (vc_entries a) |\<union>| fmdom (vc_entries b))
      in fold (\<lambda>r (self_greater, other_greater).
            let self_count = get_or 0 (vc_entries a) r; other_count = get_or 0 (vc_entries b) r
            in (if self_count > other_count then True else self_greater,
                if other_count > self_count then True else other_greater))
          all_replicas (False, False))"

definition vc_compare :: "VectorClock \<Rightarrow> VectorClock \<Rightarrow> CausalRelation" where
  "vc_compare a b =
     (case vc_compare_flags a b of (self_greater, other_greater) \<Rightarrow>
        if \<not> self_greater \<and> \<not> other_greater then Equal
        else if self_greater \<and> \<not> other_greater then After
        else if \<not> self_greater \<and> other_greater then Before
        else Concurrent)"

definition vc_merge :: "VectorClock \<Rightarrow> VectorClock \<Rightarrow> VectorClock" where
  "vc_merge a b =
     \<lparr>vc_entries = for_entries
        (\<lambda>replica count merged.
           fmupd replica (max (case fmlookup merged replica of None \<Rightarrow> 0 | Some e \<Rightarrow> e) count) merged)
        (vc_entries b) (vc_entries a)\<rparr>"

definition vc_increment :: "ReplicaId \<Rightarrow> VectorClock \<Rightarrow> VectorClock" where
  "vc_increment r c = c\<lparr>vc_entries := fmupd r (vc_get c r + 1) (vc_entries c)\<rparr>"

text \<open>
  The JSON form of the entries: an object, here the list of its members in order. Rendering a
  replica identifier (\<open>Uuid::simple\<close>) and reading one (\<open>Uuid::parse_str\<close>) belong to the \<open>uuid\<close> crate
  and are parameters.
\<close>

definition serialize_entries :: "(ReplicaId \<Rightarrow> string) \<Rightarrow> (ReplicaId, u64) fmap \<Rightarrow> (string \<times> u64) list" where
  "serialize_entries simple m = map (\<lambda>(replica, count). (simple replica, count)) (sorted_list_of_fmap m)"

fun visit_map :: "(string \<Rightarrow> (ReplicaId, 'e) result) \<Rightarrow> (string \<times> u64) list \<Rightarrow> (ReplicaId, u64) fmap
    \<Rightarrow> ((ReplicaId, u64) fmap, 'e) result" where
  "visit_map parse_str [] m = Inr m"
| "visit_map parse_str ((key, value) # access) m =
     (case parse_str key of
        Inl e \<Rightarrow> Inl e
      | Inr uuid \<Rightarrow> visit_map parse_str access (fmupd uuid value m))"

definition deserialize_entries :: "(string \<Rightarrow> (ReplicaId, 'e) result) \<Rightarrow> (string \<times> u64) list
    \<Rightarrow> ((ReplicaId, u64) fmap, 'e) result" where
  "deserialize_entries parse_str kvs = visit_map parse_str kvs fmempty"

subsection \<open>The loops in closed form\<close>

lemma vc_eqI: "(\<And>r. fmlookup (vc_entries a) r = fmlookup (vc_entries b) r) \<Longrightarrow> a = (b :: VectorClock)"
  by (simp add: fmap_ext)

lemma vc_get_new [simp]: "vc_get vc_new r = 0"
  by (simp add: vc_get_def vc_new_def)

lemma fold_flags:
  "fold (\<lambda>r (s, t). (if P r then True else s, if Q r then True else t)) rs (s, t)
    = (s \<or> (\<exists>r \<in> set rs. P r), t \<or> (\<exists>r \<in> set rs. Q r))"
  by (induction rs arbitrary: s t) auto

lemma get_or_zero_notin: "r |\<notin>| fmdom m \<Longrightarrow> get_or 0 m r = (0 :: u64)"
  by (simp add: get_or_def fmdom_notD)

lemma vc_compare_flags_iff:
  "vc_compare_flags a b = ((\<exists>r. vc_get b r < vc_get a r), (\<exists>r. vc_get a r < vc_get b r))"
proof -
  let ?ds = "sorted_list_of_fset (fmdom (vc_entries a) |\<union>| fmdom (vc_entries b))"
  have outside: "vc_get a r = 0 \<and> vc_get b r = 0" if "r \<notin> set ?ds" for r
    using that by (simp add: vc_get_def get_or_zero_notin sorted_list_of_fset.rep_eq)
  have "vc_compare_flags a b
    = ((\<exists>r \<in> set ?ds. vc_get b r < vc_get a r), (\<exists>r \<in> set ?ds. vc_get a r < vc_get b r))"
    by (simp add: vc_compare_flags_def fold_flags vc_get_def Let_def)
  moreover have "(\<exists>r \<in> set ?ds. vc_get b r < vc_get a r) \<longleftrightarrow> (\<exists>r. vc_get b r < vc_get a r)"
    using outside by (metis word_not_simps(1))
  moreover have "(\<exists>r \<in> set ?ds. vc_get a r < vc_get b r) \<longleftrightarrow> (\<exists>r. vc_get a r < vc_get b r)"
    using outside by (metis word_not_simps(1))
  ultimately show ?thesis by simp
qed

lemma vc_merge_lookup:
  "fmlookup (vc_entries (vc_merge a b)) r =
     (case fmlookup (vc_entries b) r of None \<Rightarrow> fmlookup (vc_entries a) r
      | Some c \<Rightarrow> Some (max (case fmlookup (vc_entries a) r of None \<Rightarrow> 0 | Some e \<Rightarrow> e) c))"
  unfolding vc_merge_def
  using for_entries_upd [of "\<lambda>e c. max (case e of None \<Rightarrow> 0 | Some e \<Rightarrow> e) c" "vc_entries b" "vc_entries a" r]
  by (simp add: entries_upd_def)

lemma max_zero_u64 [simp]: "max 0 (c :: u64) = c" "max (c :: u64) 0 = c"
  by (simp_all add: max_def)

lemma vc_get_merge [simp]: "vc_get (vc_merge a b) r = max (vc_get a r) (vc_get b r)"
  by (simp add: vc_get_def get_or_def vc_merge_lookup split: option.splits)

lemma vc_get_increment [simp]:
  "vc_get (vc_increment r c) r' = (if r' = r then vc_get c r + 1 else vc_get c r')"
  by (simp add: vc_increment_def vc_get_def)

subsection \<open>The causal order\<close>

definition vc_le :: "VectorClock \<Rightarrow> VectorClock \<Rightarrow> bool" where
  "vc_le a b \<longleftrightarrow> (\<forall>r. vc_get a r \<le> vc_get b r)"

lemma vc_le_refl [simp]: "vc_le a a"
  by (simp add: vc_le_def)

lemma vc_le_trans: "vc_le a b \<Longrightarrow> vc_le b c \<Longrightarrow> vc_le a c"
  using order_trans by (fastforce simp: vc_le_def)

lemma vc_compare_le:
  "vc_compare a b =
     (if vc_le a b then if vc_le b a then Equal else Before
      else if vc_le b a then After else Concurrent)"
proof -
  have "vc_le x y \<longleftrightarrow> \<not> (\<exists>r. vc_get y r < vc_get x r)" for x y
    by (simp add: vc_le_def not_less)
  then show ?thesis by (simp add: vc_compare_def vc_compare_flags_iff)
qed

lemma vc_le_merge: "vc_le a (vc_merge a b)" "vc_le b (vc_merge a b)"
  by (simp_all add: vc_le_def)

lemma vc_merge_least: "vc_le a c \<Longrightarrow> vc_le b c \<Longrightarrow> vc_le (vc_merge a b) c"
  by (simp add: vc_le_def)

lemma vc_merge_comm: "vc_merge a b = vc_merge b a"
  by (rule vc_eqI) (auto simp: vc_merge_lookup max.commute split: option.splits)

lemma vc_merge_assoc: "vc_merge (vc_merge a b) c = vc_merge a (vc_merge b c)"
  by (rule vc_eqI) (auto simp: vc_merge_lookup max.assoc split: option.splits)

lemma vc_merge_idem [simp]: "vc_merge a a = a"
  by (rule vc_eqI) (auto simp: vc_merge_lookup split: option.splits)

lemma vc_merge_new [simp]: "vc_merge a vc_new = a" "vc_merge vc_new a = a"
  by (rule vc_eqI, simp add: vc_merge_lookup vc_new_def split: option.splits)+

interpretation vc: convergent_merge vc_merge "\<lambda>_. True"
  by unfold_locales (simp_all add: vc_merge_assoc, rule vc_merge_comm)

section \<open>Properties\<close>

text \<open>
  \<open>compare\<close> decides the causal order: it answers \<open>Equal\<close>, \<open>Before\<close>, \<open>After\<close> or \<open>Concurrent\<close> exactly when the
  clocks, read as functions with absent replicas at zero, are equal, strictly smaller, strictly
  greater or incomparable.
\<close>

theorem vc_compare_causal:
  "(vc_compare a b = Equal \<longleftrightarrow> vc_get a = vc_get b)
   \<and> (vc_compare a b = Before \<longleftrightarrow> (\<forall>r. vc_get a r \<le> vc_get b r) \<and> (\<exists>r. vc_get a r < vc_get b r))
   \<and> (vc_compare a b = After \<longleftrightarrow> (\<forall>r. vc_get b r \<le> vc_get a r) \<and> (\<exists>r. vc_get b r < vc_get a r))
   \<and> (vc_compare a b = Concurrent \<longleftrightarrow> (\<exists>r. vc_get a r < vc_get b r) \<and> (\<exists>r. vc_get b r < vc_get a r))"
proof -
  have "vc_get a = vc_get b \<longleftrightarrow> (\<forall>r. \<not> vc_get a r < vc_get b r \<and> \<not> vc_get b r < vc_get a r)"
    unfolding fun_eq_iff neq_iff [symmetric] de_Morgan_disj [symmetric] by simp
  then show ?thesis
    by (auto simp: vc_compare_def vc_compare_flags_iff simp flip: not_less)
qed

text \<open>
  \<open>merge\<close> is the least upper bound of two clocks in the causal order, entry by entry the maximum, and a
  replica that merges the same clocks in any order and multiplicity ends at the same clock.
\<close>

theorem vc_merge_join:
  assumes "set cs = set ds"
  shows "vc_get (vc_merge a b) r = max (vc_get a r) (vc_get b r)
    \<and> (vc_le (vc_merge a b) c \<longleftrightarrow> vc_le a c \<and> vc_le b c)
    \<and> foldl vc_merge a cs = foldl vc_merge a ds"
proof -
  have "vc_le a c \<and> vc_le b c" if "vc_le (vc_merge a b) c"
    using that vc_le_merge vc_le_trans by blast
  then show ?thesis using vc.converge [OF _ _ assms, of a] by (auto intro: vc_merge_least)
qed

theorem vc_merge_join_witness:
  "foldl vc_merge vc_new [vc_increment 1 vc_new, vc_increment 2 vc_new]
   = foldl vc_merge vc_new [vc_increment 2 vc_new, vc_increment 1 vc_new, vc_increment 2 vc_new]"
  using vc_merge_join [of "[vc_increment 1 vc_new, vc_increment 2 vc_new]"
      "[vc_increment 2 vc_new, vc_increment 1 vc_new, vc_increment 2 vc_new]" vc_new] by auto

text \<open>
  A local event moves the clock strictly forward and two replicas that count an event each from
  the same clock become concurrent, as long as the counters have not reached \<open>u64::MAX\<close>; at that point
  the wrap-around of \<open>+= 1\<close> throws the clock back to before the event.
\<close>

theorem vc_increment_advances:
  assumes "vc_get c r \<noteq> u64_MAX" and "vc_get c r' \<noteq> u64_MAX" and "r \<noteq> r'"
  shows "vc_compare c (vc_increment r c) = Before
    \<and> vc_compare (vc_increment r c) (vc_increment r' c) = Concurrent
    \<and> (vc_get d q = u64_MAX \<longrightarrow> vc_compare d (vc_increment q d) = After)"
proof -
  have less: "vc_get c r < vc_get c r + 1" "vc_get c r' < vc_get c r' + 1"
    using assms by (auto intro: less_succ_u64)
  have "vc_le c (vc_increment r c)" "\<not> vc_le (vc_increment r c) c"
    using less by (auto simp: vc_le_def not_le split: if_splits)
  moreover have "\<not> vc_le (vc_increment r c) (vc_increment r' c)" "\<not> vc_le (vc_increment r' c) (vc_increment r c)"
    using less assms(3) by (auto simp: vc_le_def not_le)
  moreover have "vc_compare d (vc_increment q d) = After" if "vc_get d q = u64_MAX"
  proof -
    have "vc_le (vc_increment q d) d" "\<not> vc_le d (vc_increment q d)"
      using that by (auto simp: vc_le_def)
    then show ?thesis by (simp add: vc_compare_le)
  qed
  ultimately show ?thesis by (simp add: vc_compare_le)
qed

theorem vc_increment_advances_witness:
  "vc_compare (vc_increment 1 vc_new) (vc_increment 2 vc_new) = Concurrent"
  using vc_increment_advances [of vc_new 1 2 vc_new 0] by simp

lemma visit_map_ok:
  assumes "\<And>r. parse_str (simple r) = Inr r" and "distinct (map fst xs)"
  shows "\<exists>m'. visit_map parse_str (map (\<lambda>(r, n). (simple r, n)) xs) m = Inr m'
    \<and> (\<forall>r. fmlookup m' r = (case map_of xs r of None \<Rightarrow> fmlookup m r | Some n \<Rightarrow> Some n))"
  using assms(2)
proof (induction xs arbitrary: m)
  case (Cons x xs)
  obtain r n where x: "x = (r, n)" by force
  with Cons.prems have "map_of xs r = None" "distinct (map fst xs)" by (simp_all add: map_of_eq_None_iff)
  with Cons.IH [of "fmupd r n m"] x assms(1) show ?case by (fastforce split: option.splits)
qed simp

lemma visit_map_error:
  "parse_str k = Inl e \<Longrightarrow> (k, n) \<in> set kvs \<Longrightarrow> \<exists>e. visit_map parse_str kvs m = Inl e"
  by (induction kvs arbitrary: m) (auto split: sum.splits)

text \<open>
  A vector clock survives its JSON form: when the identifier rendering can be read back, reading the
  serialised entries gives the same entries; an object with a member whose key is not a replica
  identifier is rejected as a whole.
\<close>

theorem vc_json_roundtrip:
  assumes "\<And>r. parse_str (simple r) = Inr r" and "parse_str bad = Inl e"
  shows "deserialize_entries parse_str (serialize_entries simple (vc_entries c)) = Inr (vc_entries c)
    \<and> ((bad, n) \<in> set kvs \<longrightarrow> (\<exists>e'. deserialize_entries parse_str kvs = Inl e'))"
proof -
  obtain m' where m': "visit_map parse_str (serialize_entries simple (vc_entries c)) fmempty = Inr m'"
    "\<forall>r. fmlookup m' r = (case map_of (sorted_list_of_fmap (vc_entries c)) r of None \<Rightarrow> fmlookup fmempty r | Some n \<Rightarrow> Some n)"
    using visit_map_ok [OF assms(1) distinct_sorted_list_of_fmap] unfolding serialize_entries_def by blast
  then have "m' = vc_entries c" by (intro fmap_ext) (simp split: option.splits)
  with m' visit_map_error [of parse_str bad e n kvs fmempty] assms(2) show ?thesis
    by (auto simp: deserialize_entries_def)
qed

theorem vc_json_roundtrip_witness:
  "\<exists>(simple :: ReplicaId \<Rightarrow> string) (parse_str :: string \<Rightarrow> (ReplicaId, unit) result).
     deserialize_entries parse_str (serialize_entries simple (vc_entries (vc_increment 7 vc_new))) = Inr (vc_entries (vc_increment 7 vc_new))"
proof -
  let ?simple = "\<lambda>r :: ReplicaId. map (\<lambda>b. if b then CHR ''1'' else CHR ''0'') (map (bit r) [0..<128])"
  let ?parse = "\<lambda>s. if length s = 128 then Inr (horner_sum of_bool 2 (map (\<lambda>ch. ch = CHR ''1'') s)) else Inl ()
    :: (ReplicaId, unit) result"
  have "map (\<lambda>ch. ch = CHR ''1'') (?simple r) = map (bit r) [0..<128]" for r
    by (simp add: comp_def if_distrib cong: if_cong)
  moreover have "horner_sum of_bool 2 (map (bit r) [0..<128]) = r" for r :: ReplicaId
    using horner_sum_bit_eq_take_bit [of r 128] take_bit_length_eq [of r] by simp
  ultimately have "?parse (?simple r) = Inr r" for r
    by (simp only: length_map length_upt) simp
  then have "deserialize_entries ?parse (serialize_entries ?simple (vc_entries (vc_increment 7 vc_new)))
      = Inr (vc_entries (vc_increment 7 vc_new))"
    using vc_json_roundtrip [of ?parse ?simple "[]" "()" "vc_increment 7 vc_new" 0 "[]"] by simp
  then show ?thesis by blast
qed

end
