(* ===== verification/Crdt_Core.thy ===== *)
theory Crdt_Core
  imports Kernel "HOL-Library.List_Lexorder" "HOL-Library.Product_Lexorder"
begin

text \<open>
  The \<open>Crdt\<close> trait (\<open>crates/synchronization/crdt/src/lib.rs\<close>) as an interface, and the list
  machinery that the multi-value register, the append-only log and the sequence share:
  a vector of entries, each with a key that identifies the write it stems from, extended by
  the entries whose key is missing and then sorted.
\<close>

section \<open>The trait\<close>

text \<open>
  \<open>merge\<close> mutates the receiver and returns whether anything changed, so it is a function to a
  pair; \<open>merge_into\<close> is the trait's default method: clone, merge, return the clone.
\<close>

definition merge_into :: "('s \<Rightarrow> 's \<Rightarrow> 's \<times> bool) \<Rightarrow> 's \<Rightarrow> 's \<Rightarrow> 's" where
  "merge_into merge a b = fst (merge a b)"

locale crdt =
  convergent_merge "merge_into merge" ok
  for merge :: "'s \<Rightarrow> 's \<Rightarrow> 's \<times> bool" and ok :: "'s \<Rightarrow> bool" +
  fixes causal_context :: "'s \<Rightarrow> VectorClock"
  assumes merge_context: "causal_context (merge_into merge a b) = vc_merge (causal_context a) (causal_context b)"
    and unchanged_context: "\<not> snd (merge a b) \<Longrightarrow> causal_context (merge_into merge a b) = causal_context a"
begin

text \<open>The causal context of a replica is the join of the contexts of all it has merged.\<close>

lemma foldl_context:
  "causal_context (foldl (merge_into merge) s xs) = foldl vc_merge (causal_context s) (map causal_context xs)"
  by (induction xs arbitrary: s) (simp_all add: merge_context)

lemma context_grows: "vc_le (causal_context b) (causal_context (merge_into merge a b))"
  by (simp add: merge_context vc_le_merge)

text \<open>A merge that reports no change has brought in nothing causally new.\<close>

lemma unchanged_seen: "\<not> snd (merge a b) \<Longrightarrow> vc_le (causal_context b) (causal_context a)"
  using context_grows [of b a] unchanged_context [of a b] by simp

text \<open>Replicas that received the same states agree, and so do their causal contexts.\<close>

lemma replicas_agree:
  assumes "ok s" and "\<forall>x \<in> set xs. ok x" and "set xs = set ys"
  shows "foldl (merge_into merge) s xs = foldl (merge_into merge) s ys
    \<and> vc_compare (causal_context (foldl (merge_into merge) s xs))
                 (causal_context (foldl (merge_into merge) s ys)) = Equal"
  using converge [OF assms] by (simp add: vc_compare_le)

end

section \<open>Vectors of keyed entries\<close>

text \<open>
  \<^verbatim>\<open>for y in other { if !xs.iter().any(|x| key(x) == key(y)) { xs.push(y.clone()); } }\<close>
  The flag is the \<open>changed\<close> variable of the loop.
\<close>

fun push_missing :: "('e \<Rightarrow> 'k) \<Rightarrow> 'e list \<Rightarrow> 'e list \<times> bool \<Rightarrow> 'e list \<times> bool" where
  "push_missing key [] acc = acc"
| "push_missing key (y # ys) (xs, changed) =
     push_missing key ys
       (if \<not> (\<exists>x \<in> set xs. key x = key y) then (xs @ [y], True) else (xs, changed))"

lemma push_missing_set:
  "push_missing key ys (xs, c) = (zs, d) \<Longrightarrow> distinct (map key ys)
    \<Longrightarrow> set zs = set xs \<union> {y \<in> set ys. key y \<notin> key ` set xs}"
proof (induction ys arbitrary: xs c)
  case Nil
  then show ?case by simp
next
  case (Cons y ys)
  show ?case
  proof (cases "\<exists>x \<in> set xs. key x = key y")
    case True
    with Cons show ?thesis by (auto simp: image_iff)
  next
    case False
    from Cons.prems(2) have "y' \<in> set ys \<Longrightarrow> key y' \<noteq> key y" for y' by (auto simp: image_iff)
    with Cons.IH [of "xs @ [y]" True] Cons.prems False show ?thesis by (auto simp: image_iff)
  qed
qed

lemma push_missing_distinct:
  "push_missing key ys (xs, c) = (zs, d) \<Longrightarrow> distinct (map key xs) \<Longrightarrow> distinct (map key zs)"
proof (induction ys arbitrary: xs c)
  case Nil
  then show ?case by simp
next
  case (Cons y ys)
  show ?case
  proof (cases "\<exists>x \<in> set xs. key x = key y")
    case True
    with Cons show ?thesis by simp
  next
    case False
    then have "distinct (map key (xs @ [y]))" using Cons.prems by auto
    with Cons.IH [of "xs @ [y]" True] Cons.prems False show ?thesis by simp
  qed
qed

lemma push_missing_flag:
  "push_missing key ys (xs, c) = (zs, d) \<Longrightarrow> d \<longleftrightarrow> c \<or> (\<exists>y \<in> set ys. key y \<notin> key ` set xs)"
proof (induction ys arbitrary: xs c)
  case Nil
  then show ?case by simp
next
  case (Cons y ys)
  then show ?case
    by (cases "\<exists>x \<in> set xs. key x = key y") (auto simp: image_iff)
qed

lemma push_missing_nothing:
  "(\<forall>y \<in> set ys. key y \<in> key ` set xs) \<Longrightarrow> push_missing key ys (xs, c) = (xs, c)"
  by (induction ys) (auto simp: image_iff)

text \<open>Sorting by an injective key leaves no freedom: the set of entries determines the vector.\<close>

lemma sort_key_determined:
  fixes f :: "'a \<Rightarrow> 'k :: linorder"
  assumes "distinct (map f xs)" and "distinct (map f ys)" and "set xs = set ys"
  shows "sort_key f xs = sort_key f ys"
proof -
  have inj: "inj_on f (set xs)" using assms(1) by (simp add: distinct_map)
  have sd: "sorted (map f (sort_key f zs))" for zs by simp
  have "map f (sort_key f xs) = map f (sort_key f ys)"
  proof (rule sorted_distinct_set_unique)
    show "distinct (map f (sort_key f xs))" using assms(1) by (simp add: distinct_map)
    show "distinct (map f (sort_key f ys))" using assms(2) by (simp add: distinct_map)
  qed (simp_all add: assms(3))
  then show ?thesis
    by (rule map_inj_on) (simp add: assms(3) [symmetric] inj)
qed

lemma sort_key_same:
  fixes f :: "'a \<Rightarrow> 'k :: linorder"
  assumes "sorted (map f xs)"
  shows "sort_key f xs = xs"
  using assms by (simp add: sorted_sort_id sort_key_id_if_sorted)

text \<open>
  Entries tagged by a write identifier \<open>key\<close> that agree with one history \<open>h\<close> of writes, held in
  ascending order of an injective rendering \<open>ord\<close> of the key.
\<close>

definition keyed :: "('e \<Rightarrow> 'k) \<Rightarrow> ('k \<Rightarrow> 'o::linorder) \<Rightarrow> ('k \<Rightarrow> 'e) \<Rightarrow> 'e list \<Rightarrow> bool" where
  "keyed key ord h xs \<longleftrightarrow>
     distinct (map key xs) \<and> sorted (map (\<lambda>x. ord (key x)) xs) \<and> (\<forall>x \<in> set xs. h (key x) = x)"

definition keyed_merge :: "('e \<Rightarrow> 'k) \<Rightarrow> ('k \<Rightarrow> 'o::linorder) \<Rightarrow> 'e list \<Rightarrow> 'e list \<Rightarrow> 'e list" where
  "keyed_merge key ord xs ys = sort_key (\<lambda>x. ord (key x)) (fst (push_missing key ys (xs, False)))"

lemma set_keyed_merge:
  assumes "keyed key ord h xs" and "keyed key ord h ys"
  shows "set (keyed_merge key ord xs ys) = set xs \<union> set ys"
proof -
  obtain zs d where pm: "push_missing key ys (xs, False) = (zs, d)" by force
  from assms have "distinct (map key ys)" by (simp add: keyed_def)
  from push_missing_set [OF pm this]
  have "set zs = set xs \<union> {y \<in> set ys. key y \<notin> key ` set xs}" .
  moreover have "y \<in> set xs" if "y \<in> set ys" "key y \<in> key ` set xs" for y
    using that assms by (auto simp: keyed_def dest: arg_cong [where f = h])
  ultimately show ?thesis using pm by (auto simp: keyed_merge_def)
qed

lemma keyed_keyed_merge:
  assumes "keyed key ord h xs" and "keyed key ord h ys"
  shows "keyed key ord h (keyed_merge key ord xs ys)"
proof -
  obtain zs d where pm: "push_missing key ys (xs, False) = (zs, d)" by force
  have "distinct (map key zs)"
    using push_missing_distinct [OF pm] assms by (simp add: keyed_def)
  then have "distinct (map key (keyed_merge key ord xs ys))"
    using pm by (simp add: keyed_merge_def distinct_map)
  moreover have "sorted (map (\<lambda>x. ord (key x)) (keyed_merge key ord xs ys))"
    by (simp add: keyed_merge_def)
  moreover have "\<forall>x \<in> set (keyed_merge key ord xs ys). h (key x) = x"
    using set_keyed_merge [OF assms] assms by (auto simp: keyed_def)
  ultimately show ?thesis by (simp add: keyed_def)
qed

text \<open>Vectors over one history are determined by their sets of entries.\<close>

lemma keyed_unique:
  assumes "inj ord" and "keyed key ord h xs" and "keyed key ord h ys" and "set xs = set ys"
  shows "xs = ys"
proof -
  let ?f = "\<lambda>x. ord (key x)"
  have d: "distinct (map ?f zs)" if "keyed key ord h zs" for zs
    using that assms(1) by (auto simp: keyed_def distinct_map inj_on_def)
  have "sort_key ?f xs = sort_key ?f ys"
    by (rule sort_key_determined [OF d [OF assms(2)] d [OF assms(3)] assms(4)])
  moreover have "sort_key ?f xs = xs" and "sort_key ?f ys = ys"
    using assms by (auto simp: keyed_def intro!: sort_key_same)
  ultimately show ?thesis by simp
qed

text \<open>So the keyed vectors over one history are themselves a convergent merge.\<close>

lemma keyed_convergent:
  assumes inj: "inj ord"
  shows "convergent_merge (keyed_merge key ord) (keyed key ord h)"
proof
  fix a b c assume a: "keyed key ord h a" and b: "keyed key ord h b" and c: "keyed key ord h c"
  note ab = keyed_keyed_merge [OF a b] and ba = keyed_keyed_merge [OF b a] and bc = keyed_keyed_merge [OF b c]
  show "keyed key ord h (keyed_merge key ord a b)" by (rule ab)
  show "keyed_merge key ord a b = keyed_merge key ord b a"
    by (rule keyed_unique [OF inj ab ba]) (auto simp: set_keyed_merge [OF a b] set_keyed_merge [OF b a])
  show "keyed_merge key ord (keyed_merge key ord a b) c = keyed_merge key ord a (keyed_merge key ord b c)"
    by (rule keyed_unique [OF inj keyed_keyed_merge [OF ab c] keyed_keyed_merge [OF a bc]])
      (auto simp: set_keyed_merge [OF ab c] set_keyed_merge [OF a bc] set_keyed_merge [OF a b] set_keyed_merge [OF b c])
  show "keyed_merge key ord a a = a"
    by (rule keyed_unique [OF inj keyed_keyed_merge [OF a a] a]) (simp add: set_keyed_merge [OF a a])
qed

text \<open>The order in which \<open>canonicalize\<close> sorts clocks: lexicographic on the ascending entries.\<close>

definition clock_key :: "VectorClock \<Rightarrow> (ReplicaId \<times> u64) list" where
  "clock_key c = sorted_list_of_fmap (vc_entries c)"

lemma inj_clock_key: "inj clock_key"
proof (rule injI)
  fix a b assume "clock_key a = clock_key b"
  then have "fmlookup (vc_entries a) = fmlookup (vc_entries b)"
    by (metis clock_key_def map_of_sorted_list)
  then show "a = b" by (intro vc_eqI) simp
qed

end
