(* ===== verification/Crdt_Gc.thy ===== *)
theory Crdt_Gc
  imports Crdt_Core
begin

text \<open>
  The tombstone collector (\<open>crates/synchronization/crdt/src/tombstone_gc.rs\<close>): the componentwise
  minimum of the clocks it has observed, and the test whether a tombstone lies below it.
\<close>

section \<open>State and operations\<close>

record GarbageCollector =
  summary_vector :: VectorClock
  known_replicas :: "ReplicaId fset"

definition gc_new :: GarbageCollector where
  "gc_new = \<lparr>summary_vector = vc_new, known_replicas = {||}\<rparr>"

definition gc_observe_entry :: "ReplicaId \<Rightarrow> u64 \<Rightarrow> GarbageCollector \<Rightarrow> GarbageCollector" where
  "gc_observe_entry replica count g =
     (let entries = vc_entries (summary_vector g);
          entry = (case fmlookup entries replica of None \<Rightarrow> u64_MAX | Some e \<Rightarrow> e)
      in g\<lparr>known_replicas := finsert replica (known_replicas g),
           summary_vector := \<lparr>vc_entries = fmupd replica (min entry count) entries\<rparr>\<rparr>)"

definition gc_observe_merge :: "VectorClock \<Rightarrow> GarbageCollector \<Rightarrow> GarbageCollector" where
  "gc_observe_merge remote_clock g = for_entries gc_observe_entry (vc_entries remote_clock) g"

text \<open>The loop over the tombstone's entries, with its two early returns.\<close>

fun gc_all_advanced :: "(ReplicaId, u64) fmap \<Rightarrow> (ReplicaId \<times> u64) list \<Rightarrow> bool" where
  "gc_all_advanced summary [] = True"
| "gc_all_advanced summary ((replica, tombstone_count) # rest) =
     (case fmlookup summary replica of
        Some summary_count \<Rightarrow> if summary_count < tombstone_count then False else gc_all_advanced summary rest
      | None \<Rightarrow> False)"

definition gc_is_tombstone_eligible :: "GarbageCollector \<Rightarrow> VectorClock \<Rightarrow> VectorClock \<Rightarrow> bool" where
  "gc_is_tombstone_eligible g tombstone_clock element_context =
     (if \<not> gc_all_advanced (vc_entries (summary_vector g)) (sorted_list_of_fmap (vc_entries tombstone_clock)) then False
      else if vc_compare (summary_vector g) element_context = Before then False
      else True)"

fun gc_pass :: "('t \<Rightarrow> VectorClock) \<Rightarrow> 't list \<Rightarrow> GarbageCollector \<times> nat \<Rightarrow> GarbageCollector \<times> nat" where
  "gc_pass causal_context [] acc = acc"
| "gc_pass causal_context (object # objects) (g, eligible) =
     (let ctx = causal_context object;
          g = gc_observe_merge ctx g
      in gc_pass causal_context objects
           (g, if gc_is_tombstone_eligible g ctx ctx then eligible + 1 else eligible))"

section \<open>What the summary holds\<close>

lemma for_entries_project:
  assumes "\<And>k v s. proj (body k v s) = body' k v (proj s)"
  shows "proj (for_entries body m s) = for_entries body' m (proj s)"
proof -
  have "proj (fold (\<lambda>(k, v). body k v) xs s) = fold (\<lambda>(k, v). body' k v) xs (proj s)" for xs
    by (induction xs arbitrary: s) (auto simp: assms)
  then show ?thesis by (simp add: for_entries_def)
qed

lemma gc_observe_lookup:
  "fmlookup (vc_entries (summary_vector (gc_observe_merge c g))) r =
     (case fmlookup (vc_entries c) r of
        None \<Rightarrow> fmlookup (vc_entries (summary_vector g)) r
      | Some n \<Rightarrow> Some (min (case fmlookup (vc_entries (summary_vector g)) r of None \<Rightarrow> u64_MAX | Some e \<Rightarrow> e) n))"
proof -
  let ?f = "\<lambda>e n. min (case e of None \<Rightarrow> u64_MAX | Some e \<Rightarrow> e) n"
  have "vc_entries (summary_vector (gc_observe_merge c g))
      = for_entries (\<lambda>k v m. fmupd k (?f (fmlookup m k) v) m) (vc_entries c) (vc_entries (summary_vector g))"
    unfolding gc_observe_merge_def
    by (rule for_entries_project [where proj = "\<lambda>g. vc_entries (summary_vector g)"])
      (simp add: gc_observe_entry_def Let_def)
  then show ?thesis
    using for_entries_upd [of ?f "vc_entries c" "vc_entries (summary_vector g)" r] by (simp add: entries_upd_def)
qed

lemma gc_observe_known: "known_replicas (gc_observe_merge c g) = known_replicas g |\<union>| fmdom (vc_entries c)"
proof -
  have "known_replicas (fold (\<lambda>(k, v). gc_observe_entry k v) xs g) = fset_of_list (map fst xs) |\<union>| known_replicas g" for xs
    by (induction xs arbitrary: g) (auto simp: gc_observe_entry_def Let_def)
  moreover have "fset_of_list (sorted_list_of_fset A) = A" for A :: "ReplicaId fset"
    by (simp add: fset_eq_iff fset_of_list_elem sorted_list_of_fset.rep_eq)
  ultimately show ?thesis
    by (simp add: gc_observe_merge_def for_entries_def map_fst_sorted_list_of_fmap funion_commute del: fset_of_list_map)
qed

text \<open>The counts that the observed clocks give for a replica, a clock without an entry giving none.\<close>

definition observed_counts :: "VectorClock list \<Rightarrow> ReplicaId \<Rightarrow> u64 set" where
  "observed_counts cs r = {n. \<exists>c \<in> set cs. fmlookup (vc_entries c) r = Some n}"

abbreviation gc_observe_all :: "VectorClock list \<Rightarrow> GarbageCollector" where
  "gc_observe_all cs \<equiv> fold gc_observe_merge cs gc_new"

lemma observed_counts_finite [simp]: "finite (observed_counts cs r)"
proof -
  have "observed_counts cs r \<subseteq> (\<lambda>c. the (fmlookup (vc_entries c) r)) ` set cs"
    by (force simp: observed_counts_def)
  then show ?thesis by (rule finite_subset) simp
qed

lemma observed_counts_snoc:
  "observed_counts (cs @ [c]) r =
     (case fmlookup (vc_entries c) r of None \<Rightarrow> observed_counts cs r | Some n \<Rightarrow> insert n (observed_counts cs r))"
  by (auto simp: observed_counts_def split: option.splits)

lemma min_u64_MAX [simp]: "min u64_MAX (n :: u64) = n"
  by (rule min_absorb2) (rule word_order.extremum)

lemma gc_summary_lookup:
  "fmlookup (vc_entries (summary_vector (gc_observe_all cs))) r =
     (if observed_counts cs r = {} then None else Some (Min (observed_counts cs r)))"
proof (induction cs rule: rev_induct)
  case Nil
  then show ?case by (simp add: observed_counts_def gc_new_def vc_new_def)
next
  case (snoc c cs)
  then show ?case
    by (auto simp: gc_observe_lookup observed_counts_snoc min.commute split: option.splits)
qed

lemma gc_known_all: "r |\<in>| known_replicas (gc_observe_all cs) \<longleftrightarrow> observed_counts cs r \<noteq> {}"
proof (induction cs rule: rev_induct)
  case Nil
  then show ?case by (simp add: observed_counts_def gc_new_def)
next
  case (snoc c cs)
  then show ?case
    by (auto simp: gc_observe_known observed_counts_snoc fmlookup_dom_iff split: option.splits)
qed

lemma gc_all_advanced_iff:
  "gc_all_advanced m xs \<longleftrightarrow> (\<forall>(r, n) \<in> set xs. \<exists>k. fmlookup m r = Some k \<and> n \<le> k)"
  by (induction m xs rule: gc_all_advanced.induct) (auto split: option.splits)

lemma gc_eligible_iff:
  "gc_is_tombstone_eligible g t e \<longleftrightarrow>
     (\<forall>r n. fmlookup (vc_entries t) r = Some n \<longrightarrow> (\<exists>k. fmlookup (vc_entries (summary_vector g)) r = Some k \<and> n \<le> k))
     \<and> vc_compare (summary_vector g) e \<noteq> Before"
  by (auto simp: gc_is_tombstone_eligible_def gc_all_advanced_iff set_sorted_list_of_fmap Ball_def)

section \<open>Properties\<close>

text \<open>
  After any sequence of observed clocks, a tombstone is eligible exactly when every replica
  of its clock has been mentioned by an observed clock, no observed clock that mentions the
  replica lies below the tombstone, and the minimum is not strictly before the element's
  context; the known replicas are the mentioned ones.
\<close>

theorem gc_eligible_spec:
  "(gc_is_tombstone_eligible (gc_observe_all cs) t e \<longleftrightarrow>
      (\<forall>r n. fmlookup (vc_entries t) r = Some n \<longrightarrow>
         (\<exists>c \<in> set cs. r |\<in>| fmdom (vc_entries c)) \<and> (\<forall>c \<in> set cs. \<forall>k. fmlookup (vc_entries c) r = Some k \<longrightarrow> n \<le> k))
      \<and> vc_compare (summary_vector (gc_observe_all cs)) e \<noteq> Before)
   \<and> (\<forall>r. r |\<in>| known_replicas (gc_observe_all cs) \<longleftrightarrow> (\<exists>c \<in> set cs. r |\<in>| fmdom (vc_entries c)))"
proof -
  have ne: "observed_counts cs r \<noteq> {} \<longleftrightarrow> (\<exists>c \<in> set cs. r |\<in>| fmdom (vc_entries c))" for r
    by (auto simp: observed_counts_def fmlookup_dom_iff)
  have le: "n \<le> Min (observed_counts cs r) \<longleftrightarrow> (\<forall>c \<in> set cs. \<forall>k. fmlookup (vc_entries c) r = Some k \<longrightarrow> n \<le> k)"
    if "observed_counts cs r \<noteq> {}" for n r
    using that by (subst Min_ge_iff) (auto simp: observed_counts_def)
  have "(\<exists>k. fmlookup (vc_entries (summary_vector (gc_observe_all cs))) r = Some k \<and> n \<le> k) \<longleftrightarrow>
      (\<exists>c \<in> set cs. r |\<in>| fmdom (vc_entries c)) \<and> (\<forall>c \<in> set cs. \<forall>k. fmlookup (vc_entries c) r = Some k \<longrightarrow> n \<le> k)" for r n
    using ne [of r] le [of r n] by (auto simp: gc_summary_lookup)
  then show ?thesis by (simp add: gc_eligible_iff gc_known_all ne)
qed

theorem gc_eligible_spec_witness:
  "\<not> gc_is_tombstone_eligible (gc_observe_all [vc_increment 2 vc_new]) (vc_increment 1 vc_new) vc_new"
  using gc_eligible_spec [of "[vc_increment 2 vc_new]" "vc_increment 1 vc_new" vc_new]
  by (auto simp: vc_increment_def vc_new_def)

text \<open>
  A clock that has no entry for a replica does not count as zero: a tombstone made at a replica's third
  event is eligible although one of the two observed clocks has seen nothing of that replica.
\<close>

theorem gc_ignores_missing_entries:
  "\<exists>seen unseen t. vc_compare unseen t = Concurrent \<and> vc_get unseen 1 = 0 \<and> vc_get t 1 = 3
     \<and> gc_is_tombstone_eligible (gc_observe_all [seen, unseen]) t t"
proof -
  let ?one = "\<lambda>r n. \<lparr>vc_entries = fmupd r n fmempty\<rparr>"
  have "vc_compare (?one 2 1) (?one 1 3) = Concurrent" "vc_get (?one 2 1) 1 = 0" "vc_get (?one 1 3) 1 = 3"
    "gc_is_tombstone_eligible (gc_observe_all [?one 1 5, ?one 2 1]) (?one 1 3) (?one 1 3)"
    by code_simp+
  then show ?thesis by blast
qed

lemma gc_self_eligible:
  "gc_is_tombstone_eligible (gc_observe_merge c g) c c \<longleftrightarrow>
     (\<forall>r n k. fmlookup (vc_entries c) r = Some n \<longrightarrow> fmlookup (vc_entries (summary_vector g)) r = Some k \<longrightarrow> n \<le> k)"
proof
  let ?s = "summary_vector (gc_observe_merge c g)"
  assume le: "\<forall>r n k. fmlookup (vc_entries c) r = Some n \<longrightarrow> fmlookup (vc_entries (summary_vector g)) r = Some k \<longrightarrow> n \<le> k"
  have at: "fmlookup (vc_entries ?s) r = Some n" if "fmlookup (vc_entries c) r = Some n" for r n
    using that le by (auto simp: gc_observe_lookup min_absorb2 split: option.splits)
  have "vc_le c ?s"
    unfolding vc_le_def vc_get_def get_or_def using at by (auto split: option.splits)
  then have "vc_compare ?s c \<noteq> Before" by (simp add: vc_compare_le)
  with at show "gc_is_tombstone_eligible (gc_observe_merge c g) c c" by (auto simp: gc_eligible_iff)
qed (auto simp: gc_eligible_iff gc_observe_lookup split: option.splits)

text \<open>Whether the object at position \<open>i\<close> is at or below all contexts scanned before it.\<close>

definition gc_behind :: "VectorClock list \<Rightarrow> nat \<Rightarrow> bool" where
  "gc_behind cs i \<longleftrightarrow> (\<forall>j < i. \<forall>r n k. fmlookup (vc_entries (cs ! i)) r = Some n
      \<longrightarrow> fmlookup (vc_entries (cs ! j)) r = Some k \<longrightarrow> n \<le> k)"

lemma gc_behind_snoc: "i < length cs \<Longrightarrow> gc_behind (cs @ xs) i = gc_behind cs i"
  by (simp add: gc_behind_def nth_append)

lemma gc_behind_last:
  "gc_behind (cs @ [c]) (length cs) \<longleftrightarrow> gc_is_tombstone_eligible (gc_observe_merge c (gc_observe_all cs)) c c"
proof -
  have "(\<forall>k. fmlookup (vc_entries (summary_vector (gc_observe_all cs))) r = Some k \<longrightarrow> n \<le> k)
      \<longleftrightarrow> (\<forall>j < length cs. \<forall>k. fmlookup (vc_entries (cs ! j)) r = Some k \<longrightarrow> n \<le> k)" for r n
  proof -
    have "(\<forall>k. fmlookup (vc_entries (summary_vector (gc_observe_all cs))) r = Some k \<longrightarrow> n \<le> k)
      \<longleftrightarrow> (\<forall>k \<in> observed_counts cs r. n \<le> k)"
      by (simp add: gc_summary_lookup)
    then show ?thesis unfolding observed_counts_def set_conv_nth by blast
  qed
  then show ?thesis
    unfolding gc_self_eligible gc_behind_def by (simp add: nth_append) blast
qed

lemma gc_pass_acc:
  "gc_pass ctx xs (gc_observe_all (map ctx ys), n) =
     (gc_observe_all (map ctx (ys @ xs)),
      n + card {i. length ys \<le> i \<and> i < length (ys @ xs) \<and> gc_behind (map ctx (ys @ xs)) i})"
proof (induction xs arbitrary: ys n)
  case Nil
  then show ?case by simp
next
  case (Cons x xs)
  let ?all = "map ctx (ys @ x # xs)"
  let ?S = "\<lambda>m. {i. m \<le> i \<and> i < length ?all \<and> gc_behind ?all i}"
  have head: "gc_behind ?all (length ys)
      \<longleftrightarrow> gc_is_tombstone_eligible (gc_observe_merge (ctx x) (gc_observe_all (map ctx ys))) (ctx x) (ctx x)"
    using gc_behind_last [of "map ctx ys" "ctx x"] gc_behind_snoc [of "length ys" "map ctx (ys @ [x])" "map ctx xs"]
    by simp
  have "?S (length ys) = (if gc_behind ?all (length ys) then insert (length ys) (?S (Suc (length ys))) else ?S (Suc (length ys)))"
    by (auto simp: Suc_le_eq le_less)
  moreover have "finite (?S (Suc (length ys)))" by simp
  ultimately have "card (?S (length ys)) = (if gc_behind ?all (length ys) then 1 else 0) + card (?S (Suc (length ys)))"
    by simp
  with Cons [of "ys @ [x]"] head show ?case by (simp add: Let_def)
qed

text \<open>
  A collection pass over fresh state counts the objects whose causal context is, replica by
  replica, at or below every context scanned before it that mentions the replica, and leaves the
  collector as if every context had been observed in turn.
\<close>

theorem gc_pass_counts:
  "gc_pass causal_context objects (gc_new, 0) =
     (gc_observe_all (map causal_context objects),
      card {i. i < length objects \<and> (\<forall>j < i. \<forall>r n k.
        fmlookup (vc_entries (causal_context (objects ! i))) r = Some n \<longrightarrow>
        fmlookup (vc_entries (causal_context (objects ! j))) r = Some k \<longrightarrow> n \<le> k)})"
proof -
  have "{i. i < length objects \<and> gc_behind (map causal_context objects) i} =
    {i. i < length objects \<and> (\<forall>j < i. \<forall>r n k.
        fmlookup (vc_entries (causal_context (objects ! i))) r = Some n \<longrightarrow>
        fmlookup (vc_entries (causal_context (objects ! j))) r = Some k \<longrightarrow> n \<le> k)}"
    by (auto simp: gc_behind_def)
  with gc_pass_acc [of causal_context objects "[]" 0] show ?thesis by simp
qed

theorem gc_pass_counts_witness:
  "snd (gc_pass (\<lambda>c. c) [vc_increment 1 vc_new] (gc_new, 0)) = 1"
proof -
  have "{i. i < length [vc_increment 1 vc_new] \<and> (\<forall>j < i. \<forall>r n k.
        fmlookup (vc_entries ([vc_increment 1 vc_new] ! i)) r = Some n \<longrightarrow>
        fmlookup (vc_entries ([vc_increment 1 vc_new] ! j)) r = Some k \<longrightarrow> n \<le> k)} = {0}" by auto
  then show ?thesis unfolding gc_pass_counts [of "\<lambda>c. c" "[vc_increment 1 vc_new]"] snd_conv by simp
qed

end
