(* ===== verification/Crdt_Or_Set.thy ===== *)
theory Crdt_Or_Set
  imports Crdt_Core
begin

text \<open>
  The observed-remove set (\<open>crates/synchronization/crdt/src/or_set.rs\<close>): per element a set of
  add tags and a set of remove tags; an element is present while an add tag is not removed.
\<close>

section \<open>State and operations\<close>

record Tag =
  tag_replica_id :: ReplicaId
  tag_lamport :: u64

record 'a OrSet =
  adds :: "('a, Tag fset) fmap"
  removes :: "('a, Tag fset) fmap"
  or_clock :: VectorClock

definition or_new :: "'a OrSet" where
  "or_new = \<lparr>adds = fmempty, removes = fmempty, or_clock = vc_new\<rparr>"

definition or_add :: "'a \<Rightarrow> Tag \<Rightarrow> VectorClock \<Rightarrow> 'a OrSet \<Rightarrow> 'a OrSet" where
  "or_add element tag clock s =
     s\<lparr>adds := fmupd element (finsert tag (get_or {||} (adds s) element)) (adds s),
       or_clock := vc_merge (or_clock s) clock\<rparr>"

definition or_remove :: "'a \<Rightarrow> Tag \<Rightarrow> VectorClock \<Rightarrow> 'a OrSet \<Rightarrow> 'a OrSet" where
  "or_remove element tag clock s =
     s\<lparr>removes := fmupd element (finsert tag (get_or {||} (removes s) element)) (removes s),
       or_clock := vc_merge (or_clock s) clock\<rparr>"

definition or_contains :: "'a OrSet \<Rightarrow> 'a \<Rightarrow> bool" where
  "or_contains s element =
     (let add_tags = get_or {||} (adds s) element; remove_tags = get_or {||} (removes s) element
      in fcard (add_tags |-| remove_tags) > 0)"

definition or_elements :: "'a::linorder OrSet \<Rightarrow> 'a list" where
  "or_elements s =
     map fst (filter (\<lambda>(el, add_tags).
        let remove_tags = get_or {||} (removes s) el in fcard (add_tags |-| remove_tags) > 0)
       (sorted_list_of_fmap (adds s)))"

definition or_causal_context :: "'a OrSet \<Rightarrow> VectorClock" where
  "or_causal_context s = or_clock s"

text \<open>The loop over the other side's tags, run once for the adds and once for the removes.\<close>

definition or_merge_tags ::
    "('a::linorder, Tag fset) fmap \<Rightarrow> ('a, Tag fset) fmap \<times> bool \<Rightarrow> ('a, Tag fset) fmap \<times> bool" where
  "or_merge_tags other =
     for_entries (\<lambda>el tags (self, changed).
       let entry = get_or {||} self el; before_len = fcard entry; entry' = entry |\<union>| tags
       in (fmupd el entry' self, if fcard entry' \<noteq> before_len then True else changed)) other"

definition or_merge :: "'a::linorder OrSet \<Rightarrow> 'a OrSet \<Rightarrow> 'a OrSet \<times> bool" where
  "or_merge s other =
     (let (adds', changed) = or_merge_tags (adds other) (adds s, False);
          (removes', changed) = or_merge_tags (removes other) (removes s, changed);
          new_clock = vc_merge (or_clock s) (or_clock other);
          s' = s\<lparr>adds := adds', removes := removes'\<rparr>
      in if or_clock s \<noteq> new_clock then (s'\<lparr>or_clock := new_clock\<rparr>, True) else (s', changed))"

section \<open>The merge loop in closed form\<close>

lemma fcard_union_neq_iff: "fcard (e |\<union>| t) \<noteq> fcard e \<longleftrightarrow> \<not> t |\<subseteq>| e"
proof -
  have "e |\<subseteq>| e |\<union>| t" by simp
  then have "fcard (e |\<union>| t) = fcard e \<longleftrightarrow> e |\<union>| t = e"
    by (metis fcard_seteq order_refl)
  also have "\<dots> \<longleftrightarrow> t |\<subseteq>| e" by (simp add: sup_absorb1 le_iff_sup sup_commute)
  finally show ?thesis by simp
qed

lemma or_merge_tags_iff:
  assumes "or_merge_tags b (a, c) = (m, d)"
  shows "fmlookup m k = (case fmlookup b k of None \<Rightarrow> fmlookup a k | Some t \<Rightarrow> Some (get_or {||} a k |\<union>| t))"
    and "d \<longleftrightarrow> c \<or> (\<exists>k t. fmlookup b k = Some t \<and> \<not> t |\<subseteq>| get_or {||} a k)"
proof -
  let ?e = "\<lambda>e. case e of None \<Rightarrow> {||} | Some e \<Rightarrow> e"
  note loop = for_entries_upd_flag [OF _ assms [unfolded or_merge_tags_def],
      where f = "\<lambda>e t. ?e e |\<union>| t" and g = "\<lambda>e t. \<not> t |\<subseteq>| ?e e"]
  show "fmlookup m k = (case fmlookup b k of None \<Rightarrow> fmlookup a k | Some t \<Rightarrow> Some (get_or {||} a k |\<union>| t))"
    by (subst loop(1)) (auto simp: Let_def fcard_union_neq_iff get_or_def entries_upd_def split: option.split)
  show "d \<longleftrightarrow> c \<or> (\<exists>k t. fmlookup b k = Some t \<and> \<not> t |\<subseteq>| get_or {||} a k)"
    by (subst loop(2)) (auto simp: Let_def fcard_union_neq_iff get_or_def)
qed


lemma or_eqI:
  "\<lbrakk>\<And>k. fmlookup (adds a) k = fmlookup (adds b) k; \<And>k. fmlookup (removes a) k = fmlookup (removes b) k;
    or_clock a = or_clock b\<rbrakk> \<Longrightarrow> a = (b :: 'a OrSet)"
  by (simp add: fmap_ext)

text \<open>What one merge does, as lookups.\<close>

lemma or_merge_lookup:
  shows "fmlookup (adds (merge_into or_merge a b)) k =
      (case fmlookup (adds b) k of None \<Rightarrow> fmlookup (adds a) k | Some t \<Rightarrow> Some (get_or {||} (adds a) k |\<union>| t))"
    and "fmlookup (removes (merge_into or_merge a b)) k =
      (case fmlookup (removes b) k of None \<Rightarrow> fmlookup (removes a) k
       | Some t \<Rightarrow> Some (get_or {||} (removes a) k |\<union>| t))"
    and "or_clock (merge_into or_merge a b) = vc_merge (or_clock a) (or_clock b)"
    and "snd (or_merge a b) \<longleftrightarrow>
        (\<exists>k t. fmlookup (adds b) k = Some t \<and> \<not> t |\<subseteq>| get_or {||} (adds a) k)
      \<or> (\<exists>k t. fmlookup (removes b) k = Some t \<and> \<not> t |\<subseteq>| get_or {||} (removes a) k)
      \<or> or_clock a \<noteq> vc_merge (or_clock a) (or_clock b)"
proof -
  obtain ma ca where a: "or_merge_tags (adds b) (adds a, False) = (ma, ca)" by force
  obtain mr cr where r: "or_merge_tags (removes b) (removes a, ca) = (mr, cr)" by force
  note unf = merge_into_def or_merge_def a r
  show "fmlookup (adds (merge_into or_merge a b)) k =
      (case fmlookup (adds b) k of None \<Rightarrow> fmlookup (adds a) k | Some t \<Rightarrow> Some (get_or {||} (adds a) k |\<union>| t))"
    using or_merge_tags_iff(1) [OF a] by (simp add: unf Let_def)
  show "fmlookup (removes (merge_into or_merge a b)) k =
      (case fmlookup (removes b) k of None \<Rightarrow> fmlookup (removes a) k
       | Some t \<Rightarrow> Some (get_or {||} (removes a) k |\<union>| t))"
    using or_merge_tags_iff(1) [OF r] by (simp add: unf Let_def)
  show "or_clock (merge_into or_merge a b) = vc_merge (or_clock a) (or_clock b)"
    by (simp add: unf Let_def)
  show "snd (or_merge a b) \<longleftrightarrow>
        (\<exists>k t. fmlookup (adds b) k = Some t \<and> \<not> t |\<subseteq>| get_or {||} (adds a) k)
      \<or> (\<exists>k t. fmlookup (removes b) k = Some t \<and> \<not> t |\<subseteq>| get_or {||} (removes a) k)
      \<or> or_clock a \<noteq> vc_merge (or_clock a) (or_clock b)"
  proof -
    have "snd (or_merge a b) \<longleftrightarrow> cr \<or> or_clock a \<noteq> vc_merge (or_clock a) (or_clock b)"
      by (simp add: unf Let_def)
    then show ?thesis
      by (simp only: or_merge_tags_iff(2) [OF a] or_merge_tags_iff(2) [OF r] simp_thms disj_assoc)
  qed
qed

lemma get_or_merge:
  "get_or {||} (adds (merge_into or_merge a b)) k = get_or {||} (adds a) k |\<union>| get_or {||} (adds b) k"
  "get_or {||} (removes (merge_into or_merge a b)) k = get_or {||} (removes a) k |\<union>| get_or {||} (removes b) k"
  by (simp_all add: get_or_def or_merge_lookup split: option.splits)

lemma or_contains_iff:
  "or_contains s e \<longleftrightarrow> (\<exists>t. t |\<in>| get_or {||} (adds s) e \<and> t |\<notin>| get_or {||} (removes s) e)"
proof -
  have "fcard (a |-| r) > 0 \<longleftrightarrow> (\<exists>t. t |\<in>| a \<and> t |\<notin>| r)" for a r :: "Tag fset"
  proof -
    have "fcard (a |-| r) > 0 \<longleftrightarrow> a |-| r \<noteq> {||}" by (metis fcard_0_eq neq0_conv)
    also have "\<dots> \<longleftrightarrow> (\<exists>t. t |\<in>| a |-| r)" by (metis ex_fin_conv)
    finally show ?thesis by simp
  qed
  then show ?thesis by (simp add: or_contains_def)
qed

interpretation or_set: crdt or_merge "\<lambda>_. True" or_causal_context
proof
  fix a b c :: "'a OrSet"
  show "merge_into or_merge a b = merge_into or_merge b a"
    by (rule or_eqI) (auto simp: or_merge_lookup get_or_def vc_merge_comm sup_commute split: option.splits)
  show "merge_into or_merge (merge_into or_merge a b) c = merge_into or_merge a (merge_into or_merge b c)"
    by (rule or_eqI) (auto simp: or_merge_lookup get_or_def vc_merge_assoc sup_assoc split: option.splits)
  show "merge_into or_merge a a = a"
    by (rule or_eqI) (auto simp: or_merge_lookup get_or_def split: option.splits)
  show "or_causal_context (merge_into or_merge a b) = vc_merge (or_causal_context a) (or_causal_context b)"
    by (simp add: or_causal_context_def or_merge_lookup)
  show "or_causal_context (merge_into or_merge a b) = or_causal_context a" if "\<not> snd (or_merge a b)"
    using that by (simp add: or_causal_context_def or_merge_lookup)
qed simp

section \<open>Well-formedness\<close>

text \<open>No element is recorded with an empty set of tags: every operation keeps this.\<close>

definition or_wf :: "'a OrSet \<Rightarrow> bool" where
  "or_wf s \<longleftrightarrow> {||} |\<notin>| fmran (adds s) \<and> {||} |\<notin>| fmran (removes s)"

lemma or_wf_iff:
  "or_wf s \<longleftrightarrow> (\<forall>k. fmlookup (adds s) k \<noteq> Some {||}) \<and> (\<forall>k. fmlookup (removes s) k \<noteq> Some {||})"
  by (auto simp: or_wf_def fmlookup_ran_iff)

lemma or_wf_new [simp]: "or_wf or_new"
  by (simp add: or_wf_iff or_new_def)

lemma or_wf_add: "or_wf s \<Longrightarrow> or_wf (or_add e t c s)"
  by (simp add: or_wf_iff or_add_def)

lemma or_wf_remove: "or_wf s \<Longrightarrow> or_wf (or_remove e t c s)"
  by (simp add: or_wf_iff or_remove_def)

lemma or_wf_merge: "or_wf a \<Longrightarrow> or_wf b \<Longrightarrow> or_wf (merge_into or_merge a b)"
  by (auto simp: or_wf_iff or_merge_lookup split: option.splits)

lemma tags_absorb:
  assumes "\<And>t. fmlookup b k = Some t \<Longrightarrow> t |\<subseteq>| get_or {||} a k" and "fmlookup b k \<noteq> Some {||}"
  shows "(case fmlookup b k of None \<Rightarrow> fmlookup a k | Some t \<Rightarrow> Some (get_or {||} a k |\<union>| t)) = fmlookup a k"
proof (cases "fmlookup b k")
  case None
  then show ?thesis by simp
next
  case (Some t)
  with assms have "t |\<subseteq>| get_or {||} a k" "t \<noteq> {||}" by auto
  with Some show ?thesis by (cases "fmlookup a k") (auto simp: get_or_def sup_absorb1)
qed

lemma set_or_elements: "set (or_elements s) = {e. or_contains s e}"
proof (rule set_eqI)
  fix e
  have "e \<in> set (or_elements s) \<longleftrightarrow>
      (\<exists>t. fmlookup (adds s) e = Some t \<and> 0 < fcard (t |-| get_or {||} (removes s) e))"
    by (force simp: or_elements_def Let_def set_sorted_list_of_fmap [symmetric])
  then show "e \<in> set (or_elements s) \<longleftrightarrow> e \<in> {e. or_contains s e}"
    by (simp add: or_contains_def get_or_def [of _ "adds s"] Let_def split: option.splits)
qed

section \<open>Properties\<close>

text \<open>
  OR-sets converge: replicas that start from the same state and merge in the same states
  end in the same state, whatever the order and however often each state was delivered.
\<close>

theorem or_set_convergence:
  assumes "set xs = set ys"
  shows "foldl (merge_into or_merge) s xs = foldl (merge_into or_merge) s ys"
  by (rule or_set.converge [OF _ _ assms]) simp_all

theorem or_set_convergence_witness:
  "foldl (merge_into or_merge) or_new [or_add (1::nat) \<lparr>tag_replica_id = 1, tag_lamport = 1\<rparr> vc_new or_new, or_new]
   = foldl (merge_into or_merge) or_new [or_new, or_add (1::nat) \<lparr>tag_replica_id = 1, tag_lamport = 1\<rparr> vc_new or_new, or_new]"
  by (rule or_set_convergence) auto

text \<open>
  Add wins: an element added under a tag that neither replica has removed is present
  after the merge, in both directions, even when the other replica has removed every tag of
  the element it had observed.
\<close>

theorem or_set_add_wins:
  assumes "tag |\<notin>| get_or {||} (removes a) e" and "tag |\<notin>| get_or {||} (removes b) e"
  shows "or_contains (merge_into or_merge a (or_add e tag clock b)) e
    \<and> or_contains (merge_into or_merge (or_add e tag clock b) a) e"
  using assms by (auto simp: or_contains_iff get_or_merge or_add_def)

theorem or_set_add_wins_witness:
  "or_contains (merge_into or_merge
      (or_remove (7::nat) \<lparr>tag_replica_id = 1, tag_lamport = 1\<rparr> vc_new
        (or_add 7 \<lparr>tag_replica_id = 1, tag_lamport = 1\<rparr> vc_new or_new))
      (or_add 7 \<lparr>tag_replica_id = 2, tag_lamport = 1\<rparr> vc_new or_new)) 7"
  using or_set_add_wins
    [of "\<lparr>tag_replica_id = 2, tag_lamport = 1\<rparr>"
      "or_remove 7 \<lparr>tag_replica_id = 1, tag_lamport = 1\<rparr> vc_new
        (or_add 7 \<lparr>tag_replica_id = 1, tag_lamport = 1\<rparr> vc_new or_new)" "7::nat" or_new vc_new]
  by (simp add: or_remove_def or_add_def or_new_def)

text \<open>
  Membership: \<open>contains\<close> after each operation is decided by the tags that are added and not
  removed, merging takes the union on both sides, and \<open>elements\<close> lists exactly the elements
  present, in ascending order and without repetition.
\<close>

theorem or_set_membership:
  "\<not> or_contains (or_new :: 'a::linorder OrSet) e
   \<and> (or_contains (or_add x tag clock s) e \<longleftrightarrow> or_contains s e \<or> e = x \<and> tag |\<notin>| get_or {||} (removes s) x)
   \<and> (or_contains (or_remove x tag clock s) e \<longleftrightarrow>
        (\<exists>t. t |\<in>| get_or {||} (adds s) e \<and> t |\<notin>| get_or {||} (removes s) e \<and> (t, e) \<noteq> (tag, x)))
   \<and> (or_contains (merge_into or_merge s s') e \<longleftrightarrow>
        (\<exists>t. (t |\<in>| get_or {||} (adds s) e \<or> t |\<in>| get_or {||} (adds s') e)
           \<and> t |\<notin>| get_or {||} (removes s) e \<and> t |\<notin>| get_or {||} (removes s') e))
   \<and> set (or_elements s) = {e. or_contains s e} \<and> sorted (or_elements s) \<and> distinct (or_elements s)"
proof (intro conjI)
  show "\<not> or_contains (or_new :: 'a OrSet) e" by (simp add: or_contains_iff or_new_def)
  show "or_contains (or_add x tag clock s) e \<longleftrightarrow> or_contains s e \<or> e = x \<and> tag |\<notin>| get_or {||} (removes s) x"
    by (auto simp: or_contains_iff or_add_def)
  show "or_contains (or_remove x tag clock s) e \<longleftrightarrow>
        (\<exists>t. t |\<in>| get_or {||} (adds s) e \<and> t |\<notin>| get_or {||} (removes s) e \<and> (t, e) \<noteq> (tag, x))"
    by (auto simp: or_contains_iff or_remove_def)
  show "or_contains (merge_into or_merge s s') e \<longleftrightarrow>
        (\<exists>t. (t |\<in>| get_or {||} (adds s) e \<or> t |\<in>| get_or {||} (adds s') e)
           \<and> t |\<notin>| get_or {||} (removes s) e \<and> t |\<notin>| get_or {||} (removes s') e)"
    by (auto simp: or_contains_iff get_or_merge)
  show "set (or_elements s) = {e. or_contains s e}" by (rule set_or_elements)
  have sub: "sorted (map fst (filter P xs)) \<and> distinct (map fst (filter P xs))"
    if "sorted (map fst xs)" "distinct (map fst xs)" for P and xs :: "('a \<times> Tag fset) list"
    using that by (induction xs) auto
  show "sorted (or_elements s)" "distinct (or_elements s)"
    using sub [of "sorted_list_of_fmap (adds s)"]
    by (simp_all add: or_elements_def map_fst_sorted_list_of_fmap sorted_list_of_fset.rep_eq)
qed

text \<open>
  The change flag of an OR-set merge is exact: on well-formed states (which every
  operation produces) \<open>merge\<close> returns \<open>true\<close> precisely when it changed the receiver.
\<close>

theorem or_set_changed_flag:
  assumes "or_wf b"
  shows "snd (or_merge a b) \<longleftrightarrow> merge_into or_merge a b \<noteq> a"
proof
  assume "snd (or_merge a b)"
  then consider (add) k t where "fmlookup (adds b) k = Some t" "\<not> t |\<subseteq>| get_or {||} (adds a) k"
    | (rem) k t where "fmlookup (removes b) k = Some t" "\<not> t |\<subseteq>| get_or {||} (removes a) k"
    | (clock) "or_clock a \<noteq> vc_merge (or_clock a) (or_clock b)"
    unfolding or_merge_lookup(4) by blast
  then show "merge_into or_merge a b \<noteq> a"
  proof cases
    case add
    then have "get_or {||} (adds (merge_into or_merge a b)) k \<noteq> get_or {||} (adds a) k"
      by (auto simp: get_or_merge get_or_def [of _ "adds b"])
    then show ?thesis by metis
  next
    case rem
    then have "get_or {||} (removes (merge_into or_merge a b)) k \<noteq> get_or {||} (removes a) k"
      by (auto simp: get_or_merge get_or_def [of _ "removes b"])
    then show ?thesis by metis
  next
    case clock
    then show ?thesis by (metis or_merge_lookup(3))
  qed
next
  assume neq: "merge_into or_merge a b \<noteq> a"
  show "snd (or_merge a b)"
  proof (rule ccontr)
    assume "\<not> snd (or_merge a b)"
    then have sub: "\<And>k t. fmlookup (adds b) k = Some t \<Longrightarrow> t |\<subseteq>| get_or {||} (adds a) k"
        "\<And>k t. fmlookup (removes b) k = Some t \<Longrightarrow> t |\<subseteq>| get_or {||} (removes a) k"
      and clock: "or_clock a = vc_merge (or_clock a) (or_clock b)"
      unfolding or_merge_lookup(4) by blast+
    have "merge_into or_merge a b = a"
    proof (rule or_eqI)
      fix k
      show "fmlookup (adds (merge_into or_merge a b)) k = fmlookup (adds a) k"
        using sub(1) assms by (simp add: or_merge_lookup or_wf_iff tags_absorb)
      show "fmlookup (removes (merge_into or_merge a b)) k = fmlookup (removes a) k"
        using sub(2) assms by (simp add: or_merge_lookup or_wf_iff tags_absorb)
      show "or_clock (merge_into or_merge a b) = or_clock a" using clock by (simp add: or_merge_lookup)
    qed
    with neq show False ..
  qed
qed

theorem or_set_changed_flag_witness:
  "snd (or_merge or_new (or_add (3::nat) \<lparr>tag_replica_id = 1, tag_lamport = 1\<rparr> vc_new or_new))
   = (merge_into or_merge or_new (or_add (3::nat) \<lparr>tag_replica_id = 1, tag_lamport = 1\<rparr> vc_new or_new) \<noteq> or_new)"
  by (rule or_set_changed_flag) (simp add: or_wf_add)

end
