(* ===== verification/Crdt_Pn_Counter.thy ===== *)
theory Crdt_Pn_Counter
  imports Crdt_Core
begin

text \<open>
  The increment/decrement counter (\<open>crates/synchronization/crdt/src/pn_counter.rs\<close>). The counts
  are \<open>u64\<close> and the value is an \<open>i64\<close>: all sums are taken at their width, and the properties
  state the bounds within which the machine value is the mathematical one.
\<close>

section \<open>State and operations\<close>

record PnCounter =
  pn_inc :: "(ReplicaId, u64) fmap"
  pn_dec :: "(ReplicaId, u64) fmap"
  pn_clock :: VectorClock

definition pn_new :: PnCounter where
  "pn_new = \<lparr>pn_inc = fmempty, pn_dec = fmempty, pn_clock = vc_new\<rparr>"

definition pn_increment :: "ReplicaId \<Rightarrow> u64 \<Rightarrow> VectorClock \<Rightarrow> PnCounter \<Rightarrow> PnCounter" where
  "pn_increment replica n clock s =
     s\<lparr>pn_inc := fmupd replica (get_or 0 (pn_inc s) replica + n) (pn_inc s),
       pn_clock := vc_merge (pn_clock s) clock\<rparr>"

definition pn_decrement :: "ReplicaId \<Rightarrow> u64 \<Rightarrow> VectorClock \<Rightarrow> PnCounter \<Rightarrow> PnCounter" where
  "pn_decrement replica n clock s =
     s\<lparr>pn_dec := fmupd replica (get_or 0 (pn_dec s) replica + n) (pn_dec s),
       pn_clock := vc_merge (pn_clock s) clock\<rparr>"

text \<open>\<open>map.values().sum()\<close> on \<open>u64\<close>.\<close>

definition values_sum :: "(ReplicaId, u64) fmap \<Rightarrow> u64" where
  "values_sum m = fold (\<lambda>(_, c) acc. acc + c) (sorted_list_of_fmap m) 0"

text \<open>\<open>(inc_sum as i64) - (dec_sum as i64)\<close>, read as a signed number.\<close>

definition pn_value :: "PnCounter \<Rightarrow> int" where
  "pn_value s = sint (values_sum (pn_inc s) - values_sum (pn_dec s))"

definition pn_causal_context :: "PnCounter \<Rightarrow> VectorClock" where
  "pn_causal_context s = pn_clock s"

definition pn_merge_counts :: "(ReplicaId, u64) fmap \<Rightarrow> (ReplicaId, u64) fmap \<times> bool \<Rightarrow> (ReplicaId, u64) fmap \<times> bool" where
  "pn_merge_counts other =
     for_entries (\<lambda>replica count (self, changed).
       let entry = get_or 0 self replica
       in if entry < count then (fmupd replica count self, True)
          else (fmupd replica entry self, changed)) other"

definition pn_merge :: "PnCounter \<Rightarrow> PnCounter \<Rightarrow> PnCounter \<times> bool" where
  "pn_merge s other =
     (let (inc', changed) = pn_merge_counts (pn_inc other) (pn_inc s, False);
          (dec', changed) = pn_merge_counts (pn_dec other) (pn_dec s, changed);
          new_clock = vc_merge (pn_clock s) (pn_clock other);
          s' = s\<lparr>pn_inc := inc', pn_dec := dec'\<rparr>
      in if pn_clock s \<noteq> new_clock then (s'\<lparr>pn_clock := new_clock\<rparr>, True) else (s', changed))"

section \<open>The merge loop in closed form\<close>

lemma pn_merge_counts_iff:
  assumes "pn_merge_counts b (a, c) = (m, d)"
  shows "fmlookup m k = (case fmlookup b k of None \<Rightarrow> fmlookup a k | Some n \<Rightarrow> Some (max (get_or 0 a k) n))"
    and "d \<longleftrightarrow> c \<or> (\<exists>k. get_or 0 a k < get_or 0 b k)"
proof -
  let ?e = "\<lambda>e. case e of None \<Rightarrow> 0 | Some e \<Rightarrow> e"
  note loop = for_entries_upd_flag [OF _ assms [unfolded pn_merge_counts_def],
      where f = "\<lambda>e n. max (?e e) n" and g = "\<lambda>e n. ?e e < n"]
  show "fmlookup m k = (case fmlookup b k of None \<Rightarrow> fmlookup a k | Some n \<Rightarrow> Some (max (get_or 0 a k) n))"
    by (subst loop(1)) (auto simp: Let_def get_or_def entries_upd_def max_def not_less split: option.split)
  have "d \<longleftrightarrow> c \<or> (\<exists>k n. fmlookup b k = Some n \<and> get_or 0 a k < n)"
    by (subst loop(2)) (auto simp: Let_def get_or_def max_def not_less split: option.splits)
  also have "(\<exists>k n. fmlookup b k = Some n \<and> get_or 0 a k < n) \<longleftrightarrow> (\<exists>k. get_or 0 a k < get_or 0 b k)"
  proof -
    have "(\<exists>n. fmlookup b k = Some n \<and> get_or 0 a k < n) \<longleftrightarrow> get_or 0 a k < get_or 0 b k" for k
      by (auto simp: get_or_def [of _ b] split: option.splits)
    then show ?thesis by simp
  qed
  finally show "d \<longleftrightarrow> c \<or> (\<exists>k. get_or 0 a k < get_or 0 b k)" .
qed

lemma pn_eqI:
  "\<lbrakk>\<And>k. fmlookup (pn_inc a) k = fmlookup (pn_inc b) k; \<And>k. fmlookup (pn_dec a) k = fmlookup (pn_dec b) k;
    pn_clock a = pn_clock b\<rbrakk> \<Longrightarrow> a = (b :: PnCounter)"
  by (simp add: fmap_ext)

lemma pn_merge_lookup:
  shows "fmlookup (pn_inc (merge_into pn_merge a b)) k =
      (case fmlookup (pn_inc b) k of None \<Rightarrow> fmlookup (pn_inc a) k | Some n \<Rightarrow> Some (max (get_or 0 (pn_inc a) k) n))"
    and "fmlookup (pn_dec (merge_into pn_merge a b)) k =
      (case fmlookup (pn_dec b) k of None \<Rightarrow> fmlookup (pn_dec a) k | Some n \<Rightarrow> Some (max (get_or 0 (pn_dec a) k) n))"
    and "pn_clock (merge_into pn_merge a b) = vc_merge (pn_clock a) (pn_clock b)"
    and "snd (pn_merge a b) \<longleftrightarrow>
        (\<exists>k. get_or 0 (pn_inc a) k < get_or 0 (pn_inc b) k) \<or> (\<exists>k. get_or 0 (pn_dec a) k < get_or 0 (pn_dec b) k)
      \<or> pn_clock a \<noteq> vc_merge (pn_clock a) (pn_clock b)"
proof -
  obtain mi ci where i: "pn_merge_counts (pn_inc b) (pn_inc a, False) = (mi, ci)" by force
  obtain md cd where d: "pn_merge_counts (pn_dec b) (pn_dec a, ci) = (md, cd)" by force
  note unf = merge_into_def pn_merge_def i d
  show "fmlookup (pn_inc (merge_into pn_merge a b)) k =
      (case fmlookup (pn_inc b) k of None \<Rightarrow> fmlookup (pn_inc a) k | Some n \<Rightarrow> Some (max (get_or 0 (pn_inc a) k) n))"
    using pn_merge_counts_iff(1) [OF i] by (simp add: unf Let_def)
  show "fmlookup (pn_dec (merge_into pn_merge a b)) k =
      (case fmlookup (pn_dec b) k of None \<Rightarrow> fmlookup (pn_dec a) k | Some n \<Rightarrow> Some (max (get_or 0 (pn_dec a) k) n))"
    using pn_merge_counts_iff(1) [OF d] by (simp add: unf Let_def)
  show "pn_clock (merge_into pn_merge a b) = vc_merge (pn_clock a) (pn_clock b)"
    by (simp add: unf Let_def)
  have "snd (pn_merge a b) \<longleftrightarrow> cd \<or> pn_clock a \<noteq> vc_merge (pn_clock a) (pn_clock b)"
    by (simp add: unf Let_def)
  then show "snd (pn_merge a b) \<longleftrightarrow>
        (\<exists>k. get_or 0 (pn_inc a) k < get_or 0 (pn_inc b) k) \<or> (\<exists>k. get_or 0 (pn_dec a) k < get_or 0 (pn_dec b) k)
      \<or> pn_clock a \<noteq> vc_merge (pn_clock a) (pn_clock b)"
    by (simp only: pn_merge_counts_iff(2) [OF i] pn_merge_counts_iff(2) [OF d] simp_thms disj_assoc)
qed

lemma pn_get_merge:
  "get_or 0 (pn_inc (merge_into pn_merge a b)) k = max (get_or 0 (pn_inc a) k) (get_or 0 (pn_inc b) k)"
  "get_or 0 (pn_dec (merge_into pn_merge a b)) k = max (get_or 0 (pn_dec a) k) (get_or 0 (pn_dec b) k)"
  by (simp_all add: get_or_def pn_merge_lookup split: option.splits)

interpretation pn: crdt pn_merge "\<lambda>_. True" pn_causal_context
proof
  fix a b c :: PnCounter
  show "merge_into pn_merge a b = merge_into pn_merge b a"
    by (rule pn_eqI) (auto simp: pn_merge_lookup get_or_def vc_merge_comm max.commute split: option.splits)
  show "merge_into pn_merge (merge_into pn_merge a b) c = merge_into pn_merge a (merge_into pn_merge b c)"
    by (rule pn_eqI) (auto simp: pn_merge_lookup get_or_def vc_merge_assoc max.assoc split: option.splits)
  show "merge_into pn_merge a a = a"
    by (rule pn_eqI) (auto simp: pn_merge_lookup get_or_def split: option.splits)
  show "pn_causal_context (merge_into pn_merge a b) = vc_merge (pn_causal_context a) (pn_causal_context b)"
    by (simp add: pn_causal_context_def pn_merge_lookup)
  show "pn_causal_context (merge_into pn_merge a b) = pn_causal_context a" if "\<not> snd (pn_merge a b)"
    using that by (simp add: pn_causal_context_def pn_merge_lookup)
qed simp

section \<open>The value\<close>

text \<open>The mathematical total of a count map.\<close>

definition count_total :: "(ReplicaId, u64) fmap \<Rightarrow> nat" where
  "count_total m = (\<Sum>r \<in> fset (fmdom m). unat (get_or 0 m r))"

lemma count_total_empty [simp]: "count_total fmempty = 0"
  by (simp add: count_total_def)

lemma count_total_any:
  assumes "finite S" and "fset (fmdom m) \<subseteq> S"
  shows "count_total m = (\<Sum>r \<in> S. unat (get_or 0 m r))"
  unfolding count_total_def
  by (rule sum.mono_neutral_left [OF assms]) (auto simp: get_or_zero_notin)

lemma count_total_upd: "count_total (fmupd r c m) + unat (get_or 0 m r) = count_total m + unat c"
proof -
  let ?S = "insert r (fset (fmdom m))"
  have m: "count_total m = (\<Sum>x \<in> ?S. unat (get_or 0 m x))"
    by (rule count_total_any) auto
  have u: "count_total (fmupd r c m) = (\<Sum>x \<in> ?S. unat (get_or 0 (fmupd r c m) x))"
    by (rule count_total_any) auto
  have fin: "finite ?S" by simp
  have rest: "(\<Sum>x \<in> ?S - {r}. unat (get_or 0 (fmupd r c m) x)) = (\<Sum>x \<in> ?S - {r}. unat (get_or 0 m x))"
    by (rule sum.cong) auto
  show ?thesis
    using sum.remove [OF fin, of r "\<lambda>x. unat (get_or 0 m x)"]
      sum.remove [OF fin, of r "\<lambda>x. unat (get_or 0 (fmupd r c m) x)"] rest
    by (simp add: m u)
qed

lemma fold_sum_list: "fold (\<lambda>(_, c) acc. acc + c) xs (a :: u64) = a + sum_list (map snd xs)"
  by (induction xs arbitrary: a) (auto simp: algebra_simps)

lemma unat_sum_list: "unat (sum_list (xs :: u64 list)) = sum_list (map unat xs) mod 2 ^ 64"
  by (induction xs) (simp_all add: unat_word_ariths mod_add_right_eq)

lemma unat_values_sum: "unat (values_sum m) = count_total m mod 2 ^ 64"
proof -
  have "sum_list (map (unat \<circ> snd) (sorted_list_of_fmap m))
      = sum_list (map (\<lambda>r. unat (get_or 0 m r)) (sorted_list_of_fset (fmdom m)))"
    unfolding sorted_list_of_fmap_def
    by (rule arg_cong [where f = sum_list])
      (auto simp: comp_def get_or_def sorted_list_of_fset.rep_eq fmlookup_dom_iff)
  also have "\<dots> = count_total m"
    by (simp add: count_total_def sorted_list_of_fset.rep_eq sum_list_distinct_conv_sum_set)
  finally show ?thesis
    by (simp add: values_sum_def fold_sum_list unat_sum_list)
qed

lemma sint_diff_of_nat:
  assumes "p < 2 ^ 63" and "q < 2 ^ 63"
  shows "sint (word_of_nat p - word_of_nat q :: u64) = int p - int q"
proof -
  have "word_of_nat p - word_of_nat q = (word_of_int (int p - int q) :: u64)" by simp
  then have "sint (word_of_nat p - word_of_nat q :: u64) = signed_take_bit 63 (int p - int q)"
    by (simp only: sint_sbintrunc') simp
  also have "\<dots> = int p - int q"
    using assms by (intro signed_take_bit_int_eq_self) simp_all
  finally show ?thesis .
qed

lemma pn_value_total:
  assumes "count_total (pn_inc s) < 2 ^ 63" and "count_total (pn_dec s) < 2 ^ 63"
  shows "pn_value s = int (count_total (pn_inc s)) - int (count_total (pn_dec s))"
proof -
  have "values_sum m = word_of_nat (count_total m)" if "count_total m < 2 ^ 63" for m
    using that by (intro word_unat_eq_iff [THEN iffD2]) (simp add: unat_values_sum unat_of_nat)
  with assms show ?thesis by (simp add: pn_value_def sint_diff_of_nat)
qed

section \<open>Properties\<close>

text \<open>
  PN-counters converge: replicas that merge in the same states, in any order and with any
  repetitions, hold the same counter and report the same value.
\<close>

theorem pn_counter_convergence:
  assumes "set xs = set ys"
  shows "foldl (merge_into pn_merge) s xs = foldl (merge_into pn_merge) s ys
    \<and> pn_value (foldl (merge_into pn_merge) s xs) = pn_value (foldl (merge_into pn_merge) s ys)"
  using pn.converge [OF _ _ assms, of s] by simp

theorem pn_counter_convergence_witness:
  "pn_value (foldl (merge_into pn_merge) pn_new [pn_increment 1 5 vc_new pn_new, pn_decrement 2 3 vc_new pn_new])
   = pn_value (foldl (merge_into pn_merge) pn_new [pn_decrement 2 3 vc_new pn_new, pn_increment 1 5 vc_new pn_new])"
  using pn_counter_convergence
    [of "[pn_increment 1 5 vc_new pn_new, pn_decrement 2 3 vc_new pn_new]"
        "[pn_decrement 2 3 vc_new pn_new, pn_increment 1 5 vc_new pn_new]" pn_new] by auto

text \<open>
  C40. Counting: while the totals stay below \<open>2^63\<close>, the \<open>i64\<close> value is the exact difference of
  all increments and decrements, an increment by \<open>n\<close> raises it by \<open>n\<close>, a decrement lowers it by
  \<open>n\<close>, and neither the \<open>u64\<close> counters nor the signed subtraction wrap.
\<close>

theorem pn_counter_counts:
  assumes "count_total (pn_inc s) + unat n < 2 ^ 63" and "count_total (pn_dec s) + unat n < 2 ^ 63"
  shows "pn_value s = int (count_total (pn_inc s)) - int (count_total (pn_dec s))
    \<and> pn_value (pn_increment r n c s) = pn_value s + int (unat n)
    \<and> pn_value (pn_decrement r n c s) = pn_value s - int (unat n)"
proof -
  have step: "count_total (fmupd r (get_or 0 m r + n) m) = count_total m + unat n"
    if "count_total m + unat n < 2 ^ 63" for m
  proof -
    have "unat (get_or 0 m r) \<le> count_total m" using count_total_upd [of r 0 m] by simp
    with that have "unat (get_or 0 m r + n) = unat (get_or 0 m r) + unat n"
      by (intro unat_add_u64_le) simp
    with count_total_upd [of r "get_or 0 m r + n" m] show ?thesis by simp
  qed
  from assms have *: "pn_value s = int (count_total (pn_inc s)) - int (count_total (pn_dec s))"
    by (intro pn_value_total) simp_all
  have "pn_value (pn_increment r n c s) = int (count_total (pn_inc s) + unat n) - int (count_total (pn_dec s))"
    using assms by (subst pn_value_total) (simp_all add: pn_increment_def step)
  moreover have "pn_value (pn_decrement r n c s) = int (count_total (pn_inc s)) - int (count_total (pn_dec s) + unat n)"
    using assms by (subst pn_value_total) (simp_all add: pn_decrement_def step)
  ultimately show ?thesis using * by simp
qed

theorem pn_counter_counts_witness:
  "pn_value (pn_increment 9 5 vc_new pn_new) = 5 \<and> pn_value (pn_decrement 9 5 vc_new pn_new) = - 5"
  using pn_counter_counts [of pn_new 5 9 vc_new] by (simp add: pn_new_def)

text \<open>
  Concurrent counting is not lost: when two replicas start from a common state and count
  under their own identifiers, the merge has both contributions.
\<close>

theorem pn_counter_concurrent_increments:
  assumes "r1 \<noteq> r2" and "count_total (pn_inc s) + unat n1 + unat n2 < 2 ^ 63" and "count_total (pn_dec s) < 2 ^ 63"
  shows "pn_value (merge_into pn_merge (pn_increment r1 n1 c1 s) (pn_increment r2 n2 c2 s))
    = pn_value s + int (unat n1) + int (unat n2)"
proof -
  let ?a = "pn_increment r1 n1 c1 s" and ?b = "pn_increment r2 n2 c2 s"
  let ?m = "pn_inc s"
  have le: "unat (get_or 0 m r) \<le> count_total m" for m r using count_total_upd [of r 0 m] by simp
  have u1: "unat (get_or 0 ?m r1 + n1) = unat (get_or 0 ?m r1) + unat n1"
    using le [of ?m r1] assms(2) by (intro unat_add_u64_le) simp
  have u2: "unat (get_or 0 ?m r2 + n2) = unat (get_or 0 ?m r2) + unat n2"
    using le [of ?m r2] assms(2) by (intro unat_add_u64_le) simp
  have inc: "pn_inc (merge_into pn_merge ?a ?b)
      = fmupd r2 (get_or 0 ?m r2 + n2) (fmupd r1 (get_or 0 ?m r1 + n1) ?m)"
  proof (rule fmap_ext)
    fix k
    have grow: "get_or 0 ?m r1 \<le> get_or 0 ?m r1 + n1" "get_or 0 ?m r2 \<le> get_or 0 ?m r2 + n2"
      using u1 u2 by (simp_all add: word_le_nat_alt)
    show "fmlookup (pn_inc (merge_into pn_merge ?a ?b)) k
        = fmlookup (fmupd r2 (get_or 0 ?m r2 + n2) (fmupd r1 (get_or 0 ?m r1 + n1) ?m)) k"
      using grow assms(1)
      by (cases "fmlookup ?m k") (auto simp: pn_merge_lookup pn_increment_def get_or_def max_def)
  qed
  have dec: "pn_dec (merge_into pn_merge ?a ?b) = pn_dec s"
    by (rule fmap_ext) (auto simp: pn_merge_lookup pn_increment_def get_or_def split: option.splits)
  have tot: "count_total (pn_inc (merge_into pn_merge ?a ?b)) = count_total ?m + unat n1 + unat n2"
    using count_total_upd [of r2 "get_or 0 ?m r2 + n2" "fmupd r1 (get_or 0 ?m r1 + n1) ?m"]
      count_total_upd [of r1 "get_or 0 ?m r1 + n1" ?m] u1 u2 assms(1)
    by (simp add: inc)
  show ?thesis
    using assms tot by (simp add: pn_value_total dec)
qed

theorem pn_counter_concurrent_increments_witness:
  "pn_value (merge_into pn_merge (pn_increment 1 4 vc_new pn_new) (pn_increment 2 6 vc_new pn_new)) = 10"
  using pn_counter_concurrent_increments [of 1 2 pn_new 4 6 vc_new vc_new]
  by (simp add: pn_new_def pn_value_total)

end
