(* ===== verification/Crdt_Registers.thy ===== *)
theory Crdt_Registers
  imports Crdt_Core
begin

text \<open>
  The last-writer-wins register, the multi-value register and the append-only log
  (\<open>lww_register.rs\<close>, \<open>mv_register.rs\<close>, \<open>append_only_log.rs\<close> under
  \<open>crates/synchronization/crdt/src\<close>).

  Their merges rest on writes being identified by a timestamp and replica, or by a vector
  clock: the state predicates below say that the registers stem from one history of writes in
  which such an identifier names one value. \<open>sort_unstable_by\<close> is modelled by a stable sort;
  on the states of one history no two keys are equal, so every sort gives the same vector.
\<close>

section \<open>Last writer wins\<close>

record 'v LwwRegister =
  lww_value :: 'v
  lww_timestamp :: Timestamp
  lww_replica_id :: ReplicaId
  lww_clock :: VectorClock

text \<open>\<open>now\<close> is what \<open>Timestamp::now()\<close> returns at the call.\<close>

definition lww_new :: "Timestamp \<Rightarrow> 'v \<Rightarrow> ReplicaId \<Rightarrow> 'v LwwRegister" where
  "lww_new now value replica_id =
     \<lparr>lww_value = value, lww_timestamp = now, lww_replica_id = replica_id, lww_clock = vc_new\<rparr>"

definition lww_set :: "'v \<Rightarrow> Timestamp \<Rightarrow> ReplicaId \<Rightarrow> VectorClock \<Rightarrow> 'v LwwRegister \<Rightarrow> 'v LwwRegister" where
  "lww_set value ts replica clock s =
     (let s' = (if ts > lww_timestamp s \<or> ts = lww_timestamp s \<and> replica > lww_replica_id s
                then s\<lparr>lww_value := value, lww_timestamp := ts, lww_replica_id := replica\<rparr> else s)
      in s'\<lparr>lww_clock := vc_merge (lww_clock s') clock\<rparr>)"

definition lww_get :: "'v LwwRegister \<Rightarrow> 'v" where
  "lww_get s = lww_value s"

definition lww_causal_context :: "'v LwwRegister \<Rightarrow> VectorClock" where
  "lww_causal_context s = lww_clock s"

definition lww_merge :: "'v LwwRegister \<Rightarrow> 'v LwwRegister \<Rightarrow> 'v LwwRegister \<times> bool" where
  "lww_merge s other =
     (let (s', changed) =
        (if lww_timestamp other > lww_timestamp s
            \<or> lww_timestamp other = lww_timestamp s \<and> lww_replica_id other > lww_replica_id s
         then let (s1, changed) =
                (if lww_value s \<noteq> lww_value other then (s\<lparr>lww_value := lww_value other\<rparr>, True) else (s, False))
              in (s1\<lparr>lww_timestamp := lww_timestamp other, lww_replica_id := lww_replica_id other\<rparr>, changed)
         else (s, False));
        new_clock = vc_merge (lww_clock s) (lww_clock other)
      in if lww_clock s \<noteq> new_clock then (s'\<lparr>lww_clock := new_clock\<rparr>, True) else (s', changed))"

text \<open>The stamp that decides between two writes, compared lexicographically.\<close>

definition lww_stamp :: "'v LwwRegister \<Rightarrow> Timestamp \<times> ReplicaId" where
  "lww_stamp s = (lww_timestamp s, lww_replica_id s)"

definition lww_ok :: "(Timestamp \<times> ReplicaId \<Rightarrow> 'v) \<Rightarrow> 'v LwwRegister \<Rightarrow> bool" where
  "lww_ok h s \<longleftrightarrow> lww_value s = h (lww_stamp s)"

lemma lww_merge_eq:
  "merge_into lww_merge a b =
     (if lww_stamp a < lww_stamp b then b else a)\<lparr>lww_clock := vc_merge (lww_clock a) (lww_clock b)\<rparr>"
  by (cases a, cases b) (auto simp: merge_into_def lww_merge_def lww_stamp_def Let_def)

lemma lww_changed_iff:
  "snd (lww_merge a b) \<longleftrightarrow>
     lww_stamp a < lww_stamp b \<and> lww_value a \<noteq> lww_value b \<or> lww_clock a \<noteq> vc_merge (lww_clock a) (lww_clock b)"
  by (auto simp: lww_merge_def lww_stamp_def Let_def)

lemma lww_stamp_merge: "lww_stamp (merge_into lww_merge a b) = max (lww_stamp a) (lww_stamp b)"
  by (auto simp: lww_merge_eq lww_stamp_def max_def)

lemma lww_eqI:
  assumes "lww_ok h a" and "lww_ok h b" and "lww_stamp a = lww_stamp b" and "lww_clock a = lww_clock b"
  shows "a = b"
  using assms by (cases a, cases b) (simp add: lww_ok_def lww_stamp_def)

lemma lww_ok_merge: "lww_ok h a \<Longrightarrow> lww_ok h b \<Longrightarrow> lww_ok h (merge_into lww_merge a b)"
  by (simp add: lww_merge_eq lww_ok_def lww_stamp_def)

lemma lww_clock_merge: "lww_clock (merge_into lww_merge a b) = vc_merge (lww_clock a) (lww_clock b)"
  by (simp add: lww_merge_eq)

interpretation lww: crdt lww_merge "lww_ok h" lww_causal_context for h
proof
  fix a b c :: "'a LwwRegister"
  assume a: "lww_ok h a"
  show "merge_into lww_merge a a = a"
    by (rule lww_eqI [OF lww_ok_merge [OF a a] a]) (simp_all add: lww_stamp_merge lww_clock_merge)
  assume b: "lww_ok h b"
  show "lww_ok h (merge_into lww_merge a b)" by (rule lww_ok_merge [OF a b])
  show "merge_into lww_merge a b = merge_into lww_merge b a"
    by (rule lww_eqI [OF lww_ok_merge [OF a b] lww_ok_merge [OF b a]])
      (simp_all add: lww_stamp_merge lww_clock_merge max.commute vc_merge_comm)
  assume c: "lww_ok h c"
  show "merge_into lww_merge (merge_into lww_merge a b) c = merge_into lww_merge a (merge_into lww_merge b c)"
    by (rule lww_eqI [OF lww_ok_merge [OF lww_ok_merge [OF a b] c] lww_ok_merge [OF a lww_ok_merge [OF b c]]])
      (simp_all add: lww_stamp_merge lww_clock_merge max.assoc vc_merge_assoc)
qed (simp_all add: lww_causal_context_def lww_clock_merge lww_changed_iff)

section \<open>Multi-value register\<close>

record 'v MvRegister =
  mv_values :: "(VectorClock \<times> 'v) list"
  mv_clock :: VectorClock

definition mv_canonicalize :: "'v MvRegister \<Rightarrow> 'v MvRegister" where
  "mv_canonicalize s = s\<lparr>mv_values := sort_key (\<lambda>p. clock_key (fst p)) (mv_values s)\<rparr>"

definition mv_new :: "'v \<Rightarrow> ReplicaId \<Rightarrow> 'v MvRegister" where
  "mv_new value replica =
     (let clock = vc_increment replica vc_new in \<lparr>mv_values = [(clock, value)], mv_clock = clock\<rparr>)"

definition mv_set :: "'v \<Rightarrow> VectorClock \<Rightarrow> 'v MvRegister \<Rightarrow> 'v MvRegister" where
  "mv_set value clock s =
     (let s = (if \<not> (\<exists>p \<in> set (mv_values s). fst p = clock)
               then s\<lparr>mv_values := mv_values s @ [(clock, value)]\<rparr> else s)
      in mv_canonicalize (s\<lparr>mv_clock := vc_merge (mv_clock s) clock\<rparr>))"

definition mv_get_all :: "'v MvRegister \<Rightarrow> (VectorClock \<times> 'v) list" where
  "mv_get_all s = map (\<lambda>(vc, v). (vc, v)) (mv_values s)"

definition mv_get_single :: "'v MvRegister \<Rightarrow> 'v option" where
  "mv_get_single s = (case mv_values s of [(_, v)] \<Rightarrow> Some v | _ \<Rightarrow> None)"

definition mv_has_conflict :: "'v MvRegister \<Rightarrow> bool" where
  "mv_has_conflict s \<longleftrightarrow> length (mv_values s) > 1"

definition mv_causal_context :: "'v MvRegister \<Rightarrow> VectorClock" where
  "mv_causal_context s = mv_clock s"

definition mv_merge :: "'v MvRegister \<Rightarrow> 'v MvRegister \<Rightarrow> 'v MvRegister \<times> bool" where
  "mv_merge s other =
     (let (values, changed) = push_missing fst (mv_values other) (mv_values s, False);
          new_clock = vc_merge (mv_clock s) (mv_clock other);
          (clock, changed) = (if mv_clock s \<noteq> new_clock then (new_clock, True) else (mv_clock s, changed))
      in (mv_canonicalize (s\<lparr>mv_values := values, mv_clock := clock\<rparr>), changed))"

text \<open>\<open>h\<close> gives the value written under each clock.\<close>

definition mv_ok :: "(VectorClock \<Rightarrow> 'v) \<Rightarrow> 'v MvRegister \<Rightarrow> bool" where
  "mv_ok h s \<longleftrightarrow> keyed fst clock_key (\<lambda>c. (c, h c)) (mv_values s)"

lemma mv_merge_parts:
  shows "mv_values (merge_into mv_merge a b) = keyed_merge fst clock_key (mv_values a) (mv_values b)"
    and "mv_clock (merge_into mv_merge a b) = vc_merge (mv_clock a) (mv_clock b)"
    and "\<not> snd (mv_merge a b) \<Longrightarrow> vc_merge (mv_clock a) (mv_clock b) = mv_clock a"
  by (auto simp: merge_into_def mv_merge_def mv_canonicalize_def keyed_merge_def Let_def split: prod.splits if_splits)

interpretation mv: crdt mv_merge "mv_ok h" mv_causal_context for h :: "VectorClock \<Rightarrow> 'v"
proof -
  note k = keyed_convergent [OF inj_clock_key, of fst "\<lambda>c. (c, h c)"]
  have eqI: "a = b" if "mv_values a = mv_values b" "mv_clock a = mv_clock b" for a b :: "'v MvRegister"
    using that by simp
  show "crdt mv_merge (mv_ok h) mv_causal_context"
  proof
    fix a b c :: "'v MvRegister"
    assume a: "mv_ok h a"
    then show "merge_into mv_merge a a = a"
      by (intro eqI) (simp_all add: mv_merge_parts convergent_merge.mrg_idem [OF k] mv_ok_def)
    assume b: "mv_ok h b"
    from a b show "mv_ok h (merge_into mv_merge a b)"
      by (simp add: mv_ok_def mv_merge_parts convergent_merge.ok_mrg [OF k])
    from a b show "merge_into mv_merge a b = merge_into mv_merge b a"
      by (intro eqI) (simp_all add: mv_merge_parts mv_ok_def vc_merge_comm convergent_merge.mrg_comm [OF k])
    assume "mv_ok h c"
    with a b show "merge_into mv_merge (merge_into mv_merge a b) c = merge_into mv_merge a (merge_into mv_merge b c)"
      by (intro eqI) (simp_all add: mv_merge_parts mv_ok_def vc_merge_assoc convergent_merge.mrg_assoc [OF k])
  qed (simp_all add: mv_causal_context_def mv_merge_parts)
qed

section \<open>Append-only log\<close>

record 'e LogEntry =
  log_entry :: 'e
  log_entry_clock :: VectorClock

record 'e AppendOnlyLog =
  log_entries :: "'e LogEntry list"
  log_clock :: VectorClock

definition log_canonicalize :: "'e AppendOnlyLog \<Rightarrow> 'e AppendOnlyLog" where
  "log_canonicalize s = s\<lparr>log_entries := sort_key (\<lambda>e. clock_key (log_entry_clock e)) (log_entries s)\<rparr>"

definition log_new :: "'e AppendOnlyLog" where
  "log_new = \<lparr>log_entries = [], log_clock = vc_new\<rparr>"

definition log_append :: "'e \<Rightarrow> VectorClock \<Rightarrow> 'e AppendOnlyLog \<Rightarrow> 'e AppendOnlyLog" where
  "log_append entry clock s =
     log_canonicalize
       (s\<lparr>log_entries := log_entries s @ [\<lparr>log_entry = entry, log_entry_clock = clock\<rparr>],
          log_clock := vc_merge (log_clock s) clock\<rparr>)"

definition log_merge_entries :: "'e AppendOnlyLog \<Rightarrow> 'e AppendOnlyLog \<Rightarrow> 'e AppendOnlyLog \<times> bool" where
  "log_merge_entries s other =
     (let (entries, changed) = push_missing log_entry_clock (log_entries other) (log_entries s, False);
          new_clock = vc_merge (log_clock s) (log_clock other);
          (clock, changed) = (if log_clock s \<noteq> new_clock then (new_clock, True) else (log_clock s, changed))
      in (log_canonicalize (s\<lparr>log_entries := entries, log_clock := clock\<rparr>), changed))"

text \<open>\<open>h\<close> gives the value logged under each clock.\<close>

definition log_ok :: "(VectorClock \<Rightarrow> 'e) \<Rightarrow> 'e AppendOnlyLog \<Rightarrow> bool" where
  "log_ok h s \<longleftrightarrow>
     keyed log_entry_clock clock_key (\<lambda>c. \<lparr>log_entry = h c, log_entry_clock = c\<rparr>) (log_entries s)"

lemma log_merge_parts:
  shows "log_entries (merge_into log_merge_entries a b)
      = keyed_merge log_entry_clock clock_key (log_entries a) (log_entries b)"
    and "log_clock (merge_into log_merge_entries a b) = vc_merge (log_clock a) (log_clock b)"
    and "\<not> snd (log_merge_entries a b) \<Longrightarrow> vc_merge (log_clock a) (log_clock b) = log_clock a"
  by (auto simp: merge_into_def log_merge_entries_def log_canonicalize_def keyed_merge_def Let_def
      split: prod.splits if_splits)

text \<open>The log does not implement the \<open>Crdt\<close> trait, but its merge meets the same contract.\<close>

interpretation log: convergent_merge "merge_into log_merge_entries" "log_ok h" for h :: "VectorClock \<Rightarrow> 'e"
proof -
  note k = keyed_convergent [OF inj_clock_key, of log_entry_clock "\<lambda>c. \<lparr>log_entry = h c, log_entry_clock = c\<rparr>"]
  have eqI: "a = b" if "log_entries a = log_entries b" "log_clock a = log_clock b" for a b :: "'e AppendOnlyLog"
    using that by simp
  show "convergent_merge (merge_into log_merge_entries) (log_ok h)"
  proof
    fix a b c :: "'e AppendOnlyLog"
    assume a: "log_ok h a"
    then show "merge_into log_merge_entries a a = a"
      by (intro eqI) (simp_all add: log_merge_parts convergent_merge.mrg_idem [OF k] log_ok_def)
    assume b: "log_ok h b"
    from a b show "log_ok h (merge_into log_merge_entries a b)"
      by (simp add: log_ok_def log_merge_parts convergent_merge.ok_mrg [OF k])
    from a b show "merge_into log_merge_entries a b = merge_into log_merge_entries b a"
      by (intro eqI) (simp_all add: log_merge_parts log_ok_def vc_merge_comm convergent_merge.mrg_comm [OF k])
    assume "log_ok h c"
    with a b show "merge_into log_merge_entries (merge_into log_merge_entries a b) c
        = merge_into log_merge_entries a (merge_into log_merge_entries b c)"
      by (intro eqI) (simp_all add: log_merge_parts log_ok_def vc_merge_assoc convergent_merge.mrg_assoc [OF k])
  qed
qed

section \<open>Properties\<close>

text \<open>
  Last-writer-wins registers converge whenever a timestamp and replica identify one write:
  replicas that merge in the same registers agree, and the value they agree on is the one
  written under the lexicographically greatest pair of timestamp and replica.
\<close>

theorem lww_convergence:
  assumes "lww_ok h s" and "\<forall>x \<in> set xs. lww_ok h x" and "set xs = set ys"
  shows "foldl (merge_into lww_merge) s xs = foldl (merge_into lww_merge) s ys
    \<and> lww_get (foldl (merge_into lww_merge) s xs) = h (Max (insert (lww_stamp s) (lww_stamp ` set xs)))"
proof
  show "foldl (merge_into lww_merge) s xs = foldl (merge_into lww_merge) s ys"
    by (rule lww.converge [OF assms])
  have "lww_stamp (foldl (merge_into lww_merge) s xs) = Max (insert (lww_stamp s) (lww_stamp ` set xs))"
  proof (induction xs rule: rev_induct)
    case Nil
    then show ?case by simp
  next
    case (snoc x xs)
    have "insert (lww_stamp s) (lww_stamp ` set (xs @ [x]))
        = insert (lww_stamp x) (insert (lww_stamp s) (lww_stamp ` set xs))" by auto
    then show ?case by (simp add: lww_stamp_merge snoc.IH max.commute del: Max_insert) (subst Max_insert, auto)
  qed
  moreover have "lww_ok h (foldl (merge_into lww_merge) s xs)" using assms by (simp add: lww.ok_foldl)
  ultimately show "lww_get (foldl (merge_into lww_merge) s xs) = h (Max (insert (lww_stamp s) (lww_stamp ` set xs)))"
    by (simp add: lww_get_def lww_ok_def)
qed

theorem lww_convergence_witness:
  "lww_get (foldl (merge_into lww_merge) (lww_new 5 ''a'' 1) [lww_new 5 ''b'' 2, lww_new 4 ''c'' 3])
    = (if Max (insert (5, 1) {(5, 2), (4, 3)}) = (5 :: u64, 2 :: ReplicaId) then ''b'' else ''x'')"
  using lww_convergence
    [of "\<lambda>k. if k = (5, 1) then ''a'' else if k = (5, 2) then ''b'' else if k = (4, 3) then ''c'' else ''x''"
      "lww_new 5 ''a'' 1" "[lww_new 5 ''b'' 2, lww_new 4 ''c'' 3]" "[lww_new 4 ''c'' 3, lww_new 5 ''b'' 2]"]
  by (auto simp: lww_ok_def lww_new_def lww_stamp_def insert_commute)

text \<open>
  The change flag of a last-writer-wins merge reports a changed value or a changed clock,
  and nothing else: a merge that only advances the winning timestamp or replica leaves a
  different register behind and returns \<open>false\<close>.
\<close>

theorem lww_changed_flag:
  "(\<not> snd (lww_merge a b) \<longleftrightarrow>
      lww_value (merge_into lww_merge a b) = lww_value a \<and> lww_clock (merge_into lww_merge a b) = lww_clock a)
   \<and> (\<exists>r r' :: 'v LwwRegister. \<not> snd (lww_merge r r') \<and> merge_into lww_merge r r' \<noteq> r)"
proof
  show "\<not> snd (lww_merge a b) \<longleftrightarrow>
      lww_value (merge_into lww_merge a b) = lww_value a \<and> lww_clock (merge_into lww_merge a b) = lww_clock a"
    by (auto simp: lww_changed_iff lww_merge_eq)
  have "\<not> snd (lww_merge (lww_new 0 v 0) (lww_new 1 v 0))
      \<and> merge_into lww_merge (lww_new 0 v 0) (lww_new 1 v 0) \<noteq> lww_new 0 v 0" for v :: 'v
    by (simp add: lww_changed_iff lww_merge_eq lww_new_def lww_stamp_def)
  then show "\<exists>r r' :: 'v LwwRegister. \<not> snd (lww_merge r r') \<and> merge_into lww_merge r r' \<noteq> r" by blast
qed

text \<open>
  Multi-value registers converge and lose nothing: when a clock identifies one write,
  replicas that merge in the same registers agree, and every version any of them had is still
  there; two versions under different clocks are reported as a conflict and no single value is
  offered.
\<close>

theorem mv_convergence:
  assumes "mv_ok h s" and "\<forall>x \<in> set xs. mv_ok h x" and "set xs = set ys"
  shows "foldl (merge_into mv_merge) s xs = foldl (merge_into mv_merge) s ys
    \<and> set (mv_get_all (foldl (merge_into mv_merge) s xs)) = set (mv_values s) \<union> (\<Union>x \<in> set xs. set (mv_values x))
    \<and> (\<forall>c1 v1 c2 v2. (c1, v1) \<in> set (mv_get_all (foldl (merge_into mv_merge) s xs))
         \<and> (c2, v2) \<in> set (mv_get_all (foldl (merge_into mv_merge) s xs)) \<and> c1 \<noteq> c2
         \<longrightarrow> mv_has_conflict (foldl (merge_into mv_merge) s xs) \<and> mv_get_single (foldl (merge_into mv_merge) s xs) = None)"
proof (intro conjI allI impI)
  let ?R = "foldl (merge_into mv_merge) s xs"
  show "?R = foldl (merge_into mv_merge) s ys" by (rule mv.converge [OF assms])
  have "set (mv_values ?R) = set (mv_values s) \<union> (\<Union>x \<in> set xs. set (mv_values x))"
    using assms(1,2)
  proof (induction xs arbitrary: s)
    case Nil
    then show ?case by simp
  next
    case (Cons x xs)
    then have "set (mv_values (merge_into mv_merge s x)) = set (mv_values s) \<union> set (mv_values x)"
      by (simp add: mv_merge_parts mv_ok_def set_keyed_merge)
    with Cons show ?case by (simp add: mv.ok_mrg Un_assoc)
  qed
  then show "set (mv_get_all ?R) = set (mv_values s) \<union> (\<Union>x \<in> set xs. set (mv_values x))"
    by (simp add: mv_get_all_def)
  fix c1 v1 c2 v2
  assume two: "(c1, v1) \<in> set (mv_get_all ?R) \<and> (c2, v2) \<in> set (mv_get_all ?R) \<and> c1 \<noteq> c2"
  then obtain x y zs where "mv_values ?R = x # y # zs"
    by (cases "mv_values ?R" rule: remdups_adj.cases) (auto simp: mv_get_all_def)
  then show "mv_has_conflict ?R" and "mv_get_single ?R = None"
    by (simp_all add: mv_has_conflict_def mv_get_single_def split: prod.split)
qed

theorem mv_convergence_witness:
  "foldl (merge_into mv_merge) (mv_new (10::nat) 1) [mv_new 20 2]
   = foldl (merge_into mv_merge) (mv_new 10 1) [mv_new 20 2, mv_new 20 2]"
proof -
  let ?h = "\<lambda>c. if c = vc_increment 1 vc_new then 10 else (20::nat)"
  have "vc_increment 2 vc_new \<noteq> vc_increment 1 vc_new"
    by code_simp
  then have "mv_ok ?h (mv_new 10 1)" and "mv_ok ?h (mv_new 20 2)"
    by (simp_all add: mv_ok_def keyed_def mv_new_def Let_def)
  with mv_convergence [of ?h "mv_new 10 1" "[mv_new 20 2]" "[mv_new 20 2, mv_new 20 2]"] show ?thesis by simp
qed

text \<open>
  A multi-value register also keeps versions that were overwritten: setting a new value
  under a fresh clock adds a version whatever its causal relation to the present ones, so a
  strictly later write to a register with one value is reported as a conflict.
\<close>

theorem mv_set_keeps_dominated_versions:
  assumes "mv_values s = [(c, v)]" and "vc_compare c c' = Before"
  shows "mv_has_conflict (mv_set v' c' s) \<and> mv_get_single (mv_set v' c' s) = None
    \<and> set (mv_get_all (mv_set v' c' s)) = {(c, v), (c', v')}"
proof -
  have "c \<noteq> c'" using assms(2) by (auto simp: vc_compare_le)
  then have vals: "mv_values (mv_set v' c' s) = sort_key (\<lambda>p. clock_key (fst p)) [(c, v), (c', v')]"
    using assms(1) by (simp add: mv_set_def mv_canonicalize_def Let_def)
  then have len: "length (mv_values (mv_set v' c' s)) = 2" by simp
  then obtain x y where xy: "mv_values (mv_set v' c' s) = [x, y]"
    by (auto simp: numeral_2_eq_2 length_Suc_conv)
  have "set (mv_values (mv_set v' c' s)) = {(c, v), (c', v')}" by (subst vals, subst set_sort) auto
  with xy show ?thesis
    by (auto simp: mv_has_conflict_def mv_get_single_def mv_get_all_def split: prod.split)
qed

theorem mv_set_keeps_dominated_versions_witness:
  "mv_has_conflict (mv_set ''new'' (vc_increment 1 (vc_increment 1 vc_new)) (mv_new ''old'' 1))"
proof -
  have "vc_compare (vc_increment 1 vc_new) (vc_increment 1 (vc_increment 1 vc_new)) = Before"
    by code_simp
  with mv_set_keeps_dominated_versions [of "mv_new ''old'' 1" "vc_increment 1 vc_new" "''old''"
      "vc_increment 1 (vc_increment 1 vc_new)" "''new''"]
  show ?thesis by (simp add: mv_new_def Let_def)
qed

text \<open>
  Logs converge and keep every entry: when a clock identifies one entry, merging the same
  logs in any order gives the same vector, which holds exactly the entries of all of them, in
  ascending order of their clocks, and appending under a new clock adds exactly one entry.
\<close>

theorem log_convergence:
  assumes "log_ok h s" and "\<forall>x \<in> set xs. log_ok h x" and "set xs = set ys" and "c \<notin> log_entry_clock ` set (log_entries s)"
  shows "foldl (merge_into log_merge_entries) s xs = foldl (merge_into log_merge_entries) s ys
    \<and> set (log_entries (foldl (merge_into log_merge_entries) s xs))
        = set (log_entries s) \<union> (\<Union>x \<in> set xs. set (log_entries x))
    \<and> log_ok h (log_append (h c) c s)
    \<and> set (log_entries (log_append (h c) c s)) = insert \<lparr>log_entry = h c, log_entry_clock = c\<rparr> (set (log_entries s))"
proof (intro conjI)
  show "foldl (merge_into log_merge_entries) s xs = foldl (merge_into log_merge_entries) s ys"
    by (rule log.converge [OF assms(1-3)])
  show "set (log_entries (foldl (merge_into log_merge_entries) s xs))
      = set (log_entries s) \<union> (\<Union>x \<in> set xs. set (log_entries x))"
    using assms(1,2)
  proof (induction xs arbitrary: s)
    case Nil
    then show ?case by simp
  next
    case (Cons x xs)
    then have "set (log_entries (merge_into log_merge_entries s x)) = set (log_entries s) \<union> set (log_entries x)"
      by (simp add: log_merge_parts log_ok_def set_keyed_merge)
    with Cons show ?case by (simp add: log.ok_mrg Un_assoc)
  qed
  show "log_ok h (log_append (h c) c s)"
  proof -
    have "\<lparr>log_entry = h c, log_entry_clock = c\<rparr> \<notin> set (log_entries s)" using assms(4) by force
    with assms(1,4) show ?thesis
      by (auto simp: log_ok_def keyed_def log_append_def log_canonicalize_def distinct_map)
  qed
  show "set (log_entries (log_append (h c) c s)) = insert \<lparr>log_entry = h c, log_entry_clock = c\<rparr> (set (log_entries s))"
    by (simp add: log_append_def log_canonicalize_def)
qed

theorem log_convergence_witness:
  "log_ok (\<lambda>_. ''e'') (log_append ''e'' vc_new log_new)
   \<and> foldl (merge_into log_merge_entries) log_new [log_append ''e'' vc_new log_new, log_new]
     = foldl (merge_into log_merge_entries) log_new [log_new, log_append ''e'' vc_new log_new]"
proof -
  have "log_ok (\<lambda>_. ''e'') log_new" "log_ok (\<lambda>_. ''e'') (log_append ''e'' vc_new log_new)"
    by (simp_all add: log_ok_def keyed_def log_new_def log_append_def log_canonicalize_def)
  with log_convergence [of "\<lambda>_. ''e''" log_new "[log_append ''e'' vc_new log_new, log_new]"
      "[log_new, log_append ''e'' vc_new log_new]" vc_new]
  show ?thesis by (auto simp: log_new_def)
qed

end
