(* ===== verification/Crdt_Rga.thy ===== *)
theory Crdt_Rga
  imports Crdt_Core
begin

text \<open>
  The replicated growable array (\<open>crates/synchronization/crdt/src/rga.rs\<close>): a vector of atoms,
  each naming its parent, that is read out by a depth-first walk from the root sentinel.
\<close>

section \<open>State\<close>

text \<open>The derived order on \<open>ElementId\<close> compares the fields in their order.\<close>

datatype ElementId = ElementId (eid_replica: ReplicaId) (eid_lamport: u64)

instantiation ElementId :: linorder
begin

definition less_eq_ElementId :: "ElementId \<Rightarrow> ElementId \<Rightarrow> bool" where
  "less_eq_ElementId a b \<longleftrightarrow> (eid_replica a, eid_lamport a) \<le> (eid_replica b, eid_lamport b)"

definition less_ElementId :: "ElementId \<Rightarrow> ElementId \<Rightarrow> bool" where
  "less_ElementId a b \<longleftrightarrow> (eid_replica a, eid_lamport a) < (eid_replica b, eid_lamport b)"

instance
  by standard (auto simp: less_eq_ElementId_def less_ElementId_def ElementId.expand)

end

record 'e Atom =
  atom_id :: ElementId
  atom_parent :: ElementId
  atom_value :: "'e option"
  is_tombstone :: bool
  atom_clock :: VectorClock

record 'e Rga =
  rga_atoms :: "'e Atom list"
  rga_clock :: VectorClock
  rga_summary_clock :: VectorClock

definition ElementId_root :: ElementId where
  "ElementId_root = ElementId 0 0"

section \<open>Operations\<close>

definition rga_new :: "'e Rga" where
  "rga_new = \<lparr>rga_atoms = [], rga_clock = vc_new, rga_summary_clock = vc_new\<rparr>"

definition rga_insert_after ::
    "ElementId \<Rightarrow> 'e \<Rightarrow> VectorClock \<Rightarrow> ReplicaId \<Rightarrow> 'e Rga \<Rightarrow> 'e Rga \<times> ElementId" where
  "rga_insert_after parent value clock local_replica s =
     (let self_clock = vc_increment local_replica (vc_merge (rga_clock s) clock);
          id = ElementId local_replica (vc_get self_clock local_replica);
          atoms = rga_atoms s @ [\<lparr>atom_id = id, atom_parent = parent, atom_value = Some value,
                                   is_tombstone = False, atom_clock = clock\<rparr>]
      in (s\<lparr>rga_clock := self_clock, rga_atoms := sort_key atom_id atoms\<rparr>, id))"

definition atom_delete :: "VectorClock \<Rightarrow> 'e Atom \<Rightarrow> 'e Atom" where
  "atom_delete clock atom =
     atom\<lparr>is_tombstone := True, atom_value := None, atom_clock := vc_merge (atom_clock atom) clock\<rparr>"

text \<open>The loop over the atoms, left at the first atom that is live and has the identifier.\<close>

fun rga_delete_loop :: "ElementId \<Rightarrow> VectorClock \<Rightarrow> 'e Atom list \<Rightarrow> 'e Atom list" where
  "rga_delete_loop i clock [] = []"
| "rga_delete_loop i clock (atom # atoms) =
     (if atom_id atom = i \<and> \<not> is_tombstone atom then atom_delete clock atom # atoms
      else atom # rga_delete_loop i clock atoms)"

definition rga_delete :: "ElementId \<Rightarrow> VectorClock \<Rightarrow> 'e Rga \<Rightarrow> 'e Rga" where
  "rga_delete i clock s =
     s\<lparr>rga_atoms := rga_delete_loop i clock (rga_atoms s), rga_clock := vc_merge (rga_clock s) clock\<rparr>"

definition rga_children_of :: "'e Atom list \<Rightarrow> ElementId \<Rightarrow> ElementId list" where
  "rga_children_of atoms parent = sort (map atom_id (filter (\<lambda>atom. atom_parent atom = parent) atoms))"

text \<open>\<^verbatim>\<open>for child in children.into_iter().rev() { stack.push(child); }\<close>, the top of the stack first.\<close>

definition push_children :: "ElementId list \<Rightarrow> ElementId list \<Rightarrow> ElementId list" where
  "push_children children stack = fold (\<lambda>child st. child # st) (rev children) stack"

lemma push_children_append: "push_children children stack = children @ stack"
  by (simp add: push_children_def fold_Cons_rev)

lemma find_atom_id: "find (\<lambda>atom. atom_id atom = i) atoms = Some a \<Longrightarrow> a \<in> set atoms \<and> atom_id a = i"
  by (auto simp: find_Some_iff)

text \<open>
  The \<open>while let Some(id) = stack.pop()\<close> loop of \<open>to_vec\<close>. Every round either shortens the stack or
  visits an atom that was not visited before, so the loop ends.
\<close>

function rga_to_vec_loop :: "'e Atom list \<Rightarrow> ElementId set \<Rightarrow> ElementId list \<Rightarrow> 'e list \<Rightarrow> 'e list" where
  "rga_to_vec_loop atoms visited [] result = result"
| "rga_to_vec_loop atoms visited (i # stack) result =
     (if i \<in> visited then rga_to_vec_loop atoms visited stack result
      else case find (\<lambda>atom. atom_id atom = i) atoms of
        None \<Rightarrow> rga_to_vec_loop atoms (insert i visited) stack result
      | Some atom \<Rightarrow>
          rga_to_vec_loop atoms (insert i visited) (push_children (rga_children_of atoms i) stack)
            (case atom_value atom of Some value \<Rightarrow> result @ [value] | None \<Rightarrow> result))"
  by pat_completeness auto

lemma walk_measure_stay:
  "i \<notin> set (map atom_id atoms)
    \<Longrightarrow> card (set (map atom_id atoms) - insert i visited) = card (set (map atom_id atoms) - visited)"
  by (simp add: Diff_insert0)

lemma walk_measure_less:
  assumes "find (\<lambda>atom. atom_id atom = i) atoms = Some a" and "i \<notin> visited"
  shows "card (set (map atom_id atoms) - insert i visited) < card (set (map atom_id atoms) - visited)"
proof (rule psubset_card_mono)
  have "i \<in> set (map atom_id atoms)" using find_atom_id [OF assms(1)] by auto
  with assms(2) show "set (map atom_id atoms) - insert i visited \<subset> set (map atom_id atoms) - visited"
    by auto
qed simp

lemma find_None_atom_id: "find (\<lambda>atom. atom_id atom = i) atoms = None \<Longrightarrow> i \<notin> set (map atom_id atoms)"
  by (auto simp: find_None_iff)

termination rga_to_vec_loop
  by (relation "measures [\<lambda>(atoms, visited, stack, result). card (set (map atom_id atoms) - visited),
                          \<lambda>(atoms, visited, stack, result). length stack]")
    (simp, simp, simp add: walk_measure_stay [OF find_None_atom_id] del: set_map,
      simp add: walk_measure_less del: set_map)

definition rga_to_vec :: "'e Rga \<Rightarrow> 'e list" where
  "rga_to_vec s =
     rga_to_vec_loop (rga_atoms s) {} (push_children (rga_children_of (rga_atoms s) ElementId_root) []) []"

definition rga_causal_context :: "'e Rga \<Rightarrow> VectorClock" where
  "rga_causal_context s = rga_clock s"

text \<open>The existing atom takes over a tombstone of the incoming one.\<close>

definition atom_absorb :: "'e Atom \<Rightarrow> 'e Atom \<Rightarrow> 'e Atom" where
  "atom_absorb existing atom =
     (if is_tombstone atom \<and> \<not> is_tombstone existing then atom_delete (atom_clock atom) existing else existing)"

text \<open>\<open>iter_mut().find(..)\<close>: the first atom with the identifier is updated in place.\<close>

fun update_first :: "ElementId \<Rightarrow> ('e Atom \<Rightarrow> 'e Atom) \<Rightarrow> 'e Atom list \<Rightarrow> 'e Atom list" where
  "update_first i f [] = []"
| "update_first i f (a # atoms) = (if atom_id a = i then f a # atoms else a # update_first i f atoms)"

fun rga_merge_loop :: "'e Atom list \<Rightarrow> 'e Atom list \<times> bool \<Rightarrow> 'e Atom list \<times> bool" where
  "rga_merge_loop [] acc = acc"
| "rga_merge_loop (atom # other) (self, changed) =
     rga_merge_loop other
       (case find (\<lambda>a. atom_id a = atom_id atom) self of
          None \<Rightarrow> (self @ [atom], True)
        | Some existing \<Rightarrow>
            (update_first (atom_id atom) (\<lambda>e. atom_absorb e atom) self,
             if is_tombstone atom \<and> \<not> is_tombstone existing then True else changed))"

definition rga_merge :: "'e Rga \<Rightarrow> 'e Rga \<Rightarrow> 'e Rga \<times> bool" where
  "rga_merge s other =
     (let (atoms, changed) = rga_merge_loop (rga_atoms other) (rga_atoms s, False);
          new_clock = vc_merge (rga_clock s) (rga_clock other);
          (clock, changed) = (if rga_clock s \<noteq> new_clock then (new_clock, True) else (rga_clock s, changed));
          new_summary = vc_merge (rga_summary_clock s) (rga_summary_clock other);
          (summary, changed) =
            (if rga_summary_clock s \<noteq> new_summary then (new_summary, True) else (rga_summary_clock s, changed))
      in (\<lparr>rga_atoms = sort_key atom_id atoms, rga_clock = clock, rga_summary_clock = summary\<rparr>, changed))"

section \<open>Looking atoms up\<close>

definition atom_at :: "'e Atom list \<Rightarrow> ElementId \<Rightarrow> 'e Atom option" where
  "atom_at atoms i = find (\<lambda>a. atom_id a = i) atoms"

abbreviation distinct_ids :: "'e Atom list \<Rightarrow> bool" where
  "distinct_ids atoms \<equiv> distinct (map atom_id atoms)"

lemma atom_at_Nil [simp]: "atom_at [] i = None"
  by (simp add: atom_at_def)

lemma atom_at_Cons [simp]: "atom_at (a # atoms) i = (if atom_id a = i then Some a else atom_at atoms i)"
  by (simp add: atom_at_def)

lemma atom_at_append [simp]:
  "atom_at (xs @ ys) i = (case atom_at xs i of None \<Rightarrow> atom_at ys i | Some a \<Rightarrow> Some a)"
  by (induction xs) auto

lemma atom_at_None_iff: "atom_at atoms i = None \<longleftrightarrow> i \<notin> atom_id ` set atoms"
  by (induction atoms) auto

lemma atom_at_Some_iff: "distinct_ids atoms \<Longrightarrow> atom_at atoms i = Some a \<longleftrightarrow> a \<in> set atoms \<and> atom_id a = i"
  by (induction atoms) auto

lemma atom_at_set:
  assumes "distinct_ids xs" and "distinct_ids ys" and "set xs = set ys"
  shows "atom_at xs = atom_at ys"
proof
  fix i show "atom_at xs i = atom_at ys i"
  proof (cases "atom_at xs i")
    case None
    then show ?thesis using assms(3) by (metis atom_at_None_iff)
  next
    case (Some a)
    then show ?thesis using assms by (metis atom_at_Some_iff)
  qed
qed

lemma distinct_ids_sort: "distinct_ids (sort_key atom_id xs) = distinct_ids xs"
  by (simp add: distinct_map)

lemma atom_at_sort [simp]: "distinct_ids xs \<Longrightarrow> atom_at (sort_key atom_id xs) = atom_at xs"
  by (rule atom_at_set) (simp_all add: distinct_ids_sort)

lemma atoms_eqI:
  assumes "distinct_ids xs" "distinct_ids ys" "sorted (map atom_id xs)" "sorted (map atom_id ys)"
    and "\<And>i. atom_at xs i = atom_at ys i"
  shows "xs = ys"
proof -
  have "a \<in> set xs \<longleftrightarrow> a \<in> set ys" for a
    using assms(5) [of "atom_id a"] atom_at_Some_iff [OF assms(1)] atom_at_Some_iff [OF assms(2)] by metis
  then have "sort_key atom_id xs = sort_key atom_id ys"
    by (intro sort_key_determined [OF assms(1,2)]) auto
  with assms(3,4) show ?thesis by (simp add: sort_key_same)
qed

lemma update_first_ids: "(\<And>a. atom_id (f a) = atom_id a) \<Longrightarrow> map atom_id (update_first i f xs) = map atom_id xs"
  by (induction xs) auto

lemma atom_at_update_first:
  "(\<And>a. atom_id (f a) = atom_id a)
    \<Longrightarrow> atom_at (update_first j f xs) i = (if i = j then map_option f (atom_at xs i) else atom_at xs i)"
  by (induction xs) auto

lemma atom_id_absorb [simp]: "atom_id (atom_absorb a b) = atom_id a"
  by (simp add: atom_absorb_def atom_delete_def)

text \<open>The merge loop in closed form: union of the atoms, tombstones win.\<close>

lemma rga_merge_loop_at:
  assumes "rga_merge_loop ys (xs, c) = (zs, d)" and "distinct_ids xs" and "distinct_ids ys"
  shows "distinct_ids zs
    \<and> (\<forall>i. atom_at zs i = (case atom_at xs i of None \<Rightarrow> atom_at ys i
         | Some a \<Rightarrow> Some (case atom_at ys i of None \<Rightarrow> a | Some b \<Rightarrow> atom_absorb a b)))"
  using assms
proof (induction ys arbitrary: xs c)
  case Nil
  then show ?case by (simp split: option.split)
next
  case (Cons y ys)
  let ?i = "atom_id y"
  have ys: "distinct_ids ys" "atom_at ys ?i = None" using Cons.prems(3) by (simp_all add: atom_at_None_iff)
  show ?case
  proof (cases "atom_at xs ?i")
    case None
    then have dist: "distinct_ids (xs @ [y])" using Cons.prems(2) by (simp add: atom_at_None_iff)
    have "rga_merge_loop ys (xs @ [y], True) = (zs, d)"
      using Cons.prems(1) None by (simp add: atom_at_def)
    from Cons.IH [OF this dist ys(1)] None ys show ?thesis
      by (auto split: option.splits)
  next
    case (Some a)
    let ?xs = "update_first ?i (\<lambda>e. atom_absorb e y) xs"
    from Cons.prems(1) Some obtain c' where "rga_merge_loop ys (?xs, c') = (zs, d)"
      by (simp add: atom_at_def)
    moreover have "distinct_ids ?xs" using Cons.prems(2) by (simp add: update_first_ids)
    ultimately have "distinct_ids zs \<and> (\<forall>i. atom_at zs i = (case atom_at ?xs i of None \<Rightarrow> atom_at ys i
         | Some a \<Rightarrow> Some (case atom_at ys i of None \<Rightarrow> a | Some b \<Rightarrow> atom_absorb a b)))"
      by (rule Cons.IH [OF _ _ ys(1)])
    with Some ys show ?thesis by (auto simp: atom_at_update_first split: option.splits)
  qed
qed

lemma rga_merge_at:
  assumes "distinct_ids (rga_atoms a)" and "distinct_ids (rga_atoms b)"
  shows "distinct_ids (rga_atoms (merge_into rga_merge a b))"
    and "sorted (map atom_id (rga_atoms (merge_into rga_merge a b)))"
    and "atom_at (rga_atoms (merge_into rga_merge a b)) i =
      (case atom_at (rga_atoms a) i of None \<Rightarrow> atom_at (rga_atoms b) i
       | Some x \<Rightarrow> Some (case atom_at (rga_atoms b) i of None \<Rightarrow> x | Some y \<Rightarrow> atom_absorb x y))"
proof -
  obtain zs d where loop: "rga_merge_loop (rga_atoms b) (rga_atoms a, False) = (zs, d)" by force
  have atoms: "rga_atoms (merge_into rga_merge a b) = sort_key atom_id zs"
    by (simp add: merge_into_def rga_merge_def loop Let_def)
  note m = rga_merge_loop_at [OF loop assms]
  then show "distinct_ids (rga_atoms (merge_into rga_merge a b))" by (simp add: atoms distinct_ids_sort)
  show "sorted (map atom_id (rga_atoms (merge_into rga_merge a b)))" by (simp add: atoms)
  from m show "atom_at (rga_atoms (merge_into rga_merge a b)) i =
      (case atom_at (rga_atoms a) i of None \<Rightarrow> atom_at (rga_atoms b) i
       | Some x \<Rightarrow> Some (case atom_at (rga_atoms b) i of None \<Rightarrow> x | Some y \<Rightarrow> atom_absorb x y))"
    by (simp add: atoms)
qed

lemma rga_merge_clocks:
  "rga_clock (merge_into rga_merge a b) = vc_merge (rga_clock a) (rga_clock b)"
  "rga_summary_clock (merge_into rga_merge a b) = vc_merge (rga_summary_clock a) (rga_summary_clock b)"
  by (simp_all add: merge_into_def rga_merge_def Let_def split: prod.split)

section \<open>Sequences over one history of insertions\<close>

text \<open>
  \<open>h\<close> gives the parent and the value each identifier was inserted with. The only thing two
  replicas may know differently about an atom is whether it has been deleted, and the clock
  attached to it.
\<close>

definition rga_ok :: "(ElementId \<Rightarrow> ElementId \<times> 'e) \<Rightarrow> 'e Rga \<Rightarrow> bool" where
  "rga_ok h s \<longleftrightarrow> distinct_ids (rga_atoms s) \<and> sorted (map atom_id (rga_atoms s))
     \<and> (\<forall>a \<in> set (rga_atoms s). atom_parent a = fst (h (atom_id a))
          \<and> atom_value a = (if is_tombstone a then None else Some (snd (h (atom_id a)))))"

text \<open>What a reader can see of an atom: everything but its clock.\<close>

definition atom_erase :: "'e Atom \<Rightarrow> 'e Atom" where
  "atom_erase a = a\<lparr>atom_clock := vc_new\<rparr>"

definition rga_erase :: "'e Rga \<Rightarrow> 'e Rga" where
  "rga_erase s = s\<lparr>rga_atoms := map atom_erase (rga_atoms s)\<rparr>"

definition rga_status :: "'e Rga \<Rightarrow> ElementId \<Rightarrow> bool option" where
  "rga_status s i = map_option is_tombstone (atom_at (rga_atoms s) i)"

lemma atom_erase_simps [simp]:
  "atom_id (atom_erase a) = atom_id a" "atom_parent (atom_erase a) = atom_parent a"
  "atom_value (atom_erase a) = atom_value a" "is_tombstone (atom_erase a) = is_tombstone a"
  "atom_erase (atom_erase a) = atom_erase a"
  by (simp_all add: atom_erase_def)

lemma atom_at_erase [simp]: "atom_at (map atom_erase xs) i = map_option atom_erase (atom_at xs i)"
  by (induction xs) auto

lemma rga_erase_simps [simp]:
  "rga_clock (rga_erase s) = rga_clock s" "rga_summary_clock (rga_erase s) = rga_summary_clock s"
  "rga_status (rga_erase s) = rga_status s" "rga_erase (rga_erase s) = rga_erase s"
  "rga_ok h (rga_erase s) = rga_ok h s"
  by (auto simp: rga_erase_def rga_status_def rga_ok_def comp_def option.map_comp fun_eq_iff)

lemma rga_erase_eqI:
  assumes a: "rga_ok h a" and b: "rga_ok h b" and st: "\<And>i. rga_status a i = rga_status b i"
    and "rga_clock a = rga_clock b" "rga_summary_clock a = rga_summary_clock b"
  shows "rga_erase a = rga_erase b"
proof -
  have atom: "atom_erase x = \<lparr>atom_id = i, atom_parent = fst (h i),
      atom_value = (if is_tombstone x then None else Some (snd (h i))), is_tombstone = is_tombstone x, atom_clock = vc_new\<rparr>"
    if "rga_ok h s" "atom_at (rga_atoms s) i = Some x" for s :: "'a Rga" and i x
    using that by (cases x) (auto simp: rga_ok_def atom_at_Some_iff atom_erase_def)
  have "map atom_erase (rga_atoms a) = map atom_erase (rga_atoms b)"
  proof (rule atoms_eqI)
    fix i
    show "atom_at (map atom_erase (rga_atoms a)) i = atom_at (map atom_erase (rga_atoms b)) i"
      using st [of i] atom [OF a, of i] atom [OF b, of i]
      by (cases "atom_at (rga_atoms a) i"; cases "atom_at (rga_atoms b) i") (auto simp: rga_status_def)
  qed (use a b in \<open>simp_all add: rga_ok_def comp_def\<close>)
  with assms(4,5) show ?thesis by (simp add: rga_erase_def)
qed

text \<open>The knowledge about an atom is joined: known on either side, deleted on either side.\<close>

definition status_join :: "bool option \<Rightarrow> bool option \<Rightarrow> bool option" where
  "status_join p q = (case p of None \<Rightarrow> q | Some s \<Rightarrow> (case q of None \<Rightarrow> p | Some t \<Rightarrow> Some (s \<or> t)))"

lemma status_join_laws:
  "status_join p q = status_join q p" "status_join (status_join p q) r = status_join p (status_join q r)"
  "status_join p p = p"
  by (auto simp: status_join_def split: option.splits)

lemma rga_status_merge:
  assumes "rga_ok h a" and "rga_ok h b"
  shows "rga_status (merge_into rga_merge a b) i = status_join (rga_status a i) (rga_status b i)"
  using assms
  by (auto simp: rga_status_def rga_merge_at rga_ok_def status_join_def atom_absorb_def atom_delete_def
      split: option.splits)

lemma rga_ok_merge:
  assumes a: "rga_ok h a" and b: "rga_ok h b"
  shows "rga_ok h (merge_into rga_merge a b)"
proof -
  from a b have da: "distinct_ids (rga_atoms a)" and db: "distinct_ids (rga_atoms b)" by (simp_all add: rga_ok_def)
  note m = rga_merge_at [OF da db]
  have "atom_parent x = fst (h (atom_id x)) \<and> atom_value x = (if is_tombstone x then None else Some (snd (h (atom_id x))))"
    if "x \<in> set (rga_atoms (merge_into rga_merge a b))" for x
  proof -
    from that have "atom_at (rga_atoms (merge_into rga_merge a b)) (atom_id x) = Some x"
      by (simp add: atom_at_Some_iff [OF m(1)])
    then have "x \<in> set (rga_atoms a) \<or> x \<in> set (rga_atoms b)
        \<or> (\<exists>u \<in> set (rga_atoms a). \<exists>v \<in> set (rga_atoms b). x = atom_absorb u v)"
      unfolding m(3) by (auto simp: atom_at_Some_iff [OF da] atom_at_Some_iff [OF db] split: option.splits)
    with a b show ?thesis by (auto simp: rga_ok_def atom_absorb_def atom_delete_def split: if_splits)
  qed
  with m(1,2) show ?thesis by (simp add: rga_ok_def)
qed

lemma rga_erase_merge:
  assumes "rga_ok h a" and "rga_ok h b"
  shows "rga_erase (merge_into rga_merge (rga_erase a) (rga_erase b)) = rga_erase (merge_into rga_merge a b)"
  using assms by (intro rga_erase_eqI [of h]) (simp_all add: rga_ok_merge rga_status_merge [of h] rga_merge_clocks)

text \<open>Up to the clocks of the atoms, the merge is convergent.\<close>

interpretation rga: convergent_merge "\<lambda>a b. rga_erase (merge_into rga_merge a b)" "\<lambda>s. rga_ok h s \<and> rga_erase s = s"
  for h :: "ElementId \<Rightarrow> ElementId \<times> 'e"
proof
  fix a b c :: "'e Rga"
  assume a: "rga_ok h a \<and> rga_erase a = a"
  have "rga_erase (merge_into rga_merge a a) = rga_erase a"
    using a by (intro rga_erase_eqI [of h])
      (simp_all add: rga_ok_merge rga_status_merge [of h] rga_merge_clocks status_join_laws(3))
  with a show "rga_erase (merge_into rga_merge a a) = a" by simp
  assume b: "rga_ok h b \<and> rga_erase b = b"
  from a b show "rga_ok h (rga_erase (merge_into rga_merge a b))
      \<and> rga_erase (rga_erase (merge_into rga_merge a b)) = rga_erase (merge_into rga_merge a b)"
    by (simp add: rga_ok_merge)
  from a b show "rga_erase (merge_into rga_merge a b) = rga_erase (merge_into rga_merge b a)"
    by (intro rga_erase_eqI [of h])
      (simp_all add: rga_ok_merge rga_status_merge [of h] rga_merge_clocks vc_merge_comm status_join_laws(1))
  assume c: "rga_ok h c \<and> rga_erase c = c"
  from a b c show "rga_erase (merge_into rga_merge (rga_erase (merge_into rga_merge a b)) c)
      = rga_erase (merge_into rga_merge a (rga_erase (merge_into rga_merge b c)))"
    by (intro rga_erase_eqI [of h])
      (simp_all add: rga_ok_merge rga_status_merge [of h] rga_merge_clocks vc_merge_assoc status_join_laws(2))
qed

section \<open>The walk\<close>

text \<open>The atoms in the order in which the loop of \<open>to_vec\<close> visits them.\<close>

function rga_walk :: "'e Atom list \<Rightarrow> ElementId set \<Rightarrow> ElementId list \<Rightarrow> 'e Atom list" where
  "rga_walk atoms visited [] = []"
| "rga_walk atoms visited (i # stack) =
     (if i \<in> visited then rga_walk atoms visited stack
      else case atom_at atoms i of
        None \<Rightarrow> rga_walk atoms (insert i visited) stack
      | Some a \<Rightarrow> a # rga_walk atoms (insert i visited) (rga_children_of atoms i @ stack))"
  by pat_completeness auto

termination rga_walk
  by (relation "measures [\<lambda>(atoms, visited, stack). card (set (map atom_id atoms) - visited),
                          \<lambda>(atoms, visited, stack). length stack]")
    (simp, simp, simp add: walk_measure_stay [OF find_None_atom_id] atom_at_def del: set_map,
      simp add: walk_measure_less atom_at_def del: set_map)

lemma rga_to_vec_loop_walk:
  "rga_to_vec_loop atoms visited stack result = result @ List.map_filter atom_value (rga_walk atoms visited stack)"
proof (induction atoms visited stack result rule: rga_to_vec_loop.induct)
  case (1 atoms visited result)
  then show ?case by (simp add: map_filter_def)
next
  case (2 atoms visited i stack result)
  then show ?case
    by (cases "i \<in> visited"; cases "atom_at atoms i")
      (auto simp: atom_at_def push_children_append map_filter_simps split: option.splits)
qed

lemma set_children: "set (rga_children_of atoms p) = atom_id ` {a \<in> set atoms. atom_parent a = p}"
  by (auto simp: rga_children_of_def)

lemma atom_at_id: "atom_at atoms i = Some a \<Longrightarrow> atom_id a = i \<and> a \<in> set atoms"
  by (induction atoms) (auto split: if_splits)

lemma walk_distinct:
  "distinct_ids (rga_walk atoms visited stack) \<and> atom_id ` set (rga_walk atoms visited stack) \<inter> visited = {}"
proof (induction atoms visited stack rule: rga_walk.induct)
  case (1 atoms visited)
  then show ?case by simp
next
  case (2 atoms visited i stack)
  then show ?case
    by (cases "i \<in> visited"; cases "atom_at atoms i") (auto dest: atom_at_id)
qed

lemma walk_subset: "set (rga_walk atoms visited stack) \<subseteq> set atoms"
proof (induction atoms visited stack rule: rga_walk.induct)
  case (2 atoms visited i stack)
  then show ?case
    by (cases "i \<in> visited"; cases "atom_at atoms i") (auto dest: atom_at_id)
qed simp

lemma walk_closed:
  "(\<forall>i \<in> set stack. i \<in> atom_id ` set atoms \<longrightarrow> i \<in> visited \<union> atom_id ` set (rga_walk atoms visited stack))
   \<and> (\<forall>x \<in> set (rga_walk atoms visited stack). set (rga_children_of atoms (atom_id x))
        \<subseteq> visited \<union> atom_id ` set (rga_walk atoms visited stack))"
proof (induction atoms visited stack rule: rga_walk.induct)
  case (1 atoms visited)
  then show ?case by simp
next
  case (2 atoms visited i stack)
  show ?case
  proof (cases "i \<in> visited")
    case True
    with 2(1) show ?thesis by simp
  next
    case False
    show ?thesis
    proof (cases "atom_at atoms i")
      case None
      then have "i \<notin> atom_id ` set atoms" by (simp add: atom_at_None_iff)
      moreover have "set (rga_children_of atoms p) \<subseteq> atom_id ` set atoms" for p
        by (auto simp: set_children)
      ultimately show ?thesis using 2(2) [OF False] None False by (auto simp: atom_at_def) blast+
    next
      case (Some a)
      let ?R = "rga_walk atoms (insert i visited) (rga_children_of atoms i @ stack)"
      from 2(3) [OF False Some]
      have stk: "\<forall>j \<in> set (rga_children_of atoms i @ stack). j \<in> atom_id ` set atoms
            \<longrightarrow> j \<in> insert i visited \<union> atom_id ` set ?R"
        and cl: "\<forall>x \<in> set ?R. set (rga_children_of atoms (atom_id x)) \<subseteq> insert i visited \<union> atom_id ` set ?R"
        by auto
      have walk: "rga_walk atoms visited (i # stack) = a # ?R" using False Some by simp
      have aid: "atom_id a = i" using Some by (simp add: atom_at_id)
      have ch: "set (rga_children_of atoms i) \<subseteq> insert i visited \<union> atom_id ` set ?R"
        using stk by (auto simp: set_children)
      show ?thesis unfolding walk using stk cl ch aid by auto
    qed
  qed
qed

text \<open>The identifiers that hang below the root sentinel.\<close>

inductive rga_reach :: "'e Atom list \<Rightarrow> ElementId \<Rightarrow> bool" for atoms where
  top: "a \<in> set atoms \<Longrightarrow> atom_parent a = ElementId_root \<Longrightarrow> rga_reach atoms (atom_id a)"
| child: "rga_reach atoms (atom_parent a) \<Longrightarrow> a \<in> set atoms \<Longrightarrow> rga_reach atoms (atom_id a)"

lemma walk_sound:
  "(\<forall>i \<in> set stack. rga_reach atoms i) \<Longrightarrow> a \<in> set (rga_walk atoms visited stack) \<Longrightarrow> rga_reach atoms (atom_id a)"
proof (induction atoms visited stack rule: rga_walk.induct)
  case (1 atoms visited)
  then show ?case by simp
next
  case (2 atoms visited i stack)
  have "\<forall>j \<in> set (rga_children_of atoms i @ stack). rga_reach atoms j"
    using 2(4) by (auto simp: set_children intro: rga_reach.child)
  with 2 show ?case
    by (cases "i \<in> visited"; cases "atom_at atoms i") (auto dest: atom_at_id)
qed

abbreviation rga_sequence :: "'e Rga \<Rightarrow> 'e Atom list" where
  "rga_sequence s \<equiv> rga_walk (rga_atoms s) {} (rga_children_of (rga_atoms s) ElementId_root)"

lemma walk_complete: "atom_id ` set (rga_sequence s) = {i. rga_reach (rga_atoms s) i}"
proof
  let ?atoms = "rga_atoms s"
  have "\<forall>i \<in> set (rga_children_of ?atoms ElementId_root). rga_reach ?atoms i"
    by (auto simp: set_children intro: rga_reach.top)
  then show "atom_id ` set (rga_sequence s) \<subseteq> {i. rga_reach ?atoms i}"
    by (auto dest: walk_sound)
  note cl = walk_closed [of "rga_children_of ?atoms ElementId_root" ?atoms "{}"]
  show "{i. rga_reach ?atoms i} \<subseteq> atom_id ` set (rga_sequence s)"
  proof
    fix i assume "i \<in> {i. rga_reach ?atoms i}"
    then have "rga_reach ?atoms i" by simp
    then show "i \<in> atom_id ` set (rga_sequence s)"
    proof (induction rule: rga_reach.induct)
      case (top a)
      then have "atom_id a \<in> set (rga_children_of ?atoms ElementId_root)" by (auto simp: set_children)
      with cl top show ?case by auto
    next
      case (child a)
      then obtain x where x: "x \<in> set (rga_sequence s)" "atom_id x = atom_parent a" by auto
      have "atom_id a \<in> set (rga_children_of ?atoms (atom_id x))" using child x by (auto simp: set_children)
      with cl x show ?case by blast
    qed
  qed
qed

lemma walk_parents:
  assumes "distinct_ids atoms"
  shows "(\<forall>i \<in> set stack. \<exists>a. atom_at atoms i = Some a \<and> atom_parent a \<in> insert ElementId_root visited)
    \<Longrightarrow> rga_walk atoms visited stack = pre @ a # post
    \<Longrightarrow> atom_parent a \<in> insert ElementId_root (visited \<union> atom_id ` set pre)"
  using assms
proof (induction atoms visited stack arbitrary: pre rule: rga_walk.induct)
  case (1 atoms visited)
  then show ?case by simp
next
  case (2 atoms visited i stack)
  show ?case
  proof (cases "i \<in> visited")
    case True
    with 2(1) [OF True] 2(4-6) show ?thesis by simp
  next
    case False
    from 2(4) obtain b where b: "atom_at atoms i = Some b" "atom_parent b \<in> insert ElementId_root visited" by auto
    let ?stack = "rga_children_of atoms i @ stack"
    have walk: "b # rga_walk atoms (insert i visited) ?stack = pre @ a # post" using 2(5) False b by simp
    have inv: "\<forall>j \<in> set ?stack. \<exists>c. atom_at atoms j = Some c \<and> atom_parent c \<in> insert ElementId_root (insert i visited)"
    proof
      fix j assume "j \<in> set ?stack"
      then consider "j \<in> set stack" | c where "c \<in> set atoms" "atom_parent c = i" "j = atom_id c"
        by (auto simp: set_children)
      then show "\<exists>c. atom_at atoms j = Some c \<and> atom_parent c \<in> insert ElementId_root (insert i visited)"
        using 2(4) atom_at_Some_iff [OF 2(6)] by cases auto
    qed
    show ?thesis
    proof (cases pre)
      case Nil
      with walk b show ?thesis by simp
    next
      case (Cons x pre')
      with walk have "rga_walk atoms (insert i visited) ?stack = pre' @ a # post" and x: "x = b" by simp_all
      from 2(3) [OF False b(1) inv this(1) 2(6)] Cons x atom_at_id [OF b(1)] show ?thesis by auto
    qed
  qed
qed

section \<open>Identifiers are fresh\<close>

text \<open>Every atom's Lamport number is covered by the clock: every operation keeps this.\<close>

definition rga_inv :: "'e Rga \<Rightarrow> bool" where
  "rga_inv s \<longleftrightarrow> distinct_ids (rga_atoms s) \<and> sorted (map atom_id (rga_atoms s))
     \<and> (\<forall>a \<in> set (rga_atoms s). eid_lamport (atom_id a) \<le> vc_get (rga_clock s) (eid_replica (atom_id a)))"

lemma rga_inv_new [simp]: "rga_inv rga_new"
  by (simp add: rga_inv_def rga_new_def)

lemma map_id_delete_loop: "map atom_id (rga_delete_loop i c atoms) = map atom_id atoms"
  by (induction atoms) (auto simp: atom_delete_def)

lemma rga_inv_ids:
  assumes "rga_inv s" and "map atom_id (rga_atoms s') = map atom_id (rga_atoms s)"
    and "\<And>r. vc_get (rga_clock s) r \<le> vc_get (rga_clock s') r"
  shows "rga_inv s'"
proof -
  have ids: "atom_id ` set (rga_atoms s') = atom_id ` set (rga_atoms s)"
    using arg_cong [OF assms(2), of set] by simp
  have "eid_lamport (atom_id x) \<le> vc_get (rga_clock s') (eid_replica (atom_id x))"
    if x: "x \<in> set (rga_atoms s')" for x
  proof -
    from x ids have "atom_id x \<in> atom_id ` set (rga_atoms s)" by blast
    then obtain y where y: "y \<in> set (rga_atoms s)" "atom_id y = atom_id x" by force
    with assms(1) have "eid_lamport (atom_id x) \<le> vc_get (rga_clock s) (eid_replica (atom_id x))"
      by (force simp: rga_inv_def)
    then show ?thesis using assms(3) by (rule order_trans)
  qed
  with assms(1,2) show ?thesis by (simp add: rga_inv_def)
qed

lemma rga_inv_delete: "rga_inv s \<Longrightarrow> rga_inv (rga_delete i c s)"
  by (rule rga_inv_ids [of s]) (simp_all add: rga_delete_def map_id_delete_loop le_max_iff_disj)

lemma ids_merge:
  assumes "distinct_ids (rga_atoms a)" and "distinct_ids (rga_atoms b)"
  shows "atom_id ` set (rga_atoms (merge_into rga_merge a b)) = atom_id ` set (rga_atoms a) \<union> atom_id ` set (rga_atoms b)"
proof (rule set_eqI)
  fix i
  have "i \<in> atom_id ` set xs \<longleftrightarrow> atom_at xs i \<noteq> None" for xs :: "'a Atom list" by (simp add: atom_at_None_iff)
  then show "i \<in> atom_id ` set (rga_atoms (merge_into rga_merge a b))
      \<longleftrightarrow> i \<in> atom_id ` set (rga_atoms a) \<union> atom_id ` set (rga_atoms b)"
    by (simp add: rga_merge_at [OF assms] split: option.splits)
qed

lemma rga_inv_covered: "rga_inv s \<Longrightarrow> i \<in> atom_id ` set (rga_atoms s) \<Longrightarrow> eid_lamport i \<le> vc_get (rga_clock s) (eid_replica i)"
  by (auto simp: rga_inv_def)

lemma rga_inv_merge:
  assumes "rga_inv a" and "rga_inv b"
  shows "rga_inv (merge_into rga_merge a b)"
proof -
  from assms have d: "distinct_ids (rga_atoms a)" "distinct_ids (rga_atoms b)" by (simp_all add: rga_inv_def)
  have "eid_lamport (atom_id x) \<le> vc_get (rga_clock (merge_into rga_merge a b)) (eid_replica (atom_id x))"
    if "x \<in> set (rga_atoms (merge_into rga_merge a b))" for x
  proof -
    from that ids_merge [OF d] have "atom_id x \<in> atom_id ` set (rga_atoms a) \<union> atom_id ` set (rga_atoms b)" by blast
    then have "eid_lamport (atom_id x) \<le> vc_get (rga_clock a) (eid_replica (atom_id x))
      \<or> eid_lamport (atom_id x) \<le> vc_get (rga_clock b) (eid_replica (atom_id x))"
      using rga_inv_covered [OF assms(1)] rga_inv_covered [OF assms(2)] by blast
    then show ?thesis by (simp add: rga_merge_clocks le_max_iff_disj)
  qed
  with rga_merge_at [OF d] show ?thesis by (simp add: rga_inv_def)
qed

lemma rga_insert_parts:
  fixes s :: "'e Rga"
  assumes ins: "rga_insert_after p v c r s = (s', i)" and inv: "rga_inv s"
    and room: "vc_get (vc_merge (rga_clock s) c) r \<noteq> u64_MAX"
  shows "i = ElementId r (max (vc_get (rga_clock s) r) (vc_get c r) + 1)"
    and "i \<notin> atom_id ` set (rga_atoms s)" and "i \<noteq> ElementId_root"
    and "set (rga_atoms s') = insert \<lparr>atom_id = i, atom_parent = p, atom_value = Some v, is_tombstone = False, atom_clock = c\<rparr>
           (set (rga_atoms s))"
    and "rga_inv s'"
proof -
  let ?m = "max (vc_get (rga_clock s) r) (vc_get c r)"
  show i: "i = ElementId r (?m + 1)" using ins by (auto simp: rga_insert_after_def Let_def)
  have less: "?m < ?m + 1" using room by (intro less_succ_u64) simp
  show fresh: "i \<notin> atom_id ` set (rga_atoms s)"
  proof
    assume "i \<in> atom_id ` set (rga_atoms s)"
    then obtain a where a: "a \<in> set (rga_atoms s)" "atom_id a = i" by auto
    then have "?m + 1 \<le> vc_get (rga_clock s) r" using inv i by (force simp: rga_inv_def)
    also have "\<dots> \<le> ?m" by simp
    finally show False using less leD by blast
  qed
  show "i \<noteq> ElementId_root" using less i by (auto simp: ElementId_root_def)
  let ?a = "\<lparr>atom_id = i, atom_parent = p, atom_value = Some v, is_tombstone = False, atom_clock = c\<rparr>"
  have s': "s' = s\<lparr>rga_clock := vc_increment r (vc_merge (rga_clock s) c), rga_atoms := sort_key atom_id (rga_atoms s @ [?a])\<rparr>"
    using ins by (auto simp: rga_insert_after_def Let_def)
  then show "set (rga_atoms s') = insert ?a (set (rga_atoms s))" by simp
  have old: "eid_lamport (atom_id a) \<le> vc_get (rga_clock s') (eid_replica (atom_id a))" if "a \<in> set (rga_atoms s)" for a
  proof -
    have "eid_lamport (atom_id a) \<le> vc_get (rga_clock s) (eid_replica (atom_id a))" using inv that by (simp add: rga_inv_def)
    also have "\<dots> \<le> vc_get (rga_clock s') (eid_replica (atom_id a))"
      using less by (auto simp: s' max_def split: if_splits)
    finally show ?thesis .
  qed
  moreover have "eid_lamport i \<le> vc_get (rga_clock s') (eid_replica i)" by (simp add: s' i)
  moreover have "distinct_ids (rga_atoms s @ [?a])" using inv fresh by (simp add: rga_inv_def)
  ultimately show "rga_inv s'" by (auto simp: rga_inv_def s' distinct_ids_sort simp del: map_append)
qed

section \<open>Properties\<close>

lemma rga_children_erase: "rga_children_of (map atom_erase atoms) p = rga_children_of atoms p"
  by (simp add: rga_children_of_def filter_map comp_def)

lemma rga_walk_erase: "rga_walk (map atom_erase atoms) visited stack = map atom_erase (rga_walk atoms visited stack)"
proof (induction atoms visited stack rule: rga_walk.induct)
  case (2 atoms visited i stack)
  then show ?case by (cases "atom_at atoms i") (simp_all add: rga_children_erase)
qed simp

lemma rga_to_vec_walk: "rga_to_vec s = List.map_filter atom_value (rga_sequence s)"
  by (simp add: rga_to_vec_def rga_to_vec_loop_walk push_children_append)

lemma rga_to_vec_erase: "rga_to_vec (rga_erase s) = rga_to_vec s"
proof -
  have "List.map_filter atom_value (map atom_erase xs) = List.map_filter atom_value xs" for xs :: "'a Atom list"
    by (induction xs) (simp_all add: map_filter_simps split: option.split)
  then show ?thesis
    by (simp add: rga_to_vec_walk rga_erase_def rga_walk_erase rga_children_erase)
qed

lemma rga_ok_foldl:
  "rga_ok h s \<Longrightarrow> (\<forall>x \<in> set xs. rga_ok h x) \<Longrightarrow> rga_ok h (foldl (merge_into rga_merge) s xs)"
  by (induction xs arbitrary: s) (auto simp: rga_ok_merge)

lemma rga_erase_foldl:
  "rga_ok h s \<Longrightarrow> (\<forall>x \<in> set xs. rga_ok h x)
    \<Longrightarrow> rga_erase (foldl (merge_into rga_merge) s xs)
      = foldl (\<lambda>a b. rga_erase (merge_into rga_merge a b)) (rga_erase s) (map rga_erase xs)"
  by (induction xs arbitrary: s) (auto simp: rga_ok_merge rga_erase_merge [of h])

definition rga_sample :: "string Rga" where
  "rga_sample = fst (rga_insert_after ElementId_root ''a'' vc_new 1 rga_new)"

definition rga_sample_deleted :: "string Rga" where
  "rga_sample_deleted = rga_delete (ElementId 1 1) (vc_increment 2 vc_new) rga_sample"

lemma rga_samples:
  "rga_atoms rga_sample = [\<lparr>atom_id = ElementId 1 1, atom_parent = ElementId 0 0, atom_value = Some ''a'',
     is_tombstone = False, atom_clock = vc_new\<rparr>]"
  "rga_atoms rga_sample_deleted = [\<lparr>atom_id = ElementId 1 1, atom_parent = ElementId 0 0, atom_value = None,
     is_tombstone = True, atom_clock = vc_increment 2 vc_new\<rparr>]"
  by (simp_all add: rga_sample_def rga_sample_deleted_def rga_insert_after_def rga_delete_def rga_new_def
      ElementId_root_def atom_delete_def Let_def)

text \<open>
  C39. Replicas of the sequence that start equal and receive the same set of states, in any order and
  with any duplication, read out the same elements and hold the same atoms, tombstones and clocks
  (up to the clock recorded inside each atom), when all states stem from one history of insertions.
\<close>

theorem rga_convergence:
  assumes "rga_ok h s" and "\<forall>x \<in> set xs. rga_ok h x" and "set xs = set ys"
  shows "rga_to_vec (foldl (merge_into rga_merge) s xs) = rga_to_vec (foldl (merge_into rga_merge) s ys)
    \<and> rga_erase (foldl (merge_into rga_merge) s xs) = rga_erase (foldl (merge_into rga_merge) s ys)"
proof -
  have ys: "\<forall>x \<in> set ys. rga_ok h x" using assms by simp
  have "rga_erase (foldl (merge_into rga_merge) s xs) = rga_erase (foldl (merge_into rga_merge) s ys)"
    unfolding rga_erase_foldl [OF assms(1,2)] rga_erase_foldl [OF assms(1) ys]
    by (rule rga.converge [of h]) (use assms in auto)
  then show ?thesis by (metis rga_to_vec_erase)
qed

theorem rga_convergence_witness:
  "rga_to_vec (foldl (merge_into rga_merge) rga_new [rga_sample, rga_sample_deleted])
    = rga_to_vec (foldl (merge_into rga_merge) rga_new [rga_sample_deleted, rga_sample, rga_sample_deleted])"
proof -
  have "rga_ok (\<lambda>_. (ElementId 0 0, ''a'')) s" if "s \<in> {rga_new, rga_sample, rga_sample_deleted}" for s
    using that by (auto simp: rga_ok_def rga_samples) (simp_all add: rga_new_def)
  with rga_convergence [of "\<lambda>_. (ElementId 0 0, ''a'')" rga_new "[rga_sample, rga_sample_deleted]"
      "[rga_sample_deleted, rga_sample, rga_sample_deleted]"]
  show ?thesis by auto
qed

text \<open>
  \<open>to_vec\<close> returns, for every atom vector with distinct identifiers, the live values of a
  sequence of atoms without repetition that holds exactly the atoms hanging below the root
  sentinel and in which every atom comes after the atom it was inserted after.
\<close>

theorem rga_to_vec_spec:
  assumes "distinct_ids (rga_atoms s)"
  shows "\<exists>seq. rga_to_vec s = List.map_filter atom_value seq \<and> distinct_ids seq \<and> set seq \<subseteq> set (rga_atoms s)
    \<and> (\<forall>i. i \<in> atom_id ` set seq \<longleftrightarrow> rga_reach (rga_atoms s) i)
    \<and> (\<forall>pre a post. seq = pre @ a # post \<longrightarrow> atom_parent a = ElementId_root \<or> atom_parent a \<in> atom_id ` set pre)"
proof (intro exI conjI allI impI)
  show "rga_to_vec s = List.map_filter atom_value (rga_sequence s)" by (rule rga_to_vec_walk)
  show "distinct_ids (rga_sequence s)" using walk_distinct by blast
  show "set (rga_sequence s) \<subseteq> set (rga_atoms s)" by (rule walk_subset)
  show "i \<in> atom_id ` set (rga_sequence s) \<longleftrightarrow> rga_reach (rga_atoms s) i" for i
    by (simp add: walk_complete)
  fix pre a post assume eq: "rga_sequence s = pre @ a # post"
  have "\<forall>i \<in> set (rga_children_of (rga_atoms s) ElementId_root).
      \<exists>a. atom_at (rga_atoms s) i = Some a \<and> atom_parent a \<in> insert ElementId_root {}"
    using atom_at_Some_iff [OF assms] by (auto simp: set_children)
  from walk_parents [OF assms this eq]
  show "atom_parent a = ElementId_root \<or> atom_parent a \<in> atom_id ` set pre" by simp
qed

theorem rga_to_vec_spec_witness:
  "\<exists>seq. rga_to_vec rga_sample = List.map_filter atom_value seq \<and> distinct_ids seq
     \<and> (\<forall>i. i \<in> atom_id ` set seq \<longleftrightarrow> rga_reach (rga_atoms rga_sample) i)"
  using rga_to_vec_spec [of rga_sample] by (auto simp: rga_samples)

text \<open>
  \<open>insert_after\<close> on a sequence built by the operations (every atom's Lamport number is covered by the
  clock) hands out an identifier that no atom of the sequence has and that is not the root
  sentinel, adds exactly the new live atom, and leaves a sequence of the same kind; so do \<open>delete\<close> and
  \<open>merge\<close>. The counter must not have reached \<open>u64::MAX\<close>, where \<open>increment\<close> would wrap.
\<close>

theorem rga_insert_fresh:
  assumes "rga_inv s" and "rga_inv t" and "vc_get (vc_merge (rga_clock s) c) r \<noteq> u64_MAX"
  shows "(case rga_insert_after p v c r s of (s', i) \<Rightarrow>
      i \<notin> atom_id ` set (rga_atoms s) \<and> i \<noteq> ElementId_root \<and> rga_inv s'
      \<and> set (rga_atoms s') = insert \<lparr>atom_id = i, atom_parent = p, atom_value = Some v, is_tombstone = False, atom_clock = c\<rparr>
           (set (rga_atoms s)))
    \<and> rga_inv (rga_delete j c s) \<and> rga_inv (merge_into rga_merge s t)"
proof -
  obtain s' i where ins: "rga_insert_after p v c r s = (s', i)" by force
  show ?thesis
    using rga_insert_parts(2-5) [OF ins assms(1,3)] rga_inv_delete [OF assms(1)] rga_inv_merge [OF assms(1,2)]
    by (simp add: ins)
qed

theorem rga_insert_fresh_witness:
  "rga_inv (fst (rga_insert_after ElementId_root ''a'' vc_new 1 rga_new))
   \<and> rga_inv (merge_into rga_merge rga_new (rga_new :: string Rga))"
  using rga_insert_fresh [of rga_new rga_new vc_new 1 ElementId_root "''a''" ElementId_root]
  by (simp add: split_beta) (simp add: rga_new_def)

text \<open>
  The clocks inside the atoms are outside the convergence result for a reason: two replicas that
  delete the same atom under different clocks never agree on it, since a tombstone does not
  absorb another tombstone's clock.
\<close>

lemma rga_tombstone_clocks_diverge:
  "\<exists>a b :: string Rga. rga_ok (\<lambda>_. (ElementId 0 0, ''a'')) a \<and> rga_ok (\<lambda>_. (ElementId 0 0, ''a'')) b
     \<and> merge_into rga_merge a b \<noteq> merge_into rga_merge b a"
proof -
  let ?a = "rga_delete (ElementId 1 1) (vc_increment 2 vc_new) rga_sample"
  let ?b = "rga_delete (ElementId 1 1) (vc_increment 3 vc_new) rga_sample"
  have ok: "rga_ok (\<lambda>_. (ElementId 0 0, ''a'')) (rga_delete (ElementId 1 1) c rga_sample)" for c
    by (simp add: rga_ok_def rga_delete_def rga_samples atom_delete_def)
  have "map atom_clock (rga_atoms (merge_into rga_merge ?a ?b)) = [vc_increment 2 vc_new]"
    and "map atom_clock (rga_atoms (merge_into rga_merge ?b ?a)) = [vc_increment 3 vc_new]"
    by (simp_all add: merge_into_def rga_merge_def rga_delete_def rga_samples atom_delete_def atom_absorb_def Let_def)
  moreover have "vc_increment 2 vc_new \<noteq> vc_increment 3 vc_new" by code_simp
  ultimately have "merge_into rga_merge ?a ?b \<noteq> merge_into rga_merge ?b ?a" by (metis list.inject)
  with ok show ?thesis by blast
qed

end
