(* ===== verification/Sync_Merge.thy ===== *)
theory Sync_Merge
  imports Crdt_Or_Set Crdt_Pn_Counter Crdt_Registers Crdt_Rga "HOL-Library.Char_ord"
begin

text \<open>
  Field metadata and the merge dispatcher
  (\<open>crates/synchronization/synchronization-domain/src/field_metadata.rs\<close> and \<open>merge_strategy.rs\<close>).

  A field value is an opaque JSON value of type \<open>'v\<close>. Encoding the replicated types to JSON and back is
  the work of \<open>serde_json\<close>: \<open>ShapeCodec\<close> collects the instances of \<open>from_value\<close> and \<open>to_value\<close> that the
  dispatcher uses, with \<open>None\<close> for an error.
\<close>

section \<open>Field metadata\<close>

datatype FieldShape =
    ToggleSet | LwwSingle | MvSingle | Counter | OrderedSequence | AppendOnlyLogShape | AuthorityControlled

record FieldMetadata =
  field_name :: string
  field_shape :: FieldShape
  is_authority_controlled :: bool
  is_crdt_eligible :: bool

definition is_mergeable :: "FieldMetadata \<Rightarrow> bool" where
  "is_mergeable m \<longleftrightarrow> is_crdt_eligible m \<and> \<not> is_authority_controlled m"

section \<open>Outcomes\<close>

datatype ConflictType = AuthorityField | CustomMergeRequired | SemanticConflict

datatype 'v MergeOutcome = Applied 'v | BothRetained | Conflict ConflictType

section \<open>Dispatch\<close>

record 'v ShapeCodec =
  or_set_codec :: "('v \<Rightarrow> string OrSet option) \<times> (string OrSet \<Rightarrow> 'v option)"
  lww_codec :: "('v \<Rightarrow> 'v LwwRegister option) \<times> ('v LwwRegister \<Rightarrow> 'v option)"
  mv_codec :: "('v \<Rightarrow> 'v MvRegister option) \<times> ('v MvRegister \<Rightarrow> 'v option)"
  pn_codec :: "('v \<Rightarrow> PnCounter option) \<times> (PnCounter \<Rightarrow> 'v option)"
  rga_codec :: "('v \<Rightarrow> 'v Rga option) \<times> ('v Rga \<Rightarrow> 'v option)"

definition merge_shape ::
    "('v \<Rightarrow> 't option) \<times> ('t \<Rightarrow> 'v option) \<Rightarrow> ('t \<Rightarrow> 't \<Rightarrow> 't \<times> bool) \<Rightarrow> 'v \<Rightarrow> 'v \<Rightarrow> 'v MergeOutcome" where
  "merge_shape codec merge local_value remote_value =
     (case codec of (from_value, to_value) \<Rightarrow>
        case (from_value local_value, from_value remote_value) of
          (Some l, Some r) \<Rightarrow>
            (case to_value (fst (merge l r)) of
               Some v \<Rightarrow> Applied v
             | None \<Rightarrow> Conflict CustomMergeRequired)
        | _ \<Rightarrow> Conflict CustomMergeRequired)"

definition merge_field ::
    "'v ShapeCodec \<Rightarrow> FieldMetadata \<Rightarrow> 'v \<Rightarrow> 'v \<Rightarrow> VectorClock \<Rightarrow> VectorClock \<Rightarrow> 'v MergeOutcome" where
  "merge_field codec field_metadata local_value remote_value local_clock remote_clock =
     (case vc_compare local_clock remote_clock of
        Before \<Rightarrow> Applied remote_value
      | After \<Rightarrow> Applied local_value
      | Equal \<Rightarrow> Applied local_value
      | Concurrent \<Rightarrow>
          (case field_shape field_metadata of
             ToggleSet \<Rightarrow> merge_shape (or_set_codec codec) or_merge local_value remote_value
           | LwwSingle \<Rightarrow> merge_shape (lww_codec codec) lww_merge local_value remote_value
           | MvSingle \<Rightarrow> merge_shape (mv_codec codec) mv_merge local_value remote_value
           | Counter \<Rightarrow> merge_shape (pn_codec codec) pn_merge local_value remote_value
           | OrderedSequence \<Rightarrow> merge_shape (rga_codec codec) rga_merge local_value remote_value
           | AppendOnlyLogShape \<Rightarrow> BothRetained
           | AuthorityControlled \<Rightarrow> Conflict AuthorityField))"

section \<open>Lemmas\<close>

lemma vc_compare_swap:
  "vc_compare b a = (case vc_compare a b of Before \<Rightarrow> After | After \<Rightarrow> Before | Equal \<Rightarrow> Equal | Concurrent \<Rightarrow> Concurrent)"
  by (simp add: vc_compare_le)

lemma merge_shape_swap:
  assumes "\<And>l r. fst codec a = Some l \<Longrightarrow> fst codec b = Some r \<Longrightarrow> merge_into merge l r = merge_into merge r l"
  shows "merge_shape codec merge a b = merge_shape codec merge b a"
proof (cases "fst codec a = None \<or> fst codec b = None")
  case True
  then show ?thesis by (cases codec) (auto simp: merge_shape_def split: option.splits)
next
  case False
  then obtain l r where "fst codec a = Some l" "fst codec b = Some r" by auto
  with assms [OF this] show ?thesis by (cases codec) (simp add: merge_shape_def merge_into_def)
qed

lemma merge_shape_Applied:
  "merge_shape codec merge a b = Applied v \<longleftrightarrow>
     (\<exists>l r. fst codec a = Some l \<and> fst codec b = Some r \<and> snd codec (merge_into merge l r) = Some v)"
  by (cases codec) (auto simp: merge_shape_def merge_into_def split: option.splits)

lemma merge_shape_not_retained: "merge_shape codec merge a b \<noteq> BothRetained \<and> merge_shape codec merge a b \<noteq> Conflict AuthorityField"
  by (cases codec) (auto simp: merge_shape_def split: option.splits)

section \<open>Properties\<close>

text \<open>
  Causally ordered writes need no merge and the later one wins; of concurrent writes, the dispatcher merges values of
  the replicated types, retains both sides of a log and never picks a value for an authority-controlled
  shape; a value that does not decode as the declared shape is reported as a conflict, not dropped.
\<close>

theorem merge_field_dispatch:
  "(vc_compare cl cr = Before \<longrightarrow> merge_field codec md l r cl cr = Applied r)
   \<and> (vc_compare cl cr \<in> {After, Equal} \<longrightarrow> merge_field codec md l r cl cr = Applied l)
   \<and> (vc_compare cl cr = Concurrent \<longrightarrow>
       (merge_field codec md l r cl cr = BothRetained \<longleftrightarrow> field_shape md = AppendOnlyLogShape)
       \<and> (merge_field codec md l r cl cr = Conflict AuthorityField \<longleftrightarrow> field_shape md = AuthorityControlled)
       \<and> (field_shape md = ToggleSet \<longrightarrow> fst (or_set_codec codec) l = None \<or> fst (or_set_codec codec) r = None
            \<longrightarrow> merge_field codec md l r cl cr = Conflict CustomMergeRequired)
       \<and> (field_shape md = Counter \<longrightarrow> (merge_field codec md l r cl cr = Applied v \<longleftrightarrow>
            (\<exists>x y. fst (pn_codec codec) l = Some x \<and> fst (pn_codec codec) r = Some y
               \<and> snd (pn_codec codec) (merge_into pn_merge x y) = Some v))))"
proof (intro conjI impI)
  assume c: "vc_compare cl cr = Concurrent"
  show "merge_field codec md l r cl cr = BothRetained \<longleftrightarrow> field_shape md = AppendOnlyLogShape"
    and "merge_field codec md l r cl cr = Conflict AuthorityField \<longleftrightarrow> field_shape md = AuthorityControlled"
    using c by (cases "field_shape md"; simp add: merge_field_def merge_shape_not_retained)+
  show "merge_field codec md l r cl cr = Conflict CustomMergeRequired"
    if "field_shape md = ToggleSet" "fst (or_set_codec codec) l = None \<or> fst (or_set_codec codec) r = None"
    using c that by (cases "or_set_codec codec") (auto simp: merge_field_def merge_shape_def split: option.splits)
  show "merge_field codec md l r cl cr = Applied v \<longleftrightarrow>
      (\<exists>x y. fst (pn_codec codec) l = Some x \<and> fst (pn_codec codec) r = Some y
         \<and> snd (pn_codec codec) (merge_into pn_merge x y) = Some v)" if "field_shape md = Counter"
    using c that by (simp add: merge_field_def merge_shape_Applied)
qed (auto simp: merge_field_def)

definition sample_codec :: "nat ShapeCodec" where
  "sample_codec = \<lparr>or_set_codec = (\<lambda>_. Some or_new, \<lambda>_. Some 1), lww_codec = (\<lambda>v. Some (lww_new 5 v 1), \<lambda>s. Some (lww_value s)),
     mv_codec = (\<lambda>v. Some (mv_new v 1), \<lambda>_. Some 2), pn_codec = (\<lambda>_. Some pn_new, \<lambda>_. Some 3),
     rga_codec = (\<lambda>_. Some rga_new, \<lambda>_. None)\<rparr>"

theorem merge_field_dispatch_witness:
  "merge_field sample_codec \<lparr>field_name = ''f'', field_shape = AuthorityControlled, is_authority_controlled = False,
     is_crdt_eligible = False\<rparr> 1 2 (vc_increment 1 vc_new) (vc_increment 2 vc_new) = Conflict AuthorityField"
proof -
  have "vc_compare (vc_increment 1 vc_new) (vc_increment 2 vc_new) = Concurrent" by code_simp
  with merge_field_dispatch [where cl = "vc_increment 1 vc_new" and cr = "vc_increment 2 vc_new" and codec = sample_codec
      and l = 1 and r = 2 and md = "\<lparr>field_name = ''f'', field_shape = AuthorityControlled, is_authority_controlled = False,
     is_crdt_eligible = False\<rparr>"]
  show ?thesis by simp
qed

text \<open>
  The two replicas of a pair of divergent writes reach the same outcome: swapping the sides does not matter for
  sets, counters, logs and authority-controlled fields, and for registers whose decoded states stem from one
  history of uniquely stamped writes. (For equal clocks each side keeps its own value.)
\<close>

theorem merge_field_symmetric:
  assumes "vc_compare cl cr \<noteq> Equal" and "field_shape md \<noteq> OrderedSequence"
    and "field_shape md = LwwSingle \<Longrightarrow> (\<forall>v \<in> {l, r}. \<forall>s. fst (lww_codec codec) v = Some s \<longrightarrow> lww_ok h s)"
    and "field_shape md = MvSingle \<Longrightarrow> (\<forall>v \<in> {l, r}. \<forall>s. fst (mv_codec codec) v = Some s \<longrightarrow> mv_ok h' s)"
  shows "merge_field codec md l r cl cr = merge_field codec md r l cr cl"
proof (cases "vc_compare cl cr")
  case Concurrent
  then have swap: "vc_compare cr cl = Concurrent" by (simp add: vc_compare_swap [of cr cl])
  show ?thesis
  proof (cases "field_shape md")
    case ToggleSet
    have "merge_shape (or_set_codec codec) or_merge l r = merge_shape (or_set_codec codec) or_merge r l"
      by (rule merge_shape_swap) (rule or_set.mrg_comm; simp)
    with Concurrent swap ToggleSet show ?thesis by (simp add: merge_field_def)
  next
    case Counter
    have "merge_shape (pn_codec codec) pn_merge l r = merge_shape (pn_codec codec) pn_merge r l"
      by (rule merge_shape_swap) (rule pn.mrg_comm; simp)
    with Concurrent swap Counter show ?thesis by (simp add: merge_field_def)
  next
    case LwwSingle
    have "merge_shape (lww_codec codec) lww_merge l r = merge_shape (lww_codec codec) lww_merge r l"
      using assms(3) [OF LwwSingle] by (intro merge_shape_swap lww.mrg_comm [of h]) auto
    with Concurrent swap LwwSingle show ?thesis by (simp add: merge_field_def)
  next
    case MvSingle
    have "merge_shape (mv_codec codec) mv_merge l r = merge_shape (mv_codec codec) mv_merge r l"
      using assms(4) [OF MvSingle] by (intro merge_shape_swap mv.mrg_comm [of h']) auto
    with Concurrent swap MvSingle show ?thesis by (simp add: merge_field_def)
  qed (use assms(2) Concurrent swap in \<open>simp_all add: merge_field_def\<close>)
qed (use assms(1) in \<open>simp_all add: merge_field_def vc_compare_swap [of cr cl]\<close>)

theorem merge_field_symmetric_witness:
  "merge_field sample_codec \<lparr>field_name = ''f'', field_shape = Counter, is_authority_controlled = False,
     is_crdt_eligible = True\<rparr> 1 2 (vc_increment 1 vc_new) (vc_increment 2 vc_new)
   = merge_field sample_codec \<lparr>field_name = ''f'', field_shape = Counter, is_authority_controlled = False,
     is_crdt_eligible = True\<rparr> 2 1 (vc_increment 2 vc_new) (vc_increment 1 vc_new)"
proof -
  have "vc_compare (vc_increment 1 vc_new) (vc_increment 2 vc_new) = Concurrent" by code_simp
  with merge_field_symmetric [of "vc_increment 1 vc_new" "vc_increment 2 vc_new"
      "\<lparr>field_name = ''f'', field_shape = Counter, is_authority_controlled = False, is_crdt_eligible = True\<rparr>" 1 2 sample_codec]
  show ?thesis by simp
qed

end
