(* ===== verification/Contracts.thy ===== *)
theory Contracts
  imports Kernel
begin

text \<open>
  The contracts every domain crate implements (\<open>crates/kernel/platform-contracts\<close> and
  \<open>platform-contracts-ext\<close>): the error vocabulary, the event and command envelopes, the decision
  context, and the \<open>AggregateRoot\<close> trait as a pair of locales.
\<close>

section \<open>Errors\<close>

datatype DomainError =
    InvalidTransition string string
  | Unauthorized
  | VersionConflict ObjectVersion ObjectVersion
  | EpochConflict LifecycleEpoch LifecycleEpoch
  | NotFound ObjectId
  | AlreadyExists ObjectId
  | InvalidArgument string string
  | ConflictPending ConflictId

fun DomainError_code :: "DomainError \<Rightarrow> string" where
  "DomainError_code (InvalidTransition _ _) = ''INVALID_TRANSITION''"
| "DomainError_code Unauthorized = ''UNAUTHORIZED''"
| "DomainError_code (VersionConflict _ _) = ''VERSION_CONFLICT''"
| "DomainError_code (EpochConflict _ _) = ''EPOCH_CONFLICT''"
| "DomainError_code (NotFound _) = ''NOT_FOUND''"
| "DomainError_code (AlreadyExists _) = ''ALREADY_EXISTS''"
| "DomainError_code (InvalidArgument _ _) = ''INVALID_ARGUMENT''"
| "DomainError_code (ConflictPending _) = ''CONFLICT_PENDING''"

fun DomainError_category :: "DomainError \<Rightarrow> string" where
  "DomainError_category (InvalidTransition _ _) = ''DOMAIN''"
| "DomainError_category Unauthorized = ''AUTHORITY''"
| "DomainError_category (VersionConflict _ _) = ''CONCURRENCY''"
| "DomainError_category (EpochConflict _ _) = ''CONCURRENCY''"
| "DomainError_category (NotFound _) = ''DOMAIN''"
| "DomainError_category (AlreadyExists _) = ''DOMAIN''"
| "DomainError_category (InvalidArgument _ _) = ''DOMAIN''"
| "DomainError_category (ConflictPending _) = ''DOMAIN''"

fun DomainError_retryability :: "DomainError \<Rightarrow> string" where
  "DomainError_retryability (InvalidTransition _ _) = ''NON_RETRYABLE''"
| "DomainError_retryability Unauthorized = ''NON_RETRYABLE''"
| "DomainError_retryability (VersionConflict _ _) = ''RETRYABLE''"
| "DomainError_retryability (EpochConflict _ _) = ''RETRYABLE''"
| "DomainError_retryability (NotFound _) = ''NON_RETRYABLE''"
| "DomainError_retryability (AlreadyExists _) = ''NON_RETRYABLE''"
| "DomainError_retryability (InvalidArgument _ _) = ''NON_RETRYABLE''"
| "DomainError_retryability (ConflictPending _) = ''RETRYABLE''"

section \<open>Envelopes\<close>

datatype DataClassification = Public | Internal | Confidential | Restricted

record AuditMetadata =
  source_service :: string
  source_replica :: ReplicaId
  integrity_digest :: "8 word list option"
  classification :: DataClassification
  tenant_isolation_key :: OrganizationId

record 'e DomainEventEnvelope =
  ev_event_id :: EventId
  ev_event_type :: string
  ev_schema_version :: SchemaVersion
  ev_aggregate_ref :: DomainObjectRef
  ev_aggregate_version :: ObjectVersion
  ev_lifecycle_epoch :: LifecycleEpoch
  ev_authority_epoch :: AuthorityEpoch
  ev_operation_id :: OperationId
  ev_actor :: ActorContext
  ev_occurred_at :: Timestamp
  ev_recorded_at :: Timestamp
  ev_vector_clock :: VectorClock
  ev_correlation_id :: CorrelationId
  ev_causation_id :: "EventId option"
  ev_audit_metadata :: AuditMetadata
  ev_payload :: 'e

record 'c CommandEnvelope =
  cmd_command_id :: CommandId
  cmd_operation_id :: OperationId
  cmd_command_type :: string
  cmd_schema_version :: SchemaVersion
  cmd_target :: DomainObjectRef
  cmd_expected_version :: ObjectVersion
  cmd_expected_lifecycle_epoch :: LifecycleEpoch
  cmd_expected_authority_epoch :: AuthorityEpoch
  cmd_actor :: ActorContext
  cmd_authority_proof :: AuthorityProof
  cmd_issued_at :: Timestamp
  cmd_vector_clock :: VectorClock
  cmd_correlation_id :: CorrelationId
  cmd_causation_id :: "EventId option"
  cmd_payload :: 'c

section \<open>Deciding\<close>

text \<open>
  \<open>generated_id_generator\<close> is a stateful trait object: \<open>ctx_object_id n\<close> is the identifier its \<open>n\<close>-th call
  to \<open>generate_object_id\<close> within one decision returns.
\<close>

datatype PolicyDecisionSet = PolicyDecisionSet

record DecisionContext =
  ctx_actor :: ActorContext
  ctx_authority :: VerifiedAuthority
  trusted_now :: Timestamp
  policy_outcomes :: PolicyDecisionSet
  ctx_object_id :: "nat \<Rightarrow> ObjectId"

record ConflictPendingMarker =
  marker_conflict_id :: ConflictId
  marker_since :: Timestamp

text \<open>
  What the command pipeline does with an aggregate: decide, and on success apply the events in
  their order. A rejected command leaves the aggregate as it is.
\<close>

definition execute ::
    "('a \<Rightarrow> 'c \<Rightarrow> DecisionContext \<Rightarrow> ('ev list, 'err) result) \<Rightarrow> ('ev \<Rightarrow> 'a \<Rightarrow> 'a) \<Rightarrow> 'a \<Rightarrow> 'c \<times> DecisionContext \<Rightarrow> 'a" where
  "execute decide app a cmd =
     (case decide a (fst cmd) (snd cmd) of Inl _ \<Rightarrow> a | Inr events \<Rightarrow> fold app events a)"

text \<open>The number of events that a sequence of commands produces.\<close>

fun event_count ::
    "('a \<Rightarrow> 'c \<Rightarrow> DecisionContext \<Rightarrow> ('ev list, 'err) result) \<Rightarrow> ('ev \<Rightarrow> 'a \<Rightarrow> 'a) \<Rightarrow> 'a \<Rightarrow> ('c \<times> DecisionContext) list \<Rightarrow> nat" where
  "event_count decide app a [] = 0"
| "event_count decide app a (cmd # cmds) =
     (case decide a (fst cmd) (snd cmd) of Inl _ \<Rightarrow> 0 | Inr events \<Rightarrow> length events)
     + event_count decide app (execute decide app a cmd) cmds"

section \<open>The aggregate root\<close>

locale aggregate_root =
  fixes agg_id :: "'a \<Rightarrow> ObjectId"
    and version :: "'a \<Rightarrow> ObjectVersion"
    and lifecycle_epoch :: "'a \<Rightarrow> LifecycleEpoch"
    and authority_epoch :: "'a \<Rightarrow> AuthorityEpoch"
    and decide :: "'a \<Rightarrow> 'c \<Rightarrow> DecisionContext \<Rightarrow> ('ev list, 'err) result"
    and app :: "'ev \<Rightarrow> 'a \<Rightarrow> 'a"
  assumes apply_id: "agg_id (app e a) = agg_id a"
    and apply_version: "version (app e a) = ObjectVersion_next (version a)"
    and apply_lifecycle: "lifecycle_epoch (app e a) \<in> {lifecycle_epoch a, LifecycleEpoch_advance (lifecycle_epoch a)}"
    and apply_authority: "authority_epoch (app e a) \<in> {authority_epoch a, AuthorityEpoch_advance (authority_epoch a)}"
begin

lemma replay_id: "agg_id (fold app es a) = agg_id a"
  by (induction es arbitrary: a) (simp_all add: apply_id)

lemma replay_version: "version (fold app es a) = version a + of_nat (length es)"
  by (induction es arbitrary: a) (simp_all add: apply_version ObjectVersion_next_def algebra_simps)

lemma replay_lifecycle: "\<exists>k \<le> length es. lifecycle_epoch (fold app es a) = lifecycle_epoch a + of_nat k"
proof (induction es arbitrary: a)
  case (Cons e es)
  then obtain k where k: "k \<le> length es" "lifecycle_epoch (fold app es (app e a)) = lifecycle_epoch (app e a) + of_nat k"
    by blast
  consider "lifecycle_epoch (app e a) = lifecycle_epoch a" | "lifecycle_epoch (app e a) = lifecycle_epoch a + 1"
    using apply_lifecycle [of e a] by (auto simp: LifecycleEpoch_advance_def)
  then show ?case
  proof cases
    case 1
    with k show ?thesis by (intro exI [of _ k]) simp
  next
    case 2
    with k show ?thesis by (intro exI [of _ "Suc k"]) (simp add: algebra_simps)
  qed
qed (simp add: exI [of _ 0])

text \<open>A successful decision that produces events makes every command issued against the old version stale.\<close>

lemma replay_stale:
  assumes "es \<noteq> []" and "length es < 2 ^ 64"
  shows "version (fold app es a) \<noteq> version a"
proof -
  have "(of_nat (length es) :: u64) \<noteq> 0"
  proof
    assume "(of_nat (length es) :: u64) = 0"
    then have "unat (of_nat (length es) :: u64) = 0" by simp
    with assms show False by (simp add: unat_of_nat take_bit_nat_eq_self)
  qed
  then show ?thesis by (simp add: replay_version)
qed

lemma execute_id: "agg_id (execute decide app a cmd) = agg_id a"
  by (simp add: execute_def replay_id split: sum.split)

lemma run_id: "agg_id (foldl (execute decide app) a cmds) = agg_id a"
  by (induction cmds arbitrary: a) (simp_all add: execute_id)

lemma run_version:
  "version (foldl (execute decide app) a cmds) = version a + of_nat (event_count decide app a cmds)"
  by (induction cmds arbitrary: a) (auto simp: execute_def replay_version algebra_simps split: sum.splits)

text \<open>What every accepted command preserves, every run of commands preserves.\<close>

lemma run_invariant:
  assumes "\<And>a c ctx es. I a \<Longrightarrow> decide a c ctx = Inr es \<Longrightarrow> I (fold app es a)" and "I a"
  shows "I (foldl (execute decide app) a cmds)"
  using assms(2)
proof (induction cmds arbitrary: a)
  case (Cons cmd cmds)
  have "I (execute decide app a cmd)"
    using assms(1) [OF Cons.prems, of "fst cmd" "snd cmd"] Cons.prems by (auto simp: execute_def split: sum.splits)
  then show ?case by (simp add: Cons.IH)
qed simp

text \<open>An aggregate that accepts nothing stays as it is.\<close>

lemma run_inert:
  assumes "\<And>c ctx. \<exists>e. decide a c ctx = Inl e"
  shows "foldl (execute decide app) a cmds = a"
proof (induction cmds)
  case (Cons cmd cmds)
  have "execute decide app a cmd = a" using assms [of "fst cmd" "snd cmd"] by (auto simp: execute_def)
  with Cons show ?case by simp
qed simp

end

text \<open>An aggregate whose decisions produce exactly one event.\<close>

locale single_event_aggregate =
  aggregate_root agg_id version lifecycle_epoch authority_epoch decide app
  for agg_id :: "'a \<Rightarrow> ObjectId"
    and version :: "'a \<Rightarrow> ObjectVersion"
    and lifecycle_epoch :: "'a \<Rightarrow> LifecycleEpoch"
    and authority_epoch :: "'a \<Rightarrow> AuthorityEpoch"
    and decide :: "'a \<Rightarrow> 'c \<Rightarrow> DecisionContext \<Rightarrow> ('ev list, 'err) result"
    and app :: "'ev \<Rightarrow> 'a \<Rightarrow> 'a" +
  assumes single: "decide a c ctx = Inr es \<Longrightarrow> length es = 1"
begin

lemma decide_version: "decide a c ctx = Inr es \<Longrightarrow> version (fold app es a) = version a + 1"
  using replay_version [of es a] single [of a c ctx es] by simp

end

text \<open>An aggregate with a status that obeys an abstract transition relation.\<close>

locale status_aggregate =
  aggregate_root agg_id version lifecycle_epoch authority_epoch decide app
  for agg_id :: "'a \<Rightarrow> ObjectId"
    and version :: "'a \<Rightarrow> ObjectVersion"
    and lifecycle_epoch :: "'a \<Rightarrow> LifecycleEpoch"
    and authority_epoch :: "'a \<Rightarrow> AuthorityEpoch"
    and decide :: "'a \<Rightarrow> 'c \<Rightarrow> DecisionContext \<Rightarrow> ('ev list, 'err) result"
    and app :: "'ev \<Rightarrow> 'a \<Rightarrow> 'a" +
  fixes status :: "'a \<Rightarrow> 's" and trans :: "'s \<Rightarrow> 's \<Rightarrow> bool"
  assumes decide_trans:
      "decide a c ctx = Inr es \<Longrightarrow> status (fold app es a) = status a \<or> trans (status a) (status (fold app es a))"
begin

lemma execute_trans:
  "status (execute decide app a cmd) = status a \<or> trans (status a) (status (execute decide app a cmd))"
  using decide_trans [of a "fst cmd" "snd cmd"] by (auto simp: execute_def split: sum.splits)

lemma run_trans: "trans\<^sup>*\<^sup>* (status a) (status (foldl (execute decide app) a cmds))"
proof (induction cmds arbitrary: a)
  case (Cons cmd cmds)
  have "trans\<^sup>*\<^sup>* (status a) (status (execute decide app a cmd))"
    using execute_trans [of a cmd] by auto
  with Cons [of "execute decide app a cmd"] show ?case by simp
qed simp

lemma run_terminal:
  assumes "\<And>t. \<not> trans (status a) t"
  shows "status (foldl (execute decide app) a cmds) = status a"
  using run_trans [of a cmds] assms by (auto elim: converse_rtranclpE)

text \<open>A status set that no transition leaves is never left.\<close>

lemma run_closed:
  assumes "status a \<in> S" and "\<And>s t. s \<in> S \<Longrightarrow> trans s t \<Longrightarrow> t \<in> S"
  shows "status (foldl (execute decide app) a cmds) \<in> S"
  using run_trans [of a cmds] assms by (induction rule: rtranclp_induct) auto

end

text \<open>A status aggregate whose lifecycle epoch moves whenever the status does.\<close>

locale lifecycle_aggregate =
  status_aggregate agg_id version lifecycle_epoch authority_epoch decide app status trans
  for agg_id :: "'a \<Rightarrow> ObjectId"
    and version :: "'a \<Rightarrow> ObjectVersion"
    and lifecycle_epoch :: "'a \<Rightarrow> LifecycleEpoch"
    and authority_epoch :: "'a \<Rightarrow> AuthorityEpoch"
    and decide :: "'a \<Rightarrow> 'c \<Rightarrow> DecisionContext \<Rightarrow> ('ev list, 'err) result"
    and app :: "'ev \<Rightarrow> 'a \<Rightarrow> 'a"
    and status :: "'a \<Rightarrow> 's" and trans :: "'s \<Rightarrow> 's \<Rightarrow> bool" +
  assumes decide_epoch:
      "decide a c ctx = Inr es \<Longrightarrow> status (fold app es a) \<noteq> status a \<Longrightarrow> lifecycle_epoch (fold app es a) \<noteq> lifecycle_epoch a"
begin

lemma execute_epoch:
  "lifecycle_epoch (execute decide app a cmd) = lifecycle_epoch a \<Longrightarrow> status (execute decide app a cmd) = status a"
  using decide_epoch [of a "fst cmd" "snd cmd"] by (auto simp: execute_def split: sum.splits)

end

section \<open>Properties\<close>

text \<open>
  A domain error is retryable exactly when waiting or reloading can help: it is a concurrency
  conflict or a pending conflict; its wire code determines its category and its retryability.
\<close>

theorem domain_error_classes:
  "(DomainError_retryability e = ''RETRYABLE'' \<longleftrightarrow>
      DomainError_category e = ''CONCURRENCY'' \<or> DomainError_code e = ''CONFLICT_PENDING'')
   \<and> (DomainError_code e = DomainError_code e' \<longrightarrow>
      DomainError_category e = DomainError_category e' \<and> DomainError_retryability e = DomainError_retryability e')"
  by (cases e; cases e'; simp)

theorem domain_error_classes_witness:
  "DomainError_retryability (VersionConflict 1 2) = DomainError_retryability (VersionConflict 3 4)"
  using domain_error_classes [of "VersionConflict 1 2" "VersionConflict 3 4"] by simp

end
