(* ===== verification/Sync_Session.thy ===== *)
theory Sync_Session
  imports Sync_Merge Contracts "HOL-Library.Sublist"
begin

text \<open>
  Conflict records, the conflict-pending guard and the synchronisation session
  (\<open>crates/synchronization/synchronization-domain/src/conflict.rs\<close>, \<open>command_guard.rs\<close>, \<open>session.rs\<close>).

  Operations are event envelopes with an opaque JSON payload \<open>'v\<close>; \<open>field_str\<close> stands for
  \<open>payload.as_object().get("field").as_str()\<close>. The identifier and the creation time that \<open>ConflictRecord::new\<close>
  draws are given by \<open>fresh n\<close> for the \<open>n\<close>-th record of the session.
\<close>

section \<open>Conflict records\<close>

datatype ConflictStatus = Open | UnderReview | Resolved

datatype ConflictResolution = LocalWins | RemoteWins | CustomMerge "8 word list" | Escalated

type_synonym 'v op = "'v DomainEventEnvelope"

record 'v ConflictRecord =
  conflict_id :: ConflictId
  conflict_aggregate_id :: ObjectId
  field_path :: string
  local_operation :: "'v op"
  remote_operation :: "'v op"
  conflict_status :: ConflictStatus
  conflict_created_at :: Timestamp
  resolved_at :: "Timestamp option"
  resolution :: "ConflictResolution option"
  conflict_organization_id :: OrganizationId

definition ConflictRecord_new ::
    "ConflictId \<times> Timestamp \<Rightarrow> ObjectId \<Rightarrow> string \<Rightarrow> 'v op \<Rightarrow> 'v op \<Rightarrow> OrganizationId \<Rightarrow> 'v ConflictRecord" where
  "ConflictRecord_new fresh aggregate_id path local_op remote_op org_id =
     \<lparr>conflict_id = fst fresh,
      conflict_aggregate_id = aggregate_id,
      field_path = path,
      local_operation = local_op,
      remote_operation = remote_op,
      conflict_status = Open,
      conflict_created_at = snd fresh,
      resolved_at = None,
      resolution = None,
      conflict_organization_id = org_id\<rparr>"

definition ConflictRecord_resolve :: "Timestamp \<Rightarrow> ConflictResolution \<Rightarrow> 'v ConflictRecord \<Rightarrow> 'v ConflictRecord" where
  "ConflictRecord_resolve now r c = c\<lparr>conflict_status := Resolved, resolution := Some r, resolved_at := Some now\<rparr>"

section \<open>The guard\<close>

datatype GuardError = ConflictPending ConflictId

definition check_conflict_pending ::
    "('a \<Rightarrow> ConflictPendingMarker option) \<Rightarrow> 'a \<Rightarrow> 'c CommandEnvelope \<Rightarrow> (unit, GuardError) result" where
  "check_conflict_pending conflict_pending aggregate envelope =
     (case conflict_pending aggregate of
        Some marker \<Rightarrow>
          if \<not> prefix ''query.'' (cmd_command_type envelope) then Inl (ConflictPending (marker_conflict_id marker))
          else Inr ()
      | None \<Rightarrow> Inr ())"

section \<open>The session\<close>

record AggregateDelta =
  delta_aggregate_id :: ObjectId
  local_clock :: VectorClock
  remote_clock :: VectorClock

datatype SyncResult = Success | Partial "ObjectId list" | SyncAborted

datatype SessionPhase = Discovery | Exchange | Reconciliation | Completion

datatype SessionState = Active | Paused | Completed | Aborted

record SyncCursor =
  cursor_aggregate_id :: ObjectId
  cursor_version :: ObjectVersion
  cursor_vector_clock :: VectorClock

datatype SyncError = InvalidState string | SchemaVersionMismatch

record 'v SynchronizationSession =
  local_replica :: ReplicaId
  remote_replica :: ReplicaId
  session_state :: SessionState
  session_phase :: SessionPhase
  session_clock :: VectorClock
  reconciled_aggregates :: "ObjectId fset"
  pending_conflicts :: "'v ConflictRecord list"
  last_cursor :: SyncCursor
  buffered_operations :: "'v op list"
  field_metadata :: "(string, FieldMetadata) fmap"
  session_organization_id :: OrganizationId

definition session_new :: "ReplicaId \<Rightarrow> ReplicaId \<Rightarrow> OrganizationId \<Rightarrow> 'v SynchronizationSession" where
  "session_new l r organization_id =
     \<lparr>local_replica = l, remote_replica = r, session_state = Active, session_phase = Discovery,
      session_clock = vc_new, reconciled_aggregates = {||}, pending_conflicts = [],
      last_cursor = \<lparr>cursor_aggregate_id = 0, cursor_version = ObjectVersion_INITIAL, cursor_vector_clock = vc_new\<rparr>,
      buffered_operations = [], field_metadata = fmempty, session_organization_id = organization_id\<rparr>"

definition with_field_metadata :: "FieldMetadata list \<Rightarrow> 'v SynchronizationSession \<Rightarrow> 'v SynchronizationSession" where
  "with_field_metadata metadata s =
     fold (\<lambda>m s. s\<lparr>field_metadata := fmupd (field_name m) m (field_metadata s)\<rparr>) metadata s"

definition discover ::
    "VectorClock \<Rightarrow> 'v SynchronizationSession \<Rightarrow> 'v SynchronizationSession \<times> (AggregateDelta list, SyncError) result" where
  "discover remote s =
     (let s = s\<lparr>session_phase := Discovery\<rparr>;
          relation = vc_compare (session_clock s) remote;
          deltas = (if relation = Equal then []
                    else [\<lparr>delta_aggregate_id = cursor_aggregate_id (last_cursor s),
                           local_clock = session_clock s, remote_clock = remote\<rparr>])
      in (s, Inr deltas))"

definition exchange_one :: "'v op \<Rightarrow> 'v SynchronizationSession \<Rightarrow> 'v SynchronizationSession" where
  "exchange_one op s =
     (case vc_compare (session_clock s) (ev_vector_clock op) of
        Before \<Rightarrow> s\<lparr>session_clock := vc_merge (session_clock s) (ev_vector_clock op),
                     buffered_operations := buffered_operations s @ [op]\<rparr>
      | After \<Rightarrow> s
      | Equal \<Rightarrow> s
      | Concurrent \<Rightarrow> s\<lparr>session_clock := vc_merge (session_clock s) (ev_vector_clock op),
                         buffered_operations := buffered_operations s @ [op]\<rparr>)"

definition exchange_operations ::
    "'v op list \<Rightarrow> 'v SynchronizationSession \<Rightarrow> 'v SynchronizationSession \<times> ('v MergeOutcome list, SyncError) result" where
  "exchange_operations operations s =
     (let s = fold exchange_one operations (s\<lparr>session_phase := Exchange\<rparr>);
          outcomes = map (\<lambda>_. BothRetained) [0..<length (buffered_operations s)]
      in (s, Inr outcomes))"

definition extract_field_path :: "('v \<Rightarrow> string option) \<Rightarrow> 'v op \<Rightarrow> string" where
  "extract_field_path field_str op =
     (case field_str (ev_payload op) of Some s \<Rightarrow> s | None \<Rightarrow> ev_event_type op)"

definition push_conflict ::
    "(nat \<Rightarrow> ConflictId \<times> Timestamp) \<Rightarrow> ObjectId \<Rightarrow> string \<Rightarrow> 'v op \<Rightarrow> 'v op \<Rightarrow> 'v SynchronizationSession \<Rightarrow> 'v SynchronizationSession" where
  "push_conflict fresh aggregate_id path prior op s =
     s\<lparr>pending_conflicts := pending_conflicts s
        @ [ConflictRecord_new (fresh (length (pending_conflicts s))) aggregate_id path prior op (session_organization_id s)]\<rparr>"

text \<open>One round of the loop over the drained buffer: the session and the last operation of each aggregate.\<close>

definition reconcile_one ::
    "(nat \<Rightarrow> ConflictId \<times> Timestamp) \<Rightarrow> 'v ShapeCodec \<Rightarrow> ('v \<Rightarrow> string option) \<Rightarrow> 'v op
      \<Rightarrow> 'v SynchronizationSession \<times> (ObjectId, 'v op) fmap \<Rightarrow> 'v SynchronizationSession \<times> (ObjectId, 'v op) fmap" where
  "reconcile_one fresh codec field_str op acc =
     (let (s, last_op_per_aggregate) = acc;
          path = extract_field_path field_str op;
          aggregate_id = ref_id (ev_aggregate_ref op);
          is_authority = (case fmlookup (field_metadata s) path of Some m \<Rightarrow> is_authority_controlled m | None \<Rightarrow> True);
          s = (case fmlookup last_op_per_aggregate aggregate_id of
                 None \<Rightarrow> s
               | Some prior \<Rightarrow>
                   if vc_compare (ev_vector_clock prior) (ev_vector_clock op) = Concurrent then
                     if is_authority then push_conflict fresh aggregate_id path prior op s
                     else (case fmlookup (field_metadata s) path of
                             Some metadata \<Rightarrow>
                               (case merge_field codec metadata (ev_payload prior) (ev_payload op)
                                       (ev_vector_clock prior) (ev_vector_clock op) of
                                  Conflict _ \<Rightarrow> push_conflict fresh aggregate_id path prior op s
                                | _ \<Rightarrow> s)
                           | None \<Rightarrow> s)
                   else s)
      in (s\<lparr>reconciled_aggregates := finsert aggregate_id (reconciled_aggregates s)\<rparr>,
          fmupd aggregate_id op last_op_per_aggregate))"

definition reconcile ::
    "(nat \<Rightarrow> ConflictId \<times> Timestamp) \<Rightarrow> 'v ShapeCodec \<Rightarrow> ('v \<Rightarrow> string option) \<Rightarrow> 'v SynchronizationSession
      \<Rightarrow> 'v SynchronizationSession \<times> ('v ConflictRecord list, SyncError) result" where
  "reconcile fresh codec field_str s =
     (let s = s\<lparr>session_phase := Reconciliation\<rparr>;
          ops = buffered_operations s;
          s = s\<lparr>buffered_operations := []\<rparr>;
          (s, _) = fold (reconcile_one fresh codec field_str) ops (s, fmempty)
      in (s, Inr (pending_conflicts s)))"


definition session_resume :: "'v SynchronizationSession \<Rightarrow> 'v SynchronizationSession \<times> (unit, SyncError) result" where
  "session_resume s =
     (if session_state s \<noteq> Paused then (s, Inl (InvalidState ''Session is not paused''))
      else (s\<lparr>session_state := Active\<rparr>, Inr ()))"

definition session_pause :: "'v SynchronizationSession \<Rightarrow> 'v SynchronizationSession \<times> (SyncCursor, SyncError) result" where
  "session_pause s = (s\<lparr>session_state := Paused\<rparr>, Inr (last_cursor s))"

section \<open>Exchange\<close>

text \<open>An operation is accepted exactly when its clock is not below the frontier.\<close>

lemma exchange_one_eq:
  "exchange_one op s =
     (if vc_le (ev_vector_clock op) (session_clock s) then s
      else s\<lparr>session_clock := vc_merge (session_clock s) (ev_vector_clock op),
             buffered_operations := buffered_operations s @ [op]\<rparr>)"
  by (simp add: exchange_one_def vc_compare_le)

fun accepted :: "VectorClock \<Rightarrow> 'v op list \<Rightarrow> 'v op list" where
  "accepted frontier [] = []"
| "accepted frontier (op # ops) =
     (if vc_le (ev_vector_clock op) frontier then accepted frontier ops
      else op # accepted (vc_merge frontier (ev_vector_clock op)) ops)"

lemma exchange_fold:
  "buffered_operations (fold exchange_one ops s) = buffered_operations s @ accepted (session_clock s) ops"
  "pending_conflicts (fold exchange_one ops s) = pending_conflicts s"
  by (induction ops arbitrary: s) (simp_all add: exchange_one_eq)

lemma vc_merge_get_absorb: "vc_le b a \<Longrightarrow> vc_get (vc_merge a b) r = vc_get a r"
  by (simp add: vc_le_def max_absorb1)

lemma exchange_frontier:
  "vc_get (session_clock (fold exchange_one ops s)) r
    = vc_get (foldl vc_merge (session_clock s) (map ev_vector_clock ops)) r"
proof (induction ops arbitrary: s)
  case (Cons op ops)
  have cong: "vc_get (foldl vc_merge a cs) r = vc_get (foldl vc_merge b cs) r" if "\<And>r. vc_get a r = vc_get b r" for a b cs
    using that by (induction cs arbitrary: a b) simp_all
  show ?case
  proof (cases "vc_le (ev_vector_clock op) (session_clock s)")
    case True
    with Cons [of s] cong [of "session_clock s" "vc_merge (session_clock s) (ev_vector_clock op)"] vc_merge_get_absorb [OF True]
    show ?thesis by (simp add: exchange_one_eq del: vc_get_merge)
  next
    case False
    with Cons show ?thesis by (simp add: exchange_one_eq)
  qed
qed simp

lemma vc_le_foldl: "vc_le c a \<or> c \<in> set cs \<Longrightarrow> vc_le c (foldl vc_merge a cs)"
proof (induction cs arbitrary: a)
  case (Cons d cs)
  have "vc_le c (vc_merge a d) \<or> c \<in> set cs"
    using Cons.prems vc_le_merge vc_le_trans by (metis set_ConsD vc_le_refl)
  from Cons.IH [OF this] show ?case by simp
qed auto

lemma exchange_seen:
  assumes "op \<in> set ops \<or> vc_le (ev_vector_clock op) (session_clock s)"
  shows "vc_le (ev_vector_clock op) (session_clock (fold exchange_one ops s))"
proof -
  have "vc_le (ev_vector_clock op) (foldl vc_merge (session_clock s) (map ev_vector_clock ops))"
    using assms by (intro vc_le_foldl) auto
  then show ?thesis by (simp add: vc_le_def exchange_frontier)
qed

lemma exchange_seen_noop: "\<forall>op \<in> set ops. vc_le (ev_vector_clock op) (session_clock s) \<Longrightarrow> fold exchange_one ops s = s"
  by (induction ops) (simp_all add: exchange_one_eq)

section \<open>Reconciliation\<close>

abbreviation op_aggregate :: "'v op \<Rightarrow> ObjectId" where
  "op_aggregate op \<equiv> ref_id (ev_aggregate_ref op)"

text \<open>When the second of two successive operations on an aggregate is put before a human.\<close>

definition needs_review ::
    "'v ShapeCodec \<Rightarrow> ('v \<Rightarrow> string option) \<Rightarrow> (string, FieldMetadata) fmap \<Rightarrow> 'v op \<Rightarrow> 'v op \<Rightarrow> bool" where
  "needs_review codec field_str metadata prior op \<longleftrightarrow>
     vc_compare (ev_vector_clock prior) (ev_vector_clock op) = Concurrent
     \<and> (case fmlookup metadata (extract_field_path field_str op) of
          None \<Rightarrow> True
        | Some m \<Rightarrow> is_authority_controlled m
            \<or> (\<exists>t. merge_field codec m (ev_payload prior) (ev_payload op) (ev_vector_clock prior) (ev_vector_clock op) = Conflict t))"

text \<open>Each operation with the last operation before it on the same aggregate; \<open>seen\<close> is the past, latest first.\<close>

fun successive :: "'v op list \<Rightarrow> 'v op list \<Rightarrow> ('v op \<times> 'v op) list" where
  "successive seen [] = []"
| "successive seen (op # ops) =
     (case find (\<lambda>p. op_aggregate p = op_aggregate op) seen of None \<Rightarrow> [] | Some prior \<Rightarrow> [(prior, op)])
     @ successive (op # seen) ops"

definition conflict_pair :: "'v ConflictRecord \<Rightarrow> 'v op \<times> 'v op" where
  "conflict_pair c = (local_operation c, remote_operation c)"

text \<open>A record as \<open>reconcile\<close> creates it.\<close>

definition fresh_conflict :: "OrganizationId \<Rightarrow> ('v \<Rightarrow> string option) \<Rightarrow> 'v ConflictRecord \<Rightarrow> bool" where
  "fresh_conflict org field_str c \<longleftrightarrow> conflict_status c = Open \<and> resolved_at c = None \<and> resolution c = None
     \<and> conflict_aggregate_id c = op_aggregate (remote_operation c)
     \<and> field_path c = extract_field_path field_str (remote_operation c) \<and> conflict_organization_id c = org"

lemma reconcile_one_eq:
  "reconcile_one fresh codec field_str op (s, prev) =
     (let s' = (case fmlookup prev (op_aggregate op) of
                  None \<Rightarrow> s
                | Some prior \<Rightarrow>
                    if needs_review codec field_str (field_metadata s) prior op
                    then push_conflict fresh (op_aggregate op) (extract_field_path field_str op) prior op s else s)
      in (s'\<lparr>reconciled_aggregates := finsert (op_aggregate op) (reconciled_aggregates s')\<rparr>, fmupd (op_aggregate op) op prev))"
proof (cases "fmlookup prev (op_aggregate op)")
  case None
  then show ?thesis by (simp add: reconcile_one_def Let_def)
next
  case (Some prior)
  define out where "out m = merge_field codec m (ev_payload prior) (ev_payload op) (ev_vector_clock prior) (ev_vector_clock op)" for m
  show ?thesis
  proof (cases "fmlookup (field_metadata s) (extract_field_path field_str op)")
    case None
    with Some show ?thesis by (simp add: reconcile_one_def needs_review_def Let_def)
  next
    case md: (Some m)
    have "(case out m of Applied v \<Rightarrow> x | BothRetained \<Rightarrow> x | Conflict t \<Rightarrow> y) = (if \<exists>t. out m = Conflict t then y else x)" for x y :: "'a SynchronizationSession"
      by (cases "out m") auto
    with Some md show ?thesis by (simp add: reconcile_one_def needs_review_def out_def Let_def)
  qed
qed

lemma push_conflict_simps [simp]:
  "field_metadata (push_conflict fresh a f p q s) = field_metadata s"
  "session_organization_id (push_conflict fresh a f p q s) = session_organization_id s"
  "session_clock (push_conflict fresh a f p q s) = session_clock s"
  "session_state (push_conflict fresh a f p q s) = session_state s"
  "buffered_operations (push_conflict fresh a f p q s) = buffered_operations s"
  "reconciled_aggregates (push_conflict fresh a f p q s) = reconciled_aggregates s"
  by (simp_all add: push_conflict_def)

lemma reconcile_fold:
  assumes "\<And>a. fmlookup prev a = find (\<lambda>p. op_aggregate p = a) seen"
    and "fold (reconcile_one fresh codec field_str) ops (s, prev) = (s', prev')"
  shows "\<exists>new. pending_conflicts s' = pending_conflicts s @ new
      \<and> map conflict_pair new = filter (\<lambda>(p, q). needs_review codec field_str (field_metadata s) p q) (successive seen ops)
      \<and> (\<forall>c \<in> set new. fresh_conflict (session_organization_id s) field_str c)
    \<and> reconciled_aggregates s' = reconciled_aggregates s |\<union>| fset_of_list (map op_aggregate ops)
    \<and> session_clock s' = session_clock s \<and> buffered_operations s' = buffered_operations s \<and> session_state s' = session_state s"
  using assms
proof (induction ops arbitrary: s prev seen)
  case Nil
  then show ?case by simp
next
  case (Cons op ops)
  obtain s1 prev1 where one: "reconcile_one fresh codec field_str op (s, prev) = (s1, prev1)" by force
  have prev1: "fmlookup prev1 a = find (\<lambda>p. op_aggregate p = a) (op # seen)" for a
    using one Cons.prems(1) by (auto simp: reconcile_one_eq Let_def)
  from one have "fold (reconcile_one fresh codec field_str) ops (s1, prev1) = (s', prev')" using Cons.prems(2) by simp
  from Cons.IH [OF prev1 this] obtain new where new: "pending_conflicts s' = pending_conflicts s1 @ new"
    "map conflict_pair new = filter (\<lambda>(p, q). needs_review codec field_str (field_metadata s1) p q) (successive (op # seen) ops)"
    "\<forall>c \<in> set new. fresh_conflict (session_organization_id s1) field_str c"
    "reconciled_aggregates s' = reconciled_aggregates s1 |\<union>| fset_of_list (map op_aggregate ops)"
    "session_clock s' = session_clock s1" "buffered_operations s' = buffered_operations s1" "session_state s' = session_state s1"
    by blast
  have keep: "field_metadata s1 = field_metadata s" "session_organization_id s1 = session_organization_id s"
    "session_clock s1 = session_clock s" "buffered_operations s1 = buffered_operations s" "session_state s1 = session_state s"
    "reconciled_aggregates s1 = finsert (op_aggregate op) (reconciled_aggregates s)"
    using one by (auto simp: reconcile_one_eq Let_def split: option.splits if_splits)
  obtain here where here: "pending_conflicts s1 = pending_conflicts s @ here"
    "map conflict_pair here = filter (\<lambda>(p, q). needs_review codec field_str (field_metadata s) p q)
       (case find (\<lambda>p. op_aggregate p = op_aggregate op) seen of None \<Rightarrow> [] | Some prior \<Rightarrow> [(prior, op)])"
    "\<forall>c \<in> set here. fresh_conflict (session_organization_id s) field_str c"
    using one Cons.prems(1) [of "op_aggregate op"]
    by (cases "find (\<lambda>p. op_aggregate p = op_aggregate op) seen")
      (auto simp: reconcile_one_eq Let_def push_conflict_def ConflictRecord_new_def conflict_pair_def fresh_conflict_def
        split: if_splits)
  show ?case
    using new here keep by (intro exI [of _ "here @ new"]) auto
qed

lemma reconcile_result:
  assumes "reconcile fresh codec field_str s = (s', res)"
  shows "res = Inr (pending_conflicts s')" and "buffered_operations s' = []" and "session_clock s' = session_clock s"
    and "\<exists>new. pending_conflicts s' = pending_conflicts s @ new
      \<and> map conflict_pair new = filter (\<lambda>(p, q). needs_review codec field_str (field_metadata s) p q) (successive [] (buffered_operations s))
      \<and> (\<forall>c \<in> set new. fresh_conflict (session_organization_id s) field_str c)"
proof -
  let ?s = "s\<lparr>session_phase := Reconciliation, buffered_operations := []\<rparr>"
  obtain s1 prev1 where f: "fold (reconcile_one fresh codec field_str) (buffered_operations s) (?s, fmempty) = (s1, prev1)" by force
  with assms have s1: "s' = s1" "res = Inr (pending_conflicts s1)" by (auto simp: reconcile_def Let_def)
  note fold = reconcile_fold [OF _ f, of "[]"]
  show "res = Inr (pending_conflicts s')" using s1 by simp
  show "buffered_operations s' = []" and "session_clock s' = session_clock s" using fold s1 by auto
  show "\<exists>new. pending_conflicts s' = pending_conflicts s @ new
      \<and> map conflict_pair new = filter (\<lambda>(p, q). needs_review codec field_str (field_metadata s) p q) (successive [] (buffered_operations s))
      \<and> (\<forall>c \<in> set new. fresh_conflict (session_organization_id s) field_str c)"
    using fold s1 by auto
qed

section \<open>Properties\<close>

text \<open>
  Exchange keeps the causal frontier: after a batch the frontier is, replica by replica, the join of
  the old one with all clocks of the batch, exactly the operations not already below the frontier are
  buffered, in order, and delivering any part of the batch again changes nothing.
\<close>

theorem exchange_frontier_dedup:
  assumes "set again \<subseteq> set ops" and "exchange_operations ops s = (s', res)"
  shows "vc_get (session_clock s') r = vc_get (foldl vc_merge (session_clock s) (map ev_vector_clock ops)) r
    \<and> buffered_operations s' = buffered_operations s @ accepted (session_clock s) ops
    \<and> exchange_operations again s' = (s', res) \<and> pending_conflicts s' = pending_conflicts s"
proof -
  let ?s = "s\<lparr>session_phase := Exchange\<rparr>"
  have s': "s' = fold exchange_one ops ?s" and res: "res = Inr (map (\<lambda>_. BothRetained) [0..<length (buffered_operations s')])"
    using assms(2) by (auto simp: exchange_operations_def Let_def)
  have phase: "session_phase (fold exchange_one ops t) = session_phase t" for t :: "'a SynchronizationSession"
    by (induction ops arbitrary: t) (simp_all add: exchange_one_eq)
  have "\<forall>op \<in> set again. vc_le (ev_vector_clock op) (session_clock s')"
    using assms(1) exchange_seen [of _ ops ?s] by (auto simp: s')
  then have "fold exchange_one again s' = s'" by (rule exchange_seen_noop)
  moreover have "s'\<lparr>session_phase := Exchange\<rparr> = s'" using phase [of ?s] by (simp add: s')
  ultimately have "exchange_operations again s' = (s', res)" by (simp add: exchange_operations_def Let_def res)
  then show ?thesis by (simp add: s' exchange_frontier exchange_fold)
qed

definition sample_op :: "ReplicaId \<Rightarrow> u64 \<Rightarrow> string \<Rightarrow> string op" where
  "sample_op r n field = \<lparr>ev_event_id = 0, ev_event_type = ''e'', ev_schema_version = ''1.0'',
     ev_aggregate_ref = \<lparr>ref_id = 9, ref_type = ''t'', ref_organization_id = 3\<rparr>, ev_aggregate_version = 1,
     ev_lifecycle_epoch = 0, ev_authority_epoch = 0, ev_operation_id = 0,
     ev_actor = \<lparr>user_id = 1, device_id = 2, actor_organization_id = 3\<rparr>, ev_occurred_at = 0, ev_recorded_at = 0,
     ev_vector_clock = \<lparr>vc_entries = fmupd r n fmempty\<rparr>, ev_correlation_id = 0, ev_causation_id = None,
     ev_audit_metadata = \<lparr>source_service = ''s'', source_replica = 0, integrity_digest = None, classification = Internal,
       tenant_isolation_key = 3\<rparr>, ev_payload = field\<rparr>"

theorem exchange_frontier_dedup_witness:
  "buffered_operations (fst (exchange_operations [sample_op 1 1 ''f'', sample_op 1 1 ''f''] (session_new 1 2 3)))
    = accepted vc_new [sample_op 1 1 ''f'', sample_op 1 1 ''f'']"
  using exchange_frontier_dedup [of "[]" "[sample_op 1 1 ''f'', sample_op 1 1 ''f'']" "session_new 1 2 3"]
  by (cases "exchange_operations [sample_op 1 1 ''f'', sample_op 1 1 ''f''] (session_new 1 2 3)")
    (simp add: session_new_def)


definition sample_session :: "string op list \<Rightarrow> string SynchronizationSession" where
  "sample_session ops = (session_new 1 2 3)\<lparr>buffered_operations := ops, field_metadata :=
     fmupd ''log'' \<lparr>field_name = ''log'', field_shape = AppendOnlyLogShape, is_authority_controlled = False, is_crdt_eligible = True\<rparr>
     (fmupd ''owner'' \<lparr>field_name = ''owner'', field_shape = AuthorityControlled, is_authority_controlled = True, is_crdt_eligible = False\<rparr>
      fmempty)\<rparr>"

definition sample_string_codec :: "string ShapeCodec" where
  "sample_string_codec = \<lparr>or_set_codec = (\<lambda>_. None, \<lambda>_. None), lww_codec = (\<lambda>_. None, \<lambda>_. None),
     mv_codec = (\<lambda>_. None, \<lambda>_. None), pn_codec = (\<lambda>_. None, \<lambda>_. None), rga_codec = (\<lambda>_. None, \<lambda>_. None)\<rparr>"


text \<open>
  Only neighbours are compared: two concurrent writes to the same authority-controlled field of one aggregate can both
  pass without any conflict record, when an operation on a mergeable field stands between them.
\<close>

theorem reconcile_misses_conflict:
  "\<exists>a b c :: string op. op_aggregate a = op_aggregate c
     \<and> extract_field_path Some a = ''owner'' \<and> extract_field_path Some c = ''owner''
     \<and> vc_compare (ev_vector_clock a) (ev_vector_clock c) = Concurrent
     \<and> (\<exists>md. fmlookup (field_metadata (sample_session [a, b, c])) ''owner'' = Some md \<and> is_authority_controlled md)
     \<and> snd (reconcile fresh sample_string_codec Some (sample_session [a, b, c])) = Inr []"
proof -
  let ?a = "sample_op 1 1 ''owner''" and ?b = "sample_op 2 1 ''log''" and ?c = "sample_op 2 2 ''owner''"
  let ?s = "sample_session [?a, ?b, ?c]"
  obtain s' res where r: "reconcile fresh sample_string_codec Some ?s = (s', res)" by force
  have ord: "vc_compare \<lparr>vc_entries = fmupd 1 1 fmempty\<rparr> \<lparr>vc_entries = fmupd 2 1 fmempty\<rparr> = Concurrent"
    "vc_compare \<lparr>vc_entries = fmupd 2 1 fmempty\<rparr> \<lparr>vc_entries = fmupd 2 2 fmempty\<rparr> = Before"
    "vc_compare \<lparr>vc_entries = fmupd 1 1 fmempty\<rparr> \<lparr>vc_entries = fmupd 2 2 fmempty\<rparr> = Concurrent"
    by code_simp+
  have "\<not> needs_review sample_string_codec Some (field_metadata ?s) ?a ?b"
    and "\<not> needs_review sample_string_codec Some (field_metadata ?s) ?b ?c"
    by (simp_all add: needs_review_def ord sample_op_def extract_field_path_def sample_session_def merge_field_def)
  then have "filter (\<lambda>(p, q). needs_review sample_string_codec Some (field_metadata ?s) p q) (successive [] (buffered_operations ?s)) = []"
    by (simp add: sample_session_def) (simp add: sample_op_def)
  moreover have "pending_conflicts ?s = []" by (simp add: sample_session_def session_new_def)
  ultimately have "snd (reconcile fresh sample_string_codec Some ?s) = Inr []"
    using reconcile_result [OF r] by (auto simp: r)
  moreover have "op_aggregate ?a = op_aggregate ?c" "extract_field_path Some ?a = ''owner''" "extract_field_path Some ?c = ''owner''"
    "vc_compare (ev_vector_clock ?a) (ev_vector_clock ?c) = Concurrent"
    "\<exists>md. fmlookup (field_metadata ?s) ''owner'' = Some md \<and> is_authority_controlled md"
    by (simp_all add: sample_op_def extract_field_path_def ord sample_session_def)
  ultimately show ?thesis by blast
qed

text \<open>
  A command on an aggregate with an unresolved conflict passes the guard exactly when its type starts with \<open>query.\<close>, and the
  refusal names the conflict; without a pending conflict every command passes.
\<close>

theorem guard_blocks_mutations:
  "check_conflict_pending pending aggregate envelope =
     (if (\<exists>marker. pending aggregate = Some marker) \<and> (\<nexists>rest. cmd_command_type envelope = ''query.'' @ rest)
      then Inl (ConflictPending (marker_conflict_id (the (pending aggregate)))) else Inr ())"
  by (auto simp: check_conflict_pending_def prefix_def split: option.splits)

text \<open>
  Suspension loses nothing: pausing returns the saved cursor, resuming a paused session gives back the session as it was before
  the pause when it was active, and resuming any session that is not paused is refused and changes nothing.
\<close>

theorem pause_resume_roundtrip:
  "session_resume (fst (session_pause s)) = (s\<lparr>session_state := Active\<rparr>, Inr ())
   \<and> snd (session_pause s) = Inr (last_cursor s)
   \<and> (session_state s \<noteq> Paused \<longrightarrow> session_resume s = (s, Inl (InvalidState ''Session is not paused'')))
   \<and> (session_state s = Active \<longrightarrow> fst (session_resume (fst (session_pause s))) = s)"
  by (simp add: session_resume_def session_pause_def)

theorem pause_resume_roundtrip_witness:
  "fst (session_resume (fst (session_pause (session_new 1 2 3 :: nat SynchronizationSession)))) = session_new 1 2 3"
  using pause_resume_roundtrip [of "session_new 1 2 3 :: nat SynchronizationSession"] by (simp add: session_new_def)

end
