(* ===== verification/Persistence_Sqlite.thy ===== *)
theory Persistence_Sqlite
  imports Contracts
begin

text \<open>
  The SQLite persistence adapter (\<open>crates/infrastructure/persistence-sqlite\<close>, with the ports of
  \<open>crates/applications/query-application\<close>): the tables, the repository, and the unit of work that stages writes and
  flushes them in one transaction.

  The database engine and \<open>serde_json\<close> are not part of the repository. The tables are records of rows, a
  statement acts on them as its SQL says, and \<open>fault n\<close> is the error the engine reports for the \<open>n\<close>-th
  statement of a transaction (\<open>None\<close> when there is none; the last position is the \<open>COMMIT\<close>). A transaction that fails is
  rolled back. \<open>JsonOps\<close> collects the accessors of JSON values that the adapter calls. The outbox table is
  kept as the list of the messages inserted, in insertion order (the columns for publication state belong to the outbox
  store); rendering a vector clock as JSON text, which does not fail, is not repeated here.
\<close>

section \<open>JSON access\<close>

type_synonym i64 = "64 word"

record 'v JsonOps =
  json_get :: "'v \<Rightarrow> string \<Rightarrow> 'v option"
  json_get_0 :: "'v \<Rightarrow> 'v option"
  json_is_null :: "'v \<Rightarrow> bool"
  json_as_array :: "'v \<Rightarrow> 'v list option"
  json_as_u64 :: "'v \<Rightarrow> u64 option"
  json_as_i64 :: "'v \<Rightarrow> i64 option"
  json_as_str :: "'v \<Rightarrow> string option"
  json_null :: 'v
  value_to_text :: "'v \<Rightarrow> string option"
  text_to_value :: "string \<Rightarrow> 'v option"

text \<open>\<^verbatim>\<open>for (i, b) in arr.iter().enumerate() { out[i] = b.as_u64()? as u8; }\<close>\<close>

definition bytes_of_json :: "'v JsonOps \<Rightarrow> 'v list \<Rightarrow> bytes16 option" where
  "bytes_of_json J arr =
     map_option (\<lambda>bs. word_of_nat (bytes_be bs)) (those (map (\<lambda>b. map_option ucast (json_as_u64 J b)) arr))"

definition repo_extract_id_bytes :: "'v JsonOps \<Rightarrow> 'v \<Rightarrow> string \<Rightarrow> bytes16 option" where
  "repo_extract_id_bytes J value key =
     (case json_get J value key of
        None \<Rightarrow> None
      | Some raw \<Rightarrow>
          (case json_as_array J raw of
             None \<Rightarrow> None
           | Some arr \<Rightarrow> if length arr \<noteq> 16 then None else bytes_of_json J arr))"

definition extract_event_id :: "'v JsonOps \<Rightarrow> 'v \<Rightarrow> EventId option" where
  "extract_event_id J event =
     (case json_get J event ''event_id'' of
        None \<Rightarrow> None
      | Some raw \<Rightarrow>
          (case json_as_array J raw of
             None \<Rightarrow> None
           | Some bytes \<Rightarrow> if length bytes \<noteq> 16 then None else bytes_of_json J bytes))"

definition uow_extract_id_bytes :: "'v JsonOps \<Rightarrow> 'v \<Rightarrow> string \<Rightarrow> bytes16 option" where
  "uow_extract_id_bytes J value key =
     (case json_get J value key of
        None \<Rightarrow> None
      | Some raw \<Rightarrow>
          if json_is_null J raw then None
          else
            let direct = (case json_as_array J raw of
                            Some items \<Rightarrow> if length items = 16 then Some items else None
                          | None \<Rightarrow> None)
            in (case (case direct of
                        Some arr \<Rightarrow> Some arr
                      | None \<Rightarrow> (case json_get_0 J raw of None \<Rightarrow> None | Some r \<Rightarrow> json_as_array J r)) of
                  None \<Rightarrow> None
                | Some arr \<Rightarrow> if length arr \<noteq> 16 then None else bytes_of_json J arr))"

definition timestamp_to_millis :: "Timestamp \<Rightarrow> i64" where
  "timestamp_to_millis ts = ts div 1000000"

section \<open>Tables\<close>

record AggregateRow =
  row_aggregate_type :: string
  row_version :: i64
  row_lifecycle_epoch :: i64
  row_authority_epoch :: i64
  row_state :: string
  row_updated_at :: i64
  row_organization_id :: OrganizationId

record EventRow =
  er_event_id :: EventId
  er_aggregate_id :: ObjectId
  er_aggregate_version :: i64
  er_event_type :: string
  er_payload :: string
  er_occurred_at :: i64
  er_vector_clock :: string
  er_operation_id :: OperationId
  er_correlation_id :: CorrelationId
  er_causation_id :: "EventId option"
  er_actor :: string
  er_organization_id :: OrganizationId

record OutboxMessage =
  om_event_id :: EventId
  om_event_type :: string
  om_aggregate_id :: string
  om_organization_id :: OrganizationId
  om_payload :: string
  om_vector_clock :: VectorClock
  om_occurred_at :: Timestamp

record Db =
  aggregates :: "(ObjectId, AggregateRow) fmap"
  domain_events :: "EventRow list"
  outbox :: "OutboxMessage list"
  idempotency :: "(OperationId, string) fmap"

section \<open>Ports\<close>

datatype RepositoryError =
    ConnectionFailure | RepoVersionConflict | RepoEpochConflict | ConstraintViolation string
  | SerializationError string | RepoNotFound | UnknownError string

datatype UnitOfWorkError = CommitFailed string | RollbackFailed | EventRegistration string

record 'v Loaded =
  loaded_aggregate :: 'v
  loaded_version :: ObjectVersion
  loaded_lifecycle_epoch :: LifecycleEpoch
  loaded_authority_epoch :: AuthorityEpoch

record 'v StagedAggregateUpsert =
  up_id :: ObjectId
  up_aggregate_type :: string
  up_organization_id :: OrganizationId
  up_version :: i64
  up_lifecycle_epoch :: i64
  up_authority_epoch :: i64
  up_state :: 'v
  up_updated_at_millis :: i64

record 'v SqliteUnitOfWork =
  txn_open :: bool
  staged_events :: "(EventId \<times> 'v) list"
  staged_outbox :: "OutboxMessage list"
  staged_idempotency :: "(OperationId \<times> 'v) list"
  staged_upserts :: "'v StagedAggregateUpsert list"
  uow_organization_id :: OrganizationId

section \<open>The unit of work\<close>

definition uow_begin :: "OrganizationId \<Rightarrow> 'v SqliteUnitOfWork" where
  "uow_begin org =
     \<lparr>txn_open = True, staged_events = [], staged_outbox = [], staged_idempotency = [], staged_upserts = [],
      uow_organization_id = org\<rparr>"

definition stage_aggregate_upsert :: "'v StagedAggregateUpsert \<Rightarrow> 'v SqliteUnitOfWork \<Rightarrow> 'v SqliteUnitOfWork" where
  "stage_aggregate_upsert upsert u = u\<lparr>staged_upserts := staged_upserts u @ [upsert]\<rparr>"

definition register_event :: "'v JsonOps \<Rightarrow> 'v \<Rightarrow> 'v SqliteUnitOfWork \<Rightarrow> 'v SqliteUnitOfWork" where
  "register_event J event u =
     (let event_id = (case extract_event_id J event of None \<Rightarrow> 0 | Some e \<Rightarrow> e)
      in u\<lparr>staged_events := staged_events u @ [(event_id, event)]\<rparr>)"

definition register_outbox :: "OutboxMessage \<Rightarrow> 'v SqliteUnitOfWork \<Rightarrow> 'v SqliteUnitOfWork" where
  "register_outbox message u = u\<lparr>staged_outbox := staged_outbox u @ [message]\<rparr>"

definition register_idempotency_result :: "OperationId \<Rightarrow> 'v \<Rightarrow> 'v SqliteUnitOfWork \<Rightarrow> 'v SqliteUnitOfWork" where
  "register_idempotency_result operation_id result u =
     u\<lparr>staged_idempotency := staged_idempotency u @ [(operation_id, result)]\<rparr>"

abbreviation text_or_braces :: "'v JsonOps \<Rightarrow> 'v \<Rightarrow> string" where
  "text_or_braces J v \<equiv> (case value_to_text J v of Some t \<Rightarrow> t | None \<Rightarrow> ''{}'')"

text \<open>
  \<open>INSERT .. ON CONFLICT (id) DO UPDATE .. WHERE aggregates.version < excluded.version\<close>. The update leaves the type and the
  organisation of the row alone; no row affected is an error.
\<close>

definition upsert_aggregate :: "'v JsonOps \<Rightarrow> 'v StagedAggregateUpsert \<Rightarrow> Db \<Rightarrow> (Db, string) result" where
  "upsert_aggregate J up db =
     (let state_text = text_or_braces J (up_state up)
      in case fmlookup (aggregates db) (up_id up) of
        None \<Rightarrow>
          Inr (db\<lparr>aggregates := fmupd (up_id up)
            \<lparr>row_aggregate_type = up_aggregate_type up, row_version = up_version up,
             row_lifecycle_epoch = up_lifecycle_epoch up, row_authority_epoch = up_authority_epoch up,
             row_state = state_text, row_updated_at = up_updated_at_millis up,
             row_organization_id = up_organization_id up\<rparr> (aggregates db)\<rparr>)
      | Some row \<Rightarrow>
          if sint (row_version row) < sint (up_version up) then
            Inr (db\<lparr>aggregates := fmupd (up_id up)
              (row\<lparr>row_version := up_version up, row_lifecycle_epoch := up_lifecycle_epoch up,
                   row_authority_epoch := up_authority_epoch up, row_state := state_text,
                   row_updated_at := up_updated_at_millis up\<rparr>) (aggregates db)\<rparr>)
          else Inl ''RowNotFound'')"

definition event_row :: "'v JsonOps \<Rightarrow> EventId \<times> 'v \<Rightarrow> EventRow" where
  "event_row J staged =
     (let value = snd staged;
          aggregate_ref = (case json_get J value ''aggregate_ref'' of Some v \<Rightarrow> v | None \<Rightarrow> json_null J);
          get = (\<lambda>key. case json_get J value key of Some v \<Rightarrow> v | None \<Rightarrow> json_null J);
          id_or_zero = (\<lambda>v key. case uow_extract_id_bytes J v key of Some i \<Rightarrow> i | None \<Rightarrow> 0);
          i64_of = (\<lambda>key. case json_get J value key of None \<Rightarrow> None | Some v \<Rightarrow> json_as_i64 J v)
      in \<lparr>er_event_id = fst staged,
          er_aggregate_id = id_or_zero aggregate_ref ''id'',
          er_aggregate_version = (case i64_of ''aggregate_version'' of Some n \<Rightarrow> n | None \<Rightarrow> 0),
          er_event_type = (case json_get J value ''event_type'' of
              Some v \<Rightarrow> (case json_as_str J v of Some s \<Rightarrow> s | None \<Rightarrow> '''') | None \<Rightarrow> ''''),
          er_payload = text_or_braces J value,
          er_occurred_at = (case i64_of ''occurred_at'' of Some nanos \<Rightarrow> timestamp_to_millis nanos | None \<Rightarrow> 0),
          er_vector_clock = text_or_braces J (get ''vector_clock''),
          er_operation_id = id_or_zero value ''operation_id'',
          er_correlation_id = id_or_zero value ''correlation_id'',
          er_causation_id = uow_extract_id_bytes J value ''causation_id'',
          er_actor = text_or_braces J (get ''actor''),
          er_organization_id = id_or_zero aggregate_ref ''organization_id''\<rparr>)"

text \<open>\<open>event_id\<close> is the primary key of \<open>domain_events\<close>.\<close>

definition insert_domain_event :: "'v JsonOps \<Rightarrow> EventId \<times> 'v \<Rightarrow> Db \<Rightarrow> (Db, string) result" where
  "insert_domain_event J staged db =
     (if fst staged \<in> er_event_id ` set (domain_events db) then Inl ''UNIQUE constraint failed: domain_events.event_id''
      else Inr (db\<lparr>domain_events := domain_events db @ [event_row J staged]\<rparr>))"

definition insert_outbox_message :: "OutboxMessage \<Rightarrow> Db \<Rightarrow> (Db, string) result" where
  "insert_outbox_message message db = Inr (db\<lparr>outbox := outbox db @ [message]\<rparr>)"

text \<open>\<open>ON CONFLICT (operation_id) DO NOTHING\<close>\<close>

definition insert_idempotency :: "'v JsonOps \<Rightarrow> OperationId \<times> 'v \<Rightarrow> Db \<Rightarrow> (Db, string) result" where
  "insert_idempotency J staged db =
     Inr (case fmlookup (idempotency db) (fst staged) of
            Some _ \<Rightarrow> db
          | None \<Rightarrow> db\<lparr>idempotency := fmupd (fst staged) (text_or_braces J (snd staged)) (idempotency db)\<rparr>)"

text \<open>The statements of a transaction in their order, each with the wrapping of its error.\<close>

type_synonym statement = "(Db \<Rightarrow> (Db, string) result) \<times> (string \<Rightarrow> UnitOfWorkError)"

fun run_statements ::
    "(nat \<Rightarrow> string option) \<Rightarrow> nat \<Rightarrow> statement list \<Rightarrow> Db \<Rightarrow> (Db, UnitOfWorkError) result" where
  "run_statements fault n [] db =
     (case fault n of Some e \<Rightarrow> Inl (CommitFailed e) | None \<Rightarrow> Inr db)"
| "run_statements fault n ((exec, wrap) # stmts) db =
     (case fault n of
        Some e \<Rightarrow> Inl (wrap e)
      | None \<Rightarrow> (case exec db of Inl e \<Rightarrow> Inl (wrap e) | Inr db' \<Rightarrow> run_statements fault (Suc n) stmts db'))"

definition uow_statements :: "'v JsonOps \<Rightarrow> 'v SqliteUnitOfWork \<Rightarrow> statement list" where
  "uow_statements J u =
     map (\<lambda>up. (upsert_aggregate J up, \<lambda>e. CommitFailed (''aggregate upsert failed: '' @ e))) (staged_upserts u)
     @ map (\<lambda>ev. (insert_domain_event J ev, EventRegistration)) (staged_events u)
     @ map (\<lambda>m. (insert_outbox_message m, \<lambda>e. CommitFailed (''outbox insert failed: '' @ e))) (staged_outbox u)
     @ map (\<lambda>i. (insert_idempotency J i, \<lambda>e. CommitFailed (''idempotency insert failed: '' @ e))) (staged_idempotency u)"

definition uow_commit ::
    "'v JsonOps \<Rightarrow> (nat \<Rightarrow> string option) \<Rightarrow> 'v SqliteUnitOfWork \<Rightarrow> Db \<Rightarrow> (Db \<times> 'v SqliteUnitOfWork) \<times> (unit, UnitOfWorkError) result" where
  "uow_commit J fault u db =
     (if \<not> txn_open u then ((db, u), Inl (CommitFailed ''commit() called twice or after rollback''))
      else
        let u' = u\<lparr>txn_open := False, staged_events := [], staged_outbox := [], staged_idempotency := [], staged_upserts := []\<rparr>
        in case run_statements fault 0 (uow_statements J u) db of
             Inl e \<Rightarrow> ((db, u'), Inl e)
           | Inr db' \<Rightarrow> ((db', u'), Inr ()))"

definition uow_rollback :: "'v SqliteUnitOfWork \<Rightarrow> 'v SqliteUnitOfWork \<times> (unit, UnitOfWorkError) result" where
  "uow_rollback u = (if \<not> txn_open u then (u, Inl RollbackFailed) else (u\<lparr>txn_open := False\<rparr>, Inr ()))"

section \<open>The repository\<close>

definition repo_load :: "'v JsonOps \<Rightarrow> string \<Rightarrow> ObjectId \<Rightarrow> Db \<Rightarrow> ('v Loaded option, RepositoryError) result" where
  "repo_load J aggregate_type oid db =
     (case fmlookup (aggregates db) oid of
        None \<Rightarrow> Inr None
      | Some row \<Rightarrow>
          if row_aggregate_type row \<noteq> aggregate_type then Inr None
          else
            (case text_to_value J (row_state row) of
               None \<Rightarrow> Inl (SerializationError ''invalid JSON text'')
             | Some state \<Rightarrow>
                 Inr (Some \<lparr>loaded_aggregate = state, loaded_version = row_version row,
                            loaded_lifecycle_epoch = row_lifecycle_epoch row,
                            loaded_authority_epoch = row_authority_epoch row\<rparr>)))"

text \<open>\<open>state.get(key).and_then(|v| v.as_i64()).unwrap_or(0)\<close>\<close>

definition json_i64_or_zero :: "'v JsonOps \<Rightarrow> 'v \<Rightarrow> string \<Rightarrow> i64" where
  "json_i64_or_zero J state key =
     (case json_get J state key of
        Some v \<Rightarrow> (case json_as_i64 J v of Some n \<Rightarrow> n | None \<Rightarrow> 0)
      | None \<Rightarrow> 0)"

definition repo_commit ::
    "'v JsonOps \<Rightarrow> string \<Rightarrow> Timestamp \<Rightarrow> 'v \<Rightarrow> 'v list \<Rightarrow> 'v SqliteUnitOfWork \<Rightarrow> ('v SqliteUnitOfWork, RepositoryError) result" where
  "repo_commit J aggregate_type now aggregate_state events u =
     (case repo_extract_id_bytes J aggregate_state ''id'' of
        None \<Rightarrow> Inl (SerializationError ''missing 'id' field'')
      | Some id_bytes \<Rightarrow>
          let u = stage_aggregate_upsert
                \<lparr>up_id = id_bytes, up_aggregate_type = aggregate_type, up_organization_id = uow_organization_id u,
                 up_version = json_i64_or_zero J aggregate_state ''version'', up_lifecycle_epoch = json_i64_or_zero J aggregate_state ''lifecycle_epoch'',
                 up_authority_epoch = json_i64_or_zero J aggregate_state ''authority_epoch'', up_state = aggregate_state,
                 up_updated_at_millis = timestamp_to_millis now\<rparr> u
          in Inr (fold (register_event J) events u))"

definition idempotency_get :: "'v JsonOps \<Rightarrow> OperationId \<Rightarrow> Db \<Rightarrow> ('v option, string) result" where
  "idempotency_get J operation_id db =
     (case fmlookup (idempotency db) operation_id of
        None \<Rightarrow> Inr None
      | Some text \<Rightarrow> (case text_to_value J text of Some v \<Rightarrow> Inr (Some v) | None \<Rightarrow> Inl ''serialization error''))"

section \<open>What a transaction does\<close>

fun upserts_ok :: "'v JsonOps \<Rightarrow> 'v StagedAggregateUpsert list \<Rightarrow> Db \<Rightarrow> (Db, string) result" where
  "upserts_ok J [] db = Inr db"
| "upserts_ok J (up # ups) db = (case upsert_aggregate J up db of Inl e \<Rightarrow> Inl e | Inr db' \<Rightarrow> upserts_ok J ups db')"

lemma run_statements_append:
  "run_statements fault n (xs @ ys) db =
     (case run_statements (\<lambda>k. if k = n + length xs then None else fault k) n xs db of
        Inl e \<Rightarrow> Inl e | Inr db' \<Rightarrow> run_statements fault (n + length xs) ys db')"
proof (induction xs arbitrary: n db)
  case (Cons x xs)
  obtain exec wrap where x: "x = (exec, wrap)" by force
  show ?case using Cons [of "Suc n"] by (auto simp: x split: option.splits sum.splits)
qed simp

text \<open>Every statement of a successful run has succeeded, and none was faulted.\<close>

lemma run_statements_Inr_Cons:
  "run_statements fault n ((exec, wrap) # stmts) db = Inr db' \<longleftrightarrow>
     fault n = None \<and> (\<exists>db1. exec db = Inr db1 \<and> run_statements fault (Suc n) stmts db1 = Inr db')"
  by (auto split: option.splits sum.splits)

lemma run_statements_Inr_append:
  "run_statements fault n (xs @ ys) db = Inr db' \<longleftrightarrow>
     (\<exists>db1. run_statements (\<lambda>k. if k = n + length xs then None else fault k) n xs db = Inr db1
        \<and> run_statements fault (n + length xs) ys db1 = Inr db')"
  by (auto simp: run_statements_append split: sum.splits)

lemma run_upserts:
  "run_statements fault n (map (\<lambda>up. (upsert_aggregate J up, wrap)) ups) db = Inr db' \<Longrightarrow> upserts_ok J ups db = Inr db'"
  by (induction ups arbitrary: n db) (auto simp: split: option.splits sum.splits)

lemma run_events:
  "run_statements fault n (map (\<lambda>ev. (insert_domain_event J ev, wrap)) evs) db = Inr db' \<Longrightarrow>
     db' = db\<lparr>domain_events := domain_events db @ map (event_row J) evs\<rparr>"
proof (induction evs arbitrary: n db)
  case (Cons ev evs)
  from Cons.prems obtain db1 where "insert_domain_event J ev db = Inr db1"
    and rest: "run_statements fault (Suc n) (map (\<lambda>ev. (insert_domain_event J ev, wrap)) evs) db1 = Inr db'"
    unfolding list.map run_statements_Inr_Cons by blast
  then have "db1 = db\<lparr>domain_events := domain_events db @ [event_row J ev]\<rparr>"
    by (auto simp: insert_domain_event_def split: if_splits)
  with Cons.IH [OF rest] show ?case by simp
qed (auto split: option.splits)

lemma run_outbox:
  "run_statements fault n (map (\<lambda>m. (insert_outbox_message m, wrap)) ms) db = Inr db' \<Longrightarrow> db' = db\<lparr>outbox := outbox db @ ms\<rparr>"
proof (induction ms arbitrary: n db)
  case (Cons m ms)
  from Cons.prems have "run_statements fault (Suc n) (map (\<lambda>m. (insert_outbox_message m, wrap)) ms)
      (db\<lparr>outbox := outbox db @ [m]\<rparr>) = Inr db'"
    unfolding list.map run_statements_Inr_Cons by (auto simp: insert_outbox_message_def [of m])
  from Cons.IH [OF this] show ?case by simp
qed (auto split: option.splits)

definition idem_put :: "'v JsonOps \<Rightarrow> OperationId \<times> 'v \<Rightarrow> (OperationId, string) fmap \<Rightarrow> (OperationId, string) fmap" where
  "idem_put J i m = (case fmlookup m (fst i) of Some _ \<Rightarrow> m | None \<Rightarrow> fmupd (fst i) (text_or_braces J (snd i)) m)"

lemma run_idempotency:
  "run_statements fault n (map (\<lambda>i. (insert_idempotency J i, wrap)) is) db = Inr db' \<Longrightarrow>
     db' = db\<lparr>idempotency := fold (idem_put J) is (idempotency db)\<rparr>"
proof (induction "is" arbitrary: n db)
  case (Cons i "is")
  have "insert_idempotency J i db = Inr (db\<lparr>idempotency := idem_put J i (idempotency db)\<rparr>)"
    by (simp add: insert_idempotency_def idem_put_def split: option.splits)
  with Cons.prems have "run_statements fault (Suc n) (map (\<lambda>i. (insert_idempotency J i, wrap)) is)
      (db\<lparr>idempotency := idem_put J i (idempotency db)\<rparr>) = Inr db'"
    by (auto split: option.splits)
  from Cons.IH [OF this] show ?case by simp
qed (auto split: option.splits)

lemma upserts_ok_tables:
  "upserts_ok J ups db = Inr db' \<Longrightarrow>
     domain_events db' = domain_events db \<and> outbox db' = outbox db \<and> idempotency db' = idempotency db"
  by (induction ups arbitrary: db) (force simp: upsert_aggregate_def Let_def split: option.splits sum.splits if_splits)+

lemma uow_statements_run:
  assumes "run_statements fault 0 (uow_statements J u) db = Inr db'"
  shows "\<exists>db1. upserts_ok J (staged_upserts u) db = Inr db1
    \<and> db' = db1\<lparr>domain_events := domain_events db @ map (event_row J) (staged_events u),
                outbox := outbox db @ staged_outbox u,
                idempotency := fold (idem_put J) (staged_idempotency u) (idempotency db)\<rparr>"
proof -
  from assms obtain db1 db2 db3 f1 f2 f3 n1 n2 n3 where
    1: "run_statements f1 0 (map (\<lambda>up. (upsert_aggregate J up, \<lambda>e. CommitFailed (''aggregate upsert failed: '' @ e))) (staged_upserts u)) db = Inr db1"
    and 2: "run_statements f2 n1 (map (\<lambda>ev. (insert_domain_event J ev, EventRegistration)) (staged_events u)) db1 = Inr db2"
    and 3: "run_statements f3 n2 (map (\<lambda>m. (insert_outbox_message m, \<lambda>e. CommitFailed (''outbox insert failed: '' @ e))) (staged_outbox u)) db2 = Inr db3"
    and 4: "run_statements fault n3 (map (\<lambda>i. (insert_idempotency J i, \<lambda>e. CommitFailed (''idempotency insert failed: '' @ e))) (staged_idempotency u)) db3 = Inr db'"
    unfolding uow_statements_def run_statements_Inr_append by blast
  note u1 = run_upserts [OF 1]
  from upserts_ok_tables [OF u1] run_events [OF 2] run_outbox [OF 3] run_idempotency [OF 4] u1
  show ?thesis by (intro exI [of _ db1]) simp
qed

section \<open>Properties\<close>

lemma upsert_versions:
  assumes "upsert_aggregate J up db = Inr db'"
  shows "(\<forall>oid. oid \<noteq> up_id up \<longrightarrow> fmlookup (aggregates db') oid = fmlookup (aggregates db) oid)
    \<and> (\<exists>row. fmlookup (aggregates db') (up_id up) = Some row \<and> row_version row = up_version up
         \<and> row_state row = text_or_braces J (up_state up)
         \<and> (\<forall>old. fmlookup (aggregates db) (up_id up) = Some old \<longrightarrow> sint (row_version old) < sint (up_version up)
              \<and> row_aggregate_type row = row_aggregate_type old \<and> row_organization_id row = row_organization_id old))"
  using assms by (auto simp: upsert_aggregate_def Let_def split: option.splits if_splits)

lemma upserts_grow:
  "upserts_ok J ups db = Inr db' \<Longrightarrow> fmlookup (aggregates db) oid = Some old \<Longrightarrow>
     \<exists>row. fmlookup (aggregates db') oid = Some row \<and> sint (row_version old) \<le> sint (row_version row)
       \<and> row_organization_id row = row_organization_id old \<and> row_aggregate_type row = row_aggregate_type old"
proof (induction ups arbitrary: db old)
  case (Cons up ups)
  from Cons.prems(1) obtain db1 where db1: "upsert_aggregate J up db = Inr db1" "upserts_ok J ups db1 = Inr db'"
    by (auto split: sum.splits)
  from upsert_versions [OF db1(1)] Cons.prems(2) obtain row where
    "fmlookup (aggregates db1) oid = Some row" "sint (row_version old) \<le> sint (row_version row)"
    "row_organization_id row = row_organization_id old" "row_aggregate_type row = row_aggregate_type old"
    by (cases "oid = up_id up") auto
  with Cons.IH [OF db1(2)] show ?case by fastforce
qed simp

text \<open>
  C5. A unit of work commits all or nothing: whatever statement fails, for whatever reason, the database is as before, and a
  commit that succeeds has appended exactly the staged events and outbox messages, recorded the staged results and
  closed the unit; committing again is refused. No commit lowers the version of a stored aggregate or moves it to
  another tenant or type.
\<close>

theorem uow_commit_atomic:
  assumes "uow_commit J fault u db = ((db', u'), res)"
  shows "(\<forall>e. res = Inl e \<longrightarrow> db' = db)
    \<and> (res = Inr () \<longrightarrow> domain_events db' = domain_events db @ map (event_row J) (staged_events u)
        \<and> outbox db' = outbox db @ staged_outbox u
        \<and> idempotency db' = fold (idem_put J) (staged_idempotency u) (idempotency db)
        \<and> upserts_ok J (staged_upserts u) db = Inr (db'\<lparr>domain_events := domain_events db, outbox := outbox db, idempotency := idempotency db\<rparr>))
    \<and> (\<exists>e. snd (uow_commit J fault' u' db') = Inl e)
    \<and> (\<forall>oid old. fmlookup (aggregates db) oid = Some old \<longrightarrow>
        (\<exists>row. fmlookup (aggregates db') oid = Some row \<and> sint (row_version old) \<le> sint (row_version row)
          \<and> row_organization_id row = row_organization_id old \<and> row_aggregate_type row = row_aggregate_type old))"
proof -
  have closed: "\<not> txn_open u'"
    using assms by (auto simp: uow_commit_def Let_def split: if_splits sum.splits)
  have fail: "db' = db" if "res = Inl e" for e
    using assms that by (auto simp: uow_commit_def Let_def split: if_splits sum.splits)
  have run: "run_statements fault 0 (uow_statements J u) db = Inr db'" if "res = Inr ()"
    using assms that by (auto simp: uow_commit_def Let_def split: if_splits sum.splits)
  have succ: "\<exists>db1. upserts_ok J (staged_upserts u) db = Inr db1
    \<and> db' = db1\<lparr>domain_events := domain_events db @ map (event_row J) (staged_events u),
                outbox := outbox db @ staged_outbox u,
                idempotency := fold (idem_put J) (staged_idempotency u) (idempotency db)\<rparr>" if "res = Inr ()"
    by (rule uow_statements_run [OF run [OF that]])
  have tables: "domain_events db' = domain_events db @ map (event_row J) (staged_events u)
        \<and> outbox db' = outbox db @ staged_outbox u
        \<and> idempotency db' = fold (idem_put J) (staged_idempotency u) (idempotency db)
        \<and> upserts_ok J (staged_upserts u) db = Inr (db'\<lparr>domain_events := domain_events db, outbox := outbox db, idempotency := idempotency db\<rparr>)"
    if "res = Inr ()"
  proof -
    from succ [OF that] obtain db1 where db1: "upserts_ok J (staged_upserts u) db = Inr db1"
      "db' = db1\<lparr>domain_events := domain_events db @ map (event_row J) (staged_events u),
                outbox := outbox db @ staged_outbox u,
                idempotency := fold (idem_put J) (staged_idempotency u) (idempotency db)\<rparr>" by blast
    from upserts_ok_tables [OF db1(1)]
    have e: "db1 = db'\<lparr>domain_events := domain_events db, outbox := outbox db, idempotency := idempotency db\<rparr>"
      by (simp add: db1(2))
    have "upserts_ok J (staged_upserts u) db = Inr (db'\<lparr>domain_events := domain_events db, outbox := outbox db, idempotency := idempotency db\<rparr>)"
      using db1(1) unfolding e .
    moreover have "domain_events db' = domain_events db @ map (event_row J) (staged_events u)" "outbox db' = outbox db @ staged_outbox u"
      "idempotency db' = fold (idem_put J) (staged_idempotency u) (idempotency db)"
      by (simp_all add: db1(2))
    ultimately show ?thesis by blast
  qed
  have grow: "\<exists>row. fmlookup (aggregates db') oid = Some row \<and> sint (row_version old) \<le> sint (row_version row)
          \<and> row_organization_id row = row_organization_id old \<and> row_aggregate_type row = row_aggregate_type old"
    if "fmlookup (aggregates db) oid = Some old" for oid old
  proof (cases res)
    case (Inl e)
    with fail that show ?thesis by simp
  next
    case (Inr x)
    from succ [OF Inr [simplified]] obtain db1 where "upserts_ok J (staged_upserts u) db = Inr db1" "aggregates db' = aggregates db1"
      by auto
    with upserts_grow [OF _ that] show ?thesis by simp
  qed
  show ?thesis using fail tables grow closed by (auto simp: uow_commit_def)
qed

definition sample_json :: "string JsonOps" where
  "sample_json = \<lparr>json_get = (\<lambda>_ _. None), json_get_0 = (\<lambda>_. None), json_is_null = (\<lambda>_. False), json_as_array = (\<lambda>_. None),
     json_as_u64 = (\<lambda>_. None), json_as_i64 = (\<lambda>_. None), json_as_str = (\<lambda>_. None), json_null = ''null'',
     value_to_text = Some, text_to_value = Some\<rparr>"

definition empty_db :: Db where
  "empty_db = \<lparr>aggregates = fmempty, domain_events = [], outbox = [], idempotency = fmempty\<rparr>"

theorem uow_commit_atomic_witness:
  "fst (fst (uow_commit sample_json (\<lambda>n. if n = 0 then Some ''disk full'' else None)
     (register_idempotency_result 5 ''ok'' (uow_begin 3)) empty_db)) = empty_db"
proof -
  obtain db' u' res where c: "uow_commit sample_json (\<lambda>n. if n = 0 then Some ''disk full'' else None)
     (register_idempotency_result 5 ''ok'' (uow_begin 3)) empty_db = ((db', u'), res)" by (metis surj_pair)
  then have "res = Inl (CommitFailed (''idempotency insert failed: '' @ ''disk full''))"
    by (simp add: uow_commit_def register_idempotency_result_def uow_begin_def uow_statements_def)
  with uow_commit_atomic [OF c] c show ?thesis by simp
qed

end
