(* ===== verification/Command_Handler.thy ===== *)
theory Command_Handler
  imports Persistence_Sqlite
begin

text \<open>
  The command pipeline (\<open>crates/bins/api-server/src/command_handler.rs\<close>): idempotency check, load, version and epoch
  checks, owner check, decide, apply, envelopes and outbox, commit.

  \<open>AggregateOps\<close> are the methods of the aggregate type the pipeline is generic over, with its JSON conversions (\<open>None\<close> is a
  serialisation error). \<open>HandlerEnv\<close> is what one run takes from outside: the clock, random identifiers, and the faults of the
  database engine. The pipeline reads the database first and writes in one transaction at the end; the two halves are
  \<open>handle_prepare\<close> and \<open>handle_finish\<close>, between which another writer may commit.
\<close>

section \<open>Parameters\<close>

record ('a, 'c, 'ev, 'err, 'v) AggregateOps =
  op_version :: "'a \<Rightarrow> ObjectVersion"
  op_lifecycle_epoch :: "'a \<Rightarrow> LifecycleEpoch"
  op_authority_epoch :: "'a \<Rightarrow> AuthorityEpoch"
  op_decide :: "'a \<Rightarrow> 'c \<Rightarrow> DecisionContext \<Rightarrow> ('ev list, 'err) result"
  op_apply :: "'ev \<Rightarrow> 'a \<Rightarrow> 'a"
  op_from_value :: "'v \<Rightarrow> 'a option"
  op_to_value :: "'a \<Rightarrow> 'v option"
  op_envelope_to_value :: "'ev DomainEventEnvelope \<Rightarrow> 'v option"
  op_error_string :: "'err \<Rightarrow> string"

record 'v HandlerEnv =
  env_trusted_now :: Timestamp
  env_now :: Timestamp
  env_commit_now :: Timestamp
  env_object_id :: "nat \<Rightarrow> ObjectId"
  env_event_id :: "nat \<Rightarrow> EventId"
  env_replica_id :: "nat \<Rightarrow> ReplicaId"
  env_to_vec :: "'v \<Rightarrow> string option"
  env_id_to_string :: "ObjectId \<Rightarrow> string"
  env_result :: "OperationId \<Rightarrow> ObjectVersion \<Rightarrow> LifecycleEpoch \<Rightarrow> AuthorityEpoch \<Rightarrow> 'v list \<Rightarrow> 'v"
  idempotency_fault :: "string option"
  load_fault :: "string option"
  begin_fault :: "string option"
  commit_fault :: "nat \<Rightarrow> string option"

record ('a, 'c) CommandRequest =
  req_command :: 'c
  req_target_id :: ObjectId
  req_operation_id :: OperationId
  req_actor :: ActorContext
  req_expected_version :: ObjectVersion
  req_expected_lifecycle_epoch :: LifecycleEpoch
  req_expected_authority_epoch :: AuthorityEpoch
  req_vector_clock :: VectorClock
  req_correlation_id :: CorrelationId
  req_aggregate_type_name :: string
  req_owner_check :: "(('a \<Rightarrow> UserId) \<times> (UserId \<Rightarrow> UserId \<Rightarrow> bool)) option"

datatype CommandError =
    VersionConflict ObjectVersion ObjectVersion
  | EpochConflict LifecycleEpoch LifecycleEpoch
  | AuthorityEpochConflict AuthorityEpoch AuthorityEpoch
  | NotFound ObjectId
  | Domain string
  | Persistence string
  | Serialization
  | Idempotency string
  | OwnerAuthorityDenied UserId UserId

fun uow_error_string :: "UnitOfWorkError \<Rightarrow> string" where
  "uow_error_string (CommitFailed e) = ''transaction commit failed: '' @ e"
| "uow_error_string RollbackFailed = ''transaction rollback failed''"
| "uow_error_string (EventRegistration e) = ''event registration failed: '' @ e"

fun repository_error_string :: "RepositoryError \<Rightarrow> string" where
  "repository_error_string ConnectionFailure = ''database connection failed''"
| "repository_error_string RepoVersionConflict = ''version conflict''"
| "repository_error_string RepoEpochConflict = ''epoch conflict''"
| "repository_error_string (ConstraintViolation e) = ''constraint violation: '' @ e"
| "repository_error_string (SerializationError e) = ''serialization error: '' @ e"
| "repository_error_string RepoNotFound = ''object not found''"
| "repository_error_string (UnknownError e) = ''unknown error: '' @ e"

section \<open>The pipeline\<close>

text \<open>The envelope of the \<open>i\<close>-th event, built after the event has been applied.\<close>

definition event_envelope ::
    "('a, 'c, 'ev, 'err, 'v) AggregateOps \<Rightarrow> 'v HandlerEnv \<Rightarrow> ('a, 'c) CommandRequest \<Rightarrow> ObjectVersion \<Rightarrow> 'a \<Rightarrow> nat \<Rightarrow> 'ev
      \<Rightarrow> 'ev DomainEventEnvelope" where
  "event_envelope A env req current_version aggregate i event =
     (let organization_id = actor_organization_id (req_actor req)
      in \<lparr>ev_event_id = env_event_id env i,
          ev_event_type = req_aggregate_type_name req @ ''.event.'' @ show_nat i,
          ev_schema_version = ''1.0'',
          ev_aggregate_ref = \<lparr>ref_id = req_target_id req, ref_type = req_aggregate_type_name req, ref_organization_id = organization_id\<rparr>,
          ev_aggregate_version = current_version + 1 + of_nat i,
          ev_lifecycle_epoch = op_lifecycle_epoch A aggregate,
          ev_authority_epoch = op_authority_epoch A aggregate,
          ev_operation_id = req_operation_id req,
          ev_actor = req_actor req,
          ev_occurred_at = env_now env,
          ev_recorded_at = env_now env,
          ev_vector_clock = req_vector_clock req,
          ev_correlation_id = req_correlation_id req,
          ev_causation_id = None,
          ev_audit_metadata = \<lparr>source_service = ''api-server'', source_replica = env_replica_id env i, integrity_digest = None,
            classification = Internal, tenant_isolation_key = organization_id\<rparr>,
          ev_payload = event\<rparr>)"

definition event_outbox_message ::
    "'v HandlerEnv \<Rightarrow> ('a, 'c) CommandRequest \<Rightarrow> nat \<Rightarrow> 'ev DomainEventEnvelope \<Rightarrow> string \<Rightarrow> OutboxMessage" where
  "event_outbox_message env req i envelope payload =
     \<lparr>om_event_id = env_event_id env i, om_event_type = ev_event_type envelope,
      om_aggregate_id = env_id_to_string env (req_target_id req),
      om_organization_id = actor_organization_id (req_actor req), om_payload = payload,
      om_vector_clock = req_vector_clock req, om_occurred_at = env_now env\<rparr>"

text \<open>The loop over the decided events: apply, envelope, serialise, outbox.\<close>

fun handle_events ::
    "('a, 'c, 'ev, 'err, 'v) AggregateOps \<Rightarrow> 'v HandlerEnv \<Rightarrow> ('a, 'c) CommandRequest \<Rightarrow> ObjectVersion \<Rightarrow> nat \<Rightarrow> 'ev list
      \<Rightarrow> 'a \<times> 'v SqliteUnitOfWork \<times> 'v list \<Rightarrow> ('a \<times> 'v SqliteUnitOfWork \<times> 'v list, CommandError) result" where
  "handle_events A env req current_version i [] acc = Inr acc"
| "handle_events A env req current_version i (event # events) (aggregate, unit, event_values) =
     (let aggregate = op_apply A event aggregate;
          envelope = event_envelope A env req current_version aggregate i event
      in case op_envelope_to_value A envelope of
           None \<Rightarrow> Inl Serialization
         | Some serialized \<Rightarrow>
             (case env_to_vec env serialized of
                None \<Rightarrow> Inl Serialization
              | Some payload \<Rightarrow>
                  handle_events A env req current_version (Suc i) events
                    (aggregate,
                     register_outbox (event_outbox_message env req i envelope payload) unit,
                     event_values @ [serialized])))"

definition decision_context :: "'v HandlerEnv \<Rightarrow> ('a, 'c) CommandRequest \<Rightarrow> DecisionContext" where
  "decision_context env req =
     \<lparr>ctx_actor = req_actor req, ctx_authority = VerifiedAuthority, trusted_now = env_trusted_now env,
      policy_outcomes = PolicyDecisionSet, ctx_object_id = env_object_id env\<rparr>"

text \<open>Steps 4 to 10: open the unit, decide, apply, stage everything.\<close>

definition handle_stage ::
    "'v JsonOps \<Rightarrow> ('a, 'c, 'ev, 'err, 'v) AggregateOps \<Rightarrow> 'v HandlerEnv \<Rightarrow> ('a, 'c) CommandRequest \<Rightarrow> 'a \<Rightarrow> ObjectVersion
      \<Rightarrow> ('v SqliteUnitOfWork \<times> 'v, CommandError) result" where
  "handle_stage J A env req aggregate current_version =
     (case begin_fault env of
        Some e \<Rightarrow> Inl (Persistence (uow_error_string (CommitFailed (''failed to begin transaction: '' @ e))))
      | None \<Rightarrow>
          (case op_decide A aggregate (req_command req) (decision_context env req) of
             Inl err \<Rightarrow> Inl (Domain (op_error_string A err))
           | Inr events \<Rightarrow>
               (case handle_events A env req current_version 0 events
                       (aggregate, uow_begin (actor_organization_id (req_actor req)), []) of
                  Inl err \<Rightarrow> Inl err
                | Inr (aggregate, unit, event_values) \<Rightarrow>
                    (case op_to_value A aggregate of
                       None \<Rightarrow> Inl Serialization
                     | Some new_state \<Rightarrow>
                         (case repo_commit J (req_aggregate_type_name req) (env_commit_now env) new_state event_values unit of
                            Inl err \<Rightarrow> Inl (Persistence (repository_error_string err))
                          | Inr unit \<Rightarrow>
                              let result = env_result env (req_operation_id req) (op_version A aggregate)
                                    (op_lifecycle_epoch A aggregate) (op_authority_epoch A aggregate) event_values
                              in Inr (register_idempotency_result (req_operation_id req) result unit, result))))))"

text \<open>Step 3b: the owner check, for the commands that have one.\<close>

definition owner_denied :: "('a, 'c) CommandRequest \<Rightarrow> 'a \<Rightarrow> UserId option" where
  "owner_denied req aggregate =
     (case req_owner_check req of
        None \<Rightarrow> None
      | Some (get_owner_id, authority) \<Rightarrow>
          let owner_id = get_owner_id aggregate
          in if authority (user_id (req_actor req)) owner_id then None else Some owner_id)"

datatype 'v Prepared = Cached 'v | Staged "'v SqliteUnitOfWork" 'v

definition handle_prepare ::
    "'v JsonOps \<Rightarrow> ('a, 'c, 'ev, 'err, 'v) AggregateOps \<Rightarrow> 'v HandlerEnv \<Rightarrow> ('a, 'c) CommandRequest \<Rightarrow> Db
      \<Rightarrow> ('v Prepared, CommandError) result" where
  "handle_prepare J A env req db =
     (case (case idempotency_fault env of Some e \<Rightarrow> Inl e | None \<Rightarrow> idempotency_get J (req_operation_id req) db) of
        Inl e \<Rightarrow> Inl (Idempotency e)
      | Inr (Some cached) \<Rightarrow> Inr (Cached cached)
      | Inr None \<Rightarrow>
          (case (case load_fault env of Some e \<Rightarrow> Inl (UnknownError e)
                 | None \<Rightarrow> repo_load J (req_aggregate_type_name req) (req_target_id req) db) of
             Inl e \<Rightarrow> Inl (Persistence (repository_error_string e))
           | Inr None \<Rightarrow> Inl (NotFound (req_target_id req))
           | Inr (Some l) \<Rightarrow>
               (case op_from_value A (loaded_aggregate l) of
                  None \<Rightarrow> Inl Serialization
                | Some aggregate \<Rightarrow>
                    let current_version = loaded_version l
                    in if current_version \<noteq> req_expected_version req
                         then Inl (VersionConflict (req_expected_version req) current_version)
                       else if op_lifecycle_epoch A aggregate \<noteq> req_expected_lifecycle_epoch req
                         then Inl (EpochConflict (req_expected_lifecycle_epoch req) (op_lifecycle_epoch A aggregate))
                       else if op_authority_epoch A aggregate \<noteq> req_expected_authority_epoch req
                         then Inl (AuthorityEpochConflict (req_expected_authority_epoch req) (op_authority_epoch A aggregate))
                       else case owner_denied req aggregate of
                              Some owner \<Rightarrow> Inl (OwnerAuthorityDenied (user_id (req_actor req)) owner)
                            | None \<Rightarrow>
                                (case handle_stage J A env req aggregate current_version of
                                   Inl e \<Rightarrow> Inl e
                                 | Inr (unit, result) \<Rightarrow> Inr (Staged unit result)))))"

definition handle_finish ::
    "'v JsonOps \<Rightarrow> 'v HandlerEnv \<Rightarrow> 'v SqliteUnitOfWork \<Rightarrow> 'v \<Rightarrow> Db \<Rightarrow> Db \<times> ('v, CommandError) result" where
  "handle_finish J env unit result db =
     (case uow_commit J (commit_fault env) unit db of
        ((db', _), Inl e) \<Rightarrow> (db', Inl (Persistence (uow_error_string e)))
      | ((db', _), Inr _) \<Rightarrow> (db', Inr result))"

definition handle_command ::
    "'v JsonOps \<Rightarrow> ('a, 'c, 'ev, 'err, 'v) AggregateOps \<Rightarrow> 'v HandlerEnv \<Rightarrow> ('a, 'c) CommandRequest \<Rightarrow> Db
      \<Rightarrow> Db \<times> ('v, CommandError) result" where
  "handle_command J A env req db =
     (case handle_prepare J A env req db of
        Inl e \<Rightarrow> (db, Inl e)
      | Inr (Cached cached) \<Rightarrow> (db, Inr cached)
      | Inr (Staged unit result) \<Rightarrow> handle_finish J env unit result db)"

section \<open>What is staged\<close>

lemma handle_events_result:
  assumes "handle_events A env req cv i events (a, u, vs) = Inr (a', u', vs')"
  shows "a' = fold (op_apply A) events a"
    and "\<exists>new msgs. vs' = vs @ new \<and> length new = length events \<and> staged_outbox u' = staged_outbox u @ msgs
      \<and> length msgs = length events \<and> map om_event_id msgs = map (env_event_id env) [i..<i + length events]
      \<and> (\<forall>j < length events. op_envelope_to_value A
            (event_envelope A env req cv (fold (op_apply A) (take (Suc j) events) a) (i + j) (events ! j)) = Some (new ! j))"
    and "staged_events u' = staged_events u" and "staged_upserts u' = staged_upserts u"
    and "staged_idempotency u' = staged_idempotency u" and "txn_open u' = txn_open u"
    and "uow_organization_id u' = uow_organization_id u"
proof -
  have "a' = fold (op_apply A) events a
    \<and> (\<exists>new msgs. vs' = vs @ new \<and> length new = length events \<and> staged_outbox u' = staged_outbox u @ msgs
      \<and> length msgs = length events \<and> map om_event_id msgs = map (env_event_id env) [i..<i + length events]
      \<and> (\<forall>j < length events. op_envelope_to_value A
            (event_envelope A env req cv (fold (op_apply A) (take (Suc j) events) a) (i + j) (events ! j)) = Some (new ! j)))
    \<and> staged_events u' = staged_events u \<and> staged_upserts u' = staged_upserts u
    \<and> staged_idempotency u' = staged_idempotency u \<and> txn_open u' = txn_open u \<and> uow_organization_id u' = uow_organization_id u"
    using assms
  proof (induction events arbitrary: i a u vs)
    case Nil
    then show ?case by simp
  next
    case (Cons e events)
    let ?a = "op_apply A e a"
    let ?env = "event_envelope A env req cv ?a i e"
    from Cons.prems obtain s p where s: "op_envelope_to_value A ?env = Some s"
      and rest': "handle_events A env req cv (Suc i) events
        (?a, register_outbox (event_outbox_message env req i ?env p) u, vs @ [s]) = Inr (a', u', vs')"
      by (auto simp: Let_def split: option.splits)
    define m where "m = event_outbox_message env req i ?env p"
    note rest = rest' [folded m_def]
    have m: "om_event_id m = env_event_id env i" by (simp add: m_def event_outbox_message_def)
    from Cons.IH [OF rest] obtain new msgs where ih: "a' = fold (op_apply A) events ?a"
      "vs' = (vs @ [s]) @ new" "length new = length events" "staged_outbox u' = staged_outbox (register_outbox m u) @ msgs"
      "length msgs = length events" "map om_event_id msgs = map (env_event_id env) [Suc i..<Suc i + length events]"
      "\<forall>j < length events. op_envelope_to_value A
            (event_envelope A env req cv (fold (op_apply A) (take (Suc j) events) ?a) (Suc i + j) (events ! j)) = Some (new ! j)"
      "staged_events u' = staged_events (register_outbox m u)" "staged_upserts u' = staged_upserts (register_outbox m u)"
      "staged_idempotency u' = staged_idempotency (register_outbox m u)" "txn_open u' = txn_open (register_outbox m u)"
      "uow_organization_id u' = uow_organization_id (register_outbox m u)"
      by blast
    have "\<forall>j < length (e # events). op_envelope_to_value A
            (event_envelope A env req cv (fold (op_apply A) (take (Suc j) (e # events)) a) (i + j) ((e # events) ! j)) = Some ((s # new) ! j)"
    proof (intro allI impI)
      fix j assume "j < length (e # events)"
      then show "op_envelope_to_value A
            (event_envelope A env req cv (fold (op_apply A) (take (Suc j) (e # events)) a) (i + j) ((e # events) ! j)) = Some ((s # new) ! j)"
        using s ih(7) by (cases j) auto
    qed
    moreover have "map om_event_id (m # msgs) = map (env_event_id env) [i..<i + length (e # events)]"
    proof -
      have "[i..<i + length (e # events)] = i # [Suc i..<Suc i + length events]"
        by (simp add: upt_conv_Cons del: upt_Suc)
      with ih(6) m show ?thesis by (simp only: list.map)
    qed
    ultimately show ?case
      using ih by (intro conjI exI [of _ "s # new"] exI [of _ "m # msgs"]) (simp_all add: register_outbox_def)
  qed
  then show "a' = fold (op_apply A) events a"
    and "\<exists>new msgs. vs' = vs @ new \<and> length new = length events \<and> staged_outbox u' = staged_outbox u @ msgs
      \<and> length msgs = length events \<and> map om_event_id msgs = map (env_event_id env) [i..<i + length events]
      \<and> (\<forall>j < length events. op_envelope_to_value A
            (event_envelope A env req cv (fold (op_apply A) (take (Suc j) events) a) (i + j) (events ! j)) = Some (new ! j))"
    and "staged_events u' = staged_events u" and "staged_upserts u' = staged_upserts u"
    and "staged_idempotency u' = staged_idempotency u" and "txn_open u' = txn_open u"
    and "uow_organization_id u' = uow_organization_id u"
    by simp_all
qed

lemma fold_register_event:
  "staged_events (fold (register_event J) vs u) = staged_events u @ map (\<lambda>v. (case extract_event_id J v of None \<Rightarrow> 0 | Some e \<Rightarrow> e, v)) vs"
  "staged_outbox (fold (register_event J) vs u) = staged_outbox u"
  "staged_upserts (fold (register_event J) vs u) = staged_upserts u"
  "staged_idempotency (fold (register_event J) vs u) = staged_idempotency u"
  "txn_open (fold (register_event J) vs u) = txn_open u"
  by (induction vs arbitrary: u) (simp_all add: register_event_def Let_def)

lemma repo_commit_result:
  assumes "repo_commit J ty now v vs u = Inr u'"
  shows "\<exists>oid up. repo_extract_id_bytes J v ''id'' = Some oid \<and> up_id up = oid \<and> up_version up = json_i64_or_zero J v ''version''
      \<and> up_state up = v \<and> up_aggregate_type up = ty \<and> staged_upserts u' = staged_upserts u @ [up]"
    and "staged_outbox u' = staged_outbox u" and "staged_idempotency u' = staged_idempotency u" and "txn_open u' = txn_open u"
    and "map snd (staged_events u') = map snd (staged_events u) @ vs"
  using assms
  by (auto simp: repo_commit_def Let_def stage_aggregate_upsert_def fold_register_event comp_def split: option.splits)

text \<open>Everything a successful staging has put into the unit of work.\<close>

lemma handle_stage_result:
  assumes "handle_stage J A env req a cv = Inr (u, r)"
  obtains events vals state up where
    "op_decide A a (req_command req) (decision_context env req) = Inr events"
    and "op_to_value A (fold (op_apply A) events a) = Some state"
    and "staged_upserts u = [up]" and "repo_extract_id_bytes J state ''id'' = Some (up_id up)"
    and "up_version up = json_i64_or_zero J state ''version''" and "up_state up = state"
    and "map snd (staged_events u) = vals" and "length vals = length events"
    and "\<forall>j < length events. op_envelope_to_value A
          (event_envelope A env req cv (fold (op_apply A) (take (Suc j) events) a) j (events ! j)) = Some (vals ! j)"
    and "map om_event_id (staged_outbox u) = map (env_event_id env) [0..<length events]"
    and "staged_idempotency u = [(req_operation_id req, r)]" and "txn_open u"
proof -
  from assms obtain events a' u1 vs state u2 where
    d: "op_decide A a (req_command req) (decision_context env req) = Inr events"
    and e: "handle_events A env req cv 0 events (a, uow_begin (actor_organization_id (req_actor req)), []) = Inr (a', u1, vs)"
    and s: "op_to_value A a' = Some state"
    and c: "repo_commit J (req_aggregate_type_name req) (env_commit_now env) state vs u1 = Inr u2"
    and u: "u = register_idempotency_result (req_operation_id req) r u2"
    by (auto simp: handle_stage_def Let_def split: option.splits sum.splits)
  note he = handle_events_result [OF e] and rc = repo_commit_result [OF c]
  from he(2) obtain new msgs where new: "vs = new" "length new = length events" "staged_outbox u1 = msgs"
    "map om_event_id msgs = map (env_event_id env) [0..<length events]"
    "\<forall>j < length events. op_envelope_to_value A
          (event_envelope A env req cv (fold (op_apply A) (take (Suc j) events) a) j (events ! j)) = Some (new ! j)"
    by (auto simp: uow_begin_def)
  from rc(1) obtain up where up: "repo_extract_id_bytes J state ''id'' = Some (up_id up)"
    "up_version up = json_i64_or_zero J state ''version''" "up_state up = state" "staged_upserts u2 = staged_upserts u1 @ [up]"
    by blast
  show thesis
    by (rule that [of events state up vs])
      (use d s he up new rc(2-5) in \<open>simp_all add: u register_idempotency_result_def uow_begin_def\<close>)
qed

lemma handle_prepare_Staged:
  assumes "handle_prepare J A env req db = Inr (Staged u r)"
  obtains row state a where
    "fmlookup (idempotency db) (req_operation_id req) = None"
    and "fmlookup (aggregates db) (req_target_id req) = Some row" and "row_aggregate_type row = req_aggregate_type_name req"
    and "text_to_value J (row_state row) = Some state" and "op_from_value A state = Some a"
    and "row_version row = req_expected_version req" and "op_lifecycle_epoch A a = req_expected_lifecycle_epoch req"
    and "op_authority_epoch A a = req_expected_authority_epoch req" and "owner_denied req a = None"
    and "handle_stage J A env req a (row_version row) = Inr (u, r)"
  using assms
  by (auto simp: handle_prepare_def idempotency_get_def repo_load_def Let_def split: option.splits sum.splits if_splits)

lemma handle_command_cases:
  assumes "handle_command J A env req db = (db', res)"
  obtains (error) e where "res = Inl e" and "db' = db"
  | (cached) v where "handle_prepare J A env req db = Inr (Cached v)" and "res = Inr v" and "db' = db"
  | (committed) u r u' where "handle_prepare J A env req db = Inr (Staged u r)" and "res = Inr r"
      and "uow_commit J (commit_fault env) u db = ((db', u'), Inr ())"
proof -
  consider (err) e where "handle_prepare J A env req db = Inl e"
    | (cache) v where "handle_prepare J A env req db = Inr (Cached v)"
    | (stage) u r where "handle_prepare J A env req db = Inr (Staged u r)"
    by (metis Prepared.exhaust sum.exhaust)
  then show thesis
  proof cases
    case err
    with assms have "res = Inl e" "db' = db" by (auto simp: handle_command_def)
    then show ?thesis by (rule error)
  next
    case cache
    with assms have "res = Inr v" "db' = db" by (auto simp: handle_command_def)
    with cache show ?thesis by (rule cached)
  next
    case stage
    obtain db1 u1 r1 where c: "uow_commit J (commit_fault env) u db = ((db1, u1), r1)" by (metis surj_pair)
    show ?thesis
    proof (cases r1)
      case (Inl e)
      then have "db1 = db" using c by (auto simp: uow_commit_def Let_def split: if_splits sum.splits)
      with stage assms c Inl have "res = Inl (Persistence (uow_error_string e))" "db' = db"
        by (auto simp: handle_command_def handle_finish_def)
      then show ?thesis by (rule error)
    next
      case (Inr x)
      then have ok: "uow_commit J (commit_fault env) u db = ((db1, u1), Inr ())" using c by simp
      have "handle_command J A env req db = (db1, Inr r)" by (simp add: handle_command_def handle_finish_def stage ok)
      with assms have res: "res = Inr r" "db' = db1" by simp_all
      show ?thesis by (rule committed [OF stage res(1)]) (simp add: ok res(2))
    qed
  qed
qed

lemma uow_commit_Inr:
  assumes "uow_commit J fault u db = ((db', u'), Inr ())"
  obtains db1 where "upserts_ok J (staged_upserts u) db = Inr db1"
    and "aggregates db' = aggregates db1"
    and "domain_events db' = domain_events db @ map (event_row J) (staged_events u)"
    and "outbox db' = outbox db @ staged_outbox u"
    and "idempotency db' = fold (idem_put J) (staged_idempotency u) (idempotency db)"
proof -
  have "run_statements fault 0 (uow_statements J u) db = Inr db'"
    using assms by (auto simp: uow_commit_def Let_def split: if_splits sum.splits)
  from uow_statements_run [OF this] that show thesis by auto
qed

section \<open>Concurrent writers\<close>

text \<open>
  What the pipeline relies on in the JSON form of an aggregate: its identifier and, while it fits into an \<open>i64\<close>, its version
  can be read back from the fields \<open>id\<close> and \<open>version\<close>.
\<close>

definition json_faithful :: "'v JsonOps \<Rightarrow> ('a, 'c, 'ev, 'err, 'v) AggregateOps \<Rightarrow> ('a \<Rightarrow> ObjectId) \<Rightarrow> bool" where
  "json_faithful J A agg_id \<longleftrightarrow>
     (\<forall>a v. op_to_value A a = Some v \<longrightarrow> repo_extract_id_bytes J v ''id'' = Some (agg_id a)
        \<and> (unat (op_version A a) < 2 ^ 63 \<longrightarrow> json_i64_or_zero J v ''version'' = op_version A a))"

lemma finish_fails:
  assumes "staged_upserts u = [up]" and "txn_open u" and "fmlookup (aggregates db) (up_id up) = Some row"
    and "\<not> sint (row_version row) < sint (up_version up)"
  shows "\<exists>e. handle_finish J env u r db = (db, Inl (Persistence e))"
proof -
  have "upsert_aggregate J up db = Inl ''RowNotFound''" using assms(3,4) by (simp add: upsert_aggregate_def)
  then have "\<exists>e. run_statements (commit_fault env) 0 (uow_statements J u) db = Inl e"
    using assms(1) by (simp add: uow_statements_def split: option.splits)
  with assms(2) show ?thesis by (auto simp: handle_finish_def uow_commit_def Let_def)
qed

context single_event_aggregate
begin

text \<open>A prepared command stages one upsert, of the aggregate's own row, with the next version.\<close>

lemma staged_upsert:
  assumes ops: "op_version A = version" "op_decide A = decide" "op_apply A = app"
    and json: "json_faithful J A agg_id"
    and row: "fmlookup (aggregates db) (req_target_id req) = Some row" "text_to_value J (row_state row) = Some v" "op_from_value A v = Some a"
    and small: "unat (version a) + 1 < 2 ^ 63"
    and prep: "handle_prepare J A env req db = Inr (Staged u r)"
  shows "\<exists>up. staged_upserts u = [up] \<and> txn_open u \<and> up_id up = agg_id a \<and> up_version up = version a + 1"
proof -
  from prep row have st: "handle_stage J A env req a (row_version row) = Inr (u, r)"
    by (elim handle_prepare_Staged) simp
  from st obtain events state up where s: "decide a (req_command req) (decision_context env req) = Inr events"
    "op_to_value A (fold app events a) = Some state" "staged_upserts u = [up]" "txn_open u"
    "repo_extract_id_bytes J state ''id'' = Some (up_id up)" "up_version up = json_i64_or_zero J state ''version''"
    by (elim handle_stage_result) (simp add: ops)
  have v: "version (fold app events a) = version a + 1" using replay_version [of events a] single [OF s(1)] by simp
  have "unat (version a + 1) < 2 ^ 63" using small by (simp add: unat_add_u64_le)
  with json s(2,5,6) v have "up_id up = agg_id a" "up_version up = version a + 1"
    by (auto simp: json_faithful_def ops replay_id)
  with s show ?thesis by blast
qed

text \<open>
  Two commands are prepared against the same stored aggregate; the first commits. If the decisions produce one event
  each, the version guard of the second transaction refuses it and nothing of the first is overwritten.
\<close>

lemma no_lost_update:
  assumes ops: "op_version A = version" "op_decide A = decide" "op_apply A = app"
    and json: "json_faithful J A agg_id"
    and row: "fmlookup (aggregates db) oid = Some row" "text_to_value J (row_state row) = Some v" "op_from_value A v = Some a"
    and small: "unat (version a) + 1 < 2 ^ 63"
    and req: "req_target_id req1 = oid" "req_target_id req2 = oid"
    and prep: "handle_prepare J A env1 req1 db = Inr (Staged u1 r1)" "handle_prepare J A env2 req2 db = Inr (Staged u2 r2)"
    and first: "handle_finish J env1 u1 r1 db = (db1, Inr r)"
  shows "\<exists>e. handle_finish J env2 u2 r2 db1 = (db1, Inl (Persistence e))"
proof -
  note staged = staged_upsert [OF ops json _ row(2,3) small]
  from staged [OF _ prep(1)] row(1) req(1) obtain up1 where
    u1: "staged_upserts u1 = [up1]" "up_id up1 = agg_id a" "up_version up1 = version a + 1" by blast
  from staged [OF _ prep(2)] row(1) req(2) obtain up2 where
    u2: "staged_upserts u2 = [up2]" "txn_open u2" "up_id up2 = agg_id a" "up_version up2 = version a + 1" by blast
  from first obtain u' where "uow_commit J (commit_fault env1) u1 db = ((db1, u'), Inr ())"
    by (auto simp: handle_finish_def split: prod.splits sum.splits)
  then obtain dbx where "upserts_ok J [up1] db = Inr dbx" "aggregates db1 = aggregates dbx"
    by (elim uow_commit_Inr) (simp add: u1)
  with upsert_versions [of J up1 db dbx] u1 obtain row1 where
    "fmlookup (aggregates db1) (agg_id a) = Some row1" "row_version row1 = version a + 1"
    by (auto split: sum.splits)
  with u2 show ?thesis by (intro finish_fails [of u2 up2 db1 row1]) simp_all
qed

end

end
