(* ===== verification/Mission_Domain.thy ===== *)
theory Mission_Domain
  imports Contracts
begin

text \<open>
  The mission aggregate (\<open>crates/domains/mission-domain\<close>): its lifecycle state machine, decided by
  \<open>mission_decide\<close> and folded by \<open>mission_apply\<close>.
\<close>

section \<open>Data\<close>

datatype MissionStatus =
    Draft | Planning | AwaitingApproval | Active | Paused | Halted | Review | Closed | Archived | Cancelled

text \<open>The \<open>Debug\<close> form of a status.\<close>

fun mission_status_debug :: "MissionStatus \<Rightarrow> string" where
  "mission_status_debug Draft = ''Draft''"
| "mission_status_debug Planning = ''Planning''"
| "mission_status_debug AwaitingApproval = ''AwaitingApproval''"
| "mission_status_debug Active = ''Active''"
| "mission_status_debug Paused = ''Paused''"
| "mission_status_debug Halted = ''Halted''"
| "mission_status_debug Review = ''Review''"
| "mission_status_debug Closed = ''Closed''"
| "mission_status_debug Archived = ''Archived''"
| "mission_status_debug Cancelled = ''Cancelled''"

type_synonym MissionId = ObjectId
type_synonym MissionTimelineRef = ObjectId

record MissionSettings =
  timezone :: string
  calendar :: string

definition MissionSettings_default :: MissionSettings where
  "MissionSettings_default = \<lparr>timezone = ''UTC'', calendar = ''standard''\<rparr>"

datatype MissionError =
    InvalidTransition string
  | MissingField string
  | Unauthorized string
  | ClosureCriteriaNotMet string
  | InvalidBlueprint string

datatype MissionCommand =
    CreateMission string "string option" UserId
  | CreateBlueprintRevision string string
  | SubmitBlueprint ObjectId
  | RequestApproval string "ObjectId list"
  | RejectApproval string
  | ActivateMission string
  | PauseMission string
  | OperationalHaltMission string string
  | ResumeMission string
  | RestartMission string bool
  | TriggerReview string
  | CloseMission string "ObjectId list"
  | ArchiveMission string
  | CancelMission string

datatype MissionEvent =
    MissionCreated MissionId string UserId Timestamp
  | MissionBlueprintRevisionCreated ObjectId string Timestamp
  | MissionBlueprintSubmitted ObjectId Timestamp
  | MissionApprovalRequested Timestamp string "ObjectId list"
  | MissionApprovalRejected Timestamp string
  | MissionActivated Timestamp string
  | MissionPaused Timestamp string
  | MissionOperationallyHalted Timestamp string string
  | MissionResumed Timestamp string
  | MissionRestarted Timestamp string bool
  | MissionReviewTriggered Timestamp string
  | MissionClosed Timestamp string
  | MissionArchived Timestamp string
  | MissionCancelled Timestamp string

record Mission =
  mission_id :: MissionId
  mission_version :: ObjectVersion
  mission_lifecycle_epoch :: LifecycleEpoch
  mission_authority_epoch :: AuthorityEpoch
  mission_status :: MissionStatus
  mission_name :: string
  mission_description :: "string option"
  mission_owner_id :: UserId
  blueprint_revision_id :: "ObjectId option"
  submitted_blueprint_revision_id :: "ObjectId option"
  timeline_ref :: "MissionTimelineRef option"
  mission_settings :: MissionSettings

section \<open>Creation\<close>

fun mission_create :: "MissionCommand \<Rightarrow> DecisionContext \<Rightarrow> (MissionEvent list, MissionError) result" where
  "mission_create (CreateMission name _ owner_id) context =
     (if trim_is_empty name then Inl (MissingField ''name'')
      else Inr [MissionCreated (ctx_object_id context 0) name owner_id (trusted_now context)])"
| "mission_create _ context = Inl (InvalidTransition ''Mission::create() called with a non-CreateMission command'')"

text \<open>\<open>None\<close> is the panic on any other event.\<close>

fun mission_from_created_event :: "MissionEvent \<Rightarrow> Mission option" where
  "mission_from_created_event (MissionCreated mid name owner_id _) =
     Some \<lparr>mission_id = mid,
           mission_version = ObjectVersion_INITIAL,
           mission_lifecycle_epoch = LifecycleEpoch_INITIAL,
           mission_authority_epoch = AuthorityEpoch_INITIAL,
           mission_status = Draft,
           mission_name = name,
           mission_description = None,
           mission_owner_id = owner_id,
           blueprint_revision_id = None,
           submitted_blueprint_revision_id = None,
           timeline_ref = None,
           mission_settings = MissionSettings_default\<rparr>"
| "mission_from_created_event _ = None"

section \<open>Deciding\<close>

definition mission_invalid :: "Mission \<Rightarrow> string \<Rightarrow> MissionError" where
  "mission_invalid m command = InvalidTransition (command @ '' from '' @ mission_status_debug (mission_status m))"

definition mission_decide_create_revision ::
    "Mission \<Rightarrow> string \<Rightarrow> string \<Rightarrow> DecisionContext \<Rightarrow> (MissionEvent list, MissionError) result" where
  "mission_decide_create_revision m blueprint_data version context =
     (if mission_status m \<in> {Closed, Archived, Cancelled} then Inl (mission_invalid m ''CreateBlueprintRevision'')
      else if trim_is_empty blueprint_data then Inl (InvalidBlueprint ''blueprint_data must not be empty'')
      else Inr [MissionBlueprintRevisionCreated (ctx_object_id context 0) version (trusted_now context)])"

definition mission_decide_submit ::
    "Mission \<Rightarrow> ObjectId \<Rightarrow> DecisionContext \<Rightarrow> (MissionEvent list, MissionError) result" where
  "mission_decide_submit m revision_id context =
     (if mission_status m \<noteq> Draft then Inl (mission_invalid m ''SubmitBlueprint'')
      else case blueprint_revision_id m of
        Some existing \<Rightarrow>
          if existing = revision_id then Inr [MissionBlueprintSubmitted revision_id (trusted_now context)]
          else Inl (InvalidBlueprint ''revision_id does not match the mission's current blueprint revision'')
      | None \<Rightarrow> Inl (InvalidBlueprint ''no blueprint revision exists to submit''))"

definition mission_decide_request_approval ::
    "Mission \<Rightarrow> string \<Rightarrow> ObjectId list \<Rightarrow> DecisionContext \<Rightarrow> (MissionEvent list, MissionError) result" where
  "mission_decide_request_approval m reason evidence context =
     (if mission_status m \<noteq> Planning then Inl (mission_invalid m ''RequestApproval'')
      else if submitted_blueprint_revision_id m = None
        then Inl (InvalidBlueprint ''cannot request approval without a submitted blueprint'')
      else Inr [MissionApprovalRequested (trusted_now context) reason evidence])"

definition mission_decide :: "Mission \<Rightarrow> MissionCommand \<Rightarrow> DecisionContext \<Rightarrow> (MissionEvent list, MissionError) result" where
  "mission_decide m command context =
     (if \<not> is_authorized (ctx_authority context) ''mission.command''
        then Inl (Unauthorized ''actor lacks required authority'')
      else case command of
        CreateMission _ _ _ \<Rightarrow>
          Inl (InvalidTransition ''CreateMission must be dispatched via Mission::create(), not decide()'')
      | CreateBlueprintRevision blueprint_data version \<Rightarrow> mission_decide_create_revision m blueprint_data version context
      | SubmitBlueprint revision_id \<Rightarrow> mission_decide_submit m revision_id context
      | RequestApproval reason evidence \<Rightarrow> mission_decide_request_approval m reason evidence context
      | RejectApproval reason \<Rightarrow>
          if mission_status m \<noteq> AwaitingApproval then Inl (mission_invalid m ''RejectApproval'')
          else Inr [MissionApprovalRejected (trusted_now context) reason]
      | ActivateMission reason \<Rightarrow>
          if mission_status m \<in> {Planning, AwaitingApproval, Review}
          then Inr [MissionActivated (trusted_now context) reason]
          else Inl (mission_invalid m ''ActivateMission'')
      | PauseMission reason \<Rightarrow>
          if mission_status m \<in> {Planning, Active} then Inr [MissionPaused (trusted_now context) reason]
          else Inl (mission_invalid m ''PauseMission'')
      | OperationalHaltMission reason emergency_code \<Rightarrow>
          if mission_status m \<in> {Active, Paused} then
            (if trim_is_empty emergency_code then Inl (MissingField ''emergency_code'')
             else Inr [MissionOperationallyHalted (trusted_now context) reason emergency_code])
          else Inl (mission_invalid m ''OperationalHaltMission'')
      | ResumeMission reason \<Rightarrow>
          if mission_status m = Paused then Inr [MissionResumed (trusted_now context) reason]
          else Inl (mission_invalid m ''ResumeMission'')
      | RestartMission reason checklist_completed \<Rightarrow>
          if mission_status m = Halted then Inr [MissionRestarted (trusted_now context) reason checklist_completed]
          else Inl (mission_invalid m ''RestartMission'')
      | TriggerReview reason \<Rightarrow>
          if mission_status m = Active then Inr [MissionReviewTriggered (trusted_now context) reason]
          else Inl (mission_invalid m ''TriggerReview'')
      | CloseMission reason closure_evidence \<Rightarrow>
          if mission_status m \<in> {Active, Review} then
            (if closure_evidence = [] then Inl (ClosureCriteriaNotMet ''closure_evidence must not be empty'')
             else Inr [MissionClosed (trusted_now context) reason])
          else Inl (mission_invalid m ''CloseMission'')
      | ArchiveMission reason \<Rightarrow>
          if mission_status m \<in> {Closed, Cancelled} then Inr [MissionArchived (trusted_now context) reason]
          else Inl (mission_invalid m ''ArchiveMission'')
      | CancelMission reason \<Rightarrow>
          if mission_status m \<in> {Draft, Planning, AwaitingApproval, Active, Paused, Halted, Review}
          then Inr [MissionCancelled (trusted_now context) reason]
          else Inl (mission_invalid m ''CancelMission''))"

section \<open>Applying\<close>

definition mission_enter :: "MissionStatus \<Rightarrow> Mission \<Rightarrow> Mission" where
  "mission_enter s m = m\<lparr>mission_status := s, mission_lifecycle_epoch := LifecycleEpoch_advance (mission_lifecycle_epoch m)\<rparr>"

fun mission_apply_event :: "MissionEvent \<Rightarrow> Mission \<Rightarrow> Mission" where
  "mission_apply_event (MissionCreated _ _ _ _) m = m"
| "mission_apply_event (MissionBlueprintRevisionCreated revision_id _ _) m = m\<lparr>blueprint_revision_id := Some revision_id\<rparr>"
| "mission_apply_event (MissionBlueprintSubmitted revision_id _) m =
     mission_enter Planning (m\<lparr>submitted_blueprint_revision_id := Some revision_id\<rparr>)"
| "mission_apply_event (MissionApprovalRequested _ _ _) m = mission_enter AwaitingApproval m"
| "mission_apply_event (MissionApprovalRejected _ _) m = mission_enter Planning m"
| "mission_apply_event (MissionActivated _ _) m = mission_enter Active m"
| "mission_apply_event (MissionPaused _ _) m = mission_enter Paused m"
| "mission_apply_event (MissionOperationallyHalted _ _ _) m = mission_enter Halted m"
| "mission_apply_event (MissionResumed _ _) m = mission_enter Active m"
| "mission_apply_event (MissionRestarted _ _ checklist_completed) m =
     mission_enter (if checklist_completed then Active else Paused) m"
| "mission_apply_event (MissionReviewTriggered _ _) m = mission_enter Review m"
| "mission_apply_event (MissionClosed _ _) m = mission_enter Closed m"
| "mission_apply_event (MissionArchived _ _) m = mission_enter Archived m"
| "mission_apply_event (MissionCancelled _ _) m = mission_enter Cancelled m"

definition mission_apply :: "MissionEvent \<Rightarrow> Mission \<Rightarrow> Mission" where
  "mission_apply event m =
     (let m' = mission_apply_event event m in m'\<lparr>mission_version := ObjectVersion_next (mission_version m')\<rparr>)"

section \<open>The lifecycle, abstractly\<close>

text \<open>The ruled transition table.\<close>

inductive mission_transition :: "MissionStatus \<Rightarrow> MissionStatus \<Rightarrow> bool" where
  submit: "mission_transition Draft Planning"
| request: "mission_transition Planning AwaitingApproval"
| reject: "mission_transition AwaitingApproval Planning"
| activate: "s \<in> {Planning, AwaitingApproval, Review} \<Longrightarrow> mission_transition s Active"
| pause: "s \<in> {Planning, Active} \<Longrightarrow> mission_transition s Paused"
| halt: "s \<in> {Active, Paused} \<Longrightarrow> mission_transition s Halted"
| resume: "mission_transition Paused Active"
| restart: "t \<in> {Active, Paused} \<Longrightarrow> mission_transition Halted t"
| review: "mission_transition Active Review"
| close: "s \<in> {Active, Review} \<Longrightarrow> mission_transition s Closed"
| archive: "s \<in> {Closed, Cancelled} \<Longrightarrow> mission_transition s Archived"
| cancel: "s \<notin> {Closed, Archived, Cancelled} \<Longrightarrow> mission_transition s Cancelled"

inductive_cases mission_transitionE: "mission_transition s t"

lemmas mission_decide_defs [agg_simps] =
  mission_decide_def is_authorized_def mission_decide_create_revision_def mission_decide_submit_def mission_decide_request_approval_def

lemmas mission_apply_defs [agg_simps] = mission_apply_def mission_enter_def Let_def

text \<open>Every accepted command produces exactly one event; which one, and from which status.\<close>

lemma mission_decide_cases:
  assumes "mission_decide m c ctx = Inr es"
  obtains e where "es = [e]"
    and "(\<exists>r v t. e = MissionBlueprintRevisionCreated r v t) \<and> mission_status m \<notin> {Closed, Archived, Cancelled}
         \<or> (mission_transition (mission_status m) (mission_status (mission_apply e m)) \<and>
            mission_lifecycle_epoch (mission_apply e m) = mission_lifecycle_epoch m + 1)"
  using assms
  by (cases c; fastforce simp: agg_simps kernel_simps split: if_splits option.splits intro: mission_transition.intros)

interpretation mission: lifecycle_aggregate mission_id mission_version mission_lifecycle_epoch mission_authority_epoch
    mission_decide mission_apply mission_status mission_transition
proof
  fix e :: MissionEvent and m :: Mission
  show "mission_id (mission_apply e m) = mission_id m" by (cases e) (simp_all add: agg_simps)
  show "mission_version (mission_apply e m) = ObjectVersion_next (mission_version m)" by (cases e) (simp_all add: agg_simps)
  show "mission_lifecycle_epoch (mission_apply e m)
      \<in> {mission_lifecycle_epoch m, LifecycleEpoch_advance (mission_lifecycle_epoch m)}"
    by (cases e) (simp_all add: agg_simps)
  show "mission_authority_epoch (mission_apply e m)
      \<in> {mission_authority_epoch m, AuthorityEpoch_advance (mission_authority_epoch m)}"
    by (cases e) (simp_all add: agg_simps)
next
  fix m c ctx es assume "mission_decide m c ctx = Inr es"
  then show "mission_status (fold mission_apply es m) = mission_status m
      \<or> mission_transition (mission_status m) (mission_status (fold mission_apply es m))"
    by (rule mission_decide_cases) (auto simp: agg_simps)
next
  fix m c ctx es assume "mission_decide m c ctx = Inr es" "mission_status (fold mission_apply es m) \<noteq> mission_status m"
  then show "mission_lifecycle_epoch (fold mission_apply es m) \<noteq> mission_lifecycle_epoch m"
    by (elim mission_decide_cases) (auto simp: agg_simps)
qed

section \<open>Reachable missions\<close>

inductive mission_reachable :: "Mission \<Rightarrow> bool" where
  created: "mission_create c ctx = Inr [e] \<Longrightarrow> mission_from_created_event e = Some m \<Longrightarrow> mission_reachable m"
| decided: "mission_reachable m \<Longrightarrow> mission_decide m c ctx = Inr es \<Longrightarrow> mission_reachable (fold mission_apply es m)"

definition mission_inv :: "Mission \<Rightarrow> bool" where
  "mission_inv m \<longleftrightarrow>
     (mission_status m \<notin> {Draft, Archived, Cancelled} \<longrightarrow> submitted_blueprint_revision_id m \<noteq> None)
     \<and> (submitted_blueprint_revision_id m \<noteq> None \<longrightarrow> blueprint_revision_id m \<noteq> None)
     \<and> \<not> trim_is_empty (mission_name m) \<and> mission_description m = None
     \<and> mission_authority_epoch m = AuthorityEpoch_INITIAL"

lemma mission_inv_create:
  "mission_create c ctx = Inr [e] \<Longrightarrow> mission_from_created_event e = Some m \<Longrightarrow> mission_inv m"
  by (cases c) (auto simp: mission_inv_def split: if_splits)

lemma mission_inv_decide:
  assumes "mission_inv m" and "mission_decide m c ctx = Inr es"
  shows "mission_inv (fold mission_apply es m)"
  using assms
  by (cases c; cases "mission_status m"; force simp: mission_inv_def agg_simps split: if_splits option.splits)

lemma mission_reachable_inv: "mission_reachable m \<Longrightarrow> mission_inv m"
  by (induction rule: mission_reachable.induct) (auto intro: mission_inv_create mission_inv_decide)

section \<open>Properties\<close>

definition mission_sample_ctx :: DecisionContext where
  "mission_sample_ctx = \<lparr>ctx_actor = \<lparr>user_id = 1, device_id = 2, actor_organization_id = 3\<rparr>,
     ctx_authority = VerifiedAuthority, trusted_now = 10, policy_outcomes = PolicyDecisionSet,
     ctx_object_id = (\<lambda>n. 100 + of_nat n)\<rparr>"

definition mission_sample :: Mission where
  "mission_sample = \<lparr>mission_id = 100, mission_version = 0, mission_lifecycle_epoch = 0, mission_authority_epoch = 0,
     mission_status = Draft, mission_name = ''alpha'', mission_description = None, mission_owner_id = 1,
     blueprint_revision_id = None, submitted_blueprint_revision_id = None, timeline_ref = None,
     mission_settings = \<lparr>timezone = ''UTC'', calendar = ''standard''\<rparr>\<rparr>"

lemma mission_sample_reachable: "mission_reachable mission_sample"
proof (rule mission_reachable.created)
  show "mission_create (CreateMission ''alpha'' None 1) mission_sample_ctx = Inr [MissionCreated 100 ''alpha'' 1 10]"
    by (simp add: mission_sample_ctx_def)
  show "mission_from_created_event (MissionCreated 100 ''alpha'' 1 10) = Some mission_sample"
    by (simp add: mission_sample_def kernel_simps MissionSettings_default_def)
qed

text \<open>
  Creating a mission rejects a blank name and otherwise yields one creation event, from which the rebuilt
  mission is a draft at version and epochs zero with the requested name and owner; a description
  in the command is not kept; every other command is rejected by \<open>create\<close>, and \<open>CreateMission\<close> by \<open>decide\<close>.
\<close>

theorem mission_create_spec:
  "(case mission_create (CreateMission name desc owner) ctx of
      Inl err \<Rightarrow> trim_is_empty name \<and> err = MissingField ''name''
    | Inr events \<Rightarrow> \<not> trim_is_empty name \<and> (\<exists>e m. events = [e] \<and> mission_from_created_event e = Some m
        \<and> mission_status m = Draft \<and> mission_name m = name \<and> mission_owner_id m = owner
        \<and> mission_id m = ctx_object_id ctx 0 \<and> mission_version m = 0 \<and> mission_lifecycle_epoch m = 0
        \<and> mission_authority_epoch m = 0 \<and> mission_description m = None))
   \<and> (mission_create c ctx = Inr events \<longrightarrow> (\<exists>n d u. c = CreateMission n d u) \<and> (\<exists>err. mission_decide m c ctx = Inl err))"
  by (cases c) (auto simp: kernel_simps agg_simps)

theorem mission_create_spec_witness:
  "(\<exists>err. mission_decide mission_sample (CreateMission ''alpha'' (Some ''lost'') 1) mission_sample_ctx = Inl err)"
  using mission_create_spec [where ctx = mission_sample_ctx and c = "CreateMission ''alpha'' (Some ''lost'') 1"
      and events = "[MissionCreated 100 ''alpha'' 1 10]" and m = mission_sample]
  by (simp add: mission_sample_ctx_def)

text \<open>
  C6. The decisions implement the ruled transition table: an accepted command yields one event and either
  follows one transition of the table and advances the lifecycle epoch, or records a blueprint revision and changes
  neither; conversely, every transition of the table out of a reachable mission is taken by some
  command (leaving \<open>Draft\<close> for \<open>Planning\<close> once a revision exists).
\<close>

theorem mission_implements_table:
  assumes "mission_reachable m"
  shows "(mission_decide m c ctx = Inr es \<longrightarrow>
      (let m' = fold mission_apply es m in length es = 1 \<and>
       (mission_transition (mission_status m) (mission_status m') \<and> mission_lifecycle_epoch m' = mission_lifecycle_epoch m + 1
        \<or> mission_status m' = mission_status m \<and> mission_lifecycle_epoch m' = mission_lifecycle_epoch m
          \<and> blueprint_revision_id m' \<noteq> None \<and> mission_status m \<notin> {Closed, Archived, Cancelled})))
    \<and> (mission_transition (mission_status m) t \<longrightarrow> (t = Planning \<and> mission_status m = Draft \<longrightarrow> blueprint_revision_id m \<noteq> None)
      \<longrightarrow> (\<exists>c' es'. mission_decide m c' ctx = Inr es' \<and> mission_status (fold mission_apply es' m) = t))"
proof (intro conjI impI)
  assume "mission_decide m c ctx = Inr es"
  then show "let m' = fold mission_apply es m in length es = 1 \<and>
       (mission_transition (mission_status m) (mission_status m') \<and> mission_lifecycle_epoch m' = mission_lifecycle_epoch m + 1
        \<or> mission_status m' = mission_status m \<and> mission_lifecycle_epoch m' = mission_lifecycle_epoch m
          \<and> blueprint_revision_id m' \<noteq> None \<and> mission_status m \<notin> {Closed, Archived, Cancelled})"
    by (rule mission_decide_cases) (auto simp: agg_simps)
next
  assume tr: "mission_transition (mission_status m) t"
    and bp: "t = Planning \<and> mission_status m = Draft \<longrightarrow> blueprint_revision_id m \<noteq> None"
  from mission_reachable_inv [OF assms(1)] have inv: "mission_inv m" .
  define go where "go = (\<lambda>c'. \<exists>es'. mission_decide m c' ctx = Inr es' \<and> mission_status (fold mission_apply es' m) = t)"
  from tr have "\<exists>c'. go c'"
  proof (cases rule: mission_transition.cases)
    case submit
    with bp show ?thesis
      by (intro exI [of _ "SubmitBlueprint (the (blueprint_revision_id m))"]) (auto simp: go_def agg_simps)
  next
    case request
    with inv show ?thesis by (intro exI [of _ "RequestApproval [] []"]) (auto simp: go_def agg_simps mission_inv_def)
  next
    case reject then show ?thesis by (intro exI [of _ "RejectApproval []"]) (simp add: go_def agg_simps)
  next
    case activate then show ?thesis by (intro exI [of _ "ActivateMission []"]) (auto simp: go_def agg_simps)
  next
    case pause then show ?thesis by (intro exI [of _ "PauseMission []"]) (auto simp: go_def agg_simps)
  next
    case halt then show ?thesis by (intro exI [of _ "OperationalHaltMission [] ''x''"]) (auto simp: go_def agg_simps)
  next
    case resume then show ?thesis by (intro exI [of _ "ResumeMission []"]) (simp add: go_def agg_simps)
  next
    case restart then show ?thesis by (intro exI [of _ "RestartMission [] (t = Active)"]) (auto simp: go_def agg_simps)
  next
    case review then show ?thesis by (intro exI [of _ "TriggerReview []"]) (simp add: go_def agg_simps)
  next
    case close then show ?thesis by (intro exI [of _ "CloseMission [] [0]"]) (auto simp: go_def agg_simps)
  next
    case archive then show ?thesis by (intro exI [of _ "ArchiveMission []"]) (auto simp: go_def agg_simps)
  next
    case cancel then show ?thesis
      by (intro exI [of _ "CancelMission []"]) (cases "mission_status m"; simp add: go_def agg_simps)
  qed
  then show "\<exists>c' es'. mission_decide m c' ctx = Inr es' \<and> mission_status (fold mission_apply es' m) = t"
    by (simp add: go_def)
qed

theorem mission_implements_table_witness:
  "\<exists>c es. mission_decide mission_sample c mission_sample_ctx = Inr es
     \<and> mission_status (fold mission_apply es mission_sample) = Cancelled"
  using mission_implements_table [OF mission_sample_reachable, where ctx = mission_sample_ctx and t = Cancelled]
  by (simp add: mission_sample_def mission_sample_ctx_def agg_simps mission_transition.intros)

text \<open>
  C7. In every mission that \<open>create\<close> and \<open>decide\<close> can produce, execution states hold a submitted blueprint, a submitted
  blueprint implies a recorded revision, the name is not blank, and the authority epoch has never moved.
\<close>

theorem mission_reachable_invariant:
  assumes "mission_reachable m"
  shows "(mission_status m \<notin> {Draft, Archived, Cancelled} \<longrightarrow> submitted_blueprint_revision_id m \<noteq> None)
    \<and> (submitted_blueprint_revision_id m \<noteq> None \<longrightarrow> blueprint_revision_id m \<noteq> None)
    \<and> \<not> trim_is_empty (mission_name m) \<and> mission_authority_epoch m = 0"
  using mission_reachable_inv [OF assms] by (auto simp: mission_inv_def kernel_simps)

theorem mission_reachable_invariant_witness: "\<not> trim_is_empty (mission_name mission_sample)"
  using mission_reachable_invariant [OF mission_sample_reachable] by simp

text \<open>
  Closing down is final: no sequence of commands takes a closed, archived or cancelled mission back, an archived
  mission rejects every command and is left exactly as it is, and over any run the identity is
  kept and the version advances by the number of events produced.
\<close>

theorem mission_terminal:
  assumes "mission_status m \<in> {Closed, Archived, Cancelled}"
  shows "mission_status (foldl (execute mission_decide mission_apply) m cmds) \<in> {Closed, Archived, Cancelled}
    \<and> (mission_status m = Archived \<longrightarrow> foldl (execute mission_decide mission_apply) m cmds = m)
    \<and> mission_id (foldl (execute mission_decide mission_apply) m cmds) = mission_id m
    \<and> mission_version (foldl (execute mission_decide mission_apply) m cmds)
        = mission_version m + of_nat (event_count mission_decide mission_apply m cmds)"
proof -
  have "execute mission_decide mission_apply m cmd = m" if "mission_status m = Archived" for cmd
    using that by (cases "fst cmd") (auto simp: execute_def agg_simps)
  then have "foldl (execute mission_decide mission_apply) m cmds = m" if "mission_status m = Archived"
    using that by (induction cmds) auto
  moreover have "t \<in> {Closed, Archived, Cancelled}" if "s \<in> {Closed, Archived, Cancelled}" "mission_transition s t" for s t
    using that(2,1) by (cases rule: mission_transition.cases) auto
  ultimately show ?thesis
    using mission.run_closed [OF assms] mission.run_id mission.run_version by blast
qed

theorem mission_terminal_witness:
  "foldl (execute mission_decide mission_apply) (mission_sample\<lparr>mission_status := Archived\<rparr>)
     [(ActivateMission [], mission_sample_ctx)] = mission_sample\<lparr>mission_status := Archived\<rparr>"
  using mission_terminal [of "mission_sample\<lparr>mission_status := Archived\<rparr>" "[(ActivateMission [], mission_sample_ctx)]"]
  by simp

end
