(* ===== verification/Work_Domain.thy ===== *)
theory Work_Domain
  imports Mission_Domain
begin

text \<open>
  The task aggregate (\<open>crates/domains/work-domain\<close>): its lifecycle, ownership, priority and the
  dependencies on other tasks.
\<close>

section \<open>Data\<close>

datatype TaskStatus =
    Draft | Ready | Active | Paused | Blocked | Submitted | Approved | Closed | Cancelled | Reopened

fun task_status_debug :: "TaskStatus \<Rightarrow> string" where
  "task_status_debug Draft = ''Draft''"
| "task_status_debug Ready = ''Ready''"
| "task_status_debug Active = ''Active''"
| "task_status_debug Paused = ''Paused''"
| "task_status_debug Blocked = ''Blocked''"
| "task_status_debug Submitted = ''Submitted''"
| "task_status_debug Approved = ''Approved''"
| "task_status_debug Closed = ''Closed''"
| "task_status_debug Cancelled = ''Cancelled''"
| "task_status_debug Reopened = ''Reopened''"

type_synonym TaskId = ObjectId
type_synonym TaskMissionRef = MissionId

datatype DependencyType = FinishToStart | StartToStart | FinishToFinish

record Dependency =
  dep_task_id :: TaskId
  dep_type :: DependencyType

datatype TaskPriority = Low | Normal | High | Urgent

definition TaskPriority_default :: TaskPriority where
  "TaskPriority_default = Normal"

datatype TaskError =
    InvalidTransition string
  | MissingField string
  | Unauthorized string
  | InvalidDependency string
  | MissingCompletionEvidence string

datatype TaskCommand =
    CreateTask TaskMissionRef string "string option" UserId
  | MarkReady string
  | AssignOwner UserId string
  | ChangePriority TaskPriority string
  | AddDependency Dependency
  | StartTask string
  | PauseTask string
  | BlockTask string "ObjectId option"
  | ResumeTask string
  | UnblockTask string
  | SubmitCompletion "ObjectId list"
  | RejectTask string
  | ApproveTask string
  | CloseTask string
  | ReopenTask string UserId
  | CancelTask string

datatype TaskEvent =
    TaskCreated TaskId TaskMissionRef string UserId Timestamp
  | TaskMarkedReady Timestamp string
  | TaskOwnerAssigned UserId Timestamp string
  | TaskPriorityChanged TaskPriority Timestamp string
  | TaskDependencyAdded Dependency Timestamp
  | TaskStarted Timestamp string
  | TaskPaused Timestamp string
  | TaskBlocked Timestamp string "ObjectId option"
  | TaskResumed Timestamp string
  | TaskUnblocked Timestamp string
  | TaskCompletionSubmitted Timestamp "ObjectId list"
  | TaskRejected Timestamp string
  | TaskApproved Timestamp string
  | TaskReopened Timestamp string UserId
  | TaskClosed Timestamp string
  | TaskCancelled Timestamp string

record Task =
  task_id :: TaskId
  task_version :: ObjectVersion
  task_lifecycle_epoch :: LifecycleEpoch
  task_authority_epoch :: AuthorityEpoch
  task_status :: TaskStatus
  task_mission_id :: TaskMissionRef
  task_title :: string
  task_description :: "string option"
  task_owner_id :: UserId
  task_priority :: TaskPriority
  task_dependencies :: "Dependency list"

section \<open>Creation\<close>

fun task_create :: "TaskCommand \<Rightarrow> DecisionContext \<Rightarrow> (TaskEvent list, TaskError) result" where
  "task_create (CreateTask mid title _ owner_id) context =
     (if trim_is_empty title then Inl (MissingField ''title'')
      else Inr [TaskCreated (ctx_object_id context 0) mid title owner_id (trusted_now context)])"
| "task_create _ context = Inl (InvalidTransition ''Task::create() called with a non-CreateTask command'')"

text \<open>\<open>None\<close> is the panic on any other event.\<close>

fun task_from_created_event :: "TaskEvent \<Rightarrow> Task option" where
  "task_from_created_event (TaskCreated tid mid title owner_id _) =
     Some \<lparr>task_id = tid,
           task_version = ObjectVersion_INITIAL,
           task_lifecycle_epoch = LifecycleEpoch_INITIAL,
           task_authority_epoch = AuthorityEpoch_INITIAL,
           task_status = Draft,
           task_mission_id = mid,
           task_title = title,
           task_description = None,
           task_owner_id = owner_id,
           task_priority = TaskPriority_default,
           task_dependencies = []\<rparr>"
| "task_from_created_event _ = None"

section \<open>Deciding\<close>

definition task_invalid :: "Task \<Rightarrow> string \<Rightarrow> TaskError" where
  "task_invalid t command = InvalidTransition (command @ '' from '' @ task_status_debug (task_status t))"

definition self_loop_commands_permitted :: "Task \<Rightarrow> bool" where
  "self_loop_commands_permitted t \<longleftrightarrow> task_status t \<in> {Draft, Ready, Active, Reopened}"

definition task_decide_add_dependency ::
    "Task \<Rightarrow> Dependency \<Rightarrow> DecisionContext \<Rightarrow> (TaskEvent list, TaskError) result" where
  "task_decide_add_dependency t dependency context =
     (if \<not> self_loop_commands_permitted t then Inl (task_invalid t ''AddDependency'')
      else if dep_task_id dependency = task_id t then Inl (InvalidDependency ''a task cannot depend on itself'')
      else if dependency \<in> set (task_dependencies t) then Inl (InvalidDependency ''duplicate dependency'')
      else Inr [TaskDependencyAdded dependency (trusted_now context)])"

definition task_decide :: "Task \<Rightarrow> TaskCommand \<Rightarrow> DecisionContext \<Rightarrow> (TaskEvent list, TaskError) result" where
  "task_decide t command context =
     (if \<not> is_authorized (ctx_authority context) ''task.command''
        then Inl (Unauthorized ''actor lacks required authority'')
      else case command of
        CreateTask _ _ _ _ \<Rightarrow>
          Inl (InvalidTransition ''CreateTask must be dispatched via Task::create(), not decide()'')
      | MarkReady reason \<Rightarrow>
          if task_status t = Draft then Inr [TaskMarkedReady (trusted_now context) reason]
          else Inl (task_invalid t ''MarkReady'')
      | AssignOwner owner_id reason \<Rightarrow>
          if \<not> self_loop_commands_permitted t then Inl (task_invalid t ''AssignOwner'')
          else Inr [TaskOwnerAssigned owner_id (trusted_now context) reason]
      | ChangePriority priority reason \<Rightarrow>
          if \<not> self_loop_commands_permitted t then Inl (task_invalid t ''ChangePriority'')
          else Inr [TaskPriorityChanged priority (trusted_now context) reason]
      | AddDependency dependency \<Rightarrow> task_decide_add_dependency t dependency context
      | StartTask reason \<Rightarrow>
          if task_status t \<in> {Ready, Reopened} then Inr [TaskStarted (trusted_now context) reason]
          else Inl (task_invalid t ''StartTask'')
      | PauseTask reason \<Rightarrow>
          if task_status t = Active then Inr [TaskPaused (trusted_now context) reason]
          else Inl (task_invalid t ''PauseTask'')
      | BlockTask reason blocking_ref \<Rightarrow>
          if task_status t = Active then Inr [TaskBlocked (trusted_now context) reason blocking_ref]
          else Inl (task_invalid t ''BlockTask'')
      | ResumeTask reason \<Rightarrow>
          if task_status t = Paused then Inr [TaskResumed (trusted_now context) reason]
          else Inl (task_invalid t ''ResumeTask'')
      | UnblockTask reason \<Rightarrow>
          if task_status t = Blocked then Inr [TaskUnblocked (trusted_now context) reason]
          else Inl (task_invalid t ''UnblockTask'')
      | SubmitCompletion evidence \<Rightarrow>
          if task_status t = Active then
            (if evidence = [] then Inl (MissingCompletionEvidence ''evidence must not be empty'')
             else Inr [TaskCompletionSubmitted (trusted_now context) evidence])
          else Inl (task_invalid t ''SubmitCompletion'')
      | RejectTask reason \<Rightarrow>
          if task_status t = Submitted then Inr [TaskRejected (trusted_now context) reason]
          else Inl (task_invalid t ''RejectTask'')
      | ApproveTask reason \<Rightarrow>
          if task_status t = Submitted then Inr [TaskApproved (trusted_now context) reason]
          else Inl (task_invalid t ''ApproveTask'')
      | CloseTask reason \<Rightarrow>
          if task_status t = Approved then Inr [TaskClosed (trusted_now context) reason]
          else Inl (task_invalid t ''CloseTask'')
      | ReopenTask reason authorized_by \<Rightarrow>
          if task_status t = Closed then Inr [TaskReopened (trusted_now context) reason authorized_by]
          else Inl (task_invalid t ''ReopenTask'')
      | CancelTask reason \<Rightarrow>
          if task_status t \<in> {Draft, Ready, Active, Paused, Blocked, Reopened}
          then Inr [TaskCancelled (trusted_now context) reason]
          else Inl (task_invalid t ''CancelTask''))"

section \<open>Applying\<close>

definition task_enter :: "TaskStatus \<Rightarrow> Task \<Rightarrow> Task" where
  "task_enter s t = t\<lparr>task_status := s, task_lifecycle_epoch := LifecycleEpoch_advance (task_lifecycle_epoch t)\<rparr>"

fun task_apply_event :: "TaskEvent \<Rightarrow> Task \<Rightarrow> Task" where
  "task_apply_event (TaskCreated _ _ _ _ _) t = t"
| "task_apply_event (TaskMarkedReady _ _) t = task_enter Ready t"
| "task_apply_event (TaskOwnerAssigned owner_id _ _) t =
     t\<lparr>task_owner_id := owner_id, task_authority_epoch := AuthorityEpoch_advance (task_authority_epoch t)\<rparr>"
| "task_apply_event (TaskPriorityChanged priority _ _) t = t\<lparr>task_priority := priority\<rparr>"
| "task_apply_event (TaskDependencyAdded dependency _) t = t\<lparr>task_dependencies := task_dependencies t @ [dependency]\<rparr>"
| "task_apply_event (TaskStarted _ _) t = task_enter Active t"
| "task_apply_event (TaskPaused _ _) t = task_enter Paused t"
| "task_apply_event (TaskBlocked _ _ _) t = task_enter Blocked t"
| "task_apply_event (TaskResumed _ _) t = task_enter Active t"
| "task_apply_event (TaskUnblocked _ _) t = task_enter Active t"
| "task_apply_event (TaskCompletionSubmitted _ _) t = task_enter Submitted t"
| "task_apply_event (TaskRejected _ _) t = task_enter Active t"
| "task_apply_event (TaskApproved _ _) t = task_enter Approved t"
| "task_apply_event (TaskReopened _ _ _) t = task_enter Reopened t"
| "task_apply_event (TaskClosed _ _) t = task_enter Closed t"
| "task_apply_event (TaskCancelled _ _) t = task_enter Cancelled t"

definition task_apply :: "TaskEvent \<Rightarrow> Task \<Rightarrow> Task" where
  "task_apply event t =
     (let t' = task_apply_event event t in t'\<lparr>task_version := ObjectVersion_next (task_version t')\<rparr>)"

section \<open>The lifecycle, abstractly\<close>

inductive task_transition :: "TaskStatus \<Rightarrow> TaskStatus \<Rightarrow> bool" where
  ready: "task_transition Draft Ready"
| start: "s \<in> {Ready, Reopened} \<Longrightarrow> task_transition s Active"
| pause: "task_transition Active Paused"
| block: "task_transition Active Blocked"
| resume: "task_transition Paused Active"
| unblock: "task_transition Blocked Active"
| submit: "task_transition Active Submitted"
| reject: "task_transition Submitted Active"
| approve: "task_transition Submitted Approved"
| close: "task_transition Approved Closed"
| reopen: "task_transition Closed Reopened"
| cancel: "s \<in> {Draft, Ready, Active, Paused, Blocked, Reopened} \<Longrightarrow> task_transition s Cancelled"

lemmas task_decide_defs [agg_simps] = task_decide_def self_loop_commands_permitted_def task_decide_add_dependency_def

lemmas task_apply_defs [agg_simps] = task_apply_def task_enter_def

text \<open>An accepted command produces one event, which either follows the table or leaves the status alone.\<close>

lemma task_decide_cases:
  assumes "task_decide t c ctx = Inr es"
  obtains e where "es = [e]"
    and "task_transition (task_status t) (task_status (task_apply e t))
           \<and> task_lifecycle_epoch (task_apply e t) = task_lifecycle_epoch t + 1
         \<or> task_status (task_apply e t) = task_status t \<and> task_lifecycle_epoch (task_apply e t) = task_lifecycle_epoch t
           \<and> task_status t \<in> {Draft, Ready, Active, Reopened}"
  using assms
  by (cases c; fastforce simp: agg_simps kernel_simps split: if_splits intro: task_transition.intros)

interpretation task: lifecycle_aggregate task_id task_version task_lifecycle_epoch task_authority_epoch
    task_decide task_apply task_status task_transition
proof
  fix e :: TaskEvent and t :: Task
  show "task_id (task_apply e t) = task_id t" by (cases e) (simp_all add: agg_simps)
  show "task_version (task_apply e t) = ObjectVersion_next (task_version t)" by (cases e) (simp_all add: agg_simps)
  show "task_lifecycle_epoch (task_apply e t) \<in> {task_lifecycle_epoch t, LifecycleEpoch_advance (task_lifecycle_epoch t)}"
    by (cases e) (simp_all add: agg_simps)
  show "task_authority_epoch (task_apply e t) \<in> {task_authority_epoch t, AuthorityEpoch_advance (task_authority_epoch t)}"
    by (cases e) (simp_all add: agg_simps)
next
  fix t c ctx es assume "task_decide t c ctx = Inr es"
  then show "task_status (fold task_apply es t) = task_status t
      \<or> task_transition (task_status t) (task_status (fold task_apply es t))"
    by (rule task_decide_cases) auto
next
  fix t c ctx es assume "task_decide t c ctx = Inr es" "task_status (fold task_apply es t) \<noteq> task_status t"
  then show "task_lifecycle_epoch (fold task_apply es t) \<noteq> task_lifecycle_epoch t"
    by (elim task_decide_cases) auto
qed

section \<open>Reachable tasks\<close>

inductive task_reachable :: "Task \<Rightarrow> bool" where
  created: "task_create c ctx = Inr [e] \<Longrightarrow> task_from_created_event e = Some t \<Longrightarrow> task_reachable t"
| decided: "task_reachable t \<Longrightarrow> task_decide t c ctx = Inr es \<Longrightarrow> task_reachable (fold task_apply es t)"

definition task_inv :: "Task \<Rightarrow> bool" where
  "task_inv t \<longleftrightarrow> distinct (task_dependencies t) \<and> (\<forall>d \<in> set (task_dependencies t). dep_task_id d \<noteq> task_id t)
     \<and> \<not> trim_is_empty (task_title t)"

lemma task_inv_decide:
  assumes "task_inv t" and "task_decide t c ctx = Inr es"
  shows "task_inv (fold task_apply es t)"
  using assms
  by (cases c; force simp: task_inv_def agg_simps split: if_splits)

lemma task_reachable_inv: "task_reachable t \<Longrightarrow> task_inv t"
proof (induction rule: task_reachable.induct)
  case (created c ctx e t)
  then show ?case by (cases c) (auto simp: task_inv_def split: if_splits)
qed (rule task_inv_decide)

section \<open>Properties\<close>

definition task_sample_ctx :: DecisionContext where
  "task_sample_ctx = \<lparr>ctx_actor = \<lparr>user_id = 1, device_id = 2, actor_organization_id = 3\<rparr>,
     ctx_authority = VerifiedAuthority, trusted_now = 10, policy_outcomes = PolicyDecisionSet,
     ctx_object_id = (\<lambda>n. 100 + of_nat n)\<rparr>"

definition task_sample :: Task where
  "task_sample = \<lparr>task_id = 100, task_version = 0, task_lifecycle_epoch = 0, task_authority_epoch = 0,
     task_status = Draft, task_mission_id = 7, task_title = ''dig'', task_description = None, task_owner_id = 1,
     task_priority = Normal, task_dependencies = []\<rparr>"

lemma task_sample_reachable: "task_reachable task_sample"
proof (rule task_reachable.created)
  show "task_create (CreateTask 7 ''dig'' None 1) task_sample_ctx = Inr [TaskCreated 100 7 ''dig'' 1 10]"
    by (simp add: task_sample_ctx_def is_ws3_def)
  show "task_from_created_event (TaskCreated 100 7 ''dig'' 1 10) = Some task_sample"
    by (simp add: task_sample_def kernel_simps TaskPriority_default_def)
qed

text \<open>
  C8. The decisions of a task implement its transition table: an accepted command yields one event and either follows a
  transition of the table, advancing the lifecycle epoch, or leaves status and epoch alone, which is possible only
  for drafts and tasks in work; conversely every transition of the table is taken by some command.
\<close>

theorem task_implements_table:
  "(task_decide t c ctx = Inr es \<longrightarrow>
      (let t' = fold task_apply es t in length es = 1 \<and>
       (task_transition (task_status t) (task_status t') \<and> task_lifecycle_epoch t' = task_lifecycle_epoch t + 1
        \<or> task_status t' = task_status t \<and> task_lifecycle_epoch t' = task_lifecycle_epoch t
          \<and> task_status t \<in> {Draft, Ready, Active, Reopened})))
   \<and> (task_transition (task_status t) s \<longrightarrow>
        (\<exists>c' es'. task_decide t c' ctx = Inr es' \<and> task_status (fold task_apply es' t) = s))"
proof (intro conjI impI)
  assume "task_decide t c ctx = Inr es"
  then show "let t' = fold task_apply es t in length es = 1 \<and>
       (task_transition (task_status t) (task_status t') \<and> task_lifecycle_epoch t' = task_lifecycle_epoch t + 1
        \<or> task_status t' = task_status t \<and> task_lifecycle_epoch t' = task_lifecycle_epoch t
          \<and> task_status t \<in> {Draft, Ready, Active, Reopened})"
    by (rule task_decide_cases) auto
next
  define go where "go = (\<lambda>c'. \<exists>es'. task_decide t c' ctx = Inr es' \<and> task_status (fold task_apply es' t) = s)"
  assume "task_transition (task_status t) s"
  then have "\<exists>c'. go c'"
  proof (cases rule: task_transition.cases)
    case ready then show ?thesis by (intro exI [of _ "MarkReady []"]) (simp add: go_def agg_simps)
  next
    case start then show ?thesis by (intro exI [of _ "StartTask []"]) (auto simp: go_def agg_simps)
  next
    case pause then show ?thesis by (intro exI [of _ "PauseTask []"]) (simp add: go_def agg_simps)
  next
    case block then show ?thesis by (intro exI [of _ "BlockTask [] None"]) (simp add: go_def agg_simps)
  next
    case resume then show ?thesis by (intro exI [of _ "ResumeTask []"]) (simp add: go_def agg_simps)
  next
    case unblock then show ?thesis by (intro exI [of _ "UnblockTask []"]) (simp add: go_def agg_simps)
  next
    case submit then show ?thesis by (intro exI [of _ "SubmitCompletion [0]"]) (simp add: go_def agg_simps)
  next
    case reject then show ?thesis by (intro exI [of _ "RejectTask []"]) (simp add: go_def agg_simps)
  next
    case approve then show ?thesis by (intro exI [of _ "ApproveTask []"]) (simp add: go_def agg_simps)
  next
    case close then show ?thesis by (intro exI [of _ "CloseTask []"]) (simp add: go_def agg_simps)
  next
    case reopen then show ?thesis by (intro exI [of _ "ReopenTask [] 0"]) (simp add: go_def agg_simps)
  next
    case cancel then show ?thesis by (intro exI [of _ "CancelTask []"]) (auto simp: go_def agg_simps)
  qed
  then show "\<exists>c' es'. task_decide t c' ctx = Inr es' \<and> task_status (fold task_apply es' t) = s"
    by (simp add: go_def)
qed

theorem task_implements_table_witness:
  "\<exists>c es. task_decide task_sample c task_sample_ctx = Inr es \<and> task_status (fold task_apply es task_sample) = Ready"
  using task_implements_table [where t = task_sample and ctx = task_sample_ctx and s = Ready]
  by (simp add: task_sample_def task_transition.intros)

text \<open>
  The dependencies of a task that \<open>create\<close> and \<open>decide\<close> can produce never repeat and never point back to the task
  itself; adding one that would is rejected and everything else about the list is kept.
\<close>

theorem task_dependencies_sound:
  assumes "task_reachable t" and "task_decide t c ctx = Inr es"
  shows "distinct (task_dependencies t) \<and> (\<forall>d \<in> set (task_dependencies t). dep_task_id d \<noteq> task_id t)
    \<and> task_dependencies (fold task_apply es t) = task_dependencies t @ (case c of AddDependency d \<Rightarrow> [d] | _ \<Rightarrow> [])
    \<and> \<not> trim_is_empty (task_title t)"
  using task_reachable_inv [OF assms(1)] assms(2)
  by (cases c) (auto simp: task_inv_def agg_simps split: if_splits)

theorem task_dependencies_sound_witness:
  "task_dependencies (fold task_apply [TaskDependencyAdded \<lparr>dep_task_id = 5, dep_type = FinishToStart\<rparr> 10] task_sample)
     = [\<lparr>dep_task_id = 5, dep_type = FinishToStart\<rparr>]"
  using task_dependencies_sound [OF task_sample_reachable, of "AddDependency \<lparr>dep_task_id = 5, dep_type = FinishToStart\<rparr>"
      task_sample_ctx "[TaskDependencyAdded \<lparr>dep_task_id = 5, dep_type = FinishToStart\<rparr> 10]"]
  by (simp add: task_sample_def task_sample_ctx_def agg_simps)

text \<open>
  Review cannot be skipped: a task becomes submitted only with evidence while active, approved only from
  submitted, closed only from approved and reopened only from closed; a cancelled task stays cancelled
  under every sequence of commands.
\<close>

theorem task_review_gate:
  assumes "task_decide t c ctx = Inr es" and "s = task_status (fold task_apply es t)" and "s \<noteq> task_status t"
  shows "(s = Submitted \<longrightarrow> task_status t = Active \<and> (\<exists>evidence. evidence \<noteq> [] \<and> c = SubmitCompletion evidence))
    \<and> (s = Approved \<longrightarrow> task_status t = Submitted \<and> (\<exists>reason. c = ApproveTask reason))
    \<and> (s = Closed \<longrightarrow> task_status t = Approved) \<and> (s = Reopened \<longrightarrow> task_status t = Closed)
    \<and> (task_status u = Cancelled \<longrightarrow> task_status (foldl (execute task_decide task_apply) u cmds) = Cancelled)"
proof -
  have "task_status (foldl (execute task_decide task_apply) u cmds) = Cancelled" if "task_status u = Cancelled"
  proof -
    have "\<not> task_transition (task_status u) s" for s
      using that by (auto elim: task_transition.cases)
    from task.run_terminal [OF this] that show ?thesis by metis
  qed
  moreover have "(s = Submitted \<longrightarrow> task_status t = Active \<and> (\<exists>evidence. evidence \<noteq> [] \<and> c = SubmitCompletion evidence))
    \<and> (s = Approved \<longrightarrow> task_status t = Submitted \<and> (\<exists>reason. c = ApproveTask reason))
    \<and> (s = Closed \<longrightarrow> task_status t = Approved) \<and> (s = Reopened \<longrightarrow> task_status t = Closed)"
    using assms by (cases c) (auto simp: agg_simps split: if_splits)
  ultimately show ?thesis by blast
qed

theorem task_review_gate_witness:
  "task_status (foldl (execute task_decide task_apply) (task_sample\<lparr>task_status := Cancelled\<rparr>)
     [(MarkReady [], task_sample_ctx)]) = Cancelled"
  using task_review_gate [of task_sample "MarkReady []" task_sample_ctx "[TaskMarkedReady 10 []]" Ready
      "task_sample\<lparr>task_status := Cancelled\<rparr>" "[(MarkReady [], task_sample_ctx)]"]
  by (simp add: task_sample_def task_sample_ctx_def agg_simps)

text \<open>
  Ownership and authority move together: a command changes the authority epoch exactly when it
  assigns an owner, the owner changes by no other command, and over any run of commands the identity is kept and the
  version counts the events.
\<close>

theorem task_authority_follows_owner:
  assumes "task_decide t c ctx = Inr es"
  shows "(task_authority_epoch (fold task_apply es t) \<noteq> task_authority_epoch t \<longleftrightarrow> (\<exists>u r. c = AssignOwner u r))
    \<and> task_owner_id (fold task_apply es t) = (case c of AssignOwner u _ \<Rightarrow> u | _ \<Rightarrow> task_owner_id t)
    \<and> task_id (foldl (execute task_decide task_apply) t cmds) = task_id t
    \<and> task_version (foldl (execute task_decide task_apply) t cmds)
        = task_version t + of_nat (event_count task_decide task_apply t cmds)"
  using assms task.run_id [of t cmds] task.run_version [of t cmds]
  by (cases c) (auto simp: agg_simps kernel_simps split: if_splits)

theorem task_authority_follows_owner_witness:
  "task_owner_id (fold task_apply [TaskOwnerAssigned 9 10 []] task_sample) = 9"
  using task_authority_follows_owner [of task_sample "AssignOwner 9 []" task_sample_ctx "[TaskOwnerAssigned 9 10 []]"]
  by (simp add: task_sample_def task_sample_ctx_def agg_simps)

end
