(* ===== verification/Command_Pipeline.thy ===== *)
theory Command_Pipeline
  imports Command_Handler Work_Domain
begin

text \<open>
  The pipeline run on missions and tasks, and the properties of the pipeline.
\<close>

section \<open>Instances\<close>

definition mission_ops ::
    "('v \<Rightarrow> Mission option) \<Rightarrow> (Mission \<Rightarrow> 'v option) \<Rightarrow> (MissionEvent DomainEventEnvelope \<Rightarrow> 'v option) \<Rightarrow> (MissionError \<Rightarrow> string)
      \<Rightarrow> (Mission, MissionCommand, MissionEvent, MissionError, 'v) AggregateOps" where
  "mission_ops from_value to_value envelope_to_value error_string =
     \<lparr>op_version = mission_version, op_lifecycle_epoch = mission_lifecycle_epoch, op_authority_epoch = mission_authority_epoch,
      op_decide = mission_decide, op_apply = mission_apply, op_from_value = from_value, op_to_value = to_value,
      op_envelope_to_value = envelope_to_value, op_error_string = error_string\<rparr>"

definition task_ops ::
    "('v \<Rightarrow> Task option) \<Rightarrow> (Task \<Rightarrow> 'v option) \<Rightarrow> (TaskEvent DomainEventEnvelope \<Rightarrow> 'v option) \<Rightarrow> (TaskError \<Rightarrow> string)
      \<Rightarrow> (Task, TaskCommand, TaskEvent, TaskError, 'v) AggregateOps" where
  "task_ops from_value to_value envelope_to_value error_string =
     \<lparr>op_version = task_version, op_lifecycle_epoch = task_lifecycle_epoch, op_authority_epoch = task_authority_epoch,
      op_decide = task_decide, op_apply = task_apply, op_from_value = from_value, op_to_value = to_value,
      op_envelope_to_value = envelope_to_value, op_error_string = error_string\<rparr>"

text \<open>Missions and tasks decide one event at a time.\<close>

interpretation mission_pipeline: single_event_aggregate mission_id mission_version mission_lifecycle_epoch mission_authority_epoch
    mission_decide mission_apply
  by unfold_locales (erule mission_decide_cases, simp)

interpretation task_pipeline: single_event_aggregate task_id task_version task_lifecycle_epoch task_authority_epoch
    task_decide task_apply
  by unfold_locales (erule task_decide_cases, simp)

section \<open>A sample store\<close>

datatype sample_value = SObj | SId | SByte | SVer

definition sample_ops :: "sample_value JsonOps" where
  "sample_ops =
     \<lparr>json_get = (\<lambda>v key. if v = SObj \<and> key = ''id'' then Some SId else if v = SObj \<and> key = ''version'' then Some SVer else None),
      json_get_0 = (\<lambda>_. None), json_is_null = (\<lambda>_. False), json_as_array = (\<lambda>v. if v = SId then Some (replicate 16 SByte) else None),
      json_as_u64 = (\<lambda>v. if v = SByte then Some 0 else None), json_as_i64 = (\<lambda>v. if v = SVer then Some 1 else None),
      json_as_str = (\<lambda>_. None), json_null = SObj, value_to_text = (\<lambda>_. Some ''t''), text_to_value = (\<lambda>_. Some SObj)\<rparr>"

definition stored_mission :: Mission where
  "stored_mission = mission_sample\<lparr>mission_id := 0\<rparr>"

definition sample_mission_ops :: "(Mission, MissionCommand, MissionEvent, MissionError, sample_value) AggregateOps" where
  "sample_mission_ops = mission_ops (\<lambda>_. Some stored_mission)
     (\<lambda>m. if mission_id m = 0 \<and> mission_version m = 1 then Some SObj else None) (\<lambda>_. Some SObj) (\<lambda>_. ''rejected'')"

definition sample_env :: "sample_value HandlerEnv" where
  "sample_env = \<lparr>env_trusted_now = 10, env_now = 11, env_commit_now = 12, env_object_id = (\<lambda>n. of_nat n), env_event_id = (\<lambda>n. 50 + of_nat n),
     env_replica_id = (\<lambda>_. 1), env_to_vec = (\<lambda>_. Some ''b''), env_id_to_string = (\<lambda>_. ''id''), env_result = (\<lambda>_ _ _ _ _. SObj),
     idempotency_fault = None, load_fault = None, begin_fault = None, commit_fault = (\<lambda>_. None)\<rparr>"

definition sample_db :: Db where
  "sample_db = \<lparr>aggregates = fmupd 0 \<lparr>row_aggregate_type = ''mission'', row_version = 0, row_lifecycle_epoch = 0, row_authority_epoch = 0,
     row_state = ''t'', row_updated_at = 0, row_organization_id = 3\<rparr> fmempty, domain_events = [], outbox = [], idempotency = fmempty\<rparr>"

definition sample_request :: "OperationId \<Rightarrow> MissionCommand \<Rightarrow> ObjectVersion \<Rightarrow> (Mission, MissionCommand) CommandRequest" where
  "sample_request operation command expected =
     \<lparr>req_command = command, req_target_id = 0, req_operation_id = operation,
      req_actor = \<lparr>user_id = 1, device_id = 2, actor_organization_id = 3\<rparr>, req_expected_version = expected,
      req_expected_lifecycle_epoch = 0, req_expected_authority_epoch = 0, req_vector_clock = vc_new, req_correlation_id = 0,
      req_aggregate_type_name = ''mission'', req_owner_check = None\<rparr>"

lemmas sample_defs = sample_ops_def sample_mission_ops_def mission_ops_def sample_env_def sample_db_def sample_request_def
  stored_mission_def mission_sample_def

definition sample_unit :: "OperationId \<Rightarrow> sample_value SqliteUnitOfWork" where
  "sample_unit operation =
     (case handle_prepare sample_ops sample_mission_ops sample_env (sample_request operation (CancelMission []) 0) sample_db of
        Inr (Staged u _) \<Rightarrow> u | _ \<Rightarrow> uow_begin 0)"

lemma sample_prepare:
  "handle_prepare sample_ops sample_mission_ops sample_env (sample_request operation (CancelMission []) 0) sample_db
    = Inr (Staged (sample_unit operation) SObj)"
  by (simp add: sample_unit_def handle_prepare_def sample_defs idempotency_get_def repo_load_def handle_stage_def decision_context_def
      owner_denied_def agg_simps kernel_simps repo_commit_def repo_extract_id_bytes_def bytes_of_json_def numeral_eq_Suc)

section \<open>Properties\<close>

text \<open>
  C4. A command never acts on stale or foreign state: for a stored aggregate, the pipeline answers a wrong expected version, lifecycle epoch or
  authority epoch, in this order, with the conflict carrying both values, then an actor the owner check denies, then the domain's own
  rejection; and every error, at whatever step, leaves the database as it was.
\<close>

theorem handle_command_guards:
  assumes "fmlookup (idempotency db) (req_operation_id req) = None" and "idempotency_fault env = None" and "load_fault env = None"
    and "fmlookup (aggregates db) (req_target_id req) = Some row" and "row_aggregate_type row = req_aggregate_type_name req"
    and "text_to_value J (row_state row) = Some v" and "op_from_value A v = Some a"
    and "handle_command J A env req db = (db', res)"
  shows "(\<forall>e. res = Inl e \<longrightarrow> db' = db)
    \<and> (row_version row \<noteq> req_expected_version req \<longrightarrow> res = Inl (VersionConflict (req_expected_version req) (row_version row)))
    \<and> (row_version row = req_expected_version req \<longrightarrow>
        (op_lifecycle_epoch A a \<noteq> req_expected_lifecycle_epoch req
          \<longrightarrow> res = Inl (EpochConflict (req_expected_lifecycle_epoch req) (op_lifecycle_epoch A a)))
        \<and> (op_lifecycle_epoch A a = req_expected_lifecycle_epoch req \<longrightarrow>
            (op_authority_epoch A a \<noteq> req_expected_authority_epoch req
              \<longrightarrow> res = Inl (AuthorityEpochConflict (req_expected_authority_epoch req) (op_authority_epoch A a)))
            \<and> (op_authority_epoch A a = req_expected_authority_epoch req \<longrightarrow>
                (\<forall>owner. owner_denied req a = Some owner \<longrightarrow> res = Inl (OwnerAuthorityDenied (user_id (req_actor req)) owner))
                \<and> (owner_denied req a = None \<longrightarrow> begin_fault env = None \<longrightarrow>
                    (\<forall>err. op_decide A a (req_command req) (decision_context env req) = Inl err
                      \<longrightarrow> res = Inl (Domain (op_error_string A err)))))))"
proof -
  have "db' = db" if "res = Inl e" for e
    using assms(8) that by (cases rule: handle_command_cases) auto
  moreover have res: "res = snd (handle_command J A env req db)" using assms(8) by simp
  ultimately show ?thesis
    using assms(1-7) by (auto simp: res handle_command_def handle_prepare_def idempotency_get_def repo_load_def Let_def handle_stage_def)
qed

theorem handle_command_guards_witness:
  "handle_command sample_ops sample_mission_ops sample_env (sample_request 5 (CancelMission []) 7) sample_db
     = (sample_db, Inl (VersionConflict 7 0))"
proof -
  let ?req = "sample_request 5 (CancelMission []) 7"
  let ?row = "\<lparr>row_aggregate_type = ''mission'', row_version = 0, row_lifecycle_epoch = 0, row_authority_epoch = 0,
     row_state = ''t'', row_updated_at = 0, row_organization_id = 3\<rparr>"
  obtain db' res where h: "handle_command sample_ops sample_mission_ops sample_env ?req sample_db = (db', res)" by force
  have "res = Inl (VersionConflict 7 0)" "\<forall>e. res = Inl e \<longrightarrow> db' = sample_db"
    using handle_command_guards [of sample_db ?req sample_env ?row sample_ops SObj sample_mission_ops stored_mission db' res] h
    by (simp_all add: sample_defs)
  with h show ?thesis by simp
qed


lemma sample_commit:
  "\<exists>db'. handle_command sample_ops sample_mission_ops sample_env (sample_request operation (CancelMission []) 0) sample_db = (db', Inr SObj)"
proof -
  have "\<exists>db' u'. uow_commit sample_ops (\<lambda>_. None) (sample_unit operation) sample_db = ((db', u'), Inr ())"
    by (simp add: sample_unit_def handle_prepare_def sample_defs idempotency_get_def repo_load_def handle_stage_def decision_context_def
      owner_denied_def agg_simps kernel_simps repo_commit_def repo_extract_id_bytes_def bytes_of_json_def numeral_eq_Suc
      uow_commit_def uow_statements_def register_idempotency_result_def register_event_def stage_aggregate_upsert_def
      register_outbox_def uow_begin_def upsert_aggregate_def insert_domain_event_def insert_outbox_message_def
      insert_idempotency_def json_i64_or_zero_def extract_event_id_def)
  then show ?thesis
    by (auto simp: handle_command_def sample_prepare handle_finish_def) (auto simp: sample_env_def)
qed


text \<open>
  C3. Retrying is safe: after a command has succeeded, any later command with the same operation identifier returns the recorded answer and
  changes nothing, provided the answer survives the JSON text column.
\<close>

theorem handle_command_idempotent:
  assumes "handle_command J A env req db = (db', Inr r)"
    and "value_to_text J r = Some t" and "text_to_value J t = Some r"
    and "req_operation_id req' = req_operation_id req" and "idempotency_fault env' = None"
  shows "handle_command J A env' req' db' = (db', Inr r)"
proof -
  have "idempotency_get J (req_operation_id req) db' = Inr (Some r)"
    using assms(1)
  proof (cases rule: handle_command_cases)
    case (cached w)
    then show ?thesis
      by (auto simp: handle_prepare_def idempotency_get_def Let_def split: option.splits sum.splits if_splits prod.splits)
  next
    case (committed u r' u')
    from committed(1) have "fmlookup (idempotency db) (req_operation_id req) = None"
      by (rule handle_prepare_Staged)
    moreover from committed(1,2) obtain a cv where "handle_stage J A env req a cv = Inr (u, r)"
      by (elim handle_prepare_Staged) auto
    then have "staged_idempotency u = [(req_operation_id req, r)]" by (elim handle_stage_result)
    moreover from committed(3) have "idempotency db' = fold (idem_put J) (staged_idempotency u) (idempotency db)"
      by (rule uow_commit_Inr)
    ultimately show ?thesis using assms(2,3) by (simp add: idem_put_def idempotency_get_def)
  qed simp
  with assms(4,5) show ?thesis by (simp add: handle_command_def handle_prepare_def)
qed

theorem handle_command_idempotent_witness:
  "\<exists>db'. handle_command sample_ops sample_mission_ops sample_env (sample_request 5 (CancelMission []) 0) sample_db = (db', Inr SObj)
     \<and> handle_command sample_ops sample_mission_ops sample_env (sample_request 5 (PauseMission []) 0) db' = (db', Inr SObj)"
proof -
  from sample_commit obtain db' where
    h: "handle_command sample_ops sample_mission_ops sample_env (sample_request 5 (CancelMission []) 0) sample_db = (db', Inr SObj)" by blast
  with handle_command_idempotent [OF h, of "''t''" "sample_request 5 (PauseMission []) 0" sample_env] show ?thesis
    by (auto simp: sample_defs)
qed

text \<open>
  C2. Concurrent commands on one mission cannot overwrite each other: if two commands have both passed all checks against the same stored
  mission and the first one commits, the second one fails at its own commit and leaves the first one's writes in place,
  whatever the commands are.
\<close>

theorem mission_no_lost_update:
  assumes "A = mission_ops from_value to_value envelope_to_value error_string" and "json_faithful J A mission_id"
    and "fmlookup (aggregates db) oid = Some row" and "text_to_value J (row_state row) = Some v" and "op_from_value A v = Some m"
    and "unat (mission_version m) + 1 < 2 ^ 63"
    and "req_target_id req1 = oid" and "req_target_id req2 = oid"
    and "handle_prepare J A env1 req1 db = Inr (Staged u1 r1)" and "handle_prepare J A env2 req2 db = Inr (Staged u2 r2)"
    and "handle_finish J env1 u1 r1 db = (db1, Inr r)"
  shows "\<exists>e. handle_finish J env2 u2 r2 db1 = (db1, Inl (Persistence e))"
  using mission_pipeline.no_lost_update [of A J db oid row v m req1 req2 env1 u1 r1 env2 u2 r2 db1 r] assms
  by (simp add: mission_ops_def)

theorem mission_no_lost_update_witness:
  "\<exists>db1 e. handle_finish sample_ops sample_env (sample_unit 5) SObj sample_db = (db1, Inr SObj)
     \<and> handle_finish sample_ops sample_env (sample_unit 6) SObj db1 = (db1, Inl (Persistence e))"
proof -
  from sample_commit [of 5] obtain db1 where first: "handle_finish sample_ops sample_env (sample_unit 5) SObj sample_db = (db1, Inr SObj)"
    by (auto simp: handle_command_def sample_prepare)
  have "repo_extract_id_bytes sample_ops SObj ''id'' = Some 0" "json_i64_or_zero sample_ops SObj ''version'' = 1"
    by code_simp+
  then have faithful: "json_faithful sample_ops sample_mission_ops mission_id"
    by (auto simp: json_faithful_def sample_mission_ops_def mission_ops_def split: if_splits)
  have "\<exists>e. handle_finish sample_ops sample_env (sample_unit 6) SObj db1 = (db1, Inl (Persistence e))"
    by (rule mission_no_lost_update [OF sample_mission_ops_def faithful _ _ _ _ _ _ sample_prepare [of 5] sample_prepare [of 6] first, where oid = 0 and m = stored_mission and v = SObj])
      (simp_all add: sample_defs)
  with first show ?thesis by blast
qed

text \<open>
  Concurrent commands on one task cannot overwrite each other either: of two commands that both passed all checks against the same stored
  task, the one that commits second fails and leaves the first one's writes in place.
\<close>

lemma task_no_lost_update:
  assumes "A = task_ops from_value to_value envelope_to_value error_string" and "json_faithful J A task_id"
    and "fmlookup (aggregates db) oid = Some row" and "text_to_value J (row_state row) = Some v" and "op_from_value A v = Some t"
    and "unat (task_version t) + 1 < 2 ^ 63"
    and "req_target_id req1 = oid" and "req_target_id req2 = oid"
    and "handle_prepare J A env1 req1 db = Inr (Staged u1 r1)" and "handle_prepare J A env2 req2 db = Inr (Staged u2 r2)"
    and "handle_finish J env1 u1 r1 db = (db1, Inr r)"
  shows "\<exists>e. handle_finish J env2 u2 r2 db1 = (db1, Inl (Persistence e))"
  using task_pipeline.no_lost_update [of A J db oid row v t req1 req2 env1 u1 r1 env2 u2 r2 db1 r] assms
  by (simp add: task_ops_def)

end
