(* ===== verification/Todo_Domain.thy ===== *)
theory Todo_Domain
  imports Contracts
begin

text \<open>
  To-do lists and target lists (\<open>crates/domains/todo-domain\<close>): two aggregates with different contents that share the
  status machine of verification. What follows from the shared machine is proved once, in the locale
  \<open>verified_list\<close>, and used for both.
\<close>

section \<open>Shared data\<close>

datatype ListStatus = Draft | Submitted | TeamLeaderPreChecked | Verified | Rejected | Escalated

fun list_status_debug :: "ListStatus \<Rightarrow> string" where
  "list_status_debug Draft = ''Draft''"
| "list_status_debug Submitted = ''Submitted''"
| "list_status_debug TeamLeaderPreChecked = ''TeamLeaderPreChecked''"
| "list_status_debug Verified = ''Verified''"
| "list_status_debug Rejected = ''Rejected''"
| "list_status_debug Escalated = ''Escalated''"

datatype VerificationOutcome = Flawless | WithDeficiencies

type_synonym TodoListId = ObjectId
type_synonym TargetListId = ObjectId

record TodoItem =
  item_id :: string
  item_description :: string

datatype ListOrigin = ManagerAssigned | StaffAuthored

record TimeWindow =
  window_start_at :: Timestamp
  window_end_at :: Timestamp

record TeamLeaderPreCheck =
  pre_checked_by :: UserId
  pre_checked_at :: Timestamp
  pre_check_notes :: string

section \<open>To-do lists\<close>

datatype TodoError =
    InvalidTransition string
  | MissingField string
  | Unauthorized string

datatype TodoListCommand =
    CreateTodoList UserId ListOrigin "TodoItem list"
  | AddItem TodoItem
  | SubmitTodoList
  | RecordTeamLeaderPreCheck string
  | VerifyTodoList VerificationOutcome "string option"
  | RejectTodoList string
  | EscalateTodoList string UserId

datatype TodoListEvent =
    TodoListCreated TodoListId UserId ListOrigin "TodoItem list" UserId Timestamp
  | TodoItemAdded TodoItem Timestamp
  | TodoListSubmitted Timestamp
  | TeamLeaderPreCheckRecorded string UserId Timestamp
  | TodoListVerified VerificationOutcome "string option" UserId Timestamp
  | TodoListRejected string UserId Timestamp
  | TodoListEscalated string UserId UserId Timestamp

record TodoList =
  todo_id :: TodoListId
  todo_version :: ObjectVersion
  todo_lifecycle_epoch :: LifecycleEpoch
  todo_authority_epoch :: AuthorityEpoch
  todo_status :: ListStatus
  todo_owner :: UserId
  todo_origin :: ListOrigin
  todo_items :: "TodoItem list"
  todo_created_by :: UserId
  todo_pre_check :: "TeamLeaderPreCheck option"
  todo_escalated_to :: "UserId option"

fun todo_create :: "TodoListCommand \<Rightarrow> DecisionContext \<Rightarrow> (TodoListEvent list, TodoError) result" where
  "todo_create (CreateTodoList owner origin items) context =
     Inr [TodoListCreated (ctx_object_id context 0) owner origin items (user_id (ctx_actor context)) (trusted_now context)]"
| "todo_create _ context = Inl (InvalidTransition ''TodoList::create() called with a non-CreateTodoList command'')"

text \<open>\<open>None\<close> is the panic on any other event, here and below.\<close>

fun todo_from_created_event :: "TodoListEvent \<Rightarrow> TodoList option" where
  "todo_from_created_event (TodoListCreated tid owner origin items created_by _) =
     Some \<lparr>todo_id = tid,
           todo_version = ObjectVersion_INITIAL,
           todo_lifecycle_epoch = LifecycleEpoch_INITIAL,
           todo_authority_epoch = AuthorityEpoch_INITIAL,
           todo_status = Draft,
           todo_owner = owner,
           todo_origin = origin,
           todo_items = items,
           todo_created_by = created_by,
           todo_pre_check = None,
           todo_escalated_to = None\<rparr>"
| "todo_from_created_event _ = None"

definition todo_invalid :: "TodoList \<Rightarrow> string \<Rightarrow> TodoError" where
  "todo_invalid t command = InvalidTransition (command @ '' from '' @ list_status_debug (todo_status t))"

definition todo_decide :: "TodoList \<Rightarrow> TodoListCommand \<Rightarrow> DecisionContext \<Rightarrow> (TodoListEvent list, TodoError) result" where
  "todo_decide t command context =
     (if \<not> is_authorized (ctx_authority context) ''todo.command''
        then Inl (Unauthorized ''actor lacks required authority'')
      else let actor = user_id (ctx_actor context); now = trusted_now context in
      case command of
        CreateTodoList _ _ _ \<Rightarrow>
          Inl (InvalidTransition ''CreateTodoList must be dispatched via TodoList::create(), not decide()'')
      | AddItem item \<Rightarrow>
          if todo_status t = Draft then Inr [TodoItemAdded item now] else Inl (todo_invalid t ''AddItem'')
      | SubmitTodoList \<Rightarrow>
          if todo_status t = Draft then Inr [TodoListSubmitted now] else Inl (todo_invalid t ''SubmitTodoList'')
      | RecordTeamLeaderPreCheck notes \<Rightarrow>
          if todo_status t = Submitted then Inr [TeamLeaderPreCheckRecorded notes actor now]
          else Inl (todo_invalid t ''RecordTeamLeaderPreCheck'')
      | VerifyTodoList outcome comment \<Rightarrow>
          if todo_status t \<in> {Submitted, TeamLeaderPreChecked, Escalated}
          then Inr [TodoListVerified outcome comment actor now]
          else Inl (todo_invalid t ''VerifyTodoList'')
      | RejectTodoList reason \<Rightarrow>
          if todo_status t \<in> {Submitted, TeamLeaderPreChecked, Escalated}
          then Inr [TodoListRejected reason actor now]
          else Inl (todo_invalid t ''RejectTodoList'')
      | EscalateTodoList reason escalated_to \<Rightarrow>
          if todo_status t \<in> {Submitted, TeamLeaderPreChecked, Escalated}
          then Inr [TodoListEscalated reason actor escalated_to now]
          else Inl (todo_invalid t ''EscalateTodoList''))"

fun todo_apply_event :: "TodoListEvent \<Rightarrow> TodoList \<Rightarrow> TodoList" where
  "todo_apply_event (TodoListCreated _ _ _ _ _ _) t = t"
| "todo_apply_event (TodoItemAdded item _) t = t\<lparr>todo_items := todo_items t @ [item]\<rparr>"
| "todo_apply_event (TodoListSubmitted _) t = t\<lparr>todo_status := Submitted\<rparr>"
| "todo_apply_event (TeamLeaderPreCheckRecorded notes checked_by checked_at) t =
     t\<lparr>todo_status := TeamLeaderPreChecked,
       todo_pre_check := Some \<lparr>pre_checked_by = checked_by, pre_checked_at = checked_at, pre_check_notes = notes\<rparr>\<rparr>"
| "todo_apply_event (TodoListVerified _ _ _ _) t =
     t\<lparr>todo_status := Verified,
       todo_authority_epoch := AuthorityEpoch_advance (todo_authority_epoch t),
       todo_lifecycle_epoch := LifecycleEpoch_advance (todo_lifecycle_epoch t)\<rparr>"
| "todo_apply_event (TodoListRejected _ _ _) t =
     t\<lparr>todo_status := Rejected, todo_lifecycle_epoch := LifecycleEpoch_advance (todo_lifecycle_epoch t)\<rparr>"
| "todo_apply_event (TodoListEscalated _ _ escalated_to _) t =
     t\<lparr>todo_status := Escalated, todo_escalated_to := Some escalated_to,
       todo_authority_epoch := AuthorityEpoch_advance (todo_authority_epoch t)\<rparr>"

definition todo_apply :: "TodoListEvent \<Rightarrow> TodoList \<Rightarrow> TodoList" where
  "todo_apply event t = (let t' = todo_apply_event event t in t'\<lparr>todo_version := ObjectVersion_next (todo_version t')\<rparr>)"

section \<open>Target lists\<close>

datatype TargetError =
    InvalidTransition string
  | MissingField string
  | Unauthorized string
  | InvalidTimeWindow
  | WindowNotClosed

datatype TargetListCommand =
    CreateTargetList UserId ListOrigin string TimeWindow
  | SubmitTargetList
  | RecordTeamLeaderPreCheck string
  | VerifyTargetList VerificationOutcome "string option"
  | RejectTargetList string
  | EscalateTargetList string UserId

datatype TargetListEvent =
    TargetListCreated TargetListId UserId ListOrigin string TimeWindow UserId Timestamp
  | TargetListSubmitted Timestamp
  | TeamLeaderPreCheckRecorded string UserId Timestamp
  | TargetListVerified VerificationOutcome "string option" UserId Timestamp
  | TargetListRejected string UserId Timestamp
  | TargetListEscalated string UserId UserId Timestamp

record TargetList =
  target_id :: TargetListId
  target_version :: ObjectVersion
  target_lifecycle_epoch :: LifecycleEpoch
  target_authority_epoch :: AuthorityEpoch
  target_status :: ListStatus
  target_owner :: UserId
  target_origin :: ListOrigin
  target_description :: string
  target_time_window :: TimeWindow
  target_created_by :: UserId
  target_pre_check :: "TeamLeaderPreCheck option"
  target_escalated_to :: "UserId option"

fun target_create :: "TargetListCommand \<Rightarrow> DecisionContext \<Rightarrow> (TargetListEvent list, TargetError) result" where
  "target_create (CreateTargetList owner origin description time_window) context =
     (if trim_is_empty description then Inl (MissingField ''description'')
      else if window_end_at time_window \<le> window_start_at time_window then Inl InvalidTimeWindow
      else Inr [TargetListCreated (ctx_object_id context 0) owner origin description time_window
                  (user_id (ctx_actor context)) (trusted_now context)])"
| "target_create _ context = Inl (InvalidTransition ''TargetList::create() called with a non-CreateTargetList command'')"

fun target_from_created_event :: "TargetListEvent \<Rightarrow> TargetList option" where
  "target_from_created_event (TargetListCreated tid owner origin description time_window created_by _) =
     Some \<lparr>target_id = tid,
           target_version = ObjectVersion_INITIAL,
           target_lifecycle_epoch = LifecycleEpoch_INITIAL,
           target_authority_epoch = AuthorityEpoch_INITIAL,
           target_status = Draft,
           target_owner = owner,
           target_origin = origin,
           target_description = description,
           target_time_window = time_window,
           target_created_by = created_by,
           target_pre_check = None,
           target_escalated_to = None\<rparr>"
| "target_from_created_event _ = None"

definition target_invalid :: "TargetList \<Rightarrow> string \<Rightarrow> TargetError" where
  "target_invalid t command = InvalidTransition (command @ '' from '' @ list_status_debug (target_status t))"

definition target_decide :: "TargetList \<Rightarrow> TargetListCommand \<Rightarrow> DecisionContext \<Rightarrow> (TargetListEvent list, TargetError) result" where
  "target_decide t command context =
     (if \<not> is_authorized (ctx_authority context) ''target.command''
        then Inl (Unauthorized ''actor lacks required authority'')
      else let actor = user_id (ctx_actor context); now = trusted_now context in
      case command of
        CreateTargetList _ _ _ _ \<Rightarrow>
          Inl (InvalidTransition ''CreateTargetList must be dispatched via TargetList::create(), not decide()'')
      | SubmitTargetList \<Rightarrow>
          if target_status t = Draft then Inr [TargetListSubmitted now] else Inl (target_invalid t ''SubmitTargetList'')
      | RecordTeamLeaderPreCheck notes \<Rightarrow>
          if target_status t = Submitted then Inr [TeamLeaderPreCheckRecorded notes actor now]
          else Inl (target_invalid t ''RecordTeamLeaderPreCheck'')
      | VerifyTargetList outcome comment \<Rightarrow>
          if target_status t \<in> {Submitted, TeamLeaderPreChecked, Escalated}
          then Inr [TargetListVerified outcome comment actor now]
          else Inl (target_invalid t ''VerifyTargetList'')
      | RejectTargetList reason \<Rightarrow>
          if target_status t \<in> {Submitted, TeamLeaderPreChecked, Escalated}
          then Inr [TargetListRejected reason actor now]
          else Inl (target_invalid t ''RejectTargetList'')
      | EscalateTargetList reason escalated_to \<Rightarrow>
          if target_status t \<in> {Submitted, TeamLeaderPreChecked, Escalated}
          then Inr [TargetListEscalated reason actor escalated_to now]
          else Inl (target_invalid t ''EscalateTargetList''))"

fun target_apply_event :: "TargetListEvent \<Rightarrow> TargetList \<Rightarrow> TargetList" where
  "target_apply_event (TargetListCreated _ _ _ _ _ _ _) t = t"
| "target_apply_event (TargetListSubmitted _) t = t\<lparr>target_status := Submitted\<rparr>"
| "target_apply_event (TeamLeaderPreCheckRecorded notes checked_by checked_at) t =
     t\<lparr>target_status := TeamLeaderPreChecked,
       target_pre_check := Some \<lparr>pre_checked_by = checked_by, pre_checked_at = checked_at, pre_check_notes = notes\<rparr>\<rparr>"
| "target_apply_event (TargetListVerified _ _ _ _) t =
     t\<lparr>target_status := Verified,
       target_authority_epoch := AuthorityEpoch_advance (target_authority_epoch t),
       target_lifecycle_epoch := LifecycleEpoch_advance (target_lifecycle_epoch t)\<rparr>"
| "target_apply_event (TargetListRejected _ _ _) t =
     t\<lparr>target_status := Rejected, target_lifecycle_epoch := LifecycleEpoch_advance (target_lifecycle_epoch t)\<rparr>"
| "target_apply_event (TargetListEscalated _ _ escalated_to _) t =
     t\<lparr>target_status := Escalated, target_escalated_to := Some escalated_to,
       target_authority_epoch := AuthorityEpoch_advance (target_authority_epoch t)\<rparr>"

definition target_apply :: "TargetListEvent \<Rightarrow> TargetList \<Rightarrow> TargetList" where
  "target_apply event t = (let t' = target_apply_event event t in t'\<lparr>target_version := ObjectVersion_next (target_version t')\<rparr>)"

section \<open>The status machine of verification\<close>

abbreviation awaiting_verification :: "ListStatus set" where
  "awaiting_verification \<equiv> {Submitted, TeamLeaderPreChecked, Escalated}"

inductive list_transition :: "ListStatus \<Rightarrow> ListStatus \<Rightarrow> bool" where
  submit: "list_transition Draft Submitted"
| pre_check: "list_transition Submitted TeamLeaderPreChecked"
| verify: "s \<in> awaiting_verification \<Longrightarrow> list_transition s Verified"
| reject: "s \<in> awaiting_verification \<Longrightarrow> list_transition s Rejected"
| escalate: "s \<in> awaiting_verification \<Longrightarrow> list_transition s Escalated"

text \<open>
  A list with a content that is verified: drafts are edited, everything after submission leaves the content alone, and a
  verified or rejected list accepts nothing. The epochs tell when an outcome or the responsible authority changes.
\<close>

locale verified_list =
  status_aggregate agg_id version lifecycle_epoch authority_epoch decide app status list_transition
  for agg_id :: "'a \<Rightarrow> ObjectId"
    and version :: "'a \<Rightarrow> ObjectVersion"
    and lifecycle_epoch :: "'a \<Rightarrow> LifecycleEpoch"
    and authority_epoch :: "'a \<Rightarrow> AuthorityEpoch"
    and decide :: "'a \<Rightarrow> 'c \<Rightarrow> DecisionContext \<Rightarrow> ('ev list, 'err) result"
    and app :: "'ev \<Rightarrow> 'a \<Rightarrow> 'a"
    and status :: "'a \<Rightarrow> ListStatus" +
  fixes content :: "'a \<Rightarrow> 'b" and escalated_to :: "'a \<Rightarrow> UserId option"
  assumes frozen: "status a \<noteq> Draft \<Longrightarrow> decide a c ctx = Inr es \<Longrightarrow> content (fold app es a) = content a"
    and final: "status a \<in> {Verified, Rejected} \<Longrightarrow> \<exists>e. decide a c ctx = Inl e"
    and routed: "decide a c ctx = Inr es \<Longrightarrow> status (fold app es a) = Escalated \<Longrightarrow> escalated_to (fold app es a) \<noteq> None"
begin

lemma draft_source: "list_transition s Draft \<Longrightarrow> False"
  by (auto elim: list_transition.cases)

lemma run_frozen:
  assumes "status a \<noteq> Draft"
  shows "content (foldl (execute decide app) a cmds) = content a"
proof -
  let ?I = "\<lambda>b. status b \<noteq> Draft \<and> content b = content a"
  have "?I (fold app es b)" if "?I b" "decide b c ctx = Inr es" for b c ctx es
    using that frozen [of b c ctx es] decide_trans [of b c ctx es] draft_source by metis
  from run_invariant [of ?I, OF this] assms show ?thesis by simp
qed

lemma run_final: "status a \<in> {Verified, Rejected} \<Longrightarrow> foldl (execute decide app) a cmds = a"
  by (rule run_inert) (rule final)

lemma run_routed:
  assumes "status a = Escalated \<Longrightarrow> escalated_to a \<noteq> None"
  shows "status (foldl (execute decide app) a cmds) = Escalated \<Longrightarrow> escalated_to (foldl (execute decide app) a cmds) \<noteq> None"
  using run_invariant [of "\<lambda>b. status b = Escalated \<longrightarrow> escalated_to b \<noteq> None" a cmds] routed assms by blast

end

section \<open>Both lists implement it\<close>

lemmas todo_defs [agg_simps] = todo_decide_def todo_apply_def Let_def
lemmas target_defs [agg_simps] = target_decide_def target_apply_def

text \<open>An accepted command yields one event; it follows the table, or edits a draft.\<close>

lemma todo_decide_cases:
  assumes "todo_decide t c ctx = Inr es"
  obtains e where "es = [e]"
    and "list_transition (todo_status t) (todo_status (todo_apply e t)) \<and> todo_items (todo_apply e t) = todo_items t
         \<or> todo_status t = Draft \<and> todo_status (todo_apply e t) = Draft"
    and "todo_status (todo_apply e t) = Escalated \<longrightarrow> todo_escalated_to (todo_apply e t) \<noteq> None"
  using assms
  by (cases c; fastforce simp: agg_simps split: if_splits intro: list_transition.intros)

lemma target_decide_cases:
  assumes "target_decide t c ctx = Inr es"
  obtains e where "es = [e]"
    and "list_transition (target_status t) (target_status (target_apply e t))"
    and "target_description (target_apply e t) = target_description t \<and> target_time_window (target_apply e t) = target_time_window t"
    and "target_status (target_apply e t) = Escalated \<longrightarrow> target_escalated_to (target_apply e t) \<noteq> None"
  using assms
  by (cases c; fastforce simp: agg_simps split: if_splits intro: list_transition.intros)

interpretation todo: verified_list todo_id todo_version todo_lifecycle_epoch todo_authority_epoch
    todo_decide todo_apply todo_status todo_items todo_escalated_to
proof
  fix e t
  show "todo_id (todo_apply e t) = todo_id t" by (cases e) (simp_all add: agg_simps)
  show "todo_version (todo_apply e t) = ObjectVersion_next (todo_version t)" by (cases e) (simp_all add: agg_simps)
  show "todo_lifecycle_epoch (todo_apply e t) \<in> {todo_lifecycle_epoch t, LifecycleEpoch_advance (todo_lifecycle_epoch t)}"
    by (cases e) (simp_all add: agg_simps)
  show "todo_authority_epoch (todo_apply e t) \<in> {todo_authority_epoch t, AuthorityEpoch_advance (todo_authority_epoch t)}"
    by (cases e) (simp_all add: agg_simps)
next
  fix t c ctx
  show "\<exists>e. todo_decide t c ctx = Inl e" if "todo_status t \<in> {Verified, Rejected}"
    using that by (cases c) (auto simp: agg_simps)
qed (erule todo_decide_cases, force)+

interpretation target: verified_list target_id target_version target_lifecycle_epoch target_authority_epoch
    target_decide target_apply target_status "\<lambda>t. (target_description t, target_time_window t)" target_escalated_to
proof
  fix e t
  show "target_id (target_apply e t) = target_id t" by (cases e) (simp_all add: agg_simps)
  show "target_version (target_apply e t) = ObjectVersion_next (target_version t)" by (cases e) (simp_all add: agg_simps)
  show "target_lifecycle_epoch (target_apply e t) \<in> {target_lifecycle_epoch t, LifecycleEpoch_advance (target_lifecycle_epoch t)}"
    by (cases e) (simp_all add: agg_simps)
  show "target_authority_epoch (target_apply e t) \<in> {target_authority_epoch t, AuthorityEpoch_advance (target_authority_epoch t)}"
    by (cases e) (simp_all add: agg_simps)
next
  fix t c ctx
  show "\<exists>e. target_decide t c ctx = Inl e" if "target_status t \<in> {Verified, Rejected}"
    using that by (cases c) (auto simp: agg_simps)
qed (erule target_decide_cases, force)+

interpretation todo_single: single_event_aggregate todo_id todo_version todo_lifecycle_epoch todo_authority_epoch
    todo_decide todo_apply
  by unfold_locales (erule todo_decide_cases, simp)

interpretation target_single: single_event_aggregate target_id target_version target_lifecycle_epoch target_authority_epoch
    target_decide target_apply
  by unfold_locales (erule target_decide_cases, simp)

section \<open>Properties\<close>

definition todo_sample_ctx :: DecisionContext where
  "todo_sample_ctx = \<lparr>ctx_actor = \<lparr>user_id = 1, device_id = 2, actor_organization_id = 3\<rparr>,
     ctx_authority = VerifiedAuthority, trusted_now = 10, policy_outcomes = PolicyDecisionSet,
     ctx_object_id = (\<lambda>n. 100 + of_nat n)\<rparr>"

definition todo_sample :: TodoList where
  "todo_sample = \<lparr>todo_id = 100, todo_version = 1, todo_lifecycle_epoch = 0, todo_authority_epoch = 0, todo_status = Submitted,
     todo_owner = 1, todo_origin = StaffAuthored, todo_items = [\<lparr>item_id = ''1'', item_description = ''dig''\<rparr>],
     todo_created_by = 1, todo_pre_check = None, todo_escalated_to = None\<rparr>"

text \<open>
  C19. What is verified is what was submitted: once a to-do list or a target list has left \<open>Draft\<close>, no sequence of
  commands changes its items, or its description and time window; and once it is verified or rejected no
  command changes anything about it.
\<close>

theorem lists_frozen_after_submission:
  "(todo_status t \<noteq> Draft \<longrightarrow> todo_items (foldl (execute todo_decide todo_apply) t cmds) = todo_items t)
   \<and> (todo_status t \<in> {Verified, Rejected} \<longrightarrow> foldl (execute todo_decide todo_apply) t cmds = t)
   \<and> (target_status g \<noteq> Draft \<longrightarrow>
        target_description (foldl (execute target_decide target_apply) g cmds') = target_description g
        \<and> target_time_window (foldl (execute target_decide target_apply) g cmds') = target_time_window g)
   \<and> (target_status g \<in> {Verified, Rejected} \<longrightarrow> foldl (execute target_decide target_apply) g cmds' = g)"
  using todo.run_frozen [of t cmds] todo.run_final [of t cmds] target.run_frozen [of g cmds'] target.run_final [of g cmds']
  by simp

theorem lists_frozen_after_submission_witness:
  "todo_items (foldl (execute todo_decide todo_apply) todo_sample
      [(AddItem \<lparr>item_id = ''2'', item_description = ''fill''\<rparr>, todo_sample_ctx), (VerifyTodoList Flawless None, todo_sample_ctx)])
     = [\<lparr>item_id = ''1'', item_description = ''dig''\<rparr>]"
  using lists_frozen_after_submission [of todo_sample "[(AddItem \<lparr>item_id = ''2'', item_description = ''fill''\<rparr>, todo_sample_ctx),
      (VerifyTodoList Flawless None, todo_sample_ctx)]"]
  by (simp add: todo_sample_def)

text \<open>
  Verification of a to-do list: it is accepted exactly for a list that waits for it (submitted, pre-checked or escalated);
  the pre-check is optional and does not gate it, an escalated list can be acted on by its new authority and always
  names that authority, and the authority epoch moves exactly when an outcome is recorded or the
  responsible authority changes, the lifecycle epoch exactly when the list is decided.
\<close>

theorem todo_verification:
  assumes "todo_decide t c ctx = Inr es" and "t' = fold todo_apply es t"
  shows "((\<exists>outcome comment. c = VerifyTodoList outcome comment) \<longrightarrow>
        todo_status t \<in> awaiting_verification \<and> todo_status t' = Verified)
    \<and> (todo_status u \<in> awaiting_verification \<longrightarrow> (\<exists>es'. todo_decide u (VerifyTodoList outcome comment) ctx = Inr es'))
    \<and> (todo_authority_epoch t' \<noteq> todo_authority_epoch t \<longleftrightarrow> todo_status t' \<in> {Verified, Escalated})
    \<and> (todo_lifecycle_epoch t' \<noteq> todo_lifecycle_epoch t \<longleftrightarrow> todo_status t' \<in> {Verified, Rejected})
    \<and> (todo_status t' = Escalated \<longrightarrow> todo_escalated_to t' \<noteq> None)
    \<and> todo_pre_check t' = (case c of TodoListCommand.RecordTeamLeaderPreCheck n \<Rightarrow>
          Some \<lparr>pre_checked_by = user_id (ctx_actor ctx), pre_checked_at = trusted_now ctx, pre_check_notes = n\<rparr>
        | _ \<Rightarrow> todo_pre_check t)"
  using assms by (cases c) (auto simp: agg_simps kernel_simps is_authorized_def split: if_splits)

theorem todo_verification_witness:
  "todo_status (fold todo_apply [TodoListVerified Flawless None 1 10] todo_sample) = Verified"
  using todo_verification [of todo_sample "VerifyTodoList Flawless None" todo_sample_ctx "[TodoListVerified Flawless None 1 10]"
      "fold todo_apply [TodoListVerified Flawless None 1 10] todo_sample"]
  by (simp add: todo_sample_def todo_sample_ctx_def agg_simps is_authorized_def)

definition target_sample :: TargetList where
  "target_sample = \<lparr>target_id = 100, target_version = 1, target_lifecycle_epoch = 0, target_authority_epoch = 0, target_status = Submitted,
     target_owner = 1, target_origin = StaffAuthored, target_description = ''sell'',
     target_time_window = \<lparr>window_start_at = 20, window_end_at = 30\<rparr>, target_created_by = 1, target_pre_check = None,
     target_escalated_to = None\<rparr>"

text \<open>
  The time window of a target does not gate its judgement: a submitted target is verified at any time, also before
  its window has closed or even begun, and no decision answers \<open>WindowNotClosed\<close>.
\<close>

theorem target_verified_before_window_closes:
  "target_decide t c ctx \<noteq> Inl WindowNotClosed
   \<and> (\<exists>g ctx'. trusted_now ctx' < window_start_at (target_time_window g)
        \<and> window_start_at (target_time_window g) < window_end_at (target_time_window g)
        \<and> (\<exists>es. target_decide g (VerifyTargetList Flawless None) ctx' = Inr es \<and> target_status (fold target_apply es g) = Verified))"
proof
  show "target_decide t c ctx \<noteq> Inl WindowNotClosed"
    by (cases c) (simp_all add: agg_simps target_invalid_def Let_def)
  show "\<exists>g ctx'. trusted_now ctx' < window_start_at (target_time_window g)
        \<and> window_start_at (target_time_window g) < window_end_at (target_time_window g)
        \<and> (\<exists>es. target_decide g (VerifyTargetList Flawless None) ctx' = Inr es \<and> target_status (fold target_apply es g) = Verified)"
    by (intro exI [of _ target_sample] exI [of _ todo_sample_ctx])
      (simp add: target_sample_def todo_sample_ctx_def agg_simps is_authorized_def)
qed

end
