(* ===== verification/Staff_Loan.thy ===== *)
theory Staff_Loan
  imports Contracts
begin

text \<open>
  The staff loan aggregate (\<open>crates/domains/todo-domain\<close>): a manager borrows a member of staff from the owning manager for
  a fixed window. The owner approves the loan and its extensions, an escalation moves the approval to
  another manager, and the loan ends early or expires.
\<close>

section \<open>Data\<close>

datatype StaffLoanStatus = Requested | Declined | Active | Extended | Ended | Expired

fun loan_status_debug :: "StaffLoanStatus \<Rightarrow> string" where
  "loan_status_debug Requested = ''Requested''"
| "loan_status_debug Declined = ''Declined''"
| "loan_status_debug Active = ''Active''"
| "loan_status_debug Extended = ''Extended''"
| "loan_status_debug Ended = ''Ended''"
| "loan_status_debug Expired = ''Expired''"

type_synonym StaffLoanId = ObjectId

record LoanWindow =
  loan_start_at :: Timestamp
  loan_end_at :: Timestamp

datatype StaffLoanError =
    InvalidTransition string
  | MissingField string
  | Unauthorized string
  | InvalidLoanWindow
  | OwnerAndBorrowerMustDiffer

datatype StaffLoanCommand =
    RequestStaffLoan UserId UserId UserId LoanWindow
  | ApproveStaffLoan
  | DeclineStaffLoan string
  | ExtendStaffLoan Timestamp
  | EndStaffLoanEarly
  | ExpireStaffLoan
  | EscalateStaffLoan string UserId

datatype StaffLoanEvent =
    StaffLoanRequested StaffLoanId UserId UserId UserId LoanWindow UserId Timestamp
  | StaffLoanApproved UserId Timestamp
  | StaffLoanDeclined string UserId Timestamp
  | StaffLoanExtended Timestamp UserId Timestamp
  | StaffLoanExtensionRequested Timestamp UserId Timestamp
  | StaffLoanExtensionApproved Timestamp UserId Timestamp
  | StaffLoanExtensionDeclined string UserId Timestamp
  | StaffLoanEndedEarly UserId Timestamp
  | StaffLoanExpired Timestamp
  | StaffLoanEscalated string UserId UserId Timestamp

record StaffLoan =
  loan_id :: StaffLoanId
  loan_version :: ObjectVersion
  loan_lifecycle_epoch :: LifecycleEpoch
  loan_authority_epoch :: AuthorityEpoch
  loan_status :: StaffLoanStatus
  loan_staff_user_id :: UserId
  loan_real_owner_id :: UserId
  loan_borrowing_manager_id :: UserId
  loan_window :: LoanWindow
  pending_extension_end_at :: "Timestamp option"
  loan_escalated_to :: "UserId option"

section \<open>Creation\<close>

fun loan_create :: "StaffLoanCommand \<Rightarrow> DecisionContext \<Rightarrow> (StaffLoanEvent list, StaffLoanError) result" where
  "loan_create (RequestStaffLoan staff owner borrower window) context =
     (if loan_end_at window \<le> loan_start_at window then Inl InvalidLoanWindow
      else if owner = borrower then Inl OwnerAndBorrowerMustDiffer
      else Inr [StaffLoanRequested (ctx_object_id context 0) staff owner borrower window
                  (user_id (ctx_actor context)) (trusted_now context)])"
| "loan_create _ context = Inl (InvalidTransition ''StaffLoan::create() called with a non-RequestStaffLoan command'')"

text \<open>\<open>None\<close> is the panic on any other event.\<close>

fun loan_from_created_event :: "StaffLoanEvent \<Rightarrow> StaffLoan option" where
  "loan_from_created_event (StaffLoanRequested lid staff owner borrower window _ _) =
     Some \<lparr>loan_id = lid,
           loan_version = ObjectVersion_INITIAL,
           loan_lifecycle_epoch = LifecycleEpoch_INITIAL,
           loan_authority_epoch = AuthorityEpoch_INITIAL,
           loan_status = Requested,
           loan_staff_user_id = staff,
           loan_real_owner_id = owner,
           loan_borrowing_manager_id = borrower,
           loan_window = window,
           pending_extension_end_at = None,
           loan_escalated_to = None\<rparr>"
| "loan_from_created_event _ = None"

section \<open>Authority\<close>

definition grants_verification_authority_to :: "StaffLoan \<Rightarrow> UserId \<Rightarrow> bool" where
  "grants_verification_authority_to l manager_id \<longleftrightarrow>
     loan_status l \<in> {Active, Extended}
     \<and> (manager_id = loan_real_owner_id l \<or> manager_id = loan_borrowing_manager_id l)"

definition grants_approval_authority_to :: "StaffLoan \<Rightarrow> UserId \<Rightarrow> bool" where
  "grants_approval_authority_to l manager_id =
     (if loan_status l = Requested then
        (case loan_escalated_to l of
           Some target \<Rightarrow> manager_id = target
         | None \<Rightarrow> manager_id = loan_real_owner_id l)
      else if loan_status l \<in> {Active, Extended} \<and> pending_extension_end_at l \<noteq> None
        then manager_id = loan_real_owner_id l
      else False)"

section \<open>Deciding\<close>

definition loan_invalid :: "StaffLoan \<Rightarrow> string \<Rightarrow> StaffLoanError" where
  "loan_invalid l command = InvalidTransition (command @ '' from '' @ loan_status_debug (loan_status l))"

definition loan_decide :: "StaffLoan \<Rightarrow> StaffLoanCommand \<Rightarrow> DecisionContext \<Rightarrow> (StaffLoanEvent list, StaffLoanError) result" where
  "loan_decide l command context =
     (if \<not> is_authorized (ctx_authority context) ''staff_loan.command''
        then Inl (Unauthorized ''actor lacks required authority'')
      else let actor = user_id (ctx_actor context); now = trusted_now context in
      case command of
        RequestStaffLoan _ _ _ _ \<Rightarrow>
          Inl (InvalidTransition ''RequestStaffLoan must be dispatched via StaffLoan::create(), not decide()'')
      | ApproveStaffLoan \<Rightarrow>
          if loan_status l = Requested then Inr [StaffLoanApproved actor now]
          else if loan_status l \<in> {Active, Extended} then
            (case pending_extension_end_at l of
               None \<Rightarrow> Inl (loan_invalid l ''ApproveStaffLoan'')
             | Some new_end_at \<Rightarrow> Inr [StaffLoanExtensionApproved new_end_at actor now])
          else Inl (loan_invalid l ''ApproveStaffLoan'')
      | DeclineStaffLoan reason \<Rightarrow>
          if loan_status l = Requested then Inr [StaffLoanDeclined reason actor now]
          else if loan_status l \<in> {Active, Extended} \<and> pending_extension_end_at l \<noteq> None
            then Inr [StaffLoanExtensionDeclined reason actor now]
          else Inl (loan_invalid l ''DeclineStaffLoan'')
      | ExtendStaffLoan new_end_at \<Rightarrow>
          if loan_status l \<in> {Active, Extended} then
            (if pending_extension_end_at l \<noteq> None \<or> new_end_at \<le> loan_end_at (loan_window l) then Inl InvalidLoanWindow
             else Inr [StaffLoanExtensionRequested new_end_at actor now])
          else Inl (loan_invalid l ''ExtendStaffLoan'')
      | EndStaffLoanEarly \<Rightarrow>
          if loan_status l \<in> {Active, Extended} then Inr [StaffLoanEndedEarly actor now]
          else Inl (loan_invalid l ''EndStaffLoanEarly'')
      | ExpireStaffLoan \<Rightarrow>
          if loan_status l \<in> {Active, Extended} then Inr [StaffLoanExpired now]
          else Inl (loan_invalid l ''ExpireStaffLoan'')
      | EscalateStaffLoan reason escalated_to \<Rightarrow>
          if loan_status l = Requested then Inr [StaffLoanEscalated reason actor escalated_to now]
          else Inl (loan_invalid l ''EscalateStaffLoan''))"

section \<open>Applying\<close>

abbreviation advance_authority :: "StaffLoan \<Rightarrow> StaffLoan" where
  "advance_authority l \<equiv> l\<lparr>loan_authority_epoch := AuthorityEpoch_advance (loan_authority_epoch l)\<rparr>"

abbreviation advance_lifecycle :: "StaffLoan \<Rightarrow> StaffLoan" where
  "advance_lifecycle l \<equiv> l\<lparr>loan_lifecycle_epoch := LifecycleEpoch_advance (loan_lifecycle_epoch l)\<rparr>"

fun loan_apply_event :: "StaffLoanEvent \<Rightarrow> StaffLoan \<Rightarrow> StaffLoan" where
  "loan_apply_event (StaffLoanRequested _ _ _ _ _ _ _) l = l"
| "loan_apply_event (StaffLoanApproved _ _) l = advance_authority (l\<lparr>loan_status := Active\<rparr>)"
| "loan_apply_event (StaffLoanDeclined _ _ _) l = advance_lifecycle (l\<lparr>loan_status := Declined\<rparr>)"
| "loan_apply_event (StaffLoanExtended new_end_at _ _) l =
     l\<lparr>loan_status := Extended, loan_window := (loan_window l)\<lparr>loan_end_at := new_end_at\<rparr>\<rparr>"
| "loan_apply_event (StaffLoanExtensionRequested new_end_at _ _) l = l\<lparr>pending_extension_end_at := Some new_end_at\<rparr>"
| "loan_apply_event (StaffLoanExtensionApproved new_end_at _ _) l =
     advance_authority (l\<lparr>loan_status := Extended, loan_window := (loan_window l)\<lparr>loan_end_at := new_end_at\<rparr>,
       pending_extension_end_at := None\<rparr>)"
| "loan_apply_event (StaffLoanExtensionDeclined _ _ _) l = l\<lparr>pending_extension_end_at := None\<rparr>"
| "loan_apply_event (StaffLoanEndedEarly _ _) l =
     advance_lifecycle (advance_authority (l\<lparr>loan_status := Ended, pending_extension_end_at := None\<rparr>))"
| "loan_apply_event (StaffLoanExpired _) l = advance_lifecycle (advance_authority (l\<lparr>loan_status := Expired\<rparr>))"
| "loan_apply_event (StaffLoanEscalated _ _ escalated_to _) l =
     advance_authority (l\<lparr>loan_escalated_to := Some escalated_to\<rparr>)"

definition loan_apply :: "StaffLoanEvent \<Rightarrow> StaffLoan \<Rightarrow> StaffLoan" where
  "loan_apply event l = (let l' = loan_apply_event event l in l'\<lparr>loan_version := ObjectVersion_next (loan_version l')\<rparr>)"

section \<open>The lifecycle, abstractly\<close>

inductive loan_transition :: "StaffLoanStatus \<Rightarrow> StaffLoanStatus \<Rightarrow> bool" where
  approve: "loan_transition Requested Active"
| decline: "loan_transition Requested Declined"
| extend: "s \<in> {Active, Extended} \<Longrightarrow> loan_transition s Extended"
| finish: "s \<in> {Active, Extended} \<Longrightarrow> loan_transition s Ended"
| expire: "s \<in> {Active, Extended} \<Longrightarrow> loan_transition s Expired"

lemmas loan_defs [agg_simps] = loan_decide_def loan_apply_def Let_def

lemma loan_decide_cases:
  assumes "loan_decide l c ctx = Inr es"
  obtains e where "es = [e]"
    and "loan_status (loan_apply e l) = loan_status l \<or> loan_transition (loan_status l) (loan_status (loan_apply e l))"
  using assms
  by (cases c; fastforce simp: agg_simps split: if_splits option.splits intro: loan_transition.intros)

interpretation loan: status_aggregate loan_id loan_version loan_lifecycle_epoch loan_authority_epoch
    loan_decide loan_apply loan_status loan_transition
proof
  fix e l
  show "loan_id (loan_apply e l) = loan_id l" by (cases e) (simp_all add: agg_simps)
  show "loan_version (loan_apply e l) = ObjectVersion_next (loan_version l)" by (cases e) (simp_all add: agg_simps)
  show "loan_lifecycle_epoch (loan_apply e l) \<in> {loan_lifecycle_epoch l, LifecycleEpoch_advance (loan_lifecycle_epoch l)}"
    by (cases e) (simp_all add: agg_simps)
  show "loan_authority_epoch (loan_apply e l) \<in> {loan_authority_epoch l, AuthorityEpoch_advance (loan_authority_epoch l)}"
    by (cases e) (simp_all add: agg_simps)
qed (erule loan_decide_cases, simp)

interpretation loan_single: single_event_aggregate loan_id loan_version loan_lifecycle_epoch loan_authority_epoch
    loan_decide loan_apply
  by unfold_locales (erule loan_decide_cases, simp)

section \<open>Reachable loans\<close>

inductive loan_reachable :: "StaffLoan \<Rightarrow> bool" where
  created: "loan_create c ctx = Inr [e] \<Longrightarrow> loan_from_created_event e = Some l \<Longrightarrow> loan_reachable l"
| decided: "loan_reachable l \<Longrightarrow> loan_decide l c ctx = Inr es \<Longrightarrow> loan_reachable (fold loan_apply es l)"

text \<open>
  The window never shrinks to nothing, owner and borrower differ, and an open extension request asks for a later end.
\<close>

definition loan_inv :: "StaffLoan \<Rightarrow> bool" where
  "loan_inv l \<longleftrightarrow> loan_start_at (loan_window l) < loan_end_at (loan_window l)
     \<and> loan_real_owner_id l \<noteq> loan_borrowing_manager_id l
     \<and> (\<forall>t. pending_extension_end_at l = Some t \<longrightarrow> loan_end_at (loan_window l) < t)
     \<and> (pending_extension_end_at l \<noteq> None \<longrightarrow> loan_status l \<in> {Active, Extended, Expired})"

lemma loan_inv_decide:
  assumes "loan_inv l" and "loan_decide l c ctx = Inr es"
  shows "loan_inv (fold loan_apply es l)"
  using assms by (cases c) (auto simp: loan_inv_def agg_simps not_le split: if_splits option.splits)

lemma loan_reachable_inv: "loan_reachable l \<Longrightarrow> loan_inv l"
proof (induction rule: loan_reachable.induct)
  case (created c ctx e l)
  then show ?case by (cases c) (auto simp: loan_inv_def not_le split: if_splits)
qed (rule loan_inv_decide)

text \<open>Status and escalation target are covered by the epochs; the owner never changes.\<close>

lemma loan_epochs_cover:
  assumes "loan_decide l c ctx = Inr es"
  shows "loan_status (fold loan_apply es l) = loan_status l \<and> loan_escalated_to (fold loan_apply es l) = loan_escalated_to l
      \<or> loan_authority_epoch (fold loan_apply es l) \<noteq> loan_authority_epoch l
      \<or> loan_lifecycle_epoch (fold loan_apply es l) \<noteq> loan_lifecycle_epoch l"
    and "loan_real_owner_id (fold loan_apply es l) = loan_real_owner_id l"
  using assms by (cases c; auto simp: agg_simps kernel_simps split: if_splits option.splits)+

section \<open>Properties\<close>

definition loan_sample_ctx :: DecisionContext where
  "loan_sample_ctx = \<lparr>ctx_actor = \<lparr>user_id = 1, device_id = 2, actor_organization_id = 3\<rparr>,
     ctx_authority = VerifiedAuthority, trusted_now = 10, policy_outcomes = PolicyDecisionSet,
     ctx_object_id = (\<lambda>n. 100 + of_nat n)\<rparr>"

definition loan_sample :: StaffLoan where
  "loan_sample = \<lparr>loan_id = 100, loan_version = 0, loan_lifecycle_epoch = 0, loan_authority_epoch = 0, loan_status = Requested,
     loan_staff_user_id = 5, loan_real_owner_id = 6, loan_borrowing_manager_id = 7,
     loan_window = \<lparr>loan_start_at = 20, loan_end_at = 30\<rparr>, pending_extension_end_at = None, loan_escalated_to = None\<rparr>"

lemma loan_sample_reachable: "loan_reachable loan_sample"
proof (rule loan_reachable.created)
  show "loan_create (RequestStaffLoan 5 6 7 \<lparr>loan_start_at = 20, loan_end_at = 30\<rparr>) loan_sample_ctx
      = Inr [StaffLoanRequested 100 5 6 7 \<lparr>loan_start_at = 20, loan_end_at = 30\<rparr> 1 10]"
    by (simp add: loan_sample_ctx_def)
  show "loan_from_created_event (StaffLoanRequested 100 5 6 7 \<lparr>loan_start_at = 20, loan_end_at = 30\<rparr> 1 10) = Some loan_sample"
    by (simp add: loan_sample_def kernel_simps)
qed

text \<open>
  The window of a loan that \<open>create\<close> and \<open>decide\<close> can produce is never empty and only grows, and only by the approval of
  an extension that was requested before; the parties of the loan never change and owner and borrower
  differ.
\<close>

theorem loan_window_grows:
  assumes "loan_reachable l" and "loan_decide l c ctx = Inr es" and "l' = fold loan_apply es l"
  shows "loan_start_at (loan_window l) < loan_end_at (loan_window l)
    \<and> loan_start_at (loan_window l') = loan_start_at (loan_window l)
    \<and> loan_end_at (loan_window l) \<le> loan_end_at (loan_window l')
    \<and> (loan_window l' \<noteq> loan_window l \<longrightarrow>
        c = ApproveStaffLoan \<and> pending_extension_end_at l = Some (loan_end_at (loan_window l')) \<and> loan_status l' = Extended)
    \<and> loan_real_owner_id l \<noteq> loan_borrowing_manager_id l
    \<and> loan_staff_user_id l' = loan_staff_user_id l \<and> loan_real_owner_id l' = loan_real_owner_id l
    \<and> loan_borrowing_manager_id l' = loan_borrowing_manager_id l"
  using loan_reachable_inv [OF assms(1)] assms(2,3)
  by (cases c) (auto simp: loan_inv_def agg_simps split: if_splits option.splits)

theorem loan_window_grows_witness:
  "loan_start_at (loan_window (fold loan_apply [StaffLoanApproved 1 10] loan_sample)) = 20"
  using loan_window_grows [OF loan_sample_reachable, of ApproveStaffLoan loan_sample_ctx "[StaffLoanApproved 1 10]"]
  by (simp add: loan_sample_def loan_sample_ctx_def agg_simps is_authorized_def)

text \<open>
  Who may verify and who may approve is told by the authority epoch: a command that changes either set of managers changes
  the epoch or opens or closes an extension request; a loan that was declined, ended or expired grants
  nobody anything, whatever commands follow; while approval of a request is open exactly one manager
  holds it, the escalation target in place of the owner once the request was escalated.
\<close>

theorem loan_authority:
  assumes "loan_decide l c ctx = Inr es" and "l' = fold loan_apply es l"
  shows "(grants_verification_authority_to l' \<noteq> grants_verification_authority_to l \<longrightarrow> loan_authority_epoch l' \<noteq> loan_authority_epoch l)
    \<and> (grants_approval_authority_to l' \<noteq> grants_approval_authority_to l \<longrightarrow>
        loan_authority_epoch l' \<noteq> loan_authority_epoch l \<or> loan_lifecycle_epoch l' \<noteq> loan_lifecycle_epoch l
        \<or> pending_extension_end_at l' \<noteq> pending_extension_end_at l)
    \<and> (loan_status u \<in> {Declined, Ended, Expired} \<longrightarrow>
        (let u' = foldl (execute loan_decide loan_apply) u cmds in
         u' = u \<and> \<not> grants_verification_authority_to u' m \<and> \<not> grants_approval_authority_to u' m))
    \<and> (loan_status l = Requested \<longrightarrow>
        grants_approval_authority_to l = (\<lambda>m. m = (case loan_escalated_to l of Some t \<Rightarrow> t | None \<Rightarrow> loan_real_owner_id l)))"
proof -
  have "u' = u \<and> \<not> grants_verification_authority_to u' m \<and> \<not> grants_approval_authority_to u' m"
    if "loan_status u \<in> {Declined, Ended, Expired}" "u' = foldl (execute loan_decide loan_apply) u cmds" for u'
  proof -
    have "\<exists>e. loan_decide u c ctx = Inl e" for c ctx
      using that(1) by (cases c) (auto simp: agg_simps)
    from loan.run_inert [of u, OF this] that show ?thesis
      by (auto simp: grants_verification_authority_to_def grants_approval_authority_to_def)
  qed
  moreover have "grants_verification_authority_to l' \<noteq> grants_verification_authority_to l \<longrightarrow> loan_authority_epoch l' \<noteq> loan_authority_epoch l"
    using assms by (cases c) (auto simp: grants_verification_authority_to_def fun_eq_iff agg_simps kernel_simps split: if_splits option.splits)
  moreover have "grants_approval_authority_to l' \<noteq> grants_approval_authority_to l \<longrightarrow>
        loan_authority_epoch l' \<noteq> loan_authority_epoch l \<or> loan_lifecycle_epoch l' \<noteq> loan_lifecycle_epoch l
        \<or> pending_extension_end_at l' \<noteq> pending_extension_end_at l"
  proof -
    have "grants_approval_authority_to l' = grants_approval_authority_to l"
      if "loan_status l' = loan_status l \<and> loan_escalated_to l' = loan_escalated_to l"
        and "pending_extension_end_at l' = pending_extension_end_at l"
      unfolding grants_approval_authority_to_def [abs_def] using that loan_epochs_cover(2) [OF assms(1), folded assms(2)] by metis
    with loan_epochs_cover(1) [OF assms(1), folded assms(2)] show ?thesis by blast
  qed
  moreover have "grants_approval_authority_to l = (\<lambda>m. m = (case loan_escalated_to l of Some t \<Rightarrow> t | None \<Rightarrow> loan_real_owner_id l))"
    if "loan_status l = Requested"
    using that by (cases "loan_escalated_to l") (simp_all add: grants_approval_authority_to_def fun_eq_iff)
  ultimately show ?thesis unfolding Let_def by blast
qed

theorem loan_authority_witness:
  "foldl (execute loan_decide loan_apply) (loan_sample\<lparr>loan_status := Declined\<rparr>) [(ApproveStaffLoan, loan_sample_ctx)]
     = loan_sample\<lparr>loan_status := Declined\<rparr>"
  using loan_authority [of loan_sample ApproveStaffLoan loan_sample_ctx "[StaffLoanApproved 1 10]" _ "loan_sample\<lparr>loan_status := Declined\<rparr>"
      "[(ApproveStaffLoan, loan_sample_ctx)]"]
  by (simp add: loan_sample_def loan_sample_ctx_def agg_simps is_authorized_def)

end
