(* ===== verification/User_Store.thy ===== *)
theory User_Store
  imports Contracts "HOL-Library.Char_ord" "HOL-Library.List_Lexorder"
begin

text \<open>
  The identity store (\<open>crates/infrastructure/security-adapter/src/user_store.rs\<close>, the SQLite implementation of the port in
  \<open>crates/applications/security-application/src/ports/user_store.rs\<close>): accounts, classes, and the reporting line, a
  tree that \<open>create\<close> and \<open>set_parent\<close> keep free of cycles.

  The table \<open>users\<close> is a finite map from the primary key to the row; the unique index on \<open>LOWER(username)\<close> is checked by the
  insert. \<open>fault n\<close> is the error the engine reports for the \<open>n\<close>-th statement of an operation. \<open>to_lowercase\<close> is Rust's
  Unicode lowercasing, a parameter; \<open>sql_lower\<close> is SQLite's \<open>LOWER\<close>, which maps the ASCII letters only.
\<close>

section \<open>Classes and records\<close>

datatype UserClass = TopLevelManager | SeniorManager | TeamLeader | Supervisor | Staff

fun class_as_str :: "UserClass \<Rightarrow> string" where
  "class_as_str TopLevelManager = ''top_level_manager''"
| "class_as_str SeniorManager = ''senior_manager''"
| "class_as_str TeamLeader = ''team_leader''"
| "class_as_str Supervisor = ''supervisor''"
| "class_as_str Staff = ''staff''"

definition class_parse :: "string \<Rightarrow> UserClass option" where
  "class_parse raw =
     (if raw = ''top_level_manager'' then Some TopLevelManager
      else if raw = ''senior_manager'' then Some SeniorManager
      else if raw = ''team_leader'' then Some TeamLeader
      else if raw = ''supervisor'' then Some Supervisor
      else if raw = ''staff'' then Some Staff
      else None)"

record UserRecord =
  u_user_id :: string
  u_username :: string
  u_organization_id :: string
  u_password_hash :: string
  u_is_admin :: bool
  u_is_manager :: bool
  u_class :: "UserClass option"
  u_parent_user_id :: "string option"
  u_is_active :: bool

record NewUser =
  new_user_id :: string
  new_username :: string
  new_organization_id :: string
  new_password_hash :: string
  new_is_admin :: bool
  new_is_manager :: bool
  new_class :: "UserClass option"
  new_parent_user_id :: "string option"

datatype UserStoreError =
    DuplicateUsername
  | NotFound
  | Infrastructure string
  | ParentNotFound
  | ParentCycle

record UserRow =
  ur_username :: string
  ur_organization_id :: string
  ur_password_hash :: string
  ur_is_admin :: bool
  ur_is_manager :: bool
  ur_class :: "string option"
  ur_parent :: "string option"
  ur_is_active :: bool
  ur_created_at :: u64
  ur_updated_at :: u64

record UserDb =
  users :: "(string, UserRow) fmap"
  mobile_class_access :: "(string \<times> string) list"

section \<open>Reading\<close>

definition parse_class :: "string option \<Rightarrow> (UserClass option, UserStoreError) result" where
  "parse_class raw =
     (case raw of
        None \<Rightarrow> Inr None
      | Some s \<Rightarrow>
          (case class_parse s of
             Some c \<Rightarrow> Inr (Some c)
           | None \<Rightarrow> Inl (Infrastructure (''unrecognized stored class value: '' @ s))))"

definition record_from_row :: "string \<Rightarrow> UserRow \<Rightarrow> (UserRecord, UserStoreError) result" where
  "record_from_row uid row =
     (case parse_class (ur_class row) of
        Inl e \<Rightarrow> Inl e
      | Inr class \<Rightarrow>
          Inr \<lparr>u_user_id = uid, u_username = ur_username row, u_organization_id = ur_organization_id row,
               u_password_hash = ur_password_hash row, u_is_admin = ur_is_admin row, u_is_manager = ur_is_manager row,
               u_class = class, u_parent_user_id = ur_parent row, u_is_active = ur_is_active row\<rparr>)"

definition lower_char :: "char \<Rightarrow> char" where
  "lower_char c = (let n = of_char c :: nat in if 65 \<le> n \<and> n \<le> 90 then char_of (n + 32) else c)"

definition sql_lower :: "string \<Rightarrow> string" where
  "sql_lower s = map lower_char s"

text \<open>\<open>SELECT ... WHERE p\<close> on the primary key order; at most one row where the index is unique.\<close>

definition select_users :: "(string \<Rightarrow> UserRow \<Rightarrow> bool) \<Rightarrow> UserDb \<Rightarrow> (string \<times> UserRow) list" where
  "select_users p db = filter (\<lambda>(uid, row). p uid row) (sorted_list_of_fmap (users db))"

fun optional_record :: "(string \<times> UserRow) list \<Rightarrow> (UserRecord option, UserStoreError) result" where
  "optional_record [] = Inr None"
| "optional_record ((uid, row) # _) = (case record_from_row uid row of Inl e \<Rightarrow> Inl e | Inr r \<Rightarrow> Inr (Some r))"

definition find_by_username ::
    "(string \<Rightarrow> string) \<Rightarrow> (nat \<Rightarrow> string option) \<Rightarrow> string \<Rightarrow> UserDb \<Rightarrow> (UserRecord option, UserStoreError) result" where
  "find_by_username to_lowercase fault username db =
     (case fault 0 of
        Some e \<Rightarrow> Inl (Infrastructure e)
      | None \<Rightarrow> optional_record (select_users (\<lambda>_ row. sql_lower (ur_username row) = to_lowercase username) db))"

definition find_by_id :: "(nat \<Rightarrow> string option) \<Rightarrow> string \<Rightarrow> UserDb \<Rightarrow> (UserRecord option, UserStoreError) result" where
  "find_by_id fault uid db =
     (case fault 0 of
        Some e \<Rightarrow> Inl (Infrastructure e)
      | None \<Rightarrow>
          (case fmlookup (users db) uid of
             None \<Rightarrow> Inr None
           | Some row \<Rightarrow> (case record_from_row uid row of Inl e \<Rightarrow> Inl e | Inr r \<Rightarrow> Inr (Some r))))"

definition find_by_id_in_organization ::
    "(nat \<Rightarrow> string option) \<Rightarrow> string \<Rightarrow> string \<Rightarrow> UserDb \<Rightarrow> (UserRecord option, UserStoreError) result" where
  "find_by_id_in_organization fault uid org db =
     (case fault 0 of
        Some e \<Rightarrow> Inl (Infrastructure e)
      | None \<Rightarrow>
          (case fmlookup (users db) uid of
             None \<Rightarrow> Inr None
           | Some row \<Rightarrow>
               if ur_organization_id row = org
               then (case record_from_row uid row of Inl e \<Rightarrow> Inl e | Inr r \<Rightarrow> Inr (Some r))
               else Inr None))"

fun collect_results :: "('a, 'e) result list \<Rightarrow> ('a list, 'e) result" where
  "collect_results [] = Inr []"
| "collect_results (Inl e # rs) = Inl e"
| "collect_results (Inr x # rs) = (case collect_results rs of Inl e \<Rightarrow> Inl e | Inr xs \<Rightarrow> Inr (x # xs))"

definition list_in_organization ::
    "(nat \<Rightarrow> string option) \<Rightarrow> string \<Rightarrow> UserDb \<Rightarrow> (UserRecord list, UserStoreError) result" where
  "list_in_organization fault org db =
     (case fault 0 of
        Some e \<Rightarrow> Inl (Infrastructure e)
      | None \<Rightarrow>
          collect_results (map (\<lambda>(uid, row). record_from_row uid row)
            (sort_key (\<lambda>(uid, row). ur_username row) (select_users (\<lambda>_ row. ur_organization_id row = org) db))))"

definition count_users :: "(nat \<Rightarrow> string option) \<Rightarrow> UserDb \<Rightarrow> (u64, UserStoreError) result" where
  "count_users fault db =
     (case fault 0 of Some e \<Rightarrow> Inl (Infrastructure e) | None \<Rightarrow> Inr (of_nat (length (select_users (\<lambda>_ _. True) db))))"

definition user_exists_in_organization ::
    "string option \<Rightarrow> string \<Rightarrow> string \<Rightarrow> UserDb \<Rightarrow> (bool, UserStoreError) result" where
  "user_exists_in_organization fault uid org db =
     (case fault of
        Some e \<Rightarrow> Inl (Infrastructure e)
      | None \<Rightarrow> Inr (case fmlookup (users db) uid of None \<Rightarrow> False | Some row \<Rightarrow> ur_organization_id row = org))"

section \<open>The reporting line\<close>

definition MAX_DEPTH :: nat where
  "MAX_DEPTH = 1000"

text \<open>\<open>SELECT parent_user_id FROM users WHERE id = ? AND organization_id = ?\<close>, flattened.\<close>

definition select_parent :: "UserDb \<Rightarrow> string \<Rightarrow> string \<Rightarrow> string option" where
  "select_parent db org uid =
     (case fmlookup (users db) uid of
        None \<Rightarrow> None
      | Some row \<Rightarrow> if ur_organization_id row = org then ur_parent row else None)"

text \<open>The loop of \<open>is_ancestor\<close> with \<open>n\<close> rounds left; statement \<open>i\<close> is the next one.\<close>

fun is_ancestor_loop ::
    "(nat \<Rightarrow> string option) \<Rightarrow> UserDb \<Rightarrow> string \<Rightarrow> string \<Rightarrow> nat \<Rightarrow> string \<Rightarrow> nat \<Rightarrow> (bool, UserStoreError) result" where
  "is_ancestor_loop fault db org candidate i current 0 = Inr True"
| "is_ancestor_loop fault db org candidate i current (Suc n) =
     (if current = candidate then Inr True
      else case fault i of
             Some e \<Rightarrow> Inl (Infrastructure e)
           | None \<Rightarrow>
               (case select_parent db org current of
                  Some parent \<Rightarrow> is_ancestor_loop fault db org candidate (Suc i) parent n
                | None \<Rightarrow> Inr False))"

definition is_ancestor ::
    "(nat \<Rightarrow> string option) \<Rightarrow> nat \<Rightarrow> string \<Rightarrow> string \<Rightarrow> string \<Rightarrow> UserDb \<Rightarrow> (bool, UserStoreError) result" where
  "is_ancestor fault i candidate start org db = is_ancestor_loop fault db org candidate i start MAX_DEPTH"

section \<open>Writing\<close>

definition create_user ::
    "(string \<Rightarrow> string) \<Rightarrow> u64 \<Rightarrow> (nat \<Rightarrow> string option) \<Rightarrow> NewUser \<Rightarrow> UserDb \<Rightarrow> UserDb \<times> (UserRecord, UserStoreError) result" where
  "create_user to_lowercase now fault user db =
     (case (case new_parent_user_id user of
              None \<Rightarrow> Inr True
            | Some parent \<Rightarrow> user_exists_in_organization (fault 0) parent (new_organization_id user) db) of
        Inl e \<Rightarrow> (db, Inl e)
      | Inr False \<Rightarrow> (db, Inl ParentNotFound)
      | Inr True \<Rightarrow>
          (case fault 1 of
             Some e \<Rightarrow> (db, Inl (Infrastructure e))
           | None \<Rightarrow>
               let username = to_lowercase (new_username user)
               in if fmlookup (users db) (new_user_id user) \<noteq> None
                     \<or> select_users (\<lambda>_ row. sql_lower (ur_username row) = sql_lower username) db \<noteq> []
                  then (db, Inl DuplicateUsername)
                  else (db\<lparr>users := fmupd (new_user_id user)
                             \<lparr>ur_username = username, ur_organization_id = new_organization_id user,
                              ur_password_hash = new_password_hash user, ur_is_admin = new_is_admin user,
                              ur_is_manager = new_is_manager user, ur_class = map_option class_as_str (new_class user),
                              ur_parent = new_parent_user_id user, ur_is_active = True,
                              ur_created_at = now, ur_updated_at = now\<rparr> (users db)\<rparr>,
                        Inr \<lparr>u_user_id = new_user_id user, u_username = username,
                             u_organization_id = new_organization_id user, u_password_hash = new_password_hash user,
                             u_is_admin = new_is_admin user, u_is_manager = new_is_manager user, u_class = new_class user,
                             u_parent_user_id = new_parent_user_id user, u_is_active = True\<rparr>)))"

text \<open>\<open>UPDATE users SET ..., updated_at = ? WHERE id = ? AND organization_id = ?\<close>, and \<open>NotFound\<close> when no row was affected.\<close>

definition update_user ::
    "(UserRow \<Rightarrow> UserRow) \<Rightarrow> u64 \<Rightarrow> string option \<Rightarrow> string \<Rightarrow> string \<Rightarrow> UserDb \<Rightarrow> UserDb \<times> (unit, UserStoreError) result" where
  "update_user f now fault uid org db =
     (case fault of
        Some e \<Rightarrow> (db, Inl (Infrastructure e))
      | None \<Rightarrow>
          (case fmlookup (users db) uid of
             None \<Rightarrow> (db, Inl NotFound)
           | Some row \<Rightarrow>
               if ur_organization_id row = org
               then (db\<lparr>users := fmupd uid ((f row)\<lparr>ur_updated_at := now\<rparr>) (users db)\<rparr>, Inr ())
               else (db, Inl NotFound)))"

definition set_active where
  "set_active now fault uid org is_active db = update_user (ur_is_active_update (\<lambda>_. is_active)) now fault uid org db"

definition set_manager where
  "set_manager now fault uid org is_manager db = update_user (ur_is_manager_update (\<lambda>_. is_manager)) now fault uid org db"

definition set_class where
  "set_class now fault uid org class db =
     update_user (ur_class_update (\<lambda>_. map_option class_as_str class)) now fault uid org db"

definition set_password_hash where
  "set_password_hash now fault uid org password_hash db =
     update_user (ur_password_hash_update (\<lambda>_. password_hash)) now fault uid org db"

text \<open>The check of \<open>set_parent\<close> on a proposed parent; statement 0 has looked up the user.\<close>

definition check_parent ::
    "(nat \<Rightarrow> string option) \<Rightarrow> string \<Rightarrow> string \<Rightarrow> string \<Rightarrow> UserDb \<Rightarrow> (unit, UserStoreError) result" where
  "check_parent fault uid org parent db =
     (if parent = uid then Inl ParentCycle
      else case user_exists_in_organization (fault 1) parent org db of
             Inl e \<Rightarrow> Inl e
           | Inr exists \<Rightarrow>
               if \<not> exists then Inl ParentNotFound
               else (case is_ancestor fault 2 uid parent org db of
                       Inl e \<Rightarrow> Inl e
                     | Inr cycle \<Rightarrow> if cycle then Inl ParentCycle else Inr ()))"

definition set_parent ::
    "u64 \<Rightarrow> (nat \<Rightarrow> string option) \<Rightarrow> string option \<Rightarrow> string \<Rightarrow> string \<Rightarrow> string option \<Rightarrow> UserDb
      \<Rightarrow> UserDb \<times> (unit, UserStoreError) result" where
  "set_parent now fault update_fault uid org parent_user_id db =
     (case user_exists_in_organization (fault 0) uid org db of
        Inl e \<Rightarrow> (db, Inl e)
      | Inr exists \<Rightarrow>
          if \<not> exists then (db, Inl NotFound)
          else (case (case parent_user_id of None \<Rightarrow> Inr () | Some parent \<Rightarrow> check_parent fault uid org parent db) of
                  Inl e \<Rightarrow> (db, Inl e)
                | Inr _ \<Rightarrow>
                    (case update_fault of
                       Some e \<Rightarrow> (db, Inl (Infrastructure e))
                     | None \<Rightarrow>
                         (fst (update_user (ur_parent_update (\<lambda>_. parent_user_id)) now None uid org db), Inr ()))))"

section \<open>Mobile access\<close>

definition list_mobile_access :: "(nat \<Rightarrow> string option) \<Rightarrow> string \<Rightarrow> UserDb \<Rightarrow> (string list, UserStoreError) result" where
  "list_mobile_access fault org db =
     (case fault 0 of
        Some e \<Rightarrow> Inl (Infrastructure e)
      | None \<Rightarrow> Inr (map snd (filter (\<lambda>(o', _). o' = org) (mobile_class_access db))))"

text \<open>The inserts of the loop; the table has a unique constraint on the pair.\<close>

fun insert_mobile_access ::
    "(nat \<Rightarrow> string option) \<Rightarrow> nat \<Rightarrow> string \<Rightarrow> string list \<Rightarrow> (string \<times> string) list
      \<Rightarrow> ((string \<times> string) list, UserStoreError) result" where
  "insert_mobile_access fault i org [] rows = Inr rows"
| "insert_mobile_access fault i org (c # cs) rows =
     (case fault i of
        Some e \<Rightarrow> Inl (Infrastructure e)
      | None \<Rightarrow>
          if (org, c) \<in> set rows then Inl (Infrastructure ''UNIQUE constraint failed'')
          else insert_mobile_access fault (Suc i) org cs (rows @ [(org, c)]))"

text \<open>\<open>BEGIN\<close>, \<open>DELETE\<close>, the inserts, \<open>COMMIT\<close>; an error rolls everything back.\<close>

definition set_mobile_access ::
    "(nat \<Rightarrow> string option) \<Rightarrow> string \<Rightarrow> string list \<Rightarrow> UserDb \<Rightarrow> UserDb \<times> (unit, UserStoreError) result" where
  "set_mobile_access fault org classes db =
     (case fault 0 of
        Some e \<Rightarrow> (db, Inl (Infrastructure e))
      | None \<Rightarrow>
          (case fault 1 of
             Some e \<Rightarrow> (db, Inl (Infrastructure e))
           | None \<Rightarrow>
               (case insert_mobile_access fault 2 org classes (filter (\<lambda>(o', _). o' \<noteq> org) (mobile_class_access db)) of
                  Inl e \<Rightarrow> (db, Inl e)
                | Inr rows \<Rightarrow>
                    (case fault (2 + length classes) of
                       Some e \<Rightarrow> (db, Inl (Infrastructure e))
                     | None \<Rightarrow> (db\<lparr>mobile_class_access := rows\<rparr>, Inr ())))))"

section \<open>Climbing a reporting line\<close>

text \<open>The superior \<open>n\<close> steps up, if the line is that long.\<close>

fun climb :: "('u \<Rightarrow> 'u option) \<Rightarrow> nat \<Rightarrow> 'u \<Rightarrow> 'u option" where
  "climb p 0 u = Some u"
| "climb p (Suc n) u = (case p u of None \<Rightarrow> None | Some v \<Rightarrow> climb p n v)"

text \<open>
  What a client that climbs the line relies on: the store's well-formed states have finitely many links and no cycle. Then
  every climb ends, after at most as many steps as there are users with a superior.
\<close>

locale reporting_line =
  fixes parent_of :: "'db \<Rightarrow> 'u \<Rightarrow> 'u option" and ok :: "'db \<Rightarrow> bool"
  assumes ok_finite: "ok db \<Longrightarrow> finite {u. parent_of db u \<noteq> None}"
    and ok_acyclic: "ok db \<Longrightarrow> acyclic {(u, v). parent_of db u = Some v}"
begin

definition links :: "'db \<Rightarrow> ('u \<times> 'u) set" where
  "links db = {(u, v). parent_of db u = Some v}"

definition height :: "'db \<Rightarrow> 'u \<Rightarrow> nat" where
  "height db u = card {a. parent_of db a \<noteq> None \<and> (u, a) \<in> (links db)\<^sup>*}"

lemma height_less:
  assumes "ok db" and "parent_of db u = Some v"
  shows "height db v < height db u"
proof -
  have uv: "(u, v) \<in> links db" using assms(2) by (simp add: links_def)
  have "(v, u) \<notin> (links db)\<^sup>*"
  proof
    assume "(v, u) \<in> (links db)\<^sup>*"
    with uv have "(u, u) \<in> (links db)\<^sup>+" by (rule rtrancl_into_trancl2)
    with ok_acyclic [OF assms(1)] show False by (simp add: acyclic_def links_def)
  qed
  with assms(2) uv have "{a. parent_of db a \<noteq> None \<and> (v, a) \<in> (links db)\<^sup>*} \<subset> {a. parent_of db a \<noteq> None \<and> (u, a) \<in> (links db)\<^sup>*}"
    by (auto intro: converse_rtrancl_into_rtrancl)
  then show ?thesis
    unfolding height_def by (intro psubset_card_mono) (auto intro: finite_subset [OF _ ok_finite [OF assms(1)]])
qed

lemma height_bound: "ok db \<Longrightarrow> height db u \<le> card {a. parent_of db a \<noteq> None}"
  unfolding height_def by (intro card_mono ok_finite) auto

lemma climb_ends: "ok db \<Longrightarrow> height db u < n \<Longrightarrow> climb (parent_of db) n u = None"
proof (induction n arbitrary: u)
  case (Suc n)
  show ?case
  proof (cases "parent_of db u")
    case (Some v)
    with Suc height_less [of db u v] show ?thesis by simp
  qed simp
qed simp

lemma climb_bounded:
  assumes "ok db" and "climb (parent_of db) n u = Some v"
  shows "n \<le> card {a. parent_of db a \<noteq> None}"
  using climb_ends [OF assms(1), of u n] height_bound [OF assms(1), of u] assms(2) by force

end

section \<open>The invariant of the store\<close>

definition user_parent :: "UserDb \<Rightarrow> string \<Rightarrow> string option" where
  "user_parent db uid = (case fmlookup (users db) uid of None \<Rightarrow> None | Some row \<Rightarrow> ur_parent row)"

definition in_org :: "UserDb \<Rightarrow> string \<Rightarrow> string \<Rightarrow> bool" where
  "in_org db org uid \<longleftrightarrow> (\<exists>row. fmlookup (users db) uid = Some row \<and> ur_organization_id row = org)"

abbreviation line :: "UserDb \<Rightarrow> (string \<times> string) set" where
  "line db \<equiv> {(u, v). user_parent db u = Some v}"

definition users_inv :: "UserDb \<Rightarrow> bool" where
  "users_inv db \<longleftrightarrow> acyclic (line db)
     \<and> (\<forall>u v org. user_parent db u = Some v \<longrightarrow> in_org db org u \<longrightarrow> in_org db org v)
     \<and> (\<forall>a b ra rb. fmlookup (users db) a = Some ra \<longrightarrow> fmlookup (users db) b = Some rb
          \<longrightarrow> sql_lower (ur_username ra) = sql_lower (ur_username rb) \<longrightarrow> a = b)"

lemma user_parent_dom: "{u. user_parent db u \<noteq> None} \<subseteq> fset (fmdom (users db))"
  by (auto simp: user_parent_def intro: fmdomI split: option.splits)

interpretation user_line: reporting_line user_parent users_inv
  by unfold_locales (rule finite_subset [OF user_parent_dom], simp, simp add: users_inv_def)

lemma select_parent_in_org: "in_org db org uid \<Longrightarrow> select_parent db org uid = user_parent db uid"
  by (auto simp: in_org_def select_parent_def user_parent_def)

lemma users_inv_acyclic: "users_inv db \<Longrightarrow> acyclic (line db)"
  by (simp add: users_inv_def)

lemma users_inv_parent: "users_inv db \<Longrightarrow> user_parent db u = Some v \<Longrightarrow> in_org db org u \<Longrightarrow> in_org db org v"
  by (auto simp: users_inv_def)

text \<open>A negative answer of the loop is right; a positive one is right or the line is at least as long as the loop.\<close>

lemma is_ancestor_loop_False:
  assumes "users_inv db" and "in_org db org current" and "is_ancestor_loop fault db org candidate i current n = Inr False"
  shows "(current, candidate) \<notin> (line db)\<^sup>*"
  using assms(2,3)
proof (induction n arbitrary: current i)
  case (Suc n)
  then have ne: "current \<noteq> candidate" by (auto split: if_splits)
  show ?case
  proof (cases "user_parent db current")
    case None
    with ne show ?thesis by (auto elim: converse_rtranclE)
  next
    case (Some p)
    with Suc.prems ne have "is_ancestor_loop fault db org candidate (Suc i) p n = Inr False"
      by (auto simp: select_parent_in_org split: option.splits)
    with Suc.IH users_inv_parent [OF assms(1) Some] Suc.prems(1) have "(p, candidate) \<notin> (line db)\<^sup>*" by blast
    with Some ne show ?thesis by (auto elim: converse_rtranclE)
  qed
qed simp

lemma is_ancestor_loop_True:
  assumes "users_inv db" and "in_org db org current" and "is_ancestor_loop fault db org candidate i current n = Inr True"
  shows "(current, candidate) \<in> (line db)\<^sup>* \<or> climb (user_parent db) n current \<noteq> None"
  using assms(2,3)
proof (induction n arbitrary: current i)
  case (Suc n)
  show ?case
  proof (cases "current = candidate")
    case False
    with Suc.prems obtain p where p: "user_parent db current = Some p" "is_ancestor_loop fault db org candidate (Suc i) p n = Inr True"
      by (auto simp: select_parent_in_org split: option.splits)
    with Suc.IH users_inv_parent [OF assms(1) p(1)] Suc.prems(1)
    have "(p, candidate) \<in> (line db)\<^sup>* \<or> climb (user_parent db) n p \<noteq> None" by blast
    with p(1) show ?thesis by (auto intro: converse_rtrancl_into_rtrancl)
  qed simp
qed simp

lemma is_ancestor_total:
  "(\<And>j. fault j = None) \<Longrightarrow> \<exists>b. is_ancestor_loop fault db org candidate i current n = Inr b"
  by (induction n arbitrary: current i) (auto split: option.split)

section \<open>Every operation keeps it\<close>

text \<open>An update that leaves name and organisation of a row alone and gives it a parent that is not below it.\<close>

lemma users_inv_upd:
  assumes inv: "users_inv db" and row: "fmlookup (users db) uid = Some row"
    and same: "ur_username row' = ur_username row" "ur_organization_id row' = ur_organization_id row"
    and parent: "\<And>p. ur_parent row' = Some p \<Longrightarrow> p \<noteq> uid \<and> in_org db (ur_organization_id row) p \<and> (p, uid) \<notin> (line db)\<^sup>*"
  shows "users_inv (db\<lparr>users := fmupd uid row' (users db)\<rparr>)"
proof -
  let ?db = "db\<lparr>users := fmupd uid row' (users db)\<rparr>"
  let ?rest = "line db - {(uid, v) | v. True}"
  have up: "user_parent ?db u = (if u = uid then ur_parent row' else user_parent db u)" for u
    by (simp add: user_parent_def)
  have org: "in_org ?db o' u \<longleftrightarrow> in_org db o' u" for o' u
    using row same(2) by (auto simp: in_org_def)
  have "acyclic ?rest" by (rule acyclic_subset [OF users_inv_acyclic [OF inv]]) blast
  moreover have "?rest\<^sup>* \<subseteq> (line db)\<^sup>*" by (intro rtrancl_mono) auto
  ultimately have acyc: "acyclic (line ?db)"
  proof (cases "ur_parent row'")
    case None
    then have "line ?db = ?rest" by (auto simp: up split: if_splits)
    with \<open>acyclic ?rest\<close> show ?thesis by simp
  next
    case (Some p)
    then have eq: "line ?db = insert (uid, p) ?rest" by (auto simp: up split: if_splits)
    have "(p, uid) \<notin> ?rest\<^sup>*" using parent [OF Some] \<open>?rest\<^sup>* \<subseteq> _\<close> by blast
    with \<open>acyclic ?rest\<close> show ?thesis unfolding eq by (simp add: acyclic_insert)
  qed
  moreover have "in_org ?db o' v" if "user_parent ?db u = Some v" "in_org ?db o' u" for u v o'
  proof (cases "u = uid")
    case True
    with that have "ur_parent row' = Some v" "ur_organization_id row = o'" using row same(2) by (auto simp: up org in_org_def)
    with parent show ?thesis by (auto simp: org)
  next
    case False
    with that show ?thesis using users_inv_parent [OF inv] by (auto simp: up org)
  qed
  moreover have "a = b" if "fmlookup (users ?db) a = Some ra" "fmlookup (users ?db) b = Some rb"
    "sql_lower (ur_username ra) = sql_lower (ur_username rb)" for a b ra rb
    using that inv row same(1) unfolding users_inv_def
    by (auto split: if_splits)
  ultimately show ?thesis unfolding users_inv_def by blast
qed

text \<open>The four plain updates touch neither name, organisation nor parent.\<close>

lemma users_inv_update_user:
  assumes "users_inv db" and "\<And>r. ur_username (f r) = ur_username r \<and> ur_organization_id (f r) = ur_organization_id r \<and> ur_parent (f r) = ur_parent r"
  shows "users_inv (fst (update_user f now fault uid org db))"
proof -
  have "users_inv (db\<lparr>users := fmupd uid ((f row)\<lparr>ur_updated_at := now\<rparr>) (users db)\<rparr>)" if row: "fmlookup (users db) uid = Some row" for row
  proof (rule users_inv_upd [OF assms(1) row])
    fix p assume p: "ur_parent ((f row)\<lparr>ur_updated_at := now\<rparr>) = Some p"
    then have link: "user_parent db uid = Some p" using assms(2) row by (simp add: user_parent_def)
    moreover have "in_org db (ur_organization_id row) uid" using row by (auto simp: in_org_def)
    moreover have "(p, uid) \<notin> (line db)\<^sup>*"
      using assms(1) link rtrancl_into_trancl2 [of uid p "line db" uid] by (auto simp: users_inv_def acyclic_def)
    ultimately show "p \<noteq> uid \<and> in_org db (ur_organization_id row) p \<and> (p, uid) \<notin> (line db)\<^sup>*"
      using users_inv_parent [OF assms(1) link] by auto
  qed (use assms(2) in simp_all)
  with assms(1) show ?thesis by (auto simp: update_user_def split: option.splits)
qed

lemma set_select_users: "(uid, row) \<in> set (select_users p db) \<longleftrightarrow> fmlookup (users db) uid = Some row \<and> p uid row"
  by (auto simp: select_users_def set_sorted_list_of_fmap)

lemma users_inv_create:
  assumes "users_inv db"
  shows "users_inv (fst (create_user lc now fault user db))"
proof -
  let ?id = "new_user_id user"
  have "users_inv (db\<lparr>users := fmupd ?id row (users db)\<rparr>)"
    if new: "fmlookup (users db) ?id = None"
      and name: "select_users (\<lambda>_ r. sql_lower (ur_username r) = sql_lower (ur_username row)) db = []"
      and par: "\<And>p. ur_parent row = Some p \<Longrightarrow> in_org db (ur_organization_id row) p" for row
  proof -
    let ?db = "db\<lparr>users := fmupd ?id row (users db)\<rparr>"
    have fresh: "\<not> in_org db o' ?id" for o' using new by (simp add: in_org_def)
    have up: "user_parent ?db u = (if u = ?id then ur_parent row else user_parent db u)" for u
      by (simp add: user_parent_def)
    have no_in: "(u, ?id) \<notin> line db" for u
    proof
      assume "(u, ?id) \<in> line db"
      then obtain r where "fmlookup (users db) u = Some r" "user_parent db u = Some ?id" by (auto simp: user_parent_def split: option.splits)
      with users_inv_parent [OF assms, of u ?id "ur_organization_id r"] fresh show False by (auto simp: in_org_def)
    qed
    have "(p, ?id) \<notin> (line db)\<^sup>*" if "p \<noteq> ?id" for p using that no_in by (auto elim: rtranclE)
    moreover have "p \<noteq> ?id" if "ur_parent row = Some p" for p using par [OF that] fresh by blast
    moreover have "line ?db = (case ur_parent row of None \<Rightarrow> line db | Some p \<Rightarrow> insert (?id, p) (line db))"
      using new by (auto simp: up user_parent_def split: option.splits if_splits)
    ultimately have "acyclic (line ?db)" using assms by (auto simp: users_inv_def acyclic_insert split: option.splits)
    moreover have "in_org ?db o' v" if "user_parent ?db u = Some v" "in_org ?db o' u" for u v o'
    proof (cases "u = ?id")
      case True
      with that par show ?thesis by (auto simp: up in_org_def)
    next
      case False
      with that users_inv_parent [OF assms, of u v o'] fresh show ?thesis by (auto simp: up in_org_def)
    qed
    moreover have "fmlookup (users db) a = Some ra \<Longrightarrow> sql_lower (ur_username ra) \<noteq> sql_lower (ur_username row)" for a ra
      using name set_select_users [of a ra "\<lambda>_ r. sql_lower (ur_username r) = sql_lower (ur_username row)" db] by auto
    then have "a = b" if "fmlookup (users ?db) a = Some ra" "fmlookup (users ?db) b = Some rb"
      "sql_lower (ur_username ra) = sql_lower (ur_username rb)" for a b ra rb
      using that assms unfolding users_inv_def by (auto split: if_splits)
    ultimately show ?thesis unfolding users_inv_def by blast
  qed
  note insert = this
  show ?thesis
    using assms
    by (auto simp: create_user_def user_exists_in_organization_def Let_def in_org_def
        intro!: insert split: option.splits if_splits bool.splits)
qed

lemma check_parent_ok:
  assumes "users_inv db" and "check_parent fault uid org parent db = Inr ()"
  shows "parent \<noteq> uid \<and> in_org db org parent \<and> (parent, uid) \<notin> (line db)\<^sup>*"
proof -
  have c: "parent \<noteq> uid" "in_org db org parent" "is_ancestor_loop fault db org uid 2 parent MAX_DEPTH = Inr False"
    using assms(2)
    by (auto simp: check_parent_def is_ancestor_def user_exists_in_organization_def in_org_def split: if_splits option.splits sum.splits)
  with is_ancestor_loop_False [OF assms(1) c(2,3)] show ?thesis by blast
qed

lemma users_inv_set_parent:
  assumes "users_inv db"
  shows "users_inv (fst (set_parent now fault uf uid org parent db))"
proof -
  have "users_inv (db\<lparr>users := fmupd uid (row\<lparr>ur_parent := parent, ur_updated_at := now\<rparr>) (users db)\<rparr>)"
    if "fmlookup (users db) uid = Some row" "ur_organization_id row = org"
      "\<And>p. parent = Some p \<Longrightarrow> check_parent fault uid org p db = Inr ()" for row
    using that check_parent_ok [OF assms] by (intro users_inv_upd [OF assms that(1)]) auto
  then show ?thesis
    using assms by (auto simp: set_parent_def user_exists_in_organization_def update_user_def split: option.splits sum.splits if_splits)
qed

section \<open>Properties\<close>

definition no_fault :: "nat \<Rightarrow> string option" where
  "no_fault = (\<lambda>_. None)"

definition sample_row :: "string \<Rightarrow> string option \<Rightarrow> UserRow" where
  "sample_row name parent = \<lparr>ur_username = name, ur_organization_id = ''org'', ur_password_hash = ''h'', ur_is_admin = False,
     ur_is_manager = False, ur_class = Some ''staff'', ur_parent = parent, ur_is_active = True, ur_created_at = 0, ur_updated_at = 0\<rparr>"

definition sample_users :: UserDb where
  "sample_users = \<lparr>users = fmupd ''b'' (sample_row ''bob'' (Some ''a'')) (fmupd ''a'' (sample_row ''ann'' None) fmempty),
     mobile_class_access = [(''org'', ''staff'')]\<rparr>"

lemma sample_users_inv: "users_inv sample_users"
proof -
  have e: "users_inv \<lparr>users = fmempty, mobile_class_access = m\<rparr>" for m
    by (simp add: users_inv_def user_parent_def in_org_def acyclic_def)
  let ?db1 = "\<lparr>users = fmupd ''a'' (sample_row ''ann'' None) fmempty, mobile_class_access = [(''org'', ''staff'')]\<rparr>"
  let ?u = "\<lambda>i n p. \<lparr>new_user_id = i, new_username = n, new_organization_id = ''org'', new_password_hash = ''h'', new_is_admin = False,
      new_is_manager = False, new_class = Some Staff, new_parent_user_id = p\<rparr>"
  have "fst (create_user id 0 no_fault (?u ''a'' ''ann'' None) \<lparr>users = fmempty, mobile_class_access = [(''org'', ''staff'')]\<rparr>) = ?db1"
    by (simp add: create_user_def no_fault_def select_users_def sorted_list_of_fmap_def sorted_list_of_fset.rep_eq sample_row_def Let_def)
  with users_inv_create [OF e] have "users_inv ?db1" by metis
  moreover have "fst (create_user id 0 no_fault (?u ''b'' ''bob'' (Some ''a'')) ?db1) = sample_users"
    by (simp add: create_user_def no_fault_def user_exists_in_organization_def select_users_def sorted_list_of_fmap_def sample_row_def
        sample_users_def sql_lower_def lower_char_def sorted_list_of_fset.rep_eq Let_def)
  ultimately show ?thesis using users_inv_create by metis
qed

lemma set_mobile_access_users: "users (fst (set_mobile_access fault org classes db)) = users db"
  by (simp add: set_mobile_access_def split: option.split sum.split)

lemma users_inv_set_mobile_access: "users_inv db \<Longrightarrow> users_inv (fst (set_mobile_access fault org classes db))"
  by (simp add: users_inv_def user_parent_def in_org_def set_mobile_access_users)

lemma users_inv_plain:
  assumes "users_inv db"
  shows "users_inv (fst (set_active now f uid org active db))" "users_inv (fst (set_manager now f uid org manager db))"
    "users_inv (fst (set_class now f uid org class db))" "users_inv (fst (set_password_hash now f uid org hash db))"
  using assms by (simp_all add: set_active_def set_manager_def set_class_def set_password_hash_def users_inv_update_user)

text \<open>
  C18. The reporting line is a tree in every state the store can reach: creating a user, reassigning the superior, and every other write
  keep it free of cycles, inside one organisation and pointing to existing users, and keep the names of the
  accounts unique up to case, whatever statements fail.
\<close>

theorem user_store_invariant:
  assumes "users_inv db"
  shows "users_inv (fst (create_user lc now fault user db))
    \<and> users_inv (fst (set_parent now fault uf uid org parent db))
    \<and> users_inv (fst (set_active now f uid org active db)) \<and> users_inv (fst (set_manager now f uid org manager db))
    \<and> users_inv (fst (set_class now f uid org class db)) \<and> users_inv (fst (set_password_hash now f uid org hash db))
    \<and> users_inv (fst (set_mobile_access fault org classes db))"
  using assms by (simp add: users_inv_create users_inv_set_parent users_inv_plain users_inv_set_mobile_access)

theorem user_store_invariant_witness:
  "users_inv (fst (set_parent 5 no_fault None ''a'' ''org'' (Some ''b'') sample_users))"
  using user_store_invariant [OF sample_users_inv] by blast

text \<open>
  \<open>set_parent\<close> answers exactly: for a store of fewer than a thousand users whose statements succeed, it refuses the user itself
  and everyone below as the new superior with \<open>ParentCycle\<close>, an unknown or foreign one with
  \<open>ParentNotFound\<close>, and accepts everyone else, after which exactly this link has changed.
\<close>

theorem set_parent_exact:
  assumes inv: "users_inv db" and few: "card {u. user_parent db u \<noteq> None} < 1000" and ok: "\<And>i. fault i = None"
    and user: "in_org db org uid"
  shows "snd (set_parent now fault None uid org (Some p) db) =
      (if p = uid then Inl ParentCycle
       else if \<not> in_org db org p then Inl ParentNotFound
       else if (p, uid) \<in> (line db)\<^sup>* then Inl ParentCycle else Inr ())
    \<and> (snd (set_parent now fault None uid org (Some p) db) = Inr () \<longrightarrow>
      user_parent (fst (set_parent now fault None uid org (Some p) db)) u = (if u = uid then Some p else user_parent db u))"
proof -
  have anc: "is_ancestor fault 2 uid p org db = Inr ((p, uid) \<in> (line db)\<^sup>*)" if p: "in_org db org p"
  proof -
    obtain b where b: "is_ancestor_loop fault db org uid 2 p MAX_DEPTH = Inr b" using is_ancestor_total ok by blast
    have "climb (user_parent db) MAX_DEPTH p = None"
      using user_line.climb_bounded [OF inv, of MAX_DEPTH p] few by (cases "climb (user_parent db) MAX_DEPTH p") (auto simp: MAX_DEPTH_def)
    with b is_ancestor_loop_True [OF inv p, of fault uid 2 MAX_DEPTH] is_ancestor_loop_False [OF inv p, of fault uid 2 MAX_DEPTH]
    show ?thesis by (cases b) (auto simp: is_ancestor_def)
  qed
  have ex: "user_exists_in_organization None v org db = Inr (in_org db org v)" for v
    by (auto simp: user_exists_in_organization_def in_org_def split: option.splits)
  have "snd (set_parent now fault None uid org (Some p) db) =
      (if p = uid then Inl ParentCycle
       else if \<not> in_org db org p then Inl ParentNotFound
       else if (p, uid) \<in> (line db)\<^sup>* then Inl ParentCycle else Inr ())"
    using user by (simp add: set_parent_def check_parent_def ok ex anc)
  moreover have "user_parent (fst (set_parent now fault None uid org (Some p) db)) u = (if u = uid then Some p else user_parent db u)"
    if "snd (set_parent now fault None uid org (Some p) db) = Inr ()"
    using that user
    by (auto simp: set_parent_def ok ex update_user_def user_parent_def in_org_def split: sum.splits)
  ultimately show ?thesis by blast
qed

theorem set_parent_exact_witness:
  "snd (set_parent 5 no_fault None ''a'' ''org'' (Some ''b'') sample_users) = Inl ParentCycle"
proof -
  have link: "user_parent sample_users ''b'' = Some ''a''" by (simp add: user_parent_def sample_users_def sample_row_def)
  have "{u. user_parent sample_users u \<noteq> None} = {''b''}"
    by (auto simp: user_parent_def sample_users_def sample_row_def split: if_splits)
  then have few: "card {u. user_parent sample_users u \<noteq> None} < 1000" by simp
  have "in_org sample_users ''org'' ''a''" "in_org sample_users ''org'' ''b''" by (simp_all add: in_org_def sample_users_def sample_row_def)
  with set_parent_exact [OF sample_users_inv few, where fault = no_fault and org = "''org''" and uid = "''a''" and now = 5 and p = "''b''"] link show ?thesis
    by (auto simp: no_fault_def)
qed

text \<open>
  Tenants are isolated: for a caller of one organisation an account of another one does not exist. Lookups and updates answer as for an
  unknown account, and no update made for one organisation changes an account of another.
\<close>

theorem user_store_tenants:
  assumes "fmlookup (users db) uid = Some row" and "ur_organization_id row \<noteq> org"
  shows "update_user f now None uid org db = (db, Inl NotFound)
    \<and> snd (set_parent now no_fault None uid org parent db) = Inl NotFound
    \<and> find_by_id_in_organization no_fault uid org db = Inr None
    \<and> fmlookup (users (fst (set_parent now fault uf uid' org parent db))) uid = Some row
    \<and> fmlookup (users (fst (update_user f now flt uid' org db))) uid = Some row"
  using assms
  by (auto simp: update_user_def set_parent_def no_fault_def user_exists_in_organization_def find_by_id_in_organization_def
      split: option.splits sum.splits)

theorem user_store_tenants_witness:
  "update_user id 5 None ''a'' ''other'' sample_users = (sample_users, Inl NotFound)"
  using user_store_tenants [of sample_users "''a''" "sample_row ''ann'' None" "''other''"] by (auto simp: sample_users_def sample_row_def)

lemma parse_class_as_str: "parse_class (map_option class_as_str c) = Inr c"
proof (cases c)
  case (Some k)
  then show ?thesis by (cases k) (simp_all add: parse_class_def class_parse_def)
qed (simp add: parse_class_def)

text \<open>
  Creating an account and reading it back is lossless: after a successful \<open>create\<close> the account is found under its identifier and
  under its name, however the name is capitalised, as the very record \<open>create\<close> returned, provided lowercasing leaves no
  ASCII capital.
\<close>

theorem user_roundtrip:
  assumes "users_inv db" and "create_user to_lowercase now fault user db = (db', Inr r)"
    and "sql_lower (to_lowercase (new_username user)) = to_lowercase (new_username user)"
    and "to_lowercase typed = to_lowercase (new_username user)"
  shows "find_by_id no_fault (new_user_id user) db' = Inr (Some r)
    \<and> find_by_username to_lowercase no_fault typed db' = Inr (Some r)"
proof -
  let ?name = "to_lowercase (new_username user)"
  let ?row = "\<lparr>ur_username = ?name, ur_organization_id = new_organization_id user, ur_password_hash = new_password_hash user,
      ur_is_admin = new_is_admin user, ur_is_manager = new_is_manager user, ur_class = map_option class_as_str (new_class user),
      ur_parent = new_parent_user_id user, ur_is_active = True, ur_created_at = now, ur_updated_at = now\<rparr>"
  have db': "db' = db\<lparr>users := fmupd (new_user_id user) ?row (users db)\<rparr>"
    and r: "record_from_row (new_user_id user) ?row = Inr r"
    using assms(2)
    by (auto simp: create_user_def Let_def record_from_row_def parse_class_as_str split: option.splits sum.splits bool.splits if_splits)
  have inv: "users_inv db'" using users_inv_create [OF assms(1), of to_lowercase now fault user] assms(2) by simp
  let ?found = "select_users (\<lambda>_ row. sql_lower (ur_username row) = to_lowercase typed) db'"
  have mem: "(new_user_id user, ?row) \<in> set ?found"
    using assms(3,4) by (simp add: set_select_users db')
  have "x = (new_user_id user, ?row)" if "x \<in> set ?found" for x
  proof -
    obtain a ra where x: "x = (a, ra)" by force
    with that have a: "fmlookup (users db') a = Some ra" "sql_lower (ur_username ra) = sql_lower ?name"
      using assms(3,4) by (simp_all add: set_select_users)
    moreover have "fmlookup (users db') (new_user_id user) = Some ?row" by (simp add: db')
    ultimately have "a = new_user_id user" using inv unfolding users_inv_def by fastforce
    with a x show ?thesis by (simp add: db')
  qed
  then have hd: "y = (new_user_id user, ?row)" if "?found = y # ys" for y ys using that by (metis list.set_intros(1))
  have "optional_record ?found = Inr (Some r)"
  proof (cases ?found)
    case (Cons y ys)
    from hd [OF Cons] r have "optional_record (y # ys) = Inr (Some r)" by simp
    with Cons show ?thesis by metis
  qed (use mem in simp)
  moreover have "find_by_id no_fault (new_user_id user) db' = Inr (Some r)"
    using r by (simp add: find_by_id_def no_fault_def db')
  ultimately show ?thesis by (simp add: find_by_username_def no_fault_def)
qed

theorem user_roundtrip_witness:
  "\<exists>db' r. find_by_username id no_fault ''cid'' db' = Inr (Some r) \<and> u_username r = ''cid''"
proof -
  let ?u = "\<lparr>new_user_id = ''c'', new_username = ''cid'', new_organization_id = ''org'', new_password_hash = ''h'', new_is_admin = False,
      new_is_manager = False, new_class = Some Staff, new_parent_user_id = Some ''a''\<rparr>"
  obtain db' res where c: "create_user id 5 no_fault ?u sample_users = (db', res)" by force
  have "case snd (create_user id 5 no_fault ?u sample_users) of Inl _ \<Rightarrow> False | Inr r \<Rightarrow> u_username r = ''cid''" by code_simp
  with c have "\<exists>r. res = Inr r \<and> u_username r = ''cid''" by (simp split: sum.splits)
  then obtain r where r: "res = Inr r" "u_username r = ''cid''" by blast
  with user_roundtrip [OF sample_users_inv, of id 5 no_fault ?u db' r "''cid''"] c show ?thesis
    by (auto simp: sql_lower_def lower_char_def)
qed

end
