(* ===== verification/Verification_Authority.thy ===== *)
theory Verification_Authority
  imports Command_Handler Todo_Domain Staff_Loan User_Store
begin

text \<open>
  Who may verify, approve and receive an escalation (\<open>crates/bins/api-server/src/verifier_resolution.rs\<close>,
  \<open>escalation_resolution.rs\<close>, the authority checks of \<open>routes/command.rs\<close> and the row query of \<open>query_handler.rs\<close>).

  \<open>find_id\<close> is \<open>user_store.find_by_id\<close>, \<open>rows\<close> the outcome of the projection query for staff loans, \<open>decode\<close> the conversion of
  a JSON state into a loan, \<open>load\<close> a repository's \<open>load\<close>. The \<open>uuid\<close> crate is the parameter \<open>UuidOps\<close>.
\<close>

record UuidOps =
  uuid_to_string :: "bytes16 \<Rightarrow> string"
  uuid_parse :: "string \<Rightarrow> bytes16 option"

type_synonym find_user = "string \<Rightarrow> (UserRecord option, UserStoreError) result"

fun user_store_error_string :: "UserStoreError \<Rightarrow> string" where
  "user_store_error_string DuplicateUsername = ''username already exists''"
| "user_store_error_string UserStoreError.NotFound = ''user not found''"
| "user_store_error_string (Infrastructure e) = ''user store failed: '' @ e"
| "user_store_error_string ParentNotFound = ''parent user does not exist''"
| "user_store_error_string ParentCycle = ''assigning this parent would create a cycle in the reporting line''"

section \<open>Projection rows\<close>

record 'v ProjectionRow =
  pr_aggregate_type :: string
  pr_state :: 'v
  pr_version :: i64
  pr_updated_at_ms :: i64

text \<open>
  \<open>SELECT ... WHERE organization_id = ? [AND aggregate_type = ?] ORDER BY updated_at DESC\<close>; \<open>empty_object\<close> is \<open>json!({})\<close>, what an
  unreadable state becomes.
\<close>

definition fetch_rows ::
    "'v JsonOps \<Rightarrow> 'v \<Rightarrow> string option \<Rightarrow> OrganizationId \<Rightarrow> string option \<Rightarrow> Db \<Rightarrow> ('v ProjectionRow list, string) result" where
  "fetch_rows J empty_object fault org aggregate_type db =
     (case fault of
        Some e \<Rightarrow> Inl e
      | None \<Rightarrow>
          Inr (map (\<lambda>row. \<lparr>pr_aggregate_type = row_aggregate_type row,
                           pr_state = (case text_to_value J (row_state row) of Some v \<Rightarrow> v | None \<Rightarrow> empty_object),
                           pr_version = row_version row, pr_updated_at_ms = row_updated_at row\<rparr>)
                 (rev (sort_key (\<lambda>row. sint (row_updated_at row))
                   (filter (\<lambda>row. row_organization_id row = org
                        \<and> (case aggregate_type of None \<Rightarrow> True | Some ty \<Rightarrow> row_aggregate_type row = ty))
                     (map snd (sorted_list_of_fmap (aggregates db))))))))"

section \<open>Verifiers\<close>

datatype VerifierReason = TreeParent | LoanRealOwner | LoanBorrowingManager | EscalationTarget

record AuthorizedVerifier =
  verifier_user_id :: ObjectId
  verifier_reason :: VerifierReason

datatype VerifierResolutionError =
    InvalidOwnerId
  | UserStoreLookup string
  | Projection string
  | Deserialization string

fun verifier_error_string :: "VerifierResolutionError \<Rightarrow> string" where
  "verifier_error_string InvalidOwnerId = ''owner user id is not a valid UUID''"
| "verifier_error_string (UserStoreLookup e) = ''user store lookup failed: '' @ e"
| "verifier_error_string (Projection e) = ''staff loan projection query failed: '' @ e"
| "verifier_error_string (Deserialization e) = ''staff loan state is not valid JSON for todo_domain::StaffLoan: '' @ e"

definition push_if_new :: "ObjectId \<Rightarrow> VerifierReason \<Rightarrow> AuthorizedVerifier list \<Rightarrow> AuthorizedVerifier list" where
  "push_if_new uid reason verifiers =
     (if uid \<in> verifier_user_id ` set verifiers then verifiers
      else verifiers @ [\<lparr>verifier_user_id = uid, verifier_reason = reason\<rparr>])"

fun add_loan_verifiers ::
    "('v \<Rightarrow> (StaffLoan, string) result) \<Rightarrow> ObjectId \<Rightarrow> 'v list \<Rightarrow> AuthorizedVerifier list
      \<Rightarrow> (AuthorizedVerifier list, VerifierResolutionError) result" where
  "add_loan_verifiers decode owner [] verifiers = Inr verifiers"
| "add_loan_verifiers decode owner (row # rows) verifiers =
     (case decode row of
        Inl e \<Rightarrow> Inl (Deserialization e)
      | Inr loan \<Rightarrow>
          if loan_staff_user_id loan \<noteq> owner then add_loan_verifiers decode owner rows verifiers
          else
            let v1 = (if grants_verification_authority_to loan (loan_real_owner_id loan)
                      then push_if_new (loan_real_owner_id loan) LoanRealOwner verifiers else verifiers);
                v2 = (if grants_verification_authority_to loan (loan_borrowing_manager_id loan)
                      then push_if_new (loan_borrowing_manager_id loan) LoanBorrowingManager v1 else v1)
            in add_loan_verifiers decode owner rows v2)"

definition base_verifiers ::
    "UuidOps \<Rightarrow> find_user \<Rightarrow> ObjectId \<Rightarrow> ObjectId option \<Rightarrow> (AuthorizedVerifier list, VerifierResolutionError) result" where
  "base_verifiers U find_id owner escalated_to =
     (case escalated_to of
        Some target \<Rightarrow> Inr [\<lparr>verifier_user_id = target, verifier_reason = EscalationTarget\<rparr>]
      | None \<Rightarrow>
          (case find_id (uuid_to_string U owner) of
             Inl e \<Rightarrow> Inl (UserStoreLookup (user_store_error_string e))
           | Inr record \<Rightarrow>
               Inr (case (case record of None \<Rightarrow> None | Some r \<Rightarrow> u_parent_user_id r) of
                      None \<Rightarrow> []
                    | Some parent_id \<Rightarrow>
                        (case uuid_parse U parent_id of
                           None \<Rightarrow> []
                         | Some parent \<Rightarrow> [\<lparr>verifier_user_id = parent, verifier_reason = TreeParent\<rparr>]))))"

definition resolve_verifiers ::
    "UuidOps \<Rightarrow> find_user \<Rightarrow> ('v list, string) result \<Rightarrow> ('v \<Rightarrow> (StaffLoan, string) result) \<Rightarrow> ObjectId \<Rightarrow> ObjectId option
      \<Rightarrow> (AuthorizedVerifier list, VerifierResolutionError) result" where
  "resolve_verifiers U find_id rows decode owner escalated_to =
     (case base_verifiers U find_id owner escalated_to of
        Inl e \<Rightarrow> Inl e
      | Inr verifiers \<Rightarrow>
          (case rows of
             Inl e \<Rightarrow> Inl (Projection e)
           | Inr rs \<Rightarrow> add_loan_verifiers decode owner rs verifiers))"

definition is_authorized_verifier ::
    "UuidOps \<Rightarrow> find_user \<Rightarrow> ('v list, string) result \<Rightarrow> ('v \<Rightarrow> (StaffLoan, string) result) \<Rightarrow> ObjectId \<Rightarrow> ObjectId \<Rightarrow> ObjectId option
      \<Rightarrow> (bool, VerifierResolutionError) result" where
  "is_authorized_verifier U find_id rows decode candidate owner escalated_to =
     (case resolve_verifiers U find_id rows decode owner escalated_to of
        Inl e \<Rightarrow> Inl e
      | Inr verifiers \<Rightarrow> Inr (\<exists>v \<in> set verifiers. verifier_user_id v = candidate))"

section \<open>Escalation targets\<close>

definition resolve_escalation_target :: "UuidOps \<Rightarrow> find_user \<Rightarrow> ObjectId \<Rightarrow> (ObjectId option, string) result" where
  "resolve_escalation_target U find_id current_verifier =
     (case find_id (uuid_to_string U current_verifier) of
        Inl e \<Rightarrow> Inl (''user store lookup failed: '' @ user_store_error_string e)
      | Inr None \<Rightarrow> Inr None
      | Inr (Some record) \<Rightarrow>
          (case u_parent_user_id record of
             None \<Rightarrow> Inr None
           | Some target \<Rightarrow> Inr (uuid_parse U target)))"

section \<open>Fields of a stored state\<close>

text \<open>\<open>u8::try_from(b.as_u64()?).ok()?\<close> for every element.\<close>

definition strict_bytes :: "'v JsonOps \<Rightarrow> 'v list \<Rightarrow> bytes16 option" where
  "strict_bytes J arr =
     map_option (\<lambda>bs. word_of_nat (bytes_be bs))
       (those (map (\<lambda>b. case json_as_u64 J b of
            Some n \<Rightarrow> if n < 256 then Some (ucast n :: 8 word) else None | None \<Rightarrow> None) arr))"

definition quoted :: "string \<Rightarrow> string" where
  "quoted s = [CHR 0x27] @ s @ [CHR 0x27]"

definition parse_id_field :: "'v JsonOps \<Rightarrow> string \<Rightarrow> 'v \<Rightarrow> (ObjectId, CommandError) result" where
  "parse_id_field J field aggregate =
     (case (case json_get J aggregate field of None \<Rightarrow> None | Some v \<Rightarrow> json_as_array J v) of
        None \<Rightarrow> Inl (Domain (''aggregate state missing '' @ quoted field @ '' field''))
      | Some arr \<Rightarrow>
          if length arr \<noteq> 16 then Inl (Domain (quoted field @ '' field is not a 16-byte object id''))
          else (case strict_bytes J arr of
                  None \<Rightarrow> Inl (Domain (''invalid '' @ quoted field @ '' byte''))
                | Some i \<Rightarrow> Inr i))"

definition parse_owner_field :: "'v JsonOps \<Rightarrow> 'v \<Rightarrow> (ObjectId, CommandError) result" where
  "parse_owner_field J aggregate = parse_id_field J ''owner'' aggregate"

definition parse_real_owner_id_field :: "'v JsonOps \<Rightarrow> 'v \<Rightarrow> (ObjectId, CommandError) result" where
  "parse_real_owner_id_field J aggregate = parse_id_field J ''real_owner_id'' aggregate"

definition parse_escalated_to_field :: "'v JsonOps \<Rightarrow> 'v \<Rightarrow> ObjectId option" where
  "parse_escalated_to_field J aggregate =
     (case (case json_get J aggregate ''escalated_to'' of None \<Rightarrow> None | Some v \<Rightarrow> json_as_array J v) of
        None \<Rightarrow> None
      | Some arr \<Rightarrow> if length arr \<noteq> 16 then None else strict_bytes J arr)"

section \<open>The authority checks of the command route\<close>

type_synonym 'v load = "ObjectId \<Rightarrow> ('v Loaded option, RepositoryError) result"

definition load_or_fail :: "'v load \<Rightarrow> ObjectId \<Rightarrow> ('v, CommandError) result" where
  "load_or_fail load oid =
     (case load oid of
        Inl e \<Rightarrow> Inl (Persistence (repository_error_string e))
      | Inr None \<Rightarrow> Inl (CommandError.NotFound oid)
      | Inr (Some l) \<Rightarrow> Inr (loaded_aggregate l))"

definition require_team_leader_or_admin :: "UuidOps \<Rightarrow> find_user \<Rightarrow> ActorContext \<Rightarrow> (unit, CommandError) result" where
  "require_team_leader_or_admin U find_id actor =
     (case find_id (uuid_to_string U (user_id actor)) of
        Inl e \<Rightarrow> Inl (Persistence (user_store_error_string e))
      | Inr None \<Rightarrow> Inl (Domain ''actor not found'')
      | Inr (Some user) \<Rightarrow>
          if u_is_admin user \<or> u_class user = Some TeamLeader then Inr ()
          else Inl (Domain ''only a Team Leader (or Admin) may record a pre-check''))"

definition can_verify_class :: "UserClass option \<Rightarrow> bool" where
  "can_verify_class class \<longleftrightarrow> class \<in> {Some TopLevelManager, Some SeniorManager, Some TeamLeader}"

text \<open>The climb from the direct verifier; \<open>n\<close> rounds are left of 32.\<close>

fun verifier_walk ::
    "find_user \<Rightarrow> string \<Rightarrow> string \<Rightarrow> nat \<Rightarrow> string option \<Rightarrow> string set \<Rightarrow> (bool, CommandError) result" where
  "verifier_walk find_id actor_uuid actor_org 0 next_id visited = Inr False"
| "verifier_walk find_id actor_uuid actor_org (Suc n) None visited = Inr False"
| "verifier_walk find_id actor_uuid actor_org (Suc n) (Some uid) visited =
     (if uid = ''__allfather__'' \<or> uid \<in> visited then Inr False
      else case find_id uid of
             Inl e \<Rightarrow> Inl (Persistence (user_store_error_string e))
           | Inr None \<Rightarrow> Inr False
           | Inr (Some manager) \<Rightarrow>
               if \<not> u_is_active manager \<or> u_organization_id manager \<noteq> actor_org then Inr False
               else if u_user_id manager = actor_uuid \<and> can_verify_class (u_class manager) then Inr True
               else verifier_walk find_id actor_uuid actor_org n (u_parent_user_id manager) (insert uid visited))"

definition walk_start :: "UuidOps \<Rightarrow> find_user \<Rightarrow> ObjectId \<Rightarrow> ObjectId option \<Rightarrow> (string option, CommandError) result" where
  "walk_start U find_id owner escalated_to =
     (case escalated_to of
        Some target \<Rightarrow> Inr (Some (uuid_to_string U target))
      | None \<Rightarrow>
          (case find_id (uuid_to_string U owner) of
             Inl e \<Rightarrow> Inl (Persistence (user_store_error_string e))
           | Inr record \<Rightarrow> Inr (case record of None \<Rightarrow> None | Some r \<Rightarrow> u_parent_user_id r)))"

text \<open>The check once the state is loaded and its fields are read.\<close>

definition check_verifier ::
    "UuidOps \<Rightarrow> find_user \<Rightarrow> ('v list, string) result \<Rightarrow> ('v \<Rightarrow> (StaffLoan, string) result) \<Rightarrow> ActorContext \<Rightarrow> ObjectId \<Rightarrow> ObjectId option
      \<Rightarrow> (unit, CommandError) result" where
  "check_verifier U find_id rows decode actor owner escalated_to =
     (case is_authorized_verifier U find_id rows decode (user_id actor) owner escalated_to of
        Inl e \<Rightarrow> Inl (Persistence (verifier_error_string e))
      | Inr authorized \<Rightarrow>
          if authorized then Inr ()
          else
            (case walk_start U find_id owner escalated_to of
               Inl e \<Rightarrow> Inl e
             | Inr start \<Rightarrow>
                 (case verifier_walk find_id (uuid_to_string U (user_id actor)) (uuid_to_string U (actor_organization_id actor)) 32 start {} of
                    Inl e \<Rightarrow> Inl e
                  | Inr found \<Rightarrow>
                      if found then Inr ()
                      else Inl (Domain ''actor is not an authorized verifier for this list's owner''))))"

definition require_verifier_authority ::
    "'v JsonOps \<Rightarrow> UuidOps \<Rightarrow> find_user \<Rightarrow> ('v list, string) result \<Rightarrow> ('v \<Rightarrow> (StaffLoan, string) result) \<Rightarrow> 'v load \<Rightarrow> 'v load
      \<Rightarrow> ActorContext \<Rightarrow> ObjectId \<Rightarrow> string \<Rightarrow> (unit, CommandError) result" where
  "require_verifier_authority J U find_id rows decode load_todo load_target actor oid aggregate_type =
     (if aggregate_type \<notin> {''todo_list'', ''target_list''}
        then Inl (Domain (''require_verifier_authority called with unsupported aggregate_type '' @ aggregate_type))
      else
        (case load_or_fail (if aggregate_type = ''todo_list'' then load_todo else load_target) oid of
           Inl e \<Rightarrow> Inl e
         | Inr aggregate \<Rightarrow>
             (case parse_owner_field J aggregate of
                Inl e \<Rightarrow> Inl e
              | Inr owner \<Rightarrow> check_verifier U find_id rows decode actor owner (parse_escalated_to_field J aggregate))))"

definition staff_loan_permits :: "StaffLoan \<Rightarrow> ActorContext \<Rightarrow> string \<Rightarrow> (bool, CommandError) result" where
  "staff_loan_permits loan actor command_type =
     (if command_type \<in> {''staff_loan.ApproveStaffLoan'', ''staff_loan.DeclineStaffLoan'', ''staff_loan.EscalateStaffLoan''}
        then Inr (grants_approval_authority_to loan (user_id actor))
      else if command_type = ''staff_loan.ExtendStaffLoan'' then Inr (user_id actor = loan_borrowing_manager_id loan)
      else if command_type = ''staff_loan.EndStaffLoanEarly''
        then Inr (user_id actor = loan_real_owner_id loan \<or> user_id actor = loan_borrowing_manager_id loan)
      else if command_type = ''staff_loan.ExpireStaffLoan'' then Inr False
      else Inl (Domain (''require_staff_loan_authority called with unsupported command '' @ command_type)))"

definition require_staff_loan_authority ::
    "('v \<Rightarrow> (StaffLoan, string) result) \<Rightarrow> 'v load \<Rightarrow> ActorContext \<Rightarrow> ObjectId \<Rightarrow> string \<Rightarrow> (unit, CommandError) result" where
  "require_staff_loan_authority decode load actor oid command_type =
     (case load_or_fail load oid of
        Inl e \<Rightarrow> Inl e
      | Inr aggregate \<Rightarrow>
          (case decode aggregate of
             Inl e \<Rightarrow> Inl (Persistence (''invalid stored staff-loan state: '' @ e))
           | Inr loan \<Rightarrow>
               (case staff_loan_permits loan actor command_type of
                  Inl e \<Rightarrow> Inl e
                | Inr authorized \<Rightarrow>
                    if authorized then Inr ()
                    else Inl (Domain (''actor is not permitted to execute '' @ command_type @ '' for this staff loan'')))))"

section \<open>Resolving an escalation command\<close>

definition current_verifier_for_escalation ::
    "'v JsonOps \<Rightarrow> UuidOps \<Rightarrow> find_user \<Rightarrow> 'v \<Rightarrow> (ObjectId, CommandError) result" where
  "current_verifier_for_escalation J U find_id aggregate =
     (case parse_escalated_to_field J aggregate of
        Some target \<Rightarrow> Inr target
      | None \<Rightarrow>
          (case parse_owner_field J aggregate of
             Inl e \<Rightarrow> Inl e
           | Inr owner \<Rightarrow>
               (case find_id (uuid_to_string U owner) of
                  Inl e \<Rightarrow> Inl (Persistence (user_store_error_string e))
                | Inr None \<Rightarrow> Inl (Domain ''owner not found'')
                | Inr (Some record) \<Rightarrow>
                    (case u_parent_user_id record of
                       None \<Rightarrow> Inl (Domain ''nothing to escalate to -- this list's owner has no manager at all'')
                     | Some parent_id \<Rightarrow>
                         (case uuid_parse U parent_id of
                            None \<Rightarrow> Inl (Domain ''owner's parent_user_id is malformed'')
                          | Some parent \<Rightarrow> Inr parent)))))"

text \<open>\<open>payload.get(variant).and_then(|v| v.get(field)).and_then(Value::as_str)\<close>\<close>

definition payload_str :: "'v JsonOps \<Rightarrow> 'v \<Rightarrow> string \<Rightarrow> string \<Rightarrow> string option" where
  "payload_str J payload variant field =
     (case json_get J payload variant of
        None \<Rightarrow> None
      | Some v \<Rightarrow> (case json_get J v field of None \<Rightarrow> None | Some w \<Rightarrow> json_as_str J w))"

definition resolve_escalation_recipient ::
    "'v JsonOps \<Rightarrow> UuidOps \<Rightarrow> find_user \<Rightarrow> 'v \<Rightarrow> string \<Rightarrow> ActorContext \<Rightarrow> ObjectId \<Rightarrow> (ObjectId, CommandError) result" where
  "resolve_escalation_recipient J U find_id payload variant actor current_verifier =
     (case (case payload_str J payload variant ''escalated_to'' of
              None \<Rightarrow> None | Some s \<Rightarrow> if trim_is_empty s then None else Some s) of
        None \<Rightarrow>
          (case resolve_escalation_target U find_id current_verifier of
             Inl e \<Rightarrow> Inl (Persistence e)
           | Inr None \<Rightarrow> Inl (Domain ''nothing to escalate to -- the current verifier has no manager above them'')
           | Inr (Some target) \<Rightarrow> Inr target)
      | Some requested \<Rightarrow>
          (case uuid_parse U requested of
             None \<Rightarrow> Inl (Domain ''escalation recipient must be a valid user id'')
           | Some target_uuid \<Rightarrow>
               (case find_id (uuid_to_string U target_uuid) of
                  Inl e \<Rightarrow> Inl (Persistence (user_store_error_string e))
                | Inr None \<Rightarrow> Inl (Domain ''escalation recipient not found'')
                | Inr (Some target) \<Rightarrow>
                    if \<not> u_is_active target \<or> u_organization_id target \<noteq> uuid_to_string U (actor_organization_id actor)
                       \<or> \<not> can_verify_class (u_class target)
                    then Inl (Domain ''escalation recipient must be an active, authorized manager in the same organization'')
                    else if u_user_id target = uuid_to_string U (user_id actor)
                    then Inl (Domain ''cannot escalate a list to the current actor'')
                    else Inr target_uuid)))"

definition resolve_todo_list_escalation_command ::
    "'v JsonOps \<Rightarrow> UuidOps \<Rightarrow> find_user \<Rightarrow> 'v load \<Rightarrow> ObjectId \<Rightarrow> 'v \<Rightarrow> ActorContext \<Rightarrow> (TodoListCommand, CommandError) result" where
  "resolve_todo_list_escalation_command J U find_id load oid payload actor =
     (case load_or_fail load oid of
        Inl e \<Rightarrow> Inl e
      | Inr aggregate \<Rightarrow>
          (case current_verifier_for_escalation J U find_id aggregate of
             Inl e \<Rightarrow> Inl e
           | Inr current \<Rightarrow>
               (case resolve_escalation_recipient J U find_id payload ''EscalateTodoList'' actor current of
                  Inl e \<Rightarrow> Inl e
                | Inr escalated_to \<Rightarrow>
                    Inr (EscalateTodoList
                      (case payload_str J payload ''EscalateTodoList'' ''reason'' of Some s \<Rightarrow> s | None \<Rightarrow> []) escalated_to))))"

definition resolve_target_list_escalation_command ::
    "'v JsonOps \<Rightarrow> UuidOps \<Rightarrow> find_user \<Rightarrow> 'v load \<Rightarrow> ObjectId \<Rightarrow> 'v \<Rightarrow> ActorContext \<Rightarrow> (TargetListCommand, CommandError) result" where
  "resolve_target_list_escalation_command J U find_id load oid payload actor =
     (case load_or_fail load oid of
        Inl e \<Rightarrow> Inl e
      | Inr aggregate \<Rightarrow>
          (case current_verifier_for_escalation J U find_id aggregate of
             Inl e \<Rightarrow> Inl e
           | Inr current \<Rightarrow>
               (case resolve_escalation_recipient J U find_id payload ''EscalateTargetList'' actor current of
                  Inl e \<Rightarrow> Inl e
                | Inr escalated_to \<Rightarrow>
                    Inr (EscalateTargetList
                      (case payload_str J payload ''EscalateTargetList'' ''reason'' of Some s \<Rightarrow> s | None \<Rightarrow> []) escalated_to))))"

definition resolve_staff_loan_escalation_command ::
    "'v JsonOps \<Rightarrow> UuidOps \<Rightarrow> find_user \<Rightarrow> 'v load \<Rightarrow> ObjectId \<Rightarrow> 'v \<Rightarrow> (StaffLoanCommand, CommandError) result" where
  "resolve_staff_loan_escalation_command J U find_id load oid payload =
     (case load_or_fail load oid of
        Inl e \<Rightarrow> Inl e
      | Inr aggregate \<Rightarrow>
          (case (case parse_escalated_to_field J aggregate of
                   Some existing \<Rightarrow> Inr existing | None \<Rightarrow> parse_real_owner_id_field J aggregate) of
             Inl e \<Rightarrow> Inl e
           | Inr current \<Rightarrow>
               (case resolve_escalation_target U find_id current of
                  Inl e \<Rightarrow> Inl (Persistence e)
                | Inr None \<Rightarrow> Inl (Domain ''nothing to escalate to -- the current decision-maker has no manager above them'')
                | Inr (Some escalated_to) \<Rightarrow>
                    Inr (EscalateStaffLoan
                      (case payload_str J payload ''EscalateStaffLoan'' ''reason'' of Some s \<Rightarrow> s | None \<Rightarrow> []) escalated_to))))"

section \<open>What the checks compute\<close>

lemma loan_parties:
  "{m. grants_verification_authority_to l m} =
     (if grants_verification_authority_to l (loan_real_owner_id l) then {loan_real_owner_id l} else {})
     \<union> (if grants_verification_authority_to l (loan_borrowing_manager_id l) then {loan_borrowing_manager_id l} else {})"
  by (auto simp: grants_verification_authority_to_def)

lemma push_if_new_ids:
  "verifier_user_id ` set (push_if_new uid reason vs) = insert uid (verifier_user_id ` set vs)"
  "distinct (map verifier_user_id vs) \<Longrightarrow> distinct (map verifier_user_id (push_if_new uid reason vs))"
  by (auto simp: push_if_new_def)

lemma add_loan_verifiers_ids:
  assumes "add_loan_verifiers decode owner rows vs = Inr vs'"
  shows "verifier_user_id ` set vs' = verifier_user_id ` set vs
      \<union> {m. \<exists>row \<in> set rows. \<exists>l. decode row = Inr l \<and> loan_staff_user_id l = owner \<and> grants_verification_authority_to l m}"
    and "distinct (map verifier_user_id vs) \<Longrightarrow> distinct (map verifier_user_id vs')"
proof -
  have "verifier_user_id ` set vs' = verifier_user_id ` set vs
      \<union> {m. \<exists>row \<in> set rows. \<exists>l. decode row = Inr l \<and> loan_staff_user_id l = owner \<and> grants_verification_authority_to l m}
    \<and> (distinct (map verifier_user_id vs) \<longrightarrow> distinct (map verifier_user_id vs'))"
    using assms
  proof (induction rows arbitrary: vs)
    case (Cons row rows)
    from Cons.prems obtain l where l: "decode row = Inr l" by (auto split: sum.splits)
    let ?w1 = "if grants_verification_authority_to l (loan_real_owner_id l) then push_if_new (loan_real_owner_id l) LoanRealOwner vs else vs"
    let ?w2 = "if grants_verification_authority_to l (loan_borrowing_manager_id l)
      then push_if_new (loan_borrowing_manager_id l) LoanBorrowingManager ?w1 else ?w1"
    show ?case
    proof (cases "loan_staff_user_id l = owner")
      case False
      with Cons l show ?thesis by simp
    next
      case True
      with Cons.prems l have "add_loan_verifiers decode owner rows ?w2 = Inr vs'" by (simp add: Let_def)
      note ih = Cons.IH [OF this]
      have ids: "verifier_user_id ` set ?w2 = verifier_user_id ` set vs \<union> {m. grants_verification_authority_to l m}"
        by (simp add: loan_parties push_if_new_ids)
      have "distinct (map verifier_user_id vs) \<longrightarrow> distinct (map verifier_user_id ?w2)"
        by (auto simp: push_if_new_ids)
      with ih ids l True show ?thesis by auto
    qed
  qed simp
  then show "verifier_user_id ` set vs' = verifier_user_id ` set vs
      \<union> {m. \<exists>row \<in> set rows. \<exists>l. decode row = Inr l \<and> loan_staff_user_id l = owner \<and> grants_verification_authority_to l m}"
    and "distinct (map verifier_user_id vs) \<Longrightarrow> distinct (map verifier_user_id vs')"
    by blast+
qed

lemma base_verifiers_ids:
  assumes "base_verifiers U find_id owner escalated_to = Inr vs"
  shows "verifier_user_id ` set vs = (case escalated_to of
       Some t \<Rightarrow> {t}
     | None \<Rightarrow> {p. \<exists>r s. find_id (uuid_to_string U owner) = Inr (Some r) \<and> u_parent_user_id r = Some s \<and> uuid_parse U s = Some p})"
    and "distinct (map verifier_user_id vs)"
  using assms by (auto simp: base_verifiers_def split: option.splits sum.splits)



section \<open>On a well-formed store\<close>

text \<open>The identifiers of the table are in the form in which \<open>uuid\<close> prints them.\<close>

definition canonical_ids :: "UuidOps \<Rightarrow> UserDb \<Rightarrow> bool" where
  "canonical_ids U db \<longleftrightarrow> (\<forall>s x. fmlookup (users db) s \<noteq> None \<longrightarrow> uuid_parse U s = Some x \<longrightarrow> uuid_to_string U x = s)"

abbreviation store_find :: "UserDb \<Rightarrow> find_user" where
  "store_find db \<equiv> (\<lambda>uid. find_by_id no_fault uid db)"

lemma store_find_Some:
  assumes "find_by_id no_fault uid db = Inr (Some r)"
  shows "u_user_id r = uid" and "u_parent_user_id r = user_parent db uid"
  using assms by (auto simp: find_by_id_def no_fault_def record_from_row_def user_parent_def split: option.splits sum.splits)



lemma parent_exists: "users_inv db \<Longrightarrow> user_parent db u = Some v \<Longrightarrow> fmlookup (users db) v \<noteq> None"
  using users_inv_parent [of db u v] by (auto simp: user_parent_def in_org_def split: option.splits)


lemma climb_snoc: "climb p (Suc n) u = (case climb p n u of None \<Rightarrow> None | Some w \<Rightarrow> p w)"
proof (induction n arbitrary: u)
  case (Suc n)
  show ?case
  proof (cases "p u")
    case (Some v)
    have "climb p (Suc (Suc n)) u = climb p (Suc n) v" by (simp add: Some)
    also have "\<dots> = (case climb p n v of None \<Rightarrow> None | Some w \<Rightarrow> p w)" by (rule Suc)
    also have "climb p n v = climb p (Suc n) u" by (simp add: Some)
    finally show ?thesis .
  qed simp
qed (simp split: option.split)

text \<open>One escalation without a chosen recipient.\<close>

definition escalation_step :: "UuidOps \<Rightarrow> find_user \<Rightarrow> ObjectId \<Rightarrow> ObjectId option" where
  "escalation_step U find_id v = (case resolve_escalation_target U find_id v of Inr t \<Rightarrow> t | Inl _ \<Rightarrow> None)"

lemma escalation_climb:
  assumes "users_inv db" and "canonical_ids U db"
  shows "climb (escalation_step U (store_find db)) n v = Some w
    \<Longrightarrow> climb (user_parent db) n (uuid_to_string U v) = Some (uuid_to_string U w)"
proof (induction n arbitrary: v)
  case (Suc n)
  then obtain x where x: "escalation_step U (store_find db) v = Some x" "climb (escalation_step U (store_find db)) n x = Some w"
    by (auto split: option.splits)
  from x(1) obtain r p where r: "find_by_id no_fault (uuid_to_string U v) db = Inr (Some r)" "u_parent_user_id r = Some p"
    "uuid_parse U p = Some x"
    by (auto simp: escalation_step_def resolve_escalation_target_def split: sum.splits option.splits)
  then have up: "user_parent db (uuid_to_string U v) = Some p" using store_find_Some(2) by fastforce
  with parent_exists [OF assms(1) up] assms(2) r(3) have "uuid_to_string U x = p" by (auto simp: canonical_ids_def)
  with Suc.IH [OF x(2)] up show ?case by simp
qed simp



section \<open>Properties\<close>

definition sample_uuid :: UuidOps where
  "sample_uuid = \<lparr>uuid_to_string = (\<lambda>x. if x = 1 then ''a'' else if x = 2 then ''b'' else ''z''),
     uuid_parse = (\<lambda>s. if s = ''a'' then Some 1 else if s = ''b'' then Some 2 else None)\<rparr>"

lemma sample_canonical: "canonical_ids sample_uuid sample_users"
  by (auto simp: canonical_ids_def sample_uuid_def sample_users_def)

text \<open>
  The verifiers of a list are exactly the escalation target in place of the superior once the list was escalated, the owner's
  superior otherwise, and the two managers of every running loan of the owner; nobody is listed twice.
\<close>

theorem verifiers_exact:
  assumes "resolve_verifiers U find_id (Inr rows) decode owner escalated_to = Inr vs"
  shows "verifier_user_id ` set vs =
      (case escalated_to of
         Some t \<Rightarrow> {t}
       | None \<Rightarrow> {p. \<exists>r s. find_id (uuid_to_string U owner) = Inr (Some r) \<and> u_parent_user_id r = Some s \<and> uuid_parse U s = Some p})
      \<union> {m. \<exists>row \<in> set rows. \<exists>l. decode row = Inr l \<and> loan_staff_user_id l = owner \<and> loan_status l \<in> {Active, Extended}
              \<and> m \<in> {loan_real_owner_id l, loan_borrowing_manager_id l}}
    \<and> distinct (map verifier_user_id vs)"
proof -
  from assms obtain ws where b: "base_verifiers U find_id owner escalated_to = Inr ws"
    and a: "add_loan_verifiers decode owner rows ws = Inr vs"
    by (auto simp: resolve_verifiers_def split: sum.splits)
  have "verifier_user_id ` set vs = verifier_user_id ` set ws
      \<union> {m. \<exists>row \<in> set rows. \<exists>l. decode row = Inr l \<and> loan_staff_user_id l = owner \<and> loan_status l \<in> {Active, Extended}
              \<and> m \<in> {loan_real_owner_id l, loan_borrowing_manager_id l}}"
    unfolding add_loan_verifiers_ids(1) [OF a] grants_verification_authority_to_def by auto
  then show ?thesis
    unfolding base_verifiers_ids(1) [OF b] using add_loan_verifiers_ids(2) [OF a base_verifiers_ids(2) [OF b]] by blast
qed

theorem verifiers_exact_witness:
  "\<exists>vs. resolve_verifiers sample_uuid (store_find sample_users) (Inr [loan_sample\<lparr>loan_staff_user_id := 2, loan_status := Active\<rparr>]) Inr 2 None = Inr vs
     \<and> verifier_user_id ` set vs = {1, 6, 7}"
proof -
  let ?r = "resolve_verifiers sample_uuid (store_find sample_users) (Inr [loan_sample\<lparr>loan_staff_user_id := 2, loan_status := Active\<rparr>]) Inr 2 None"
  have find: "find_by_id no_fault ''b'' sample_users
      = Inr (Some \<lparr>u_user_id = ''b'', u_username = ''bob'', u_organization_id = ''org'', u_password_hash = ''h'', u_is_admin = False,
          u_is_manager = False, u_class = Some Staff, u_parent_user_id = Some ''a'', u_is_active = True\<rparr>)"
    by code_simp
  then obtain vs where vs: "?r = Inr vs"
    by (simp add: resolve_verifiers_def base_verifiers_def sample_uuid_def loan_sample_def Let_def)
  have two: "uuid_to_string sample_uuid 2 = ''b''" "uuid_parse sample_uuid ''a'' = Some 1" by (simp_all add: sample_uuid_def)
  from verifiers_exact [OF vs] have "verifier_user_id ` set vs = {1, 6, 7}"
    by (simp add: find two) (auto simp: loan_sample_def)
  with vs show ?thesis by blast
qed



text \<open>
  C10. Escalation comes to an end: escalating step by step without naming a recipient reaches, after at most as many steps as there are
  users with a superior, someone above whom there is nobody to escalate to.
\<close>

theorem escalation_terminates:
  assumes "users_inv db" and "canonical_ids U db"
  shows "\<exists>n w. n \<le> card {u. user_parent db u \<noteq> None} \<and> climb (escalation_step U (store_find db)) n v = Some w
    \<and> (\<forall>t. resolve_escalation_target U (store_find db) w \<noteq> Inr (Some t))"
proof (rule ccontr)
  let ?N = "card {u. user_parent db u \<noteq> None}" and ?step = "escalation_step U (store_find db)"
  assume none: "\<not> ?thesis"
  have "\<exists>w. climb ?step n v = Some w" if "n \<le> Suc ?N" for n
    using that
  proof (induction n)
    case (Suc n)
    then obtain w where w: "climb ?step n v = Some w" by auto
    with none Suc.prems obtain t where "resolve_escalation_target U (store_find db) w = Inr (Some t)"
      by (meson Suc_le_mono)
    then have "?step w = Some t" by (simp add: escalation_step_def)
    with w climb_snoc [of ?step n v] show ?case by (auto simp del: climb.simps)
  qed simp
  then obtain w where "climb ?step (Suc ?N) v = Some w" by blast
  from escalation_climb [OF assms this] have "climb (user_parent db) (Suc ?N) (uuid_to_string U v) = Some (uuid_to_string U w)" .
  from user_line.climb_bounded [OF assms(1) this] show False by simp
qed

theorem escalation_terminates_witness:
  "\<exists>n w. n \<le> card {u. user_parent sample_users u \<noteq> None}
     \<and> climb (escalation_step sample_uuid (store_find sample_users)) n 2 = Some w
     \<and> (\<forall>t. resolve_escalation_target sample_uuid (store_find sample_users) w \<noteq> Inr (Some t))"
  by (rule escalation_terminates [OF sample_users_inv sample_canonical])

end
