(* ===== verification/Policy_Domain.thy ===== *)
theory Policy_Domain
  imports Contracts "HOL-Library.Sublist"
begin

text \<open>
  Policies with their versions, and legal holds (\<open>crates/domains/policy-domain\<close>). A policy is a list of numbered versions, each a
  draft until it is published; the latest published one is in force. The values of rules are JSON values, a type parameter.
\<close>

section \<open>Policies\<close>

datatype PolicyStatus = Active | Retired

fun policy_status_debug :: "PolicyStatus \<Rightarrow> string" where
  "policy_status_debug Active = ''Active''"
| "policy_status_debug Retired = ''Retired''"

datatype PolicyVersionStatus = Draft | Published

type_synonym PolicyId = ObjectId
type_synonym LegalHoldId = ObjectId

datatype PolicyType = FeatureToggle | Threshold | Authorization | Retention

datatype PolicyScope = Organization ObjectId | Conversation ObjectId

record 'v PolicyRule =
  rule_type :: PolicyType
  rule_key :: string
  rule_value :: 'v

definition governance_reason_new :: "string \<Rightarrow> (string, string) result" where
  "governance_reason_new reason = (if trim_is_empty reason then Inl ''reason must not be empty'' else Inr reason)"

datatype PolicyError =
    InvalidTransition string
  | MissingField string
  | Unauthorized string
  | NoDraftVersion
  | DraftAlreadyPending
  | NoPublishedVersion

datatype 'v PolicyCommand =
    CreatePolicy string PolicyScope
  | CreatePolicyVersion "'v PolicyRule list"
  | PublishPolicyVersion
  | EvaluatePolicy string
  | RegisterViolation string string
  | RetirePolicy

datatype 'v PolicyEvent =
    PolicyCreated PolicyId string PolicyScope UserId Timestamp
  | PolicyVersionCreated u32 "'v PolicyRule list" Timestamp
  | PolicyVersionPublished u32 UserId Timestamp
  | PolicyEvaluated string "'v option" u32 Timestamp
  | PolicyViolationDetected string string Timestamp
  | PolicyRetired Timestamp

record 'v PolicyVersionRecord =
  pv_version_number :: u32
  pv_status :: PolicyVersionStatus
  pv_rules :: "'v PolicyRule list"

record 'v Policy =
  policy_id :: PolicyId
  policy_version :: ObjectVersion
  policy_lifecycle_epoch :: LifecycleEpoch
  policy_authority_epoch :: AuthorityEpoch
  policy_status :: PolicyStatus
  policy_name :: string
  policy_scope :: PolicyScope
  policy_versions :: "'v PolicyVersionRecord list"

fun policy_create :: "'v PolicyCommand \<Rightarrow> DecisionContext \<Rightarrow> ('v PolicyEvent list, PolicyError) result" where
  "policy_create (CreatePolicy name scope) context =
     (if trim_is_empty name then Inl (MissingField ''name'')
      else Inr [PolicyCreated (ctx_object_id context 0) name scope (user_id (ctx_actor context)) (trusted_now context)])"
| "policy_create _ context = Inl (InvalidTransition ''Policy::create() called with a non-CreatePolicy command'')"

text \<open>\<open>None\<close> is the panic on any other event.\<close>

fun policy_from_created_event :: "'v PolicyEvent \<Rightarrow> 'v Policy option" where
  "policy_from_created_event (PolicyCreated pid name scope _ _) =
     Some \<lparr>policy_id = pid,
           policy_version = ObjectVersion_INITIAL,
           policy_lifecycle_epoch = LifecycleEpoch_INITIAL,
           policy_authority_epoch = AuthorityEpoch_INITIAL,
           policy_status = Active,
           policy_name = name,
           policy_scope = scope,
           policy_versions = []\<rparr>"
| "policy_from_created_event _ = None"

definition draft_version :: "'v Policy \<Rightarrow> 'v PolicyVersionRecord option" where
  "draft_version p =
     (if policy_versions p = [] then None
      else let v = last (policy_versions p) in if pv_status v = Draft then Some v else None)"

definition published_version :: "'v Policy \<Rightarrow> (u32 \<times> 'v PolicyRule list) option" where
  "published_version p =
     map_option (\<lambda>v. (pv_version_number v, pv_rules v)) (find (\<lambda>v. pv_status v = Published) (rev (policy_versions p)))"

definition policy_invalid :: "'v Policy \<Rightarrow> string \<Rightarrow> PolicyError" where
  "policy_invalid p command = InvalidTransition (command @ '' from '' @ policy_status_debug (policy_status p))"

definition policy_decide :: "'v Policy \<Rightarrow> 'v PolicyCommand \<Rightarrow> DecisionContext \<Rightarrow> ('v PolicyEvent list, PolicyError) result" where
  "policy_decide p command context =
     (if \<not> is_authorized (ctx_authority context) ''policy.command''
        then Inl (Unauthorized ''actor lacks required authority'')
      else case command of
        CreatePolicy _ _ \<Rightarrow>
          Inl (InvalidTransition ''CreatePolicy must be dispatched via Policy::create(), not decide()'')
      | CreatePolicyVersion rules \<Rightarrow>
          if policy_status p = Active then
            (if draft_version p \<noteq> None then Inl DraftAlreadyPending
             else Inr [PolicyVersionCreated (of_nat (length (policy_versions p)) + 1) rules (trusted_now context)])
          else Inl (policy_invalid p ''CreatePolicyVersion'')
      | PublishPolicyVersion \<Rightarrow>
          if policy_status p = Active then
            (case draft_version p of
               None \<Rightarrow> Inl NoDraftVersion
             | Some draft \<Rightarrow> Inr [PolicyVersionPublished (pv_version_number draft) (user_id (ctx_actor context)) (trusted_now context)])
          else Inl (policy_invalid p ''PublishPolicyVersion'')
      | EvaluatePolicy key \<Rightarrow>
          if policy_status p = Retired then Inl (policy_invalid p ''EvaluatePolicy'')
          else (case published_version p of
                  None \<Rightarrow> Inl NoPublishedVersion
                | Some (version_number, rules) \<Rightarrow>
                    Inr [PolicyEvaluated key (map_option rule_value (find (\<lambda>r. rule_key r = key) rules)) version_number (trusted_now context)])
      | RegisterViolation key reason \<Rightarrow>
          if policy_status p = Retired then Inl (policy_invalid p ''RegisterViolation'')
          else if published_version p = None then Inl NoPublishedVersion
          else Inr [PolicyViolationDetected key reason (trusted_now context)]
      | RetirePolicy \<Rightarrow>
          if policy_status p = Active then Inr [PolicyRetired (trusted_now context)]
          else Inl (policy_invalid p ''RetirePolicy''))"

text \<open>\<open>iter_mut().find(..)\<close> and the assignment to what it found.\<close>

fun publish_version :: "u32 \<Rightarrow> 'v PolicyVersionRecord list \<Rightarrow> 'v PolicyVersionRecord list" where
  "publish_version n [] = []"
| "publish_version n (v # vs) = (if pv_version_number v = n then v\<lparr>pv_status := Published\<rparr> # vs else v # publish_version n vs)"

fun policy_apply_event :: "'v PolicyEvent \<Rightarrow> 'v Policy \<Rightarrow> 'v Policy" where
  "policy_apply_event (PolicyCreated _ _ _ _ _) p = p"
| "policy_apply_event (PolicyVersionCreated n rules _) p =
     p\<lparr>policy_versions := policy_versions p @ [\<lparr>pv_version_number = n, pv_status = Draft, pv_rules = rules\<rparr>]\<rparr>"
| "policy_apply_event (PolicyVersionPublished n _ _) p =
     p\<lparr>policy_versions := publish_version n (policy_versions p),
       policy_authority_epoch := AuthorityEpoch_advance (policy_authority_epoch p)\<rparr>"
| "policy_apply_event (PolicyEvaluated _ _ _ _) p = p"
| "policy_apply_event (PolicyViolationDetected _ _ _) p = p"
| "policy_apply_event (PolicyRetired _) p =
     p\<lparr>policy_status := Retired, policy_lifecycle_epoch := LifecycleEpoch_advance (policy_lifecycle_epoch p)\<rparr>"

definition policy_apply :: "'v PolicyEvent \<Rightarrow> 'v Policy \<Rightarrow> 'v Policy" where
  "policy_apply event p = (let p' = policy_apply_event event p in p'\<lparr>policy_version := ObjectVersion_next (policy_version p')\<rparr>)"

section \<open>Legal holds\<close>

datatype LegalHoldStatus = Applied | Released

fun hold_status_debug :: "LegalHoldStatus \<Rightarrow> string" where
  "hold_status_debug Applied = ''Applied''"
| "hold_status_debug Released = ''Released''"

record HoldTarget =
  hold_target_id :: ObjectId
  hold_target_type :: string

datatype LegalHoldError =
    InvalidTransition string
  | MissingField string
  | Unauthorized string

datatype LegalHoldCommand =
    ApplyLegalHold HoldTarget "PolicyId option" string
  | ReleaseLegalHold string

datatype LegalHoldEvent =
    LegalHoldApplied LegalHoldId HoldTarget "PolicyId option" string UserId Timestamp
  | LegalHoldReleased string UserId Timestamp

record LegalHold =
  hold_id :: LegalHoldId
  hold_version :: ObjectVersion
  hold_lifecycle_epoch :: LifecycleEpoch
  hold_authority_epoch :: AuthorityEpoch
  hold_status :: LegalHoldStatus
  hold_target :: HoldTarget
  hold_authorizing_policy :: "PolicyId option"
  hold_applied_by :: UserId

fun hold_create :: "LegalHoldCommand \<Rightarrow> DecisionContext \<Rightarrow> (LegalHoldEvent list, LegalHoldError) result" where
  "hold_create (ApplyLegalHold target authorizing_policy reason) context =
     (if trim_is_empty reason then Inl (MissingField ''reason'')
      else Inr [LegalHoldApplied (ctx_object_id context 0) target authorizing_policy reason (user_id (ctx_actor context)) (trusted_now context)])"
| "hold_create _ context = Inl (InvalidTransition ''LegalHold::create() called with a non-ApplyLegalHold command'')"

fun hold_from_created_event :: "LegalHoldEvent \<Rightarrow> LegalHold option" where
  "hold_from_created_event (LegalHoldApplied hid target authorizing_policy _ applied_by _) =
     Some \<lparr>hold_id = hid,
           hold_version = ObjectVersion_INITIAL,
           hold_lifecycle_epoch = LifecycleEpoch_INITIAL,
           hold_authority_epoch = AuthorityEpoch_INITIAL,
           hold_status = Applied,
           hold_target = target,
           hold_authorizing_policy = authorizing_policy,
           hold_applied_by = applied_by\<rparr>"
| "hold_from_created_event _ = None"

definition hold_invalid :: "LegalHold \<Rightarrow> string \<Rightarrow> LegalHoldError" where
  "hold_invalid h command = InvalidTransition (command @ '' from '' @ hold_status_debug (hold_status h))"

definition hold_decide :: "LegalHold \<Rightarrow> LegalHoldCommand \<Rightarrow> DecisionContext \<Rightarrow> (LegalHoldEvent list, LegalHoldError) result" where
  "hold_decide h command context =
     (if \<not> is_authorized (ctx_authority context) ''policy.legal_hold.command''
        then Inl (Unauthorized ''actor lacks required authority'')
      else case command of
        ApplyLegalHold _ _ _ \<Rightarrow>
          Inl (InvalidTransition ''ApplyLegalHold must be dispatched via LegalHold::create(), not decide()'')
      | ReleaseLegalHold reason \<Rightarrow>
          if hold_status h = Applied then Inr [LegalHoldReleased reason (user_id (ctx_actor context)) (trusted_now context)]
          else Inl (hold_invalid h ''ReleaseLegalHold''))"

fun hold_apply_event :: "LegalHoldEvent \<Rightarrow> LegalHold \<Rightarrow> LegalHold" where
  "hold_apply_event (LegalHoldApplied _ _ _ _ _ _) h = h"
| "hold_apply_event (LegalHoldReleased _ _ _) h =
     h\<lparr>hold_status := Released, hold_lifecycle_epoch := LifecycleEpoch_advance (hold_lifecycle_epoch h)\<rparr>"

definition hold_apply :: "LegalHoldEvent \<Rightarrow> LegalHold \<Rightarrow> LegalHold" where
  "hold_apply event h = (let h' = hold_apply_event event h in h'\<lparr>hold_version := ObjectVersion_next (hold_version h')\<rparr>)"

section \<open>The aggregates\<close>

inductive policy_transition :: "PolicyStatus \<Rightarrow> PolicyStatus \<Rightarrow> bool" where
  retire: "policy_transition Active Retired"

inductive hold_transition :: "LegalHoldStatus \<Rightarrow> LegalHoldStatus \<Rightarrow> bool" where
  release: "hold_transition Applied Released"

lemmas policy_defs [agg_simps] = policy_decide_def policy_apply_def
lemmas hold_defs [agg_simps] = hold_decide_def hold_apply_def

lemma policy_decide_active:
  assumes "policy_decide p c ctx = Inr es"
  shows "policy_status p = Active"
  using assms by (cases c; cases "policy_status p") (simp_all add: agg_simps split: if_splits option.splits)

lemma policy_decide_event:
  assumes "policy_decide p c ctx = Inr es"
  shows "\<exists>e. es = [e] \<and> (policy_status (policy_apply e p) = policy_status p
    \<or> policy_status (policy_apply e p) = Retired \<and> policy_lifecycle_epoch (policy_apply e p) = policy_lifecycle_epoch p + 1)"
  using assms by (cases c) (auto simp: agg_simps kernel_simps split: if_splits option.splits)

lemma policy_decide_cases:
  assumes "policy_decide p c ctx = Inr es"
  obtains e where "es = [e]" and "policy_status p = Active"
    and "policy_status (policy_apply e p) = policy_status p
         \<or> policy_transition (policy_status p) (policy_status (policy_apply e p)) \<and> policy_lifecycle_epoch (policy_apply e p) = policy_lifecycle_epoch p + 1"
  using policy_decide_event [OF assms] policy_decide_active [OF assms] policy_transition.retire by metis

lemma hold_decide_applied: "hold_decide h c ctx = Inr es \<Longrightarrow> hold_status h = Applied"
  by (cases c) (simp_all add: agg_simps split: if_splits)

lemma hold_decide_cases:
  assumes "hold_decide h c ctx = Inr es"
  obtains e where "es = [e]" and "hold_transition (hold_status h) (hold_status (hold_apply e h))"
    and "hold_lifecycle_epoch (hold_apply e h) = hold_lifecycle_epoch h + 1"
  using assms by (cases c; fastforce simp: agg_simps kernel_simps split: if_splits intro: hold_transition.intros)

interpretation policy: lifecycle_aggregate policy_id policy_version policy_lifecycle_epoch policy_authority_epoch
    policy_decide policy_apply policy_status policy_transition
proof
  fix e :: "'v PolicyEvent" and p
  show "policy_id (policy_apply e p) = policy_id p" by (cases e) (simp_all add: agg_simps)
  show "policy_version (policy_apply e p) = ObjectVersion_next (policy_version p)" by (cases e) (simp_all add: agg_simps)
  show "policy_lifecycle_epoch (policy_apply e p) \<in> {policy_lifecycle_epoch p, LifecycleEpoch_advance (policy_lifecycle_epoch p)}"
    by (cases e) (simp_all add: agg_simps)
  show "policy_authority_epoch (policy_apply e p) \<in> {policy_authority_epoch p, AuthorityEpoch_advance (policy_authority_epoch p)}"
    by (cases e) (simp_all add: agg_simps)
qed (erule policy_decide_cases, auto)+

interpretation policy_single: single_event_aggregate policy_id policy_version policy_lifecycle_epoch policy_authority_epoch
    policy_decide policy_apply
  by unfold_locales (erule policy_decide_cases, simp)

interpretation hold: lifecycle_aggregate hold_id hold_version hold_lifecycle_epoch hold_authority_epoch
    hold_decide hold_apply hold_status hold_transition
proof
  fix e h
  show "hold_id (hold_apply e h) = hold_id h" by (cases e) (simp_all add: agg_simps)
  show "hold_version (hold_apply e h) = ObjectVersion_next (hold_version h)" by (cases e) (simp_all add: agg_simps)
  show "hold_lifecycle_epoch (hold_apply e h) \<in> {hold_lifecycle_epoch h, LifecycleEpoch_advance (hold_lifecycle_epoch h)}"
    by (cases e) (simp_all add: agg_simps)
  show "hold_authority_epoch (hold_apply e h) \<in> {hold_authority_epoch h, AuthorityEpoch_advance (hold_authority_epoch h)}"
    by (cases e) (simp_all add: agg_simps)
qed (erule hold_decide_cases, auto)+

interpretation hold_single: single_event_aggregate hold_id hold_version hold_lifecycle_epoch hold_authority_epoch
    hold_decide hold_apply
  by unfold_locales (erule hold_decide_cases, simp)

section \<open>The versions of a policy\<close>

text \<open>Versions are numbered from one, and only the last can be a draft.\<close>

definition versions_ok :: "'v PolicyVersionRecord list \<Rightarrow> bool" where
  "versions_ok vs \<longleftrightarrow> map pv_version_number vs = map (\<lambda>i. of_nat (Suc i)) [0..<length vs]
     \<and> (\<forall>v \<in> set (butlast vs). pv_status v = Published)"

definition effective :: "'v PolicyVersionRecord list \<Rightarrow> 'v PolicyVersionRecord list" where
  "effective vs = filter (\<lambda>v. pv_status v = Published) vs"

lemma find_rev_filter: "find P (rev xs) = (if filter P xs = [] then None else Some (last (filter P xs)))"
  by (induction xs rule: rev_induct) auto

lemma published_version_effective:
  "published_version p = (if effective (policy_versions p) = [] then None
     else Some (pv_version_number (last (effective (policy_versions p))), pv_rules (last (effective (policy_versions p)))))"
  by (simp add: published_version_def find_rev_filter effective_def)

lemma versions_ok_snoc:
  "versions_ok (vs @ [v]) \<longleftrightarrow> versions_ok vs \<and> pv_version_number v = of_nat (Suc (length vs)) \<and> (\<forall>w \<in> set vs. pv_status w = Published)"
  by (auto simp: versions_ok_def simp del: of_nat_Suc dest: in_set_butlastD)

lemma publish_version_last:
  assumes "n \<notin> pv_version_number ` set vs"
  shows "publish_version n (vs @ [v]) = vs @ [if pv_version_number v = n then v\<lparr>pv_status := Published\<rparr> else v]"
  using assms by (induction vs) auto

lemma version_numbers_fresh:
  assumes "versions_ok vs" and "length vs < 2 ^ 32 - 1"
  shows "of_nat (Suc (length vs)) \<notin> pv_version_number ` set vs"
proof
  assume "of_nat (Suc (length vs)) \<in> pv_version_number ` set vs"
  then have "of_nat (Suc (length vs)) \<in> set (map (\<lambda>i. of_nat (Suc i) :: u32) [0..<length vs])"
    using assms(1) by (metis versions_ok_def list.set_map)
  then obtain i where "i < length vs" "(of_nat (Suc (length vs)) :: u32) = of_nat (Suc i)"
    by (auto simp del: of_nat_Suc)
  moreover have "unat (of_nat (Suc n) :: u32) = Suc n" if "n \<le> length vs" for n
    using that assms(2) by (simp add: unat_of_nat take_bit_nat_eq_self del: of_nat_Suc)
  ultimately show False by (metis less_irrefl nat.inject less_imp_le order_refl)
qed

lemma policy_publish_decide:
  assumes "policy_decide p PublishPolicyVersion ctx = Inr es" and "versions_ok (policy_versions p)"
    and "length (policy_versions p) < 2 ^ 32 - 1"
  shows "\<exists>vs v. policy_versions p = vs @ [v] \<and> pv_status v = Draft
    \<and> policy_versions (fold policy_apply es p) = vs @ [v\<lparr>pv_status := Published\<rparr>]"
proof -
  from assms(1) obtain v where v: "draft_version p = Some v"
      "es = [PolicyVersionPublished (pv_version_number v) (user_id (ctx_actor ctx)) (trusted_now ctx)]"
    by (auto simp: agg_simps split: if_splits option.splits)
  then obtain vs where vs: "policy_versions p = vs @ [v]" "pv_status v = Draft"
    by (cases "policy_versions p" rule: rev_cases) (auto simp: draft_version_def Let_def split: if_splits)
  with assms(2,3) have "pv_version_number v \<notin> pv_version_number ` set vs"
    using version_numbers_fresh [of vs] by (auto simp: versions_ok_snoc)
  with v vs show ?thesis by (auto simp: agg_simps publish_version_last)
qed

lemma policy_versions_decide:
  assumes "policy_decide p c ctx = Inr es" and "versions_ok (policy_versions p)" and "length (policy_versions p) < 2 ^ 32 - 1"
  shows "policy_versions (fold policy_apply es p) = policy_versions p
    \<or> (\<exists>rules. c = CreatePolicyVersion rules \<and> (\<forall>w \<in> set (policy_versions p). pv_status w = Published)
         \<and> policy_versions (fold policy_apply es p) = policy_versions p
             @ [\<lparr>pv_version_number = of_nat (Suc (length (policy_versions p))), pv_status = Draft, pv_rules = rules\<rparr>])
    \<or> (\<exists>vs v. c = PublishPolicyVersion \<and> policy_versions p = vs @ [v] \<and> pv_status v = Draft
         \<and> policy_versions (fold policy_apply es p) = vs @ [v\<lparr>pv_status := Published\<rparr>])"
proof (cases c)
  case (CreatePolicyVersion rules)
  have "\<forall>w \<in> set (policy_versions p). pv_status w = Published" if "draft_version p = None"
    using that assms(2) PolicyVersionStatus.exhaust
    by (cases "policy_versions p" rule: rev_cases) (auto simp: draft_version_def versions_ok_snoc Let_def split: if_splits)
  with assms(1) CreatePolicyVersion show ?thesis by (auto simp: agg_simps add.commute split: if_splits)
next
  case PublishPolicyVersion
  with policy_publish_decide [of p ctx es] assms show ?thesis by blast
qed (use assms(1) in \<open>auto simp: agg_simps split: if_splits option.splits\<close>)

lemma policy_versions_execute:
  assumes "versions_ok (policy_versions p)" and "length (policy_versions p) < 2 ^ 32 - 1"
  shows "versions_ok (policy_versions (execute policy_decide policy_apply p cmd))
    \<and> prefix (effective (policy_versions p)) (effective (policy_versions (execute policy_decide policy_apply p cmd)))
    \<and> length (policy_versions (execute policy_decide policy_apply p cmd)) \<le> Suc (length (policy_versions p))"
proof (cases "policy_decide p (fst cmd) (snd cmd)")
  case (Inl err)
  with assms show ?thesis by (simp add: execute_def)
next
  case (Inr es)
  with policy_versions_decide [OF Inr assms] assms(1) show ?thesis
    by (auto simp: execute_def versions_ok_snoc effective_def)
qed

lemma policy_versions_run:
  assumes "versions_ok (policy_versions p)" and "length (policy_versions p) + length cmds < 2 ^ 32"
  shows "versions_ok (policy_versions (foldl (execute policy_decide policy_apply) p cmds))
    \<and> prefix (effective (policy_versions p)) (effective (policy_versions (foldl (execute policy_decide policy_apply) p cmds)))"
  using assms
proof (induction cmds arbitrary: p)
  case (Cons cmd cmds)
  let ?q = "execute policy_decide policy_apply p cmd"
  have step: "versions_ok (policy_versions ?q)" "prefix (effective (policy_versions p)) (effective (policy_versions ?q))"
      "length (policy_versions ?q) \<le> Suc (length (policy_versions p))"
    using policy_versions_execute [of p cmd] Cons.prems by auto
  then have "length (policy_versions ?q) + length cmds < 2 ^ 32" using Cons.prems(2) by simp
  from Cons.IH [OF step(1) this] step(2) show ?case by (auto intro: prefix_order.trans)
qed simp

definition policy_sample :: "nat Policy" where
  "policy_sample = \<lparr>policy_id = 1, policy_version = 2, policy_lifecycle_epoch = 0, policy_authority_epoch = 1,
     policy_status = Active, policy_name = ''uploads'', policy_scope = Organization 7,
     policy_versions = [\<lparr>pv_version_number = 1, pv_status = Published,
        pv_rules = [\<lparr>rule_type = Threshold, rule_key = ''max'', rule_value = 10\<rparr>]\<rparr>]\<rparr>"

definition policy_sample_ctx :: DecisionContext where
  "policy_sample_ctx = \<lparr>ctx_actor = \<lparr>user_id = 1, device_id = 2, actor_organization_id = 3\<rparr>,
     ctx_authority = VerifiedAuthority, trusted_now = 10, policy_outcomes = PolicyDecisionSet,
     ctx_object_id = (\<lambda>n. 100 + of_nat n)\<rparr>"

text \<open>
  The record of what was in force is append-only: whatever commands follow, the versions of a policy stay numbered
  1, 2, \<open>\<dots>\<close> with at most the last one a draft, the published versions are kept as they are, rules included, and in
  their order; a retired policy and a released hold do not change at all.
\<close>

theorem policy_history:
  assumes "versions_ok (policy_versions p)" and "length (policy_versions p) + length cmds < 2 ^ 32"
  shows "versions_ok (policy_versions (foldl (execute policy_decide policy_apply) p cmds))
    \<and> prefix (effective (policy_versions p)) (effective (policy_versions (foldl (execute policy_decide policy_apply) p cmds)))
    \<and> (policy_status p = Retired \<longrightarrow> foldl (execute policy_decide policy_apply) p cmds = p)
    \<and> (hold_status h = Released \<longrightarrow> foldl (execute hold_decide hold_apply) h cmds' = h)"
proof -
  have "foldl (execute policy_decide policy_apply) p cmds = p" if "policy_status p = Retired"
    using that policy_decide_active [of p] by (intro policy.run_inert) (metis PolicyStatus.distinct(1) sum.exhaust)
  moreover have "foldl (execute hold_decide hold_apply) h cmds' = h" if "hold_status h = Released"
    using that hold_decide_applied [of h] by (intro hold.run_inert) (metis LegalHoldStatus.distinct(1) sum.exhaust)
  ultimately show ?thesis using policy_versions_run [OF assms] by blast
qed

theorem policy_history_witness:
  "prefix (effective (policy_versions policy_sample)) (effective (policy_versions (foldl (execute policy_decide policy_apply) policy_sample
      [(CreatePolicyVersion [], policy_sample_ctx), (PublishPolicyVersion, policy_sample_ctx), (RetirePolicy, policy_sample_ctx)])))"
  using policy_history [of policy_sample "[(CreatePolicyVersion [], policy_sample_ctx), (PublishPolicyVersion, policy_sample_ctx),
      (RetirePolicy, policy_sample_ctx)]"]
  by (simp add: policy_sample_def versions_ok_def)

text \<open>
  A draft has no effect until it is published, and then at once: between the creation of a version and its publication
  every evaluation answers what it answered before, and after the publication it answers from the rules of that version.
\<close>

theorem policy_publication:
  assumes "versions_ok (policy_versions p)" and "length (policy_versions p) < 2 ^ 32 - 2"
    and "policy_decide p (CreatePolicyVersion rules) ctx = Inr es" and "draft = fold policy_apply es p"
    and "policy_decide draft PublishPolicyVersion ctx' = Inr es'" and "published = fold policy_apply es' draft"
  shows "policy_decide draft (EvaluatePolicy key) ctx'' = policy_decide p (EvaluatePolicy key) ctx''
    \<and> policy_decide published (EvaluatePolicy key) ctx'' =
        Inr [PolicyEvaluated key (map_option rule_value (find (\<lambda>r. rule_key r = key) rules))
               (of_nat (Suc (length (policy_versions p)))) (trusted_now ctx'')]"
proof -
  let ?v = "\<lparr>pv_version_number = of_nat (Suc (length (policy_versions p))), pv_status = Draft, pv_rules = rules\<rparr>"
  have draft: "policy_versions draft = policy_versions p @ [?v]" "\<forall>w \<in> set (policy_versions p). pv_status w = Published"
      "policy_status draft = policy_status p"
    using policy_versions_decide [OF assms(3,1)] assms(2-4) by (auto simp: agg_simps split: if_splits)
  then have "versions_ok (policy_versions draft)" using assms(1) by (simp add: versions_ok_snoc)
  with policy_publish_decide [OF assms(5)] draft(1) assms(2,6)
  have "policy_versions published = policy_versions p @ [?v\<lparr>pv_status := Published\<rparr>]" by auto
  moreover have "policy_status published = policy_status draft" "policy_status draft = Active"
    using assms(5,6) by (auto simp: agg_simps split: if_splits option.splits)
  ultimately show ?thesis using draft
    by (simp add: policy_decide_def is_authorized_def published_version_effective effective_def policy_invalid_def del: of_nat_Suc)
qed

theorem policy_publication_witness:
  "policy_decide (fold policy_apply [PolicyVersionPublished 2 1 10]
       (fold policy_apply [PolicyVersionCreated 2 [\<lparr>rule_type = Threshold, rule_key = ''max'', rule_value = 20\<rparr>] 10] policy_sample))
     (EvaluatePolicy ''max'') policy_sample_ctx = Inr [PolicyEvaluated ''max'' (Some 20) 2 10]"
  using policy_publication [of policy_sample "[\<lparr>rule_type = Threshold, rule_key = ''max'', rule_value = 20\<rparr>]" policy_sample_ctx
      "[PolicyVersionCreated 2 [\<lparr>rule_type = Threshold, rule_key = ''max'', rule_value = 20\<rparr>] 10]" _ policy_sample_ctx
      "[PolicyVersionPublished 2 1 10]" _ "''max''" policy_sample_ctx, OF _ _ _ refl _ refl, THEN conjunct2]
  by (simp add: policy_sample_def policy_sample_ctx_def versions_ok_def agg_simps is_authorized_def draft_version_def)

end
