(* ===== verification/Route_Aggregates.thy ===== *)
theory Route_Aggregates
  imports Command_Handler Todo_Domain Staff_Loan Policy_Domain
begin

text \<open>
  The aggregates the command endpoint dispatches to. Notifications (\<open>crates/domains/notification-domain/src/lib.rs\<close>) and web approvals
  (the head of \<open>crates/bins/api-server/src/routes/command.rs\<close>) are defined here; to-do lists, target lists, staff loans, policies
  and legal holds are those of their own theories. Each is packed with its serde conversions into the \<open>AggregateOps\<close> of the pipeline.

  \<open>to_iso\<close> is the rendering of a time stamp by the \<open>chrono\<close> crate, a parameter.
\<close>

section \<open>Notifications\<close>

record NotificationAggregate =
  notification_id :: ObjectId
  notification_public_id :: string
  notification_title :: string
  notification_message :: string
  notification_priority :: string
  notification_status :: string
  notification_recipient_id :: "string option"
  notification_source_id :: string
  notification_source_type :: string
  notification_created_at :: string
  notification_acknowledged_at :: "string option"
  notification_version :: ObjectVersion
  notification_lifecycle_epoch :: LifecycleEpoch
  notification_authority_epoch :: AuthorityEpoch

datatype NotificationCommand = Acknowledge

datatype NotificationEvent = Acknowledged string

datatype NotificationError = AlreadyAcknowledged

fun notification_decide ::
    "(u64 \<Rightarrow> string) \<Rightarrow> NotificationAggregate \<Rightarrow> NotificationCommand \<Rightarrow> DecisionContext \<Rightarrow> (NotificationEvent list, NotificationError) result" where
  "notification_decide to_iso n Acknowledge context =
     (if notification_status n = ''acknowledged'' then Inl AlreadyAcknowledged
      else Inr [Acknowledged (to_iso (trusted_now context))])"

fun notification_apply :: "NotificationEvent \<Rightarrow> NotificationAggregate \<Rightarrow> NotificationAggregate" where
  "notification_apply (Acknowledged at) n =
     n\<lparr>notification_status := ''acknowledged'', notification_acknowledged_at := Some at,
       notification_version := ObjectVersion_next (notification_version n)\<rparr>"

fun notification_error_string :: "NotificationError \<Rightarrow> string" where
  "notification_error_string AlreadyAcknowledged = ''notification already acknowledged''"

section \<open>Approvals\<close>

record ApprovalAggregate =
  approval_id :: ObjectId
  approval_public_id :: string
  approval_title :: string
  approval_description :: string
  approval_status :: string
  approval_requested_by :: string
  approval_target_id :: string
  approval_target_type :: string
  approval_created_at :: string
  approval_decided_at :: "string option"
  approval_decision_reason :: "string option"
  approval_web_action_permitted :: bool
  approval_version :: ObjectVersion
  approval_lifecycle_epoch :: LifecycleEpoch
  approval_authority_epoch :: AuthorityEpoch

datatype ApprovalCommand = Approve "string option" | Reject string

datatype ApprovalEvent = Approved string "string option" | Rejected string string

datatype ApprovalError = NotPending | WebActionNotPermitted

definition approval_decide ::
    "(u64 \<Rightarrow> string) \<Rightarrow> ApprovalAggregate \<Rightarrow> ApprovalCommand \<Rightarrow> DecisionContext \<Rightarrow> (ApprovalEvent list, ApprovalError) result" where
  "approval_decide to_iso a command context =
     (if approval_status a \<noteq> ''pending'' then Inl NotPending
      else if \<not> approval_web_action_permitted a then Inl WebActionNotPermitted
      else let decided_at = to_iso (trusted_now context)
           in Inr (case command of Approve reason \<Rightarrow> [Approved decided_at reason] | Reject reason \<Rightarrow> [Rejected decided_at reason]))"

fun approval_apply_event :: "ApprovalEvent \<Rightarrow> ApprovalAggregate \<Rightarrow> ApprovalAggregate" where
  "approval_apply_event (Approved decided_at reason) a =
     a\<lparr>approval_status := ''approved'', approval_decided_at := Some decided_at, approval_decision_reason := reason\<rparr>"
| "approval_apply_event (Rejected decided_at reason) a =
     a\<lparr>approval_status := ''rejected'', approval_decided_at := Some decided_at, approval_decision_reason := Some reason\<rparr>"

definition approval_apply :: "ApprovalEvent \<Rightarrow> ApprovalAggregate \<Rightarrow> ApprovalAggregate" where
  "approval_apply event a = (let a' = approval_apply_event event a in a'\<lparr>approval_version := ObjectVersion_next (approval_version a')\<rparr>)"

fun approval_error_string :: "ApprovalError \<Rightarrow> string" where
  "approval_error_string NotPending = ''approval is not pending''"
| "approval_error_string WebActionNotPermitted = ''web action is not permitted for this approval''"

section \<open>Messages of the domain errors\<close>

fun todo_error_string :: "TodoError \<Rightarrow> string" where
  "todo_error_string (TodoError.InvalidTransition s) = ''Invalid todo list status transition: '' @ s"
| "todo_error_string (TodoError.MissingField s) = ''Missing required field: '' @ s"
| "todo_error_string (TodoError.Unauthorized s) = ''Unauthorized: '' @ s"

fun target_error_string :: "TargetError \<Rightarrow> string" where
  "target_error_string (TargetError.InvalidTransition s) = ''Invalid target list status transition: '' @ s"
| "target_error_string (TargetError.MissingField s) = ''Missing required field: '' @ s"
| "target_error_string (TargetError.Unauthorized s) = ''Unauthorized: '' @ s"
| "target_error_string InvalidTimeWindow = ''time_window.end_at must be after time_window.start_at''"
| "target_error_string WindowNotClosed = ''Cannot verify a target before its time window has closed''"

fun loan_error_string :: "StaffLoanError \<Rightarrow> string" where
  "loan_error_string (StaffLoanError.InvalidTransition s) = ''Invalid staff loan status transition: '' @ s"
| "loan_error_string (StaffLoanError.MissingField s) = ''Missing required field: '' @ s"
| "loan_error_string (StaffLoanError.Unauthorized s) = ''Unauthorized: '' @ s"
| "loan_error_string InvalidLoanWindow = ''Loan window end must be after its start''"
| "loan_error_string OwnerAndBorrowerMustDiffer = ''real_owner_id and borrowing_manager_id must differ''"

fun policy_error_string :: "PolicyError \<Rightarrow> string" where
  "policy_error_string (PolicyError.InvalidTransition s) = ''Invalid policy status transition: '' @ s"
| "policy_error_string (PolicyError.MissingField s) = ''Missing required field: '' @ s"
| "policy_error_string (PolicyError.Unauthorized s) = ''Unauthorized: '' @ s"
| "policy_error_string NoDraftVersion = ''No draft version to publish''"
| "policy_error_string DraftAlreadyPending = ''A draft version is already pending publication''"
| "policy_error_string NoPublishedVersion = ''No published version exists to evaluate''"

fun hold_error_string :: "LegalHoldError \<Rightarrow> string" where
  "hold_error_string (LegalHoldError.InvalidTransition s) = ''Invalid legal hold status transition: '' @ s"
| "hold_error_string (LegalHoldError.MissingField s) = ''Missing required field: '' @ s"
| "hold_error_string (LegalHoldError.Unauthorized s) = ''Unauthorized: '' @ s"

section \<open>What the pipeline is instantiated with\<close>

record ('a, 'ev, 'v) Serde =
  sd_from_value :: "'v \<Rightarrow> 'a option"
  sd_to_value :: "'a \<Rightarrow> 'v option"
  sd_envelope_to_value :: "'ev DomainEventEnvelope \<Rightarrow> 'v option"

definition notification_ops ::
    "(u64 \<Rightarrow> string) \<Rightarrow> (NotificationAggregate, NotificationEvent, 'v) Serde
      \<Rightarrow> (NotificationAggregate, NotificationCommand, NotificationEvent, NotificationError, 'v) AggregateOps" where
  "notification_ops to_iso S =
     \<lparr>op_version = notification_version, op_lifecycle_epoch = notification_lifecycle_epoch, op_authority_epoch = notification_authority_epoch,
      op_decide = notification_decide to_iso, op_apply = notification_apply, op_from_value = sd_from_value S, op_to_value = sd_to_value S,
      op_envelope_to_value = sd_envelope_to_value S, op_error_string = notification_error_string\<rparr>"

definition approval_ops ::
    "(u64 \<Rightarrow> string) \<Rightarrow> (ApprovalAggregate, ApprovalEvent, 'v) Serde \<Rightarrow> (ApprovalAggregate, ApprovalCommand, ApprovalEvent, ApprovalError, 'v) AggregateOps" where
  "approval_ops to_iso S =
     \<lparr>op_version = approval_version, op_lifecycle_epoch = approval_lifecycle_epoch, op_authority_epoch = approval_authority_epoch,
      op_decide = approval_decide to_iso, op_apply = approval_apply, op_from_value = sd_from_value S, op_to_value = sd_to_value S,
      op_envelope_to_value = sd_envelope_to_value S, op_error_string = approval_error_string\<rparr>"

definition policy_ops :: "('v Policy, 'v PolicyEvent, 'v) Serde \<Rightarrow> ('v Policy, 'v PolicyCommand, 'v PolicyEvent, PolicyError, 'v) AggregateOps" where
  "policy_ops S =
     \<lparr>op_version = policy_version, op_lifecycle_epoch = policy_lifecycle_epoch, op_authority_epoch = policy_authority_epoch,
      op_decide = policy_decide, op_apply = policy_apply, op_from_value = sd_from_value S, op_to_value = sd_to_value S,
      op_envelope_to_value = sd_envelope_to_value S, op_error_string = policy_error_string\<rparr>"

definition hold_ops :: "(LegalHold, LegalHoldEvent, 'v) Serde \<Rightarrow> (LegalHold, LegalHoldCommand, LegalHoldEvent, LegalHoldError, 'v) AggregateOps" where
  "hold_ops S =
     \<lparr>op_version = hold_version, op_lifecycle_epoch = hold_lifecycle_epoch, op_authority_epoch = hold_authority_epoch,
      op_decide = hold_decide, op_apply = hold_apply, op_from_value = sd_from_value S, op_to_value = sd_to_value S,
      op_envelope_to_value = sd_envelope_to_value S, op_error_string = hold_error_string\<rparr>"

definition todo_ops :: "(TodoList, TodoListEvent, 'v) Serde \<Rightarrow> (TodoList, TodoListCommand, TodoListEvent, TodoError, 'v) AggregateOps" where
  "todo_ops S =
     \<lparr>op_version = todo_version, op_lifecycle_epoch = todo_lifecycle_epoch, op_authority_epoch = todo_authority_epoch,
      op_decide = todo_decide, op_apply = todo_apply, op_from_value = sd_from_value S, op_to_value = sd_to_value S,
      op_envelope_to_value = sd_envelope_to_value S, op_error_string = todo_error_string\<rparr>"

definition target_ops :: "(TargetList, TargetListEvent, 'v) Serde \<Rightarrow> (TargetList, TargetListCommand, TargetListEvent, TargetError, 'v) AggregateOps" where
  "target_ops S =
     \<lparr>op_version = target_version, op_lifecycle_epoch = target_lifecycle_epoch, op_authority_epoch = target_authority_epoch,
      op_decide = target_decide, op_apply = target_apply, op_from_value = sd_from_value S, op_to_value = sd_to_value S,
      op_envelope_to_value = sd_envelope_to_value S, op_error_string = target_error_string\<rparr>"

definition loan_ops :: "(StaffLoan, StaffLoanEvent, 'v) Serde \<Rightarrow> (StaffLoan, StaffLoanCommand, StaffLoanEvent, StaffLoanError, 'v) AggregateOps" where
  "loan_ops S =
     \<lparr>op_version = loan_version, op_lifecycle_epoch = loan_lifecycle_epoch, op_authority_epoch = loan_authority_epoch,
      op_decide = loan_decide, op_apply = loan_apply, op_from_value = sd_from_value S, op_to_value = sd_to_value S,
      op_envelope_to_value = sd_envelope_to_value S, op_error_string = loan_error_string\<rparr>"

section \<open>One decision per aggregate\<close>

lemma notification_decide_event:
  "notification_decide to_iso n c ctx = Inr es \<longleftrightarrow> notification_status n \<noteq> ''acknowledged'' \<and> es = [Acknowledged (to_iso (trusted_now ctx))]"
  by (cases c) auto

lemma notification_apply_frame:
  "notification_id (notification_apply e n) = notification_id n" "notification_version (notification_apply e n) = ObjectVersion_next (notification_version n)"
  "notification_lifecycle_epoch (notification_apply e n) = notification_lifecycle_epoch n"
  "notification_authority_epoch (notification_apply e n) = notification_authority_epoch n" "notification_status (notification_apply e n) = ''acknowledged''"
  by (cases e; simp)+

lemma approval_apply_frame:
  "approval_id (approval_apply e a) = approval_id a" "approval_version (approval_apply e a) = ObjectVersion_next (approval_version a)"
  "approval_lifecycle_epoch (approval_apply e a) = approval_lifecycle_epoch a" "approval_authority_epoch (approval_apply e a) = approval_authority_epoch a"
  "approval_status (approval_apply e a) \<in> {''approved'', ''rejected''}"
  by (cases e; simp add: approval_apply_def Let_def)+

lemma approval_decide_event:
  "approval_decide to_iso a c ctx = Inr es \<longleftrightarrow> approval_status a = ''pending'' \<and> approval_web_action_permitted a
     \<and> es = [case c of Approve reason \<Rightarrow> Approved (to_iso (trusted_now ctx)) reason | Reject reason \<Rightarrow> Rejected (to_iso (trusted_now ctx)) reason]"
  by (auto simp: approval_decide_def Let_def split: ApprovalCommand.split)

interpretation notification: single_event_aggregate notification_id notification_version notification_lifecycle_epoch
    notification_authority_epoch "notification_decide to_iso" notification_apply for to_iso
  by unfold_locales (auto simp: notification_decide_event notification_apply_frame)

interpretation approval: single_event_aggregate approval_id approval_version approval_lifecycle_epoch
    approval_authority_epoch "approval_decide to_iso" approval_apply for to_iso
  by unfold_locales (auto simp: approval_decide_event approval_apply_frame)

end
