(* ===== verification/Token_Revocation.thy ===== *)
theory Token_Revocation
  imports Kernel
begin

text \<open>
  Revocation of tokens (\<open>crates/infrastructure/security-adapter/src/token_revocation.rs\<close>): single tokens by their hash, and all
  tokens of a user up to a moment. The port is the record \<open>RevocationOps\<close>, its contract the locale \<open>token_revocation_store\<close>, and the
  two implementations of the repository are its interpretations. The index \<open>f\<close> of the operations is what varies from
  request to request: the faults of the database engine.
\<close>

section \<open>The port\<close>

record 's RevocationOps =
  rv_revoke_token :: "string \<Rightarrow> u64 \<Rightarrow> 's \<Rightarrow> ('s, string) result"
  rv_is_token_revoked :: "string \<Rightarrow> 's \<Rightarrow> (bool, string) result"
  rv_revoke_all_for_user :: "string \<Rightarrow> u64 \<Rightarrow> 's \<Rightarrow> ('s, string) result"
  rv_user_revoked_before :: "string \<Rightarrow> 's \<Rightarrow> (u64 option, string) result"

text \<open>One successful write to the store.\<close>

inductive rev_step :: "('f \<Rightarrow> 's RevocationOps) \<Rightarrow> 's \<Rightarrow> 's \<Rightarrow> bool" for R where
  token: "rv_revoke_token (R f) h t s = Inr s' \<Longrightarrow> rev_step R s s'"
| user: "rv_revoke_all_for_user (R f) u t s = Inr s' \<Longrightarrow> rev_step R s s'"

locale token_revocation_store =
  fixes R :: "'f \<Rightarrow> 's RevocationOps"
  assumes token_revoked: "rv_revoke_token (R f) h t s = Inr s' \<Longrightarrow> rv_is_token_revoked (R g) h s' \<noteq> Inr False"
    and token_kept: "rv_revoke_token (R f) h t s = Inr s' \<Longrightarrow> rv_is_token_revoked (R g) h' s' = Inr False
          \<Longrightarrow> rv_is_token_revoked (R g) h' s = Inr False"
    and token_marks: "rv_revoke_token (R f) h t s = Inr s' \<Longrightarrow> rv_user_revoked_before (R g) u s' = rv_user_revoked_before (R g) u s"
    and user_marked: "unat t < 2 ^ 63 \<Longrightarrow> rv_revoke_all_for_user (R f) u t s = Inr s' \<Longrightarrow> rv_user_revoked_before (R g) u s' = Inr m
          \<Longrightarrow> \<exists>w. m = Some w \<and> t \<le> w"
    and user_marks_grow: "rv_revoke_all_for_user (R f) u t s = Inr s' \<Longrightarrow> rv_user_revoked_before (R g) v s = Inr (Some w)
          \<Longrightarrow> \<exists>w'. rv_user_revoked_before (R g) v s' = Inr (Some w') \<and> w \<le> w'"
    and user_faults: "rv_revoke_all_for_user (R f) u t s = Inr s' \<Longrightarrow> rv_user_revoked_before (R g) v s' = Inr m'
          \<Longrightarrow> \<exists>m. rv_user_revoked_before (R g) v s = Inr m"
    and user_tokens: "rv_revoke_all_for_user (R f) u t s = Inr s' \<Longrightarrow> rv_is_token_revoked (R g) h s' = rv_is_token_revoked (R g) h s"
begin

lemma step_token:
  assumes "rev_step R s s'" and "rv_is_token_revoked (R g) h s' = Inr False"
  shows "rv_is_token_revoked (R g) h s = Inr False"
  using assms by (cases rule: rev_step.cases) (metis token_kept, metis user_tokens)

lemma run_token:
  assumes "(rev_step R)\<^sup>*\<^sup>* s s'" and "rv_is_token_revoked (R g) h s' = Inr False"
  shows "rv_is_token_revoked (R g) h s = Inr False"
  using assms by (induction rule: rtranclp_induct) (auto dest: step_token)

text \<open>Once revoked, a token stays revoked whatever is written afterwards.\<close>

lemma revoked_forever:
  assumes "rv_revoke_token (R f) h t s = Inr s'" and "(rev_step R)\<^sup>*\<^sup>* s' s''"
  shows "rv_is_token_revoked (R g) h s'' \<noteq> Inr False"
  using assms token_revoked run_token by blast

definition marked :: "string \<Rightarrow> u64 \<Rightarrow> 's \<Rightarrow> bool" where
  "marked u t s \<longleftrightarrow> (\<forall>g m. rv_user_revoked_before (R g) u s = Inr m \<longrightarrow> (\<exists>w. m = Some w \<and> t \<le> w))"

lemma marked_step: "rev_step R s s' \<Longrightarrow> marked u t s \<Longrightarrow> marked u t s'"
proof (induction rule: rev_step.induct)
  case (token f h tm s s')
  then show ?case by (simp add: marked_def token_marks)
next
  case (user f v tm s s')
  show ?case unfolding marked_def
  proof (intro allI impI)
    fix g m
    assume m: "rv_user_revoked_before (R g) u s' = Inr m"
    from user_faults [OF user.hyps this] obtain m0 where m0: "rv_user_revoked_before (R g) u s = Inr m0" by blast
    with user.prems obtain w where w: "m0 = Some w" "t \<le> w" by (auto simp: marked_def)
    with user_marks_grow [OF user.hyps, of g u w] m0 m show "\<exists>w. m = Some w \<and> t \<le> w" by fastforce
  qed
qed

lemma marked_run: "(rev_step R)\<^sup>*\<^sup>* s s' \<Longrightarrow> marked u t s \<Longrightarrow> marked u t s'"
  by (induction rule: rtranclp_induct) (auto intro: marked_step)

text \<open>The watermark of a user never falls below a moment it was once set to.\<close>

lemma marked_forever:
  assumes "rv_revoke_all_for_user (R f) u t s = Inr s'" and "unat t < 2 ^ 63" and "(rev_step R)\<^sup>*\<^sup>* s' s''"
    and "rv_user_revoked_before (R g) u s'' = Inr m"
  shows "\<exists>w. m = Some w \<and> t \<le> w"
proof -
  have "marked u t s'" unfolding marked_def using user_marked [OF assms(2,1)] by blast
  with marked_run [OF assms(3)] assms(4) show ?thesis by (auto simp: marked_def)
qed

end

section \<open>The store in memory\<close>

record InMemoryTokenRevocationStore =
  revoked_tokens :: "string fset"
  user_watermarks :: "(string, u64) fmap"

definition mem_revoke_token :: "string \<Rightarrow> u64 \<Rightarrow> InMemoryTokenRevocationStore \<Rightarrow> (InMemoryTokenRevocationStore, string) result" where
  "mem_revoke_token token_hash revoked_at s = Inr (s\<lparr>revoked_tokens := finsert token_hash (revoked_tokens s)\<rparr>)"

definition mem_is_token_revoked :: "string \<Rightarrow> InMemoryTokenRevocationStore \<Rightarrow> (bool, string) result" where
  "mem_is_token_revoked token_hash s = Inr (token_hash |\<in>| revoked_tokens s)"

definition mem_revoke_all_for_user :: "string \<Rightarrow> u64 \<Rightarrow> InMemoryTokenRevocationStore \<Rightarrow> (InMemoryTokenRevocationStore, string) result" where
  "mem_revoke_all_for_user uid revoked_before s =
     (let entry = (case fmlookup (user_watermarks s) uid of Some w \<Rightarrow> w | None \<Rightarrow> 0)
      in Inr (s\<lparr>user_watermarks := fmupd uid (max entry revoked_before) (user_watermarks s)\<rparr>))"

definition mem_user_revoked_before :: "string \<Rightarrow> InMemoryTokenRevocationStore \<Rightarrow> (u64 option, string) result" where
  "mem_user_revoked_before uid s = Inr (fmlookup (user_watermarks s) uid)"

definition memory_revocation :: "unit \<Rightarrow> InMemoryTokenRevocationStore RevocationOps" where
  "memory_revocation _ = \<lparr>rv_revoke_token = mem_revoke_token, rv_is_token_revoked = mem_is_token_revoked,
     rv_revoke_all_for_user = mem_revoke_all_for_user, rv_user_revoked_before = mem_user_revoked_before\<rparr>"

lemmas memory_defs = memory_revocation_def mem_revoke_token_def mem_is_token_revoked_def mem_revoke_all_for_user_def
  mem_user_revoked_before_def

interpretation memory: token_revocation_store memory_revocation
  by unfold_locales (auto simp: memory_defs Let_def)

section \<open>The store in PostgreSQL\<close>

text \<open>
  The columns are \<open>bigint\<close>: a moment is cast to \<open>i64\<close> on the way in and clipped at zero on the way out; \<open>GREATEST\<close> compares
  signed numbers. \<open>uuid_parse\<close> is the cast \<open>$1::uuid\<close>; \<open>fault\<close> the error the engine raises for the statement.
\<close>

record PostgresTokenRevocationStore =
  pg_revoked_tokens :: "(string, u64) fmap"
  pg_user_token_revocations :: "(bytes16, u64) fmap"

definition signed_max :: "u64 \<Rightarrow> u64 \<Rightarrow> u64" where
  "signed_max a b = (if sint a \<le> sint b then b else a)"

definition clip_negative :: "u64 \<Rightarrow> u64" where
  "clip_negative v = (if sint v < 0 then 0 else v)"

definition pg_revoke_token ::
    "string option \<Rightarrow> string \<Rightarrow> u64 \<Rightarrow> PostgresTokenRevocationStore \<Rightarrow> (PostgresTokenRevocationStore, string) result" where
  "pg_revoke_token fault token_hash revoked_at s =
     (case fault of
        Some e \<Rightarrow> Inl e
      | None \<Rightarrow>
          Inr (if fmlookup (pg_revoked_tokens s) token_hash \<noteq> None then s
               else s\<lparr>pg_revoked_tokens := fmupd token_hash revoked_at (pg_revoked_tokens s)\<rparr>))"

definition pg_is_token_revoked :: "string option \<Rightarrow> string \<Rightarrow> PostgresTokenRevocationStore \<Rightarrow> (bool, string) result" where
  "pg_is_token_revoked fault token_hash s =
     (case fault of Some e \<Rightarrow> Inl e | None \<Rightarrow> Inr (fmlookup (pg_revoked_tokens s) token_hash \<noteq> None))"

definition pg_revoke_all_for_user ::
    "(string \<Rightarrow> bytes16 option) \<Rightarrow> string option \<Rightarrow> string \<Rightarrow> u64 \<Rightarrow> PostgresTokenRevocationStore
      \<Rightarrow> (PostgresTokenRevocationStore, string) result" where
  "pg_revoke_all_for_user uuid_parse fault uid revoked_before s =
     (case fault of
        Some e \<Rightarrow> Inl e
      | None \<Rightarrow>
          (case uuid_parse uid of
             None \<Rightarrow> Inl ''invalid input syntax for type uuid''
           | Some key \<Rightarrow>
               Inr (s\<lparr>pg_user_token_revocations :=
                        fmupd key (case fmlookup (pg_user_token_revocations s) key of
                                     Some w \<Rightarrow> signed_max w revoked_before | None \<Rightarrow> revoked_before)
                          (pg_user_token_revocations s)\<rparr>)))"

definition pg_user_revoked_before ::
    "(string \<Rightarrow> bytes16 option) \<Rightarrow> string option \<Rightarrow> string \<Rightarrow> PostgresTokenRevocationStore \<Rightarrow> (u64 option, string) result" where
  "pg_user_revoked_before uuid_parse fault uid s =
     (case fault of
        Some e \<Rightarrow> Inl e
      | None \<Rightarrow>
          (case uuid_parse uid of
             None \<Rightarrow> Inl ''invalid input syntax for type uuid''
           | Some key \<Rightarrow> Inr (map_option clip_negative (fmlookup (pg_user_token_revocations s) key))))"

definition postgres_revocation :: "(string \<Rightarrow> bytes16 option) \<Rightarrow> (nat \<Rightarrow> string option) \<Rightarrow> PostgresTokenRevocationStore RevocationOps" where
  "postgres_revocation uuid_parse fault =
     \<lparr>rv_revoke_token = pg_revoke_token (fault 0), rv_is_token_revoked = pg_is_token_revoked (fault 1),
      rv_revoke_all_for_user = pg_revoke_all_for_user uuid_parse (fault 2),
      rv_user_revoked_before = pg_user_revoked_before uuid_parse (fault 3)\<rparr>"

lemmas postgres_defs = postgres_revocation_def pg_revoke_token_def pg_is_token_revoked_def pg_revoke_all_for_user_def
  pg_user_revoked_before_def

lemma sint_small: "unat (t :: u64) < 2 ^ 63 \<Longrightarrow> sint t = int (unat t)"
proof -
  assume "unat t < 2 ^ 63"
  then have "int (unat t) < int (2 ^ 63)" by (simp only: of_nat_less_iff)
  then have "uint t < 2 ^ 63" by simp
  moreover have "- (2 ^ 63) \<le> uint t" using uint_ge_0 [of t] by (rule order_trans [rotated]) simp
  ultimately have "signed_take_bit 63 (uint t) = uint t" by (intro signed_take_bit_int_eq_self)
  then show ?thesis unfolding sint_uint [of t] by simp
qed

lemma uint_nonneg: "0 \<le> sint (a :: u64) \<Longrightarrow> uint a = sint a"
  using sint_less [of a] by (simp add: uint_sint take_bit_int_eq_self)

lemma clip_nonneg: "sint (clip_negative v) = max 0 (sint v)" "0 \<le> sint (clip_negative v)"
  by (auto simp: clip_negative_def)

lemma signed_max_sint: "sint (signed_max a b) = max (sint a) (sint b)"
  by (simp add: signed_max_def)

lemma le_by_sint: "0 \<le> sint (a :: u64) \<Longrightarrow> sint a \<le> sint b \<Longrightarrow> a \<le> b"
  using uint_nonneg [of a] uint_nonneg [of b] by (simp add: word_le_def)

interpretation postgres: token_revocation_store "postgres_revocation uuid_parse" for uuid_parse
proof
  fix t :: u64 and f g u s s' m
  assume t: "unat t < 2 ^ 63" and r: "rv_revoke_all_for_user (postgres_revocation uuid_parse f) u t s = Inr s'"
    and b: "rv_user_revoked_before (postgres_revocation uuid_parse g) u s' = Inr m"
  then obtain v where v: "m = Some (clip_negative v)" "sint t \<le> sint v"
    by (auto simp: postgres_defs signed_max_sint split: option.splits)
  with sint_small [OF t] clip_nonneg show "\<exists>w. m = Some w \<and> t \<le> w" by (auto intro!: le_by_sint)
next
  fix f u t s s' g v w
  assume "rv_revoke_all_for_user (postgres_revocation uuid_parse f) u t s = Inr s'"
    and "rv_user_revoked_before (postgres_revocation uuid_parse g) v s = Inr (Some w)"
  then show "\<exists>w'. rv_user_revoked_before (postgres_revocation uuid_parse g) v s' = Inr (Some w') \<and> w \<le> w'"
    by (auto simp: postgres_defs signed_max_sint clip_nonneg split: option.splits intro!: le_by_sint)
qed (auto simp: postgres_defs split: option.splits if_splits)

end
