(* ===== verification/Authority_Proof.thy ===== *)
theory Authority_Proof
  imports Persistence_Sqlite "HOL-Library.Char_ord" "HOL-Library.List_Lexorder" "HOL-Library.Multiset"
begin

text \<open>
  Signed authority proofs and signed tokens (\<open>crates/infrastructure/security-adapter/src/authority.rs\<close>): the message an authority
  proof is signed over, the checks of the verifier, and the JWT codec with its rotating keys.

  Ed25519, SHA-256, base64 and serde are the parameter \<open>CryptoOps\<close>. Encodings that can be read off the front of a byte
  string are the locale \<open>prefix_code\<close>; the fields of the signed message are its interpretations.
\<close>

section \<open>Byte encodings\<close>

type_synonym bytes = "8 word list"

definition be_bytes :: "nat \<Rightarrow> 'a::len word \<Rightarrow> bytes" where
  "be_bytes n w = map (\<lambda>i. ucast (drop_bit (8 * (n - 1 - i)) w)) [0..<n]"

definition str_bytes :: "string \<Rightarrow> bytes" where
  "str_bytes s = map of_char s"

definition write_len_prefixed :: "bytes \<Rightarrow> bytes" where
  "write_len_prefixed bs = be_bytes 4 (of_nat (length bs) :: u32) @ bs"

definition write_object_id :: "ObjectId \<Rightarrow> bytes" where
  "write_object_id oid = be_bytes 16 oid"

definition write_optional_id :: "ObjectId option \<Rightarrow> bytes" where
  "write_optional_id oid = (case oid of Some i \<Rightarrow> 1 # write_object_id i | None \<Rightarrow> [0])"

definition write_commands :: "string list \<Rightarrow> bytes" where
  "write_commands commands =
     be_bytes 4 (of_nat (length commands) :: u32) @ concat (map (\<lambda>c. write_len_prefixed (str_bytes c)) commands)"

section \<open>Requests\<close>

record AuthorityVerificationRequest =
  avr_proof :: AuthorityProof
  avr_actor :: ActorContext
  avr_target :: DomainObjectRef
  avr_command_type :: string
  avr_trusted_now :: Timestamp

record AuthorityVerificationReceipt =
  verified_at :: Timestamp
  receipt_organization_id :: string
  receipt_object_type :: string
  receipt_command_type :: string
  receipt_delegation_depth :: u32

datatype AuthorityVerificationError =
    MissingSignature
  | InvalidSignature
  | Expired
  | NotYetValid
  | OrganizationMismatch
  | ObjectScopeMismatch
  | CommandNotAuthorized string
  | Revoked
  | AuthorityInfrastructure string

record ('sk, 'k, 'g, 'v) CryptoOps =
  signing_key_from_bytes :: "bytes \<Rightarrow> 'sk"
  verifying_key :: "'sk \<Rightarrow> 'k"
  key_sign :: "'sk \<Rightarrow> bytes \<Rightarrow> bytes"
  key_verify :: "'k \<Rightarrow> bytes \<Rightarrow> 'g \<Rightarrow> bool"
  signature_from_slice :: "bytes \<Rightarrow> 'g option"
  sha256_hex :: "bytes \<Rightarrow> string"
  display_id :: "ObjectId \<Rightarrow> string"
  base64_encode :: "bytes \<Rightarrow> string"
  base64_decode :: "string \<Rightarrow> bytes option"
  value_from_slice :: "bytes \<Rightarrow> 'v option"

fun proof_type_byte :: "ProofType \<Rightarrow> 8 word" where
  "proof_type_byte Jwt = 1"
| "proof_type_byte Paseto = 2"
| "proof_type_byte DelegationChain = 3"

definition canonical_authority_bytes :: "AuthorityVerificationRequest \<Rightarrow> bytes" where
  "canonical_authority_bytes request =
     (let p = avr_proof request; scope = proof_scope p; actor = avr_actor request; target = avr_target request
      in str_bytes ''ONYX-AUTHORITY-PROOF-V1'' @ [0]
         @ [proof_type_byte (proof_type p)]
         @ write_object_id (scope_organization_id scope)
         @ write_len_prefixed (str_bytes (scope_object_type scope))
         @ write_optional_id (scope_object_id scope)
         @ write_commands (sort (scope_command_types scope))
         @ be_bytes 4 (delegation_depth scope)
         @ be_bytes 8 (proof_issued_at p)
         @ be_bytes 8 (proof_expires_at p)
         @ write_object_id (user_id actor)
         @ write_object_id (device_id actor)
         @ write_object_id (actor_organization_id actor)
         @ write_object_id (ref_id target)
         @ write_len_prefixed (str_bytes (ref_type target))
         @ write_object_id (ref_organization_id target)
         @ write_len_prefixed (str_bytes (avr_command_type request)))"

definition proof_fingerprint :: "('sk, 'k, 'g, 'v) CryptoOps \<Rightarrow> AuthorityProof \<Rightarrow> string" where
  "proof_fingerprint X p =
     (let scope = proof_scope p
      in sha256_hex X (be_bytes 16 (scope_organization_id scope) @ str_bytes (scope_object_type scope)
           @ (case scope_object_id scope of Some oid \<Rightarrow> be_bytes 16 oid | None \<Rightarrow> [])
           @ concat (map str_bytes (scope_command_types scope))
           @ be_bytes 8 (proof_issued_at p) @ be_bytes 8 (proof_expires_at p)
           @ (case signature p of Some s \<Rightarrow> s | None \<Rightarrow> [])))"

section \<open>The verifier\<close>

record 'k Ed25519AuthorityVerifier =
  verifying_keys :: "'k list"
  revoked_fingerprints :: "string fset"

definition verifier_new :: "'k list \<Rightarrow> ('k Ed25519AuthorityVerifier, AuthorityVerificationError) result" where
  "verifier_new keys =
     (if keys = [] then Inl (AuthorityInfrastructure ''at least one Ed25519 verifying key is required'')
      else Inr \<lparr>verifying_keys = keys, revoked_fingerprints = {||}\<rparr>)"

fun seed_keys :: "('sk, 'k, 'g, 'v) CryptoOps \<Rightarrow> bytes list \<Rightarrow> ('k list, AuthorityVerificationError) result" where
  "seed_keys X [] = Inr []"
| "seed_keys X (seed # seeds) =
     (if length seed \<noteq> 32 then Inl (AuthorityInfrastructure ''Ed25519 signing seed must contain exactly 32 bytes'')
      else case seed_keys X seeds of
             Inl e \<Rightarrow> Inl e
           | Inr keys \<Rightarrow> Inr (verifying_key X (signing_key_from_bytes X seed) # keys))"

definition from_signing_seeds ::
    "('sk, 'k, 'g, 'v) CryptoOps \<Rightarrow> bytes list \<Rightarrow> ('k Ed25519AuthorityVerifier, AuthorityVerificationError) result" where
  "from_signing_seeds X seeds = (case seed_keys X seeds of Inl e \<Rightarrow> Inl e | Inr keys \<Rightarrow> verifier_new keys)"

definition verifier_revoke ::
    "('sk, 'k, 'g, 'v) CryptoOps \<Rightarrow> AuthorityProof \<Rightarrow> 'k Ed25519AuthorityVerifier \<Rightarrow> 'k Ed25519AuthorityVerifier" where
  "verifier_revoke X p v = v\<lparr>revoked_fingerprints := finsert (proof_fingerprint X p) (revoked_fingerprints v)\<rparr>"

definition unsigned :: "AuthorityVerificationRequest \<Rightarrow> AuthorityVerificationRequest" where
  "unsigned request = request\<lparr>avr_proof := (avr_proof request)\<lparr>signature := None\<rparr>\<rparr>"

definition sign_proof :: "('sk, 'k, 'g, 'v) CryptoOps \<Rightarrow> 'sk \<Rightarrow> AuthorityVerificationRequest \<Rightarrow> AuthorityProof" where
  "sign_proof X key request =
     (avr_proof request)\<lparr>signature := Some (key_sign X key (canonical_authority_bytes (unsigned request)))\<rparr>"

definition authority_verify ::
    "('sk, 'k, 'g, 'v) CryptoOps \<Rightarrow> 'k Ed25519AuthorityVerifier \<Rightarrow> AuthorityVerificationRequest
      \<Rightarrow> (VerifiedAuthority \<times> AuthorityVerificationReceipt, AuthorityVerificationError) result" where
  "authority_verify X v request =
     (let p = avr_proof request; scope = proof_scope p; target = avr_target request
      in if proof_fingerprint X p |\<in>| revoked_fingerprints v then Inl Revoked
         else if avr_trusted_now request < proof_issued_at p then Inl NotYetValid
         else if proof_expires_at p \<le> avr_trusted_now request then Inl Expired
         else if scope_organization_id scope \<noteq> actor_organization_id (avr_actor request)
                 \<or> scope_organization_id scope \<noteq> ref_organization_id target
           then Inl OrganizationMismatch
         else if scope_object_type scope \<noteq> ''*'' \<and> scope_object_type scope \<noteq> ref_type target
           then Inl ObjectScopeMismatch
         else if (case scope_object_id scope of Some oid \<Rightarrow> oid \<noteq> ref_id target | None \<Rightarrow> False)
           then Inl ObjectScopeMismatch
         else if \<not> (\<exists>allowed \<in> set (scope_command_types scope). allowed = ''*'' \<or> allowed = avr_command_type request)
           then Inl (CommandNotAuthorized (avr_command_type request))
         else (case signature p of
                 None \<Rightarrow> Inl MissingSignature
               | Some raw \<Rightarrow>
                   (case signature_from_slice X raw of
                      None \<Rightarrow> Inl InvalidSignature
                    | Some sig \<Rightarrow>
                        if \<not> (\<exists>key \<in> set (verifying_keys v). key_verify X key (canonical_authority_bytes (unsigned request)) sig)
                          then Inl InvalidSignature
                        else Inr (VerifiedAuthority,
                                  \<lparr>verified_at = avr_trusted_now request,
                                   receipt_organization_id = display_id X (scope_organization_id scope),
                                   receipt_object_type = ref_type target,
                                   receipt_command_type = avr_command_type request,
                                   receipt_delegation_depth = delegation_depth scope\<rparr>))))"

section \<open>Signed tokens\<close>

record SecretVersion =
  secret_value :: bytes
  secret_valid_until :: "Timestamp option"

record RotatingSecret =
  secret_current :: SecretVersion
  secret_previous :: "SecretVersion option"

record ('sk, 'k) Ed25519JwtCodec =
  codec_signing_key :: 'sk
  codec_verification_keys :: "('k \<times> Timestamp option) list"

definition codec_from_rotating_secret ::
    "('sk, 'k, 'g, 'v) CryptoOps \<Rightarrow> RotatingSecret \<Rightarrow> (('sk, 'k) Ed25519JwtCodec, AuthorityVerificationError) result" where
  "codec_from_rotating_secret X secret =
     (if length (secret_value (secret_current secret)) \<noteq> 32
        then Inl (AuthorityInfrastructure ''Ed25519 signing seed must contain exactly 32 bytes'')
      else
        let key = signing_key_from_bytes X (secret_value (secret_current secret))
        in case secret_previous secret of
             None \<Rightarrow> Inr \<lparr>codec_signing_key = key, codec_verification_keys = [(verifying_key X key, None)]\<rparr>
           | Some previous \<Rightarrow>
               if length (secret_value previous) \<noteq> 32
                 then Inl (AuthorityInfrastructure ''previous Ed25519 seed must contain exactly 32 bytes'')
               else Inr \<lparr>codec_signing_key = key,
                         codec_verification_keys = [(verifying_key X key, None),
                           (verifying_key X (signing_key_from_bytes X (secret_value previous)), secret_valid_until previous)]\<rparr>)"

definition jwt_header :: bytes where
  "jwt_header = str_bytes (''{'' @ [CHR 0x22] @ ''alg'' @ [CHR 0x22] @ '':'' @ [CHR 0x22] @ ''EdDSA'' @ [CHR 0x22] @ '',''
     @ [CHR 0x22] @ ''typ'' @ [CHR 0x22] @ '':'' @ [CHR 0x22] @ ''JWT'' @ [CHR 0x22] @ ''}'')"

text \<open>\<open>to_vec\<close> and \<open>from_slice\<close> are serde's conversions of the claims.\<close>

definition jwt_encode ::
    "('sk, 'k, 'g, 'v) CryptoOps \<Rightarrow> ('c \<Rightarrow> (bytes, string) result) \<Rightarrow> ('sk, 'k) Ed25519JwtCodec \<Rightarrow> 'c
      \<Rightarrow> (string, AuthorityVerificationError) result" where
  "jwt_encode X to_vec codec claims =
     (case to_vec claims of
        Inl e \<Rightarrow> Inl (AuthorityInfrastructure e)
      | Inr payload \<Rightarrow>
          let signing_input = base64_encode X jwt_header @ ''.'' @ base64_encode X payload
          in Inr (signing_input @ ''.'' @ base64_encode X (key_sign X (codec_signing_key codec) (str_bytes signing_input))))"

fun split_dot :: "string \<Rightarrow> string list" where
  "split_dot [] = [[]]"
| "split_dot (c # cs) =
     (if c = CHR ''.'' then [] # split_dot cs
      else case split_dot cs of p # ps \<Rightarrow> (c # p) # ps | [] \<Rightarrow> [[c]])"

definition key_current :: "Timestamp \<Rightarrow> 'k \<times> Timestamp option \<Rightarrow> bool" where
  "key_current now entry = (case snd entry of Some expiry \<Rightarrow> now < expiry | None \<Rightarrow> True)"

definition jwt_decode_at ::
    "'v JsonOps \<Rightarrow> ('sk, 'k, 'g, 'v) CryptoOps \<Rightarrow> (bytes \<Rightarrow> ('c, string) result) \<Rightarrow> ('sk, 'k) Ed25519JwtCodec \<Rightarrow> string \<Rightarrow> Timestamp
      \<Rightarrow> ('c, AuthorityVerificationError) result" where
  "jwt_decode_at J X from_slice codec token now =
     (case split_dot token of
        [header, payload, sig_text] \<Rightarrow>
          (case (case base64_decode X header of None \<Rightarrow> None | Some bs \<Rightarrow> value_from_slice X bs) of
             None \<Rightarrow> Inl InvalidSignature
           | Some header_value \<Rightarrow>
               if (case json_get J header_value ''alg'' of None \<Rightarrow> None | Some a \<Rightarrow> json_as_str J a) \<noteq> Some ''EdDSA''
                 then Inl InvalidSignature
               else
                 (case (case base64_decode X sig_text of None \<Rightarrow> None | Some bs \<Rightarrow> signature_from_slice X bs) of
                    None \<Rightarrow> Inl InvalidSignature
                  | Some sig \<Rightarrow>
                      if \<not> (\<exists>entry \<in> set (filter (key_current now) (codec_verification_keys codec)).
                            key_verify X (fst entry) (str_bytes (header @ ''.'' @ payload)) sig)
                        then Inl InvalidSignature
                      else
                        (case base64_decode X payload of
                           None \<Rightarrow> Inl InvalidSignature
                         | Some bs \<Rightarrow>
                             (case from_slice bs of
                                Inl e \<Rightarrow> Inl (AuthorityInfrastructure e)
                              | Inr claims \<Rightarrow> Inr claims))))
      | _ \<Rightarrow> Inl InvalidSignature)"

section \<open>Encodings that can be read off the front\<close>

locale prefix_code =
  fixes enc :: "'a \<Rightarrow> bytes" and ok :: "'a \<Rightarrow> bool"
  assumes prefix_free: "enc x @ r = enc y @ s \<Longrightarrow> ok x \<Longrightarrow> ok y \<Longrightarrow> x = y \<and> r = s"
begin

lemma append_eq: "ok x \<Longrightarrow> ok y \<Longrightarrow> enc x @ r = enc y @ s \<longleftrightarrow> x = y \<and> r = s"
  using prefix_free by auto

lemma injective: "ok x \<Longrightarrow> ok y \<Longrightarrow> enc x = enc y \<longleftrightarrow> x = y"
  using append_eq [of x y "[]" "[]"] by simp

lemma sequence_eq:
  assumes "length xs = length ys" and "\<forall>x \<in> set xs. ok x" and "\<forall>y \<in> set ys. ok y"
  shows "concat (map enc xs) @ r = concat (map enc ys) @ s \<longleftrightarrow> xs = ys \<and> r = s"
  using assms
proof (induction xs ys rule: list_induct2)
  case (Cons x xs y ys)
  then show ?case using append_eq [of x y "concat (map enc xs) @ r" "concat (map enc ys) @ s"] by auto
qed simp

end

lemma length_be_bytes [simp]: "length (be_bytes n w) = n"
  by (simp add: be_bytes_def)

lemma be_bytes_bit:
  assumes "k < 8 * n"
  shows "bit (be_bytes n w ! (n - 1 - k div 8)) (k mod 8) = bit w k"
proof -
  have "k div 8 < n" using assms by (simp add: less_mult_imp_div_less mult.commute)
  then have i: "n - 1 - k div 8 < n" "n - 1 - (n - 1 - k div 8) = k div 8" by auto
  then have "be_bytes n w ! (n - 1 - k div 8) = ucast (drop_bit (8 * (k div 8)) w)" by (simp add: be_bytes_def)
  then show ?thesis by (simp add: bit_simps)
qed

lemma be_bytes_inj:
  fixes v w :: "'a::len word"
  assumes "LENGTH('a) \<le> 8 * n" and "be_bytes n v = be_bytes n w"
  shows "v = w"
proof (rule bit_word_eqI)
  fix k
  assume "k < LENGTH('a)"
  then have "k < 8 * n" using assms(1) by simp
  from be_bytes_bit [OF this, of v] be_bytes_bit [OF this, of w] assms(2) show "bit v k \<longleftrightarrow> bit w k" by simp
qed

lemma str_bytes_inj [simp]: "str_bytes s = str_bytes t \<longleftrightarrow> s = t"
proof -
  have "inj (of_char :: char \<Rightarrow> 8 word)"
  proof (rule injI)
    fix c d :: char
    assume "of_char c = (of_char d :: 8 word)"
    then have "(of_nat (of_char c) :: 8 word) = of_nat (of_char d)" by (simp add: of_nat_of_char)
    then have "take_bit 8 (of_char c :: nat) = take_bit 8 (of_char d)" by (simp add: word_of_nat_eq_iff)
    then show "c = d" by (simp add: take_bit_eq_mod)
  qed
  then show ?thesis by (simp add: str_bytes_def inj_map_eq_map)
qed

lemma fixed_width_code:
  assumes "LENGTH('a) \<le> 8 * n"
  shows "prefix_code (be_bytes n :: 'a::len word \<Rightarrow> bytes) (\<lambda>_. True)"
  by unfold_locales (use assms be_bytes_inj [OF assms] in \<open>auto simp: append_eq_append_conv\<close>)

interpretation u32_code: prefix_code "be_bytes 4 :: u32 \<Rightarrow> bytes" "\<lambda>_. True"
  by (rule fixed_width_code) simp

interpretation u64_code: prefix_code "be_bytes 8 :: u64 \<Rightarrow> bytes" "\<lambda>_. True"
  by (rule fixed_width_code) simp

interpretation id_code: prefix_code write_object_id "\<lambda>_. True"
  using fixed_width_code [of 16, where 'a = 128] by (simp add: write_object_id_def [abs_def])

lemmas fixed_width_eqs = u32_code.injective u64_code.injective

lemma length_u32: "n < 2 ^ 32 \<Longrightarrow> m < 2 ^ 32 \<Longrightarrow> (of_nat n :: u32) = of_nat m \<longleftrightarrow> n = m"
  using word_of_nat_eq_iff [where 'a = 32, of n m] by (simp add: take_bit_nat_eq_self)

interpretation text_code: prefix_code "\<lambda>s. write_len_prefixed (str_bytes s)" "\<lambda>s. length s < 2 ^ 32"
proof
  fix s t :: string and r u
  assume eq: "write_len_prefixed (str_bytes s) @ r = write_len_prefixed (str_bytes t) @ u"
    and len: "length s < 2 ^ 32" "length t < 2 ^ 32"
  then have n: "(of_nat (length s) :: u32) = of_nat (length t)" "str_bytes s @ r = str_bytes t @ u"
    by (auto simp: write_len_prefixed_def fixed_width_eqs str_bytes_def)
  with len have "length (str_bytes s) = length (str_bytes t)" by (simp add: length_u32 str_bytes_def)
  with n(2) show "s = t \<and> r = u" by (simp add: append_eq_append_conv)
qed

interpretation optional_id_code: prefix_code write_optional_id "\<lambda>_. True"
  by unfold_locales (auto simp: write_optional_id_def id_code.append_eq split: option.splits)

interpretation commands_code: prefix_code write_commands "\<lambda>cs. length cs < 2 ^ 32 \<and> (\<forall>c \<in> set cs. length c < 2 ^ 32)"
proof
  fix cs ds :: "string list" and r u
  assume eq: "write_commands cs @ r = write_commands ds @ u"
    and ok: "length cs < 2 ^ 32 \<and> (\<forall>c \<in> set cs. length c < 2 ^ 32)" "length ds < 2 ^ 32 \<and> (\<forall>c \<in> set ds. length c < 2 ^ 32)"
  from eq have "(of_nat (length cs) :: u32) = of_nat (length ds)"
      "concat (map (\<lambda>c. write_len_prefixed (str_bytes c)) cs) @ r = concat (map (\<lambda>c. write_len_prefixed (str_bytes c)) ds) @ u"
    by (auto simp: write_commands_def fixed_width_eqs)
  with ok text_code.sequence_eq [of cs ds r u] show "cs = ds \<and> r = u" by (simp add: length_u32)
qed

lemma proof_type_byte_inj [simp]: "proof_type_byte a = proof_type_byte b \<longleftrightarrow> a = b"
  by (cases a; cases b) simp_all

lemmas field_eqs = fixed_width_eqs id_code.append_eq text_code.append_eq optional_id_code.append_eq
  commands_code.append_eq

text \<open>The fields of a message fit their length prefixes.\<close>

definition fields_fit :: "AuthorityVerificationRequest \<Rightarrow> bool" where
  "fields_fit r \<longleftrightarrow> length (scope_object_type (proof_scope (avr_proof r))) < 2 ^ 32
     \<and> length (scope_command_types (proof_scope (avr_proof r))) < 2 ^ 32
     \<and> (\<forall>c \<in> set (scope_command_types (proof_scope (avr_proof r))). length c < 2 ^ 32)
     \<and> length (ref_type (avr_target r)) < 2 ^ 32 \<and> length (avr_command_type r) < 2 ^ 32"

text \<open>What a signature is about: everything but the time of the check, the signature itself and the order of the command types.\<close>

definition signed_content where
  "signed_content r = (let p = avr_proof r; s = proof_scope p in
     (proof_type p, scope_organization_id s, scope_object_type s, scope_object_id s, mset (scope_command_types s), delegation_depth s,
      proof_issued_at p, proof_expires_at p, avr_actor r, avr_target r, avr_command_type r))"

lemma sort_eq_mset: "sort xs = sort ys \<longleftrightarrow> mset xs = mset ys"
  by (metis mset_sort properties_for_sort sorted_sort)

lemma canonical_bytes_eq:
  assumes "fields_fit r" and "fields_fit q"
  shows "canonical_authority_bytes r = canonical_authority_bytes q \<longleftrightarrow> signed_content r = signed_content q"
  using assms text_code.injective [of "avr_command_type r" "avr_command_type q"]
  by (simp add: canonical_authority_bytes_def signed_content_def fields_fit_def Let_def field_eqs sort_eq_mset)
    (cases "avr_actor r"; cases "avr_actor q"; cases "avr_target r"; cases "avr_target q"; auto)

section \<open>Reading tokens\<close>

lemma split_dot_append:
  assumes "CHR ''.'' \<notin> set p"
  shows "split_dot (p @ CHR ''.'' # s) = p # split_dot s" and "split_dot p = [p]"
  using assms by (induction p) auto

lemma jwt_decode_cases:
  assumes "jwt_decode_at J X from_slice codec token now = Inr claims"
  obtains header payload raw sigtext sig k body where
    "split_dot token = [header, payload, sigtext]" and "base64_decode X sigtext = Some raw" and "signature_from_slice X raw = Some sig" and "k \<in> set (codec_verification_keys codec)" and "key_current now k"
    and "key_verify X (fst k) (str_bytes (header @ ''.'' @ payload)) sig" and "base64_decode X payload = Some body"
    and "from_slice body = Inr claims"
  using assms by (auto simp: jwt_decode_at_def split: list.splits option.splits if_splits sum.splits)

section \<open>Properties\<close>

text \<open>A toy instance of the parameters: the key is part of the signature, and base64 maps bytes to letters.\<close>

definition toy_digit :: "nat \<Rightarrow> char" where
  "toy_digit n = char_of (97 + n)"

definition toy_crypto :: "(8 word, 8 word, bytes, string) CryptoOps" where
  "toy_crypto = \<lparr>signing_key_from_bytes = (\<lambda>bs. hd bs), verifying_key = (\<lambda>k. k), key_sign = (\<lambda>k m. k # m),
     key_verify = (\<lambda>k m s. s = k # m), signature_from_slice = Some, sha256_hex = (\<lambda>bs. concat (map (\<lambda>b. [char_of (unat b)]) bs)),
     display_id = (\<lambda>_. ''id''), base64_encode = (\<lambda>bs. concat (map (\<lambda>b. [toy_digit (unat b div 16), toy_digit (unat b mod 16)]) bs)),
     base64_decode = (\<lambda>s. Some (map (\<lambda>i. of_nat (16 * (of_char (s ! (2 * i)) - 97) + (of_char (s ! (2 * i + 1)) - 97))) [0..<length s div 2])),
     value_from_slice = (\<lambda>_. Some ''h'')\<rparr>"

definition toy_json :: "string JsonOps" where
  "toy_json = \<lparr>json_get = (\<lambda>v k. Some k), json_get_0 = (\<lambda>_. None), json_is_null = (\<lambda>_. False),
     json_as_array = (\<lambda>v. if v = ''events'' then Some [] else if v = ''escalated_to'' then None else Some (replicate 16 ''byte'')),
     json_as_u64 = (\<lambda>_. Some 0), json_as_i64 = (\<lambda>_. Some 1), json_as_str = (\<lambda>v. Some (if v = ''alg'' then ''EdDSA'' else v)), json_null = [],
     value_to_text = Some, text_to_value = Some\<rparr>"

definition proof_sample :: AuthorityVerificationRequest where
  "proof_sample = \<lparr>avr_proof = \<lparr>proof_type = Jwt, proof_scope = \<lparr>scope_organization_id = 3, scope_object_type = ''*'', scope_object_id = None,
       scope_command_types = [''task.Close'', ''task.Approve''], delegation_depth = 0\<rparr>, proof_issued_at = 5, proof_expires_at = 50, signature = None\<rparr>,
     avr_actor = \<lparr>user_id = 1, device_id = 2, actor_organization_id = 3\<rparr>,
     avr_target = \<lparr>ref_id = 9, ref_type = ''task'', ref_organization_id = 3\<rparr>, avr_command_type = ''task.Close'', avr_trusted_now = 10\<rparr>"

text \<open>
  C14. A signature is bound to what it was given for: two requests are signed over the same bytes exactly when they agree on the
  kind of proof, its whole scope (the command types as a multiset), its period, the actor, the target and the
  command. So a proof cannot be presented for another actor, target or command.
\<close>

theorem proof_binding:
  assumes "fields_fit r" and "fields_fit q"
  shows "canonical_authority_bytes r = canonical_authority_bytes q \<longleftrightarrow>
    proof_type (avr_proof r) = proof_type (avr_proof q)
    \<and> proof_scope (avr_proof r) = (proof_scope (avr_proof q))\<lparr>scope_command_types := scope_command_types (proof_scope (avr_proof r))\<rparr>
    \<and> mset (scope_command_types (proof_scope (avr_proof r))) = mset (scope_command_types (proof_scope (avr_proof q)))
    \<and> proof_issued_at (avr_proof r) = proof_issued_at (avr_proof q) \<and> proof_expires_at (avr_proof r) = proof_expires_at (avr_proof q)
    \<and> avr_actor r = avr_actor q \<and> avr_target r = avr_target q \<and> avr_command_type r = avr_command_type q"
  unfolding canonical_bytes_eq [OF assms] signed_content_def Let_def
  by (cases "proof_scope (avr_proof r)"; cases "proof_scope (avr_proof q)") auto

theorem proof_binding_witness:
  "canonical_authority_bytes proof_sample \<noteq> canonical_authority_bytes (proof_sample\<lparr>avr_command_type := ''task.Approve''\<rparr>)"
  using proof_binding [of proof_sample "proof_sample\<lparr>avr_command_type := ''task.Approve''\<rparr>"]
  by (simp add: proof_sample_def fields_fit_def)

text \<open>
  What the verifier accepts: a proof that was not revoked, is within its period, belongs to the organisation of actor and target,
  covers the target and the command, and carries a signature of one of the keys over the request; a proof signed with one of the
  keys passes every check of the signature; and a revoked proof is refused.
\<close>

theorem authority_verify_exact:
  "((\<exists>res. authority_verify X v r = Inr res) \<longleftrightarrow>
      proof_fingerprint X (avr_proof r) |\<notin>| revoked_fingerprints v
      \<and> proof_issued_at (avr_proof r) \<le> avr_trusted_now r \<and> avr_trusted_now r < proof_expires_at (avr_proof r)
      \<and> scope_organization_id (proof_scope (avr_proof r)) = actor_organization_id (avr_actor r)
      \<and> scope_organization_id (proof_scope (avr_proof r)) = ref_organization_id (avr_target r)
      \<and> scope_object_type (proof_scope (avr_proof r)) \<in> {''*'', ref_type (avr_target r)}
      \<and> scope_object_id (proof_scope (avr_proof r)) \<in> {None, Some (ref_id (avr_target r))}
      \<and> (''*'' \<in> set (scope_command_types (proof_scope (avr_proof r)))
          \<or> avr_command_type r \<in> set (scope_command_types (proof_scope (avr_proof r))))
      \<and> (\<exists>raw sig k. signature (avr_proof r) = Some raw \<and> signature_from_slice X raw = Some sig \<and> k \<in> set (verifying_keys v)
           \<and> key_verify X k (canonical_authority_bytes (unsigned r)) sig))
   \<and> authority_verify X (verifier_revoke X (avr_proof r) v) r = Inl Revoked
   \<and> signature (sign_proof X key r) = Some (key_sign X key (canonical_authority_bytes (unsigned (r\<lparr>avr_proof := sign_proof X key r\<rparr>))))"
proof (intro conjI)
  show "authority_verify X (verifier_revoke X (avr_proof r) v) r = Inl Revoked"
    by (simp add: authority_verify_def verifier_revoke_def Let_def)
  show "signature (sign_proof X key r) = Some (key_sign X key (canonical_authority_bytes (unsigned (r\<lparr>avr_proof := sign_proof X key r\<rparr>))))"
    by (simp add: sign_proof_def unsigned_def)
qed (auto simp: authority_verify_def Let_def not_less not_le split: option.splits if_splits)

lemma jwt_decode_encoded:
  assumes laws: "\<And>bs. base64_decode X (base64_encode X bs) = Some bs" "\<And>bs. CHR ''.'' \<notin> set (base64_encode X bs)"
      "\<And>key m. \<exists>sig. signature_from_slice X (key_sign X key m) = Some sig \<and> key_verify X (verifying_key X key) m sig"
      "\<And>c bs. to_vec c = Inr bs \<Longrightarrow> from_slice bs = Inr c"
      "\<exists>v a. value_from_slice X jwt_header = Some v \<and> json_get J v ''alg'' = Some a \<and> json_as_str J a = Some ''EdDSA''"
    and enc: "codec_from_rotating_secret X old = Inr codec" "jwt_encode X to_vec codec claims = Inr token"
    and dec: "codec_from_rotating_secret X new = Inr codec'"
      "secret_value (secret_current new) = secret_value (secret_current old)
        \<or> (\<exists>prev. secret_previous new = Some prev \<and> secret_value prev = secret_value (secret_current old)
             \<and> (\<forall>expiry. secret_valid_until prev = Some expiry \<longrightarrow> now < expiry))"
  shows "jwt_decode_at J X from_slice codec' token now = Inr claims"
proof -
  let ?key = "signing_key_from_bytes X (secret_value (secret_current old))"
  have key: "codec_signing_key codec = ?key" using enc(1) by (auto simp: codec_from_rotating_secret_def Let_def split: if_splits option.splits)
  from enc(2) obtain payload where p: "to_vec claims = Inr payload" "token = base64_encode X jwt_header @ ''.'' @ base64_encode X payload @ ''.''
      @ base64_encode X (key_sign X ?key (str_bytes (base64_encode X jwt_header @ ''.'' @ base64_encode X payload)))"
    by (auto simp: jwt_encode_def key Let_def split: sum.splits)
  have split: "split_dot token = [base64_encode X jwt_header, base64_encode X payload,
      base64_encode X (key_sign X ?key (str_bytes (base64_encode X jwt_header @ ''.'' @ base64_encode X payload)))]"
    unfolding p(2) by (simp add: split_dot_append laws(2))
  obtain sig where sig: "signature_from_slice X (key_sign X ?key (str_bytes (base64_encode X jwt_header @ ''.'' @ base64_encode X payload))) = Some sig"
      "key_verify X (verifying_key X ?key) (str_bytes (base64_encode X jwt_header @ ''.'' @ base64_encode X payload)) sig"
    using laws(3) by blast
  have "\<exists>expiry. (verifying_key X ?key, expiry) \<in> set (codec_verification_keys codec') \<and> key_current now (verifying_key X ?key, expiry)"
    using dec(2)
  proof
    assume "secret_value (secret_current new) = secret_value (secret_current old)"
    with dec(1) show ?thesis
      by (intro exI [of _ None]) (auto simp: codec_from_rotating_secret_def key_current_def Let_def split: if_splits option.splits)
  next
    assume "\<exists>prev. secret_previous new = Some prev \<and> secret_value prev = secret_value (secret_current old)
      \<and> (\<forall>expiry. secret_valid_until prev = Some expiry \<longrightarrow> now < expiry)"
    then obtain prev where "secret_previous new = Some prev" "secret_value prev = secret_value (secret_current old)"
      "\<forall>expiry. secret_valid_until prev = Some expiry \<longrightarrow> now < expiry" by blast
    with dec(1) show ?thesis
      by (intro exI [of _ "secret_valid_until prev"])
        (auto simp: codec_from_rotating_secret_def key_current_def Let_def split: if_splits option.splits)
  qed
  with split sig laws(1,4,5) p(1) show ?thesis
    by (fastforce simp: jwt_decode_at_def)
qed

text \<open>
  A token can be read back: decoding what was encoded under the current key gives the claims, also after the key
  was rotated into the place of the previous one, until that key expires; and whatever is
  decoded carries, over its first two parts, a signature of a key that has not expired.
\<close>

theorem jwt_roundtrip:
  assumes laws: "\<And>bs. base64_decode X (base64_encode X bs) = Some bs" "\<And>bs. CHR ''.'' \<notin> set (base64_encode X bs)"
      "\<And>key m. \<exists>sig. signature_from_slice X (key_sign X key m) = Some sig \<and> key_verify X (verifying_key X key) m sig"
      "\<And>c bs. to_vec c = Inr bs \<Longrightarrow> from_slice bs = Inr c"
      "\<exists>v a. value_from_slice X jwt_header = Some v \<and> json_get J v ''alg'' = Some a \<and> json_as_str J a = Some ''EdDSA''"
    and enc: "codec_from_rotating_secret X old = Inr codec" "jwt_encode X to_vec codec claims = Inr token"
    and dec: "codec_from_rotating_secret X new = Inr codec'"
      "secret_value (secret_current new) = secret_value (secret_current old)
        \<or> (\<exists>prev. secret_previous new = Some prev \<and> secret_value prev = secret_value (secret_current old)
             \<and> (\<forall>expiry. secret_valid_until prev = Some expiry \<longrightarrow> now < expiry))"
  shows "jwt_decode_at J X from_slice codec' token now = Inr claims
    \<and> (jwt_decode_at J X from_slice codec' token' now = Inr claims' \<longrightarrow>
        (\<exists>header payload sigtext raw sig k. split_dot token' = [header, payload, sigtext] \<and> base64_decode X sigtext = Some raw
            \<and> signature_from_slice X raw = Some sig \<and> k \<in> set (codec_verification_keys codec') \<and> key_current now k
            \<and> key_verify X (fst k) (str_bytes (header @ ''.'' @ payload)) sig))"
proof
  show "jwt_decode_at J X from_slice codec' token now = Inr claims"
    by (rule jwt_decode_encoded [OF laws(1-3) _ laws(5) enc dec]) (rule laws(4))
qed (blast elim: jwt_decode_cases)

lemma toy_digit_back: "n < 16 \<Longrightarrow> of_char (toy_digit n) - 97 = n" and toy_digit_dot: "n < 16 \<Longrightarrow> toy_digit n \<noteq> CHR ''.''"
proof -
  assume "n < 16"
  then have "(of_char (toy_digit n) :: nat) = 97 + n" by (simp add: toy_digit_def)
  then show "of_char (toy_digit n) - 97 = n" and "toy_digit n \<noteq> CHR ''.''" by auto
qed

lemma toy_base64:
  "base64_decode toy_crypto (base64_encode toy_crypto bs) = Some bs" "CHR ''.'' \<notin> set (base64_encode toy_crypto bs)"
proof -
  let ?e = "\<lambda>b. [toy_digit (unat b div 16), toy_digit (unat b mod 16)]"
  have small: "unat (b :: 8 word) div 16 < 16" for b using unsigned_less [of b, where 'a = nat] by simp
  have join: "16 * word_of_nat (unat b div 16) + word_of_nat (unat b mod 16) = b" for b :: "8 word"
  proof -
    have "16 * word_of_nat (unat b div 16) + word_of_nat (unat b mod 16) = (word_of_nat (16 * (unat b div 16) + unat b mod 16) :: 8 word)"
      by (simp only: of_nat_add of_nat_mult of_nat_numeral)
    then show ?thesis by (simp del: of_nat_add of_nat_mult)
  qed
  have len: "length (concat (map ?e bs)) = 2 * length bs" for bs :: bytes by (induction bs) simp_all
  have "concat (map ?e bs) ! (2 * i) = toy_digit (unat (bs ! i) div 16) \<and> concat (map ?e bs) ! (2 * i + 1) = toy_digit (unat (bs ! i) mod 16)"
    if "i < length bs" for i
    using that
  proof (induction bs arbitrary: i)
    case (Cons b bs)
    then show ?case by (cases i) simp_all
  qed simp
  then show "base64_decode toy_crypto (base64_encode toy_crypto bs) = Some bs"
    by (auto simp: toy_crypto_def len toy_digit_back small intro!: nth_equalityI) (simp add: join)
  show "CHR ''.'' \<notin> set (base64_encode toy_crypto bs)"
    by (auto simp: toy_crypto_def toy_digit_dot [OF small] toy_digit_dot [symmetric] toy_digit_dot [OF small, symmetric])
qed

theorem jwt_roundtrip_witness:
  "\<exists>codec codec' token. codec_from_rotating_secret toy_crypto \<lparr>secret_current = \<lparr>secret_value = replicate 32 7, secret_valid_until = None\<rparr>, secret_previous = None\<rparr> = Inr codec
     \<and> codec_from_rotating_secret toy_crypto \<lparr>secret_current = \<lparr>secret_value = replicate 32 8, secret_valid_until = None\<rparr>,
          secret_previous = Some \<lparr>secret_value = replicate 32 7, secret_valid_until = Some 100\<rparr>\<rparr> = Inr codec'
     \<and> jwt_encode toy_crypto Inr codec [1, 2] = Inr token \<and> jwt_decode_at toy_json toy_crypto Inr codec' token 50 = Inr [1, 2]"
proof -
  let ?old = "\<lparr>secret_current = \<lparr>secret_value = replicate 32 7, secret_valid_until = None\<rparr>, secret_previous = None\<rparr>"
  let ?new = "\<lparr>secret_current = \<lparr>secret_value = replicate 32 8, secret_valid_until = None\<rparr>,
      secret_previous = Some \<lparr>secret_value = replicate 32 7, secret_valid_until = Some 100\<rparr>\<rparr>"
  obtain codec codec' where c: "codec_from_rotating_secret toy_crypto ?old = Inr codec" "codec_from_rotating_secret toy_crypto ?new = Inr codec'"
    by (simp add: codec_from_rotating_secret_def Let_def)
  obtain token where t: "jwt_encode toy_crypto Inr codec [1, 2] = Inr token" by (simp add: jwt_encode_def Let_def)
  have "jwt_decode_at toy_json toy_crypto Inr codec' token 50 = Inr [1, 2]"
    by (rule jwt_roundtrip [OF toy_base64 _ _ _ c(1) t c(2), THEN conjunct1])
      (simp_all add: toy_crypto_def toy_json_def)
  with c t show ?thesis by blast
qed

end
