(* ===== verification/Api_Auth.thy ===== *)
theory Api_Auth
  imports Token_Revocation Authority_Proof User_Store
begin

text \<open>
  Sessions of the API server (\<open>crates/bins/api-server/src/routes/mod.rs\<close>, \<open>auth.rs\<close>, \<open>client_type.rs\<close>, and
  \<open>crates/infrastructure/security-adapter/src/password.rs\<close>): client classes and their capabilities, tokens, login, refresh and logout.

  \<open>AuthEnv\<close> is what one request takes from outside: cryptography and serde, the signing secret, clock readings in the order the code takes
  them, random uuids, the faults of the stores, and \<open>JsonBuild\<close>, the constructors behind the macro \<open>json!\<close>.
\<close>

section \<open>Errors of the API\<close>

record 'v JsonBuild =
  jb_object :: "(string \<times> 'v) list \<Rightarrow> 'v"
  jb_string :: "string \<Rightarrow> 'v"
  jb_u64 :: "u64 \<Rightarrow> 'v"
  jb_bool :: "bool \<Rightarrow> 'v"
  jb_array :: "'v list \<Rightarrow> 'v"
  jb_null :: 'v

record 'v ApiError =
  err_status :: nat
  err_code :: string
  err_category :: string
  err_retryability :: string
  err_safe_details :: 'v
  err_correlation_id :: string

definition ApiError_new :: "nat \<Rightarrow> string \<Rightarrow> string \<Rightarrow> string \<Rightarrow> string \<Rightarrow> 'v \<Rightarrow> 'v ApiError" where
  "ApiError_new status error_code category retryability correlation_id details =
     \<lparr>err_status = status, err_code = error_code, err_category = category, err_retryability = retryability,
      err_safe_details = details, err_correlation_id = correlation_id\<rparr>"

definition ApiError_unauthorized :: "'v JsonBuild \<Rightarrow> string \<Rightarrow> 'v ApiError" where
  "ApiError_unauthorized B correlation_id =
     ApiError_new 401 ''UNAUTHORIZED'' ''AUTHORITY'' ''NON_RETRYABLE'' correlation_id
       (jb_object B [(''message'', jb_string B ''Authentication required'')])"

section \<open>Client classes\<close>

datatype ClientType = Mobile | MobileObserver | Desktop | Admin | Web

fun client_as_str :: "ClientType \<Rightarrow> string" where
  "client_as_str Mobile = ''mobile''"
| "client_as_str MobileObserver = ''mobile_observer''"
| "client_as_str Desktop = ''desktop''"
| "client_as_str Admin = ''admin''"
| "client_as_str Web = ''web''"

definition default_on_absence :: ClientType where
  "default_on_absence = Web"

record ClientCapabilities =
  can_read_projections :: bool
  can_read_notifications :: bool
  can_read_evidence :: bool
  can_download_files :: bool
  can_submit_domain_commands :: bool
  can_approve :: bool
  can_transition_lifecycle :: bool
  can_resolve_conflicts :: bool
  can_upload_files :: bool
  can_administer :: bool

definition FULL_CAPABILITIES :: ClientCapabilities where
  "FULL_CAPABILITIES = \<lparr>can_read_projections = True, can_read_notifications = True, can_read_evidence = True,
     can_download_files = True, can_submit_domain_commands = True, can_approve = True, can_transition_lifecycle = True,
     can_resolve_conflicts = True, can_upload_files = True, can_administer = True\<rparr>"

definition OBSERVER_CAPABILITIES :: ClientCapabilities where
  "OBSERVER_CAPABILITIES = \<lparr>can_read_projections = True, can_read_notifications = True, can_read_evidence = True,
     can_download_files = True, can_submit_domain_commands = False, can_approve = False, can_transition_lifecycle = False,
     can_resolve_conflicts = False, can_upload_files = False, can_administer = False\<rparr>"

fun capabilities_for :: "ClientType \<Rightarrow> ClientCapabilities" where
  "capabilities_for MobileObserver = OBSERVER_CAPABILITIES"
| "capabilities_for _ = FULL_CAPABILITIES"

section \<open>Tokens\<close>

record TokenScope =
  ts_object_type :: string
  ts_object_id :: "string option"
  ts_command_types :: "string list"
  ts_delegation_depth :: u32
  ts_self_replica :: "string option"

record TokenClaims =
  tc_iss :: string
  tc_aud :: string
  tc_sub :: string
  tc_username :: string
  tc_organization_id :: string
  tc_token_type :: string
  tc_scope :: TokenScope
  tc_client_type :: ClientType
  tc_iat :: u64
  tc_exp :: u64
  tc_jti :: string

record AuthenticatedUser =
  au_user_id :: string
  au_username :: string
  au_organization_id :: string
  au_token :: string
  au_scope :: TokenScope
  au_client_type :: ClientType

record ('sk, 'k, 'g, 'v) AuthEnv =
  ae_json :: "'v JsonOps"
  ae_build :: "'v JsonBuild"
  ae_crypto :: "('sk, 'k, 'g, 'v) CryptoOps"
  ae_secret :: "(RotatingSecret, string) result"
  ae_to_vec :: "TokenClaims \<Rightarrow> (bytes, string) result"
  ae_from_slice :: "bytes \<Rightarrow> (TokenClaims, string) result"
  ae_now :: Timestamp
  ae_unix :: "nat \<Rightarrow> u64"
  ae_uuid :: "nat \<Rightarrow> string"
  ae_user_fault :: "nat \<Rightarrow> string option"
  ae_to_lowercase :: "string \<Rightarrow> string"
  ae_parse_hash :: "string \<Rightarrow> (string, string) result"
  ae_argon2_verify :: "string \<Rightarrow> string \<Rightarrow> bool"
  ae_argon2_hash :: "string \<Rightarrow> (string, string) result"

definition require_capability ::
    "('sk, 'k, 'g, 'v) AuthEnv \<Rightarrow> AuthenticatedUser \<Rightarrow> (ClientCapabilities \<Rightarrow> bool) \<Rightarrow> string \<Rightarrow> (unit, 'v ApiError) result" where
  "require_capability E auth check required_capability =
     (if check (capabilities_for (au_client_type auth)) then Inr ()
      else Inl (ApiError_new 403 ''CLIENT_CAPABILITY_DENIED'' ''AUTHORITY'' ''NON_RETRYABLE'' (ae_uuid E 0)
             (jb_object (ae_build E) [(''client_type'', jb_string (ae_build E) (client_as_str (au_client_type auth))),
                                      (''required_capability'', jb_string (ae_build E) required_capability)])))"

definition ONYX_API_TOKEN_ISSUER :: string where
  "ONYX_API_TOKEN_ISSUER = ''onyx-api-server''"

definition ONYX_API_TOKEN_AUDIENCE :: string where
  "ONYX_API_TOKEN_AUDIENCE = ''onyx-api''"

definition issued_command_types :: "string list" where
  "issued_command_types =
     [''notification.Acknowledge'', ''approval.Approve'', ''approval.Reject'',
      ''policy.CreatePolicyVersion'', ''policy.PublishPolicyVersion'', ''policy.EvaluatePolicy'', ''policy.RegisterViolation'',
      ''policy.RetirePolicy'', ''legal_hold.ReleaseLegalHold'',
      ''todo_list.AddItem'', ''todo_list.SubmitTodoList'', ''todo_list.RecordTeamLeaderPreCheck'', ''todo_list.VerifyTodoList'',
      ''todo_list.RejectTodoList'', ''todo_list.EscalateTodoList'',
      ''target_list.SubmitTargetList'', ''target_list.RecordTeamLeaderPreCheck'', ''target_list.VerifyTargetList'',
      ''target_list.RejectTargetList'', ''target_list.EscalateTargetList'',
      ''staff_loan.ApproveStaffLoan'', ''staff_loan.DeclineStaffLoan'', ''staff_loan.ExtendStaffLoan'', ''staff_loan.EndStaffLoanEarly'',
      ''staff_loan.EscalateStaffLoan'', ''staff_loan.ExpireStaffLoan'']"

text \<open>\<open>i\<close> is the number of the clock reading, \<open>j\<close> that of the uuid.\<close>

definition issued_claims ::
    "('sk, 'k, 'g, 'v) AuthEnv \<Rightarrow> nat \<Rightarrow> nat \<Rightarrow> UserRecord \<Rightarrow> string \<Rightarrow> u64 \<Rightarrow> ClientType \<Rightarrow> TokenClaims" where
  "issued_claims E i j user token_type ttl_seconds client_type =
     \<lparr>tc_iss = ONYX_API_TOKEN_ISSUER, tc_aud = ONYX_API_TOKEN_AUDIENCE, tc_sub = u_user_id user, tc_username = u_username user,
      tc_organization_id = u_organization_id user, tc_token_type = token_type,
      tc_scope = \<lparr>ts_object_type = ''*'', ts_object_id = None, ts_command_types = issued_command_types, ts_delegation_depth = 0,
        ts_self_replica = None\<rparr>,
      tc_client_type = client_type, tc_iat = ae_unix E i, tc_exp = ae_unix E i + ttl_seconds, tc_jti = ae_uuid E j\<rparr>"

definition issue_token ::
    "('sk, 'k, 'g, 'v) AuthEnv \<Rightarrow> nat \<Rightarrow> nat \<Rightarrow> UserRecord \<Rightarrow> string \<Rightarrow> u64 \<Rightarrow> ClientType \<Rightarrow> string option" where
  "issue_token E i j user token_type ttl_seconds client_type =
     (case ae_secret E of
        Inl _ \<Rightarrow> None
      | Inr secret \<Rightarrow>
          (case codec_from_rotating_secret (ae_crypto E) secret of
             Inl _ \<Rightarrow> None
           | Inr codec \<Rightarrow>
               (case jwt_encode (ae_crypto E) (ae_to_vec E) codec (issued_claims E i j user token_type ttl_seconds client_type) of
                  Inl _ \<Rightarrow> None
                | Inr token \<Rightarrow> Some token)))"

definition token_hash :: "('sk, 'k, 'g, 'v) AuthEnv \<Rightarrow> string \<Rightarrow> string" where
  "token_hash E token = sha256_hex (ae_crypto E) (str_bytes token)"

definition decode_claims :: "('sk, 'k, 'g, 'v) AuthEnv \<Rightarrow> string \<Rightarrow> TokenClaims option" where
  "decode_claims E token =
     (case ae_secret E of
        Inl _ \<Rightarrow> None
      | Inr secret \<Rightarrow>
          (case codec_from_rotating_secret (ae_crypto E) secret of
             Inl _ \<Rightarrow> None
           | Inr codec \<Rightarrow>
               (case jwt_decode_at (ae_json E) (ae_crypto E) (ae_from_slice E) codec token (ae_now E) of
                  Inl _ \<Rightarrow> None
                | Inr claims \<Rightarrow> Some claims)))"

definition validate_token ::
    "('sk, 'k, 'g, 'v) AuthEnv \<Rightarrow> nat \<Rightarrow> 's RevocationOps \<Rightarrow> 's \<Rightarrow> string \<Rightarrow> string \<Rightarrow> (TokenClaims, 'v ApiError) result" where
  "validate_token E i R store token expected_type =
     (let unauthorized = Inl (ApiError_unauthorized (ae_build E) (ae_uuid E 0))
      in case decode_claims E token of
           None \<Rightarrow> unauthorized
         | Some claims \<Rightarrow>
             if tc_iss claims \<noteq> ONYX_API_TOKEN_ISSUER \<or> tc_aud claims \<noteq> ONYX_API_TOKEN_AUDIENCE
                \<or> tc_exp claims \<le> ae_unix E i \<or> ae_unix E (i + 1) < tc_iat claims \<or> tc_token_type claims \<noteq> expected_type
               then unauthorized
             else (case rv_is_token_revoked R (token_hash E token) store of
                     Inl _ \<Rightarrow> unauthorized
                   | Inr revoked \<Rightarrow>
                       if revoked then unauthorized
                       else (case rv_user_revoked_before R (tc_sub claims) store of
                               Inl _ \<Rightarrow> unauthorized
                             | Inr (Some revoked_before) \<Rightarrow>
                                 if tc_iat claims \<le> revoked_before then unauthorized else Inr claims
                             | Inr None \<Rightarrow> Inr claims)))"

definition principal_current :: "TokenClaims \<Rightarrow> UserRecord \<Rightarrow> bool" where
  "principal_current claims user \<longleftrightarrow>
     u_is_active user \<and> u_username user = tc_username claims \<and> u_organization_id user = tc_organization_id claims"

text \<open>\<open>k\<close> is the number of the user store call in the request.\<close>

definition revalidate_token_principal ::
    "('sk, 'k, 'g, 'v) AuthEnv \<Rightarrow> nat \<Rightarrow> UserDb \<Rightarrow> TokenClaims \<Rightarrow> (UserRecord, 'v ApiError) result" where
  "revalidate_token_principal E k db claims =
     (case find_by_id (\<lambda>_. ae_user_fault E k) (tc_sub claims) db of
        Inl _ \<Rightarrow> Inl (ApiError_new 503 ''AUTHORIZATION_STATE_UNAVAILABLE'' ''INFRASTRUCTURE'' ''TRANSIENT'' (ae_uuid E 0) (jb_object (ae_build E) []))
      | Inr None \<Rightarrow> Inl (ApiError_unauthorized (ae_build E) (ae_uuid E 0))
      | Inr (Some user) \<Rightarrow>
          if principal_current claims user then Inr user else Inl (ApiError_unauthorized (ae_build E) (ae_uuid E 0)))"

definition strip_bearer :: "string \<Rightarrow> string option" where
  "strip_bearer header = (if take 7 header = ''Bearer '' then Some (drop 7 header) else None)"

text \<open>\<open>header\<close> is the value of the Authorization header when it is visible ASCII.\<close>

definition authenticate_headers ::
    "('sk, 'k, 'g, 'v) AuthEnv \<Rightarrow> 's RevocationOps \<Rightarrow> 's \<Rightarrow> UserDb \<Rightarrow> string option \<Rightarrow> (AuthenticatedUser, 'v ApiError) result" where
  "authenticate_headers E R store db header =
     (case (case header of None \<Rightarrow> None | Some h \<Rightarrow> strip_bearer h) of
        None \<Rightarrow> Inl (ApiError_unauthorized (ae_build E) (ae_uuid E 0))
      | Some token \<Rightarrow>
          (case validate_token E 0 R store token ''access'' of
             Inl e \<Rightarrow> Inl e
           | Inr claims \<Rightarrow>
               (case revalidate_token_principal E 0 db claims of
                  Inl e \<Rightarrow> Inl e
                | Inr current_user \<Rightarrow>
                    Inr \<lparr>au_user_id = u_user_id current_user, au_username = u_username current_user,
                         au_organization_id = u_organization_id current_user, au_token = token, au_scope = tc_scope claims,
                         au_client_type = tc_client_type claims\<rparr>)))"

section \<open>Passwords\<close>

datatype PasswordError = Hashing string | MalformedHash string | PasswordPolicy string

definition MIN_PASSWORD_LENGTH :: nat where
  "MIN_PASSWORD_LENGTH = 12"

definition MAX_PASSWORD_LENGTH :: nat where
  "MAX_PASSWORD_LENGTH = 1024"

text \<open>\<open>chars().count()\<close>: the bytes of the UTF-8 form that start a character.\<close>

definition chars_count :: "string \<Rightarrow> nat" where
  "chars_count s = length (filter (\<lambda>c. \<not> (128 \<le> (of_char c :: nat) \<and> (of_char c :: nat) < 192)) s)"

definition check_policy :: "string \<Rightarrow> (unit, PasswordError) result" where
  "check_policy password =
     (if chars_count password < MIN_PASSWORD_LENGTH then Inl (PasswordPolicy ''password must be at least 12 characters'')
      else if length password > MAX_PASSWORD_LENGTH then Inl (PasswordPolicy ''password must be at most 1024 bytes'')
      else Inr ())"

definition password_hash :: "('sk, 'k, 'g, 'v) AuthEnv \<Rightarrow> string \<Rightarrow> (string, PasswordError) result" where
  "password_hash E password =
     (case check_policy password of
        Inl e \<Rightarrow> Inl e
      | Inr _ \<Rightarrow> (case ae_argon2_hash E password of Inl e \<Rightarrow> Inl (Hashing e) | Inr h \<Rightarrow> Inr h))"

definition password_verify :: "('sk, 'k, 'g, 'v) AuthEnv \<Rightarrow> string \<Rightarrow> string \<Rightarrow> (bool, PasswordError) result" where
  "password_verify E password stored_hash =
     (case ae_parse_hash E stored_hash of
        Inl e \<Rightarrow> Inl (MalformedHash e)
      | Inr parsed \<Rightarrow> Inr (ae_argon2_verify E password parsed))"

section \<open>Login, refresh, logout\<close>

definition invalid_credentials :: "('sk, 'k, 'g, 'v) AuthEnv \<Rightarrow> 'v ApiError" where
  "invalid_credentials E =
     ApiError_new 401 ''INVALID_CREDENTIALS'' ''AUTHORITY'' ''NON_RETRYABLE'' (ae_uuid E 0)
       (jb_object (ae_build E) [(''message'', jb_string (ae_build E) ''Invalid username or password'')])"

definition infra_error :: "('sk, 'k, 'g, 'v) AuthEnv \<Rightarrow> string \<Rightarrow> string \<Rightarrow> 'v ApiError" where
  "infra_error E error_code retryability = ApiError_new 500 error_code ''INFRASTRUCTURE'' retryability (ae_uuid E 0) (jb_object (ae_build E) [])"

definition eq_ignore_ascii_case :: "string \<Rightarrow> string \<Rightarrow> bool" where
  "eq_ignore_ascii_case a b \<longleftrightarrow> map lower_char a = map lower_char b"

definition is_reserved_allfather_username :: "string \<Rightarrow> bool" where
  "is_reserved_allfather_username username = eq_ignore_ascii_case username ''allfather''"

record LoginRequest =
  login_username :: string
  login_password :: string
  login_client_type :: "ClientType option"

record LoginUser =
  lu_id :: string
  lu_username :: string
  lu_organization_id :: string
  lu_is_admin :: bool
  lu_class :: "string option"

record LoginResponse =
  resp_access_token :: string
  resp_refresh_token :: string
  resp_expires_in :: u64
  resp_user :: LoginUser

definition login_user :: "UserRecord \<Rightarrow> LoginUser" where
  "login_user user = \<lparr>lu_id = u_user_id user, lu_username = u_username user, lu_organization_id = u_organization_id user,
     lu_is_admin = u_is_admin user, lu_class = map_option class_as_str (u_class user)\<rparr>"

definition login_candidate :: "('sk, 'k, 'g, 'v) AuthEnv \<Rightarrow> UserDb \<Rightarrow> LoginRequest \<Rightarrow> (UserRecord, 'v ApiError) result" where
  "login_candidate E db payload =
     (case find_by_username (ae_to_lowercase E) (\<lambda>_. ae_user_fault E 0) (login_username payload) db of
        Inl _ \<Rightarrow> Inl (infra_error E ''USER_STORE_UNAVAILABLE'' ''TRANSIENT'')
      | Inr candidate \<Rightarrow>
          (case candidate of
             Some user \<Rightarrow>
               if u_is_active user then
                 (case password_verify E (login_password payload) (u_password_hash user) of
                    Inl _ \<Rightarrow> Inl (infra_error E ''CREDENTIAL_STORE_CORRUPT'' ''NON_RETRYABLE'')
                  | Inr ok \<Rightarrow> if ok then Inr user else Inl (invalid_credentials E))
               else Inl (invalid_credentials E)
           | None \<Rightarrow> Inl (invalid_credentials E)))"

definition mobile_allowed :: "('sk, 'k, 'g, 'v) AuthEnv \<Rightarrow> UserDb \<Rightarrow> UserRecord \<Rightarrow> (bool, 'v ApiError) result" where
  "mobile_allowed E db user =
     (case u_class user of
        None \<Rightarrow> Inr False
      | Some class \<Rightarrow>
          (case list_mobile_access (\<lambda>_. ae_user_fault E 1) (u_organization_id user) db of
             Inl _ \<Rightarrow> Inl (infra_error E ''USER_STORE_UNAVAILABLE'' ''TRANSIENT'')
           | Inr granted \<Rightarrow> Inr (\<exists>c \<in> set granted. c = class_as_str class)))"

definition issue_pair ::
    "('sk, 'k, 'g, 'v) AuthEnv \<Rightarrow> nat \<Rightarrow> UserRecord \<Rightarrow> ClientType \<Rightarrow> (LoginResponse, 'v ApiError) result" where
  "issue_pair E i user client_type =
     (case issue_token E i 1 user ''access'' 3600 client_type of
        None \<Rightarrow> Inl (infra_error E ''TOKEN_ISSUANCE_FAILED'' ''TRANSIENT'')
      | Some access_token \<Rightarrow>
          (case issue_token E (i + 1) 2 user ''refresh'' (7 * 24 * 3600) client_type of
             None \<Rightarrow> Inl (infra_error E ''TOKEN_ISSUANCE_FAILED'' ''TRANSIENT'')
           | Some refresh_token \<Rightarrow>
               Inr \<lparr>resp_access_token = access_token, resp_refresh_token = refresh_token, resp_expires_in = 3600,
                    resp_user = login_user user\<rparr>))"

definition login :: "('sk, 'k, 'g, 'v) AuthEnv \<Rightarrow> UserDb \<Rightarrow> LoginRequest \<Rightarrow> (LoginResponse, 'v ApiError) result" where
  "login E db payload =
     (case login_candidate E db payload of
        Inl e \<Rightarrow> Inl e
      | Inr user \<Rightarrow>
          if is_reserved_allfather_username (u_username user) then Inl (invalid_credentials E)
          else
            (case (if login_client_type payload = Some Mobile \<and> \<not> u_is_admin user then mobile_allowed E db user else Inr True) of
               Inl e \<Rightarrow> Inl e
             | Inr allowed \<Rightarrow>
                 if \<not> allowed
                   then Inl (ApiError_new 403 ''MOBILE_ACCESS_RESTRICTED'' ''AUTHORITY'' ''NON_RETRYABLE'' (ae_uuid E 0)
                          (jb_object (ae_build E) [(''message'',
                             jb_string (ae_build E) ''Mobile access is not enabled for this user's class in this organization'')]))
                 else issue_pair E 0 user (case login_client_type payload of Some c \<Rightarrow> c | None \<Rightarrow> default_on_absence)))"

definition refresh ::
    "('sk, 'k, 'g, 'v) AuthEnv \<Rightarrow> 's RevocationOps \<Rightarrow> UserDb \<Rightarrow> string \<Rightarrow> 's \<Rightarrow> 's \<times> (LoginResponse, 'v ApiError) result" where
  "refresh E R db refresh_token store =
     (case validate_token E 0 R store refresh_token ''refresh'' of
        Inl e \<Rightarrow> (store, Inl e)
      | Inr claims \<Rightarrow>
          (case find_by_id (\<lambda>_. ae_user_fault E 0) (tc_sub claims) db of
             Inl _ \<Rightarrow> (store, Inl (infra_error E ''USER_STORE_UNAVAILABLE'' ''TRANSIENT''))
           | Inr None \<Rightarrow> (store, Inl (ApiError_unauthorized (ae_build E) (ae_uuid E 0)))
           | Inr (Some user) \<Rightarrow>
               if \<not> principal_current claims user then (store, Inl (ApiError_unauthorized (ae_build E) (ae_uuid E 0)))
               else
                 (case issue_pair E 2 user (tc_client_type claims) of
                    Inl e \<Rightarrow> (store, Inl e)
                  | Inr response \<Rightarrow>
                      (case rv_revoke_token R (token_hash E refresh_token) (ae_unix E 4) store of
                         Inl _ \<Rightarrow> (store, Inl (infra_error E ''TOKEN_REVOCATION_STORE_UNAVAILABLE'' ''TRANSIENT''))
                       | Inr store' \<Rightarrow> (store', Inr response)))))"

definition logout ::
    "('sk, 'k, 'g, 'v) AuthEnv \<Rightarrow> 's RevocationOps \<Rightarrow> UserDb \<Rightarrow> string option \<Rightarrow> string \<Rightarrow> 's \<Rightarrow> 's \<times> ('v, 'v ApiError) result" where
  "logout E R db header refresh_token store =
     (case authenticate_headers E R store db header of
        Inl e \<Rightarrow> (store, Inl e)
      | Inr auth \<Rightarrow>
          (case validate_token E 2 R store refresh_token ''refresh'' of
             Inl e \<Rightarrow> (store, Inl e)
           | Inr _ \<Rightarrow>
               let revoke_err = infra_error E ''TOKEN_REVOCATION_STORE_UNAVAILABLE'' ''TRANSIENT''
               in case rv_revoke_token R (token_hash E (au_token auth)) (ae_unix E 4) store of
                    Inl _ \<Rightarrow> (store, Inl revoke_err)
                  | Inr store' \<Rightarrow>
                      (case rv_revoke_token R (token_hash E refresh_token) (ae_unix E 4) store' of
                         Inl _ \<Rightarrow> (store', Inl revoke_err)
                       | Inr store'' \<Rightarrow> (store'', Inr (jb_object (ae_build E) [(''success'', jb_bool (ae_build E) True)])))))"

section \<open>What a valid token is\<close>

lemma validate_token_Inr:
  assumes "validate_token E i R s token ty = Inr claims"
  shows "decode_claims E token = Some claims \<and> tc_iss claims = ONYX_API_TOKEN_ISSUER \<and> tc_aud claims = ONYX_API_TOKEN_AUDIENCE
    \<and> ae_unix E i < tc_exp claims \<and> tc_iat claims \<le> ae_unix E (i + 1) \<and> tc_token_type claims = ty
    \<and> rv_is_token_revoked R (token_hash E token) s = Inr False
    \<and> (\<exists>m. rv_user_revoked_before R (tc_sub claims) s = Inr m \<and> (\<forall>w. m = Some w \<longrightarrow> w < tc_iat claims))"
  using assms by (auto simp: validate_token_def Let_def not_le not_less split: option.splits if_splits sum.splits)

lemma validate_token_error: "\<exists>e. validate_token E i R s token ty = Inl e" if "\<And>c. validate_token E i R s token ty \<noteq> Inr c"
  using that by (cases "validate_token E i R s token ty") auto

lemma refresh_Inr:
  assumes "refresh E R db token s = (s', Inr resp)"
  obtains claims user t where "validate_token E 0 R s token ''refresh'' = Inr claims"
    and "find_by_id (\<lambda>_. ae_user_fault E 0) (tc_sub claims) db = Inr (Some user)" and "principal_current claims user"
    and "issue_pair E 2 user (tc_client_type claims) = Inr resp"
    and "rv_revoke_token R (token_hash E token) t s = Inr s'"
  using assms by (auto simp: refresh_def split: sum.splits option.splits if_splits)

lemma logout_Inr:
  assumes "logout E R db header token s = (s', Inr v)"
  obtains auth s1 where "authenticate_headers E R s db header = Inr auth"
    and "rv_revoke_token R (token_hash E (au_token auth)) (ae_unix E 4) s = Inr s1"
    and "rv_revoke_token R (token_hash E token) (ae_unix E 4) s1 = Inr s'"
  using assms by (auto simp: logout_def Let_def split: sum.splits option.splits if_splits)

lemma authenticate_Inr:
  assumes "authenticate_headers E R s db header = Inr au"
  obtains token claims user where "header = Some (''Bearer '' @ token)" and "validate_token E 0 R s token ''access'' = Inr claims"
    and "find_by_id (\<lambda>_. ae_user_fault E 0) (tc_sub claims) db = Inr (Some user)" and "principal_current claims user"
    and "au = \<lparr>au_user_id = u_user_id user, au_username = u_username user, au_organization_id = u_organization_id user, au_token = token,
               au_scope = tc_scope claims, au_client_type = tc_client_type claims\<rparr>"
proof -
  from assms obtain h token where h: "header = Some h" "strip_bearer h = Some token"
    by (auto simp: authenticate_headers_def split: option.splits)
  have "h = ''Bearer '' @ token" using h(2) by (auto simp: strip_bearer_def split: if_splits) (metis append_take_drop_id append_Cons append_Nil)
  moreover obtain claims user where "validate_token E 0 R s token ''access'' = Inr claims" "revalidate_token_principal E 0 db claims = Inr user"
      "au = \<lparr>au_user_id = u_user_id user, au_username = u_username user, au_organization_id = u_organization_id user, au_token = token,
               au_scope = tc_scope claims, au_client_type = tc_client_type claims\<rparr>"
    using assms h by (auto simp: authenticate_headers_def split: sum.splits)
  ultimately show thesis
    using h that by (auto simp: revalidate_token_principal_def split: sum.splits option.splits if_splits)
qed

context token_revocation_store
begin

lemma validate_revoked:
  assumes "rv_revoke_token (R f) (token_hash E token) t s = Inr s'" and "(rev_step R)\<^sup>*\<^sup>* s' s''" and "ae_crypto E' = ae_crypto E"
  shows "\<exists>e. validate_token E' i (R g) s'' token ty = Inl e"
proof (rule validate_token_error)
  have hash: "token_hash E' token = token_hash E token" by (simp add: token_hash_def assms(3))
  fix c
  show "validate_token E' i (R g) s'' token ty \<noteq> Inr c"
    using revoked_forever [OF assms(1,2), of g] validate_token_Inr [of E' i "R g" s'' token ty c] hash by auto
qed

lemma validate_marked:
  assumes "rv_revoke_all_for_user (R f) u t s = Inr s'" and "unat t < 2 ^ 63" and "(rev_step R)\<^sup>*\<^sup>* s' s''"
    and "decode_claims E token = Some claims" and "tc_sub claims = u" and "tc_iat claims \<le> t"
  shows "\<exists>e. validate_token E i (R g) s'' token ty = Inl e"
proof (rule validate_token_error)
  fix c
  show "validate_token E i (R g) s'' token ty \<noteq> Inr c"
  proof
    assume v: "validate_token E i (R g) s'' token ty = Inr c"
    from validate_token_Inr [OF this] assms(4,5) obtain m where
      "c = claims" "rv_user_revoked_before (R g) u s'' = Inr m" "\<forall>w. m = Some w \<longrightarrow> w < tc_iat claims" by auto
    with marked_forever [OF assms(1-3)] assms(6) show False by fastforce
  qed
qed

lemma refresh_once:
  assumes "refresh E (R f) db token s = (s1, Inr resp)" and "(rev_step R)\<^sup>*\<^sup>* s1 s2" and "ae_crypto E' = ae_crypto E"
  shows "\<exists>e. refresh E' (R g) db' token s2 = (s2, Inl e)"
  using assms(1)
proof (rule refresh_Inr)
  fix t
  assume "rv_revoke_token (R f) (token_hash E token) t s = Inr s1"
  from validate_revoked [OF this assms(2,3), of 0 g "''refresh''"] show ?thesis by (auto simp: refresh_def)
qed

lemma logout_ends:
  assumes "logout E (R f) db header token s = (s1, Inr v)" and "(rev_step R)\<^sup>*\<^sup>* s1 s2" and "ae_crypto E' = ae_crypto E"
  shows "(\<exists>e. authenticate_headers E' (R g) s2 db' header = Inl e) \<and> (\<exists>e. refresh E' (R g) db' token s2 = (s2, Inl e))"
  using assms(1)
proof (rule logout_Inr)
  fix auth s'
  assume auth: "authenticate_headers E (R f) s db header = Inr auth"
    and access: "rv_revoke_token (R f) (token_hash E (au_token auth)) (ae_unix E 4) s = Inr s'"
    and ref: "rv_revoke_token (R f) (token_hash E token) (ae_unix E 4) s' = Inr s1"
  have "(rev_step R)\<^sup>*\<^sup>* s' s2" using rev_step.token [of R, OF ref] assms(2) by (rule converse_rtranclp_into_rtranclp)
  from validate_revoked [OF access this assms(3), of 0 g "''access''"] auth
  have "\<exists>e. authenticate_headers E' (R g) s2 db' header = Inl e"
    by (elim authenticate_Inr) (auto simp: authenticate_headers_def strip_bearer_def)
  moreover from validate_revoked [OF ref assms(2,3), of 0 g "''refresh''"] have "\<exists>e. refresh E' (R g) db' token s2 = (s2, Inl e)"
    by (auto simp: refresh_def)
  ultimately show ?thesis by blast
qed

end

section \<open>Tokens read back\<close>

text \<open>What the sessions rely on in the codec: base64 and serde are inverted by their decoders, and base64 has no dot.\<close>

definition codec_laws :: "('sk, 'k, 'g, 'v) CryptoOps \<Rightarrow> (TokenClaims \<Rightarrow> (bytes, string) result) \<Rightarrow> (bytes \<Rightarrow> (TokenClaims, string) result) \<Rightarrow> bool" where
  "codec_laws X to_vec from_slice \<longleftrightarrow>
     (\<forall>bs. base64_decode X (base64_encode X bs) = Some bs \<and> CHR ''.'' \<notin> set (base64_encode X bs))
     \<and> (\<forall>c bs. to_vec c = Inr bs \<longrightarrow> from_slice bs = Inr c)"

definition env_uses :: "('sk, 'k, 'g, 'v) CryptoOps \<Rightarrow> (TokenClaims \<Rightarrow> (bytes, string) result) \<Rightarrow> (bytes \<Rightarrow> (TokenClaims, string) result)
    \<Rightarrow> ('sk, 'k, 'g, 'v) AuthEnv \<Rightarrow> bool" where
  "env_uses X to_vec from_slice E \<longleftrightarrow> ae_crypto E = X \<and> ae_to_vec E = to_vec \<and> ae_from_slice E = from_slice"

lemma decode_issued:
  assumes "codec_laws X V S" and "env_uses X V S E" and "env_uses X V S E'"
    and "issue_token E i j user ty ttl ct = Some token" and "decode_claims E' token = Some claims"
  shows "claims = issued_claims E i j user ty ttl ct"
proof -
  from assms(2,4) obtain codec where "jwt_encode X V codec (issued_claims E i j user ty ttl ct) = Inr token"
    by (auto simp: issue_token_def env_uses_def split: sum.splits)
  then obtain payload sig where p: "V (issued_claims E i j user ty ttl ct) = Inr payload"
      "token = base64_encode X jwt_header @ ''.'' @ base64_encode X payload @ ''.'' @ base64_encode X sig"
    by (auto simp: jwt_encode_def Let_def split: sum.splits)
  have split: "split_dot token = [base64_encode X jwt_header, base64_encode X payload, base64_encode X sig]"
    unfolding p(2) using assms(1) by (simp add: split_dot_append codec_laws_def)
  from assms(3,5) obtain codec' where "jwt_decode_at (ae_json E') X S codec' token (ae_now E') = Inr claims"
    by (auto simp: decode_claims_def env_uses_def split: sum.splits)
  then obtain payload' body where "split_dot token = [base64_encode X jwt_header, payload', base64_encode X sig]"
      "base64_decode X payload' = Some body" "S body = Inr claims"
    by (elim jwt_decode_cases) (simp add: split)
  with split p(1) assms(1) show ?thesis by (auto simp: codec_laws_def)
qed

text \<open>A session: the pairs of tokens a login and the refreshes after it hand out, with the class the login bound.\<close>

inductive session :: "('sk, 'k, 'g, 'v) CryptoOps \<Rightarrow> (TokenClaims \<Rightarrow> (bytes, string) result) \<Rightarrow> (bytes \<Rightarrow> (TokenClaims, string) result)
    \<Rightarrow> ClientType \<Rightarrow> LoginResponse \<Rightarrow> bool" for X V S where
  login: "env_uses X V S E \<Longrightarrow> login E db payload = Inr resp
    \<Longrightarrow> session X V S (case login_client_type payload of Some c \<Rightarrow> c | None \<Rightarrow> default_on_absence) resp"
| refresh: "session X V S ct resp \<Longrightarrow> env_uses X V S E
    \<Longrightarrow> refresh E R db (resp_refresh_token resp) (s :: PostgresTokenRevocationStore) = (s', Inr resp') \<Longrightarrow> session X V S ct resp'"

lemma issue_pair_tokens:
  assumes "issue_pair E i user ct = Inr resp"
  shows "issue_token E i 1 user ''access'' 3600 ct = Some (resp_access_token resp)"
    "issue_token E (i + 1) 2 user ''refresh'' (7 * 24 * 3600) ct = Some (resp_refresh_token resp)" "resp_user resp = login_user user"
  using assms by (auto simp: issue_pair_def split: option.splits)

lemma login_pair:
  assumes "login E db payload = Inr resp"
  shows "\<exists>user. issue_pair E 0 user (case login_client_type payload of Some c \<Rightarrow> c | None \<Rightarrow> default_on_absence) = Inr resp"
  using assms by (auto simp: login_def split: sum.splits if_splits)

lemma session_pair:
  assumes "codec_laws X V S" and "session X V S ct resp"
  shows "\<exists>E i user. env_uses X V S E \<and> issue_pair E i user ct = Inr resp"
  using assms(2)
proof (induction rule: session.induct)
  case (login E db payload resp)
  with login_pair show ?case by blast
next
  case (refresh ct resp E R db s s' resp')
  then obtain E0 i user0 where p: "env_uses X V S E0" "issue_pair E0 i user0 ct = Inr resp" by blast
  from refresh.hyps(3) obtain claims user where c: "validate_token E 0 R s (resp_refresh_token resp) ''refresh'' = Inr claims"
      "issue_pair E 2 user (tc_client_type claims) = Inr resp'" by (rule refresh_Inr)
  from decode_issued [OF assms(1) p(1) refresh.hyps(2) issue_pair_tokens(2) [OF p(2)]] validate_token_Inr [OF c(1)] have "tc_client_type claims = ct"
    by (auto simp: issued_claims_def)
  with c(2) refresh.hyps(2) show ?case by blast
qed

section \<open>Properties\<close>

definition toy_build :: "string JsonBuild" where
  "toy_build = \<lparr>jb_object = (\<lambda>_. ''{}''), jb_string = (\<lambda>s. s), jb_u64 = (\<lambda>_. ''n''), jb_bool = (\<lambda>_. ''b''), jb_array = (\<lambda>_. ''[]''), jb_null = []\<rparr>"

definition toy_user :: UserRecord where
  "toy_user = \<lparr>u_user_id = ''b'', u_username = ''bob'', u_organization_id = ''org'', u_password_hash = ''h'', u_is_admin = False,
     u_is_manager = False, u_class = Some Staff, u_parent_user_id = Some ''a'', u_is_active = True\<rparr>"

definition toy_env0 :: "(8 word, 8 word, bytes, string) AuthEnv" where
  "toy_env0 = \<lparr>ae_json = toy_json, ae_build = toy_build, ae_crypto = toy_crypto,
     ae_secret = Inr \<lparr>secret_current = \<lparr>secret_value = replicate 32 7, secret_valid_until = None\<rparr>, secret_previous = None\<rparr>,
     ae_to_vec = (\<lambda>_. Inl ''''), ae_from_slice = (\<lambda>_. Inl ''''), ae_now = 5, ae_unix = (\<lambda>n. 100 + of_nat n), ae_uuid = (\<lambda>n. [char_of (65 + n)]),
     ae_user_fault = (\<lambda>_. None), ae_to_lowercase = (\<lambda>s. s), ae_parse_hash = Inr, ae_argon2_verify = (\<lambda>p h. p = ''secret''),
     ae_argon2_hash = Inr\<rparr>"

text \<open>Claims of a pair of tokens issued to a user, and a serde that knows these two.\<close>

definition toy_claims :: "UserRecord \<Rightarrow> ClientType \<Rightarrow> bool \<Rightarrow> TokenClaims" where
  "toy_claims u ct access = (if access then issued_claims toy_env0 0 1 u ''access'' 3600 ct
     else issued_claims toy_env0 1 2 u ''refresh'' (7 * 24 * 3600) ct)"

definition toy_env :: "UserRecord \<Rightarrow> ClientType \<Rightarrow> (8 word, 8 word, bytes, string) AuthEnv" where
  "toy_env u ct = toy_env0\<lparr>ae_to_vec := (\<lambda>c. if c = toy_claims u ct True then Inr [1] else if c = toy_claims u ct False then Inr [2] else Inl ''''),
     ae_from_slice := (\<lambda>bs. if bs = [1] then Inr (toy_claims u ct True) else if bs = [2] then Inr (toy_claims u ct False) else Inl '''')\<rparr>"

definition toy_response :: "UserRecord \<Rightarrow> ClientType \<Rightarrow> LoginResponse" where
  "toy_response u ct = (case issue_pair (toy_env u ct) 0 u ct of Inr r \<Rightarrow> r
     | Inl _ \<Rightarrow> \<lparr>resp_access_token = [], resp_refresh_token = [], resp_expires_in = 0, resp_user = login_user u\<rparr>)"

lemma toy_env_fields [simp]: "ae_secret (toy_env u ct) = ae_secret toy_env0" "ae_crypto (toy_env u ct) = toy_crypto"
    "ae_json (toy_env u ct) = toy_json" "ae_unix (toy_env u ct) n = 100 + of_nat n" "ae_user_fault (toy_env u ct) n = None"
    "ae_to_lowercase (toy_env u ct) = (\<lambda>s. s)" "ae_parse_hash (toy_env u ct) = Inr" "ae_argon2_verify (toy_env u ct) = (\<lambda>p h. p = ''secret'')"
  by (simp_all add: toy_env_def toy_env0_def)

lemma toy_claims_issued: "issued_claims (toy_env u ct) 0 1 u ''access'' 3600 ct = toy_claims u ct True"
    "issued_claims (toy_env u ct) 1 2 u ''refresh'' 604800 ct = toy_claims u ct False" "toy_claims u ct True \<noteq> toy_claims u ct False"
  by (simp_all add: toy_claims_def issued_claims_def toy_env_def toy_env0_def)

lemma issue_token_Some:
  assumes "ae_secret E = Inr secret" and "codec_from_rotating_secret (ae_crypto E) secret = Inr codec"
    and "ae_to_vec E (issued_claims E i j user ty ttl ct) = Inr payload"
  shows "\<exists>t. issue_token E i j user ty ttl ct = Some t"
  using assms by (simp add: issue_token_def jwt_encode_def Let_def)

lemma toy_secret: "\<exists>codec. ae_secret toy_env0 = Inr \<lparr>secret_current = \<lparr>secret_value = replicate 32 7, secret_valid_until = None\<rparr>, secret_previous = None\<rparr>
    \<and> codec_from_rotating_secret toy_crypto \<lparr>secret_current = \<lparr>secret_value = replicate 32 7, secret_valid_until = None\<rparr>, secret_previous = None\<rparr> = Inr codec"
  by (simp add: codec_from_rotating_secret_def toy_env0_def Let_def)

lemma toy_pair: "issue_pair (toy_env u ct) 0 u ct = Inr (toy_response u ct)"
proof -
  obtain secret codec where sc: "ae_secret (toy_env u ct) = Inr secret" "codec_from_rotating_secret (ae_crypto (toy_env u ct)) secret = Inr codec"
    using toy_secret by auto
  have "ae_to_vec (toy_env u ct) (toy_claims u ct True) = Inr [1]" "ae_to_vec (toy_env u ct) (toy_claims u ct False) = Inr [2]"
    using toy_claims_issued(3) [of u ct] toy_claims_issued(3) [of u ct, symmetric] by (simp_all add: toy_env_def)
  with issue_token_Some [OF sc] toy_claims_issued(1,2)
  have "\<exists>t. issue_token (toy_env u ct) 0 1 u ''access'' 3600 ct = Some t"
      "\<exists>t. issue_token (toy_env u ct) 1 2 u ''refresh'' 604800 ct = Some t" by metis+
  then show ?thesis by (auto simp: toy_response_def issue_pair_def)
qed

lemma toy_find: "find_by_username (\<lambda>s. s) (\<lambda>_. None) ''bob'' sample_users = Inr (Some toy_user)"
    "find_by_id (\<lambda>_. None) ''b'' sample_users = Inr (Some toy_user)"
  by code_simp+

lemma toy_login:
  "login (toy_env toy_user MobileObserver) sample_users \<lparr>login_username = ''bob'', login_password = ''secret'', login_client_type = Some MobileObserver\<rparr>
     = Inr (toy_response toy_user MobileObserver)"
proof -
  have "login_candidate (toy_env toy_user MobileObserver) sample_users
      \<lparr>login_username = ''bob'', login_password = ''secret'', login_client_type = Some MobileObserver\<rparr> = Inr toy_user"
    by (simp add: login_candidate_def toy_find) (simp add: toy_user_def password_verify_def)
  moreover have "\<not> is_reserved_allfather_username (u_username toy_user)" by code_simp
  ultimately show ?thesis by (simp add: login_def toy_pair)
qed

lemma toy_laws: "codec_laws toy_crypto (ae_to_vec (toy_env u ct)) (ae_from_slice (toy_env u ct))"
  using toy_claims_issued(3) by (auto simp: codec_laws_def toy_base64 toy_env_def split: if_splits)

lemma toy_uses: "env_uses toy_crypto (ae_to_vec (toy_env u ct)) (ae_from_slice (toy_env u ct)) (toy_env u ct)"
  by (simp add: env_uses_def)

lemma toy_tokens: "issue_token (toy_env u ct) 0 1 u ''access'' 3600 ct = Some (resp_access_token (toy_response u ct))"
    "issue_token (toy_env u ct) 1 2 u ''refresh'' 604800 ct = Some (resp_refresh_token (toy_response u ct))"
  using issue_pair_tokens [OF toy_pair] by simp_all

lemma toy_decode:
  assumes "issue_token (toy_env u ct) i j u ty ttl ct = Some token" and "issued_claims (toy_env u ct) i j u ty ttl ct = toy_claims u ct b"
  shows "decode_claims (toy_env u ct) token = Some (toy_claims u ct b)"
proof -
  obtain secret codec where c: "ae_secret (toy_env u ct) = Inr secret" "codec_from_rotating_secret toy_crypto secret = Inr codec"
    using toy_secret by auto
  with assms have "jwt_encode toy_crypto (ae_to_vec (toy_env u ct)) codec (toy_claims u ct b) = Inr token"
    by (auto simp: issue_token_def split: sum.splits)
  then have "jwt_decode_at toy_json toy_crypto (ae_from_slice (toy_env u ct)) codec token (ae_now (toy_env u ct)) = Inr (toy_claims u ct b)"
    using toy_laws by (intro jwt_decode_encoded [OF toy_base64 _ _ _ c(2) _ c(2)])
      (auto simp: codec_laws_def, auto simp: toy_crypto_def toy_json_def)
  with c show ?thesis by (simp add: decode_claims_def)
qed

definition fresh_store :: PostgresTokenRevocationStore where
  "fresh_store = \<lparr>pg_revoked_tokens = fmempty, pg_user_token_revocations = fmempty\<rparr>"

definition toy_rev :: "(nat \<Rightarrow> string option) \<Rightarrow> PostgresTokenRevocationStore RevocationOps" where
  "toy_rev = postgres_revocation (\<lambda>_. Some 1)"

lemma toy_claims_fields: "tc_iss (toy_claims u ct b) = ONYX_API_TOKEN_ISSUER" "tc_aud (toy_claims u ct b) = ONYX_API_TOKEN_AUDIENCE"
    "tc_client_type (toy_claims u ct b) = ct" "tc_sub (toy_claims u ct b) = u_user_id u"
    "tc_token_type (toy_claims u ct b) = (if b then ''access'' else ''refresh'')"
    "tc_exp (toy_claims u ct b) = (if b then 3700 else 604901)" "tc_iat (toy_claims u ct b) = (if b then 100 else 101)"
    "u_is_active u \<Longrightarrow> principal_current (toy_claims u ct b) u"
  by (auto simp: toy_claims_def issued_claims_def toy_env0_def principal_current_def)

lemma toy_validate:
    "validate_token (toy_env u ct) 0 (toy_rev (\<lambda>_. None)) fresh_store (resp_access_token (toy_response u ct)) ''access'' = Inr (toy_claims u ct True)"
    "validate_token (toy_env u ct) 2 (toy_rev (\<lambda>_. None)) fresh_store (resp_refresh_token (toy_response u ct)) ''refresh'' = Inr (toy_claims u ct False)"
  using toy_decode [OF toy_tokens(1) toy_claims_issued(1)] toy_decode [OF toy_tokens(2) toy_claims_issued(2)]
  by (simp_all add: validate_token_def toy_claims_fields toy_rev_def postgres_defs fresh_store_def)

lemma toy_authenticate:
  assumes "find_by_id (\<lambda>_. None) (u_user_id u) db = Inr (Some u)" and "u_is_active u"
  shows "authenticate_headers (toy_env u ct) (toy_rev (\<lambda>_. None)) fresh_store db (Some (''Bearer '' @ resp_access_token (toy_response u ct)))
     = Inr \<lparr>au_user_id = u_user_id u, au_username = u_username u, au_organization_id = u_organization_id u,
           au_token = resp_access_token (toy_response u ct), au_scope = tc_scope (toy_claims u ct True), au_client_type = ct\<rparr>"
  using toy_validate(1) assms
  by (simp add: authenticate_headers_def strip_bearer_def revalidate_token_principal_def toy_claims_fields)

lemma toy_authenticate_user:
  "authenticate_headers (toy_env toy_user ct) (toy_rev (\<lambda>_. None)) fresh_store sample_users (Some (''Bearer '' @ resp_access_token (toy_response toy_user ct)))
     = Inr \<lparr>au_user_id = u_user_id toy_user, au_username = u_username toy_user, au_organization_id = u_organization_id toy_user,
           au_token = resp_access_token (toy_response toy_user ct), au_scope = tc_scope (toy_claims toy_user ct True), au_client_type = ct\<rparr>"
  by (rule toy_authenticate) (use toy_find(2) in \<open>simp_all add: toy_user_def\<close>)






text \<open>
  An observer stays an observer: the tokens of a session carry the client class its login was given, through any number of refreshes, and a request with such a
  token of class \<open>MobileObserver\<close> is denied every capability to change something, whoever the user is.
\<close>

theorem observer_stays_observer:
  assumes "codec_laws X V S" and "session X V S ct resp" and "env_uses X V S E"
    and "authenticate_headers E R s db (Some (''Bearer '' @ resp_access_token resp)) = Inr au"
  shows "au_client_type au = ct
    \<and> (ct = MobileObserver \<longrightarrow> (\<forall>check \<in> {can_submit_domain_commands, can_approve, can_transition_lifecycle, can_resolve_conflicts,
          can_upload_files, can_administer}. \<exists>e. require_capability E au check name = Inl e \<and> err_status e = 403))"
proof -
  from session_pair [OF assms(1,2)] obtain E0 i user where p: "env_uses X V S E0" "issue_pair E0 i user ct = Inr resp" by blast
  from assms(4) have "au_client_type au = ct"
  proof (rule authenticate_Inr)
    fix token claims u
    assume "Some (''Bearer '' @ resp_access_token resp) = Some (''Bearer '' @ token)" and v: "validate_token E 0 R s token ''access'' = Inr claims"
      and "au = \<lparr>au_user_id = u_user_id u, au_username = u_username u, au_organization_id = u_organization_id u, au_token = token,
               au_scope = tc_scope claims, au_client_type = tc_client_type claims\<rparr>"
    then show ?thesis
      using decode_issued [OF assms(1) p(1) assms(3) issue_pair_tokens(1) [OF p(2)], of claims] validate_token_Inr [OF v]
      by (simp add: issued_claims_def)
  qed
  then show ?thesis by (auto simp: require_capability_def OBSERVER_CAPABILITIES_def ApiError_new_def)
qed

theorem observer_stays_observer_witness:
  "\<exists>au e. authenticate_headers (toy_env toy_user MobileObserver) (toy_rev (\<lambda>_. None)) fresh_store sample_users
       (Some (''Bearer '' @ resp_access_token (toy_response toy_user MobileObserver))) = Inr au
     \<and> require_capability (toy_env toy_user MobileObserver) au can_administer ''administer'' = Inl e \<and> err_status e = 403"
proof -
  have "session toy_crypto (ae_to_vec (toy_env toy_user MobileObserver)) (ae_from_slice (toy_env toy_user MobileObserver)) MobileObserver
      (toy_response toy_user MobileObserver)"
    using session.login [OF toy_uses toy_login] by simp
  from observer_stays_observer [OF toy_laws this toy_uses toy_authenticate_user, of "''administer''"] toy_authenticate_user show ?thesis by auto
qed

text \<open>
  What a login takes, and what it tells: it succeeds only for the account with that username, active, with the right password, other than the reserved
  one, and, from a mobile client, for an administrator or a class the tenant admits; the answer then names that account. An unknown username, a
  disabled account, a wrong password and the reserved account all get the same answer.
\<close>

theorem login_gate:
  "(login E db req = Inr resp \<longrightarrow> (\<exists>user. find_by_username (ae_to_lowercase E) (\<lambda>_. ae_user_fault E 0) (login_username req) db = Inr (Some user)
      \<and> u_is_active user \<and> password_verify E (login_password req) (u_password_hash user) = Inr True
      \<and> \<not> eq_ignore_ascii_case (u_username user) ''allfather''
      \<and> (login_client_type req = Some Mobile \<longrightarrow> u_is_admin user
          \<or> (\<exists>cls. u_class user = Some cls \<and> (u_organization_id user, class_as_str cls) \<in> set (mobile_class_access db)))
      \<and> resp_user resp = login_user user))
   \<and> (find_by_username (ae_to_lowercase E) (\<lambda>_. ae_user_fault E 0) (login_username req) db = Inr None \<longrightarrow> login E db req = Inl (invalid_credentials E))
   \<and> (find_by_username (ae_to_lowercase E) (\<lambda>_. ae_user_fault E 0) (login_username req) db = Inr (Some user)
       \<and> (\<not> u_is_active user \<or> password_verify E (login_password req) (u_password_hash user) = Inr False
          \<or> password_verify E (login_password req) (u_password_hash user) = Inr True \<and> eq_ignore_ascii_case (u_username user) ''allfather'')
       \<longrightarrow> login E db req = Inl (invalid_credentials E))"
proof -
  have "\<exists>user. find_by_username (ae_to_lowercase E) (\<lambda>_. ae_user_fault E 0) (login_username req) db = Inr (Some user)
      \<and> u_is_active user \<and> password_verify E (login_password req) (u_password_hash user) = Inr True
      \<and> \<not> eq_ignore_ascii_case (u_username user) ''allfather''
      \<and> (login_client_type req = Some Mobile \<longrightarrow> u_is_admin user
          \<or> (\<exists>cls. u_class user = Some cls \<and> (u_organization_id user, class_as_str cls) \<in> set (mobile_class_access db)))
      \<and> resp_user resp = login_user user" if l: "login E db req = Inr resp"
  proof -
    from l obtain user where c: "login_candidate E db req = Inr user" "\<not> is_reserved_allfather_username (u_username user)"
        "issue_pair E 0 user (case login_client_type req of Some c \<Rightarrow> c | None \<Rightarrow> default_on_absence) = Inr resp"
        "login_client_type req = Some Mobile \<and> \<not> u_is_admin user \<Longrightarrow> mobile_allowed E db user = Inr True"
      by (auto simp: login_def split: sum.splits if_splits)
    moreover have "(u_organization_id user, class_as_str cls) \<in> set (mobile_class_access db)"
      if "mobile_allowed E db user = Inr True" "u_class user = Some cls" for cls
      using that by (auto simp: mobile_allowed_def list_mobile_access_def split: sum.splits option.splits)
    moreover have "u_class user \<noteq> None" if "mobile_allowed E db user = Inr True" using that by (auto simp: mobile_allowed_def split: option.splits)
    ultimately show ?thesis
      using issue_pair_tokens(3) [OF c(3)]
      by (auto simp: login_candidate_def is_reserved_allfather_username_def split: sum.splits option.splits if_splits)
  qed
  then show ?thesis
    by (auto simp: login_def login_candidate_def is_reserved_allfather_username_def split: sum.splits option.splits)
qed

theorem login_gate_witness: "resp_user (toy_response toy_user MobileObserver) = login_user toy_user"
  using login_gate [of "toy_env toy_user MobileObserver" sample_users
      "\<lparr>login_username = ''bob'', login_password = ''secret'', login_client_type = Some MobileObserver\<rparr>" "toy_response toy_user MobileObserver" toy_user]
  by (simp add: toy_login toy_find)

end
