(* ===== verification/Api_Admin.thy ===== *)
theory Api_Admin
  imports Api_Auth
begin

text \<open>
  User administration over HTTP (\<open>crates/bins/api-server/src/routes/admin.rs\<close>). A route takes the environment of the request, the operations
  of the revocation store, the Authorization header and the payload, and changes the user table and the revocation store.
  \<open>now_ms\<close> is the clock reading of the user store.
\<close>

section \<open>Errors\<close>

definition store_error :: "('sk, 'k, 'g, 'v) AuthEnv \<Rightarrow> UserStoreError \<Rightarrow> 'v ApiError" where
  "store_error E error =
     (let B = ae_build E; msg = (\<lambda>m. jb_object B [(''message'', jb_string B m)])
      in case error of
           DuplicateUsername \<Rightarrow>
             ApiError_new 409 ''USERNAME_TAKEN'' ''VALIDATION'' ''NON_RETRYABLE'' (ae_uuid E 0) (msg ''That username already exists'')
         | NotFound \<Rightarrow> ApiError_new 404 ''USER_NOT_FOUND'' ''VALIDATION'' ''NON_RETRYABLE'' (ae_uuid E 0) (jb_object B [])
         | ParentNotFound \<Rightarrow>
             ApiError_new 400 ''PARENT_USER_NOT_FOUND'' ''VALIDATION'' ''NON_RETRYABLE'' (ae_uuid E 0)
               (msg ''The specified parent user does not exist'')
         | ParentCycle \<Rightarrow>
             ApiError_new 400 ''PARENT_CYCLE'' ''VALIDATION'' ''NON_RETRYABLE'' (ae_uuid E 0)
               (msg ''That assignment would create a cycle in the reporting line'')
         | Infrastructure _ \<Rightarrow> infra_error E ''USER_STORE_UNAVAILABLE'' ''TRANSIENT'')"

definition revocation_error :: "('sk, 'k, 'g, 'v) AuthEnv \<Rightarrow> 'v ApiError" where
  "revocation_error E = infra_error E ''TOKEN_REVOCATION_STORE_UNAVAILABLE'' ''TRANSIENT''"

definition password_error :: "('sk, 'k, 'g, 'v) AuthEnv \<Rightarrow> PasswordError \<Rightarrow> 'v ApiError" where
  "password_error E error =
     (case error of
        PasswordPolicy message \<Rightarrow>
          ApiError_new 400 ''WEAK_PASSWORD'' ''VALIDATION'' ''NON_RETRYABLE'' (ae_uuid E 0)
            (jb_object (ae_build E) [(''message'', jb_string (ae_build E) message)])
      | _ \<Rightarrow> infra_error E ''PASSWORD_HASHING_FAILED'' ''TRANSIENT'')"

section \<open>Who may administer\<close>

definition forbidden :: "('sk, 'k, 'g, 'v) AuthEnv \<Rightarrow> string \<Rightarrow> string \<Rightarrow> 'v ApiError" where
  "forbidden E error_code message =
     ApiError_new 403 error_code ''AUTHORITY'' ''NON_RETRYABLE'' (ae_uuid E 0)
       (jb_object (ae_build E) [(''message'', jb_string (ae_build E) message)])"

definition authenticated_admin_candidate ::
    "('sk, 'k, 'g, 'v) AuthEnv \<Rightarrow> 's RevocationOps \<Rightarrow> 's \<Rightarrow> UserDb \<Rightarrow> string option \<Rightarrow> (AuthenticatedUser \<times> UserRecord, 'v ApiError) result" where
  "authenticated_admin_candidate E R store db header =
     (case authenticate_headers E R store db header of
        Inl e \<Rightarrow> Inl e
      | Inr auth \<Rightarrow>
          (case find_by_id (\<lambda>_. ae_user_fault E 1) (au_user_id auth) db of
             Inl e \<Rightarrow> Inl (store_error E e)
           | Inr None \<Rightarrow> Inl (ApiError_unauthorized (ae_build E) (ae_uuid E 0))
           | Inr (Some user) \<Rightarrow> Inr (auth, user)))"

definition require_active_admin :: "('sk, 'k, 'g, 'v) AuthEnv \<Rightarrow> UserRecord \<Rightarrow> (UserRecord, 'v ApiError) result" where
  "require_active_admin E user =
     (if \<not> u_is_active user \<or> \<not> u_is_admin user then Inl (forbidden E ''ADMIN_REQUIRED'' ''Administrator privileges are required'')
      else Inr user)"

definition require_admin ::
    "('sk, 'k, 'g, 'v) AuthEnv \<Rightarrow> 's RevocationOps \<Rightarrow> 's \<Rightarrow> UserDb \<Rightarrow> string option \<Rightarrow> (UserRecord, 'v ApiError) result" where
  "require_admin E R store db header =
     (case authenticated_admin_candidate E R store db header of Inl e \<Rightarrow> Inl e | Inr (_, user) \<Rightarrow> require_active_admin E user)"

definition require_admin_mutation ::
    "('sk, 'k, 'g, 'v) AuthEnv \<Rightarrow> 's RevocationOps \<Rightarrow> 's \<Rightarrow> UserDb \<Rightarrow> string option \<Rightarrow> (UserRecord, 'v ApiError) result" where
  "require_admin_mutation E R store db header =
     (case authenticated_admin_candidate E R store db header of
        Inl e \<Rightarrow> Inl e
      | Inr (auth, user) \<Rightarrow>
          (case require_active_admin E user of
             Inl e \<Rightarrow> Inl e
           | Inr user \<Rightarrow>
               (case require_capability E auth can_administer ''administer'' of Inl e \<Rightarrow> Inl e | Inr _ \<Rightarrow> Inr user)))"

definition require_class ::
    "('sk, 'k, 'g, 'v) AuthEnv \<Rightarrow> 's RevocationOps \<Rightarrow> 's \<Rightarrow> UserDb \<Rightarrow> string option \<Rightarrow> UserClass list \<Rightarrow> (UserRecord, 'v ApiError) result" where
  "require_class E R store db header allowed =
     (case authenticated_admin_candidate E R store db header of
        Inl e \<Rightarrow> Inl e
      | Inr (_, user) \<Rightarrow>
          let permitted = u_is_admin user \<or> (case u_class user of Some c \<Rightarrow> c \<in> set allowed | None \<Rightarrow> False)
          in if \<not> u_is_active user \<or> \<not> permitted
             then Inl (forbidden E ''CLASS_REQUIRED'' ''Your account's class does not permit this action'')
             else Inr user)"

definition require_manager_or_admin ::
    "('sk, 'k, 'g, 'v) AuthEnv \<Rightarrow> 's RevocationOps \<Rightarrow> 's \<Rightarrow> UserDb \<Rightarrow> string option \<Rightarrow> (UserRecord, 'v ApiError) result" where
  "require_manager_or_admin E R store db header =
     (case authenticated_admin_candidate E R store db header of
        Inl e \<Rightarrow> Inl e
      | Inr (_, user) \<Rightarrow>
          if \<not> u_is_active user \<or> \<not> (u_is_admin user \<or> u_is_manager user)
          then Inl (forbidden E ''MANAGER_OR_ADMIN_REQUIRED'' ''Manager or administrator privileges are required'')
          else Inr user)"

section \<open>Reading\<close>

record UserDto =
  dto_id :: string
  dto_username :: string
  dto_organization_id :: string
  dto_is_admin :: bool
  dto_is_manager :: bool
  dto_class :: "string option"
  dto_parent_user_id :: "string option"
  dto_is_active :: bool

definition user_dto :: "UserRecord \<Rightarrow> UserDto" where
  "user_dto user = \<lparr>dto_id = u_user_id user, dto_username = u_username user, dto_organization_id = u_organization_id user,
     dto_is_admin = u_is_admin user, dto_is_manager = u_is_manager user, dto_class = map_option class_as_str (u_class user),
     dto_parent_user_id = u_parent_user_id user, dto_is_active = u_is_active user\<rparr>"

record PickerUserDto =
  picker_id :: string
  picker_username :: string

record HierarchyUserDto =
  hier_id :: string
  hier_parent_user_id :: "string option"
  hier_is_admin :: bool

definition list_picker_users ::
    "('sk, 'k, 'g, 'v) AuthEnv \<Rightarrow> 's RevocationOps \<Rightarrow> 's \<Rightarrow> UserDb \<Rightarrow> string option \<Rightarrow> (PickerUserDto list, 'v ApiError) result" where
  "list_picker_users E R store db header =
     (case authenticate_headers E R store db header of
        Inl e \<Rightarrow> Inl e
      | Inr authenticated \<Rightarrow>
          (case list_in_organization (\<lambda>_. ae_user_fault E 1) (au_organization_id authenticated) db of
             Inl e \<Rightarrow> Inl (store_error E e)
           | Inr us \<Rightarrow> Inr (map (\<lambda>user. \<lparr>picker_id = u_user_id user, picker_username = u_username user\<rparr>) (filter u_is_active us))))"

definition list_hierarchy_users ::
    "('sk, 'k, 'g, 'v) AuthEnv \<Rightarrow> 's RevocationOps \<Rightarrow> 's \<Rightarrow> UserDb \<Rightarrow> string option \<Rightarrow> (HierarchyUserDto list, 'v ApiError) result" where
  "list_hierarchy_users E R store db header =
     (case authenticate_headers E R store db header of
        Inl e \<Rightarrow> Inl e
      | Inr authenticated \<Rightarrow>
          (case list_in_organization (\<lambda>_. ae_user_fault E 1) (au_organization_id authenticated) db of
             Inl e \<Rightarrow> Inl (store_error E e)
           | Inr us \<Rightarrow>
               Inr (map (\<lambda>user. \<lparr>hier_id = u_user_id user, hier_parent_user_id = u_parent_user_id user, hier_is_admin = u_is_admin user\<rparr>)
                     (filter u_is_active us))))"

definition list_users_route ::
    "('sk, 'k, 'g, 'v) AuthEnv \<Rightarrow> 's RevocationOps \<Rightarrow> 's \<Rightarrow> UserDb \<Rightarrow> string option \<Rightarrow> (UserDto list, 'v ApiError) result" where
  "list_users_route E R store db header =
     (case require_admin E R store db header of
        Inl e \<Rightarrow> Inl e
      | Inr admin \<Rightarrow>
          (case list_in_organization (\<lambda>_. ae_user_fault E 2) (u_organization_id admin) db of
             Inl e \<Rightarrow> Inl (store_error E e)
           | Inr us \<Rightarrow> Inr (map user_dto us)))"

definition get_user ::
    "('sk, 'k, 'g, 'v) AuthEnv \<Rightarrow> 's RevocationOps \<Rightarrow> 's \<Rightarrow> UserDb \<Rightarrow> string option \<Rightarrow> string \<Rightarrow> (UserDto, 'v ApiError) result" where
  "get_user E R store db header uid =
     (case require_admin E R store db header of
        Inl e \<Rightarrow> Inl e
      | Inr admin \<Rightarrow>
          (case find_by_id_in_organization (\<lambda>_. ae_user_fault E 2) uid (u_organization_id admin) db of
             Inl e \<Rightarrow> Inl (store_error E e)
           | Inr None \<Rightarrow> Inl (store_error E NotFound)
           | Inr (Some user) \<Rightarrow> Inr (user_dto user)))"

definition get_mobile_access ::
    "('sk, 'k, 'g, 'v) AuthEnv \<Rightarrow> 's RevocationOps \<Rightarrow> 's \<Rightarrow> UserDb \<Rightarrow> string option \<Rightarrow> (string list, 'v ApiError) result" where
  "get_mobile_access E R store db header =
     (case require_admin E R store db header of
        Inl e \<Rightarrow> Inl e
      | Inr admin \<Rightarrow>
          (case list_mobile_access (\<lambda>_. ae_user_fault E 2) (u_organization_id admin) db of
             Inl e \<Rightarrow> Inl (store_error E e)
           | Inr classes \<Rightarrow> Inr classes))"

section \<open>Writing\<close>

record CreateUserRequest =
  cur_username :: string
  cur_password :: string
  cur_is_admin :: bool
  cur_is_manager :: bool
  cur_class :: "string option"
  cur_parent_user_id :: "string option"

definition parse_class_field :: "('sk, 'k, 'g, 'v) AuthEnv \<Rightarrow> string option \<Rightarrow> (UserClass option, 'v ApiError) result" where
  "parse_class_field E raw =
     (case raw of
        None \<Rightarrow> Inr None
      | Some s \<Rightarrow>
          (case class_parse s of
             Some c \<Rightarrow> Inr (Some c)
           | None \<Rightarrow>
               Inl (ApiError_new 400 ''INVALID_CLASS'' ''VALIDATION'' ''NON_RETRYABLE'' (ae_uuid E 0)
                 (jb_object (ae_build E) [(''message'', jb_string (ae_build E) (''Unrecognized class: '' @ s))]))))"

definition create_user_record ::
    "('sk, 'k, 'g, 'v) AuthEnv \<Rightarrow> u64 \<Rightarrow> CreateUserRequest \<Rightarrow> bool \<Rightarrow> string \<Rightarrow> UserDb \<Rightarrow> UserDb \<times> (UserDto, 'v ApiError) result" where
  "create_user_record E now_ms payload is_admin org db =
     (let username = trim (cur_username payload); msg = (\<lambda>m. jb_object (ae_build E) [(''message'', jb_string (ae_build E) m)])
      in if eq_ignore_ascii_case username ''allfather''
           then (db, Inl (ApiError_new 400 ''RESERVED_USERNAME'' ''AUTHORITY'' ''NON_RETRYABLE'' (ae_uuid E 0)
                        (msg ''The canonical All-Father username is reserved'')))
         else if username = []
           then (db, Inl (ApiError_new 400 ''INVALID_USERNAME'' ''VALIDATION'' ''NON_RETRYABLE'' (ae_uuid E 0) (msg ''Username must not be empty'')))
         else
           (case password_hash E (cur_password payload) of
              Inl e \<Rightarrow> (db, Inl (password_error E e))
            | Inr hash \<Rightarrow>
                (case parse_class_field E (cur_class payload) of
                   Inl e \<Rightarrow> (db, Inl e)
                 | Inr class \<Rightarrow>
                     (case create_user (ae_to_lowercase E) now_ms (\<lambda>n. ae_user_fault E (2 + n))
                             \<lparr>new_user_id = ae_uuid E 3, new_username = username, new_organization_id = org, new_password_hash = hash,
                              new_is_admin = is_admin, new_is_manager = cur_is_manager payload, new_class = class,
                              new_parent_user_id = cur_parent_user_id payload\<rparr> db of
                        (db', Inl e) \<Rightarrow> (db', Inl (store_error E e))
                      | (db', Inr record) \<Rightarrow> (db', Inr (user_dto record))))))"

definition success :: "('sk, 'k, 'g, 'v) AuthEnv \<Rightarrow> 'v" where
  "success E = jb_object (ae_build E) [(''success'', jb_bool (ae_build E) True)]"

definition finish_update :: "('sk, 'k, 'g, 'v) AuthEnv \<Rightarrow> UserDb \<times> (unit, UserStoreError) result \<Rightarrow> UserDb \<times> ('v, 'v ApiError) result" where
  "finish_update E r = (case r of (db', Inl e) \<Rightarrow> (db', Inl (store_error E e)) | (db', Inr _) \<Rightarrow> (db', Inr (success E)))"

datatype AdminRequest =
    PostUser CreateUserRequest
  | PostManager string bool
  | PostClass string "string option"
  | PostParent string "string option"
  | PutMobileAccess "string list"
  | PostDeactivate string
  | PostActivate string
  | PostPassword string string

datatype 'v AdminResponse = Created UserDto | Done 'v

fun check_classes :: "('sk, 'k, 'g, 'v) AuthEnv \<Rightarrow> string list \<Rightarrow> (unit, 'v ApiError) result" where
  "check_classes E [] = Inr ()"
| "check_classes E (c # cs) = (case parse_class_field E (Some c) of Inl e \<Rightarrow> Inl e | Inr _ \<Rightarrow> check_classes E cs)"

definition deactivate_user ::
    "('sk, 'k, 'g, 'v) AuthEnv \<Rightarrow> 's RevocationOps \<Rightarrow> u64 \<Rightarrow> UserRecord \<Rightarrow> string \<Rightarrow> UserDb \<Rightarrow> 's \<Rightarrow> UserDb \<times> 's \<times> ('v, 'v ApiError) result" where
  "deactivate_user E R now_ms admin uid db store =
     (if u_user_id admin = uid
        then (db, store, Inl (ApiError_new 400 ''CANNOT_DEACTIVATE_SELF'' ''VALIDATION'' ''NON_RETRYABLE'' (ae_uuid E 0)
               (jb_object (ae_build E) [(''message'', jb_string (ae_build E) ''An administrator cannot deactivate their own account'')])))
      else
        (case set_active now_ms (ae_user_fault E 2) uid (u_organization_id admin) False db of
           (db', Inl e) \<Rightarrow> (db', store, Inl (store_error E e))
         | (db', Inr _) \<Rightarrow>
             (case rv_revoke_all_for_user R uid (ae_unix E 2) store of
                Inl _ \<Rightarrow> (db', store, Inl (revocation_error E))
              | Inr store' \<Rightarrow> (db', store', Inr (success E)))))"

definition set_user_password ::
    "('sk, 'k, 'g, 'v) AuthEnv \<Rightarrow> 's RevocationOps \<Rightarrow> u64 \<Rightarrow> UserRecord \<Rightarrow> string \<Rightarrow> string \<Rightarrow> UserDb \<Rightarrow> 's
      \<Rightarrow> UserDb \<times> 's \<times> ('v, 'v ApiError) result" where
  "set_user_password E R now_ms admin uid password db store =
     (case find_by_id_in_organization (\<lambda>_. ae_user_fault E 2) uid (u_organization_id admin) db of
        Inl e \<Rightarrow> (db, store, Inl (store_error E e))
      | Inr None \<Rightarrow>
          (db, store, Inl (ApiError_new 404 ''USER_NOT_FOUND'' ''AUTHORITY'' ''NON_RETRYABLE'' (ae_uuid E 0) (jb_object (ae_build E) [])))
      | Inr (Some target) \<Rightarrow>
          if eq_ignore_ascii_case (u_username target) ''allfather''
            then (db, store, Inl (forbidden E ''RESERVED_IDENTITY'' ''The canonical All-Father account is managed by ONYX authentication''))
          else
            (case password_hash E password of
               Inl e \<Rightarrow> (db, store, Inl (password_error E e))
             | Inr hash \<Rightarrow>
                 (case set_password_hash now_ms (ae_user_fault E 3) uid (u_organization_id admin) hash db of
                    (db', Inl e) \<Rightarrow> (db', store, Inl (store_error E e))
                  | (db', Inr _) \<Rightarrow>
                      (case rv_revoke_all_for_user R uid (ae_unix E 2) store of
                         Inl _ \<Rightarrow> (db', store, Inl (revocation_error E))
                       | Inr store' \<Rightarrow> (db', store', Inr (success E))))))"

text \<open>What a mutation route does once the administrator is established.\<close>

fun admin_perform ::
    "('sk, 'k, 'g, 'v) AuthEnv \<Rightarrow> 's RevocationOps \<Rightarrow> u64 \<Rightarrow> UserRecord \<Rightarrow> AdminRequest \<Rightarrow> UserDb \<Rightarrow> 's
      \<Rightarrow> UserDb \<times> 's \<times> ('v AdminResponse, 'v ApiError) result" where
  "admin_perform E R now_ms admin (PostUser payload) db store =
     (case create_user_record E now_ms payload (cur_is_admin payload) (u_organization_id admin) db of
        (db', Inl e) \<Rightarrow> (db', store, Inl e)
      | (db', Inr dto) \<Rightarrow> (db', store, Inr (Created dto)))"
| "admin_perform E R now_ms admin (PostManager uid is_manager) db store =
     (case finish_update E (set_manager now_ms (ae_user_fault E 2) uid (u_organization_id admin) is_manager db) of
        (db', Inl e) \<Rightarrow> (db', store, Inl e)
      | (db', Inr v) \<Rightarrow> (db', store, Inr (Done v)))"
| "admin_perform E R now_ms admin (PostClass uid raw) db store =
     (case parse_class_field E raw of
        Inl e \<Rightarrow> (db, store, Inl e)
      | Inr c \<Rightarrow>
          (case finish_update E (set_class now_ms (ae_user_fault E 2) uid (u_organization_id admin) c db) of
             (db', Inl e) \<Rightarrow> (db', store, Inl e)
           | (db', Inr v) \<Rightarrow> (db', store, Inr (Done v))))"
| "admin_perform E R now_ms admin (PostParent uid parent) db store =
     (case finish_update E (set_parent now_ms (\<lambda>n. ae_user_fault E (2 + n)) (ae_user_fault E 1004) uid (u_organization_id admin) parent db) of
        (db', Inl e) \<Rightarrow> (db', store, Inl e)
      | (db', Inr v) \<Rightarrow> (db', store, Inr (Done v)))"
| "admin_perform E R now_ms admin (PutMobileAccess classes) db store =
     (case check_classes E classes of
        Inl e \<Rightarrow> (db, store, Inl e)
      | Inr _ \<Rightarrow>
          (case finish_update E (set_mobile_access (\<lambda>n. ae_user_fault E (2 + n)) (u_organization_id admin) classes db) of
             (db', Inl e) \<Rightarrow> (db', store, Inl e)
           | (db', Inr v) \<Rightarrow> (db', store, Inr (Done v))))"
| "admin_perform E R now_ms admin (PostDeactivate uid) db store =
     (case deactivate_user E R now_ms admin uid db store of
        (db', store', Inl e) \<Rightarrow> (db', store', Inl e)
      | (db', store', Inr v) \<Rightarrow> (db', store', Inr (Done v)))"
| "admin_perform E R now_ms admin (PostActivate uid) db store =
     (case finish_update E (set_active now_ms (ae_user_fault E 2) uid (u_organization_id admin) True db) of
        (db', Inl e) \<Rightarrow> (db', store, Inl e)
      | (db', Inr v) \<Rightarrow> (db', store, Inr (Done v)))"
| "admin_perform E R now_ms admin (PostPassword uid password) db store =
     (case set_user_password E R now_ms admin uid password db store of
        (db', store', Inl e) \<Rightarrow> (db', store', Inl e)
      | (db', store', Inr v) \<Rightarrow> (db', store', Inr (Done v)))"

definition admin_route ::
    "('sk, 'k, 'g, 'v) AuthEnv \<Rightarrow> 's RevocationOps \<Rightarrow> u64 \<Rightarrow> string option \<Rightarrow> AdminRequest \<Rightarrow> UserDb \<Rightarrow> 's
      \<Rightarrow> UserDb \<times> 's \<times> ('v AdminResponse, 'v ApiError) result" where
  "admin_route E R now_ms header request db store =
     (case require_admin_mutation E R store db header of
        Inl e \<Rightarrow> (db, store, Inl e)
      | Inr admin \<Rightarrow> admin_perform E R now_ms admin request db store)"

section \<open>Confinement to the tenant\<close>

text \<open>Everything of the store that does not belong to an organisation.\<close>

definition outside :: "string \<Rightarrow> UserDb \<Rightarrow> (string \<Rightarrow> UserRow option) \<times> (string \<times> string) list" where
  "outside org db =
     (\<lambda>uid. Option.bind (fmlookup (users db) uid) (\<lambda>row. if ur_organization_id row = org then None else Some row),
      filter (\<lambda>(o', _). o' \<noteq> org) (mobile_class_access db))"

lemma outside_update_user:
  assumes "\<And>r. ur_organization_id (f r) = ur_organization_id r"
  shows "outside org (fst (update_user f now fault uid org db)) = outside org db"
  by (auto simp: update_user_def outside_def assms fun_eq_iff split: option.split)

lemma outside_create_user: "outside (new_organization_id user) (fst (create_user lc now fault user db)) = outside (new_organization_id user) db"
  by (auto simp: create_user_def outside_def fun_eq_iff Let_def split: option.split sum.split bool.split)

lemma outside_set_parent: "outside org (fst (set_parent now fault uf uid org parent db)) = outside org db"
  by (auto simp: set_parent_def outside_update_user split: option.split sum.split)

lemma insert_mobile_access_outside:
  "insert_mobile_access fault i org cs rows = Inr rows' \<Longrightarrow> filter (\<lambda>(o', _). o' \<noteq> org) rows' = filter (\<lambda>(o', _). o' \<noteq> org) rows"
  by (induction fault i org cs rows rule: insert_mobile_access.induct) (auto split: option.splits if_splits)

lemma outside_set_mobile_access: "outside org (fst (set_mobile_access fault org classes db)) = outside org db"
  by (auto simp: set_mobile_access_def outside_def dest: insert_mobile_access_outside split: option.split sum.split)

lemmas outside_simps = outside_create_user outside_set_parent outside_set_mobile_access
  outside_update_user set_active_def set_manager_def set_class_def set_password_hash_def

lemmas users_inv_simps = users_inv_create users_inv_set_parent users_inv_plain users_inv_set_mobile_access

lemma fst_finish_update: "fst (finish_update E r) = fst r"
  by (auto simp: finish_update_def split: prod.split sum.split)

lemma create_user_record_fst:
  "fst (create_user_record E now_ms payload adm org db) = db
     \<or> (\<exists>lc fault user. new_organization_id user = org \<and> fst (create_user_record E now_ms payload adm org db) = fst (create_user lc now_ms fault user db))"
proof (cases "\<exists>h c. password_hash E (cur_password payload) = Inr h \<and> parse_class_field E (cur_class payload) = Inr c
    \<and> \<not> eq_ignore_ascii_case (trim (cur_username payload)) ''allfather'' \<and> trim (cur_username payload) \<noteq> []")
  case True
  then obtain h c where "password_hash E (cur_password payload) = Inr h" "parse_class_field E (cur_class payload) = Inr c"
    "\<not> eq_ignore_ascii_case (trim (cur_username payload)) ''allfather''" "trim (cur_username payload) \<noteq> []" by blast
  then have "fst (create_user_record E now_ms payload adm org db) = fst (create_user (ae_to_lowercase E) now_ms (\<lambda>n. ae_user_fault E (2 + n))
      \<lparr>new_user_id = ae_uuid E 3, new_username = trim (cur_username payload), new_organization_id = org, new_password_hash = h,
       new_is_admin = adm, new_is_manager = cur_is_manager payload, new_class = c, new_parent_user_id = cur_parent_user_id payload\<rparr> db)"
    by (auto simp: create_user_record_def Let_def split: prod.split sum.split)
  then show ?thesis by (metis NewUser.select_convs(3))
next
  case False
  then show ?thesis by (auto simp: create_user_record_def Let_def split: sum.split)
qed

text \<open>The effect of a request on the user table is that of one store operation for the tenant of the administrator.\<close>

lemma admin_perform_cases:
  obtains (same) "fst (admin_perform E R now_ms admin request db store) = db"
  | (create) lc fault user where "new_organization_id user = u_organization_id admin"
      "fst (admin_perform E R now_ms admin request db store) = fst (create_user lc now_ms fault user db)"
  | (update) f fault uid where "\<And>r. ur_username (f r) = ur_username r \<and> ur_organization_id (f r) = ur_organization_id r \<and> ur_parent (f r) = ur_parent r"
      "fst (admin_perform E R now_ms admin request db store) = fst (update_user f now_ms fault uid (u_organization_id admin) db)"
  | (parent) fault uf uid p where
      "fst (admin_perform E R now_ms admin request db store) = fst (set_parent now_ms fault uf uid (u_organization_id admin) p db)"
  | (mobile) fault classes where
      "fst (admin_perform E R now_ms admin request db store) = fst (set_mobile_access fault (u_organization_id admin) classes db)"
proof (cases request)
  case (PostUser payload)
  then have "fst (admin_perform E R now_ms admin request db store) = fst (create_user_record E now_ms payload (cur_is_admin payload) (u_organization_id admin) db)"
    by (simp split: prod.split sum.split)
  with create_user_record_fst [of E now_ms payload "cur_is_admin payload" "u_organization_id admin" db] show ?thesis by (metis same create)
next
  case (PostManager uid b)
  have "fst (admin_perform E R now_ms admin request db store) = fst (finish_update E (set_manager now_ms (ae_user_fault E 2) uid (u_organization_id admin) b db))"
    by (simp add: PostManager split: prod.split sum.split)
  then show ?thesis by (intro update [of "ur_is_manager_update (\<lambda>_. b)"]) (simp_all add: fst_finish_update set_manager_def)
next
  case (PostClass uid raw)
  show ?thesis
  proof (cases "parse_class_field E raw")
    case (Inr c)
    then have "fst (admin_perform E R now_ms admin request db store) = fst (finish_update E (set_class now_ms (ae_user_fault E 2) uid (u_organization_id admin) c db))"
      by (simp add: PostClass split: prod.split sum.split)
    then show ?thesis by (intro update [of "ur_class_update (\<lambda>_. map_option class_as_str c)"]) (simp_all add: fst_finish_update set_class_def)
  qed (auto intro: same simp: PostClass)
next
  case (PostParent uid p)
  have "fst (admin_perform E R now_ms admin request db store) = fst (finish_update E
      (set_parent now_ms (\<lambda>n. ae_user_fault E (2 + n)) (ae_user_fault E 1004) uid (u_organization_id admin) p db))"
    by (simp add: PostParent split: prod.split sum.split)
  then show ?thesis unfolding fst_finish_update by (rule parent)
next
  case (PutMobileAccess classes)
  show ?thesis
  proof (cases "check_classes E classes")
    case (Inr c)
    then have "fst (admin_perform E R now_ms admin request db store) = fst (finish_update E
        (set_mobile_access (\<lambda>n. ae_user_fault E (2 + n)) (u_organization_id admin) classes db))"
      by (simp add: PutMobileAccess split: prod.split sum.split)
    then show ?thesis unfolding fst_finish_update by (rule mobile)
  qed (auto intro: same simp: PutMobileAccess)
next
  case (PostDeactivate uid)
  have "fst (admin_perform E R now_ms admin request db store) = fst (deactivate_user E R now_ms admin uid db store)"
    by (simp add: PostDeactivate split: prod.split sum.split)
  moreover have "fst (deactivate_user E R now_ms admin uid db store) \<in> {db, fst (set_active now_ms (ae_user_fault E 2) uid (u_organization_id admin) False db)}"
    by (auto simp: deactivate_user_def split: prod.splits sum.splits)
  ultimately show ?thesis
    using same update [of "ur_is_active_update (\<lambda>_. False)" "ae_user_fault E 2" uid] by (auto simp: set_active_def)
next
  case (PostActivate uid)
  have "fst (admin_perform E R now_ms admin request db store) = fst (finish_update E (set_active now_ms (ae_user_fault E 2) uid (u_organization_id admin) True db))"
    by (simp add: PostActivate split: prod.split sum.split)
  then show ?thesis by (intro update [of "ur_is_active_update (\<lambda>_. True)"]) (simp_all add: fst_finish_update set_active_def)
next
  case (PostPassword uid pw)
  have "fst (admin_perform E R now_ms admin request db store) = fst (set_user_password E R now_ms admin uid pw db store)"
    by (simp add: PostPassword split: prod.split sum.split)
  moreover have "fst (set_user_password E R now_ms admin uid pw db store) = db
      \<or> (\<exists>h. fst (set_user_password E R now_ms admin uid pw db store) = fst (set_password_hash now_ms (ae_user_fault E 3) uid (u_organization_id admin) h db))"
    by (auto simp: set_user_password_def split: prod.splits sum.splits option.splits) (metis fst_conv)+
  ultimately show ?thesis
    using same update [of "ur_password_hash_update (\<lambda>_. h)" "ae_user_fault E 3" uid for h] by (auto simp: set_password_hash_def)
qed

lemma admin_perform_inv: "users_inv db \<Longrightarrow> users_inv (fst (admin_perform E R now_ms admin request db store))"
  by (rule admin_perform_cases [of E R now_ms admin request db store]) (simp_all add: users_inv_simps users_inv_update_user)

lemma admin_perform_outside: "outside (u_organization_id admin) (fst (admin_perform E R now_ms admin request db store)) = outside (u_organization_id admin) db"
proof (rule admin_perform_cases [of E R now_ms admin request db store])
  fix lc fault user
  assume "new_organization_id user = u_organization_id admin"
    "fst (admin_perform E R now_ms admin request db store) = fst (create_user lc now_ms fault user db)"
  then show ?thesis using outside_create_user [of user lc now_ms fault db] by simp
qed (simp_all add: outside_simps)

lemma admin_perform_store:
  "fst (snd (admin_perform E R now_ms admin request db store)) = store
     \<or> (\<exists>uid. in_org db (u_organization_id admin) uid
          \<and> rv_revoke_all_for_user R uid (ae_unix E 2) store = Inr (fst (snd (admin_perform E R now_ms admin request db store))))"
proof -
  have org: "in_org db org uid" if "update_user f now fault uid org db = (db', Inr ())" for f now fault uid org db'
    using that by (auto simp: update_user_def in_org_def split: option.splits if_splits)
  show ?thesis
    by (cases request)
      (auto simp: deactivate_user_def set_user_password_def set_active_def set_password_hash_def dest: org
        split: prod.split sum.split option.split)
qed

lemma require_admin_mutation_Inr:
  assumes "require_admin_mutation E R s db header = Inr admin"
  obtains au row where "authenticate_headers E R s db header = Inr au" "au_client_type au \<noteq> MobileObserver" "au_user_id au = u_user_id admin"
    "fmlookup (users db) (u_user_id admin) = Some row" "ur_is_active row" "ur_is_admin row" "ur_organization_id row = u_organization_id admin"
proof -
  from assms obtain au where au: "authenticate_headers E R s db header = Inr au" "find_by_id (\<lambda>_. ae_user_fault E 1) (au_user_id au) db = Inr (Some admin)"
      "u_is_active admin" "u_is_admin admin" "require_capability E au can_administer ''administer'' = Inr ()"
    by (auto simp: require_admin_mutation_def authenticated_admin_candidate_def require_active_admin_def split: sum.splits option.splits if_splits)
  from au(5) have "au_client_type au \<noteq> MobileObserver"
    by (auto simp: require_capability_def OBSERVER_CAPABILITIES_def split: if_splits)
  moreover from au(2-4) obtain row where "fmlookup (users db) (u_user_id admin) = Some row" "ur_is_active row" "ur_is_admin row"
      "ur_organization_id row = u_organization_id admin" "au_user_id au = u_user_id admin"
    by (auto simp: find_by_id_def record_from_row_def split: option.splits sum.splits)
  ultimately show thesis using au(1) that by blast
qed

lemma update_user_row:
  assumes "update_user f now fault uid org db = (db', Inr ())"
  shows "\<exists>row. fmlookup (users db) uid = Some row \<and> ur_organization_id row = org \<and> fmlookup (users db') uid = Some ((f row)\<lparr>ur_updated_at := now\<rparr>)"
  using assms by (auto simp: update_user_def split: option.splits if_splits)

lemma deactivate_user_Inr:
  assumes "deactivate_user E R now_ms admin uid db s = (db', s', Inr v)"
  shows "u_user_id admin \<noteq> uid \<and> update_user (ur_is_active_update (\<lambda>_. False)) now_ms (ae_user_fault E 2) uid (u_organization_id admin) db = (db', Inr ())
    \<and> rv_revoke_all_for_user R uid (ae_unix E 2) s = Inr s'"
  using assms by (auto simp: deactivate_user_def set_active_def split: if_splits prod.splits sum.splits)

lemma set_user_password_Inr:
  assumes "set_user_password E R now_ms admin uid pw db s = (db', s', Inr v)"
  shows "rv_revoke_all_for_user R uid (ae_unix E 2) s = Inr s' \<and> (\<exists>h. password_hash E pw = Inr h
    \<and> update_user (ur_password_hash_update (\<lambda>_. h)) now_ms (ae_user_fault E 3) uid (u_organization_id admin) db = (db', Inr ()))"
  using assms by (auto simp: set_user_password_def set_password_hash_def split: if_splits prod.splits sum.splits option.splits)

lemma admin_perform_withdraw:
  "admin_perform E R now_ms admin (PostDeactivate uid) db s = (db', s', Inr v) \<Longrightarrow> \<exists>w. deactivate_user E R now_ms admin uid db s = (db', s', Inr w)"
  "admin_perform E R now_ms admin (PostPassword uid pw) db s = (db', s', Inr v) \<Longrightarrow> \<exists>w. set_user_password E R now_ms admin uid pw db s = (db', s', Inr w)"
  by (auto split: prod.splits sum.splits)

section \<open>Properties\<close>

text \<open>
  C13. Administration is confined. A request to an administration route changes something only when its token belongs to an active
  administrator and does not come from an observer client; then it leaves every account and
  every mobile grant of another tenant as it was, and revokes, if any, the tokens of one account of the tenant. Every request, refused,
  failed or done, keeps the invariant of the user table.
\<close>

theorem admin_route_confined:
  assumes "admin_route E R now_ms header request db store = (db', store', res)"
  shows "(users_inv db \<longrightarrow> users_inv db')
    \<and> ((db', store') \<noteq> (db, store) \<longrightarrow>
        (\<exists>au row. authenticate_headers E R store db header = Inr au \<and> au_client_type au \<noteq> MobileObserver
           \<and> fmlookup (users db) (au_user_id au) = Some row \<and> ur_is_active row \<and> ur_is_admin row
           \<and> outside (ur_organization_id row) db' = outside (ur_organization_id row) db
           \<and> (store' \<noteq> store \<longrightarrow> (\<exists>uid. in_org db (ur_organization_id row) uid \<and> rv_revoke_all_for_user R uid (ae_unix E 2) store = Inr store'))))"
proof (cases "require_admin_mutation E R store db header")
  case (Inl e)
  with assms show ?thesis by (simp add: admin_route_def)
next
  case (Inr admin)
  with assms have p: "db' = fst (admin_perform E R now_ms admin request db store)" "store' = fst (snd (admin_perform E R now_ms admin request db store))"
    by (simp_all add: admin_route_def)
  from Inr obtain au row where "authenticate_headers E R store db header = Inr au" "au_client_type au \<noteq> MobileObserver" "au_user_id au = u_user_id admin"
    "fmlookup (users db) (u_user_id admin) = Some row" "ur_is_active row" "ur_is_admin row" "ur_organization_id row = u_organization_id admin"
    by (rule require_admin_mutation_Inr)
  then show ?thesis
    using admin_perform_inv admin_perform_outside admin_perform_store [of E R now_ms admin request db store] unfolding p by metis
qed

text \<open>A store with an administrator, and the request that deactivates an account.\<close>

definition admin_db :: UserDb where
  "admin_db = sample_users\<lparr>users := fmupd ''r'' ((sample_row ''root'' None)\<lparr>ur_is_admin := True, ur_class := None\<rparr>) (users sample_users)\<rparr>"

definition root_user :: UserRecord where
  "root_user = \<lparr>u_user_id = ''r'', u_username = ''root'', u_organization_id = ''org'', u_password_hash = ''h'', u_is_admin = True,
     u_is_manager = False, u_class = None, u_parent_user_id = None, u_is_active = True\<rparr>"

definition root_header :: "string option" where
  "root_header = Some (''Bearer '' @ resp_access_token (toy_response root_user Admin))"

lemma root_fields [simp]: "u_user_id root_user = ''r''" "u_organization_id root_user = ''org''" "u_is_admin root_user" "u_is_active root_user"
  by (simp_all add: root_user_def)

lemma root_find: "find_by_id (\<lambda>_. None) ''r'' admin_db = Inr (Some root_user)"
  by code_simp

lemma root_admin: "require_admin_mutation (toy_env root_user Admin) (toy_rev (\<lambda>_. None)) fresh_store admin_db root_header = Inr root_user"
proof -
  have "authenticate_headers (toy_env root_user Admin) (toy_rev (\<lambda>_. None)) fresh_store admin_db root_header
     = Inr \<lparr>au_user_id = ''r'', au_username = u_username root_user, au_organization_id = u_organization_id root_user,
           au_token = resp_access_token (toy_response root_user Admin), au_scope = tc_scope (toy_claims root_user Admin True), au_client_type = Admin\<rparr>"
    using toy_authenticate [of root_user admin_db Admin] root_find unfolding root_header_def by simp
  then show ?thesis
    by (simp add: require_admin_mutation_def authenticated_admin_candidate_def root_find)
      (simp add: require_active_admin_def require_capability_def FULL_CAPABILITIES_def)
qed

lemma root_deactivates:
  "\<exists>s1 v. admin_route (toy_env root_user Admin) (toy_rev (\<lambda>_. None)) 7 root_header (PostDeactivate ''b'') admin_db fresh_store
     = (fst (set_active 7 None ''b'' ''org'' False admin_db), s1, Inr v)"
proof -
  have "snd (set_active 7 None ''b'' ''org'' False admin_db) = Inr ()" by code_simp
  moreover have "\<exists>s1. rv_revoke_all_for_user (toy_rev (\<lambda>_. None)) ''b'' 102 fresh_store = Inr s1"
    by (simp add: toy_rev_def postgres_defs fresh_store_def)
  ultimately show ?thesis
    by (auto simp: admin_route_def root_admin deactivate_user_def split: prod.split sum.split)
qed

theorem admin_route_confined_witness:
  "outside ''org'' (fst (set_active 7 None ''b'' ''org'' False admin_db)) = outside ''org'' admin_db"
proof -
  obtain s1 v where r: "admin_route (toy_env root_user Admin) (toy_rev (\<lambda>_. None)) 7 root_header (PostDeactivate ''b'') admin_db fresh_store
     = (fst (set_active 7 None ''b'' ''org'' False admin_db), s1, Inr v)" using root_deactivates by blast
  have ne: "fst (set_active 7 None ''b'' ''org'' False admin_db) \<noteq> admin_db" by code_simp
  have "au_user_id au = ''r''" if "authenticate_headers (toy_env root_user Admin) (toy_rev (\<lambda>_. None)) fresh_store admin_db root_header = Inr au" for au
    using toy_authenticate [of root_user admin_db Admin] root_find that unfolding root_header_def by auto
  moreover have "ur_organization_id row = ''org''" if "fmlookup (users admin_db) ''r'' = Some row" for row
    using that by (auto simp: admin_db_def sample_row_def)
  ultimately show ?thesis using admin_route_confined [OF r] ne by (metis prod.inject)
qed

text \<open>
  Withdrawn credentials stay withdrawn. When an administrator deactivates an account or resets its password, every token issued to the account up
  to that second is refused from then on, on every server sharing the store and whatever is revoked later. A deactivated account authenticates no
  token at all while it is inactive, and is never the administrator's own; a reset
  password is stored as the hash of the new one.
\<close>

theorem credentials_withdrawn:
  fixes uuid_parse
  defines "R \<equiv> postgres_revocation uuid_parse"
  assumes route: "admin_route E (R f) now_ms header request db s = (db', s', Inr v)"
    and request: "request = PostDeactivate uid \<or> request = PostPassword uid pw" and time: "unat (ae_unix E 2) < 2 ^ 63"
  shows "((rev_step R)\<^sup>*\<^sup>* s' s2 \<and> decode_claims E' token = Some claims \<and> tc_sub claims = uid \<and> tc_iat claims \<le> ae_unix E 2
        \<longrightarrow> (\<exists>e. validate_token E' i (R g) s2 token ty = Inl e))
    \<and> (request = PostDeactivate uid \<longrightarrow> (tc_sub claims = uid \<longrightarrow> (\<exists>e. revalidate_token_principal E' i db' claims = Inl e))
        \<and> (\<exists>au. authenticate_headers E (R f) s db header = Inr au \<and> au_user_id au \<noteq> uid))
    \<and> (request = PostPassword uid pw \<longrightarrow> (\<exists>row. fmlookup (users db') uid = Some row \<and> password_hash E pw = Inr (ur_password_hash row)))"
proof -
  from route obtain admin where admin: "require_admin_mutation E (R f) s db header = Inr admin"
      "admin_perform E (R f) now_ms admin request db s = (db', s', Inr v)" by (auto simp: admin_route_def split: sum.splits)
  obtain au where au: "authenticate_headers E (R f) s db header = Inr au" "au_user_id au = u_user_id admin"
    using require_admin_mutation_Inr [OF admin(1)] by blast
  have off: "u_user_id admin \<noteq> uid \<and> update_user (ur_is_active_update (\<lambda>_. False)) now_ms (ae_user_fault E 2) uid (u_organization_id admin) db = (db', Inr ())
      \<and> rv_revoke_all_for_user (R f) uid (ae_unix E 2) s = Inr s'" if "request = PostDeactivate uid"
  proof -
    from admin_perform_withdraw(1) [OF admin(2) [unfolded that]] obtain w where "deactivate_user E (R f) now_ms admin uid db s = (db', s', Inr w)"
      by (rule exE)
    then show ?thesis by (rule deactivate_user_Inr)
  qed
  have reset: "rv_revoke_all_for_user (R f) uid (ae_unix E 2) s = Inr s' \<and> (\<exists>h. password_hash E pw = Inr h
      \<and> update_user (ur_password_hash_update (\<lambda>_. h)) now_ms (ae_user_fault E 3) uid (u_organization_id admin) db = (db', Inr ()))"
    if "request = PostPassword uid pw"
  proof -
    from admin_perform_withdraw(2) [OF admin(2) [unfolded that]] obtain w where "set_user_password E (R f) now_ms admin uid pw db s = (db', s', Inr w)"
      by (rule exE)
    then show ?thesis by (rule set_user_password_Inr)
  qed
  from request off reset have rev: "rv_revoke_all_for_user (R f) uid (ae_unix E 2) s = Inr s'" by blast
  show ?thesis
  proof (intro conjI impI)
    assume "(rev_step R)\<^sup>*\<^sup>* s' s2 \<and> decode_claims E' token = Some claims \<and> tc_sub claims = uid \<and> tc_iat claims \<le> ae_unix E 2"
    then show "\<exists>e. validate_token E' i (R g) s2 token ty = Inl e"
      using postgres.validate_marked [OF rev [unfolded R_def] time] unfolding R_def by blast
  next
    assume "request = PostDeactivate uid" and sub: "tc_sub claims = uid"
    with off update_user_row obtain row where "fmlookup (users db') uid = Some row" "\<not> ur_is_active row" by fastforce
    with sub show "\<exists>e. revalidate_token_principal E' i db' claims = Inl e"
      by (auto simp: revalidate_token_principal_def find_by_id_def record_from_row_def principal_current_def split: option.split sum.split)
  next
    assume "request = PostDeactivate uid"
    with off au show "\<exists>au. authenticate_headers E (R f) s db header = Inr au \<and> au_user_id au \<noteq> uid" by metis
  next
    assume "request = PostPassword uid pw"
    with reset obtain h where h: "password_hash E pw = Inr h"
      "update_user (ur_password_hash_update (\<lambda>_. h)) now_ms (ae_user_fault E 3) uid (u_organization_id admin) db = (db', Inr ())" by blast
    from update_user_row [OF h(2)] h(1) show "\<exists>row. fmlookup (users db') uid = Some row \<and> password_hash E pw = Inr (ur_password_hash row)" by auto
  qed
qed

theorem credentials_withdrawn_witness:
  "\<exists>s1 v e. admin_route (toy_env root_user Admin) (toy_rev (\<lambda>_. None)) 7 root_header (PostDeactivate ''b'') admin_db fresh_store
      = (fst (set_active 7 None ''b'' ''org'' False admin_db), s1, Inr v)
    \<and> revalidate_token_principal (toy_env toy_user Web) 0 (fst (set_active 7 None ''b'' ''org'' False admin_db)) (toy_claims toy_user Web True) = Inl e"
proof -
  obtain s1 v where r: "admin_route (toy_env root_user Admin) (toy_rev (\<lambda>_. None)) 7 root_header (PostDeactivate ''b'') admin_db fresh_store
     = (fst (set_active 7 None ''b'' ''org'' False admin_db), s1, Inr v)" using root_deactivates by blast
  have "unat (ae_unix (toy_env root_user Admin) 2) < 2 ^ 63" "tc_sub (toy_claims toy_user Web True) = ''b''"
    by (simp_all add: toy_claims_fields toy_user_def)
  with credentials_withdrawn [OF r [unfolded toy_rev_def], of "''b''" "''''"] r show ?thesis by blast
qed

end
