(* ===== verification/Command_Route.thy ===== *)
theory Command_Route
  imports Route_Aggregates Verification_Authority Api_Admin
begin

text \<open>
  The command endpoint (\<open>command_route\<close> of \<open>crates/bins/api-server/src/routes/command.rs\<close>): authentication and scope, parsing of the
  envelope, the authority checks, dispatch to the pipeline by the type string of the command, the audit trail, the notification of
  the parties of a staff loan and the answer.

  \<open>RouteEnv\<close> is what a request takes from outside: the environments of sessions and pipeline, serde conversions, clock readings,
  random identifiers and faults of the stores. The tables the endpoint writes are \<open>rs_db\<close>; \<open>rs_text_rows\<close> are rows of the
  table \<open>aggregates\<close> whose identifier and organisation are bound as text: SQLite never finds them equal to
  the 16-byte blobs every other statement binds, so they are a table of their own. A panic is the result \<open>None\<close>.
\<close>

section \<open>Requests and state\<close>

record DomainObjectRefDto =
  tgt_id :: string
  tgt_object_type :: string
  tgt_organization_id :: string

text \<open>\<open>CommandRequest\<close>, the kvs the endpoint reads; the entries of the clock in the order the map yields them.\<close>

record 'v CommandEnvelope =
  ce_operation_id :: string
  ce_command_type :: string
  ce_target :: DomainObjectRefDto
  ce_expected_version :: u64
  ce_expected_lifecycle_epoch :: u64
  ce_expected_authority_epoch :: u64
  ce_vector_clock :: "(string \<times> u64) list"
  ce_correlation_id :: string
  ce_payload :: 'v

record 'v AuditRecord =
  ar_organization_id :: OrganizationId
  ar_actor_id :: "UserId option"
  ar_operation_id :: "OperationId option"
  ar_correlation_id :: "CorrelationId option"
  ar_category :: string
  ar_action :: string
  ar_outcome :: string
  ar_occurred_at :: Timestamp
  ar_safe_details :: 'v

record TextRow =
  tr_id :: string
  tr_aggregate_type :: string
  tr_organization_id :: string
  tr_version :: i64
  tr_lifecycle_epoch :: i64
  tr_authority_epoch :: i64
  tr_state :: string
  tr_updated_at :: i64

record 'v RouteState =
  rs_db :: Db
  rs_text_rows :: "TextRow list"
  rs_audit :: "'v AuditRecord list"
  rs_events :: "'v list"

record ('sk, 'k, 'g, 'v) RouteEnv =
  re_auth :: "('sk, 'k, 'g, 'v) AuthEnv"
  re_handler :: "'v HandlerEnv"
  re_uuid :: UuidOps
  re_as_bool :: "'v \<Rightarrow> bool option"
  re_to_string :: "'v \<Rightarrow> string"
  re_to_iso :: "u64 \<Rightarrow> string"
  re_now_iso :: string
  re_now_ms :: i64
  re_audit_now :: Timestamp
  re_web_device :: ObjectId
  re_new_uuid :: "nat \<Rightarrow> bytes16"
  re_find_fault :: "string \<Rightarrow> string option"
  re_rows_fault :: "string option"
  re_load_fault :: "string option"
  re_idempotency_fault :: "string option"
  re_insert_fault :: "nat \<Rightarrow> bool"
  re_audit_fault :: bool
  re_serde_error :: string
  re_notification :: "(NotificationAggregate, NotificationEvent, 'v) Serde"
  re_approval :: "(ApprovalAggregate, ApprovalEvent, 'v) Serde"
  re_policy :: "('v Policy, 'v PolicyEvent, 'v) Serde"
  re_hold :: "(LegalHold, LegalHoldEvent, 'v) Serde"
  re_todo :: "(TodoList, TodoListEvent, 'v) Serde"
  re_target :: "(TargetList, TargetListEvent, 'v) Serde"
  re_loan :: "(StaffLoan, StaffLoanEvent, 'v) Serde"
  re_rules :: "'v \<Rightarrow> ('v PolicyRule list, string) result"
  re_todo_command :: "'v \<Rightarrow> (TodoListCommand, string) result"
  re_target_command :: "'v \<Rightarrow> (TargetListCommand, string) result"
  re_loan_command :: "'v \<Rightarrow> (StaffLoanCommand, string) result"
  re_decode_loan :: "'v \<Rightarrow> (StaffLoan, string) result"

abbreviation re_json :: "('sk, 'k, 'g, 'v) RouteEnv \<Rightarrow> 'v JsonOps" where
  "re_json E \<equiv> ae_json (re_auth E)"

abbreviation re_build :: "('sk, 'k, 'g, 'v) RouteEnv \<Rightarrow> 'v JsonBuild" where
  "re_build E \<equiv> ae_build (re_auth E)"

text \<open>The operator \<open>?\<close>.\<close>

definition and_then :: "('a, 'e) result \<Rightarrow> ('a \<Rightarrow> ('b, 'e) result) \<Rightarrow> ('b, 'e) result" where
  "and_then r f = (case r of Inl e \<Rightarrow> Inl e | Inr x \<Rightarrow> f x)"

abbreviation both :: "('a, 'e) result \<Rightarrow> ('b, 'e) result \<Rightarrow> ('b, 'e) result" where
  "both first second \<equiv> and_then first (\<lambda>_. second)"

section \<open>Scope\<close>

definition details :: "('sk, 'k, 'g, 'v) RouteEnv \<Rightarrow> (string \<times> string) list \<Rightarrow> 'v" where
  "details E kvs = jb_object (re_build E) (map (\<lambda>(k, v). (k, jb_string (re_build E) v)) kvs)"

definition check_scope :: "('sk, 'k, 'g, 'v) RouteEnv \<Rightarrow> AuthenticatedUser \<Rightarrow> 'v CommandEnvelope \<Rightarrow> (unit, 'v ApiError) result" where
  "check_scope E auth envelope =
     (let scope = au_scope auth; target = ce_target envelope;
          deny = (\<lambda>error_code kvs. Inl (ApiError_new 403 error_code ''AUTHORITY'' ''NON_RETRYABLE'' (ce_correlation_id envelope) (details E kvs)))
      in case require_capability (re_auth E) auth can_submit_domain_commands ''submit_domain_command'' of
           Inl e \<Rightarrow> Inl e
         | Inr _ \<Rightarrow>
             if \<not> (\<exists>allowed \<in> set (ts_command_types scope). allowed = ''*'' \<or> allowed = ce_command_type envelope)
               then deny ''COMMAND_NOT_AUTHORIZED'' [(''command_type'', ce_command_type envelope)]
             else if ts_object_type scope \<noteq> ''*'' \<and> ts_object_type scope \<noteq> tgt_object_type target
               then deny ''OBJECT_SCOPE_MISMATCH'' [(''target_type'', tgt_object_type target)]
             else if (case ts_object_id scope of None \<Rightarrow> False | Some scoped_id \<Rightarrow> scoped_id \<noteq> tgt_id target)
               then deny ''OBJECT_SCOPE_MISMATCH'' [(''target_id'', tgt_id target)]
             else if tgt_organization_id target \<noteq> au_organization_id auth
               then deny ''TENANT_MISMATCH'' []
             else Inr ())"

definition expected_target_type :: "string \<Rightarrow> string option" where
  "expected_target_type command_type =
     (if command_type = ''notification.Acknowledge'' then Some ''notification''
      else if command_type \<in> {''approval.Approve'', ''approval.Reject''} then Some ''approval''
      else if command_type \<in> {''policy.CreatePolicyVersion'', ''policy.PublishPolicyVersion'', ''policy.EvaluatePolicy'',
                ''policy.RegisterViolation'', ''policy.RetirePolicy''} then Some ''policy''
      else if command_type = ''legal_hold.ReleaseLegalHold'' then Some ''legal_hold''
      else if command_type \<in> {''todo_list.AddItem'', ''todo_list.SubmitTodoList'', ''todo_list.RecordTeamLeaderPreCheck'',
                ''todo_list.VerifyTodoList'', ''todo_list.RejectTodoList'', ''todo_list.EscalateTodoList''} then Some ''todo_list''
      else if command_type \<in> {''target_list.SubmitTargetList'', ''target_list.RecordTeamLeaderPreCheck'',
                ''target_list.VerifyTargetList'', ''target_list.RejectTargetList'', ''target_list.EscalateTargetList''} then Some ''target_list''
      else if command_type \<in> {''staff_loan.ApproveStaffLoan'', ''staff_loan.DeclineStaffLoan'', ''staff_loan.ExtendStaffLoan'',
                ''staff_loan.EndStaffLoanEarly'', ''staff_loan.EscalateStaffLoan'', ''staff_loan.ExpireStaffLoan''} then Some ''staff_loan''
      else None)"

section \<open>Identifiers\<close>

definition parse_object_id :: "('sk, 'k, 'g, 'v) RouteEnv \<Rightarrow> string \<Rightarrow> (ObjectId, 'v ApiError) result" where
  "parse_object_id E value =
     (case uuid_parse (re_uuid E) value of
        Some u \<Rightarrow> Inr u
      | None \<Rightarrow> Inl (ApiError_new 400 ''INVALID_UUID'' ''DOMAIN'' ''NON_RETRYABLE'' (ae_uuid (re_auth E) 0) (details E [(''value'', value)])))"

fun parse_vector_clock :: "('sk, 'k, 'g, 'v) RouteEnv \<Rightarrow> (string \<times> u64) list \<Rightarrow> VectorClock \<Rightarrow> (VectorClock, 'v ApiError) result" where
  "parse_vector_clock E [] clock = Inr clock"
| "parse_vector_clock E ((replica, n) # entries) clock =
     (case uuid_parse (re_uuid E) replica of
        None \<Rightarrow> Inl (ApiError_new 400 ''INVALID_REPLICA_ID'' ''DOMAIN'' ''NON_RETRYABLE'' (ae_uuid (re_auth E) 0) (details E [(''replica_id'', replica)]))
      | Some parsed \<Rightarrow> parse_vector_clock E entries (clock\<lparr>vc_entries := fmupd parsed n (vc_entries clock)\<rparr>))"

record 'v ParsedCommand =
  pc_target_id :: ObjectId
  pc_operation_id :: OperationId
  pc_correlation_id :: CorrelationId
  pc_actor :: ActorContext
  pc_vector_clock :: VectorClock
  pc_rules :: "'v PolicyRule list"

definition parse_rules :: "('sk, 'k, 'g, 'v) RouteEnv \<Rightarrow> 'v CommandEnvelope \<Rightarrow> ('v PolicyRule list, 'v ApiError) result" where
  "parse_rules E envelope =
     (if ce_command_type envelope = ''policy.CreatePolicyVersion''
      then (case json_get (re_json E) (ce_payload envelope) ''rules'' of
              None \<Rightarrow> Inr []
            | Some raw \<Rightarrow>
                (case re_rules E raw of
                   Inr rules \<Rightarrow> Inr rules
                 | Inl e \<Rightarrow> Inl (ApiError_new 400 ''INVALID_PAYLOAD'' ''DOMAIN'' ''NON_RETRYABLE'' (ce_correlation_id envelope)
                     (details E [(''message'', ''invalid '' @ quoted ''rules'' @ '' payload: '' @ e)]))))
      else Inr [])"

definition parse_command :: "('sk, 'k, 'g, 'v) RouteEnv \<Rightarrow> AuthenticatedUser \<Rightarrow> 'v CommandEnvelope \<Rightarrow> ('v ParsedCommand, 'v ApiError) result" where
  "parse_command E auth envelope =
     and_then (parse_object_id E (tgt_id (ce_target envelope))) (\<lambda>target.
     and_then (parse_object_id E (ce_operation_id envelope)) (\<lambda>operation.
     and_then (parse_object_id E (ce_correlation_id envelope)) (\<lambda>correlation.
     and_then (parse_object_id E (au_user_id auth)) (\<lambda>user.
     and_then (parse_object_id E (au_organization_id auth)) (\<lambda>org.
     and_then (parse_vector_clock E (ce_vector_clock envelope) vc_new) (\<lambda>clock.
     and_then (parse_rules E envelope) (\<lambda>rules.
       Inr \<lparr>pc_target_id = target, pc_operation_id = operation, pc_correlation_id = correlation,
            pc_actor = \<lparr>user_id = user, device_id = re_web_device E, actor_organization_id = org\<rparr>,
            pc_vector_clock = clock, pc_rules = rules\<rparr>)))))))"

section \<open>Dispatch\<close>

definition find_user_of :: "('sk, 'k, 'g, 'v) RouteEnv \<Rightarrow> UserDb \<Rightarrow> find_user" where
  "find_user_of E udb = (\<lambda>uid. find_by_id (\<lambda>_. re_find_fault E uid) uid udb)"

definition load_of :: "('sk, 'k, 'g, 'v) RouteEnv \<Rightarrow> string \<Rightarrow> Db \<Rightarrow> 'v load" where
  "load_of E aggregate_type db =
     (\<lambda>oid. case re_load_fault E of Some e \<Rightarrow> Inl (UnknownError e) | None \<Rightarrow> repo_load (re_json E) aggregate_type oid db)"

definition loan_rows :: "('sk, 'k, 'g, 'v) RouteEnv \<Rightarrow> OrganizationId \<Rightarrow> Db \<Rightarrow> ('v list, string) result" where
  "loan_rows E org db =
     (case fetch_rows (re_json E) (jb_object (re_build E) []) (re_rows_fault E) org (Some ''staff_loan'') db of
        Inl e \<Rightarrow> Inl e
      | Inr rows \<Rightarrow> Inr (map pr_state rows))"

definition command_request :: "'v CommandEnvelope \<Rightarrow> 'v ParsedCommand \<Rightarrow> string \<Rightarrow> 'c \<Rightarrow> ('a, 'c) CommandRequest" where
  "command_request envelope p aggregate_type command =
     \<lparr>req_command = command, req_target_id = pc_target_id p, req_operation_id = pc_operation_id p, req_actor = pc_actor p,
      req_expected_version = ce_expected_version envelope, req_expected_lifecycle_epoch = ce_expected_lifecycle_epoch envelope,
      req_expected_authority_epoch = ce_expected_authority_epoch envelope, req_vector_clock = pc_vector_clock p,
      req_correlation_id = pc_correlation_id p, req_aggregate_type_name = aggregate_type, req_owner_check = None\<rparr>"

definition run_command ::
    "('sk, 'k, 'g, 'v) RouteEnv \<Rightarrow> ('a, 'c, 'ev, 'err, 'v) AggregateOps \<Rightarrow> 'v CommandEnvelope \<Rightarrow> 'v ParsedCommand \<Rightarrow> string \<Rightarrow> Db \<Rightarrow> 'c
      \<Rightarrow> Db \<times> ('v, CommandError) result" where
  "run_command E A envelope p aggregate_type db command =
     handle_command (re_json E) A (re_handler E) (command_request envelope p aggregate_type command) db"

definition run_checked ::
    "(Db \<Rightarrow> 'c \<Rightarrow> Db \<times> ('v, CommandError) result) \<Rightarrow> Db \<Rightarrow> ('c, CommandError) result \<Rightarrow> Db \<times> ('v, CommandError) result" where
  "run_checked run db command = (case command of Inl e \<Rightarrow> (db, Inl e) | Inr c \<Rightarrow> run db c)"

text \<open>\<open>payload.get(field).and_then(Value::as_str)\<close>\<close>

definition payload_field :: "('sk, 'k, 'g, 'v) RouteEnv \<Rightarrow> 'v CommandEnvelope \<Rightarrow> string \<Rightarrow> string option" where
  "payload_field E envelope field =
     (case json_get (re_json E) (ce_payload envelope) field of None \<Rightarrow> None | Some v \<Rightarrow> json_as_str (re_json E) v)"

definition or_default :: "string \<Rightarrow> string option \<Rightarrow> string" where
  "or_default d s = (case s of Some x \<Rightarrow> x | None \<Rightarrow> d)"

definition decode_payload :: "('v \<Rightarrow> ('c, string) result) \<Rightarrow> 'v CommandEnvelope \<Rightarrow> ('c, CommandError) result" where
  "decode_payload decode envelope = (case decode (ce_payload envelope) of Inr c \<Rightarrow> Inr c | Inl e \<Rightarrow> Inl (Domain (''invalid payload: '' @ e)))"

definition policy_command :: "('sk, 'k, 'g, 'v) RouteEnv \<Rightarrow> 'v CommandEnvelope \<Rightarrow> 'v ParsedCommand \<Rightarrow> 'v PolicyCommand option" where
  "policy_command E envelope p =
     (let command_type = ce_command_type envelope; field = (\<lambda>f. or_default [] (payload_field E envelope f))
      in if command_type = ''policy.CreatePolicyVersion'' then Some (CreatePolicyVersion (pc_rules p))
         else if command_type = ''policy.PublishPolicyVersion'' then Some PublishPolicyVersion
         else if command_type = ''policy.EvaluatePolicy'' then Some (EvaluatePolicy (field ''rule_key''))
         else if command_type = ''policy.RegisterViolation'' then Some (RegisterViolation (field ''rule_key'') (field ''reason''))
         else if command_type = ''policy.RetirePolicy'' then Some RetirePolicy
         else None)"

text \<open>The checks of the arm for to-do lists and the command it runs.\<close>

definition todo_command ::
    "('sk, 'k, 'g, 'v) RouteEnv \<Rightarrow> UserDb \<Rightarrow> Db \<Rightarrow> 'v CommandEnvelope \<Rightarrow> 'v ParsedCommand \<Rightarrow> (TodoListCommand, CommandError) result" where
  "todo_command E udb db envelope p =
     (let J = re_json E; U = re_uuid E; find_id = find_user_of E udb; command_type = ce_command_type envelope; actor = pc_actor p
      in both
           (if command_type \<in> {''todo_list.VerifyTodoList'', ''todo_list.RejectTodoList'', ''todo_list.EscalateTodoList''}
            then require_verifier_authority J U find_id (loan_rows E (actor_organization_id actor) db) (re_decode_loan E)
                   (load_of E ''todo_list'' db) (load_of E ''target_list'' db) actor (pc_target_id p) ''todo_list''
            else Inr ())
           (both
             (if command_type = ''todo_list.RecordTeamLeaderPreCheck'' then require_team_leader_or_admin U find_id actor else Inr ())
             (if command_type = ''todo_list.EscalateTodoList''
              then resolve_todo_list_escalation_command J U find_id (load_of E ''todo_list'' db) (pc_target_id p) (ce_payload envelope) actor
              else decode_payload (re_todo_command E) envelope)))"

definition target_command ::
    "('sk, 'k, 'g, 'v) RouteEnv \<Rightarrow> UserDb \<Rightarrow> Db \<Rightarrow> 'v CommandEnvelope \<Rightarrow> 'v ParsedCommand \<Rightarrow> (TargetListCommand, CommandError) result" where
  "target_command E udb db envelope p =
     (let J = re_json E; U = re_uuid E; find_id = find_user_of E udb; command_type = ce_command_type envelope; actor = pc_actor p
      in both
           (if command_type \<in> {''target_list.VerifyTargetList'', ''target_list.RejectTargetList'', ''target_list.EscalateTargetList''}
            then require_verifier_authority J U find_id (loan_rows E (actor_organization_id actor) db) (re_decode_loan E)
                   (load_of E ''todo_list'' db) (load_of E ''target_list'' db) actor (pc_target_id p) ''target_list''
            else Inr ())
           (both
             (if command_type = ''target_list.RecordTeamLeaderPreCheck'' then require_team_leader_or_admin U find_id actor else Inr ())
             (if command_type = ''target_list.EscalateTargetList''
              then resolve_target_list_escalation_command J U find_id (load_of E ''target_list'' db) (pc_target_id p) (ce_payload envelope) actor
              else decode_payload (re_target_command E) envelope)))"

definition loan_command ::
    "('sk, 'k, 'g, 'v) RouteEnv \<Rightarrow> UserDb \<Rightarrow> Db \<Rightarrow> 'v CommandEnvelope \<Rightarrow> 'v ParsedCommand \<Rightarrow> (StaffLoanCommand, CommandError) result" where
  "loan_command E udb db envelope p =
     both
       (require_staff_loan_authority (re_decode_loan E) (load_of E ''staff_loan'' db) (pc_actor p) (pc_target_id p) (ce_command_type envelope))
       (if ce_command_type envelope = ''staff_loan.EscalateStaffLoan''
        then resolve_staff_loan_escalation_command (re_json E) (re_uuid E) (find_user_of E udb) (load_of E ''staff_loan'' db) (pc_target_id p)
               (ce_payload envelope)
        else decode_payload (re_loan_command E) envelope)"

definition starts_with :: "string \<Rightarrow> string \<Rightarrow> bool" where
  "starts_with s pre \<longleftrightarrow> take (length pre) s = pre"

definition dispatch ::
    "('sk, 'k, 'g, 'v) RouteEnv \<Rightarrow> UserDb \<Rightarrow> 'v CommandEnvelope \<Rightarrow> 'v ParsedCommand \<Rightarrow> Db \<Rightarrow> (Db \<times> ('v, CommandError) result) option" where
  "dispatch E udb envelope p db =
     (let command_type = ce_command_type envelope
      in if command_type = ''notification.Acknowledge''
           then Some (run_command E (notification_ops (re_to_iso E) (re_notification E)) envelope p ''notification'' db Acknowledge)
         else if command_type = ''approval.Approve''
           then Some (run_command E (approval_ops (re_to_iso E) (re_approval E)) envelope p ''approval'' db (Approve (payload_field E envelope ''reason'')))
         else if command_type = ''approval.Reject''
           then Some (run_command E (approval_ops (re_to_iso E) (re_approval E)) envelope p ''approval'' db
                  (Reject (or_default ''Rejected from web client'' (payload_field E envelope ''reason''))))
         else case policy_command E envelope p of
           Some c \<Rightarrow> Some (run_command E (policy_ops (re_policy E)) envelope p ''policy'' db c)
         | None \<Rightarrow>
             if command_type = ''legal_hold.ReleaseLegalHold''
               then Some (run_command E (hold_ops (re_hold E)) envelope p ''legal_hold'' db
                      (ReleaseLegalHold (or_default [] (payload_field E envelope ''reason''))))
             else if starts_with command_type ''todo_list.''
               then Some (run_checked (run_command E (todo_ops (re_todo E)) envelope p ''todo_list'') db (todo_command E udb db envelope p))
             else if starts_with command_type ''target_list.''
               then Some (run_checked (run_command E (target_ops (re_target E)) envelope p ''target_list'') db (target_command E udb db envelope p))
             else if starts_with command_type ''staff_loan.''
               then Some (run_checked (run_command E (loan_ops (re_loan E)) envelope p ''staff_loan'') db (loan_command E udb db envelope p))
             else None)"

section \<open>The answer\<close>

definition kernel_id_to_string :: "('sk, 'k, 'g, 'v) RouteEnv \<Rightarrow> 'v \<Rightarrow> string option" where
  "kernel_id_to_string E value =
     (case json_as_array (re_json E) value of
        None \<Rightarrow> None
      | Some bs \<Rightarrow> if length bs \<noteq> 16 then None else map_option (uuid_to_string (re_uuid E)) (strict_bytes (re_json E) bs))"

definition timestamp_value_to_iso :: "('sk, 'k, 'g, 'v) RouteEnv \<Rightarrow> 'v option \<Rightarrow> string" where
  "timestamp_value_to_iso E value =
     (case (case value of None \<Rightarrow> None | Some v \<Rightarrow> json_as_u64 (re_json E) v) of
        Some nanos \<Rightarrow> re_to_iso E nanos
      | None \<Rightarrow> ''1970-01-01T00:00:00Z'')"

definition required_id :: "('sk, 'k, 'g, 'v) RouteEnv \<Rightarrow> string \<Rightarrow> 'v \<Rightarrow> string \<Rightarrow> ('v, 'v ApiError) result" where
  "required_id E error_code container field =
     (case (case json_get (re_json E) container field of None \<Rightarrow> None | Some v \<Rightarrow> kernel_id_to_string E v) of
        Some s \<Rightarrow> Inr (jb_string (re_build E) s)
      | None \<Rightarrow> Inl (ApiError_new 500 error_code ''INFRASTRUCTURE'' ''TRANSIENT'' (ae_uuid (re_auth E) 0) (details E [(''field'', field)])))"

definition get_or_value :: "('sk, 'k, 'g, 'v) RouteEnv \<Rightarrow> 'v \<Rightarrow> 'v \<Rightarrow> string \<Rightarrow> 'v" where
  "get_or_value E d value field = (case json_get (re_json E) value field of Some v \<Rightarrow> v | None \<Rightarrow> d)"

definition public_event_type :: "('sk, 'k, 'g, 'v) RouteEnv \<Rightarrow> string \<Rightarrow> 'v \<Rightarrow> string" where
  "public_event_type E aggregate_type payload =
     (if aggregate_type = ''notification'' then ''notification.NotificationAcknowledged''
      else if aggregate_type = ''approval'' \<and> json_get (re_json E) payload ''Approved'' \<noteq> None then ''approval.ApprovalGranted''
      else if aggregate_type = ''approval'' \<and> json_get (re_json E) payload ''Rejected'' \<noteq> None then ''approval.ApprovalRejected''
      else ''web.CommandAccepted'')"

definition publicize_event :: "('sk, 'k, 'g, 'v) RouteEnv \<Rightarrow> 'v \<Rightarrow> ('v, 'v ApiError) result" where
  "publicize_event E event =
     (let B = re_build E; J = re_json E; ident = required_id E ''INVALID_DOMAIN_EVENT'';
          missing_container = (\<lambda>field. Inl (ApiError_new 500 ''INVALID_DOMAIN_EVENT'' ''INFRASTRUCTURE'' ''TRANSIENT'' (ae_uuid (re_auth E) 0)
            (details E [(''field'', field)])))
      in case json_get J event ''aggregate_ref'' of None \<Rightarrow> missing_container ''aggregate_ref'' | Some aggregate_ref \<Rightarrow>
         case json_get J event ''actor'' of None \<Rightarrow> missing_container ''actor'' | Some actor \<Rightarrow>
         let payload = get_or_value E (jb_null B) event ''payload'';
             aggregate_type = (case (case json_get J aggregate_ref ''type'' of None \<Rightarrow> None | Some v \<Rightarrow> json_as_str J v) of
                Some s \<Rightarrow> s | None \<Rightarrow> ''unknown'')
         in and_then (ident event ''event_id'') (\<lambda>event_id.
            and_then (ident aggregate_ref ''id'') (\<lambda>aggregate_id.
            and_then (ident aggregate_ref ''organization_id'') (\<lambda>aggregate_org.
            and_then (ident event ''operation_id'') (\<lambda>operation_id.
            and_then (ident actor ''user_id'') (\<lambda>actor_user.
            and_then (ident actor ''organization_id'') (\<lambda>actor_org.
            and_then (ident event ''correlation_id'') (\<lambda>correlation_id.
              Inr (jb_object B
                [(''event_id'', event_id), (''event_type'', jb_string B (public_event_type E aggregate_type payload)),
                 (''schema_version'', get_or_value E (jb_string B ''1.0'') event ''schema_version''),
                 (''aggregate_ref'', jb_object B [(''id'', aggregate_id), (''type'', jb_string B aggregate_type), (''organization_id'', aggregate_org)]),
                 (''aggregate_version'', get_or_value E (jb_u64 B 0) event ''aggregate_version''),
                 (''lifecycle_epoch'', get_or_value E (jb_u64 B 0) event ''lifecycle_epoch''),
                 (''authority_epoch'', get_or_value E (jb_u64 B 0) event ''authority_epoch''),
                 (''operation_id'', operation_id),
                 (''actor'', jb_object B [(''user_id'', actor_user), (''device_id'', jb_string B ''web-client''), (''organization_id'', actor_org)]),
                 (''occurred_at'', jb_string B (timestamp_value_to_iso E (json_get J event ''occurred_at''))),
                 (''recorded_at'', jb_string B (timestamp_value_to_iso E (json_get J event ''recorded_at''))),
                 (''vector_clock'', get_or_value E (jb_object B [(''entries'', jb_object B [])]) event ''vector_clock''),
                 (''correlation_id'', correlation_id),
                 (''causation_id'', case (case json_get J event ''causation_id'' of None \<Rightarrow> None | Some v \<Rightarrow> kernel_id_to_string E v) of
                    Some s \<Rightarrow> jb_string B s | None \<Rightarrow> jb_null B),
                 (''payload'', payload)])))))))))"

text \<open>The public events of a result; none where the field is no array.\<close>

definition public_events :: "('sk, 'k, 'g, 'v) RouteEnv \<Rightarrow> 'v \<Rightarrow> ('v list, 'v ApiError) result" where
  "public_events E result =
     (case (case json_get (re_json E) result ''events'' of None \<Rightarrow> None | Some v \<Rightarrow> json_as_array (re_json E) v) of
        None \<Rightarrow> Inr []
      | Some items \<Rightarrow> collect_results (map (publicize_event E) items))"

definition publicize_command_result :: "('sk, 'k, 'g, 'v) RouteEnv \<Rightarrow> 'v \<Rightarrow> ('v, 'v ApiError) result" where
  "publicize_command_result E result =
     (let B = re_build E
      in case required_id E ''INVALID_COMMAND_RESULT'' result ''operation_id'' of Inl e \<Rightarrow> Inl e | Inr operation_id \<Rightarrow>
         case public_events E result of Inl e \<Rightarrow> Inl e | Inr events \<Rightarrow>
           Inr (jb_object B
             [(''success'', jb_bool B (case (case json_get (re_json E) result ''success'' of None \<Rightarrow> None | Some v \<Rightarrow> re_as_bool E v) of
                 Some b \<Rightarrow> b | None \<Rightarrow> True)),
              (''operation_id'', operation_id),
              (''new_version'', get_or_value E (jb_null B) result ''new_version''),
              (''new_lifecycle_epoch'', get_or_value E (jb_null B) result ''new_lifecycle_epoch''),
              (''new_authority_epoch'', get_or_value E (jb_null B) result ''new_authority_epoch''),
              (''events'', jb_array B events)]))"

section \<open>Errors\<close>

fun command_error_class :: "CommandError \<Rightarrow> string" where
  "command_error_class (CommandError.NotFound _) = ''not_found''"
| "command_error_class (VersionConflict _ _) = ''version_conflict''"
| "command_error_class (EpochConflict _ _) = ''lifecycle_epoch_conflict''"
| "command_error_class (AuthorityEpochConflict _ _) = ''authority_epoch_conflict''"
| "command_error_class (Domain _) = ''domain_rejection''"
| "command_error_class (Persistence _) = ''persistence_failure''"
| "command_error_class Serialization = ''serialization_failure''"
| "command_error_class (Idempotency _) = ''idempotency_failure''"
| "command_error_class (OwnerAuthorityDenied _ _) = ''owner_authority_denied''"

text \<open>\<open>str::contains\<close>\<close>

fun contains_text :: "string \<Rightarrow> string \<Rightarrow> bool" where
  "contains_text [] pat \<longleftrightarrow> pat = []"
| "contains_text (c # s) pat \<longleftrightarrow> starts_with (c # s) pat \<or> contains_text s pat"

definition id_json :: "'v JsonBuild \<Rightarrow> bytes16 \<Rightarrow> 'v" where
  "id_json B i = jb_array B (map (\<lambda>b. jb_u64 B (ucast b)) (be_bytes 16 i))"

fun map_command_error :: "('sk, 'k, 'g, 'v) RouteEnv \<Rightarrow> string \<Rightarrow> CommandError \<Rightarrow> 'v ApiError" where
  "map_command_error E correlation_id (VersionConflict expected actual) =
     ApiError_new 409 ''VERSION_CONFLICT'' ''CONCURRENCY'' ''RETRYABLE'' correlation_id
       (jb_object (re_build E) [(''expected'', jb_u64 (re_build E) expected), (''actual'', jb_u64 (re_build E) actual)])"
| "map_command_error E correlation_id (EpochConflict expected actual) =
     ApiError_new 409 ''LIFECYCLE_EPOCH_CONFLICT'' ''CONCURRENCY'' ''RETRYABLE'' correlation_id
       (jb_object (re_build E) [(''expected'', jb_u64 (re_build E) expected), (''actual'', jb_u64 (re_build E) actual)])"
| "map_command_error E correlation_id (AuthorityEpochConflict expected actual) =
     ApiError_new 409 ''AUTHORITY_EPOCH_CONFLICT'' ''CONCURRENCY'' ''RETRYABLE'' correlation_id
       (jb_object (re_build E) [(''expected'', jb_u64 (re_build E) expected), (''actual'', jb_u64 (re_build E) actual)])"
| "map_command_error E correlation_id (CommandError.NotFound _) =
     ApiError_new 404 ''NOT_FOUND'' ''DOMAIN'' ''NON_RETRYABLE'' correlation_id (jb_object (re_build E) [])"
| "map_command_error E correlation_id (Domain message) =
     (if contains_text message ''not permitted''
        then ApiError_new 403 ''WEB_ACTION_NOT_PERMITTED'' ''AUTHORITY'' ''NON_RETRYABLE'' correlation_id (details E [(''message'', message)])
      else if contains_text message ''already acknowledged'' \<or> contains_text message ''not pending''
        then ApiError_new 409 ''STATE_CONFLICT'' ''CONCURRENCY'' ''RETRYABLE'' correlation_id (details E [(''message'', message)])
      else ApiError_new 400 ''COMMAND_REJECTED'' ''DOMAIN'' ''NON_RETRYABLE'' correlation_id (details E [(''message'', message)]))"
| "map_command_error E correlation_id (OwnerAuthorityDenied actor owner) =
     ApiError_new 403 ''OWNER_AUTHORITY_DENIED'' ''AUTHORITY'' ''NON_RETRYABLE'' correlation_id
       (jb_object (re_build E) [(''actor'', id_json (re_build E) actor), (''owner'', id_json (re_build E) owner)])"
| "map_command_error E correlation_id (Persistence e) =
     ApiError_new 500 ''COMMAND_FAILED'' ''INFRASTRUCTURE'' ''TRANSIENT'' correlation_id (details E [(''message'', ''persistence error: '' @ e)])"
| "map_command_error E correlation_id Serialization =
     ApiError_new 500 ''COMMAND_FAILED'' ''INFRASTRUCTURE'' ''TRANSIENT'' correlation_id
       (details E [(''message'', ''serialization error: '' @ re_serde_error E)])"
| "map_command_error E correlation_id (Idempotency e) =
     ApiError_new 500 ''COMMAND_FAILED'' ''INFRASTRUCTURE'' ''TRANSIENT'' correlation_id (details E [(''message'', ''idempotency error: '' @ e)])"

section \<open>Audit\<close>

definition append_command_audit ::
    "('sk, 'k, 'g, 'v) RouteEnv \<Rightarrow> 'v CommandEnvelope \<Rightarrow> ActorContext \<Rightarrow> string \<Rightarrow> 'v \<Rightarrow> 'v RouteState \<Rightarrow> 'v RouteState" where
  "append_command_audit E envelope actor outcome safe_details s =
     (let B = re_build E;
          record = \<lparr>ar_organization_id = actor_organization_id actor, ar_actor_id = Some (user_id actor),
            ar_operation_id = uuid_parse (re_uuid E) (ce_operation_id envelope),
            ar_correlation_id = uuid_parse (re_uuid E) (ce_correlation_id envelope),
            ar_category = ''command'', ar_action = ce_command_type envelope, ar_outcome = outcome, ar_occurred_at = re_audit_now E,
            ar_safe_details = jb_object B [(''target_id'', jb_string B (tgt_id (ce_target envelope))),
              (''target_type'', jb_string B (tgt_object_type (ce_target envelope))), (''details'', safe_details)]\<rparr>
      in if re_audit_fault E then s else s\<lparr>rs_audit := rs_audit s @ [record]\<rparr>)"

section \<open>Notifying the parties of a staff loan\<close>

definition notification_state :: "('sk, 'k, 'g, 'v) RouteEnv \<Rightarrow> string \<Rightarrow> string \<Rightarrow> string \<Rightarrow> string \<Rightarrow> string \<Rightarrow> 'v" where
  "notification_state E nid title message recipient_id source_id =
     (let B = re_build E
      in jb_object B
           [(''public_id'', jb_string B nid), (''title'', jb_string B title), (''message'', jb_string B message), (''priority'', jb_string B ''high''),
            (''status'', jb_string B ''unacknowledged''), (''recipient_id'', jb_string B recipient_id), (''source_id'', jb_string B source_id),
            (''source_type'', jb_string B ''staff_loan''), (''created_at'', jb_string B (re_now_iso E)), (''acknowledged_at'', jb_null B),
            (''version'', jb_u64 B 1), (''lifecycle_epoch'', jb_u64 B 0), (''authority_epoch'', jb_u64 B 0)])"

text \<open>The loop over the recipients; the \<open>i\<close>-th round draws the \<open>i\<close>-th identifier. An error ends it, what was inserted stays.\<close>

fun insert_notifications ::
    "('sk, 'k, 'g, 'v) RouteEnv \<Rightarrow> string \<Rightarrow> string \<Rightarrow> string \<Rightarrow> string \<Rightarrow> nat \<Rightarrow> string list \<Rightarrow> 'v RouteState \<Rightarrow> 'v RouteState \<times> (unit, unit) result" where
  "insert_notifications E org source_id title message i [] s = (s, Inr ())"
| "insert_notifications E org source_id title message i (recipient_id # rest) s =
     (let B = re_build E; nid = uuid_to_string (re_uuid E) (re_new_uuid E i);
          state_json = notification_state E nid title message recipient_id source_id;
          row = \<lparr>tr_id = nid, tr_aggregate_type = ''notification'', tr_organization_id = org, tr_version = 1, tr_lifecycle_epoch = 0,
                 tr_authority_epoch = 0, tr_state = re_to_string E state_json, tr_updated_at = re_now_ms E\<rparr>;
          event = jb_object B [(''event_type'', jb_string B ''notification.Created''), (''aggregate_id'', jb_string B nid),
            (''aggregate_type'', jb_string B ''notification''), (''organization_id'', jb_string B org), (''payload'', state_json)]
      in if re_insert_fault E i \<or> nid \<in> tr_id ` set (rs_text_rows s) then (s, Inl ())
         else insert_notifications E org source_id title message (Suc i) rest
                (s\<lparr>rs_text_rows := rs_text_rows s @ [row], rs_events := rs_events s @ [event]\<rparr>))"

definition decline_recipients :: "('sk, 'k, 'g, 'v) RouteEnv \<Rightarrow> UserDb \<Rightarrow> string \<Rightarrow> UserRecord \<Rightarrow> (string list, unit) result" where
  "decline_recipients E udb org owner =
     (case u_parent_user_id owner of
        None \<Rightarrow> Inr []
      | Some parent_id \<Rightarrow>
          (case find_user_of E udb parent_id of
             Inl _ \<Rightarrow> Inl ()
           | Inr None \<Rightarrow> Inr []
           | Inr (Some parent) \<Rightarrow>
               Inr (if u_is_active parent \<and> u_organization_id parent = org \<and> can_verify_class (u_class parent) then [u_user_id parent] else [])))"

definition id_field_string :: "('sk, 'k, 'g, 'v) RouteEnv \<Rightarrow> 'v \<Rightarrow> string \<Rightarrow> string option" where
  "id_field_string E aggregate field =
     (case parse_id_field (re_json E) field aggregate of Inr i \<Rightarrow> Some (uuid_to_string (re_uuid E) i) | Inl _ \<Rightarrow> None)"

definition decline_message :: "('sk, 'k, 'g, 'v) RouteEnv \<Rightarrow> 'v \<Rightarrow> 'v \<Rightarrow> string \<Rightarrow> string" where
  "decline_message E aggregate payload source_id =
     ''A staff loan request was declined. Reason: '' @ or_default ''No reason provided'' (payload_str (re_json E) payload ''DeclineStaffLoan'' ''reason'')
     @ ''. Loan: '' @ source_id @ ''. Staff member: '' @ or_default ''unknown'' (id_field_string E aggregate ''staff_user_id'')
     @ ''. Borrowing manager: '' @ or_default ''unknown'' (id_field_string E aggregate ''borrowing_manager_id'')
     @ ''. The interaction is available for oversight.''"

definition ended_message :: "string \<Rightarrow> string" where
  "ended_message source_id = ''The staff loan '' @ source_id
     @ '' ended early. The staff member is returned to the owning team; review the assignment and notify relevant people.''"

definition ended_recipients :: "('sk, 'k, 'g, 'v) RouteEnv \<Rightarrow> 'v \<Rightarrow> string list" where
  "ended_recipients E aggregate =
     List.map_filter (id_field_string E aggregate) [''staff_user_id'', ''real_owner_id'', ''borrowing_manager_id'']"

text \<open>A \<open>BTreeSet\<close> of strings yields them once, in the order of their bytes.\<close>

definition btree_strings :: "string list \<Rightarrow> string list" where
  "btree_strings xs = sort (remdups xs)"

definition notify_staff_loan_lifecycle ::
    "('sk, 'k, 'g, 'v) RouteEnv \<Rightarrow> UserDb \<Rightarrow> ActorContext \<Rightarrow> ObjectId \<Rightarrow> string \<Rightarrow> 'v \<Rightarrow> 'v RouteState \<Rightarrow> 'v RouteState \<times> (unit, unit) result" where
  "notify_staff_loan_lifecycle E udb actor target command_type payload s =
     (case load_of E ''staff_loan'' (rs_db s) target of
        Inr (Some loaded) \<Rightarrow>
          (let aggregate = loaded_aggregate loaded
           in case parse_real_owner_id_field (re_json E) aggregate of
                Inl _ \<Rightarrow> (s, Inl ())
              | Inr real_owner \<Rightarrow>
                  (case find_user_of E udb (uuid_to_string (re_uuid E) real_owner) of
                     Inr (Some owner) \<Rightarrow>
                       let org = uuid_to_string (re_uuid E) (actor_organization_id actor); source_id = uuid_to_string (re_uuid E) target
                       in if command_type = ''staff_loan.DeclineStaffLoan''
                          then (case decline_recipients E udb org owner of
                                  Inl _ \<Rightarrow> (s, Inl ())
                                | Inr recipients \<Rightarrow>
                                    insert_notifications E org source_id ''Staff loan request declined'' (decline_message E aggregate payload source_id) 0
                                      (btree_strings recipients) s)
                          else insert_notifications E org source_id ''Staff loan returned early'' (ended_message source_id) 0
                                 (btree_strings (ended_recipients E aggregate)) s
                   | _ \<Rightarrow> (s, Inl ())))
      | _ \<Rightarrow> (s, Inl ()))"

section \<open>The endpoint\<close>

definition array_length :: "('sk, 'k, 'g, 'v) RouteEnv \<Rightarrow> 'v \<Rightarrow> string \<Rightarrow> nat" where
  "array_length E value field =
     (case (case json_get (re_json E) value field of None \<Rightarrow> None | Some v \<Rightarrow> json_as_array (re_json E) v) of Some xs \<Rightarrow> length xs | None \<Rightarrow> 0)"

definition array_items :: "('sk, 'k, 'g, 'v) RouteEnv \<Rightarrow> 'v \<Rightarrow> string \<Rightarrow> 'v list" where
  "array_items E value field =
     (case (case json_get (re_json E) value field of None \<Rightarrow> None | Some v \<Rightarrow> json_as_array (re_json E) v) of Some xs \<Rightarrow> xs | None \<Rightarrow> [])"

text \<open>What follows a command the pipeline has accepted.\<close>

definition finish_command ::
    "('sk, 'k, 'g, 'v) RouteEnv \<Rightarrow> UserDb \<Rightarrow> 'v CommandEnvelope \<Rightarrow> 'v ParsedCommand \<Rightarrow> bool \<Rightarrow> 'v \<Rightarrow> 'v RouteState
      \<Rightarrow> 'v RouteState \<times> ('v, 'v ApiError) result" where
  "finish_command E udb envelope p was_duplicate result s =
     (let s1 = (if \<not> was_duplicate \<and> ce_command_type envelope \<in> {''staff_loan.DeclineStaffLoan'', ''staff_loan.EndStaffLoanEarly''}
                then fst (notify_staff_loan_lifecycle E udb (pc_actor p) (pc_target_id p) (ce_command_type envelope) (ce_payload envelope) s)
                else s)
      in case publicize_command_result E result of
           Inl e \<Rightarrow> (s1, Inl e)
         | Inr public_result \<Rightarrow>
             let s2 = append_command_audit E envelope (pc_actor p) ''accepted''
                   (jb_object (re_build E) [(''duplicate'', jb_bool (re_build E) was_duplicate),
                      (''event_count'', jb_u64 (re_build E) (of_nat (array_length E public_result ''events'')))]) s1;
                 s3 = (if was_duplicate then s2 else s2\<lparr>rs_events := rs_events s2 @ array_items E public_result ''events''\<rparr>)
             in (s3, Inr public_result))"

definition lookup_duplicate :: "('sk, 'k, 'g, 'v) RouteEnv \<Rightarrow> 'v CommandEnvelope \<Rightarrow> 'v ParsedCommand \<Rightarrow> Db \<Rightarrow> (bool, 'v ApiError) result" where
  "lookup_duplicate E envelope p db =
     (case (case re_idempotency_fault E of Some e \<Rightarrow> Inl e | None \<Rightarrow> idempotency_get (re_json E) (pc_operation_id p) db) of
        Inr found \<Rightarrow> Inr (found \<noteq> None)
      | Inl _ \<Rightarrow> Inl (ApiError_new 500 ''IDEMPOTENCY_LOOKUP_FAILED'' ''INFRASTRUCTURE'' ''TRANSIENT'' (ce_correlation_id envelope)
           (details E [(''message'', ''Idempotency service unavailable'')])))"

definition check_target_type :: "('sk, 'k, 'g, 'v) RouteEnv \<Rightarrow> 'v CommandEnvelope \<Rightarrow> (unit, 'v ApiError) result" where
  "check_target_type E envelope =
     (case expected_target_type (ce_command_type envelope) of
        None \<Rightarrow> Inl (ApiError_new 400 ''UNSUPPORTED_WEB_COMMAND'' ''DOMAIN'' ''NON_RETRYABLE'' (ce_correlation_id envelope)
                  (details E [(''command_type'', ce_command_type envelope)]))
      | Some expected \<Rightarrow>
          if tgt_object_type (ce_target envelope) \<noteq> expected
          then Inl (ApiError_new 400 ''TARGET_TYPE_MISMATCH'' ''DOMAIN'' ''NON_RETRYABLE'' (ce_correlation_id envelope)
                 (details E [(''expected'', expected), (''actual'', tgt_object_type (ce_target envelope))]))
          else Inr ())"

text \<open>Everything before the dispatch: it reads, and changes nothing.\<close>

definition admit ::
    "('sk, 'k, 'g, 'v) RouteEnv \<Rightarrow> 's RevocationOps \<Rightarrow> 's \<Rightarrow> UserDb \<Rightarrow> string option \<Rightarrow> 'v CommandEnvelope \<Rightarrow> Db
      \<Rightarrow> ('v ParsedCommand \<times> bool, 'v ApiError) result" where
  "admit E R store udb header envelope db =
     and_then (authenticate_headers (re_auth E) R store udb header) (\<lambda>auth.
     and_then (check_scope E auth envelope) (\<lambda>_.
     and_then (check_target_type E envelope) (\<lambda>_.
     and_then (parse_command E auth envelope) (\<lambda>p.
     and_then (lookup_duplicate E envelope p db) (\<lambda>was_duplicate. Inr (p, was_duplicate))))))"

definition command_route ::
    "('sk, 'k, 'g, 'v) RouteEnv \<Rightarrow> 's RevocationOps \<Rightarrow> 's \<Rightarrow> UserDb \<Rightarrow> string option \<Rightarrow> 'v CommandEnvelope \<Rightarrow> 'v RouteState
      \<Rightarrow> 'v RouteState \<times> ('v, 'v ApiError) result option" where
  "command_route E R store udb header envelope s =
     (case admit E R store udb header envelope (rs_db s) of
        Inl e \<Rightarrow> (s, Some (Inl e))
      | Inr (p, was_duplicate) \<Rightarrow>
          (case dispatch E udb envelope p (rs_db s) of
             None \<Rightarrow> (s, None)
           | Some (db', Inl error) \<Rightarrow>
               (append_command_audit E envelope (pc_actor p) ''rejected''
                  (jb_object (re_build E) [(''error_class'', jb_string (re_build E) (command_error_class error))]) (s\<lparr>rs_db := db'\<rparr>),
                Some (Inl (map_command_error E (ce_correlation_id envelope) error)))
           | Some (db', Inr result) \<Rightarrow>
               (let (s', answer) = finish_command E udb envelope p was_duplicate result (s\<lparr>rs_db := db'\<rparr>) in (s', Some answer))))"

end
