(* ===== verification/Command_Security.thy ===== *)
theory Command_Security
  imports Command_Route
begin

text \<open>
  What the command endpoint guarantees, and two checks it does not make. Every request is answered; it changes the database only when it was
  admitted, passed the authority check of its type and met the stored version; it is audited; a repeated operation
  changes nothing. The authority check reads the type string of the request, the pipeline runs the command in the payload, and nothing
  compares the two; and the tenant is compared with the tenant the request names, not with that of the stored aggregate.
\<close>

section \<open>Which arm a command takes\<close>

lemma types_of:
  "expected_target_type ct = Some ''todo_list'' \<Longrightarrow> ct \<in> {''todo_list.AddItem'', ''todo_list.SubmitTodoList'', ''todo_list.RecordTeamLeaderPreCheck'', ''todo_list.VerifyTodoList'', ''todo_list.RejectTodoList'', ''todo_list.EscalateTodoList''}"
  "expected_target_type ct = Some ''target_list'' \<Longrightarrow> ct \<in> {''target_list.SubmitTargetList'', ''target_list.RecordTeamLeaderPreCheck'', ''target_list.VerifyTargetList'', ''target_list.RejectTargetList'', ''target_list.EscalateTargetList''}"
  "expected_target_type ct = Some ''staff_loan'' \<Longrightarrow> ct \<in> {''staff_loan.ApproveStaffLoan'', ''staff_loan.DeclineStaffLoan'', ''staff_loan.ExtendStaffLoan'', ''staff_loan.EndStaffLoanEarly'', ''staff_loan.EscalateStaffLoan'', ''staff_loan.ExpireStaffLoan''}"
  "expected_target_type ct = Some ''policy'' \<Longrightarrow> ct \<in> {''policy.CreatePolicyVersion'', ''policy.PublishPolicyVersion'', ''policy.EvaluatePolicy'', ''policy.RegisterViolation'', ''policy.RetirePolicy''}"
  "expected_target_type ct = Some ''legal_hold'' \<Longrightarrow> ct \<in> {''legal_hold.ReleaseLegalHold''}"
  "expected_target_type ct = Some ''approval'' \<Longrightarrow> ct \<in> {''approval.Approve'', ''approval.Reject''}"
  "expected_target_type ct = Some ''notification'' \<Longrightarrow> ct \<in> {''notification.Acknowledge''}"
  by (simp add: expected_target_type_def split: if_splits)+

lemmas route_types = dispatch_def policy_command_def starts_with_def Let_def

lemma dispatch_todo:
  "expected_target_type (ce_command_type envelope) = Some ''todo_list'' \<Longrightarrow>
     dispatch E udb envelope p db = Some (run_checked (run_command E (todo_ops (re_todo E)) envelope p ''todo_list'') db (todo_command E udb db envelope p))"
  by (drule types_of(1), elim insertE emptyE) (simp_all add: route_types)

lemma dispatch_target:
  "expected_target_type (ce_command_type envelope) = Some ''target_list'' \<Longrightarrow>
     dispatch E udb envelope p db
       = Some (run_checked (run_command E (target_ops (re_target E)) envelope p ''target_list'') db (target_command E udb db envelope p))"
  by (drule types_of(2), elim insertE emptyE) (simp_all add: route_types)

lemma dispatch_loan:
  "expected_target_type (ce_command_type envelope) = Some ''staff_loan'' \<Longrightarrow>
     dispatch E udb envelope p db
       = Some (run_checked (run_command E (loan_ops (re_loan E)) envelope p ''staff_loan'') db (loan_command E udb db envelope p))"
  by (drule types_of(3), elim insertE emptyE) (simp_all add: route_types)

lemma dispatch_policy:
  "expected_target_type (ce_command_type envelope) = Some ''policy'' \<Longrightarrow>
     \<exists>c. dispatch E udb envelope p db = Some (run_command E (policy_ops (re_policy E)) envelope p ''policy'' db c)"
  by (drule types_of(4), elim insertE emptyE; simp add: route_types; rule exI; rule refl)

lemma dispatch_hold:
  "expected_target_type (ce_command_type envelope) = Some ''legal_hold'' \<Longrightarrow>
     \<exists>c. dispatch E udb envelope p db = Some (run_command E (hold_ops (re_hold E)) envelope p ''legal_hold'' db c)"
  by (drule types_of(5), elim insertE emptyE; simp add: route_types; rule exI; rule refl)

lemma dispatch_approval:
  "expected_target_type (ce_command_type envelope) = Some ''approval'' \<Longrightarrow>
     \<exists>c. dispatch E udb envelope p db = Some (run_command E (approval_ops (re_to_iso E) (re_approval E)) envelope p ''approval'' db c)"
  by (drule types_of(6), elim insertE emptyE; simp add: route_types; rule exI; rule refl)

lemma dispatch_notification:
  "expected_target_type (ce_command_type envelope) = Some ''notification'' \<Longrightarrow>
     \<exists>c. dispatch E udb envelope p db = Some (run_command E (notification_ops (re_to_iso E) (re_notification E)) envelope p ''notification'' db c)"
  by (drule types_of(7), elim insertE emptyE; simp add: route_types; rule exI; rule refl)

lemma expected_target_type_range:
  "expected_target_type ct = Some ty \<Longrightarrow>
     ty \<in> {''notification'', ''approval'', ''policy'', ''legal_hold'', ''todo_list'', ''target_list'', ''staff_loan''}"
  by (auto simp: expected_target_type_def split: if_splits)

section \<open>What a command finds\<close>

text \<open>The stored row a command that has an effect has found.\<close>

definition found_row :: "'v CommandEnvelope \<Rightarrow> 'v ParsedCommand \<Rightarrow> string \<Rightarrow> Db \<Rightarrow> bool" where
  "found_row envelope p ty db \<longleftrightarrow> fmlookup (idempotency db) (pc_operation_id p) = None
     \<and> (\<exists>row. fmlookup (aggregates db) (pc_target_id p) = Some row \<and> row_aggregate_type row = ty \<and> row_version row = ce_expected_version envelope)"

lemma run_command_changes:
  assumes "run_command E A envelope p ty db c = (db', res)" and "db' \<noteq> db"
  shows "found_row envelope p ty db \<and> (\<exists>r. res = Inr r)"
  using assms(1) unfolding run_command_def
proof (cases rule: handle_command_cases)
  case (committed u r u')
  from committed(1,2) show ?thesis
    by (elim handle_prepare_Staged) (auto simp: command_request_def found_row_def)
qed (use assms(2) in simp_all)

lemma run_checked_changes:
  assumes "run_checked (run_command E A envelope p ty) db command = (db', res)" and "db' \<noteq> db"
  shows "found_row envelope p ty db \<and> (\<exists>r. res = Inr r)" and "\<exists>c. command = Inr c"
  using assms run_command_changes [of E A envelope p ty db _ db' res] by (auto simp: run_checked_def split: sum.splits)

text \<open>The authority check that the type string of a command calls for.\<close>

definition gate ::
    "('sk, 'k, 'g, 'v) RouteEnv \<Rightarrow> UserDb \<Rightarrow> Db \<Rightarrow> 'v ParsedCommand \<Rightarrow> string \<Rightarrow> (unit, CommandError) result" where
  "gate E udb db p ct =
     (if ct \<in> {''todo_list.VerifyTodoList'', ''todo_list.RejectTodoList'', ''todo_list.EscalateTodoList'',
               ''target_list.VerifyTargetList'', ''target_list.RejectTargetList'', ''target_list.EscalateTargetList''}
      then require_verifier_authority (re_json E) (re_uuid E) (find_user_of E udb) (loan_rows E (actor_organization_id (pc_actor p)) db)
             (re_decode_loan E) (load_of E ''todo_list'' db) (load_of E ''target_list'' db) (pc_actor p) (pc_target_id p)
             (if starts_with ct ''todo_list.'' then ''todo_list'' else ''target_list'')
      else if ct \<in> {''todo_list.RecordTeamLeaderPreCheck'', ''target_list.RecordTeamLeaderPreCheck''}
      then require_team_leader_or_admin (re_uuid E) (find_user_of E udb) (pc_actor p)
      else if starts_with ct ''staff_loan.''
      then require_staff_loan_authority (re_decode_loan E) (load_of E ''staff_loan'' db) (pc_actor p) (pc_target_id p) ct
      else Inr ())"

lemma and_then_Inr: "and_then r f = Inr y \<longleftrightarrow> (\<exists>x. r = Inr x \<and> f x = Inr y)"
  by (simp add: and_then_def split: sum.split)

lemma gate_todo:
  "expected_target_type (ce_command_type envelope) = Some ''todo_list'' \<Longrightarrow> todo_command E udb db envelope p = Inr c \<Longrightarrow>
     gate E udb db p (ce_command_type envelope) = Inr ()"
  by (drule types_of(1), elim insertE emptyE) (simp_all add: todo_command_def gate_def and_then_Inr starts_with_def Let_def)

lemma gate_target:
  "expected_target_type (ce_command_type envelope) = Some ''target_list'' \<Longrightarrow> target_command E udb db envelope p = Inr c \<Longrightarrow>
     gate E udb db p (ce_command_type envelope) = Inr ()"
  by (drule types_of(2), elim insertE emptyE) (simp_all add: target_command_def gate_def and_then_Inr starts_with_def Let_def)

lemma gate_loan_type:
  assumes "expected_target_type ct = Some ''staff_loan''"
  shows "gate E udb db p ct = require_staff_loan_authority (re_decode_loan E) (load_of E ''staff_loan'' db) (pc_actor p) (pc_target_id p) ct"
  using types_of(3) [OF assms] by (elim insertE emptyE) (simp_all add: gate_def starts_with_def)

lemma gate_loan:
  "expected_target_type (ce_command_type envelope) = Some ''staff_loan'' \<Longrightarrow> loan_command E udb db envelope p = Inr c \<Longrightarrow>
     gate E udb db p (ce_command_type envelope) = Inr ()"
  by (auto simp: loan_command_def gate_loan_type and_then_Inr)

lemma gate_open_types:
  "expected_target_type ct = Some ''notification'' \<Longrightarrow> gate E udb db p ct = Inr ()"
  "expected_target_type ct = Some ''approval'' \<Longrightarrow> gate E udb db p ct = Inr ()"
  "expected_target_type ct = Some ''policy'' \<Longrightarrow> gate E udb db p ct = Inr ()"
  "expected_target_type ct = Some ''legal_hold'' \<Longrightarrow> gate E udb db p ct = Inr ()"
  by (drule types_of, elim insertE emptyE, simp_all add: gate_def starts_with_def)+

lemma target_type_cases:
  assumes "expected_target_type ct = Some ty"
  obtains (notification) "ty = ''notification''" | (approval) "ty = ''approval''" | (policy) "ty = ''policy''" | (hold) "ty = ''legal_hold''"
    | (todo) "ty = ''todo_list''" | (target) "ty = ''target_list''" | (loan) "ty = ''staff_loan''"
  using expected_target_type_range [OF assms] by (elim insertE emptyE) (erule that)+

lemma plain_changes:
  assumes "\<exists>c. dispatch E udb envelope p db = Some (run_command E A envelope p ty db c)" and "dispatch E udb envelope p db = Some (db', res)" and "db' \<noteq> db"
  shows "found_row envelope p ty db \<and> (\<exists>r. res = Inr r)"
  using assms run_command_changes by fastforce

lemma checked_changes:
  assumes "dispatch E udb envelope p db = Some (run_checked (run_command E A envelope p ty) db command)"
    and "dispatch E udb envelope p db = Some (db', res)" and "db' \<noteq> db"
  shows "found_row envelope p ty db \<and> (\<exists>r. res = Inr r)" and "\<exists>c. command = Inr c"
  using assms run_checked_changes [of E A envelope p ty db command db' res] by simp_all

lemma dispatch_total:
  assumes ty: "expected_target_type (ce_command_type envelope) = Some ty"
  shows "\<exists>r. dispatch E udb envelope p db = Some r"
  using ty
proof (cases rule: target_type_cases)
  case notification
  from dispatch_notification [OF ty [unfolded notification], of E udb p db] show ?thesis by (elim exE) (rule exI)
next
  case approval
  from dispatch_approval [OF ty [unfolded approval], of E udb p db] show ?thesis by (elim exE) (rule exI)
next
  case policy
  from dispatch_policy [OF ty [unfolded policy], of E udb p db] show ?thesis by (elim exE) (rule exI)
next
  case hold
  from dispatch_hold [OF ty [unfolded hold], of E udb p db] show ?thesis by (elim exE) (rule exI)
next
  case todo
  from dispatch_todo [OF ty [unfolded todo], of E udb p db] show ?thesis by (rule exI)
next
  case target
  from dispatch_target [OF ty [unfolded target], of E udb p db] show ?thesis by (rule exI)
next
  case loan
  from dispatch_loan [OF ty [unfolded loan], of E udb p db] show ?thesis by (rule exI)
qed

lemma dispatch_changes:
  assumes ty: "expected_target_type (ce_command_type envelope) = Some ty" and d: "dispatch E udb envelope p db = Some (db', res)" and ne: "db' \<noteq> db"
  shows "found_row envelope p ty db" and "\<exists>r. res = Inr r" and "gate E udb db p (ce_command_type envelope) = Inr ()"
proof -
  have "(found_row envelope p ty db \<and> (\<exists>r. res = Inr r)) \<and> gate E udb db p (ce_command_type envelope) = Inr ()"
    using ty
  proof (cases rule: target_type_cases)
    case notification
    note ty' = ty [unfolded notification]
    from plain_changes [OF dispatch_notification [OF ty'] d ne] gate_open_types(1) [OF ty'] show ?thesis unfolding notification ..
  next
    case approval
    note ty' = ty [unfolded approval]
    from plain_changes [OF dispatch_approval [OF ty'] d ne] gate_open_types(2) [OF ty'] show ?thesis unfolding approval ..
  next
    case policy
    note ty' = ty [unfolded policy]
    from plain_changes [OF dispatch_policy [OF ty'] d ne] gate_open_types(3) [OF ty'] show ?thesis unfolding policy ..
  next
    case hold
    note ty' = ty [unfolded hold]
    from plain_changes [OF dispatch_hold [OF ty'] d ne] gate_open_types(4) [OF ty'] show ?thesis unfolding hold ..
  next
    case todo
    note ty' = ty [unfolded todo] and c = checked_changes [OF dispatch_todo [OF ty [unfolded todo]] d ne]
    from c(2) gate_todo [OF ty'] have "gate E udb db p (ce_command_type envelope) = Inr ()" by (elim exE)
    with c(1) show ?thesis unfolding todo ..
  next
    case target
    note ty' = ty [unfolded target] and c = checked_changes [OF dispatch_target [OF ty [unfolded target]] d ne]
    from c(2) gate_target [OF ty'] have "gate E udb db p (ce_command_type envelope) = Inr ()" by (elim exE)
    with c(1) show ?thesis unfolding target ..
  next
    case loan
    note ty' = ty [unfolded loan] and c = checked_changes [OF dispatch_loan [OF ty [unfolded loan]] d ne]
    from c(2) gate_loan [OF ty'] have "gate E udb db p (ce_command_type envelope) = Inr ()" by (elim exE)
    with c(1) show ?thesis unfolding loan ..
  qed
  then show "found_row envelope p ty db" and "\<exists>r. res = Inr r" and "gate E udb db p (ce_command_type envelope) = Inr ()" by simp_all
qed

section \<open>The endpoint as a whole\<close>

lemma admit_Inr:
  assumes "admit E R store udb header envelope db = Inr (p, dup)"
  obtains auth where "authenticate_headers (re_auth E) R store udb header = Inr auth" "check_scope E auth envelope = Inr ()"
    "check_target_type E envelope = Inr ()" "parse_command E auth envelope = Inr p" "lookup_duplicate E envelope p db = Inr dup"
  using assms that by (auto simp: admit_def and_then_Inr)

lemma check_target_type_Inr:
  "check_target_type E envelope = Inr () \<Longrightarrow> expected_target_type (ce_command_type envelope) = Some (tgt_object_type (ce_target envelope))"
  by (simp add: check_target_type_def split: option.splits if_splits)


lemma insert_notifications_db: "rs_db (fst (insert_notifications E org src t m i rs s)) = rs_db s"
  "rs_audit (fst (insert_notifications E org src t m i rs s)) = rs_audit s"
  by (induction rs arbitrary: i s) (simp_all add: Let_def)

lemma notify_db:
  "rs_db (fst (notify_staff_loan_lifecycle E udb actor target ct payload s)) = rs_db s"
  "rs_audit (fst (notify_staff_loan_lifecycle E udb actor target ct payload s)) = rs_audit s"
  by (simp_all add: notify_staff_loan_lifecycle_def Let_def insert_notifications_db split: sum.split option.split)

lemma append_audit_frame [simp]:
  "rs_db (append_command_audit E envelope actor outcome d s) = rs_db s" "rs_events (append_command_audit E envelope actor outcome d s) = rs_events s"
  "rs_text_rows (append_command_audit E envelope actor outcome d s) = rs_text_rows s"
  by (simp_all add: append_command_audit_def Let_def)



lemma command_route_admitted:
  assumes "admit E R store udb header envelope (rs_db s) = Inr (p, dup)"
  obtains db' res where "dispatch E udb envelope p (rs_db s) = Some (db', res)"
    "command_route E R store udb header envelope s =
      (case res of
         Inl e \<Rightarrow> (append_command_audit E envelope (pc_actor p) ''rejected''
             (jb_object (re_build E) [(''error_class'', jb_string (re_build E) (command_error_class e))]) (s\<lparr>rs_db := db'\<rparr>),
           Some (Inl (map_command_error E (ce_correlation_id envelope) e)))
       | Inr r \<Rightarrow> map_prod id Some (finish_command E udb envelope p dup r (s\<lparr>rs_db := db'\<rparr>)))"
proof -
  from assms obtain auth where "check_target_type E envelope = Inr ()" by (rule admit_Inr)
  from dispatch_total [OF check_target_type_Inr [OF this], of E udb p "rs_db s"] obtain db' res where
    d: "dispatch E udb envelope p (rs_db s) = Some (db', res)" by (elim exE) (metis surj_pair)
  show thesis by (rule that [OF d]) (simp add: command_route_def assms d split: sum.split prod.split)
qed


section \<open>Properties\<close>


text \<open>
  The audit trail is complete for what is answered: with a working audit store, a command that is answered with success leaves exactly one more
  record, of outcome \<open>accepted\<close>, and one the pipeline or an authority check rejects leaves exactly one of outcome
  \<open>rejected\<close> and an unchanged database; the record names the authenticated actor, the tenant and the type of the command.
\<close>

theorem command_route_audited:
  assumes adm: "admit E R store udb header envelope (rs_db s) = Inr (p, dup)" and audit: "\<not> re_audit_fault E"
    and route: "command_route E R store udb header envelope s = (s', Some answer)"
  shows "(answer = Inr v \<longrightarrow> (\<exists>record. rs_audit s' = rs_audit s @ [record] \<and> ar_outcome record = ''accepted''
        \<and> ar_actor_id record = Some (user_id (pc_actor p)) \<and> ar_organization_id record = actor_organization_id (pc_actor p)
        \<and> ar_action record = ce_command_type envelope))
    \<and> (dispatch E udb envelope p (rs_db s) = Some (db', Inl e) \<longrightarrow> (\<exists>record. s' = s\<lparr>rs_audit := rs_audit s @ [record]\<rparr> \<and> ar_outcome record = ''rejected''
        \<and> ar_actor_id record = Some (user_id (pc_actor p)) \<and> ar_organization_id record = actor_organization_id (pc_actor p)
        \<and> ar_action record = ce_command_type envelope \<and> answer = Inl (map_command_error E (ce_correlation_id envelope) e)))"
  using adm
proof (rule command_route_admitted)
  fix db1 res
  assume d: "dispatch E udb envelope p (rs_db s) = Some (db1, res)"
    and r: "command_route E R store udb header envelope s =
      (case res of
         Inl e \<Rightarrow> (append_command_audit E envelope (pc_actor p) ''rejected''
             (jb_object (re_build E) [(''error_class'', jb_string (re_build E) (command_error_class e))]) (s\<lparr>rs_db := db1\<rparr>),
           Some (Inl (map_command_error E (ce_correlation_id envelope) e)))
       | Inr r \<Rightarrow> map_prod id Some (finish_command E udb envelope p dup r (s\<lparr>rs_db := db1\<rparr>)))"
  show ?thesis
  proof (cases res)
    case (Inl err)
    from adm obtain auth where "check_target_type E envelope = Inr ()" by (rule admit_Inr)
    from dispatch_changes(2) [OF check_target_type_Inr [OF this] d] Inl have "db1 = rs_db s" by auto
    with Inl r route d audit show ?thesis by (auto simp: append_command_audit_def Let_def)
  next
    case (Inr result)
    with r route have f: "finish_command E udb envelope p dup result (s\<lparr>rs_db := db1\<rparr>) = (s', answer)"
      by (cases "finish_command E udb envelope p dup result (s\<lparr>rs_db := db1\<rparr>)") simp
    with d Inr audit show ?thesis
      by (auto simp: finish_command_def append_command_audit_def notify_db Let_def split: sum.splits)
  qed
qed

text \<open>
  A repeated operation has no effect: when the operation identifier of a request is already recorded, the request changes neither
  the database nor the stored notifications, and broadcasts no event, whatever command it carries.
\<close>

theorem command_replay:
  assumes adm: "admit E R store udb header envelope (rs_db s) = Inr (p, True)"
    and route: "command_route E R store udb header envelope s = (s', res)"
  shows "rs_db s' = rs_db s \<and> rs_text_rows s' = rs_text_rows s \<and> rs_events s' = rs_events s"
  using adm
proof (rule command_route_admitted)
  fix db1 r
  assume d: "dispatch E udb envelope p (rs_db s) = Some (db1, r)"
    and c: "command_route E R store udb header envelope s =
      (case r of
         Inl e \<Rightarrow> (append_command_audit E envelope (pc_actor p) ''rejected''
             (jb_object (re_build E) [(''error_class'', jb_string (re_build E) (command_error_class e))]) (s\<lparr>rs_db := db1\<rparr>),
           Some (Inl (map_command_error E (ce_correlation_id envelope) e)))
       | Inr r \<Rightarrow> map_prod id Some (finish_command E udb envelope p True r (s\<lparr>rs_db := db1\<rparr>)))"
  from adm obtain auth where au: "check_target_type E envelope = Inr ()" "lookup_duplicate E envelope p (rs_db s) = Inr True" by (rule admit_Inr)
  from au(2) have "fmlookup (idempotency (rs_db s)) (pc_operation_id p) \<noteq> None"
    by (auto simp: lookup_duplicate_def idempotency_get_def split: option.splits sum.splits)
  with dispatch_changes(1) [OF check_target_type_Inr [OF au(1)] d] have "db1 = rs_db s" by (auto simp: found_row_def)
  with c route show ?thesis by (auto simp: finish_command_def Let_def split: sum.splits)
qed

section \<open>A sample request\<close>

text \<open>
  The store holds one aggregate, number 0. Bob, a staff member of \<open>''org''\<close> and number 0 among the users, sends a command. Texts stand for
  JSON values, every identifier in a JSON value reads as 0.
\<close>

definition toy_uuid :: UuidOps where
  "toy_uuid = \<lparr>uuid_to_string = (\<lambda>i. if i = 0 then ''b'' else if i = 7 then ''a'' else ''org''),
     uuid_parse = (\<lambda>s. Some (if s = ''org'' then 3 else if s = ''a'' then 7 else if s = ''op'' then 5 else 0))\<rparr>"

definition toy_handler :: "string HandlerEnv" where
  "toy_handler = \<lparr>env_trusted_now = 10, env_now = 11, env_commit_now = 12, env_object_id = (\<lambda>n. of_nat n), env_event_id = (\<lambda>n. 50 + of_nat n),
     env_replica_id = (\<lambda>_. 1), env_to_vec = Some, env_id_to_string = (\<lambda>_. ''id''), env_result = (\<lambda>_ _ _ _ _. ''result''),
     idempotency_fault = None, load_fault = None, begin_fault = None, commit_fault = (\<lambda>_. None)\<rparr>"

definition no_serde :: "('a, 'ev, string) Serde" where
  "no_serde = \<lparr>sd_from_value = (\<lambda>_. None), sd_to_value = (\<lambda>_. None), sd_envelope_to_value = (\<lambda>_. None)\<rparr>"

definition toy_policy :: "string Policy" where
  "toy_policy = \<lparr>policy_id = 0, policy_version = 0, policy_lifecycle_epoch = 0, policy_authority_epoch = 0, policy_status = PolicyStatus.Active,
     policy_name = ''retention'', policy_scope = Organization 99, policy_versions = []\<rparr>"

definition toy_todo :: TodoList where
  "toy_todo = todo_sample\<lparr>todo_id := 0, todo_version := 0, todo_owner := 0\<rparr>"

definition toy_route :: "(8 word, 8 word, bytes, string) RouteEnv" where
  "toy_route = \<lparr>re_auth = toy_env toy_user Web, re_handler = toy_handler, re_uuid = toy_uuid, re_as_bool = (\<lambda>_. Some True), re_to_string = id,
     re_to_iso = (\<lambda>_. ''now''), re_now_iso = ''now'', re_now_ms = 0, re_audit_now = 0, re_web_device = 1, re_new_uuid = of_nat,
     re_find_fault = (\<lambda>_. None), re_rows_fault = None, re_load_fault = None, re_idempotency_fault = None, re_insert_fault = (\<lambda>_. False),
     re_audit_fault = False, re_serde_error = [], re_notification = no_serde, re_approval = no_serde,
     re_policy = \<lparr>sd_from_value = (\<lambda>_. Some toy_policy), sd_to_value = (\<lambda>p. Some (if policy_status p = Retired then ''retired'' else ''active'')),
       sd_envelope_to_value = (\<lambda>_. Some ''event'')\<rparr>,
     re_hold = no_serde,
     re_todo = \<lparr>sd_from_value = (\<lambda>_. Some toy_todo), sd_to_value = (\<lambda>t. Some (if todo_status t = Verified then ''verified'' else ''submitted'')),
       sd_envelope_to_value = (\<lambda>_. Some ''event'')\<rparr>,
     re_target = no_serde, re_loan = no_serde, re_rules = (\<lambda>_. Inr []), re_todo_command = (\<lambda>_. Inr (VerifyTodoList Flawless None)),
     re_target_command = (\<lambda>_. Inl []), re_loan_command = (\<lambda>_. Inl []), re_decode_loan = (\<lambda>_. Inl [])\<rparr>"

definition toy_header :: "string option" where
  "toy_header = Some (''Bearer '' @ resp_access_token (toy_response toy_user Web))"

definition toy_envelope :: "string \<Rightarrow> string \<Rightarrow> string CommandEnvelope" where
  "toy_envelope ct ty = \<lparr>ce_operation_id = ''op'', ce_command_type = ct,
     ce_target = \<lparr>tgt_id = ''t'', tgt_object_type = ty, tgt_organization_id = ''org''\<rparr>, ce_expected_version = 0, ce_expected_lifecycle_epoch = 0,
     ce_expected_authority_epoch = 0, ce_vector_clock = [], ce_correlation_id = ''c'', ce_payload = ''payload''\<rparr>"

definition toy_row :: "string \<Rightarrow> string \<Rightarrow> OrganizationId \<Rightarrow> AggregateRow" where
  "toy_row ty state org = \<lparr>row_aggregate_type = ty, row_version = 0, row_lifecycle_epoch = 0, row_authority_epoch = 0, row_state = state,
     row_updated_at = 0, row_organization_id = org\<rparr>"

definition toy_state :: "AggregateRow \<Rightarrow> string RouteState" where
  "toy_state row = \<lparr>rs_db = \<lparr>aggregates = fmupd 0 row fmempty, domain_events = [], outbox = [], idempotency = fmempty\<rparr>,
     rs_text_rows = [], rs_audit = [], rs_events = []\<rparr>"

definition toy_parsed :: "string ParsedCommand" where
  "toy_parsed = \<lparr>pc_target_id = 0, pc_operation_id = 5, pc_correlation_id = 0,
     pc_actor = \<lparr>user_id = 0, device_id = 1, actor_organization_id = 3\<rparr>, pc_vector_clock = vc_new, pc_rules = []\<rparr>"

lemma toy_admit:
  assumes "ct \<in> {''policy.RetirePolicy'', ''todo_list.AddItem''}" and "expected_target_type ct = Some ty"
  shows "admit toy_route (toy_rev (\<lambda>_. None)) fresh_store sample_users toy_header (toy_envelope ct ty) db
    = Inr (toy_parsed, fmlookup (idempotency db) 5 \<noteq> None)"
proof -
  let ?au = "\<lparr>au_user_id = ''b'', au_username = u_username toy_user, au_organization_id = ''org'',
      au_token = resp_access_token (toy_response toy_user Web), au_scope = tc_scope (toy_claims toy_user Web True), au_client_type = Web\<rparr>"
  have "authenticate_headers (re_auth toy_route) (toy_rev (\<lambda>_. None)) fresh_store sample_users toy_header = Inr ?au"
    using toy_authenticate_user [of Web] unfolding toy_header_def by (simp add: toy_route_def toy_user_def)
  moreover have "check_scope toy_route ?au (toy_envelope ct ty) = Inr ()"
    using assms(1) by (auto simp: check_scope_def require_capability_def FULL_CAPABILITIES_def toy_envelope_def toy_claims_def issued_claims_def
        issued_command_types_def Let_def)
  moreover have "check_target_type toy_route (toy_envelope ct ty) = Inr ()"
    using assms(2) by (simp add: check_target_type_def toy_envelope_def)
  moreover have "parse_command toy_route ?au (toy_envelope ct ty) = Inr toy_parsed"
    using assms(1) by (auto simp: parse_command_def parse_object_id_def parse_rules_def and_then_def toy_envelope_def toy_route_def toy_uuid_def toy_parsed_def)
  moreover have "lookup_duplicate toy_route (toy_envelope ct ty) toy_parsed db = Inr (fmlookup (idempotency db) 5 \<noteq> None)"
    by (simp add: lookup_duplicate_def idempotency_get_def toy_route_def toy_json_def toy_parsed_def split: option.split)
  ultimately show ?thesis by (simp add: admit_def and_then_def)
qed

lemmas toy_run_defs = run_command_def command_request_def handle_command_def handle_prepare_def idempotency_get_def repo_load_def handle_stage_def
  decision_context_def owner_denied_def agg_simps kernel_simps repo_commit_def repo_extract_id_bytes_def bytes_of_json_def numeral_eq_Suc
  uow_commit_def uow_statements_def register_idempotency_result_def register_event_def stage_aggregate_upsert_def handle_finish_def
  register_outbox_def uow_begin_def upsert_aggregate_def insert_domain_event_def insert_outbox_message_def
  insert_idempotency_def json_i64_or_zero_def extract_event_id_def bytes_be_def is_authorized_def toy_route_def toy_handler_def toy_json_def


lemma toy_verify:
  "\<exists>db'. run_command toy_route (todo_ops (re_todo toy_route)) (toy_envelope ''todo_list.AddItem'' ''todo_list'') toy_parsed ''todo_list''
      (rs_db (toy_state (toy_row ''todo_list'' ''submitted'' 3))) (VerifyTodoList Flawless None) = (db', Inr ''result'')
    \<and> (\<exists>row. fmlookup (aggregates db') 0 = Some row \<and> row_state row = ''verified'')"
  by (simp add: toy_run_defs todo_ops_def toy_envelope_def toy_parsed_def toy_state_def toy_row_def toy_todo_def todo_sample_def)

lemma toy_bytes: "\<exists>i. strict_bytes toy_json (replicate 16 ''byte'') = Some i"
proof -
  have "strict_bytes toy_json (replicate 16 ''byte'') \<noteq> None" by code_simp
  then show ?thesis by (simp only: not_None_eq)
qed

lemma toy_sent:
  assumes ct: "ct \<in> {''policy.RetirePolicy'', ''todo_list.AddItem''}" "expected_target_type ct = Some ty"
    and d: "dispatch toy_route sample_users (toy_envelope ct ty) toy_parsed (rs_db (toy_state row)) = Some (db', Inr ''result'')"
  shows "\<exists>s' answer. command_route toy_route (toy_rev (\<lambda>_. None)) fresh_store sample_users toy_header (toy_envelope ct ty) (toy_state row)
    = (s', Some (Inr answer)) \<and> rs_db s' = db'"
proof -
  have "ct \<noteq> ''staff_loan.DeclineStaffLoan''" "ct \<noteq> ''staff_loan.EndStaffLoanEarly''" using ct(1) by auto
  moreover have "\<exists>i. kernel_id_to_string toy_route ''operation_id'' = Some i"
    using toy_bytes by (auto simp: kernel_id_to_string_def toy_route_def) (simp add: toy_json_def)
  ultimately have "\<exists>s' answer. finish_command toy_route sample_users (toy_envelope ct ty) toy_parsed False ''result'' ((toy_state row)\<lparr>rs_db := db'\<rparr>) = (s', Inr answer) \<and> rs_db s' = db'"
    by (auto simp: finish_command_def publicize_command_result_def required_id_def public_events_def
        toy_route_def toy_json_def toy_envelope_def Let_def)
  moreover have "idempotency (rs_db (toy_state row)) = fmempty" by (simp add: toy_state_def)
  ultimately show ?thesis using toy_admit [OF ct, of "rs_db (toy_state row)"] d by (auto simp: command_route_def)
qed

lemma toy_dispatch_verify:
  assumes "run_command toy_route (todo_ops (re_todo toy_route)) (toy_envelope ''todo_list.AddItem'' ''todo_list'') toy_parsed ''todo_list'' db
    (VerifyTodoList Flawless None) = r"
  shows "dispatch toy_route sample_users (toy_envelope ''todo_list.AddItem'' ''todo_list'') toy_parsed db = Some r"
  using assms by (simp add: dispatch_todo expected_target_type_def toy_envelope_def todo_command_def decode_payload_def and_then_def run_checked_def Let_def)
    (simp add: toy_route_def)

lemma toy_confused:
  obtains s' answer row where "command_route toy_route (toy_rev (\<lambda>_. None)) fresh_store sample_users toy_header
      (toy_envelope ''todo_list.AddItem'' ''todo_list'') (toy_state (toy_row ''todo_list'' ''submitted'' 3)) = (s', Some (Inr answer))"
    "fmlookup (aggregates (rs_db s')) 0 = Some row" "row_state row = ''verified''"
proof -
  let ?s = "toy_state (toy_row ''todo_list'' ''submitted'' 3)" and ?env = "toy_envelope ''todo_list.AddItem'' ''todo_list''"
  have ty: "expected_target_type ''todo_list.AddItem'' = Some ''todo_list''" by (simp add: expected_target_type_def)
  obtain db' row where run: "run_command toy_route (todo_ops (re_todo toy_route)) ?env toy_parsed ''todo_list'' (rs_db ?s) (VerifyTodoList Flawless None) = (db', Inr ''result'')"
      "fmlookup (aggregates db') 0 = Some row" "row_state row = ''verified''" using toy_verify by blast
  from toy_sent [OF _ ty toy_dispatch_verify [OF run(1)]] obtain s' answer where
    "command_route toy_route (toy_rev (\<lambda>_. None)) fresh_store sample_users toy_header ?env ?s = (s', Some (Inr answer))" "rs_db s' = db'" by blast
  with run(2,3) that show thesis by blast
qed


lemma toy_audited: "\<not> re_audit_fault toy_route"
  by (simp add: toy_route_def)

theorem command_route_audited_witness:
  "\<exists>s' answer record. command_route toy_route (toy_rev (\<lambda>_. None)) fresh_store sample_users toy_header (toy_envelope ''todo_list.AddItem'' ''todo_list'')
      (toy_state (toy_row ''todo_list'' ''submitted'' 3)) = (s', Some (Inr answer)) \<and> rs_audit s' = [record] \<and> ar_outcome record = ''accepted''"
proof -
  obtain s' answer row where s': "command_route toy_route (toy_rev (\<lambda>_. None)) fresh_store sample_users toy_header
      (toy_envelope ''todo_list.AddItem'' ''todo_list'') (toy_state (toy_row ''todo_list'' ''submitted'' 3)) = (s', Some (Inr answer))"
    by (rule toy_confused)
  have "rs_audit (toy_state (toy_row ''todo_list'' ''submitted'' 3)) = []" by (simp add: toy_state_def)
  moreover have "expected_target_type ''todo_list.AddItem'' = Some ''todo_list''" by (simp add: expected_target_type_def)
  ultimately show ?thesis
    using command_route_audited [OF toy_admit toy_audited s'] s' by fastforce
qed

definition toy_replayed :: "string RouteState" where
  "toy_replayed = (toy_state (toy_row ''todo_list'' ''submitted'' 3))\<lparr>rs_db := (rs_db (toy_state (toy_row ''todo_list'' ''submitted'' 3)))
     \<lparr>idempotency := fmupd 5 ''result'' fmempty\<rparr>\<rparr>"

theorem command_replay_witness:
  "\<exists>s' res. command_route toy_route (toy_rev (\<lambda>_. None)) fresh_store sample_users toy_header (toy_envelope ''todo_list.AddItem'' ''todo_list'') toy_replayed
      = (s', res) \<and> rs_db s' = rs_db toy_replayed \<and> rs_events s' = []"
proof -
  have "admit toy_route (toy_rev (\<lambda>_. None)) fresh_store sample_users toy_header (toy_envelope ''todo_list.AddItem'' ''todo_list'') (rs_db toy_replayed)
      = Inr (toy_parsed, True)"
    using toy_admit [of "''todo_list.AddItem''" "''todo_list''" "rs_db toy_replayed"] by (simp add: toy_replayed_def expected_target_type_def)
  moreover have "rs_events toy_replayed = []" by (simp add: toy_replayed_def toy_state_def)
  ultimately show ?thesis
    using command_replay [of toy_route "toy_rev (\<lambda>_. None)" fresh_store sample_users toy_header "toy_envelope ''todo_list.AddItem'' ''todo_list''" toy_replayed]
    by (metis surj_pair)
qed

section \<open>Two checks that are missing\<close>

text \<open>
  C16. The authority check and the command come from different places. The check is chosen by the type string of the request, the command is
  whatever the payload decodes to: a request of type \<open>AddItem\<close> or \<open>SubmitTodoList\<close>, which nobody is checked for, runs a
  verification when its payload is one, for any caller; \<open>SubmitTargetList\<close> likewise; and who may extend a staff loan, the borrower, can
  approve it by a request of type \<open>ExtendStaffLoan\<close>.
\<close>

theorem payload_bypasses_authority:
  "(ce_command_type envelope \<in> {''todo_list.AddItem'', ''todo_list.SubmitTodoList''} \<and> re_todo_command E (ce_payload envelope) = Inr (VerifyTodoList outcome comment)
      \<longrightarrow> dispatch E udb envelope p db = Some (run_command E (todo_ops (re_todo E)) envelope p ''todo_list'' db (VerifyTodoList outcome comment)))
   \<and> (ce_command_type envelope = ''target_list.SubmitTargetList'' \<and> re_target_command E (ce_payload envelope) = Inr (VerifyTargetList outcome comment)
      \<longrightarrow> dispatch E udb envelope p db = Some (run_command E (target_ops (re_target E)) envelope p ''target_list'' db (VerifyTargetList outcome comment)))
   \<and> (ce_command_type envelope = ''staff_loan.ExtendStaffLoan'' \<and> re_loan_command E (ce_payload envelope) = Inr ApproveStaffLoan
      \<and> load_of E ''staff_loan'' db (pc_target_id p) = Inr (Some loaded) \<and> re_decode_loan E (loaded_aggregate loaded) = Inr loan
      \<and> user_id (pc_actor p) = loan_borrowing_manager_id loan
      \<longrightarrow> dispatch E udb envelope p db = Some (run_command E (loan_ops (re_loan E)) envelope p ''staff_loan'' db ApproveStaffLoan))"
proof (intro conjI impI)
  assume a: "ce_command_type envelope \<in> {''todo_list.AddItem'', ''todo_list.SubmitTodoList''} \<and> re_todo_command E (ce_payload envelope) = Inr (VerifyTodoList outcome comment)"
  then have "expected_target_type (ce_command_type envelope) = Some ''todo_list''" by (auto simp: expected_target_type_def)
  from dispatch_todo [OF this, of E udb p db] a show "dispatch E udb envelope p db = Some (run_command E (todo_ops (re_todo E)) envelope p ''todo_list'' db (VerifyTodoList outcome comment))"
    by (auto simp: todo_command_def decode_payload_def and_then_def run_checked_def Let_def)
next
  assume a: "ce_command_type envelope = ''target_list.SubmitTargetList'' \<and> re_target_command E (ce_payload envelope) = Inr (VerifyTargetList outcome comment)"
  then have "expected_target_type (ce_command_type envelope) = Some ''target_list''" by (simp add: expected_target_type_def)
  from dispatch_target [OF this, of E udb p db] a show "dispatch E udb envelope p db = Some (run_command E (target_ops (re_target E)) envelope p ''target_list'' db (VerifyTargetList outcome comment))"
    by (simp add: target_command_def decode_payload_def and_then_def run_checked_def Let_def)
next
  assume a: "ce_command_type envelope = ''staff_loan.ExtendStaffLoan'' \<and> re_loan_command E (ce_payload envelope) = Inr ApproveStaffLoan
      \<and> load_of E ''staff_loan'' db (pc_target_id p) = Inr (Some loaded) \<and> re_decode_loan E (loaded_aggregate loaded) = Inr loan
      \<and> user_id (pc_actor p) = loan_borrowing_manager_id loan"
  then have "expected_target_type (ce_command_type envelope) = Some ''staff_loan''" by (simp add: expected_target_type_def)
  from dispatch_loan [OF this, of E udb p db] a show "dispatch E udb envelope p db = Some (run_command E (loan_ops (re_loan E)) envelope p ''staff_loan'' db ApproveStaffLoan)"
    by (simp add: loan_command_def decode_payload_def require_staff_loan_authority_def staff_loan_permits_def load_or_fail_def and_then_def run_checked_def)
qed

lemma toy_gate: "\<exists>e. gate toy_route sample_users (rs_db (toy_state (toy_row ''todo_list'' ''submitted'' 3))) toy_parsed ''todo_list.VerifyTodoList'' = Inl e"
proof -
  have "case gate toy_route sample_users (rs_db (toy_state (toy_row ''todo_list'' ''submitted'' 3))) toy_parsed ''todo_list.VerifyTodoList'' of Inl _ \<Rightarrow> True | Inr _ \<Rightarrow> False"
    by code_simp
  then show ?thesis by (simp split: sum.splits)
qed

theorem payload_bypasses_authority_witness:
  "\<exists>db' row e. dispatch toy_route sample_users (toy_envelope ''todo_list.AddItem'' ''todo_list'') toy_parsed (rs_db (toy_state (toy_row ''todo_list'' ''submitted'' 3)))
      = Some (db', Inr ''result'') \<and> fmlookup (aggregates db') 0 = Some row \<and> row_state row = ''verified''
    \<and> gate toy_route sample_users (rs_db (toy_state (toy_row ''todo_list'' ''submitted'' 3))) toy_parsed ''todo_list.VerifyTodoList'' = Inl e"
proof -
  have "ce_command_type (toy_envelope ''todo_list.AddItem'' ''todo_list'') = ''todo_list.AddItem''"
    "re_todo_command toy_route (ce_payload (toy_envelope ''todo_list.AddItem'' ''todo_list'')) = Inr (VerifyTodoList Flawless None)"
    by (simp_all add: toy_envelope_def toy_route_def)
  then show ?thesis
    using payload_bypasses_authority [THEN conjunct1, of "toy_envelope ''todo_list.AddItem'' ''todo_list''" toy_route Flawless None sample_users toy_parsed
        "rs_db (toy_state (toy_row ''todo_list'' ''submitted'' 3))"] toy_verify toy_gate by fastforce
qed


end
