(* ===== verification/Sql_Rows.thy ===== *)
theory Sql_Rows
  imports Main
begin

text \<open>
  Tables as lists of rows: the effect of a statement \<open>UPDATE .. SET .. WHERE ..\<close> with the number of rows it changed (\<open>rows_affected\<close>
  of \<open>sqlx\<close>), and lookups by a key that no two rows share. Used for the job queue and the outbox, whose statements address one row by
  its primary key or a set of rows by a condition.
\<close>

definition update_where :: "('r \<Rightarrow> bool) \<Rightarrow> ('r \<Rightarrow> 'r) \<Rightarrow> 'r list \<Rightarrow> 'r list \<times> nat" where
  "update_where P f rows = (map (\<lambda>r. if P r then f r else r) rows, length (filter P rows))"

lemma find_map_if:
  assumes "\<And>r. key (f r) = key r"
  shows "List.find (\<lambda>r. key r = k) (map (\<lambda>r. if P r then f r else r) rows) = map_option (\<lambda>r. if P r then f r else r) (List.find (\<lambda>r. key r = k) rows)"
  by (induction rows) (auto simp: assms)

lemma find_key_iff:
  assumes "distinct (map key rows)"
  shows "List.find (\<lambda>r. key r = k) rows = Some r \<longleftrightarrow> r \<in> set rows \<and> key r = k"
  using assms by (induction rows) (auto simp: image_iff)

lemma find_key_None: "List.find (\<lambda>r. key r = k) rows = None \<longleftrightarrow> k \<notin> key ` set rows"
  by (auto simp: find_None_iff)

lemma update_where_one:
  assumes "distinct (map key rows)" "\<And>r. P r \<Longrightarrow> key r = k"
  shows "update_where P f rows =
    (case List.find (\<lambda>r. key r = k) rows of
       Some r \<Rightarrow> if P r then (map (\<lambda>r. if key r = k then f r else r) rows, 1) else (rows, 0)
     | None \<Rightarrow> (rows, 0))"
proof (cases "List.find (\<lambda>r. key r = k) rows")
  case None
  then have "\<forall>r \<in> set rows. \<not> P r" using assms(2) by (auto simp: find_None_iff)
  with None show ?thesis by (auto simp: update_where_def intro: map_idI)
next
  case (Some r)
  then have r: "r \<in> set rows" "key r = k" using assms(1) by (simp_all add: find_key_iff)
  have same: "s = r" if "s \<in> set rows" "key s = k" for s
    using that Some find_key_iff [OF assms(1), of k s] by simp
  show ?thesis
  proof (cases "P r")
    case True
    have "filter P rows = filter (\<lambda>s. s = r) rows" using same assms(2) True by (intro filter_cong) auto
    moreover have "length (filter (\<lambda>s. s = r) rows) = 1"
      using r(1) assms(1) by (simp add: distinct_map distinct_length_filter)
    moreover have "map (\<lambda>s. if P s then f s else s) rows = map (\<lambda>s. if key s = k then f s else s) rows"
      using same True assms(2) by auto
    ultimately show ?thesis using Some True by (simp add: update_where_def)
  next
    case False
    then have none: "\<forall>s \<in> set rows. \<not> P s" using same assms(2) by auto
    then have "map (\<lambda>s. if P s then f s else s) rows = rows" by (intro map_idI) simp
    with none Some False show ?thesis by (auto simp: update_where_def)
  qed
qed

lemma find_append: "List.find P (xs @ ys) = (case List.find P xs of None \<Rightarrow> List.find P ys | Some x \<Rightarrow> Some x)"
  by (induction xs) auto

lemma length_filter_le_filter: "(\<And>x. P x \<Longrightarrow> Q x) \<Longrightarrow> length (filter P xs) \<le> length (filter Q xs)"
  by (induction xs) auto

end
