(* ===== verification/Outbox_Relay.thy ===== *)
theory Outbox_Relay
  imports Persistence_Sqlite Sql_Rows
begin

text \<open>
  The outbox of published events, its relay, the inbox of consumers and the dead letters
  (\<open>infrastructure/persistence-sqlite/src/outbox_store.rs\<close>, \<open>inbox_store.rs\<close>, \<open>dead_letter_store.rs\<close>, the ports under
  \<open>applications/worker-application/src/ports\<close>, \<open>bins/worker/src/outbox_relay.rs\<close>).

  The table \<open>outbox\<close> is the list of its rows in the order of their ids. \<open>OutboxEnv\<close> collects the serde functions the store calls. Every
  operation takes the error of the database engine it meets, if any. The broker is represented by the answer it gives to each message and the
  list of the messages it has accepted; clock readings, lease tokens and the jitter of the backoff are arguments. The messages of a batch are
  processed by concurrent tasks, each of which touches the row of its own message only; here they are processed in the order of the batch. The
  backoff is computed in \<open>f64\<close> by the code and with rational numbers here. Error texts are given without the numbers the code prints
  into them.

  Properties: a row is marked published only after the broker has accepted its message, and nothing else of a message is lost or changed
  (\<open>relay_sound\<close>); a due message is delivered or rescheduled (\<open>relay_progress\<close>); an event is consumed once per consumer
  (\<open>inbox_once\<close>); and the relay never takes a dead-lettered message out of the outbox, so it is dead-lettered again and again
  (\<open>dead_letter_repeats\<close>).
\<close>

section \<open>Ports\<close>

datatype OutboxError = OutboxEmpty | LeaseExpired | OutboxDatabase string | OutboxSerialization string

datatype DeadLetterError = DeadLetterDatabase string | DeadLetterSerialization string

datatype InboxError = InboxDatabase string | AlreadyProcessed

datatype PublishError = Transient string | Permanent string | MessageTooLarge | BrokerUnavailable

fun is_transient :: "PublishError \<Rightarrow> bool" where
  "is_transient (Transient _) = True"
| "is_transient BrokerUnavailable = True"
| "is_transient _ = False"

fun is_permanent :: "PublishError \<Rightarrow> bool" where
  "is_permanent (Permanent _) = True"
| "is_permanent MessageTooLarge = True"
| "is_permanent _ = False"

fun publish_error_string :: "PublishError \<Rightarrow> string" where
  "publish_error_string (Transient e) = ''transient network error: '' @ e"
| "publish_error_string (Permanent e) = ''permanent error: '' @ e"
| "publish_error_string MessageTooLarge = ''message too large''"
| "publish_error_string BrokerUnavailable = ''broker unavailable''"

fun dead_letter_error_string :: "DeadLetterError \<Rightarrow> string" where
  "dead_letter_error_string (DeadLetterDatabase e) = ''database error: '' @ e"
| "dead_letter_error_string (DeadLetterSerialization e) = ''serialization error: '' @ e"

record ClaimedMessage =
  cm_outbox_id :: int
  cm_message :: OutboxMessage
  cm_lease_token :: string
  cm_retry_count :: u32
  cm_bus_delivered :: bool

section \<open>Tables\<close>

record OutboxRow =
  ob_id :: int
  ob_event_id :: EventId
  ob_event_type :: string
  ob_aggregate_id :: string
  ob_organization_id :: OrganizationId
  ob_payload :: string
  ob_vector_clock :: string
  ob_occurred_at :: i64
  ob_published :: bool
  ob_lease_token :: "string option"
  ob_lease_expires_at :: "int option"
  ob_retry_count :: int
  ob_last_error :: "string option"
  ob_next_attempt_at :: int
  ob_bus_delivered :: bool
  ob_cloud_acked_at :: "int option"

record DeadLetterRow =
  dl_outbox_id :: int
  dl_event_id :: EventId
  dl_payload :: string
  dl_last_error :: string
  dl_failed_at :: i64
  dl_organization_id :: OrganizationId

record OutboxDb =
  ob_rows :: "OutboxRow list"
  ob_seq :: int
  ob_dead_letters :: "DeadLetterRow list"

record 'v OutboxEnv =
  oe_json :: "'v JsonOps"
  oe_clock_to_text :: "VectorClock \<Rightarrow> string"
  oe_clock_of_value :: "'v \<Rightarrow> VectorClock option"
  oe_to_vec :: "'v \<Rightarrow> string option"
  oe_from_slice :: "string \<Rightarrow> 'v option"
  oe_unparseable :: 'v

text \<open>The insertion by the unit of work; the remaining columns take their defaults.\<close>

definition insert_outbox_row :: "'v OutboxEnv \<Rightarrow> OutboxMessage \<Rightarrow> OutboxDb \<Rightarrow> OutboxDb" where
  "insert_outbox_row E message db =
     (let payload_value = (case oe_from_slice E (om_payload message) of Some v \<Rightarrow> v | None \<Rightarrow> oe_unparseable E);
          row = \<lparr>ob_id = ob_seq db + 1, ob_event_id = om_event_id message, ob_event_type = om_event_type message, ob_aggregate_id = om_aggregate_id message,
            ob_organization_id = om_organization_id message, ob_payload = text_or_braces (oe_json E) payload_value,
            ob_vector_clock = oe_clock_to_text E (om_vector_clock message), ob_occurred_at = timestamp_to_millis (om_occurred_at message),
            ob_published = False, ob_lease_token = None, ob_lease_expires_at = None, ob_retry_count = 0, ob_last_error = None, ob_next_attempt_at = 0,
            ob_bus_delivered = False, ob_cloud_acked_at = None\<rparr>
      in db\<lparr>ob_rows := ob_rows db @ [row], ob_seq := ob_seq db + 1\<rparr>)"

section \<open>The outbox store\<close>

definition now_millis :: "Timestamp \<Rightarrow> int" where
  "now_millis now = sint (timestamp_to_millis now)"

definition outbox_due :: "int \<Rightarrow> OutboxRow \<Rightarrow> bool" where
  "outbox_due now r \<longleftrightarrow> \<not> ob_published r \<and> ob_next_attempt_at r \<le> now \<and> (case ob_lease_expires_at r of None \<Rightarrow> True | Some e \<Rightarrow> e \<le> now)"

text \<open>The row as a message; a clock that does not parse is an error, a payload that does not parse becomes empty.\<close>

definition row_message :: "'v OutboxEnv \<Rightarrow> OutboxRow \<Rightarrow> (OutboxMessage, OutboxError) result" where
  "row_message E r =
     (case text_to_value (oe_json E) (ob_vector_clock r) of
        None \<Rightarrow> Inl (OutboxSerialization ''vector_clock column was not valid JSON text'')
      | Some v \<Rightarrow>
          (case oe_clock_of_value E v of
             None \<Rightarrow> Inl (OutboxSerialization ''vector_clock JSON did not match VectorClock'')
           | Some clock \<Rightarrow>
               Inr \<lparr>om_event_id = ob_event_id r, om_event_type = ob_event_type r, om_aggregate_id = ob_aggregate_id r, om_organization_id = ob_organization_id r,
                    om_payload = (case text_to_value (oe_json E) (ob_payload r) of None \<Rightarrow> [] | Some p \<Rightarrow> (case oe_to_vec E p of None \<Rightarrow> [] | Some bytes \<Rightarrow> bytes)),
                    om_vector_clock = clock, om_occurred_at = saturating_mul (ob_occurred_at r) 1000000\<rparr>))"

fun decode_rows :: "'v OutboxEnv \<Rightarrow> string \<Rightarrow> OutboxRow list \<Rightarrow> (ClaimedMessage list, OutboxError) result" where
  "decode_rows E token [] = Inr []"
| "decode_rows E token (r # rs) =
     (case row_message E r of
        Inl e \<Rightarrow> Inl e
      | Inr m \<Rightarrow>
          (case decode_rows E token rs of
             Inl e \<Rightarrow> Inl e
           | Inr ms \<Rightarrow> Inr (\<lparr>cm_outbox_id = ob_id r, cm_message = m, cm_lease_token = token, cm_retry_count = word_of_int (ob_retry_count r),
                               cm_bus_delivered = ob_bus_delivered r\<rparr> # ms)))"

definition due_rows :: "int \<Rightarrow> nat \<Rightarrow> OutboxRow list \<Rightarrow> OutboxRow list" where
  "due_rows now limit rows = take limit (sort_key ob_next_attempt_at (filter (outbox_due now) rows))"

definition update_rows :: "(OutboxRow \<Rightarrow> bool) \<Rightarrow> (OutboxRow \<Rightarrow> OutboxRow) \<Rightarrow> OutboxDb \<Rightarrow> OutboxDb" where
  "update_rows P f db = db\<lparr>ob_rows := fst (update_where P f (ob_rows db))\<rparr>"

definition claim_unpublished ::
    "string option \<Rightarrow> 'v OutboxEnv \<Rightarrow> string \<Rightarrow> Timestamp \<Rightarrow> nat \<Rightarrow> OutboxDb \<Rightarrow> OutboxDb \<times> (ClaimedMessage list, OutboxError) result" where
  "claim_unpublished fault E lease_token now limit db =
     (case fault of Some e \<Rightarrow> (db, Inl (OutboxDatabase e)) | None \<Rightarrow>
       let rows = due_rows (now_millis now) limit (ob_rows db)
       in if rows = [] then (db, Inr [])
          else (fold (\<lambda>k. update_rows (\<lambda>r. ob_id r = k)
                   (\<lambda>r. r\<lparr>ob_lease_token := Some lease_token, ob_lease_expires_at := Some (now_millis now + 30000)\<rparr>)) (map ob_id rows) db,
                decode_rows E lease_token rows))"

definition mark_bus_delivered :: "string option \<Rightarrow> int \<Rightarrow> OutboxDb \<Rightarrow> OutboxDb \<times> (unit, OutboxError) result" where
  "mark_bus_delivered fault k db =
     (case fault of Some e \<Rightarrow> (db, Inl (OutboxDatabase e))
      | None \<Rightarrow> (update_rows (\<lambda>r. ob_id r = k) (ob_bus_delivered_update (\<lambda>_. True)) db, Inr ()))"

definition published_row :: "int \<Rightarrow> OutboxRow \<Rightarrow> OutboxRow" where
  "published_row now r = r\<lparr>ob_published := True, ob_cloud_acked_at := Some now, ob_lease_token := None, ob_lease_expires_at := None\<rparr>"

definition mark_published :: "string option \<Rightarrow> Timestamp \<Rightarrow> int \<Rightarrow> OutboxDb \<Rightarrow> OutboxDb \<times> (unit, OutboxError) result" where
  "mark_published fault now k db =
     (case fault of Some e \<Rightarrow> (db, Inl (OutboxDatabase e))
      | None \<Rightarrow> (update_rows (\<lambda>r. ob_id r = k) (published_row (now_millis now)) db, Inr ()))"

definition failed_row :: "string \<Rightarrow> int \<Rightarrow> OutboxRow \<Rightarrow> OutboxRow" where
  "failed_row err next r =
     r\<lparr>ob_retry_count := ob_retry_count r + 1, ob_last_error := Some err, ob_lease_token := None, ob_lease_expires_at := None, ob_next_attempt_at := next\<rparr>"

definition mark_failed :: "string option \<Rightarrow> Timestamp \<Rightarrow> int \<Rightarrow> string \<Rightarrow> Duration \<Rightarrow> OutboxDb \<Rightarrow> OutboxDb \<times> (unit, OutboxError) result" where
  "mark_failed fault now k err retry_after db =
     (case fault of Some e \<Rightarrow> (db, Inl (OutboxDatabase e))
      | None \<Rightarrow> (update_rows (\<lambda>r. ob_id r = k) (failed_row err (now_millis now + sint (retry_after div 1000000))) db, Inr ()))"

definition dead_letter_send ::
    "string option \<Rightarrow> 'v OutboxEnv \<Rightarrow> Timestamp \<Rightarrow> ClaimedMessage \<Rightarrow> string \<Rightarrow> OutboxDb \<Rightarrow> OutboxDb \<times> (unit, DeadLetterError) result" where
  "dead_letter_send fault E now claimed err db =
     (case oe_from_slice E (om_payload (cm_message claimed)) of
        None \<Rightarrow> (db, Inl (DeadLetterSerialization ''invalid JSON''))
      | Some payload \<Rightarrow>
          (case value_to_text (oe_json E) payload of
             None \<Rightarrow> (db, Inl (DeadLetterSerialization ''invalid JSON''))
           | Some payload_text \<Rightarrow>
               (case fault of
                  Some e \<Rightarrow> (db, Inl (DeadLetterDatabase e))
                | None \<Rightarrow>
                    (db\<lparr>ob_dead_letters := ob_dead_letters db @ [\<lparr>dl_outbox_id = cm_outbox_id claimed, dl_event_id = om_event_id (cm_message claimed),
                           dl_payload = payload_text, dl_last_error = err, dl_failed_at = timestamp_to_millis now,
                           dl_organization_id = om_organization_id (cm_message claimed)\<rparr>]\<rparr>, Inr ()))))"

definition outbox_dead_letter ::
    "string option \<Rightarrow> string option \<Rightarrow> string option \<Rightarrow> 'v OutboxEnv \<Rightarrow> Timestamp \<Rightarrow> int \<Rightarrow> string \<Rightarrow> OutboxDb \<Rightarrow> OutboxDb \<times> (unit, OutboxError) result" where
  "outbox_dead_letter fault1 fault2 fault3 E now k err db =
     (case fault1 of Some e \<Rightarrow> (db, Inl (OutboxDatabase e)) | None \<Rightarrow>
       (case List.find (\<lambda>r. ob_id r = k) (ob_rows db) of
          None \<Rightarrow> (db, Inl (OutboxDatabase ''outbox row not found for dead-lettering''))
        | Some r \<Rightarrow>
            (case row_message E r of
               Inl e \<Rightarrow> (db, Inl e)
             | Inr m \<Rightarrow>
                 (case dead_letter_send fault2 E now \<lparr>cm_outbox_id = k, cm_message = m, cm_lease_token = [],
                          cm_retry_count = word_of_int (ob_retry_count r), cm_bus_delivered = False\<rparr> err db of
                    (db', Inl e) \<Rightarrow> (db', Inl (OutboxDatabase (dead_letter_error_string e)))
                  | (db', Inr _) \<Rightarrow>
                      (case fault3 of
                         Some e \<Rightarrow> (db', Inl (OutboxDatabase e))
                       | None \<Rightarrow> (update_rows (\<lambda>r. ob_id r = k) (\<lambda>r. r\<lparr>ob_published := True, ob_last_error := Some err\<rparr>) db', Inr ()))))))"

definition pending_count :: "string option \<Rightarrow> OutboxDb \<Rightarrow> (nat, OutboxError) result" where
  "pending_count fault db =
     (case fault of Some e \<Rightarrow> Inl (OutboxDatabase e) | None \<Rightarrow> Inr (length [r \<leftarrow> ob_rows db. \<not> ob_published r]))"

section \<open>The inbox store\<close>

record InboxRow =
  ib_consumer_id :: string
  ib_event_id :: EventId
  ib_processed_at :: i64

definition is_processed :: "string option \<Rightarrow> string \<Rightarrow> EventId \<Rightarrow> InboxRow list \<Rightarrow> (bool, InboxError) result" where
  "is_processed fault consumer_id event_id rows =
     (case fault of Some e \<Rightarrow> Inl (InboxDatabase e)
      | None \<Rightarrow> Inr (0 < length [r \<leftarrow> rows. ib_consumer_id r = consumer_id \<and> ib_event_id r = event_id]))"

definition mark_processed ::
    "string option \<Rightarrow> string \<Rightarrow> EventId \<Rightarrow> Timestamp \<Rightarrow> InboxRow list \<Rightarrow> InboxRow list \<times> (unit, InboxError) result" where
  "mark_processed fault consumer_id event_id processed_at rows =
     (case fault of Some e \<Rightarrow> (rows, Inl (InboxDatabase e))
      | None \<Rightarrow>
          if \<exists>r \<in> set rows. ib_consumer_id r = consumer_id \<and> ib_event_id r = event_id then (rows, Inl AlreadyProcessed)
          else (rows @ [\<lparr>ib_consumer_id = consumer_id, ib_event_id = event_id, ib_processed_at = timestamp_to_millis processed_at\<rparr>], Inr ()))"

definition last_processed :: "string option \<Rightarrow> string \<Rightarrow> InboxRow list \<Rightarrow> (EventId option, InboxError) result" where
  "last_processed fault consumer_id rows =
     (case fault of Some e \<Rightarrow> Inl (InboxDatabase e)
      | None \<Rightarrow>
          (case sort_key (\<lambda>r. - sint (ib_processed_at r)) [r \<leftarrow> rows. ib_consumer_id r = consumer_id] of
             [] \<Rightarrow> Inr None
           | r # _ \<Rightarrow> Inr (Some (ib_event_id r))))"

section \<open>The relay\<close>

record RelayConfig =
  rc_batch_size :: nat
  rc_initial_backoff :: rat
  rc_max_backoff :: rat
  rc_max_retries :: u32

text \<open>Seconds to nanoseconds, as a \<open>u64\<close>.\<close>

definition calc_backoff :: "u32 \<Rightarrow> RelayConfig \<Rightarrow> rat \<Rightarrow> rat" where
  "calc_backoff retry_count config jitter = min (rc_initial_backoff config * 2 ^ unat retry_count) (rc_max_backoff config) * jitter"

definition std_to_pk_duration :: "rat \<Rightarrow> Duration" where
  "std_to_pk_duration secs = word_of_int \<lfloor>secs * 1000000000\<rfloor>"

record RelayState =
  rl_db :: OutboxDb
  rl_broker :: "OutboxMessage list"

record 'v RelayEnv =
  rl_env :: "'v OutboxEnv"
  rl_config :: RelayConfig
  rl_now :: Timestamp
  rl_token :: string
  rl_claim_fault :: "string option"
  rl_mark_fault :: "int \<Rightarrow> string option"
  rl_dead_letter_fault :: "int \<Rightarrow> string option"
  rl_publish :: "OutboxMessage \<Rightarrow> (unit, PublishError) result"
  rl_jitter :: "int \<Rightarrow> rat"

text \<open>\<open>process_message\<close>; the errors of \<open>mark_failed\<close> and \<open>mark_published\<close> are only logged.\<close>

definition relay_dead_letter :: "'v RelayEnv \<Rightarrow> ClaimedMessage \<Rightarrow> string \<Rightarrow> OutboxDb \<Rightarrow> OutboxDb" where
  "relay_dead_letter R claimed err db =
     (let k = cm_outbox_id claimed
      in case dead_letter_send (rl_dead_letter_fault R k) (rl_env R) (rl_now R) claimed err db of
           (db', Inr _) \<Rightarrow> db'
         | (db', Inl e) \<Rightarrow> fst (mark_failed (rl_mark_fault R k) (rl_now R) k (''dead-letter failed: '' @ dead_letter_error_string e) (Duration_from_secs 300) db'))"

definition process_message :: "'v RelayEnv \<Rightarrow> ClaimedMessage \<Rightarrow> RelayState \<Rightarrow> RelayState" where
  "process_message R claimed s =
     (let k = cm_outbox_id claimed; db = rl_db s
      in if cm_retry_count claimed \<ge> rc_max_retries (rl_config R)
         then s\<lparr>rl_db := relay_dead_letter R claimed ''permanently failed: retry_count >= max_retries (Ruling 3b)'' db\<rparr>
         else case rl_publish R (cm_message claimed) of
                Inr _ \<Rightarrow> s\<lparr>rl_db := fst (mark_published (rl_mark_fault R k) (rl_now R) k db), rl_broker := rl_broker s @ [cm_message claimed]\<rparr>
              | Inl e \<Rightarrow>
                  if is_transient e
                  then s\<lparr>rl_db := fst (mark_failed (rl_mark_fault R k) (rl_now R) k (publish_error_string e)
                           (std_to_pk_duration (calc_backoff (cm_retry_count claimed) (rl_config R) (rl_jitter R k))) db)\<rparr>
                  else if is_permanent e then s\<lparr>rl_db := relay_dead_letter R claimed (publish_error_string e) db\<rparr>
                  else s\<lparr>rl_db := fst (mark_failed (rl_mark_fault R k) (rl_now R) k (publish_error_string e) (Duration_from_secs 30) db)\<rparr>)"

text \<open>One turn of \<open>run_outbox_relay\<close>; an error of the claim is logged and the next turn tries again.\<close>

definition relay_tick :: "'v RelayEnv \<Rightarrow> RelayState \<Rightarrow> RelayState" where
  "relay_tick R s =
     (case claim_unpublished (rl_claim_fault R) (rl_env R) (rl_token R) (rl_now R) (rc_batch_size (rl_config R)) (rl_db s) of
        (db, Inl _) \<Rightarrow> s\<lparr>rl_db := db\<rparr>
      | (db, Inr claimed) \<Rightarrow> fold (process_message R) claimed (s\<lparr>rl_db := db\<rparr>))"

section \<open>Rows\<close>

definition row_at :: "OutboxDb \<Rightarrow> int \<Rightarrow> OutboxRow option" where
  "row_at db k = List.find (\<lambda>r. ob_id r = k) (ob_rows db)"

definition outbox_inv :: "OutboxDb \<Rightarrow> bool" where
  "outbox_inv db \<longleftrightarrow> distinct (map ob_id (ob_rows db)) \<and> (\<forall>r \<in> set (ob_rows db). ob_id r \<le> ob_seq db)"

text \<open>What a row says about its event: the row without the columns of the delivery.\<close>

definition row_content :: "OutboxRow \<Rightarrow> OutboxRow" where
  "row_content r = r\<lparr>ob_published := False, ob_lease_token := None, ob_lease_expires_at := None, ob_retry_count := 0, ob_last_error := None,
     ob_next_attempt_at := 0, ob_bus_delivered := False, ob_cloud_acked_at := None\<rparr>"

lemma row_message_content: "row_content r = row_content r' \<Longrightarrow> row_message E r = row_message E r'"
proof -
  assume "row_content r = row_content r'"
  moreover have "row_message E r = row_message E (row_content r)" for r by (simp add: row_message_def row_content_def split: option.split)
  ultimately show ?thesis by metis
qed

lemma row_at_iff: "outbox_inv db \<Longrightarrow> row_at db k = Some r \<longleftrightarrow> r \<in> set (ob_rows db) \<and> ob_id r = k"
  by (simp add: outbox_inv_def row_at_def find_key_iff)

lemma row_at_id: "row_at db k = Some r \<Longrightarrow> ob_id r = k"
  by (auto simp: row_at_def find_Some_iff)

lemma row_at_update:
  assumes "\<And>r. ob_id (f r) = ob_id r"
  shows "row_at (update_rows (\<lambda>r. ob_id r = k) f db) i = (if i = k then map_option f (row_at db k) else row_at db i)"
proof -
  have "row_at (update_rows (\<lambda>r. ob_id r = k) f db) i = map_option (\<lambda>r. if ob_id r = k then f r else r) (row_at db i)"
    unfolding update_rows_def update_where_def row_at_def by (simp add: find_map_if [of ob_id f, OF assms])
  then show ?thesis by (cases "row_at db i") (auto dest: row_at_id)
qed

lemma outbox_inv_update:
  assumes "outbox_inv db" "\<And>r. ob_id (f r) = ob_id r"
  shows "outbox_inv (update_rows P f db)"
proof -
  have "map ob_id (map (\<lambda>r. if P r then f r else r) (ob_rows db)) = map ob_id (ob_rows db)" by (simp add: assms(2))
  with assms show ?thesis by (auto simp: outbox_inv_def update_rows_def update_where_def simp del: map_map)
qed

lemma update_rows_other [simp]: "ob_dead_letters (update_rows P f db) = ob_dead_letters db" "ob_seq (update_rows P f db) = ob_seq db"
  by (simp_all add: update_rows_def)

lemma delivery_updates [simp]:
  "ob_id (published_row n r) = ob_id r" "ob_id (failed_row e n r) = ob_id r" "ob_published (published_row n r)" "ob_published (failed_row e n r) = ob_published r"
  "row_content (published_row n r) = row_content r" "row_content (failed_row e n r) = row_content r"
  "ob_retry_count (failed_row e n r) = ob_retry_count r + 1" "ob_next_attempt_at (failed_row e n r) = n" "ob_lease_expires_at (failed_row e n r) = None"
  by (simp_all add: published_row_def failed_row_def row_content_def)

section \<open>Claims\<close>

definition leased_row :: "string \<Rightarrow> int \<Rightarrow> OutboxRow \<Rightarrow> OutboxRow" where
  "leased_row token e r = r\<lparr>ob_lease_token := Some token, ob_lease_expires_at := Some e\<rparr>"

lemma leased_simps [simp]:
  "ob_id (leased_row t e r) = ob_id r" "ob_published (leased_row t e r) = ob_published r" "row_content (leased_row t e r) = row_content r"
  "ob_retry_count (leased_row t e r) = ob_retry_count r" "ob_next_attempt_at (leased_row t e r) = ob_next_attempt_at r" "ob_lease_expires_at (leased_row t e r) = Some e"
  "leased_row t e (leased_row t e r) = leased_row t e r"
  by (simp_all add: leased_row_def row_content_def)

definition lease_rows :: "string \<Rightarrow> int \<Rightarrow> int list \<Rightarrow> OutboxDb \<Rightarrow> OutboxDb" where
  "lease_rows token e ks db = fold (\<lambda>k. update_rows (\<lambda>r. ob_id r = k) (leased_row token e)) ks db"

lemma lease_rows_effect:
  assumes "outbox_inv db"
  shows "outbox_inv (lease_rows t e ks db) \<and> ob_dead_letters (lease_rows t e ks db) = ob_dead_letters db
    \<and> row_at (lease_rows t e ks db) i = (if i \<in> set ks then map_option (leased_row t e) (row_at db i) else row_at db i)"
  using assms
proof (induction ks arbitrary: db)
  case Nil
  then show ?case by (simp add: lease_rows_def)
next
  case (Cons k ks)
  let ?db = "update_rows (\<lambda>r. ob_id r = k) (leased_row t e) db"
  have "lease_rows t e (k # ks) db = lease_rows t e ks ?db" by (simp add: lease_rows_def)
  with Cons.IH [OF outbox_inv_update [OF Cons.prems, of "leased_row t e"]] show ?case
    by (auto simp: row_at_update option.map_comp comp_def)
qed

lemma claim_eq:
  "claim_unpublished None E token now limit db =
    (let rows = due_rows (now_millis now) limit (ob_rows db)
     in (lease_rows token (now_millis now + 30000) (map ob_id rows) db, decode_rows E token rows))"
  by (simp add: claim_unpublished_def lease_rows_def leased_row_def [abs_def] Let_def)

lemma decode_rows_Inr:
  "decode_rows E token rows = Inr ms \<Longrightarrow> list_all2 (\<lambda>m r. cm_outbox_id m = ob_id r \<and> row_message E r = Inr (cm_message m) \<and> cm_retry_count m = word_of_int (ob_retry_count r)) ms rows"
  by (induction rows arbitrary: ms) (auto split: sum.splits)

lemma decode_rows_ok: "\<forall>r \<in> set rows. \<not> isl (row_message E r) \<Longrightarrow> \<exists>ms. decode_rows E token rows = Inr ms"
  by (induction rows) (auto split: sum.splits)

lemma set_due_rows: "set (due_rows now limit rows) \<subseteq> {r \<in> set rows. outbox_due now r}"
  using set_take_subset by (fastforce simp: due_rows_def)

lemma distinct_due_rows: "distinct (map ob_id rows) \<Longrightarrow> distinct (map ob_id (due_rows now limit rows))"
proof -
  assume "distinct (map ob_id rows)"
  then have "distinct (map ob_id (filter (outbox_due now) rows))" by (rule distinct_map_filter)
  then have "distinct (map ob_id (sort_key ob_next_attempt_at (filter (outbox_due now) rows)))" by (simp add: distinct_map)
  then show ?thesis by (simp add: due_rows_def take_map [symmetric] distinct_take)
qed

lemma due_rows_all: "length (filter (outbox_due now) rows) \<le> limit \<Longrightarrow> set (due_rows now limit rows) = {r \<in> set rows. outbox_due now r}"
  by (simp add: due_rows_def)

section \<open>Processing one message\<close>

text \<open>
  The row of the message after it was processed and the dead letters that are added. Both depend on the message, the answers of the broker and
  the faults only.
\<close>

definition dead_letter_text :: "string option \<Rightarrow> 'v OutboxEnv \<Rightarrow> ClaimedMessage \<Rightarrow> (string, DeadLetterError) result" where
  "dead_letter_text fault E m =
     (case Option.bind (oe_from_slice E (om_payload (cm_message m))) (value_to_text (oe_json E)) of
        None \<Rightarrow> Inl (DeadLetterSerialization ''invalid JSON'')
      | Some payload_text \<Rightarrow> (case fault of Some e \<Rightarrow> Inl (DeadLetterDatabase e) | None \<Rightarrow> Inr payload_text))"

lemma dead_letter_send_eq:
  "dead_letter_send fault E now m err db =
    (case dead_letter_text fault E m of
       Inl e \<Rightarrow> (db, Inl e)
     | Inr payload_text \<Rightarrow>
         (db\<lparr>ob_dead_letters := ob_dead_letters db @ [\<lparr>dl_outbox_id = cm_outbox_id m, dl_event_id = om_event_id (cm_message m),
            dl_payload = payload_text, dl_last_error = err, dl_failed_at = timestamp_to_millis now, dl_organization_id = om_organization_id (cm_message m)\<rparr>]\<rparr>, Inr ()))"
  by (simp add: dead_letter_send_def dead_letter_text_def split: option.splits)

definition gives_up :: "'v RelayEnv \<Rightarrow> ClaimedMessage \<Rightarrow> bool" where
  "gives_up R m \<longleftrightarrow> cm_retry_count m \<ge> rc_max_retries (rl_config R) \<or> (case rl_publish R (cm_message m) of Inl e \<Rightarrow> is_permanent e | Inr _ \<Rightarrow> False)"

definition retry_row :: "'v RelayEnv \<Rightarrow> ClaimedMessage \<Rightarrow> string \<Rightarrow> Duration \<Rightarrow> OutboxRow \<Rightarrow> OutboxRow" where
  "retry_row R m err d r = (if rl_mark_fault R (cm_outbox_id m) = None then failed_row err (now_millis (rl_now R) + sint (d div 1000000)) r else r)"

definition after_row :: "'v RelayEnv \<Rightarrow> ClaimedMessage \<Rightarrow> OutboxRow \<Rightarrow> OutboxRow" where
  "after_row R m r =
     (if gives_up R m
      then (case dead_letter_text (rl_dead_letter_fault R (cm_outbox_id m)) (rl_env R) m of
              Inr _ \<Rightarrow> r
            | Inl e \<Rightarrow> retry_row R m (''dead-letter failed: '' @ dead_letter_error_string e) (Duration_from_secs 300) r)
      else (case rl_publish R (cm_message m) of
              Inr _ \<Rightarrow> if rl_mark_fault R (cm_outbox_id m) = None then published_row (now_millis (rl_now R)) r else r
            | Inl e \<Rightarrow> retry_row R m (publish_error_string e)
                (if is_transient e then std_to_pk_duration (calc_backoff (cm_retry_count m) (rl_config R) (rl_jitter R (cm_outbox_id m))) else Duration_from_secs 30) r))"

definition dead_letters_of :: "'v RelayEnv \<Rightarrow> ClaimedMessage \<Rightarrow> nat" where
  "dead_letters_of R m = (if gives_up R m \<and> \<not> isl (dead_letter_text (rl_dead_letter_fault R (cm_outbox_id m)) (rl_env R) m) then 1 else 0)"

definition dead_letter_count :: "OutboxDb \<Rightarrow> int \<Rightarrow> nat" where
  "dead_letter_count db k = length [d \<leftarrow> ob_dead_letters db. dl_outbox_id d = k]"

lemma mark_failed_row:
  "fst (mark_failed (rl_mark_fault R k) (rl_now R) k e d db) = (if rl_mark_fault R k = None
     then update_rows (\<lambda>r. ob_id r = k) (failed_row e (now_millis (rl_now R) + sint (d div 1000000))) db else db)"
  by (simp add: mark_failed_def split: option.split)

abbreviation row_after :: "OutboxDb \<Rightarrow> OutboxDb \<Rightarrow> int \<Rightarrow> (OutboxRow \<Rightarrow> OutboxRow) \<Rightarrow> nat \<Rightarrow> bool" where
  "row_after db db' k f n \<equiv> outbox_inv db' \<and> (\<forall>i. row_at db' i = (if i = k then map_option f (row_at db k) else row_at db i))
     \<and> (\<forall>i. dead_letter_count db' i = dead_letter_count db i + (if i = k then n else 0))"

lemma retry_row_after:
  assumes "outbox_inv db"
  shows "row_after db (fst (mark_failed (rl_mark_fault R (cm_outbox_id m)) (rl_now R) (cm_outbox_id m) e d db)) (cm_outbox_id m) (retry_row R m e d) 0"
proof -
  have "map_option (\<lambda>r. r) x = x" for x :: "OutboxRow option" by (cases x) simp_all
  then show ?thesis using assms outbox_inv_update [OF assms]
    by (auto simp: mark_failed_row retry_row_def [abs_def] row_at_update dead_letter_count_def)
qed

lemma relay_dead_letter_after:
  assumes inv: "outbox_inv db"
  shows "row_after db (relay_dead_letter R m e db) (cm_outbox_id m)
    (\<lambda>r. case dead_letter_text (rl_dead_letter_fault R (cm_outbox_id m)) (rl_env R) m of
            Inr _ \<Rightarrow> r
          | Inl e \<Rightarrow> retry_row R m (''dead-letter failed: '' @ dead_letter_error_string e) (Duration_from_secs 300) r)
    (if isl (dead_letter_text (rl_dead_letter_fault R (cm_outbox_id m)) (rl_env R) m) then 0 else 1)"
proof (cases "dead_letter_text (rl_dead_letter_fault R (cm_outbox_id m)) (rl_env R) m")
  case (Inl err)
  with retry_row_after [OF inv, of R m "''dead-letter failed: '' @ dead_letter_error_string err" "Duration_from_secs 300"]
  show ?thesis by (simp add: relay_dead_letter_def dead_letter_send_eq Let_def)
next
  case (Inr t)
  have "map_option (\<lambda>r. r) x = x" for x :: "OutboxRow option" by (cases x) simp_all
  with Inr inv show ?thesis
    by (simp add: relay_dead_letter_def dead_letter_send_eq Let_def outbox_inv_def row_at_def dead_letter_count_def)
qed

lemma process_message_effect:
  assumes inv: "outbox_inv (rl_db s)"
  shows "row_after (rl_db s) (rl_db (process_message R m s)) (cm_outbox_id m) (after_row R m) (dead_letters_of R m)
    \<and> rl_broker (process_message R m s) = rl_broker s @ (if cm_retry_count m < rc_max_retries (rl_config R) \<and> rl_publish R (cm_message m) = Inr () then [cm_message m] else [])"
proof (cases "cm_retry_count m \<ge> rc_max_retries (rl_config R)")
  case True
  then have "gives_up R m" "\<not> cm_retry_count m < rc_max_retries (rl_config R)" by (simp_all add: gives_up_def not_less)
  with True relay_dead_letter_after [OF inv, of R m] show ?thesis
    by (simp add: process_message_def Let_def after_row_def [abs_def] dead_letters_of_def)
next
  case False
  show ?thesis
  proof (cases "rl_publish R (cm_message m)")
    case (Inl e)
    show ?thesis
    proof (cases "is_permanent e")
      case True
      then have "gives_up R m" "\<not> is_transient e" using Inl by (simp_all add: gives_up_def) (cases e; simp)
      with True False Inl relay_dead_letter_after [OF inv, of R m] show ?thesis
        by (simp add: process_message_def Let_def after_row_def [abs_def] dead_letters_of_def)
    next
      case n: False
      then have "\<not> gives_up R m" using Inl False by (simp add: gives_up_def)
      with n False Inl retry_row_after [OF inv, of R m] show ?thesis
        by (simp add: process_message_def Let_def after_row_def [abs_def] dead_letters_of_def)
    qed
  next
    case (Inr u)
    have "map_option (\<lambda>r. r) x = x" for x :: "OutboxRow option" by (cases x) simp_all
    moreover have "\<not> gives_up R m" using Inr False by (simp add: gives_up_def)
    ultimately show ?thesis using Inr False inv outbox_inv_update [OF inv, of "published_row (now_millis (rl_now R))"]
      by (cases "rl_mark_fault R (cm_outbox_id m)")
        (simp_all add: process_message_def Let_def mark_published_def row_at_update after_row_def [abs_def] dead_letters_of_def dead_letter_count_def)
  qed
qed

lemma after_row_content:
  "row_content (after_row R m r) = row_content r" "ob_id (after_row R m r) = ob_id r"
  "ob_published (after_row R m r) \<Longrightarrow> \<not> ob_published r \<Longrightarrow> cm_retry_count m < rc_max_retries (rl_config R) \<and> rl_publish R (cm_message m) = Inr ()"
  by (auto simp: after_row_def retry_row_def gives_up_def not_le split: sum.splits if_splits)

section \<open>Processing a batch\<close>

abbreviation accepts :: "'v RelayEnv \<Rightarrow> ClaimedMessage \<Rightarrow> bool" where
  "accepts R m \<equiv> cm_retry_count m < rc_max_retries (rl_config R) \<and> rl_publish R (cm_message m) = Inr ()"

lemma fold_process:
  assumes "outbox_inv (rl_db s)" "distinct (map cm_outbox_id ms)"
  shows "outbox_inv (rl_db (fold (process_message R) ms s))
    \<and> rl_broker (fold (process_message R) ms s) = rl_broker s @ map cm_message (filter (accepts R) ms)
    \<and> (\<forall>i. i \<notin> cm_outbox_id ` set ms \<longrightarrow> row_at (rl_db (fold (process_message R) ms s)) i = row_at (rl_db s) i)
    \<and> (\<forall>m. m \<in> set ms \<longrightarrow> row_at (rl_db (fold (process_message R) ms s)) (cm_outbox_id m) = map_option (after_row R m) (row_at (rl_db s) (cm_outbox_id m))
         \<and> dead_letter_count (rl_db (fold (process_message R) ms s)) (cm_outbox_id m) = dead_letter_count (rl_db s) (cm_outbox_id m) + dead_letters_of R m)
    \<and> (\<forall>i. i \<notin> cm_outbox_id ` set ms \<longrightarrow> dead_letter_count (rl_db (fold (process_message R) ms s)) i = dead_letter_count (rl_db s) i)"
  using assms
proof (induction ms arbitrary: s)
  case Nil
  then show ?case by simp
next
  case (Cons m ms)
  note step = process_message_effect [OF Cons.prems(1), of R m]
  have notin: "cm_outbox_id m \<notin> cm_outbox_id ` set ms" and dist: "distinct (map cm_outbox_id ms)" using Cons.prems(2) by auto
  have other: "cm_outbox_id m' \<noteq> cm_outbox_id m" if "m' \<in> set ms" for m' using notin imageI [OF that, of cm_outbox_id] by auto
  note IH = Cons.IH [OF conjunct1 [OF conjunct1 [OF step]] dist]
  show ?case using IH step notin other by auto
qed

lemma tick_cases:
  assumes inv: "outbox_inv (rl_db s)"
  obtains (idle) "relay_tick R s = s"
    | (claimed) rows db where "rl_claim_fault R = None" "rows = due_rows (now_millis (rl_now R)) (rc_batch_size (rl_config R)) (ob_rows (rl_db s))"
        "db = lease_rows (rl_token R) (now_millis (rl_now R) + 30000) (map ob_id rows) (rl_db s)"
        "relay_tick R s = (case decode_rows (rl_env R) (rl_token R) rows of Inl _ \<Rightarrow> s\<lparr>rl_db := db\<rparr> | Inr ms \<Rightarrow> fold (process_message R) ms (s\<lparr>rl_db := db\<rparr>))"
proof (cases "rl_claim_fault R")
  case None
  then show thesis by (intro claimed) (simp_all add: relay_tick_def claim_eq Let_def split: sum.split)
next
  case (Some e)
  then show thesis by (intro idle) (simp add: relay_tick_def claim_unpublished_def)
qed

lemma list_all2_left: "list_all2 P xs ys \<Longrightarrow> x \<in> set xs \<Longrightarrow> \<exists>y \<in> set ys. P x y"
  by (induction rule: list_all2_induct) auto

abbreviation tick_now :: "'v RelayEnv \<Rightarrow> int" where
  "tick_now R \<equiv> now_millis (rl_now R)"

abbreviation tick_rows :: "'v RelayEnv \<Rightarrow> RelayState \<Rightarrow> OutboxRow list" where
  "tick_rows R s \<equiv> due_rows (tick_now R) (rc_batch_size (rl_config R)) (ob_rows (rl_db s))"

abbreviation tick_lease :: "'v RelayEnv \<Rightarrow> OutboxRow \<Rightarrow> OutboxRow" where
  "tick_lease R \<equiv> leased_row (rl_token R) (tick_now R + 30000)"

lemma tick_rows_due:
  assumes "outbox_inv (rl_db s)" "row_at (rl_db s) k = Some r" "k \<in> ob_id ` set (tick_rows R s)"
  shows "outbox_due (tick_now R) r"
proof -
  from assms(3) obtain r1 where r1: "r1 \<in> set (tick_rows R s)" "ob_id r1 = k" by auto
  then have "r1 \<in> set (ob_rows (rl_db s))" "outbox_due (tick_now R) r1" using set_due_rows by blast+
  with r1(2) row_at_iff [OF assms(1), of k r1] assms(2) show ?thesis by simp
qed

text \<open>A turn that has decoded its batch \<open>ms\<close>.\<close>

lemma tick_batch:
  assumes inv: "outbox_inv (rl_db s)" and f: "rl_claim_fault R = None" and dec: "decode_rows (rl_env R) (rl_token R) (tick_rows R s) = Inr ms"
  shows tick_inv: "outbox_inv (rl_db (relay_tick R s))"
    and tick_broker: "rl_broker (relay_tick R s) = rl_broker s @ map cm_message (filter (accepts R) ms)"
    and tick_ids: "cm_outbox_id ` set ms = ob_id ` set (tick_rows R s)"
    and tick_idle: "k \<notin> ob_id ` set (tick_rows R s) \<Longrightarrow> row_at (rl_db (relay_tick R s)) k = row_at (rl_db s) k"
    and tick_row: "m \<in> set ms \<Longrightarrow> \<exists>r. row_at (rl_db s) (cm_outbox_id m) = Some r \<and> outbox_due (tick_now R) r \<and> row_message (rl_env R) r = Inr (cm_message m)
        \<and> cm_retry_count m = word_of_int (ob_retry_count r) \<and> row_at (rl_db (relay_tick R s)) (cm_outbox_id m) = Some (after_row R m (tick_lease R r))"
    and tick_dead: "m \<in> set ms \<Longrightarrow> dead_letter_count (rl_db (relay_tick R s)) (cm_outbox_id m) = dead_letter_count (rl_db s) (cm_outbox_id m) + dead_letters_of R m"
proof -
  let ?rows = "tick_rows R s"
  let ?db = "lease_rows (rl_token R) (tick_now R + 30000) (map ob_id ?rows) (rl_db s)"
  note lease = lease_rows_effect [OF inv, of "rl_token R" "tick_now R + 30000" "map ob_id ?rows"]
  note d2 = decode_rows_Inr [OF dec]
  have tick: "relay_tick R s = fold (process_message R) ms (s\<lparr>rl_db := ?db\<rparr>)" using f dec by (simp add: relay_tick_def claim_eq Let_def)
  have ids: "map cm_outbox_id ms = map ob_id ?rows" using d2 by (induction rule: list_all2_induct) auto
  then show img: "cm_outbox_id ` set ms = ob_id ` set ?rows" by (metis list.set_map)
  have "distinct (map cm_outbox_id ms)" unfolding ids using inv by (intro distinct_due_rows) (simp add: outbox_inv_def)
  note fp = fold_process [of "s\<lparr>rl_db := ?db\<rparr>" ms R, OF _ this, folded tick, simplified]
  from fp lease show "outbox_inv (rl_db (relay_tick R s))" "rl_broker (relay_tick R s) = rl_broker s @ map cm_message (filter (accepts R) ms)" by auto
  show "row_at (rl_db (relay_tick R s)) k = row_at (rl_db s) k" if "k \<notin> ob_id ` set ?rows" using fp lease that img by auto
  show "\<exists>r. row_at (rl_db s) (cm_outbox_id m) = Some r \<and> outbox_due (tick_now R) r \<and> row_message (rl_env R) r = Inr (cm_message m)
        \<and> cm_retry_count m = word_of_int (ob_retry_count r) \<and> row_at (rl_db (relay_tick R s)) (cm_outbox_id m) = Some (after_row R m (tick_lease R r))"
    if m: "m \<in> set ms"
  proof -
    from list_all2_left [OF d2 m] obtain r where r: "r \<in> set ?rows" "cm_outbox_id m = ob_id r" "row_message (rl_env R) r = Inr (cm_message m)"
      "cm_retry_count m = word_of_int (ob_retry_count r)" by auto
    then have at: "row_at (rl_db s) (cm_outbox_id m) = Some r" "outbox_due (tick_now R) r" using set_due_rows row_at_iff [OF inv] by fastforce+
    have "row_at ?db (cm_outbox_id m) = Some (tick_lease R r)" using lease at r by auto
    with fp lease m at r show ?thesis by auto
  qed
  show "m \<in> set ms \<Longrightarrow> dead_letter_count (rl_db (relay_tick R s)) (cm_outbox_id m) = dead_letter_count (rl_db s) (cm_outbox_id m) + dead_letters_of R m"
    using fp lease by (auto simp: dead_letter_count_def)
qed

text \<open>
  C22. The relay loses nothing. In one turn the broker accepts only messages of rows that were due; a row becomes published only if the broker
  accepted the message of this very row in this turn; and no turn changes what a row says about its event, drops a row or touches a row that
  was not due, a published one in particular.
\<close>

theorem relay_sound:
  assumes inv: "outbox_inv (rl_db s)"
  shows "\<exists>sent. rl_broker (relay_tick R s) = rl_broker s @ sent \<and> outbox_inv (rl_db (relay_tick R s))
    \<and> (\<forall>m \<in> set sent. \<exists>k r. row_at (rl_db s) k = Some r \<and> outbox_due (now_millis (rl_now R)) r \<and> row_message (rl_env R) r = Inr m)
    \<and> (\<forall>k r. row_at (rl_db s) k = Some r \<longrightarrow> (\<exists>r'. row_at (rl_db (relay_tick R s)) k = Some r' \<and> row_content r' = row_content r
          \<and> (\<not> outbox_due (now_millis (rl_now R)) r \<longrightarrow> r' = r)
          \<and> (ob_published r' \<and> \<not> ob_published r \<longrightarrow> (\<exists>m \<in> set sent. row_message (rl_env R) r = Inr m))))"
  using inv
proof (cases rule: tick_cases [where R = R])
  case idle
  with inv show ?thesis by (intro exI [of _ "[]"]) auto
next
  case (claimed rows db)
  show ?thesis
  proof (cases "decode_rows (rl_env R) (rl_token R) rows")
    case (Inl e)
    then have "relay_tick R s = s\<lparr>rl_db := db\<rparr>" using claimed(4) by simp
    with lease_rows_effect [OF inv, of "rl_token R" "tick_now R + 30000" "map ob_id rows", folded claimed(3)] tick_rows_due [OF inv, of _ _ R] claimed(2)
    show ?thesis by (intro exI [of _ "[]"]) auto
  next
    case (Inr ms)
    note b = tick_batch [OF inv claimed(1) Inr [unfolded claimed(2)]]
    have row: "\<exists>r'. row_at (rl_db (relay_tick R s)) k = Some r' \<and> row_content r' = row_content r \<and> (\<not> outbox_due (tick_now R) r \<longrightarrow> r' = r)
        \<and> (ob_published r' \<and> \<not> ob_published r \<longrightarrow> (\<exists>m \<in> set (map cm_message (filter (accepts R) ms)). row_message (rl_env R) r = Inr m))"
      if k: "row_at (rl_db s) k = Some r" for k r
    proof (cases "k \<in> cm_outbox_id ` set ms")
      case True
      then obtain m where m: "m \<in> set ms" "k = cm_outbox_id m" by auto
      from b(5) [OF m(1)] k m(2) have "outbox_due (tick_now R) r" "row_message (rl_env R) r = Inr (cm_message m)"
        "row_at (rl_db (relay_tick R s)) k = Some (after_row R m (tick_lease R r))" by auto
      with m(1) after_row_content [of R m "tick_lease R r"] show ?thesis by auto
    next
      case False
      with b(3,4) k show ?thesis by auto
    qed
    have "\<exists>k r. row_at (rl_db s) k = Some r \<and> outbox_due (tick_now R) r \<and> row_message (rl_env R) r = Inr m"
      if "m \<in> set (map cm_message (filter (accepts R) ms))" for m using that b(5) by fastforce
    with b(1,2) row show ?thesis by blast
  qed
qed

text \<open>All due rows can be read and fit into the batch.\<close>

definition serves_all :: "'v RelayEnv \<Rightarrow> RelayState \<Rightarrow> bool" where
  "serves_all R s \<longleftrightarrow> rl_claim_fault R = None \<and> length (filter (outbox_due (tick_now R)) (ob_rows (rl_db s))) \<le> rc_batch_size (rl_config R)
     \<and> (\<forall>r \<in> set (ob_rows (rl_db s)). outbox_due (tick_now R) r \<longrightarrow> \<not> isl (row_message (rl_env R) r))"

lemma served:
  assumes inv: "outbox_inv (rl_db s)" and all: "serves_all R s" and k: "row_at (rl_db s) k = Some r" "outbox_due (tick_now R) r"
  obtains m ms where "m \<in> set ms" "decode_rows (rl_env R) (rl_token R) (tick_rows R s) = Inr ms" "cm_outbox_id m = k" "row_message (rl_env R) r = Inr (cm_message m)"
    "cm_retry_count m = word_of_int (ob_retry_count r)" "row_at (rl_db (relay_tick R s)) k = Some (after_row R m (tick_lease R r))"
    "dead_letter_count (rl_db (relay_tick R s)) k = dead_letter_count (rl_db s) k + dead_letters_of R m"
proof -
  have f: "rl_claim_fault R = None" and rows: "set (tick_rows R s) = {r \<in> set (ob_rows (rl_db s)). outbox_due (tick_now R) r}"
    using all due_rows_all unfolding serves_all_def by blast+
  with all obtain ms where dec: "decode_rows (rl_env R) (rl_token R) (tick_rows R s) = Inr ms"
    using decode_rows_ok [of "tick_rows R s" "rl_env R" "rl_token R"] unfolding serves_all_def by blast
  note b = tick_batch [OF inv f dec]
  have "k \<in> ob_id ` set (tick_rows R s)" using k rows row_at_iff [OF inv, of k r] by auto
  with b(3) obtain m where m: "m \<in> set ms" "cm_outbox_id m = k" by (metis imageE)
  from b(5) [OF m(1)] b(6) [OF m(1)] m k(1) dec that show thesis by auto
qed

text \<open>
  C23. Every due message moves on. When the turn serves all due rows and no statement fails, a due row with retries left is published and its
  message accepted by the broker if the broker takes it; after a transient error it stays unpublished, without a lease, with one more retry
  counted and the next attempt after the backoff.
\<close>

theorem relay_progress:
  assumes inv: "outbox_inv (rl_db s)" and all: "serves_all R s" and k: "row_at (rl_db s) k = Some r" "outbox_due (now_millis (rl_now R)) r"
    and msg: "row_message (rl_env R) r = Inr message" and faults: "rl_mark_fault R k = None" and left: "word_of_int (ob_retry_count r) < rc_max_retries (rl_config R)"
  shows "(rl_publish R message = Inr () \<longrightarrow> message \<in> set (rl_broker (relay_tick R s)) \<and> map_option ob_published (row_at (rl_db (relay_tick R s)) k) = Some True)
    \<and> (rl_publish R message = Inl e \<and> is_transient e \<longrightarrow> (\<exists>r'. row_at (rl_db (relay_tick R s)) k = Some r' \<and> \<not> ob_published r' \<and> ob_lease_expires_at r' = None
        \<and> ob_retry_count r' = ob_retry_count r + 1
        \<and> ob_next_attempt_at r' = now_millis (rl_now R) + sint (std_to_pk_duration (calc_backoff (word_of_int (ob_retry_count r)) (rl_config R) (rl_jitter R k)) div 1000000)))"
  using inv all k
proof (rule served)
  fix m ms
  assume m: "m \<in> set ms" "cm_outbox_id m = k" "row_message (rl_env R) r = Inr (cm_message m)" "cm_retry_count m = word_of_int (ob_retry_count r)"
    "row_at (rl_db (relay_tick R s)) k = Some (after_row R m (tick_lease R r))"
    and dec: "decode_rows (rl_env R) (rl_token R) (tick_rows R s) = Inr ms"
  have message: "cm_message m = message" using m(3) msg by simp
  have "rl_claim_fault R = None" using all by (simp add: serves_all_def)
  note broker = tick_broker [OF inv this dec]
  have unpub: "\<not> ob_published r" using k(2) by (simp add: outbox_due_def)
  have left': "\<not> cm_retry_count m \<ge> rc_max_retries (rl_config R)" using left m(4) by (simp add: not_le)
  show ?thesis
  proof (intro conjI impI)
    assume ok: "rl_publish R message = Inr ()"
    then have "m \<in> set (filter (accepts R) ms)" using m(1,4) left message by simp
    then show "message \<in> set (rl_broker (relay_tick R s))" unfolding broker using message by force
    have "\<not> gives_up R m" using ok left' message by (simp add: gives_up_def)
    then show "map_option ob_published (row_at (rl_db (relay_tick R s)) k) = Some True" using m(2,5) ok message faults by (simp add: after_row_def)
  next
    assume err: "rl_publish R message = Inl e \<and> is_transient e"
    then have "\<not> gives_up R m" using left' message by (cases e) (simp_all add: gives_up_def)
    then show "\<exists>r'. row_at (rl_db (relay_tick R s)) k = Some r' \<and> \<not> ob_published r' \<and> ob_lease_expires_at r' = None \<and> ob_retry_count r' = ob_retry_count r + 1
        \<and> ob_next_attempt_at r' = now_millis (rl_now R) + sint (std_to_pk_duration (calc_backoff (word_of_int (ob_retry_count r)) (rl_config R) (rl_jitter R k)) div 1000000)"
      using m(2,4,5) err message faults unpub by (simp add: after_row_def retry_row_def)
  qed
qed

fun relay_ticks :: "'v RelayEnv list \<Rightarrow> RelayState \<Rightarrow> RelayState" where
  "relay_ticks [] s = s"
| "relay_ticks (R # Rs) s = relay_ticks Rs (relay_tick R s)"

text \<open>Turns more than a lease apart that give the message of row \<open>k\<close> up and succeed in writing the dead letter.\<close>

fun giving_up :: "int \<Rightarrow> OutboxMessage \<Rightarrow> 'v RelayEnv list \<Rightarrow> RelayState \<Rightarrow> bool" where
  "giving_up k message [] s = True"
| "giving_up k message (R # Rs) s =
     (serves_all R s \<and> rl_dead_letter_fault R k = None \<and> Option.bind (oe_from_slice (rl_env R) (om_payload message)) (value_to_text (oe_json (rl_env R))) \<noteq> None
      \<and> (case row_at (rl_db s) k of None \<Rightarrow> False | Some r \<Rightarrow> outbox_due (tick_now R) r \<and> row_message (rl_env R) r = Inr message
            \<and> (word_of_int (ob_retry_count r) \<ge> rc_max_retries (rl_config R) \<or> (\<exists>e. rl_publish R message = Inl e \<and> is_permanent e)))
      \<and> giving_up k message Rs (relay_tick R s))"

text \<open>
  A message that was given up stays in the outbox: the relay writes a dead letter but leaves the row unpublished and its retry count as it is,
  so the row is due again when its lease runs out and every such turn, \<open>n\<close> of them here, adds one more dead letter for the same event.
\<close>

theorem dead_letter_repeats:
  assumes "outbox_inv (rl_db s)" "giving_up k message Rs s" "row_at (rl_db s) k = Some r" "\<not> ob_published r"
  shows "dead_letter_count (rl_db (relay_ticks Rs s)) k = dead_letter_count (rl_db s) k + length Rs
    \<and> (\<exists>r'. row_at (rl_db (relay_ticks Rs s)) k = Some r' \<and> \<not> ob_published r' \<and> ob_retry_count r' = ob_retry_count r)"
  using assms
proof (induction Rs arbitrary: s r)
  case Nil
  then show ?case by simp
next
  case (Cons R Rs)
  have now: "serves_all R s" "outbox_due (tick_now R) r" "row_message (rl_env R) r = Inr message" "rl_dead_letter_fault R k = None"
    "Option.bind (oe_from_slice (rl_env R) (om_payload message)) (value_to_text (oe_json (rl_env R))) \<noteq> None"
    "word_of_int (ob_retry_count r) \<ge> rc_max_retries (rl_config R) \<or> (\<exists>e. rl_publish R message = Inl e \<and> is_permanent e)"
    "giving_up k message Rs (relay_tick R s)" using Cons.prems(2,3) by simp_all
  from Cons.prems(1) now(1) Cons.prems(3) now(2) obtain m ms where m: "m \<in> set ms" "decode_rows (rl_env R) (rl_token R) (tick_rows R s) = Inr ms" "cm_outbox_id m = k"
    "row_message (rl_env R) r = Inr (cm_message m)" "cm_retry_count m = word_of_int (ob_retry_count r)" "row_at (rl_db (relay_tick R s)) k = Some (after_row R m (tick_lease R r))"
    "dead_letter_count (rl_db (relay_tick R s)) k = dead_letter_count (rl_db s) k + dead_letters_of R m" by (rule served)
  have "cm_message m = message" using m(4) now(3) by simp
  then have up: "gives_up R m" "\<not> isl (dead_letter_text (rl_dead_letter_fault R k) (rl_env R) m)"
    using now(4-6) m(5) by (auto simp: gives_up_def dead_letter_text_def)
  then have row: "after_row R m (tick_lease R r) = tick_lease R r" "dead_letters_of R m = 1"
    using m(3) by (auto simp: after_row_def dead_letters_of_def split: sum.splits)
  have "rl_claim_fault R = None" using now(1) by (simp add: serves_all_def)
  from tick_inv [OF Cons.prems(1) this m(2)] have "outbox_inv (rl_db (relay_tick R s))" .
  from Cons.IH [OF this now(7) m(6)] row Cons.prems(4) m(7) show ?case by simp
qed

text \<open>
  An event is consumed once: whatever was recorded before, \<open>mark_processed\<close> succeeds for a consumer and an event exactly if \<open>is_processed\<close>
  was false, makes it true and leaves every other answer alone; a second call is refused with \<open>AlreadyProcessed\<close> and changes nothing.
\<close>

theorem inbox_once:
  "(snd (mark_processed None c e t rows) = Inr () \<longleftrightarrow> is_processed None c e rows = Inr False)
   \<and> is_processed None c e (fst (mark_processed None c e t rows)) = Inr True
   \<and> ((c', e') \<noteq> (c, e) \<longrightarrow> is_processed None c' e' (fst (mark_processed None c e t rows)) = is_processed None c' e' rows)
   \<and> mark_processed None c e t' (fst (mark_processed None c e t rows)) = (fst (mark_processed None c e t rows), Inl AlreadyProcessed)"
proof -
  have seen: "is_processed None c e rows = Inr (\<exists>r \<in> set rows. ib_consumer_id r = c \<and> ib_event_id r = e)" for c e rows
    by (simp add: is_processed_def filter_empty_conv)
  show ?thesis
  proof (cases "\<exists>r \<in> set rows. ib_consumer_id r = c \<and> ib_event_id r = e")
    case True
    then have "mark_processed None c e t rows = (rows, Inl AlreadyProcessed)" for t by (simp add: mark_processed_def)
    with True show ?thesis by (simp add: seen)
  next
    case False
    let ?row = "\<lparr>ib_consumer_id = c, ib_event_id = e, ib_processed_at = timestamp_to_millis t\<rparr>"
    have first: "mark_processed None c e t rows = (rows @ [?row], Inr ())" using False by (simp add: mark_processed_def)
    have second: "mark_processed None c e t' (rows @ [?row]) = (rows @ [?row], Inl AlreadyProcessed)" by (simp add: mark_processed_def)
    show ?thesis unfolding first fst_conv snd_conv second seen using False by auto
  qed
qed

section \<open>A sample relay\<close>

text \<open>One message in the outbox; texts stand for JSON values and every clock reads as empty.\<close>

definition sample_outbox_env :: "string OutboxEnv" where
  "sample_outbox_env = \<lparr>oe_json = sample_json, oe_clock_to_text = (\<lambda>_. ''{}''), oe_clock_of_value = (\<lambda>_. Some vc_new), oe_to_vec = Some, oe_from_slice = Some,
     oe_unparseable = ''raw''\<rparr>"

definition sample_message :: OutboxMessage where
  "sample_message = \<lparr>om_event_id = 7, om_event_type = ''e'', om_aggregate_id = ''a'', om_organization_id = 1, om_payload = ''{}'', om_vector_clock = vc_new, om_occurred_at = 0\<rparr>"

definition sample_outbox_row :: "int \<Rightarrow> OutboxRow" where
  "sample_outbox_row retries = (hd (ob_rows (insert_outbox_row sample_outbox_env sample_message \<lparr>ob_rows = [], ob_seq = 0, ob_dead_letters = []\<rparr>)))\<lparr>ob_retry_count := retries\<rparr>"

definition sample_relay_state :: "int \<Rightarrow> RelayState" where
  "sample_relay_state retries = \<lparr>rl_db = \<lparr>ob_rows = [sample_outbox_row retries], ob_seq = 1, ob_dead_letters = []\<rparr>, rl_broker = []\<rparr>"

definition sample_relay :: "Timestamp \<Rightarrow> string RelayEnv" where
  "sample_relay now = \<lparr>rl_env = sample_outbox_env, rl_config = \<lparr>rc_batch_size = 100, rc_initial_backoff = 1, rc_max_backoff = 300, rc_max_retries = 10\<rparr>, rl_now = now,
     rl_token = ''t'', rl_claim_fault = None, rl_mark_fault = (\<lambda>_. None), rl_dead_letter_fault = (\<lambda>_. None), rl_publish = (\<lambda>_. Inr ()), rl_jitter = (\<lambda>_. 1)\<rparr>"

lemmas sample_relay_defs = sample_relay_def sample_relay_state_def sample_outbox_row_def sample_message_def sample_outbox_env_def insert_outbox_row_def sample_json_def

lemma sample_outbox_facts:
  "outbox_inv (rl_db (sample_relay_state n))" "row_at (rl_db (sample_relay_state n)) 1 = Some (sample_outbox_row n)" "outbox_due 0 (sample_outbox_row n)"
  "row_message sample_outbox_env (sample_outbox_row n) = Inr sample_message"
  "ob_retry_count (sample_outbox_row n) = n" "\<not> ob_published (sample_outbox_row n)" "ob_id (sample_outbox_row n) = 1"
  by (simp_all add: sample_relay_defs outbox_inv_def row_at_def outbox_due_def row_message_def now_millis_def timestamp_to_millis_def saturating_mul_def)

lemma sample_millis: "now_millis 0 = 0" "now_millis 30000000000 = 30000"
  by (simp_all add: now_millis_def timestamp_to_millis_def)

lemma sample_serves: "serves_all (sample_relay 0) (sample_relay_state n)"
  using sample_outbox_facts sample_millis by (simp add: serves_all_def sample_relay_def sample_relay_state_def)

theorem relay_sound_witness:
  "\<exists>r'. row_at (rl_db (relay_tick (sample_relay 0) (sample_relay_state 0))) 1 = Some r' \<and> row_content r' = row_content (sample_outbox_row 0)
     \<and> outbox_inv (rl_db (relay_tick (sample_relay 0) (sample_relay_state 0)))"
  using relay_sound [OF sample_outbox_facts(1) [of 0], of "sample_relay 0"] sample_outbox_facts(2) [of 0] by blast

theorem relay_progress_witness:
  "sample_message \<in> set (rl_broker (relay_tick (sample_relay 0) (sample_relay_state 0)))
   \<and> map_option ob_published (row_at (rl_db (relay_tick (sample_relay 0) (sample_relay_state 0))) 1) = Some True"
proof -
  have h: "outbox_due (now_millis (rl_now (sample_relay 0))) (sample_outbox_row 0)" "row_message (rl_env (sample_relay 0)) (sample_outbox_row 0) = Inr sample_message"
    "rl_mark_fault (sample_relay 0) 1 = None" "word_of_int (ob_retry_count (sample_outbox_row 0)) < rc_max_retries (rl_config (sample_relay 0))"
    "rl_publish (sample_relay 0) sample_message = Inr ()"
    using sample_outbox_facts sample_millis by (simp_all add: sample_relay_def)
  from relay_progress [OF sample_outbox_facts(1) sample_serves sample_outbox_facts(2) h(1-4)] h(5) show ?thesis by blast
qed

theorem dead_letter_repeats_witness:
  "dead_letter_count (rl_db (relay_ticks [sample_relay 0, sample_relay 30000000000] (sample_relay_state 10))) 1 = 2"
proof -
  let ?s = "sample_relay_state 10" and ?R = "sample_relay 0" and ?R' = "sample_relay 30000000000"
  note h = sample_outbox_facts [where n = 10] sample_millis
  from h(1) sample_serves h(2) have "outbox_inv (rl_db (relay_tick ?R ?s)) \<and> row_at (rl_db (relay_tick ?R ?s)) 1 = Some (tick_lease ?R (sample_outbox_row 10))
      \<and> ob_rows (rl_db (relay_tick ?R ?s)) = [tick_lease ?R (sample_outbox_row 10)]"
    using h by (auto simp: relay_tick_def claim_eq due_rows_def lease_rows_def update_rows_def update_where_def process_message_def relay_dead_letter_def dead_letter_send_eq
        dead_letter_text_def row_at_def outbox_inv_def sample_relay_def sample_relay_state_def Let_def) (simp_all add: sample_outbox_env_def sample_message_def sample_json_def)
  note tick = this
  have msg: "row_message sample_outbox_env (tick_lease ?R (sample_outbox_row 10)) = Inr sample_message"
    using h(4) row_message_content [of "tick_lease ?R (sample_outbox_row 10)" "sample_outbox_row 10" sample_outbox_env] by simp
  have due: "outbox_due 30000 (tick_lease ?R (sample_outbox_row 10))" using h by (simp add: outbox_due_def sample_relay_def)
  have "giving_up 1 sample_message [?R, ?R'] ?s"
    using h tick msg due sample_serves [of 10] by (auto simp: serves_all_def sample_relay_def) (auto simp: sample_outbox_env_def sample_json_def)
  from dead_letter_repeats [OF h(1) this h(2) h(6)] show ?thesis by (simp add: dead_letter_count_def sample_relay_state_def)
qed

end
