(* ===== verification/Worker_Jobs.thy ===== *)
theory Worker_Jobs
  imports Job_Queue Route_Aggregates
begin

text \<open>
  The jobs of the worker and the scans that schedule them (\<open>bins/worker/src/job_runner.rs\<close>, \<open>staff_loan_scheduler.rs\<close>,
  \<open>scheduler_loop.rs\<close>, \<open>snapshot_loop.rs\<close>): triggers of timelines, snapshots of aggregates, the warning before the end of a staff
  loan and its expiry.

  The jobs write the tables directly, in one transaction each, without the aggregates' own \<open>decide\<close> and \<open>apply\<close>. They run on PostgreSQL; the
  tables are those of \<open>Persistence_Sqlite\<close>, whose guarded upsert is the same statement in both adapters. A \<open>jsonb\<close> column is the text of its
  value. \<open>JobEnv\<close> collects the JSON functions (\<open>jsonb_set\<close>, construction of values), uuid conversion, the clock, the random ids of a
  job, numbered, and the error of the database engine, if the transaction meets one. The order of the rows of a scan, which the query leaves
  open, is the order of their ids.

  Properties: a job of a loan has its effect once (\<open>loan_jobs_once\<close>); a loan that was warned of its end accepts no command any more
  (\<open>warned_loan_stuck\<close>), because the warning raises the version column but not the version inside the state; and the expiry by the worker leaves
  both epochs where they were, which the expiry by command does not (\<open>expiry_job_keeps_epochs\<close>).
\<close>

section \<open>Environment and tables\<close>

record 'v JobEnv =
  je_json :: "'v JsonOps"
  je_uuid_parse :: "string \<Rightarrow> ObjectId option"
  je_uuid_string :: "ObjectId \<Rightarrow> string"
  je_set :: "'v \<Rightarrow> string \<Rightarrow> 'v \<Rightarrow> 'v"
  je_object :: "(string \<times> 'v) list \<Rightarrow> 'v"
  je_string :: "string \<Rightarrow> 'v"
  je_number :: "int \<Rightarrow> 'v"
  je_iso :: "Timestamp \<Rightarrow> string"
  je_instant :: "string \<Rightarrow> Timestamp option"
  je_now :: Timestamp
  je_fresh :: "nat \<Rightarrow> ObjectId"
  je_fault :: "string option"

record SnapshotRow =
  sn_aggregate_id :: ObjectId
  sn_organization_id :: OrganizationId
  sn_aggregate_type :: string
  sn_aggregate_version :: i64
  sn_event_count :: nat
  sn_state :: string
  sn_created_at :: i64

record WorkerDb =
  wk_db :: Db
  wk_snapshots :: "SnapshotRow list"

text \<open>A transaction is rolled back on its first error.\<close>

definition in_transaction :: "'v JobEnv \<Rightarrow> (Db \<Rightarrow> (Db, string) result) \<Rightarrow> Db \<Rightarrow> Db \<times> (unit, string) result" where
  "in_transaction E body db =
     (case je_fault E of
        Some e \<Rightarrow> (db, Inl e)
      | None \<Rightarrow> (case body db of Inl e \<Rightarrow> (db, Inl e) | Inr db' \<Rightarrow> (db', Inr ())))"

definition required_string :: "'v JobEnv \<Rightarrow> 'v \<Rightarrow> string \<Rightarrow> (string, string) result" where
  "required_string E payload key =
     (case Option.bind (json_get (je_json E) payload key) (json_as_str (je_json E)) of
        Some s \<Rightarrow> Inr s
      | None \<Rightarrow> Inl (''job payload missing string field '' @ key))"

text \<open>\<open>$1::uuid\<close>\<close>

definition cast_uuid :: "'v JobEnv \<Rightarrow> string \<Rightarrow> (ObjectId, string) result" where
  "cast_uuid E s = (case je_uuid_parse E s of Some i \<Rightarrow> Inr i | None \<Rightarrow> Inl ''invalid input syntax for type uuid'')"

definition bind_result :: "('a, 'e) result \<Rightarrow> ('a \<Rightarrow> ('b, 'e) result) \<Rightarrow> ('b, 'e) result" where
  "bind_result r f = (case r of Inl e \<Rightarrow> Inl e | Inr a \<Rightarrow> f a)"

text \<open>\<open>WHERE id = $1 AND organization_id = $2 AND aggregate_type = ..\<close>\<close>

definition find_row :: "string \<Rightarrow> OrganizationId \<Rightarrow> ObjectId \<Rightarrow> Db \<Rightarrow> AggregateRow option" where
  "find_row type org k db =
     (case fmlookup (aggregates db) k of
        None \<Rightarrow> None
      | Some row \<Rightarrow> if row_organization_id row = org \<and> row_aggregate_type row = type then Some row else None)"

definition state_of :: "'v JobEnv \<Rightarrow> AggregateRow \<Rightarrow> 'v" where
  "state_of E row = (case text_to_value (je_json E) (row_state row) of Some v \<Rightarrow> v | None \<Rightarrow> json_null (je_json E))"

definition text_of :: "'v JobEnv \<Rightarrow> 'v \<Rightarrow> string" where
  "text_of E v = text_or_braces (je_json E) v"

text \<open>\<open>UPDATE aggregates SET state = jsonb_set(state, '{key}', value, true), version = version + 1, updated_at = NOW()\<close>\<close>

definition touch_row :: "'v JobEnv \<Rightarrow> string \<Rightarrow> 'v \<Rightarrow> AggregateRow \<Rightarrow> AggregateRow" where
  "touch_row E key v row =
     row\<lparr>row_state := text_of E (je_set E (state_of E row) key v), row_version := row_version row + 1, row_updated_at := timestamp_to_millis (je_now E)\<rparr>"

definition worker_event ::
    "'v JobEnv \<Rightarrow> nat \<Rightarrow> ObjectId \<Rightarrow> string \<Rightarrow> OrganizationId \<Rightarrow> i64 \<Rightarrow> string \<Rightarrow> 'v \<Rightarrow> Db \<Rightarrow> (Db, string) result" where
  "worker_event E n k id_text org version event_type payload db =
     (let event_id = je_fresh E n
      in if event_id \<in> er_event_id ` set (domain_events db) then Inl ''duplicate key value violates unique constraint''
         else Inr (db\<lparr>domain_events := domain_events db @ [\<lparr>er_event_id = event_id, er_aggregate_id = k, er_aggregate_version = version, er_event_type = event_type,
                  er_payload = text_of E payload, er_occurred_at = timestamp_to_millis (je_now E), er_vector_clock = ''{}'', er_operation_id = je_fresh E (n + 1),
                  er_correlation_id = je_fresh E (n + 2), er_causation_id = None,
                  er_actor = text_of E (je_object E [(''service'', je_string E ''worker''), (''actor'', je_string E ''scheduler'')]), er_organization_id = org\<rparr>],
              outbox := outbox db @ [\<lparr>om_event_id = event_id, om_event_type = event_type, om_aggregate_id = id_text, om_organization_id = org,
                  om_payload = text_of E payload, om_vector_clock = vc_new, om_occurred_at = je_now E\<rparr>]\<rparr>))"

section \<open>Timelines and snapshots\<close>

definition timeline_event_type :: "string \<Rightarrow> (string, string) result" where
  "timeline_event_type kind =
     (if kind = ''critical_marker'' then Inr ''timeline.CriticalMarkerReached''
      else if kind = ''deadline'' then Inr ''timeline.DeadlineReached''
      else if kind = ''penalty_zone'' then Inr ''timeline.PenaltyZoneActivated''
      else Inl (''unsupported timeline trigger kind: '' @ kind))"

definition execute_timeline_trigger :: "'v JobEnv \<Rightarrow> 'v ClaimedJob \<Rightarrow> Db \<Rightarrow> Db \<times> (unit, string) result" where
  "execute_timeline_trigger E job db =
     (case bind_result (required_string E (cj_payload job) ''timeline_id'') (\<lambda>timeline_id.
           bind_result (required_string E (cj_payload job) ''trigger_kind'') (\<lambda>kind.
           bind_result (timeline_event_type kind) (\<lambda>event_type. Inr (timeline_id, kind, event_type)))) of
        Inl e \<Rightarrow> (db, Inl e)
      | Inr (timeline_id, kind, event_type) \<Rightarrow>
          in_transaction E (\<lambda>db.
            bind_result (cast_uuid E timeline_id) (\<lambda>k.
              case find_row ''timeline'' (cj_organization_id job) k db of
                None \<Rightarrow> Inl ''no rows returned by a query that expected to return at least one row''
              | Some row \<Rightarrow>
                  let row' = touch_row E ''status'' (je_string E ''triggered'') row;
                      payload = je_object E [(''timeline_id'', je_string E timeline_id), (''trigger_kind'', je_string E kind),
                        (''triggered_at_ms'', je_number E (sint (timestamp_to_millis (je_now E)))), (''job_id'', je_number E (cj_id job))]
                  in worker_event E 0 k timeline_id (cj_organization_id job) (row_version row') event_type payload
                       (db\<lparr>aggregates := fmupd k row' (aggregates db)\<rparr>))) db)"

definition event_count :: "Db \<Rightarrow> ObjectId \<Rightarrow> nat" where
  "event_count db k = length [e \<leftarrow> domain_events db. er_aggregate_id e = k]"

definition snapshot_aggregate :: "'v JobEnv \<Rightarrow> ObjectId \<Rightarrow> WorkerDb \<Rightarrow> WorkerDb" where
  "snapshot_aggregate E k w =
     (case fmlookup (aggregates (wk_db w)) k of
        None \<Rightarrow> w
      | Some row \<Rightarrow>
          if \<exists>s \<in> set (wk_snapshots w). sn_aggregate_id s = k \<and> sn_aggregate_version s = row_version row then w
          else w\<lparr>wk_snapshots := wk_snapshots w @ [\<lparr>sn_aggregate_id = k, sn_organization_id = row_organization_id row,
                   sn_aggregate_type = row_aggregate_type row, sn_aggregate_version = row_version row, sn_event_count = event_count (wk_db w) k,
                   sn_state = row_state row, sn_created_at = timestamp_to_millis (je_now E)\<rparr>]\<rparr>)"

definition execute_snapshot_job :: "'v JobEnv \<Rightarrow> 'v ClaimedJob \<Rightarrow> WorkerDb \<Rightarrow> WorkerDb \<times> (unit, string) result" where
  "execute_snapshot_job E job w =
     (case bind_result (required_string E (cj_payload job) ''aggregate_id'') (cast_uuid E) of
        Inl e \<Rightarrow> (w, Inl e)
      | Inr k \<Rightarrow> (case je_fault E of Some e \<Rightarrow> (w, Inl e) | None \<Rightarrow> (snapshot_aggregate E k w, Inr ())))"

definition SNAPSHOT_EVENT_THRESHOLD :: nat where
  "SNAPSHOT_EVENT_THRESHOLD = 1000"

definition snapshotted_count :: "WorkerDb \<Rightarrow> ObjectId \<Rightarrow> nat" where
  "snapshotted_count w k = Max (insert 0 (sn_event_count ` set [s \<leftarrow> wk_snapshots w. sn_aggregate_id s = k]))"

text \<open>The \<open>JOIN\<close> leaves aggregates without events out.\<close>

definition snapshot_tick :: "'v JobEnv \<Rightarrow> WorkerDb \<Rightarrow> WorkerDb \<times> nat" where
  "snapshot_tick E w =
     (let due = [k \<leftarrow> map fst (sorted_list_of_fmap (aggregates (wk_db w))).
                  0 < event_count (wk_db w) k \<and> int (event_count (wk_db w) k) - int (snapshotted_count w k) > int SNAPSHOT_EVENT_THRESHOLD]
      in (fold (snapshot_aggregate E) due w, length due))"

section \<open>Jobs of a staff loan\<close>

definition object_id_json_to_uuid_string :: "'v JobEnv \<Rightarrow> 'v \<Rightarrow> string option" where
  "object_id_json_to_uuid_string E v =
     (case json_as_array (je_json E) v of
        None \<Rightarrow> None
      | Some array \<Rightarrow>
          if length array \<noteq> 16 then None
          else map_option (\<lambda>bs. je_uuid_string E (word_of_nat (bytes_be bs)))
                 (those (map (\<lambda>entry. case json_as_u64 (je_json E) entry of None \<Rightarrow> None | Some n \<Rightarrow> if n \<le> 255 then Some (ucast n) else None) array)))"

definition staff_loan_recipients :: "'v JobEnv \<Rightarrow> 'v \<Rightarrow> (string \<times> string) list" where
  "staff_loan_recipients E payload =
     List.map_filter (\<lambda>(key, role). map_option (\<lambda>i. (i, role)) (Option.bind (json_get (je_json E) payload key) (object_id_json_to_uuid_string E)))
       [(''staff_user_id'', ''the staff member on loan''), (''real_owner_id'', ''the real owner''), (''borrowing_manager_id'', ''the borrowing manager'')]"

definition insert_notification ::
    "'v JobEnv \<Rightarrow> ObjectId \<Rightarrow> OrganizationId \<Rightarrow> string \<Rightarrow> string \<Rightarrow> string \<Rightarrow> string \<Rightarrow> string \<Rightarrow> string \<Rightarrow> Db \<Rightarrow> (Db, string) result" where
  "insert_notification E k org recipient_id title message priority source_id source_type db =
     (let state = je_object E [(''public_id'', je_string E (je_uuid_string E k)), (''title'', je_string E title), (''message'', je_string E message),
            (''priority'', je_string E priority), (''status'', je_string E ''unacknowledged''), (''recipient_id'', je_string E recipient_id),
            (''source_id'', je_string E source_id), (''source_type'', je_string E source_type), (''created_at'', je_string E (je_iso E (je_now E))),
            (''acknowledged_at'', json_null (je_json E)), (''version'', je_number E 1), (''lifecycle_epoch'', je_number E 0), (''authority_epoch'', je_number E 0)]
      in if k |\<in>| fmdom (aggregates db) then Inl ''duplicate key value violates unique constraint''
         else Inr (db\<lparr>aggregates := fmupd k \<lparr>row_aggregate_type = ''notification'', row_version = 1, row_lifecycle_epoch = 0, row_authority_epoch = 0,
                row_state = text_of E state, row_updated_at = timestamp_to_millis (je_now E), row_organization_id = org\<rparr> (aggregates db)\<rparr>))"

fun notify_all ::
    "'v JobEnv \<Rightarrow> nat \<Rightarrow> OrganizationId \<Rightarrow> string \<Rightarrow> (string \<Rightarrow> string) \<Rightarrow> string \<Rightarrow> (string \<times> string) list \<Rightarrow> Db \<Rightarrow> (Db, string) result" where
  "notify_all E n org title message lid [] db = Inr db"
| "notify_all E n org title message lid ((recipient_id, role) # others) db =
     bind_result (insert_notification E (je_fresh E n) org recipient_id title (message role) ''high'' lid ''staff_loan'' db)
       (notify_all E (Suc n) org title message lid others)"

definition warning_message :: "string \<Rightarrow> string" where
  "warning_message role = ''A staff loan (as '' @ role @ '') is scheduled to end within the next few days. You may extend or let it end when it does.''"

definition expiry_message :: "string \<Rightarrow> string" where
  "expiry_message role = ''A staff loan (as '' @ role @ '') has reached its scheduled end date and is now closed.''"

definition warning_sent :: "'v JobEnv \<Rightarrow> AggregateRow \<Rightarrow> bool" where
  "warning_sent E row =
     (case json_get (je_json E) (state_of E row) ''advance_warning_sent_at'' of None \<Rightarrow> False | Some v \<Rightarrow> \<not> json_is_null (je_json E) v)"

definition execute_staff_loan_advance_warning :: "'v JobEnv \<Rightarrow> 'v ClaimedJob \<Rightarrow> Db \<Rightarrow> Db \<times> (unit, string) result" where
  "execute_staff_loan_advance_warning E job db =
     (case required_string E (cj_payload job) ''staff_loan_id'' of
        Inl e \<Rightarrow> (db, Inl e)
      | Inr lid \<Rightarrow>
          in_transaction E (\<lambda>db.
            bind_result (cast_uuid E lid) (\<lambda>k.
              if (case find_row ''staff_loan'' (cj_organization_id job) k db of None \<Rightarrow> False | Some row \<Rightarrow> warning_sent E row) then Inr db
              else bind_result (notify_all E 0 (cj_organization_id job) ''Staff loan ending soon'' warning_message lid (staff_loan_recipients E (cj_payload job)) db)
                (\<lambda>db. case find_row ''staff_loan'' (cj_organization_id job) k db of
                        None \<Rightarrow> Inr db
                      | Some row \<Rightarrow> Inr (db\<lparr>aggregates := fmupd k (touch_row E ''advance_warning_sent_at'' (je_number E (sint (je_now E))) row) (aggregates db)\<rparr>)))) db)"

definition loan_running :: "'v JobEnv \<Rightarrow> AggregateRow \<Rightarrow> bool" where
  "loan_running E row =
     (case Option.bind (json_get (je_json E) (state_of E row) ''status'') (json_as_str (je_json E)) of None \<Rightarrow> False | Some s \<Rightarrow> s \<in> {''Active'', ''Extended''})"

definition execute_staff_loan_expiry :: "'v JobEnv \<Rightarrow> 'v ClaimedJob \<Rightarrow> Db \<Rightarrow> Db \<times> (unit, string) result" where
  "execute_staff_loan_expiry E job db =
     (case required_string E (cj_payload job) ''staff_loan_id'' of
        Inl e \<Rightarrow> (db, Inl e)
      | Inr lid \<Rightarrow>
          in_transaction E (\<lambda>db.
            bind_result (cast_uuid E lid) (\<lambda>k.
              if (case find_row ''staff_loan'' (cj_organization_id job) k db of None \<Rightarrow> True | Some row \<Rightarrow> \<not> loan_running E row) then Inr db
              else bind_result (notify_all E 3 (cj_organization_id job) ''Staff loan ended'' expiry_message lid (staff_loan_recipients E (cj_payload job)) db)
                (\<lambda>db. case find_row ''staff_loan'' (cj_organization_id job) k db of
                        None \<Rightarrow> Inl ''no rows returned by a query that expected to return at least one row''
                      | Some row \<Rightarrow>
                          let row' = touch_row E ''status'' (je_string E ''Expired'') row
                          in worker_event E 0 k lid (cj_organization_id job) (row_version row') ''staff_loan.StaffLoanExpired''
                               (je_object E [(''StaffLoanExpired'', je_object E [(''expired_at'', je_number E (sint (je_now E)))])])
                               (db\<lparr>aggregates := fmupd k row' (aggregates db)\<rparr>)))) db)"

definition on_db :: "(Db \<Rightarrow> Db \<times> 'r) \<Rightarrow> WorkerDb \<Rightarrow> WorkerDb \<times> 'r" where
  "on_db f w = (case f (wk_db w) of (db, r) \<Rightarrow> (w\<lparr>wk_db := db\<rparr>, r))"

definition execute_job :: "'v JobEnv \<Rightarrow> 'v ClaimedJob \<Rightarrow> WorkerDb \<Rightarrow> WorkerDb \<times> (unit, string) result" where
  "execute_job E job w =
     (if cj_job_type job = ''TimelineTrigger'' then on_db (execute_timeline_trigger E job) w
      else if cj_job_type job = ''SnapshotAggregate'' then execute_snapshot_job E job w
      else if cj_job_type job = ''StaffLoanAdvanceWarning'' then on_db (execute_staff_loan_advance_warning E job) w
      else if cj_job_type job = ''StaffLoanExpiry'' then on_db (execute_staff_loan_expiry E job) w
      else (w, Inl (''unsupported job type: '' @ cj_job_type job)))"

section \<open>The scans\<close>

definition loan_end_at_of :: "'v JobEnv \<Rightarrow> 'v \<Rightarrow> int option" where
  "loan_end_at_of E state = map_option sint (Option.bind (Option.bind (json_get (je_json E) state ''window'') (\<lambda>w. json_get (je_json E) w ''end_at'')) (json_as_i64 (je_json E)))"

definition ADVANCE_WARNING_LEAD :: int where
  "ADVANCE_WARNING_LEAD = 60 * 60 * 60 * 1000000000"

definition loan_ends_by :: "'v JobEnv \<Rightarrow> int \<Rightarrow> AggregateRow \<Rightarrow> bool" where
  "loan_ends_by E bound row \<longleftrightarrow> row_aggregate_type row = ''staff_loan'' \<and> loan_running E row
     \<and> (case loan_end_at_of E (state_of E row) of None \<Rightarrow> False | Some t \<Rightarrow> t \<le> bound)"

definition or_null :: "'v JobEnv \<Rightarrow> 'v \<Rightarrow> string \<Rightarrow> 'v" where
  "or_null E state key = (case json_get (je_json E) state key of Some v \<Rightarrow> v | None \<Rightarrow> json_null (je_json E))"

definition staff_loan_job :: "'v JobEnv \<Rightarrow> ObjectId \<Rightarrow> AggregateRow \<Rightarrow> string \<Rightarrow> 'v NewJob" where
  "staff_loan_job E k row jt =
     (let state = state_of E row
      in \<lparr>nj_organization_id = row_organization_id row, nj_job_type = jt,
          nj_payload = je_object E [(''staff_loan_id'', je_string E (je_uuid_string E k)), (''staff_user_id'', or_null E state ''staff_user_id''),
            (''real_owner_id'', or_null E state ''real_owner_id''), (''borrowing_manager_id'', or_null E state ''borrowing_manager_id'')],
          nj_next_attempt_at = je_now E, nj_max_retries = 10, nj_deduplication_key = Some (jt @ '':'' @ je_uuid_string E k)\<rparr>)"

fun enqueue_all :: "'v JobEnv \<Rightarrow> 'v NewJob list \<Rightarrow> JobTable \<Rightarrow> JobTable \<times> (nat, JobQueueError) result" where
  "enqueue_all E [] T = (T, Inr 0)"
| "enqueue_all E (job # jobs) T =
     (case enqueue (je_fault E) (text_of E) (je_now E) (je_now E) job T of
        (T', Inl e) \<Rightarrow> (T', Inl e)
      | (T', Inr _) \<Rightarrow> (case enqueue_all E jobs T' of (T'', Inl e) \<Rightarrow> (T'', Inl e) | (T'', Inr n) \<Rightarrow> (T'', Inr (Suc n))))"

definition warning_rows :: "'v JobEnv \<Rightarrow> Db \<Rightarrow> (ObjectId \<times> AggregateRow) list" where
  "warning_rows E db = [(k, row) \<leftarrow> sorted_list_of_fmap (aggregates db). loan_ends_by E (uint (je_now E) + ADVANCE_WARNING_LEAD) row \<and> \<not> warning_sent E row]"

definition expiry_rows :: "'v JobEnv \<Rightarrow> Db \<Rightarrow> (ObjectId \<times> AggregateRow) list" where
  "expiry_rows E db = [(k, row) \<leftarrow> sorted_list_of_fmap (aggregates db). loan_ends_by E (uint (je_now E)) row]"

definition staff_loan_scan_tick :: "'v JobEnv \<Rightarrow> Db \<Rightarrow> JobTable \<Rightarrow> JobTable \<times> (nat, JobQueueError) result" where
  "staff_loan_scan_tick E db T =
     (case enqueue_all E (map (\<lambda>(k, row). staff_loan_job E k row ''StaffLoanAdvanceWarning'') (warning_rows E db)) T of
        (T', Inl e) \<Rightarrow> (T', Inl e)
      | (T', Inr n) \<Rightarrow>
          (case enqueue_all E (map (\<lambda>(k, row). staff_loan_job E k row ''StaffLoanExpiry'') (expiry_rows E db)) T' of
             (T'', Inl e) \<Rightarrow> (T'', Inl e)
           | (T'', Inr m) \<Rightarrow> (T'', Inr (n + m))))"

definition str_field :: "'v JobEnv \<Rightarrow> 'v \<Rightarrow> string \<Rightarrow> string option" where
  "str_field E state key = Option.bind (json_get (je_json E) state key) (json_as_str (je_json E))"

definition timeline_job :: "'v JobEnv \<Rightarrow> ObjectId \<Rightarrow> AggregateRow \<Rightarrow> 'v NewJob" where
  "timeline_job E k row =
     (let state = state_of E row; id_text = je_uuid_string E k;
          kind = (case str_field E state ''kind'' of Some s \<Rightarrow> s | None \<Rightarrow> ''deadline'');
          at = (case str_field E state ''at'' of Some s \<Rightarrow> s | None \<Rightarrow> '''')
      in \<lparr>nj_organization_id = row_organization_id row, nj_job_type = ''TimelineTrigger'',
          nj_payload = je_object E [(''timeline_id'', je_string E id_text), (''trigger_kind'', je_string E kind), (''scheduled_at'', je_string E at)],
          nj_next_attempt_at = je_now E, nj_max_retries = 10,
          nj_deduplication_key = Some (''timeline:'' @ id_text @ '':'' @ kind @ '':'' @ at)\<rparr>)"

definition timeline_due :: "'v JobEnv \<Rightarrow> AggregateRow \<Rightarrow> bool" where
  "timeline_due E row \<longleftrightarrow> row_aggregate_type row = ''timeline'' \<and> str_field E (state_of E row) ''status'' = Some ''upcoming''
     \<and> (case Option.bind (str_field E (state_of E row) ''at'') (je_instant E) of None \<Rightarrow> False | Some t \<Rightarrow> t \<le> je_now E)"

definition scheduler_tick :: "'v JobEnv \<Rightarrow> Db \<Rightarrow> JobTable \<Rightarrow> JobTable \<times> (nat, JobQueueError) result" where
  "scheduler_tick E db T = enqueue_all E (map (\<lambda>(k, row). timeline_job E k row) [(k, row) \<leftarrow> sorted_list_of_fmap (aggregates db). timeline_due E row]) T"

section \<open>What a job writes\<close>

text \<open>The behaviour of serde and \<open>jsonb_set\<close> the jobs rely on.\<close>

definition job_json_laws :: "'v JobEnv \<Rightarrow> bool" where
  "job_json_laws E \<longleftrightarrow> (\<forall>v. text_to_value (je_json E) (text_of E v) = Some v) \<and> (\<forall>v key x. json_get (je_json E) (je_set E v key x) key = Some x)
     \<and> (\<forall>n. \<not> json_is_null (je_json E) (je_number E n)) \<and> (\<forall>s. json_as_str (je_json E) (je_string E s) = Some s)"

lemma bind_result_Inr [simp]: "bind_result r f = Inr b \<longleftrightarrow> (\<exists>a. r = Inr a \<and> f a = Inr b)"
  by (cases r) (simp_all add: bind_result_def)

lemma in_transaction_Inr: "in_transaction E body db = (db', Inr ()) \<longleftrightarrow> je_fault E = None \<and> body db = Inr db'"
  by (auto simp: in_transaction_def split: option.splits sum.splits)

lemma in_transaction_Inl: "in_transaction E body db = (db', Inl e) \<Longrightarrow> db' = db"
  by (auto simp: in_transaction_def split: option.splits sum.splits)

lemma env_update:
  "required_string (E\<lparr>je_now := t, je_fresh := f\<rparr>) = required_string E" "cast_uuid (E\<lparr>je_now := t, je_fresh := f\<rparr>) = cast_uuid E"
  "warning_sent (E\<lparr>je_now := t, je_fresh := f\<rparr>) = warning_sent E" "loan_running (E\<lparr>je_now := t, je_fresh := f\<rparr>) = loan_running E"
proof -
  have "state_of (E\<lparr>je_now := t, je_fresh := f\<rparr>) = state_of E" by (intro ext) (simp add: state_of_def cong: option.case_cong)
  then show "warning_sent (E\<lparr>je_now := t, je_fresh := f\<rparr>) = warning_sent E" "loan_running (E\<lparr>je_now := t, je_fresh := f\<rparr>) = loan_running E"
    by (intro ext, simp add: warning_sent_def cong: option.case_cong, intro ext, simp add: loan_running_def cong: option.case_cong)
  show "required_string (E\<lparr>je_now := t, je_fresh := f\<rparr>) = required_string E" "cast_uuid (E\<lparr>je_now := t, je_fresh := f\<rparr>) = cast_uuid E"
    by (intro ext, simp add: required_string_def, intro ext, simp add: cast_uuid_def)
qed

lemma notify_all_frame:
  assumes "notify_all E n org title message lid rs db = Inr db'"
  shows "(\<forall>k row. fmlookup (aggregates db) k = Some row \<longrightarrow> fmlookup (aggregates db') k = Some row)
    \<and> domain_events db' = domain_events db \<and> outbox db' = outbox db \<and> idempotency db' = idempotency db"
  using assms
proof (induction rs arbitrary: n db)
  case Nil
  then show ?case by simp
next
  case (Cons r rs)
  obtain i role where r: "r = (i, role)" by (cases r)
  from Cons.prems obtain db1 where 1: "insert_notification E (je_fresh E n) org i title (message role) ''high'' lid ''staff_loan'' db = Inr db1"
    and 2: "notify_all E (Suc n) org title message lid rs db1 = Inr db'" unfolding r by auto
  from 1 have "(\<forall>k row. fmlookup (aggregates db) k = Some row \<longrightarrow> fmlookup (aggregates db1) k = Some row)
      \<and> domain_events db1 = domain_events db \<and> outbox db1 = outbox db \<and> idempotency db1 = idempotency db"
    by (auto simp: insert_notification_def Let_def fmdomI split: if_splits)
  with Cons.IH [OF 2] show ?case by simp
qed

lemma find_row_keep:
  assumes "find_row type org k db = Some row" "\<And>row. fmlookup (aggregates db) k = Some row \<Longrightarrow> fmlookup (aggregates db') k = Some row"
  shows "find_row type org k db' = Some row" "fmlookup (aggregates db) k = Some row"
  using assms by (auto simp: find_row_def split: option.splits if_splits)

lemma find_row_touch:
  assumes "find_row type org k db = Some row"
  shows "find_row type org k (db\<lparr>aggregates := fmupd k (touch_row E key v row) (aggregates db)\<rparr>) = Some (touch_row E key v row)"
  using assms by (auto simp: find_row_def touch_row_def split: option.splits if_splits)

lemma state_of_touch: "job_json_laws E \<Longrightarrow> state_of E (touch_row E key v row) = je_set E (state_of E row) key v"
  unfolding state_of_def [of E "touch_row E key v row"] by (simp add: touch_row_def job_json_laws_def)

lemma warning_effect:
  assumes r: "required_string E (cj_payload job) ''staff_loan_id'' = Inr lid" "cast_uuid E lid = Inr k"
    and row: "find_row ''staff_loan'' (cj_organization_id job) k db = Some row"
    and x: "execute_staff_loan_advance_warning E job db = (db', Inr ())"
  shows "if warning_sent E row then db' = db
    else find_row ''staff_loan'' (cj_organization_id job) k db' = Some (touch_row E ''advance_warning_sent_at'' (je_number E (sint (je_now E))) row)"
proof (cases "warning_sent E row")
  case True
  then show ?thesis using x r row by (auto simp: execute_staff_loan_advance_warning_def in_transaction_Inr)
next
  case False
  with x r row obtain db1 where n: "notify_all E 0 (cj_organization_id job) ''Staff loan ending soon'' warning_message lid (staff_loan_recipients E (cj_payload job)) db = Inr db1"
    and db': "(case find_row ''staff_loan'' (cj_organization_id job) k db1 of
                 None \<Rightarrow> Inr db1
               | Some row \<Rightarrow> Inr (db1\<lparr>aggregates := fmupd k (touch_row E ''advance_warning_sent_at'' (je_number E (sint (je_now E))) row) (aggregates db1)\<rparr>)) = (Inr db' :: (Db, string) result)"
    by (auto simp: execute_staff_loan_advance_warning_def in_transaction_Inr)
  have "find_row ''staff_loan'' (cj_organization_id job) k db1 = Some row" using notify_all_frame [OF n] by (intro find_row_keep(1) [OF row]) auto
  with db' False find_row_touch [OF this] show ?thesis by auto
qed

lemma expiry_effect:
  assumes r: "required_string E (cj_payload job) ''staff_loan_id'' = Inr lid" "cast_uuid E lid = Inr k"
    and row: "find_row ''staff_loan'' (cj_organization_id job) k db = Some row"
    and x: "execute_staff_loan_expiry E job db = (db', Inr ())"
  shows "if loan_running E row then find_row ''staff_loan'' (cj_organization_id job) k db' = Some (touch_row E ''status'' (je_string E ''Expired'') row)
    else db' = db"
proof (cases "loan_running E row")
  case False
  then show ?thesis using x r row by (auto simp: execute_staff_loan_expiry_def in_transaction_Inr)
next
  case True
  let ?row = "touch_row E ''status'' (je_string E ''Expired'') row"
  from True x r row obtain db1 where n: "notify_all E 3 (cj_organization_id job) ''Staff loan ended'' expiry_message lid (staff_loan_recipients E (cj_payload job)) db = Inr db1"
    and db': "(case find_row ''staff_loan'' (cj_organization_id job) k db1 of
                 None \<Rightarrow> Inl ''no rows returned by a query that expected to return at least one row''
               | Some row \<Rightarrow> let row' = touch_row E ''status'' (je_string E ''Expired'') row
                   in worker_event E 0 k lid (cj_organization_id job) (row_version row') ''staff_loan.StaffLoanExpired''
                        (je_object E [(''StaffLoanExpired'', je_object E [(''expired_at'', je_number E (sint (je_now E)))])])
                        (db1\<lparr>aggregates := fmupd k row' (aggregates db1)\<rparr>)) = (Inr db' :: (Db, string) result)"
    by (auto simp: execute_staff_loan_expiry_def in_transaction_Inr)
  have at: "find_row ''staff_loan'' (cj_organization_id job) k db1 = Some row" using notify_all_frame [OF n] by (intro find_row_keep(1) [OF row]) auto
  have "aggregates db' = fmupd k ?row (aggregates db1)" using db' at by (auto simp: worker_event_def Let_def split: if_splits)
  with find_row_touch [OF at, of E "''status''" "je_string E ''Expired''"] True show ?thesis by (simp add: find_row_def)
qed

section \<open>Properties\<close>

text \<open>
  A job of a loan has its effect once. A warning or expiry job that fails changes nothing at all; after one that succeeded on the loan, running
  the same job again, at any later time and with other random ids, succeeds without changing anything: no second notification, no second event.
\<close>

theorem loan_jobs_once:
  assumes laws: "job_json_laws E" and E': "E' = E\<lparr>je_now := now', je_fresh := fresh'\<rparr>"
    and r: "required_string E (cj_payload job) ''staff_loan_id'' = Inr lid" "cast_uuid E lid = Inr k"
    and row: "find_row ''staff_loan'' (cj_organization_id job) k db = Some row"
  shows "(execute_staff_loan_advance_warning E job db = (db1, Inr ()) \<longrightarrow> execute_staff_loan_advance_warning E' job db1 = (db1, Inr ()))
    \<and> (execute_staff_loan_expiry E job db = (db2, Inr ()) \<longrightarrow> execute_staff_loan_expiry E' job db2 = (db2, Inr ()))
    \<and> (execute_staff_loan_advance_warning E job db = (db3, Inl e) \<longrightarrow> db3 = db) \<and> (execute_staff_loan_expiry E job db = (db4, Inl e) \<longrightarrow> db4 = db)"
proof -
  have same: "required_string E' (cj_payload job) ''staff_loan_id'' = Inr lid" "cast_uuid E' lid = Inr k" "warning_sent E' = warning_sent E" "loan_running E' = loan_running E"
    "je_fault E' = je_fault E"
    using r unfolding E' by (simp_all add: env_update)
  have warn: "execute_staff_loan_advance_warning E' job db1 = (db1, Inr ())" if x: "execute_staff_loan_advance_warning E job db = (db1, Inr ())"
  proof -
    have f: "je_fault E = None" using x r by (simp add: execute_staff_loan_advance_warning_def in_transaction_Inr)
    have "\<exists>row'. find_row ''staff_loan'' (cj_organization_id job) k db1 = Some row' \<and> warning_sent E row'"
      using warning_effect [OF r row x] laws row by (auto simp: warning_sent_def state_of_touch job_json_laws_def split: if_splits)
    with same f show ?thesis by (auto simp: execute_staff_loan_advance_warning_def in_transaction_def bind_result_def)
  qed
  have expire: "execute_staff_loan_expiry E' job db2 = (db2, Inr ())" if x: "execute_staff_loan_expiry E job db = (db2, Inr ())"
  proof -
    have f: "je_fault E = None" using x r by (simp add: execute_staff_loan_expiry_def in_transaction_Inr)
    have "\<exists>row'. find_row ''staff_loan'' (cj_organization_id job) k db2 = Some row' \<and> \<not> loan_running E row'"
      using expiry_effect [OF r row x] laws row by (auto simp: loan_running_def state_of_touch job_json_laws_def split: if_splits)
    with same f show ?thesis by (auto simp: execute_staff_loan_expiry_def in_transaction_def bind_result_def)
  qed
  have "execute_staff_loan_advance_warning E job db = (db3, Inl e) \<longrightarrow> db3 = db" "execute_staff_loan_expiry E job db = (db4, Inl e) \<longrightarrow> db4 = db"
    using r by (auto simp: execute_staff_loan_advance_warning_def execute_staff_loan_expiry_def dest: in_transaction_Inl)
  with warn expire show ?thesis by blast
qed

text \<open>
  A row whose version column is ahead of the version in its state: every command on it is staged with a version that the column has already
  reached, and the guarded upsert refuses it.
\<close>

context single_event_aggregate
begin

lemma stale_state_stuck:
  assumes ops: "op_version A = version" "op_decide A = decide" "op_apply A = app"
    and json: "json_faithful J A agg_id"
    and row: "fmlookup (aggregates db) (agg_id a) = Some row" "text_to_value J (row_state row) = Some v" "op_from_value A v = Some a"
    and small: "unat (version a) + 1 < 2 ^ 63" and ahead: "row_version row = version a + 1"
    and req: "req_target_id req = agg_id a" and cmd: "handle_command J A env req db = (db', res)"
  shows "db' = db \<and> ((\<exists>e. res = Inl e) \<or> (\<exists>cached. handle_prepare J A env req db = Inr (Cached cached)))"
  using cmd
proof (cases rule: handle_command_cases)
  case (committed u r u')
  from staged_upsert [OF ops json row(1) [folded req] row(2,3) small committed(1)] obtain up where
    up: "staged_upserts u = [up]" "txn_open u" "up_id up = agg_id a" "up_version up = version a + 1" by blast
  then have "\<exists>e. handle_finish J env u r db = (db, Inl (Persistence e))" using row(1) ahead by (intro finish_fails [of u up db row]) simp_all
  then show ?thesis using committed(3) by (auto simp: handle_finish_def)
qed auto

end

text \<open>
  C24. A loan that was warned of its end is frozen. The warning job raises the version column of the row and leaves the version inside the state,
  from which the next version is computed. From then on every command on the loan, whatever the command, the actor and the expected version,
  fails (or replays an answer recorded before) and changes nothing: the loan can neither be extended nor ended early.
\<close>

theorem warned_loan_stuck:
  assumes laws: "job_json_laws E" and J: "J = je_json E" and A: "A = loan_ops S" and json: "json_faithful J A loan_id"
    and ignored: "\<And>v x. sd_from_value S (je_set E v ''advance_warning_sent_at'' x) = sd_from_value S v"
    and r: "required_string E (cj_payload job) ''staff_loan_id'' = Inr lid" "cast_uuid E lid = Inr (loan_id l)"
    and row: "find_row ''staff_loan'' (cj_organization_id job) (loan_id l) db = Some row" "sd_from_value S (state_of E row) = Some l"
    and ver: "row_version row = loan_version l" "unat (loan_version l) + 1 < 2 ^ 63" and unsent: "\<not> warning_sent E row"
    and x: "execute_staff_loan_advance_warning E job db = (db1, Inr ())"
    and req: "req_target_id req = loan_id l" and cmd: "handle_command J A env req db1 = (db2, res)"
  shows "db2 = db1 \<and> ((\<exists>e. res = Inl e) \<or> (\<exists>cached. handle_prepare J A env req db1 = Inr (Cached cached)))"
proof -
  let ?row = "touch_row E ''advance_warning_sent_at'' (je_number E (sint (je_now E))) row"
  have "find_row ''staff_loan'' (cj_organization_id job) (loan_id l) db1 = Some ?row" using warning_effect [OF r row(1) x] unsent by simp
  then have at: "fmlookup (aggregates db1) (loan_id l) = Some ?row" by (auto simp: find_row_def split: option.splits if_splits)
  have "text_to_value J (row_state ?row) = Some (je_set E (state_of E row) ''advance_warning_sent_at'' (je_number E (sint (je_now E))))"
    using laws by (simp add: J touch_row_def job_json_laws_def)
  moreover have "op_from_value A (je_set E (state_of E row) ''advance_warning_sent_at'' (je_number E (sint (je_now E)))) = Some l"
    using row(2) by (simp add: A loan_ops_def ignored)
  moreover have "row_version ?row = loan_version l + 1" using ver(1) by (simp add: touch_row_def)
  ultimately show ?thesis
    using loan_single.stale_state_stuck [OF _ _ _ json at _ _ ver(2) _ req cmd] by (simp add: A loan_ops_def)
qed

text \<open>
  The expiry by the worker is not the expiry of the aggregate. Both end a running loan and take the verification authority from its managers;
  the aggregate advances the lifecycle and the authority epoch and its version, the worker leaves the three of them in the stored state, and both
  epoch columns, as they were, so that an authority derived from the old epochs is not invalidated.
\<close>

theorem expiry_job_keeps_epochs:
  assumes laws: "job_json_laws E" and status: "\<And>v l. sd_from_value S v = Some l \<Longrightarrow> sd_from_value S (je_set E v ''status'' (je_string E ''Expired'')) = Some (l\<lparr>loan_status := Expired\<rparr>)"
    and r: "required_string E (cj_payload job) ''staff_loan_id'' = Inr lid" "cast_uuid E lid = Inr k"
    and row: "find_row ''staff_loan'' (cj_organization_id job) k db = Some row" "sd_from_value S (state_of E row) = Some l" "loan_running E row" "loan_status l \<in> {StaffLoanStatus.Active, Extended}"
    and x: "execute_staff_loan_expiry E job db = (db1, Inr ())" and auth: "is_authorized (ctx_authority ctx) ''staff_loan.command''"
  shows "\<exists>row1 l1 l2. fmlookup (aggregates db1) k = Some row1 \<and> sd_from_value S (state_of E row1) = Some l1 \<and> l1 = l\<lparr>loan_status := Expired\<rparr>
    \<and> row_authority_epoch row1 = row_authority_epoch row \<and> row_lifecycle_epoch row1 = row_lifecycle_epoch row
    \<and> grants_verification_authority_to l (loan_borrowing_manager_id l) \<and> \<not> grants_verification_authority_to l1 (loan_borrowing_manager_id l)
    \<and> loan_decide l ExpireStaffLoan ctx = Inr [StaffLoanExpired (trusted_now ctx)] \<and> l2 = loan_apply (StaffLoanExpired (trusted_now ctx)) l
    \<and> loan_authority_epoch l2 = loan_authority_epoch l + 1 \<and> loan_lifecycle_epoch l2 = loan_lifecycle_epoch l + 1 \<and> loan_version l2 = loan_version l + 1"
proof -
  let ?row = "touch_row E ''status'' (je_string E ''Expired'') row"
  have "find_row ''staff_loan'' (cj_organization_id job) k db1 = Some ?row" using expiry_effect [OF r row(1) x] row(3) by simp
  then have at: "fmlookup (aggregates db1) k = Some ?row" by (auto simp: find_row_def split: option.splits if_splits)
  have l1: "sd_from_value S (state_of E ?row) = Some (l\<lparr>loan_status := Expired\<rparr>)" unfolding state_of_touch [OF laws] by (rule status [OF row(2)])
  have "row_authority_epoch ?row = row_authority_epoch row" "row_lifecycle_epoch ?row = row_lifecycle_epoch row" by (simp_all add: touch_row_def)
  moreover have "loan_decide l ExpireStaffLoan ctx = Inr [StaffLoanExpired (trusted_now ctx)]" using row(4) auth by (simp add: loan_decide_def)
  ultimately show ?thesis using at l1 row(4)
    by (auto simp: grants_verification_authority_to_def loan_apply_def Let_def kernel_simps)
qed

section \<open>A sample loan\<close>

text \<open>
  Texts stand for JSON values. Setting a key forgets the rest of a value, except that the loan \<open>''loan''\<close> is still recognised; a decided loan is
  written as \<open>''obj''\<close>, with the id 0 and the version 2.
\<close>

definition key_prefix :: "string \<Rightarrow> string" where
  "key_prefix key = key @ [CHR 0x00]"

definition toy_get :: "string \<Rightarrow> string \<Rightarrow> string option" where
  "toy_get v key =
     (if v = ''obj'' then (if key = ''id'' then Some ''ids'' else if key = ''version'' then Some ''v'' else None)
      else if v = ''job'' then (if key = ''staff_loan_id'' then Some ''0'' else None)
      else if v = ''loan'' then (if key = ''status'' then Some ''Active'' else None)
      else if take (length (key_prefix key)) v = key_prefix key then Some (drop (length (key_prefix key)) v) else None)"

definition loan_json :: "string JsonOps" where
  "loan_json = \<lparr>json_get = toy_get, json_get_0 = (\<lambda>_. None), json_is_null = (\<lambda>v. v = ''null''), json_as_array = (\<lambda>v. if v = ''ids'' then Some (replicate 16 ''b'') else None),
     json_as_u64 = (\<lambda>_. Some 0), json_as_i64 = (\<lambda>_. Some 2), json_as_str = Some, json_null = ''null'', value_to_text = Some, text_to_value = Some\<rparr>"

definition loan_job_env :: "string JobEnv" where
  "loan_job_env = \<lparr>je_json = loan_json, je_uuid_parse = (\<lambda>_. Some 0), je_uuid_string = (\<lambda>_. ''0''), je_set = (\<lambda>v key x. key_prefix key @ x), je_object = (\<lambda>_. ''o''),
     je_string = id, je_number = (\<lambda>_. ''1''), je_iso = (\<lambda>_. ''now''), je_instant = (\<lambda>_. None), je_now = 5, je_fresh = (\<lambda>n. of_nat n + 1), je_fault = None\<rparr>"

definition toy_loan :: StaffLoan where
  "toy_loan = \<lparr>loan_id = 0, loan_version = 1, loan_lifecycle_epoch = 0, loan_authority_epoch = 1, loan_status = StaffLoanStatus.Active, loan_staff_user_id = 1, loan_real_owner_id = 2,
     loan_borrowing_manager_id = 3, loan_window = \<lparr>loan_start_at = 0, loan_end_at = 9\<rparr>, pending_extension_end_at = None, loan_escalated_to = None\<rparr>"

definition toy_loan_serde :: "(StaffLoan, StaffLoanEvent, string) Serde" where
  "toy_loan_serde = \<lparr>sd_from_value = (\<lambda>v. Some (if toy_get v ''status'' = Some ''Expired'' then toy_loan\<lparr>loan_status := Expired\<rparr> else toy_loan)),
     sd_to_value = (\<lambda>l. if loan_id l = 0 \<and> loan_version l = 2 then Some ''obj'' else None), sd_envelope_to_value = (\<lambda>_. Some ''event'')\<rparr>"

definition toy_loan_row :: AggregateRow where
  "toy_loan_row = \<lparr>row_aggregate_type = ''staff_loan'', row_version = 1, row_lifecycle_epoch = 0, row_authority_epoch = 1, row_state = ''loan'', row_updated_at = 0, row_organization_id = 3\<rparr>"

definition toy_loan_db :: Db where
  "toy_loan_db = \<lparr>aggregates = fmap_of_list [(0, toy_loan_row)], domain_events = [], outbox = [], idempotency = fmempty\<rparr>"

definition toy_loan_job :: "string ClaimedJob" where
  "toy_loan_job = \<lparr>cj_id = 1, cj_organization_id = 3, cj_job_type = ''StaffLoanExpiry'', cj_payload = ''job'', cj_attempts = 1, cj_max_retries = 10, cj_lease_token = ''t'', cj_lease_expires_at = 0\<rparr>"

lemma toy_get_set: "toy_get (key_prefix key @ x) key = Some x"
proof -
  have "CHR 0x00 \<in> set (key_prefix key @ x)" by (simp add: key_prefix_def)
  moreover have "CHR 0x00 \<notin> set ''obj''" "CHR 0x00 \<notin> set ''loan''" "CHR 0x00 \<notin> set ''job''" by simp_all
  ultimately have "key_prefix key @ x \<noteq> ''obj''" "key_prefix key @ x \<noteq> ''loan''" "key_prefix key @ x \<noteq> ''job''" by metis+
  then show ?thesis by (simp add: toy_get_def del: append_eq_Cons_conv)
qed

text \<open>The same, with the loan read from every state.\<close>

definition plain_loan_serde :: "(StaffLoan, StaffLoanEvent, string) Serde" where
  "plain_loan_serde = toy_loan_serde\<lparr>sd_from_value := (\<lambda>_. Some toy_loan)\<rparr>"

lemma toy_loan_laws: "job_json_laws loan_job_env" "json_faithful loan_json (loan_ops plain_loan_serde) loan_id"
proof -
  show "job_json_laws loan_job_env" by (simp add: job_json_laws_def loan_job_env_def text_of_def loan_json_def toy_get_set)
  have "repo_extract_id_bytes loan_json ''obj'' ''id'' = Some 0" "json_i64_or_zero loan_json ''obj'' ''version'' = 2" by code_simp+
  then show "json_faithful loan_json (loan_ops plain_loan_serde) loan_id"
    by (auto simp: json_faithful_def loan_ops_def toy_loan_serde_def plain_loan_serde_def split: if_splits)
qed

lemma toy_loan_facts:
  "required_string loan_job_env (cj_payload toy_loan_job) ''staff_loan_id'' = Inr ''0''" "cast_uuid loan_job_env ''0'' = Inr (loan_id toy_loan)"
  "find_row ''staff_loan'' (cj_organization_id toy_loan_job) (loan_id toy_loan) toy_loan_db = Some toy_loan_row"
  "sd_from_value toy_loan_serde (state_of loan_job_env toy_loan_row) = Some toy_loan" "\<not> warning_sent loan_job_env toy_loan_row" "loan_running loan_job_env toy_loan_row"
  "row_version toy_loan_row = loan_version toy_loan"
  by code_simp+

lemma toy_loan_jobs:
  "execute_staff_loan_advance_warning loan_job_env toy_loan_job toy_loan_db = (fst (execute_staff_loan_advance_warning loan_job_env toy_loan_job toy_loan_db), Inr ())"
  "execute_staff_loan_expiry loan_job_env toy_loan_job toy_loan_db = (fst (execute_staff_loan_expiry loan_job_env toy_loan_job toy_loan_db), Inr ())"
  by code_simp+

theorem loan_jobs_once_witness:
  "\<exists>db1. execute_staff_loan_advance_warning loan_job_env toy_loan_job toy_loan_db = (db1, Inr ())
     \<and> execute_staff_loan_advance_warning (loan_job_env\<lparr>je_now := 99, je_fresh := (\<lambda>n. of_nat n + 50)\<rparr>) toy_loan_job db1 = (db1, Inr ())"
  using loan_jobs_once [OF toy_loan_laws(1) refl toy_loan_facts(1-3)] toy_loan_jobs(1) by blast

definition toy_loan_request :: "(StaffLoan, StaffLoanCommand) CommandRequest" where
  "toy_loan_request = \<lparr>req_command = EndStaffLoanEarly, req_target_id = 0, req_operation_id = 8,
     req_actor = \<lparr>user_id = 2, device_id = 1, actor_organization_id = 3\<rparr>, req_expected_version = 2, req_expected_lifecycle_epoch = 0,
     req_expected_authority_epoch = 1, req_vector_clock = vc_new, req_correlation_id = 1, req_aggregate_type_name = ''staff_loan'', req_owner_check = None\<rparr>"

definition toy_loan_handler :: "string HandlerEnv" where
  "toy_loan_handler = \<lparr>env_trusted_now = 10, env_now = 11, env_commit_now = 12, env_object_id = (\<lambda>n. of_nat n), env_event_id = (\<lambda>n. 50 + of_nat n),
     env_replica_id = (\<lambda>_. 1), env_to_vec = Some, env_id_to_string = (\<lambda>_. ''id''), env_result = (\<lambda>_ _ _ _ _. ''result''),
     idempotency_fault = None, load_fault = None, begin_fault = None, commit_fault = (\<lambda>_. None)\<rparr>"

abbreviation toy_loan_ctx :: DecisionContext where
  "toy_loan_ctx \<equiv> decision_context toy_loan_handler toy_loan_request"

theorem warned_loan_stuck_witness:
  "\<exists>db1. execute_staff_loan_advance_warning loan_job_env toy_loan_job toy_loan_db = (db1, Inr ())
     \<and> fst (handle_command loan_json (loan_ops plain_loan_serde) toy_loan_handler toy_loan_request db1) = db1"
proof -
  let ?db1 = "fst (execute_staff_loan_advance_warning loan_job_env toy_loan_job toy_loan_db)"
  have J: "loan_json = je_json loan_job_env" by (simp add: loan_job_env_def)
  have S: "sd_from_value plain_loan_serde v = Some toy_loan" for v by (simp add: plain_loan_serde_def)
  obtain db2 res where c: "handle_command loan_json (loan_ops plain_loan_serde) toy_loan_handler toy_loan_request ?db1 = (db2, res)" by fastforce
  have "db2 = ?db1 \<and> ((\<exists>e. res = Inl e) \<or> (\<exists>cached. handle_prepare loan_json (loan_ops plain_loan_serde) toy_loan_handler toy_loan_request ?db1 = Inr (Cached cached)))"
    by (rule warned_loan_stuck [OF toy_loan_laws(1) J refl toy_loan_laws(2) _ toy_loan_facts(1-3) _ toy_loan_facts(7) _ toy_loan_facts(5) toy_loan_jobs(1) _ c])
      (simp_all add: S toy_loan_def toy_loan_request_def)
  with c toy_loan_jobs(1) show ?thesis by auto
qed

theorem expiry_job_keeps_epochs_witness:
  "\<exists>db1 row1. execute_staff_loan_expiry loan_job_env toy_loan_job toy_loan_db = (db1, Inr ()) \<and> fmlookup (aggregates db1) 0 = Some row1
     \<and> sd_from_value toy_loan_serde (state_of loan_job_env row1) = Some (toy_loan\<lparr>loan_status := Expired\<rparr>) \<and> row_authority_epoch row1 = 1"
proof -
  have st: "sd_from_value toy_loan_serde (je_set loan_job_env v ''status'' (je_string loan_job_env ''Expired'')) = Some (l\<lparr>loan_status := Expired\<rparr>)"
    if "sd_from_value toy_loan_serde v = Some l" for v l
    using that by (auto simp: toy_loan_serde_def loan_job_env_def toy_get_set split: if_splits)
  have "is_authorized (ctx_authority toy_loan_ctx) ''staff_loan.command''" by code_simp
  with expiry_job_keeps_epochs [OF toy_loan_laws(1) st toy_loan_facts(1-4,6) _ toy_loan_jobs(2), of toy_loan_ctx] toy_loan_jobs(2)
  show ?thesis by (auto simp: toy_loan_def toy_loan_row_def)
qed

end
