(* ===== verification/Communication_Domain.thy ===== *)
theory Communication_Domain
  imports Contracts "HOL-Library.Sublist"
begin

text \<open>
  Conversations, messages and connection requests (\<open>crates/domains/communication-domain\<close>). The three are aggregates of their
  own: a conversation keeps its members, a message its text and reactions, a connection request the decision of its recipient.
\<close>

section \<open>Conversations\<close>

type_synonym ConversationId = ObjectId
type_synonym MessageId = ObjectId
type_synonym ConnectionRequestId = ObjectId

datatype ConversationStatus = Active | Archived

fun conversation_status_debug :: "ConversationStatus \<Rightarrow> string" where
  "conversation_status_debug Active = ''Active''"
| "conversation_status_debug Archived = ''Archived''"

datatype ConversationType = Direct | Channel | Supergroup | SubTeam

fun conversation_type_debug :: "ConversationType \<Rightarrow> string" where
  "conversation_type_debug Direct = ''Direct''"
| "conversation_type_debug Channel = ''Channel''"
| "conversation_type_debug Supergroup = ''Supergroup''"
| "conversation_type_debug SubTeam = ''SubTeam''"

datatype ConversationError =
    InvalidTransition string
  | MissingField string
  | Unauthorized string
  | AlreadyMember UserId
  | InvalidParentSupergroup string
  | NotSupergroupMember

datatype ConversationCommand =
    CreateConversation ConversationType "ConversationId option"
  | AddMember UserId bool
  | ArchiveConversation "string option"

datatype ConversationEvent =
    ConversationCreated ConversationId ConversationType "ConversationId option" UserId Timestamp
  | ConversationMemberAdded UserId Timestamp
  | ConversationArchived Timestamp "string option"

record Conversation =
  conv_id :: ConversationId
  conv_version :: ObjectVersion
  conv_lifecycle_epoch :: LifecycleEpoch
  conv_authority_epoch :: AuthorityEpoch
  conv_status :: ConversationStatus
  conv_type :: ConversationType
  conv_parent_supergroup :: "ConversationId option"
  conv_members :: "UserId list"

fun check_parent_supergroup :: "ConversationType \<Rightarrow> ConversationId option \<Rightarrow> (unit, ConversationError) result" where
  "check_parent_supergroup SubTeam None = Inl (InvalidParentSupergroup ''SubTeam requires a parent_supergroup'')"
| "check_parent_supergroup other (Some _) =
     (if other \<noteq> SubTeam
      then Inl (InvalidParentSupergroup (''parent_supergroup is only valid for SubTeam, not '' @ conversation_type_debug other))
      else Inr ())"
| "check_parent_supergroup _ _ = Inr ()"

fun conversation_create :: "ConversationCommand \<Rightarrow> DecisionContext \<Rightarrow> (ConversationEvent list, ConversationError) result" where
  "conversation_create (CreateConversation ctype parent) context =
     (case check_parent_supergroup ctype parent of
        Inl err \<Rightarrow> Inl err
      | Inr _ \<Rightarrow> Inr [ConversationCreated (ctx_object_id context 0) ctype parent (user_id (ctx_actor context)) (trusted_now context)])"
| "conversation_create _ context =
     Inl (InvalidTransition ''Conversation::create() called with a non-CreateConversation command'')"

text \<open>\<open>None\<close> is the panic on any other event.\<close>

fun conversation_from_created_event :: "ConversationEvent \<Rightarrow> Conversation option" where
  "conversation_from_created_event (ConversationCreated cid ctype parent created_by _) =
     Some \<lparr>conv_id = cid,
           conv_version = ObjectVersion_INITIAL,
           conv_lifecycle_epoch = LifecycleEpoch_INITIAL,
           conv_authority_epoch = AuthorityEpoch_INITIAL,
           conv_status = Active,
           conv_type = ctype,
           conv_parent_supergroup = parent,
           conv_members = [created_by]\<rparr>"
| "conversation_from_created_event _ = None"

definition conversation_invalid :: "Conversation \<Rightarrow> string \<Rightarrow> ConversationError" where
  "conversation_invalid c command = InvalidTransition (command @ '' from '' @ conversation_status_debug (conv_status c))"

definition conversation_decide ::
    "Conversation \<Rightarrow> ConversationCommand \<Rightarrow> DecisionContext \<Rightarrow> (ConversationEvent list, ConversationError) result" where
  "conversation_decide c command context =
     (if \<not> is_authorized (ctx_authority context) ''communication.command''
        then Inl (Unauthorized ''actor lacks required authority'')
      else case command of
        CreateConversation _ _ \<Rightarrow>
          Inl (InvalidTransition ''CreateConversation must be dispatched via Conversation::create(), not decide()'')
      | AddMember u is_parent_supergroup_member \<Rightarrow>
          if conv_status c = Active then
            (if u \<in> set (conv_members c) then Inl (AlreadyMember u)
             else if conv_type c = SubTeam \<and> \<not> is_parent_supergroup_member then Inl NotSupergroupMember
             else Inr [ConversationMemberAdded u (trusted_now context)])
          else Inl (conversation_invalid c ''AddMember'')
      | ArchiveConversation reason \<Rightarrow>
          if conv_status c = Active then Inr [ConversationArchived (trusted_now context) reason]
          else Inl (conversation_invalid c ''ArchiveConversation''))"

fun conversation_apply_event :: "ConversationEvent \<Rightarrow> Conversation \<Rightarrow> Conversation" where
  "conversation_apply_event (ConversationCreated _ _ _ _ _) c = c"
| "conversation_apply_event (ConversationMemberAdded u _) c =
     c\<lparr>conv_members := conv_members c @ [u], conv_authority_epoch := AuthorityEpoch_advance (conv_authority_epoch c)\<rparr>"
| "conversation_apply_event (ConversationArchived _ _) c =
     c\<lparr>conv_status := Archived, conv_lifecycle_epoch := LifecycleEpoch_advance (conv_lifecycle_epoch c)\<rparr>"

definition conversation_apply :: "ConversationEvent \<Rightarrow> Conversation \<Rightarrow> Conversation" where
  "conversation_apply event c =
     (let c' = conversation_apply_event event c in c'\<lparr>conv_version := ObjectVersion_next (conv_version c')\<rparr>)"

section \<open>Messages\<close>

datatype MessageStatus = Posted | Edited | Redacted

fun message_status_debug :: "MessageStatus \<Rightarrow> string" where
  "message_status_debug Posted = ''Posted''"
| "message_status_debug Edited = ''Edited''"
| "message_status_debug Redacted = ''Redacted''"

definition MessageBody_MAX_LEN :: nat where
  "MessageBody_MAX_LEN = 8000"

definition message_body_new :: "string \<Rightarrow> (string, string) result" where
  "message_body_new s =
     (if trim_is_empty s then Inl ''message body must not be empty''
      else if length s > MessageBody_MAX_LEN
        then Inl (''message body exceeds '' @ show_nat MessageBody_MAX_LEN @ '' bytes (was '' @ show_nat (length s) @ '')'')
      else Inr s)"

text \<open>A reaction code is an array of 16 bytes, filled up with zero bytes.\<close>

type_synonym ReactionCode = string

definition ReactionCode_MAX_LEN :: nat where
  "ReactionCode_MAX_LEN = 16"

definition reaction_code_new :: "string \<Rightarrow> (ReactionCode, string) result" where
  "reaction_code_new s =
     (if s = [] then Inl ''reaction code must not be empty''
      else if length s > ReactionCode_MAX_LEN
        then Inl (''reaction code exceeds '' @ show_nat ReactionCode_MAX_LEN @ '' bytes'')
      else Inr (s @ replicate (ReactionCode_MAX_LEN - length s) (CHR 0x00)))"

definition reaction_code_as_str :: "ReactionCode \<Rightarrow> string" where
  "reaction_code_as_str buf = (let bytes = takeWhile (\<lambda>b. b \<noteq> CHR 0x00) buf in if utf8_valid bytes then bytes else [])"

datatype MessageError =
    InvalidTransition string
  | InvalidBody string
  | InvalidReaction string
  | Unauthorized string

datatype MessageCommand =
    PostMessage ConversationId string
  | EditMessage string
  | RedactMessage string
  | AddReaction string
  | RemoveReaction string

datatype MessageEvent =
    MessagePosted MessageId ConversationId UserId string Timestamp
  | MessageEdited string Timestamp
  | MessageRedacted string Timestamp
  | ReactionAdded UserId ReactionCode Timestamp
  | ReactionRemoved UserId ReactionCode Timestamp

record Message =
  msg_id :: MessageId
  msg_version :: ObjectVersion
  msg_lifecycle_epoch :: LifecycleEpoch
  msg_authority_epoch :: AuthorityEpoch
  msg_status :: MessageStatus
  msg_conversation_id :: ConversationId
  msg_author_id :: UserId
  msg_body :: string
  msg_reactions :: "(UserId \<times> ReactionCode) list"

fun message_create :: "MessageCommand \<Rightarrow> DecisionContext \<Rightarrow> (MessageEvent list, MessageError) result" where
  "message_create (PostMessage conversation_id body) context =
     (case message_body_new body of
        Inl err \<Rightarrow> Inl (InvalidBody err)
      | Inr body \<Rightarrow> Inr [MessagePosted (ctx_object_id context 0) conversation_id (user_id (ctx_actor context)) body (trusted_now context)])"
| "message_create _ context = Inl (InvalidTransition ''Message::create() called with a non-PostMessage command'')"

fun message_from_created_event :: "MessageEvent \<Rightarrow> Message option" where
  "message_from_created_event (MessagePosted mid conversation_id author_id body _) =
     Some \<lparr>msg_id = mid,
           msg_version = ObjectVersion_INITIAL,
           msg_lifecycle_epoch = LifecycleEpoch_INITIAL,
           msg_authority_epoch = AuthorityEpoch_INITIAL,
           msg_status = Posted,
           msg_conversation_id = conversation_id,
           msg_author_id = author_id,
           msg_body = body,
           msg_reactions = []\<rparr>"
| "message_from_created_event _ = None"

definition message_invalid :: "Message \<Rightarrow> string \<Rightarrow> MessageError" where
  "message_invalid m command = InvalidTransition (command @ '' from '' @ message_status_debug (msg_status m))"

definition is_mutable :: "Message \<Rightarrow> bool" where
  "is_mutable m \<longleftrightarrow> msg_status m \<in> {Posted, Edited}"

definition message_decide :: "Message \<Rightarrow> MessageCommand \<Rightarrow> DecisionContext \<Rightarrow> (MessageEvent list, MessageError) result" where
  "message_decide m command context =
     (if \<not> is_authorized (ctx_authority context) ''communication.command''
        then Inl (Unauthorized ''actor lacks required authority'')
      else case command of
        PostMessage _ _ \<Rightarrow>
          Inl (InvalidTransition ''PostMessage must be dispatched via Message::create(), not decide()'')
      | EditMessage new_body \<Rightarrow>
          if \<not> is_mutable m then Inl (message_invalid m ''EditMessage'')
          else (case message_body_new new_body of
                  Inl err \<Rightarrow> Inl (InvalidBody err)
                | Inr body \<Rightarrow> Inr [MessageEdited body (trusted_now context)])
      | RedactMessage reason \<Rightarrow>
          if \<not> is_mutable m then Inl (message_invalid m ''RedactMessage'')
          else Inr [MessageRedacted reason (trusted_now context)]
      | AddReaction emoji_code \<Rightarrow>
          if \<not> is_mutable m then Inl (message_invalid m ''AddReaction'')
          else (case reaction_code_new emoji_code of
                  Inl err \<Rightarrow> Inl (InvalidReaction err)
                | Inr r \<Rightarrow>
                    if (user_id (ctx_actor context), r) \<in> set (msg_reactions m) then Inr []
                    else Inr [ReactionAdded (user_id (ctx_actor context)) r (trusted_now context)])
      | RemoveReaction emoji_code \<Rightarrow>
          if \<not> is_mutable m then Inl (message_invalid m ''RemoveReaction'')
          else (case reaction_code_new emoji_code of
                  Inl err \<Rightarrow> Inl (InvalidReaction err)
                | Inr r \<Rightarrow>
                    if (user_id (ctx_actor context), r) \<notin> set (msg_reactions m) then Inr []
                    else Inr [ReactionRemoved (user_id (ctx_actor context)) r (trusted_now context)]))"

fun message_apply_event :: "MessageEvent \<Rightarrow> Message \<Rightarrow> Message" where
  "message_apply_event (MessagePosted _ _ _ _ _) m = m"
| "message_apply_event (MessageEdited new_body _) m = m\<lparr>msg_body := new_body, msg_status := Edited\<rparr>"
| "message_apply_event (MessageRedacted _ _) m = m\<lparr>msg_body := [], msg_status := Redacted\<rparr>"
| "message_apply_event (ReactionAdded u r _) m = m\<lparr>msg_reactions := msg_reactions m @ [(u, r)]\<rparr>"
| "message_apply_event (ReactionRemoved u r _) m = m\<lparr>msg_reactions := filter (\<lambda>x. x \<noteq> (u, r)) (msg_reactions m)\<rparr>"

definition message_apply :: "MessageEvent \<Rightarrow> Message \<Rightarrow> Message" where
  "message_apply event m =
     (let m' = message_apply_event event m in m'\<lparr>msg_version := ObjectVersion_next (msg_version m')\<rparr>)"

section \<open>Connection requests\<close>

datatype ConnectionRequestStatus = Pending | Accepted | Declined | Revoked

fun connection_status_debug :: "ConnectionRequestStatus \<Rightarrow> string" where
  "connection_status_debug Pending = ''Pending''"
| "connection_status_debug Accepted = ''Accepted''"
| "connection_status_debug Declined = ''Declined''"
| "connection_status_debug Revoked = ''Revoked''"

datatype ConnectionRequestError =
    InvalidTransition string
  | SelfRequest
  | Unauthorized string

datatype ConnectionRequestCommand =
    SendConnectionRequest UserId
  | AcceptConnectionRequest
  | DeclineConnectionRequest
  | RevokeConnectionRequest

datatype ConnectionRequestEvent =
    ConnectionRequestSent ConnectionRequestId UserId UserId Timestamp
  | ConnectionRequestAccepted Timestamp
  | ConnectionRequestDeclined Timestamp
  | ConnectionRequestRevoked Timestamp

record ConnectionRequest =
  conn_id :: ConnectionRequestId
  conn_version :: ObjectVersion
  conn_lifecycle_epoch :: LifecycleEpoch
  conn_authority_epoch :: AuthorityEpoch
  conn_status :: ConnectionRequestStatus
  conn_sender_id :: UserId
  conn_recipient_id :: UserId

fun connection_create ::
    "ConnectionRequestCommand \<Rightarrow> DecisionContext \<Rightarrow> (ConnectionRequestEvent list, ConnectionRequestError) result" where
  "connection_create (SendConnectionRequest recipient_id) context =
     (if recipient_id = user_id (ctx_actor context) then Inl SelfRequest
      else Inr [ConnectionRequestSent (ctx_object_id context 0) (user_id (ctx_actor context)) recipient_id (trusted_now context)])"
| "connection_create _ context =
     Inl (InvalidTransition ''ConnectionRequest::create() called with a non-SendConnectionRequest command'')"

fun connection_from_created_event :: "ConnectionRequestEvent \<Rightarrow> ConnectionRequest option" where
  "connection_from_created_event (ConnectionRequestSent rid sender_id recipient_id _) =
     Some \<lparr>conn_id = rid,
           conn_version = ObjectVersion_INITIAL,
           conn_lifecycle_epoch = LifecycleEpoch_INITIAL,
           conn_authority_epoch = AuthorityEpoch_INITIAL,
           conn_status = Pending,
           conn_sender_id = sender_id,
           conn_recipient_id = recipient_id\<rparr>"
| "connection_from_created_event _ = None"

definition connection_invalid :: "ConnectionRequest \<Rightarrow> string \<Rightarrow> ConnectionRequestError" where
  "connection_invalid r command = InvalidTransition (command @ '' from '' @ connection_status_debug (conn_status r))"

definition connection_decide ::
    "ConnectionRequest \<Rightarrow> ConnectionRequestCommand \<Rightarrow> DecisionContext \<Rightarrow> (ConnectionRequestEvent list, ConnectionRequestError) result" where
  "connection_decide r command context =
     (if \<not> is_authorized (ctx_authority context) ''communication.connection_request.command''
        then Inl (Unauthorized ''actor lacks required authority'')
      else case command of
        SendConnectionRequest _ \<Rightarrow>
          Inl (InvalidTransition ''SendConnectionRequest must be dispatched via ConnectionRequest::create(), not decide()'')
      | AcceptConnectionRequest \<Rightarrow>
          if conn_status r = Pending then
            (if user_id (ctx_actor context) \<noteq> conn_recipient_id r
               then Inl (Unauthorized ''only the recipient may accept a connection request'')
             else Inr [ConnectionRequestAccepted (trusted_now context)])
          else Inl (connection_invalid r ''AcceptConnectionRequest'')
      | DeclineConnectionRequest \<Rightarrow>
          if conn_status r = Pending then
            (if user_id (ctx_actor context) \<noteq> conn_recipient_id r
               then Inl (Unauthorized ''only the recipient may decline a connection request'')
             else Inr [ConnectionRequestDeclined (trusted_now context)])
          else Inl (connection_invalid r ''DeclineConnectionRequest'')
      | RevokeConnectionRequest \<Rightarrow>
          if conn_status r = Pending then
            (if user_id (ctx_actor context) \<noteq> conn_sender_id r
               then Inl (Unauthorized ''only the sender may revoke a connection request'')
             else Inr [ConnectionRequestRevoked (trusted_now context)])
          else Inl (connection_invalid r ''RevokeConnectionRequest''))"

definition connection_enter :: "ConnectionRequestStatus \<Rightarrow> ConnectionRequest \<Rightarrow> ConnectionRequest" where
  "connection_enter s r = r\<lparr>conn_status := s, conn_lifecycle_epoch := LifecycleEpoch_advance (conn_lifecycle_epoch r)\<rparr>"

fun connection_apply_event :: "ConnectionRequestEvent \<Rightarrow> ConnectionRequest \<Rightarrow> ConnectionRequest" where
  "connection_apply_event (ConnectionRequestSent _ _ _ _) r = r"
| "connection_apply_event (ConnectionRequestAccepted _) r = connection_enter Accepted r"
| "connection_apply_event (ConnectionRequestDeclined _) r = connection_enter Declined r"
| "connection_apply_event (ConnectionRequestRevoked _) r = connection_enter Revoked r"

definition connection_apply :: "ConnectionRequestEvent \<Rightarrow> ConnectionRequest \<Rightarrow> ConnectionRequest" where
  "connection_apply event r =
     (let r' = connection_apply_event event r in r'\<lparr>conn_version := ObjectVersion_next (conn_version r')\<rparr>)"

section \<open>The aggregates\<close>

inductive conversation_transition :: "ConversationStatus \<Rightarrow> ConversationStatus \<Rightarrow> bool" where
  archive: "conversation_transition Active Archived"

inductive message_transition :: "MessageStatus \<Rightarrow> MessageStatus \<Rightarrow> bool" where
  edit: "message_transition Posted Edited"
| redact: "s \<in> {Posted, Edited} \<Longrightarrow> message_transition s Redacted"

inductive connection_transition :: "ConnectionRequestStatus \<Rightarrow> ConnectionRequestStatus \<Rightarrow> bool" where
  settle: "s \<in> {Accepted, Declined, Revoked} \<Longrightarrow> connection_transition Pending s"

inductive_simps message_transition_from_redacted [simp]: "message_transition Redacted s"

lemmas conversation_defs [agg_simps] = conversation_decide_def conversation_apply_def
lemmas message_defs [agg_simps] = message_decide_def message_apply_def
lemmas connection_defs [agg_simps] = connection_decide_def connection_apply_def connection_enter_def

lemma conversation_decide_cases:
  assumes "conversation_decide c cmd ctx = Inr es"
  obtains u b t where "cmd = AddMember u b" and "es = [ConversationMemberAdded u t]" and "conv_status c = Active"
      and "u \<notin> set (conv_members c)" and "conv_type c = SubTeam \<Longrightarrow> b"
  | reason t where "cmd = ArchiveConversation reason" and "es = [ConversationArchived t reason]" and "conv_status c = Active"
  using assms by (cases cmd) (auto simp: conversation_decide_def split: if_splits)

lemma message_decide_cases:
  assumes "message_decide m cmd ctx = Inr es"
  obtains body t where "cmd = EditMessage body" and "message_body_new body = Inr body" and "es = [MessageEdited body t]" and "is_mutable m"
  | reason t where "cmd = RedactMessage reason" and "es = [MessageRedacted reason t]" and "is_mutable m"
  | s r where "cmd = AddReaction s \<or> cmd = RemoveReaction s" and "es = []" and "is_mutable m" and "reaction_code_new s = Inr r"
      and "(user_id (ctx_actor ctx), r) \<in> set (msg_reactions m) \<longleftrightarrow> cmd = AddReaction s"
  | s r t where "cmd = AddReaction s" and "es = [ReactionAdded (user_id (ctx_actor ctx)) r t]" and "is_mutable m"
      and "reaction_code_new s = Inr r" and "(user_id (ctx_actor ctx), r) \<notin> set (msg_reactions m)"
  | s r t where "cmd = RemoveReaction s" and "es = [ReactionRemoved (user_id (ctx_actor ctx)) r t]" and "is_mutable m"
      and "reaction_code_new s = Inr r" and "(user_id (ctx_actor ctx), r) \<in> set (msg_reactions m)"
  using assms by (cases cmd) (auto simp: message_decide_def message_body_new_def split: if_splits sum.splits)

lemma connection_decide_cases:
  assumes "connection_decide r cmd ctx = Inr es"
  obtains t where "cmd = AcceptConnectionRequest" and "es = [ConnectionRequestAccepted t]" and "conn_status r = Pending" and "user_id (ctx_actor ctx) = conn_recipient_id r"
  | t where "cmd = DeclineConnectionRequest" and "es = [ConnectionRequestDeclined t]" and "conn_status r = Pending" and "user_id (ctx_actor ctx) = conn_recipient_id r"
  | t where "cmd = RevokeConnectionRequest" and "es = [ConnectionRequestRevoked t]" and "conn_status r = Pending" and "user_id (ctx_actor ctx) = conn_sender_id r"
  using assms by (cases cmd) (auto simp: connection_decide_def split: if_splits)

interpretation conversation: lifecycle_aggregate conv_id conv_version conv_lifecycle_epoch conv_authority_epoch
    conversation_decide conversation_apply conv_status conversation_transition
proof
  fix e c
  show "conv_id (conversation_apply e c) = conv_id c" by (cases e) (simp_all add: agg_simps)
  show "conv_version (conversation_apply e c) = ObjectVersion_next (conv_version c)" by (cases e) (simp_all add: agg_simps)
  show "conv_lifecycle_epoch (conversation_apply e c) \<in> {conv_lifecycle_epoch c, LifecycleEpoch_advance (conv_lifecycle_epoch c)}"
    by (cases e) (simp_all add: agg_simps)
  show "conv_authority_epoch (conversation_apply e c) \<in> {conv_authority_epoch c, AuthorityEpoch_advance (conv_authority_epoch c)}"
    by (cases e) (simp_all add: agg_simps)
qed (erule conversation_decide_cases; simp add: conversation_apply_def Let_def kernel_simps conversation_transition.intros)+

interpretation conversation_single: single_event_aggregate conv_id conv_version conv_lifecycle_epoch conv_authority_epoch
    conversation_decide conversation_apply
  by unfold_locales (erule conversation_decide_cases, auto)

interpretation message: status_aggregate msg_id msg_version msg_lifecycle_epoch msg_authority_epoch
    message_decide message_apply msg_status message_transition
proof
  fix e m
  show "msg_id (message_apply e m) = msg_id m" by (cases e) (simp_all add: agg_simps)
  show "msg_version (message_apply e m) = ObjectVersion_next (msg_version m)" by (cases e) (simp_all add: agg_simps)
  show "msg_lifecycle_epoch (message_apply e m) \<in> {msg_lifecycle_epoch m, LifecycleEpoch_advance (msg_lifecycle_epoch m)}"
    by (cases e) (simp_all add: agg_simps)
  show "msg_authority_epoch (message_apply e m) \<in> {msg_authority_epoch m, AuthorityEpoch_advance (msg_authority_epoch m)}"
    by (cases e) (simp_all add: agg_simps)
qed (erule message_decide_cases, auto simp: message_apply_def Let_def is_mutable_def intro: message_transition.intros)

interpretation connection: lifecycle_aggregate conn_id conn_version conn_lifecycle_epoch conn_authority_epoch
    connection_decide connection_apply conn_status connection_transition
proof
  fix e r
  show "conn_id (connection_apply e r) = conn_id r" by (cases e) (simp_all add: agg_simps)
  show "conn_version (connection_apply e r) = ObjectVersion_next (conn_version r)" by (cases e) (simp_all add: agg_simps)
  show "conn_lifecycle_epoch (connection_apply e r) \<in> {conn_lifecycle_epoch r, LifecycleEpoch_advance (conn_lifecycle_epoch r)}"
    by (cases e) (simp_all add: agg_simps)
  show "conn_authority_epoch (connection_apply e r) \<in> {conn_authority_epoch r, AuthorityEpoch_advance (conn_authority_epoch r)}"
    by (cases e) (simp_all add: agg_simps)
qed (erule connection_decide_cases; simp add: connection_apply_def connection_enter_def Let_def kernel_simps connection_transition.intros)+

interpretation connection_single: single_event_aggregate conn_id conn_version conn_lifecycle_epoch conn_authority_epoch
    connection_decide connection_apply
  by unfold_locales (erule connection_decide_cases, auto)

section \<open>Who takes part in a conversation\<close>

text \<open>The members of a conversation: no repetitions, and the authority epoch counts the additions.\<close>

definition conversation_ok :: "UserId \<Rightarrow> Conversation \<Rightarrow> bool" where
  "conversation_ok creator c \<longleftrightarrow> distinct (conv_members c) \<and> conv_members c \<noteq> [] \<and> hd (conv_members c) = creator
     \<and> (conv_parent_supergroup c \<noteq> None \<longleftrightarrow> conv_type c = SubTeam)
     \<and> conv_authority_epoch c = of_nat (length (conv_members c) - 1)"

lemma conversation_created_ok:
  assumes "conversation_create cmd ctx = Inr es" and "conversation_from_created_event (hd es) = Some c"
  shows "conversation_ok (user_id (ctx_actor ctx)) c"
proof -
  from assms(1) obtain ctype parent where "cmd = CreateConversation ctype parent" "check_parent_supergroup ctype parent = Inr ()"
    "es = [ConversationCreated (ctx_object_id ctx 0) ctype parent (user_id (ctx_actor ctx)) (trusted_now ctx)]"
    by (cases cmd) (auto split: sum.splits)
  with assms(2) show ?thesis
    by (cases ctype; cases parent) (auto simp: conversation_ok_def AuthorityEpoch_INITIAL_def split: if_splits)
qed

lemma conversation_step_ok:
  assumes "conversation_ok creator c" and "conversation_decide c cmd ctx = Inr es"
  shows "conversation_ok creator (fold conversation_apply es c)"
  using assms(2)
proof (cases rule: conversation_decide_cases)
  case (1 u b t)
  have "conv_members c \<noteq> []" using assms(1) by (simp add: conversation_ok_def)
  then have "of_nat (length (conv_members c)) = of_nat (length (conv_members c) - 1) + (1 :: AuthorityEpoch)"
    by (cases "conv_members c") simp_all
  with 1 assms(1) show ?thesis by (simp add: conversation_ok_def conversation_apply_def AuthorityEpoch_advance_def Let_def)
next
  case (2 reason t)
  with assms(1) show ?thesis by (simp add: conversation_ok_def conversation_apply_def Let_def)
qed

lemma conversation_members_grow:
  "\<exists>us. conv_members (foldl (execute conversation_decide conversation_apply) c cmds) = conv_members c @ us"
proof (rule conversation.run_invariant)
  fix a cmd ctx es
  assume IH: "\<exists>us. conv_members a = conv_members c @ us" and "conversation_decide a cmd ctx = Inr es"
  from this(2) show "\<exists>us. conv_members (fold conversation_apply es a) = conv_members c @ us"
    by (cases rule: conversation_decide_cases) (use IH in \<open>auto simp: conversation_apply_def Let_def\<close>)
qed simp

lemma conversation_archived_inert: "conv_status c = Archived \<Longrightarrow> \<exists>e. conversation_decide c cmd ctx = Inl e"
  by (cases "conversation_decide c cmd ctx") (auto elim: conversation_decide_cases)

text \<open>
  C25. Membership of a conversation. However a conversation came about and whatever commands followed, its first member is its creator,
  no one is a member twice, a parent supergroup is set exactly for sub-teams, members are only ever added, at the end, and the authority epoch
  counts the additions, so that it changes whenever membership does (up to wrap-around at \<open>2^64\<close>); into a sub-team nobody is added without
  the flag of parent membership; an archived conversation does not change at all.
\<close>

theorem conversation_membership:
  assumes "conversation_create cmd ctx = Inr es" and "conversation_from_created_event (hd es) = Some c0"
    and "c = foldl (execute conversation_decide conversation_apply) c0 cmds" and "c' = foldl (execute conversation_decide conversation_apply) c cmds'"
  shows "distinct (conv_members c) \<and> (\<exists>us. conv_members c = user_id (ctx_actor ctx) # us)
    \<and> (conv_parent_supergroup c \<noteq> None \<longleftrightarrow> conv_type c = SubTeam)
    \<and> prefix (conv_members c) (conv_members c')
    \<and> conv_authority_epoch c' = conv_authority_epoch c + of_nat (length (conv_members c') - length (conv_members c))
    \<and> (conv_type c = SubTeam \<longrightarrow> (\<exists>e. conversation_decide c (AddMember u False) ctx' = Inl e))
    \<and> (conv_status c = Archived \<longrightarrow> c' = c)"
proof -
  let ?run = "foldl (execute conversation_decide conversation_apply)"
  note ok0 = conversation_created_ok [OF assms(1,2)]
  have ok: "conversation_ok (user_id (ctx_actor ctx)) (?run c0 cs)" for cs
    by (rule conversation.run_invariant [OF conversation_step_ok ok0])
  have okc: "conversation_ok (user_id (ctx_actor ctx)) c" "conversation_ok (user_id (ctx_actor ctx)) c'"
    using ok [of cmds] ok [of "cmds @ cmds'"] by (simp_all add: assms(3,4))
  obtain us where us: "conv_members c' = conv_members c @ us" using conversation_members_grow assms(4) by blast
  have "conv_authority_epoch c' = conv_authority_epoch c + of_nat (length (conv_members c') - length (conv_members c))"
  proof -
    have "conv_members c \<noteq> []" using okc(1) by (simp add: conversation_ok_def)
    then have "length (conv_members c') - 1 = length (conv_members c) - 1 + length us" using us by (cases "conv_members c") auto
    with okc us show ?thesis by (simp add: conversation_ok_def)
  qed
  moreover have "\<exists>us. conv_members c = user_id (ctx_actor ctx) # us"
    using okc(1) by (cases "conv_members c") (auto simp: conversation_ok_def)
  moreover have "\<exists>e. conversation_decide c (AddMember u False) ctx' = Inl e" if "conv_type c = SubTeam"
    using that by (cases "conversation_decide c (AddMember u False) ctx'") (auto elim: conversation_decide_cases)
  moreover have "c' = c" if "conv_status c = Archived"
    unfolding assms(4) by (rule conversation.run_inert) (rule conversation_archived_inert [OF that])
  ultimately show ?thesis using okc(1) us by (simp add: conversation_ok_def)
qed

section \<open>Messages and reactions\<close>

definition message_body_ok :: "string \<Rightarrow> bool" where
  "message_body_ok s \<longleftrightarrow> \<not> trim_is_empty s \<and> length s \<le> MessageBody_MAX_LEN"

lemma message_body_new_Inr: "message_body_new s = Inr b \<longleftrightarrow> b = s \<and> message_body_ok s"
  by (auto simp: message_body_new_def message_body_ok_def)

lemma reaction_code_new_Inr:
  "reaction_code_new s = Inr r \<longleftrightarrow> s \<noteq> [] \<and> length s \<le> 16 \<and> r = s @ replicate (16 - length s) (CHR 0x00)"
  by (auto simp: reaction_code_new_def ReactionCode_MAX_LEN_def)

definition message_ok :: "Message \<Rightarrow> bool" where
  "message_ok m \<longleftrightarrow> (if msg_status m = Redacted then msg_body m = [] else message_body_ok (msg_body m))
     \<and> distinct (msg_reactions m) \<and> (\<forall>(u, r) \<in> set (msg_reactions m). length r = ReactionCode_MAX_LEN)"

text \<open>What no command changes.\<close>

definition message_frame :: "Message \<Rightarrow> MessageId \<times> ConversationId \<times> UserId \<times> LifecycleEpoch \<times> AuthorityEpoch" where
  "message_frame m = (msg_id m, msg_conversation_id m, msg_author_id m, msg_lifecycle_epoch m, msg_authority_epoch m)"

lemma message_created_ok:
  assumes "message_create cmd ctx = Inr es" and "message_from_created_event (hd es) = Some m"
  shows "message_ok m \<and> msg_author_id m = user_id (ctx_actor ctx) \<and> msg_status m = Posted"
  using assms by (cases cmd) (auto simp: message_body_new_Inr message_ok_def split: sum.splits)

lemma message_step_ok:
  assumes "message_ok m" and "message_decide m cmd ctx = Inr es"
  shows "message_ok (fold message_apply es m) \<and> message_frame (fold message_apply es m) = message_frame m"
  using assms(2)
  by (cases rule: message_decide_cases)
     (use assms(1) in \<open>auto simp: message_ok_def message_frame_def message_apply_def Let_def message_body_new_Inr reaction_code_new_Inr
        is_mutable_def ReactionCode_MAX_LEN_def\<close>)

lemma message_run_ok:
  assumes "message_ok m"
  shows "message_ok (foldl (execute message_decide message_apply) m cmds)
    \<and> message_frame (foldl (execute message_decide message_apply) m cmds) = message_frame m"
  by (rule message.run_invariant [where I = "\<lambda>a. message_ok a \<and> message_frame a = message_frame m"]) (use assms message_step_ok in auto)

lemma message_redacted_inert: "msg_status m = Redacted \<Longrightarrow> \<exists>e. message_decide m cmd ctx = Inl e"
  by (cases "message_decide m cmd ctx") (auto elim: message_decide_cases simp: is_mutable_def)

text \<open>
  C26. A message is well formed at every time. Its text is a valid body, not blank and of at most 8000 bytes, until it is redacted, and empty
  from then on; no one has the same reaction twice and every code has 16 bytes; author, conversation and both epochs are those of its creation
  (the epochs do not move when a message is edited or redacted); a redacted message accepts no command any more.
\<close>

theorem message_well_formed:
  assumes "message_create cmd ctx = Inr es" and "message_from_created_event (hd es) = Some m0"
    and "m = foldl (execute message_decide message_apply) m0 cmds"
  shows "(msg_status m = Redacted \<longrightarrow> msg_body m = [])
    \<and> (msg_status m \<noteq> Redacted \<longrightarrow> \<not> trim_is_empty (msg_body m) \<and> length (msg_body m) \<le> 8000)
    \<and> distinct (msg_reactions m) \<and> (\<forall>(u, r) \<in> set (msg_reactions m). length r = 16)
    \<and> message_frame m = message_frame m0 \<and> msg_author_id m = user_id (ctx_actor ctx)
    \<and> (msg_status m = Redacted \<longrightarrow> foldl (execute message_decide message_apply) m cmds' = m)"
proof -
  note ok0 = message_created_ok [OF assms(1,2)]
  then have "message_ok m" "message_frame m = message_frame m0" using message_run_ok [of m0 cmds] assms(3) by simp_all
  moreover have "foldl (execute message_decide message_apply) m cmds' = m" if "msg_status m = Redacted"
    by (rule message.run_inert) (rule message_redacted_inert [OF that])
  ultimately show ?thesis using ok0
    by (auto simp: message_ok_def message_body_ok_def MessageBody_MAX_LEN_def ReactionCode_MAX_LEN_def message_frame_def split: if_splits)
qed

text \<open>The abstract view of the reactions: a set of pairs on which every user owns its own part.\<close>

definition reaction_set :: "Message \<Rightarrow> (UserId \<times> ReactionCode) set" where
  "reaction_set m = set (msg_reactions m)"

fun reaction_spec :: "UserId \<Rightarrow> MessageCommand \<Rightarrow> (UserId \<times> ReactionCode) set \<Rightarrow> (UserId \<times> ReactionCode) set" where
  "reaction_spec u (AddReaction s) R = (case reaction_code_new s of Inl _ \<Rightarrow> R | Inr r \<Rightarrow> insert (u, r) R)"
| "reaction_spec u (RemoveReaction s) R = (case reaction_code_new s of Inl _ \<Rightarrow> R | Inr r \<Rightarrow> R - {(u, r)})"
| "reaction_spec u _ R = R"

lemma reaction_step:
  assumes "is_mutable m" and "is_authorized (ctx_authority (snd cmd)) ''communication.command''"
  shows "reaction_set (execute message_decide message_apply m cmd) = reaction_spec (user_id (ctx_actor (snd cmd))) (fst cmd) (reaction_set m)"
  using assms by (cases "fst cmd")
    (auto simp: execute_def message_decide_def message_apply_def Let_def reaction_set_def split: sum.splits)

text \<open>
  C27. The stored list of reactions implements a set. While the message can be changed, adding and removing act on it as insertion and deletion of
  the pair of the acting user and the code, so that repeating either changes nothing, and no command touches the reactions of another user.
\<close>

theorem reactions_implement_set:
  assumes "is_mutable m" and "is_authorized (ctx_authority ctx) ''communication.command''"
    and "m' = execute message_decide message_apply m (cmd, ctx)" and "is_mutable m'"
  shows "reaction_set m' = reaction_spec (user_id (ctx_actor ctx)) cmd (reaction_set m)
    \<and> reaction_set (execute message_decide message_apply m' (cmd, ctx)) = reaction_set m'
    \<and> (\<forall>u r. u \<noteq> user_id (ctx_actor ctx) \<longrightarrow> ((u, r) \<in> reaction_set m' \<longleftrightarrow> (u, r) \<in> reaction_set m))"
proof -
  have step: "reaction_set m' = reaction_spec (user_id (ctx_actor ctx)) cmd (reaction_set m)"
    "reaction_set (execute message_decide message_apply m' (cmd, ctx)) = reaction_spec (user_id (ctx_actor ctx)) cmd (reaction_set m')"
    using reaction_step [of m "(cmd, ctx)"] reaction_step [of m' "(cmd, ctx)"] assms by simp_all
  then show ?thesis by (cases cmd) (auto split: sum.splits)
qed

text \<open>
  A reaction code gives its text back: from a code built from valid UTF-8 one reads the text up to the first zero byte, all of it when there is
  none; codes without zero bytes are equal only for equal texts.
\<close>

theorem reaction_code_roundtrip:
  assumes "reaction_code_new s = Inr r" and "utf8_valid s"
  shows "reaction_code_as_str r = takeWhile (\<lambda>b. b \<noteq> CHR 0x00) s
    \<and> (CHR 0x00 \<notin> set s \<longrightarrow> reaction_code_as_str r = s \<and> reaction_code_new (reaction_code_as_str r) = Inr r)
    \<and> (CHR 0x00 \<notin> set s \<and> CHR 0x00 \<notin> set s' \<and> reaction_code_new s' = Inr r \<longrightarrow> s' = s)"
proof -
  have tw: "takeWhile (\<lambda>b. b \<noteq> CHR 0x00) (t @ replicate n (CHR 0x00)) = takeWhile (\<lambda>b. b \<noteq> CHR 0x00) t" for t n
    by (induction t) (auto simp: takeWhile_eq_Nil_iff intro: Suc_lessI)
  have nz: "takeWhile (\<lambda>b. b \<noteq> CHR 0x00) t = t" if "CHR 0x00 \<notin> set t" for t :: string
    using that by (auto simp: takeWhile_eq_all_conv)
  have r: "takeWhile (\<lambda>b. b \<noteq> CHR 0x00) r = takeWhile (\<lambda>b. b \<noteq> CHR 0x00) t" if "reaction_code_new t = Inr r" for t
    using that tw by (auto simp: reaction_code_new_Inr)
  have str: "reaction_code_as_str r = takeWhile (\<lambda>b. b \<noteq> CHR 0x00) s"
    using utf8_valid_until_zero [OF assms(2)] by (simp add: reaction_code_as_str_def r [OF assms(1)])
  moreover have "reaction_code_as_str r = s" "reaction_code_new (reaction_code_as_str r) = Inr r" if "CHR 0x00 \<notin> set s"
    using str nz [OF that] assms(1) by simp_all
  moreover have "s' = s" if "CHR 0x00 \<notin> set s" "CHR 0x00 \<notin> set s'" "reaction_code_new s' = Inr r"
    using r [OF assms(1)] r [OF that(3)] nz [OF that(1)] nz [OF that(2)] by simp
  ultimately show ?thesis by blast
qed

section \<open>Deciding a connection request\<close>

lemma connection_settled_inert: "conn_status r \<noteq> Pending \<Longrightarrow> \<exists>e. connection_decide r cmd ctx = Inl e"
  by (cases "connection_decide r cmd ctx") (auto elim: connection_decide_cases)

fun settles :: "ConnectionRequest \<Rightarrow> ConnectionRequestCommand \<Rightarrow> UserId \<Rightarrow> ConnectionRequestStatus \<Rightarrow> bool" where
  "settles r AcceptConnectionRequest u s = (s = Accepted \<and> u = conn_recipient_id r)"
| "settles r DeclineConnectionRequest u s = (s = Declined \<and> u = conn_recipient_id r)"
| "settles r RevokeConnectionRequest u s = (s = Revoked \<and> u = conn_sender_id r)"
| "settles r (SendConnectionRequest _) u s = False"

lemma connection_step:
  "execute connection_decide connection_apply r cmd = r
   \<or> settles r (fst cmd) (user_id (ctx_actor (snd cmd))) (conn_status (execute connection_decide connection_apply r cmd))
     \<and> conn_status (execute connection_decide connection_apply r cmd) \<noteq> Pending"
proof (cases "connection_decide r (fst cmd) (snd cmd)")
  case (Inr es)
  from Inr show ?thesis
    by (cases rule: connection_decide_cases) (use Inr in \<open>auto simp: execute_def connection_apply_def connection_enter_def Let_def\<close>)
qed (simp add: execute_def)

lemma connection_run:
  assumes "conn_status (foldl (execute connection_decide connection_apply) r cmds) \<noteq> conn_status r" and "conn_status r = Pending"
  shows "\<exists>(cmd, ctx) \<in> set cmds. settles r cmd (user_id (ctx_actor ctx)) (conn_status (foldl (execute connection_decide connection_apply) r cmds))"
  using assms
proof (induction cmds)
  case (Cons cmd cmds)
  let ?r = "execute connection_decide connection_apply r cmd"
  from connection_step [of r cmd] show ?case
  proof
    assume "?r = r"
    with Cons show ?case by auto
  next
    assume "settles r (fst cmd) (user_id (ctx_actor (snd cmd))) (conn_status ?r) \<and> conn_status ?r \<noteq> Pending"
    moreover from this have "foldl (execute connection_decide connection_apply) ?r cmds = ?r"
      by (intro connection.run_inert connection_settled_inert) simp
    ultimately show ?case by (auto split: prod.splits)
  qed
qed simp

text \<open>
  Nobody is connected against their will. A request has two different parties; if it left the pending state, then by a command of the party
  that may give it, accepted or declined by the recipient, revoked by the sender, and a settled request does not change any more.
\<close>

theorem connection_by_consent:
  assumes "connection_create cmd ctx = Inr es" and "connection_from_created_event (hd es) = Some r0"
    and "r = foldl (execute connection_decide connection_apply) r0 cmds"
  shows "conn_sender_id r0 = user_id (ctx_actor ctx) \<and> conn_sender_id r0 \<noteq> conn_recipient_id r0
    \<and> (conn_status r = Pending
       \<or> (\<exists>(cmd, ctx) \<in> set cmds. settles r0 cmd (user_id (ctx_actor ctx)) (conn_status r))
         \<and> foldl (execute connection_decide connection_apply) r cmds' = r)"
proof -
  have new: "conn_sender_id r0 = user_id (ctx_actor ctx)" "conn_sender_id r0 \<noteq> conn_recipient_id r0" "conn_status r0 = Pending"
    using assms(1,2) by (cases cmd; auto split: if_splits)+
  have "foldl (execute connection_decide connection_apply) r cmds' = r" if "conn_status r \<noteq> Pending"
    by (rule connection.run_inert) (rule connection_settled_inert [OF that])
  with new connection_run [of r0 cmds] show ?thesis unfolding assms(3) [symmetric] by auto
qed

section \<open>Witnesses\<close>

definition comm_ctx :: "UserId \<Rightarrow> DecisionContext" where
  "comm_ctx u = \<lparr>ctx_actor = \<lparr>user_id = u, device_id = 2, actor_organization_id = 3\<rparr>,
     ctx_authority = VerifiedAuthority, trusted_now = 10, policy_outcomes = PolicyDecisionSet, ctx_object_id = (\<lambda>n. 100 + of_nat n)\<rparr>"

lemmas comm_eval = comm_ctx_def is_authorized_def execute_def agg_simps is_mutable_def message_body_new_def reaction_code_new_def
  ReactionCode_MAX_LEN_def MessageBody_MAX_LEN_def

theorem conversation_membership_witness:
  "conv_members (foldl (execute conversation_decide conversation_apply)
      \<lparr>conv_id = 100, conv_version = ObjectVersion_INITIAL, conv_lifecycle_epoch = LifecycleEpoch_INITIAL, conv_authority_epoch = AuthorityEpoch_INITIAL,
       conv_status = Active, conv_type = SubTeam, conv_parent_supergroup = Some 9, conv_members = [1]\<rparr> [(AddMember 2 True, comm_ctx 1)]) = [1, 2]
   \<and> prefix [1, 2] (conv_members (foldl (execute conversation_decide conversation_apply)
      \<lparr>conv_id = 100, conv_version = ObjectVersion_INITIAL, conv_lifecycle_epoch = LifecycleEpoch_INITIAL, conv_authority_epoch = AuthorityEpoch_INITIAL,
       conv_status = Active, conv_type = SubTeam, conv_parent_supergroup = Some 9, conv_members = [1]\<rparr>
      [(AddMember 2 True, comm_ctx 1), (AddMember 3 False, comm_ctx 1)]))"
proof -
  have c: "conversation_create (CreateConversation SubTeam (Some 9)) (comm_ctx 1) = Inr [ConversationCreated 100 SubTeam (Some 9) 1 10]"
    by (simp add: comm_ctx_def)
  from conversation_membership [OF c _ refl refl, where cmds = "[(AddMember 2 True, comm_ctx 1)]" and cmds' = "[(AddMember 3 False, comm_ctx 1)]"]
  show ?thesis by (simp add: comm_eval)
qed

theorem message_well_formed_witness:
  "\<exists>m. message_from_created_event (MessagePosted 100 7 1 ''hi'' 10) = Some m
     \<and> msg_author_id (foldl (execute message_decide message_apply) m [(AddReaction ''ok'', comm_ctx 2), (RedactMessage ''x'', comm_ctx 3)]) = 1
     \<and> msg_body (foldl (execute message_decide message_apply) m [(AddReaction ''ok'', comm_ctx 2), (RedactMessage ''x'', comm_ctx 3)]) = []"
proof -
  have c: "message_create (PostMessage 7 ''hi'') (comm_ctx 1) = Inr [MessagePosted 100 7 1 ''hi'' 10]"
    by (simp add: comm_ctx_def message_body_new_def MessageBody_MAX_LEN_def)
  from message_well_formed [OF c _ refl, where cmds = "[(AddReaction ''ok'', comm_ctx 2), (RedactMessage ''x'', comm_ctx 3)]"]
  show ?thesis by (simp add: comm_eval)
qed

theorem reactions_implement_set_witness:
  "reaction_set (execute message_decide message_apply \<lparr>msg_id = 1, msg_version = 0, msg_lifecycle_epoch = 0, msg_authority_epoch = 0, msg_status = Posted,
      msg_conversation_id = 2, msg_author_id = 3, msg_body = ''x'', msg_reactions = []\<rparr> (AddReaction ''0123456789abcdef'', comm_ctx 4)) = {(4, ''0123456789abcdef'')}"
  using reactions_implement_set [of "\<lparr>msg_id = 1, msg_version = 0, msg_lifecycle_epoch = 0, msg_authority_epoch = 0, msg_status = Posted,
      msg_conversation_id = 2, msg_author_id = 3, msg_body = ''x'', msg_reactions = []\<rparr>" "comm_ctx 4" _ "AddReaction ''0123456789abcdef''", OF _ _ refl]
  by (simp add: comm_eval reaction_set_def)

theorem reaction_code_roundtrip_witness:
  "\<exists>r. reaction_code_new ''ok'' = Inr r \<and> reaction_code_as_str r = ''ok''"
  using reaction_code_roundtrip [of "''ok''"] by (simp add: reaction_code_new_def ReactionCode_MAX_LEN_def)

theorem connection_by_consent_witness:
  "\<exists>r0 r. connection_from_created_event (ConnectionRequestSent 100 1 2 10) = Some r0
     \<and> r = foldl (execute connection_decide connection_apply) r0 [(AcceptConnectionRequest, comm_ctx 1), (AcceptConnectionRequest, comm_ctx 2)]
     \<and> conn_status r = Accepted \<and> foldl (execute connection_decide connection_apply) r [(RevokeConnectionRequest, comm_ctx 1)] = r"
proof -
  have c: "connection_create (SendConnectionRequest 2) (comm_ctx 1) = Inr [ConnectionRequestSent 100 1 2 10]"
    by (simp add: comm_ctx_def)
  from connection_by_consent [OF c _ refl, where cmds = "[(AcceptConnectionRequest, comm_ctx 1), (AcceptConnectionRequest, comm_ctx 2)]"
      and cmds' = "[(RevokeConnectionRequest, comm_ctx 1)]"]
  show ?thesis by (simp add: comm_eval)
qed

end
