(* ===== verification/File_Domain.thy ===== *)
theory File_Domain
  imports Contracts "HOL-Library.Sublist"
begin

text \<open>
  File assets and upload sessions (\<open>crates/domains/file-domain\<close>). An asset keeps who may read it and its versions; an upload
  session counts the chunks of one transfer. Sizes are \<open>u64\<close> and chunk indices \<open>u32\<close>; their additions wrap as in a release build.
  The \<open>Debug\<close> form of a user id, which only appears in error texts, is rendered by the uuid crate: a parameter.
\<close>

section \<open>Values\<close>

type_synonym FileAssetId = ObjectId
type_synonym UploadSessionId = ObjectId

definition MAX_FILE_SIZE_BYTES :: u64 where
  "MAX_FILE_SIZE_BYTES = 100 * 1024 * 1024"

definition FileName_MAX_LEN :: nat where
  "FileName_MAX_LEN = 255"

definition file_name_new :: "string \<Rightarrow> (string, string) result" where
  "file_name_new name =
     (if trim_is_empty name then Inl ''file name must not be empty''
      else if length name > FileName_MAX_LEN
        then Inl (''file name exceeds '' @ show_nat FileName_MAX_LEN @ '' bytes (was '' @ show_nat (length name) @ '')'')
      else Inr name)"

definition mime_type_new :: "string \<Rightarrow> (string, string) result" where
  "mime_type_new mime = (if trim_is_empty mime then Inl ''mime type must not be empty'' else Inr mime)"

definition content_hash_new :: "string \<Rightarrow> (string, string) result" where
  "content_hash_new h = (if trim_is_empty h then Inl ''content hash must not be empty'' else Inr h)"

record FileVersionRecord =
  fv_content_hash :: string
  fv_size_bytes :: u64
  fv_created_at :: Timestamp

section \<open>File assets\<close>

datatype FileAssetStatus = Active | Quarantined | Archived

fun file_status_debug :: "FileAssetStatus \<Rightarrow> string" where
  "file_status_debug Active = ''Active''"
| "file_status_debug Quarantined = ''Quarantined''"
| "file_status_debug Archived = ''Archived''"

datatype FileAssetError =
    InvalidTransition string
  | MissingField string
  | Unauthorized string
  | FileTooLarge string
  | InvalidAccessState string

datatype FileAssetCommand =
    CreateFileAsset string string
  | CreateVersion string u64
  | GrantFileAccess UserId
  | RevokeFileAccess UserId
  | QuarantineFile string
  | ArchiveFile "string option"

datatype FileAssetEvent =
    FileAssetCreated FileAssetId string string UserId Timestamp
  | FileVersionCreated string u64 Timestamp
  | FileAccessGranted UserId Timestamp
  | FileAccessRevoked UserId Timestamp
  | FileQuarantined string Timestamp
  | FileArchived "string option" Timestamp

record FileAsset =
  file_id :: FileAssetId
  file_version :: ObjectVersion
  file_lifecycle_epoch :: LifecycleEpoch
  file_authority_epoch :: AuthorityEpoch
  file_status :: FileAssetStatus
  file_name :: string
  file_mime_type :: string
  file_owner_id :: UserId
  file_access :: "UserId list"
  file_versions :: "FileVersionRecord list"

fun file_create :: "FileAssetCommand \<Rightarrow> DecisionContext \<Rightarrow> (FileAssetEvent list, FileAssetError) result" where
  "file_create (CreateFileAsset name mime) context =
     (case file_name_new name of
        Inl err \<Rightarrow> Inl (MissingField err)
      | Inr name \<Rightarrow> (case mime_type_new mime of
          Inl err \<Rightarrow> Inl (MissingField err)
        | Inr mime \<Rightarrow> Inr [FileAssetCreated (ctx_object_id context 0) name mime (user_id (ctx_actor context)) (trusted_now context)]))"
| "file_create _ context = Inl (InvalidTransition ''FileAsset::create() called with a non-CreateFileAsset command'')"

text \<open>\<open>None\<close> is the panic on any other event.\<close>

fun file_from_created_event :: "FileAssetEvent \<Rightarrow> FileAsset option" where
  "file_from_created_event (FileAssetCreated fid name mime owner_id _) =
     Some \<lparr>file_id = fid,
           file_version = ObjectVersion_INITIAL,
           file_lifecycle_epoch = LifecycleEpoch_INITIAL,
           file_authority_epoch = AuthorityEpoch_INITIAL,
           file_status = Active,
           file_name = name,
           file_mime_type = mime,
           file_owner_id = owner_id,
           file_access = [owner_id],
           file_versions = []\<rparr>"
| "file_from_created_event _ = None"

definition file_invalid :: "FileAsset \<Rightarrow> string \<Rightarrow> FileAssetError" where
  "file_invalid f command = InvalidTransition (command @ '' from '' @ file_status_debug (file_status f))"

definition file_decide ::
    "(UserId \<Rightarrow> string) \<Rightarrow> FileAsset \<Rightarrow> FileAssetCommand \<Rightarrow> DecisionContext \<Rightarrow> (FileAssetEvent list, FileAssetError) result" where
  "file_decide user_debug f command context =
     (if \<not> is_authorized (ctx_authority context) ''file.command''
        then Inl (Unauthorized ''actor lacks required authority'')
      else case command of
        CreateFileAsset _ _ \<Rightarrow>
          Inl (InvalidTransition ''CreateFileAsset must be dispatched via FileAsset::create(), not decide()'')
      | CreateVersion content_hash size_bytes \<Rightarrow>
          if file_status f = Active then
            (if size_bytes > MAX_FILE_SIZE_BYTES
               then Inl (FileTooLarge (show_nat (unat size_bytes) @ '' exceeds '' @ show_nat (unat MAX_FILE_SIZE_BYTES)))
             else case content_hash_new content_hash of
                 Inl err \<Rightarrow> Inl (MissingField err)
               | Inr content_hash \<Rightarrow> Inr [FileVersionCreated content_hash size_bytes (trusted_now context)])
          else Inl (file_invalid f ''CreateVersion'')
      | GrantFileAccess u \<Rightarrow>
          if file_status f = Active then
            (if u \<in> set (file_access f) then Inl (InvalidAccessState (user_debug u @ '' already has access''))
             else Inr [FileAccessGranted u (trusted_now context)])
          else Inl (file_invalid f ''GrantFileAccess'')
      | RevokeFileAccess u \<Rightarrow>
          if u \<notin> set (file_access f) then Inl (InvalidAccessState (user_debug u @ '' does not have access''))
          else Inr [FileAccessRevoked u (trusted_now context)]
      | QuarantineFile reason \<Rightarrow>
          if file_status f = Active then Inr [FileQuarantined reason (trusted_now context)]
          else Inl (file_invalid f ''QuarantineFile'')
      | ArchiveFile reason \<Rightarrow>
          if file_status f = Archived then Inl (file_invalid f ''ArchiveFile'')
          else Inr [FileArchived reason (trusted_now context)])"

fun file_apply_event :: "FileAssetEvent \<Rightarrow> FileAsset \<Rightarrow> FileAsset" where
  "file_apply_event (FileAssetCreated _ _ _ _ _) f = f"
| "file_apply_event (FileVersionCreated content_hash size_bytes created_at) f =
     f\<lparr>file_versions := file_versions f @ [\<lparr>fv_content_hash = content_hash, fv_size_bytes = size_bytes, fv_created_at = created_at\<rparr>]\<rparr>"
| "file_apply_event (FileAccessGranted u _) f =
     f\<lparr>file_access := file_access f @ [u], file_authority_epoch := AuthorityEpoch_advance (file_authority_epoch f)\<rparr>"
| "file_apply_event (FileAccessRevoked u _) f =
     f\<lparr>file_access := filter (\<lambda>x. x \<noteq> u) (file_access f), file_authority_epoch := AuthorityEpoch_advance (file_authority_epoch f)\<rparr>"
| "file_apply_event (FileQuarantined _ _) f =
     f\<lparr>file_status := Quarantined, file_lifecycle_epoch := LifecycleEpoch_advance (file_lifecycle_epoch f)\<rparr>"
| "file_apply_event (FileArchived _ _) f =
     f\<lparr>file_status := Archived, file_lifecycle_epoch := LifecycleEpoch_advance (file_lifecycle_epoch f)\<rparr>"

definition file_apply :: "FileAssetEvent \<Rightarrow> FileAsset \<Rightarrow> FileAsset" where
  "file_apply event f = (let f' = file_apply_event event f in f'\<lparr>file_version := ObjectVersion_next (file_version f')\<rparr>)"

section \<open>Upload sessions\<close>

datatype UploadSessionStatus = InProgress | Finalized

fun upload_status_debug :: "UploadSessionStatus \<Rightarrow> string" where
  "upload_status_debug InProgress = ''InProgress''"
| "upload_status_debug Finalized = ''Finalized''"

datatype UploadSessionError =
    InvalidTransition string
  | FileTooLarge string
  | InvalidChunk string
  | Incomplete string
  | Unauthorized string

datatype UploadSessionCommand =
    StartUpload FileAssetId u64
  | AppendChunk u32 u64 string
  | FinalizeUpload string

datatype UploadSessionEvent =
    UploadStarted UploadSessionId FileAssetId u64 Timestamp
  | ChunkAccepted u32 u64 string Timestamp
  | UploadFinalized string Timestamp

record UploadSession =
  us_id :: UploadSessionId
  us_version :: ObjectVersion
  us_lifecycle_epoch :: LifecycleEpoch
  us_authority_epoch :: AuthorityEpoch
  us_status :: UploadSessionStatus
  us_file_asset_id :: FileAssetId
  us_declared_total_size :: u64
  us_received_bytes :: u64
  us_next_chunk_index :: u32
  us_chunk_hashes :: "string list"

fun upload_create :: "UploadSessionCommand \<Rightarrow> DecisionContext \<Rightarrow> (UploadSessionEvent list, UploadSessionError) result" where
  "upload_create (StartUpload file_asset_id total_size) context =
     (if total_size > MAX_FILE_SIZE_BYTES
        then Inl (FileTooLarge (''declared total '' @ show_nat (unat total_size) @ '' exceeds '' @ show_nat (unat MAX_FILE_SIZE_BYTES)))
      else Inr [UploadStarted (ctx_object_id context 0) file_asset_id total_size (trusted_now context)])"
| "upload_create _ context = Inl (InvalidTransition ''UploadSession::create() called with a non-StartUpload command'')"

fun upload_from_created_event :: "UploadSessionEvent \<Rightarrow> UploadSession option" where
  "upload_from_created_event (UploadStarted sid file_asset_id declared_total_size _) =
     Some \<lparr>us_id = sid,
           us_version = ObjectVersion_INITIAL,
           us_lifecycle_epoch = LifecycleEpoch_INITIAL,
           us_authority_epoch = AuthorityEpoch_INITIAL,
           us_status = InProgress,
           us_file_asset_id = file_asset_id,
           us_declared_total_size = declared_total_size,
           us_received_bytes = 0,
           us_next_chunk_index = 0,
           us_chunk_hashes = []\<rparr>"
| "upload_from_created_event _ = None"

definition upload_invalid :: "UploadSession \<Rightarrow> string \<Rightarrow> UploadSessionError" where
  "upload_invalid u command = InvalidTransition (command @ '' from '' @ upload_status_debug (us_status u))"

definition chunk_too_large :: "UploadSession \<Rightarrow> u64 \<Rightarrow> u64 \<Rightarrow> UploadSessionError" where
  "chunk_too_large u chunk_size projected_total =
     FileTooLarge (''appending '' @ show_nat (unat chunk_size) @ '' bytes would bring the session to '' @ show_nat (unat projected_total)
       @ '', exceeding its declared total of '' @ show_nat (unat (us_declared_total_size u)) @ '' (cap '' @ show_nat (unat MAX_FILE_SIZE_BYTES) @ '')'')"

definition upload_decide ::
    "UploadSession \<Rightarrow> UploadSessionCommand \<Rightarrow> DecisionContext \<Rightarrow> (UploadSessionEvent list, UploadSessionError) result" where
  "upload_decide u command context =
     (if \<not> is_authorized (ctx_authority context) ''file.command''
        then Inl (Unauthorized ''actor lacks required authority'')
      else case command of
        StartUpload _ _ \<Rightarrow>
          Inl (InvalidTransition ''StartUpload must be dispatched via UploadSession::create(), not decide()'')
      | AppendChunk chunk_index chunk_size chunk_hash \<Rightarrow>
          if us_status u \<noteq> InProgress then Inl (upload_invalid u ''AppendChunk'')
          else if chunk_index \<noteq> us_next_chunk_index u
            then Inl (InvalidChunk (''expected chunk '' @ show_nat (unat (us_next_chunk_index u)) @ '', got '' @ show_nat (unat chunk_index)))
          else (let projected_total = us_received_bytes u + chunk_size
                in if projected_total > MAX_FILE_SIZE_BYTES \<or> projected_total > us_declared_total_size u
                     then Inl (chunk_too_large u chunk_size projected_total)
                   else case content_hash_new chunk_hash of
                       Inl err \<Rightarrow> Inl (InvalidChunk err)
                     | Inr chunk_hash \<Rightarrow> Inr [ChunkAccepted chunk_index chunk_size chunk_hash (trusted_now context)])
      | FinalizeUpload final_hash \<Rightarrow>
          if us_status u \<noteq> InProgress then Inl (upload_invalid u ''FinalizeUpload'')
          else if us_received_bytes u \<noteq> us_declared_total_size u
            then Inl (Incomplete (''received '' @ show_nat (unat (us_received_bytes u)) @ '' of '' @ show_nat (unat (us_declared_total_size u)) @ '' declared bytes''))
          else (case content_hash_new final_hash of
                  Inl err \<Rightarrow> Inl (InvalidChunk err)
                | Inr final_hash \<Rightarrow> Inr [UploadFinalized final_hash (trusted_now context)]))"

fun upload_apply_event :: "UploadSessionEvent \<Rightarrow> UploadSession \<Rightarrow> UploadSession" where
  "upload_apply_event (UploadStarted _ _ _ _) u = u"
| "upload_apply_event (ChunkAccepted chunk_index chunk_size chunk_hash _) u =
     u\<lparr>us_received_bytes := us_received_bytes u + chunk_size, us_next_chunk_index := chunk_index + 1,
       us_chunk_hashes := us_chunk_hashes u @ [chunk_hash]\<rparr>"
| "upload_apply_event (UploadFinalized _ _) u =
     u\<lparr>us_status := Finalized, us_lifecycle_epoch := LifecycleEpoch_advance (us_lifecycle_epoch u)\<rparr>"

definition upload_apply :: "UploadSessionEvent \<Rightarrow> UploadSession \<Rightarrow> UploadSession" where
  "upload_apply event u = (let u' = upload_apply_event event u in u'\<lparr>us_version := ObjectVersion_next (us_version u')\<rparr>)"

section \<open>The aggregates\<close>

inductive file_transition :: "FileAssetStatus \<Rightarrow> FileAssetStatus \<Rightarrow> bool" where
  quarantine: "file_transition Active Quarantined"
| archive: "s \<in> {Active, Quarantined} \<Longrightarrow> file_transition s Archived"

inductive upload_transition :: "UploadSessionStatus \<Rightarrow> UploadSessionStatus \<Rightarrow> bool" where
  finalize: "upload_transition InProgress Finalized"

lemmas file_defs [agg_simps] = file_decide_def file_apply_def
lemmas upload_defs [agg_simps] = upload_decide_def upload_apply_def

lemma content_hash_new_Inr [simp]: "content_hash_new h = Inr b \<longleftrightarrow> b = h \<and> \<not> trim_is_empty h"
  by (auto simp: content_hash_new_def)

lemma file_decide_cases:
  assumes "file_decide dbg f cmd ctx = Inr es"
  obtains h n t where "cmd = CreateVersion h n" and "es = [FileVersionCreated h n t]" and "file_status f = Active" and "n \<le> MAX_FILE_SIZE_BYTES" and "\<not> trim_is_empty h"
  | u t where "cmd = GrantFileAccess u" and "es = [FileAccessGranted u t]" and "file_status f = Active" and "u \<notin> set (file_access f)"
  | u t where "cmd = RevokeFileAccess u" and "es = [FileAccessRevoked u t]" and "u \<in> set (file_access f)"
  | r t where "cmd = QuarantineFile r" and "es = [FileQuarantined r t]" and "file_status f = Active"
  | r t where "cmd = ArchiveFile r" and "es = [FileArchived r t]" and "file_status f \<noteq> Archived"
  using assms by (cases cmd) (auto simp: file_decide_def split: if_splits sum.splits)

lemma upload_decide_cases:
  assumes "upload_decide u cmd ctx = Inr es"
  obtains n h t where "cmd = AppendChunk (us_next_chunk_index u) n h" and "es = [ChunkAccepted (us_next_chunk_index u) n h t]" and "us_status u = InProgress"
      and "us_received_bytes u + n \<le> MAX_FILE_SIZE_BYTES" and "us_received_bytes u + n \<le> us_declared_total_size u" and "\<not> trim_is_empty h"
  | h t where "cmd = FinalizeUpload h" and "es = [UploadFinalized h t]" and "us_status u = InProgress" and "us_received_bytes u = us_declared_total_size u"
  using assms by (cases cmd) (auto simp: upload_decide_def Let_def not_less split: if_splits sum.splits)

interpretation asset: lifecycle_aggregate file_id file_version file_lifecycle_epoch file_authority_epoch
    "file_decide dbg" file_apply file_status file_transition for dbg
proof
  fix e f
  show "file_id (file_apply e f) = file_id f" by (cases e) (simp_all add: agg_simps)
  show "file_version (file_apply e f) = ObjectVersion_next (file_version f)" by (cases e) (simp_all add: agg_simps)
  show "file_lifecycle_epoch (file_apply e f) \<in> {file_lifecycle_epoch f, LifecycleEpoch_advance (file_lifecycle_epoch f)}"
    by (cases e) (simp_all add: agg_simps)
  show "file_authority_epoch (file_apply e f) \<in> {file_authority_epoch f, AuthorityEpoch_advance (file_authority_epoch f)}"
    by (cases e) (simp_all add: agg_simps)
next
  fix f c ctx es
  assume "file_decide dbg f c ctx = Inr es"
  then show "file_status (fold file_apply es f) = file_status f \<or> file_transition (file_status f) (file_status (fold file_apply es f))"
    by (cases rule: file_decide_cases; cases "file_status f") (auto simp: file_apply_def Let_def intro: file_transition.intros)
qed (erule file_decide_cases, auto simp: file_apply_def Let_def kernel_simps)

interpretation asset_single: single_event_aggregate file_id file_version file_lifecycle_epoch file_authority_epoch
    "file_decide dbg" file_apply for dbg
  by unfold_locales (erule file_decide_cases, auto)

interpretation upload: lifecycle_aggregate us_id us_version us_lifecycle_epoch us_authority_epoch
    upload_decide upload_apply us_status upload_transition
proof
  fix e u
  show "us_id (upload_apply e u) = us_id u" by (cases e) (simp_all add: agg_simps)
  show "us_version (upload_apply e u) = ObjectVersion_next (us_version u)" by (cases e) (simp_all add: agg_simps)
  show "us_lifecycle_epoch (upload_apply e u) \<in> {us_lifecycle_epoch u, LifecycleEpoch_advance (us_lifecycle_epoch u)}"
    by (cases e) (simp_all add: agg_simps)
  show "us_authority_epoch (upload_apply e u) \<in> {us_authority_epoch u, AuthorityEpoch_advance (us_authority_epoch u)}"
    by (cases e) (simp_all add: agg_simps)
qed (erule upload_decide_cases, auto simp: upload_apply_def Let_def kernel_simps intro: upload_transition.intros)+

interpretation upload_single: single_event_aggregate us_id us_version us_lifecycle_epoch us_authority_epoch
    upload_decide upload_apply
  by unfold_locales (erule upload_decide_cases, auto)

section \<open>Access to a file and its versions\<close>

definition file_ok :: "FileAsset \<Rightarrow> bool" where
  "file_ok f \<longleftrightarrow> distinct (file_access f) \<and> \<not> trim_is_empty (file_name f) \<and> length (file_name f) \<le> FileName_MAX_LEN
     \<and> (\<forall>v \<in> set (file_versions f). fv_size_bytes v \<le> MAX_FILE_SIZE_BYTES \<and> \<not> trim_is_empty (fv_content_hash v))"

lemma file_created_ok:
  assumes "file_create cmd ctx = Inr es" and "file_from_created_event (hd es) = Some f"
  shows "file_ok f"
  using assms by (cases cmd) (auto simp: file_ok_def file_name_new_def split: sum.splits if_splits)

lemma file_step:
  assumes "file_ok f" and "file_decide dbg f cmd ctx = Inr es" and "f' = fold file_apply es f"
  shows "file_ok f' \<and> prefix (file_versions f) (file_versions f')
    \<and> (file_status f \<noteq> Active \<longrightarrow> file_status f' \<noteq> Active \<and> file_versions f' = file_versions f \<and> set (file_access f') \<subseteq> set (file_access f))"
  using assms(2)
  by (cases rule: file_decide_cases) (use assms(1) in \<open>auto simp: assms(3) file_ok_def file_apply_def Let_def\<close>)

lemma file_step_authority:
  assumes "file_decide dbg f cmd ctx = Inr es" and "f' = fold file_apply es f"
  shows "set (file_access f') \<noteq> set (file_access f) \<longleftrightarrow> file_authority_epoch f' = file_authority_epoch f + 1"
  using assms(1)
  by (cases rule: file_decide_cases) (auto simp: assms(2) file_apply_def Let_def AuthorityEpoch_advance_def)

lemma file_run:
  assumes "file_ok f"
  shows "file_ok (foldl (execute (file_decide dbg) file_apply) f cmds)
    \<and> prefix (file_versions f) (file_versions (foldl (execute (file_decide dbg) file_apply) f cmds))
    \<and> (file_status f \<noteq> Active \<longrightarrow> file_status (foldl (execute (file_decide dbg) file_apply) f cmds) \<noteq> Active
        \<and> file_versions (foldl (execute (file_decide dbg) file_apply) f cmds) = file_versions f
        \<and> set (file_access (foldl (execute (file_decide dbg) file_apply) f cmds)) \<subseteq> set (file_access f))"
proof (rule asset.run_invariant [where I = "\<lambda>a. file_ok a \<and> prefix (file_versions f) (file_versions a)
    \<and> (file_status f \<noteq> Active \<longrightarrow> file_status a \<noteq> Active \<and> file_versions a = file_versions f \<and> set (file_access a) \<subseteq> set (file_access f))"])
  fix a c ctx es
  assume IH: "file_ok a \<and> prefix (file_versions f) (file_versions a)
      \<and> (file_status f \<noteq> Active \<longrightarrow> file_status a \<noteq> Active \<and> file_versions a = file_versions f \<and> set (file_access a) \<subseteq> set (file_access f))"
    and d: "file_decide dbg a c ctx = Inr es"
  with file_step [OF _ d refl]
  show "file_ok (fold file_apply es a) \<and> prefix (file_versions f) (file_versions (fold file_apply es a))
      \<and> (file_status f \<noteq> Active \<longrightarrow> file_status (fold file_apply es a) \<noteq> Active \<and> file_versions (fold file_apply es a) = file_versions f
          \<and> set (file_access (fold file_apply es a)) \<subseteq> set (file_access f))"
    by (auto intro: prefix_order.trans)
qed (use assms in simp)

text \<open>
  The record of a file. Whatever commands follow its creation, the access list has no repetitions, the versions are kept in their order, each
  with a hash and at most 100 MiB; after quarantine or archival the file gets no new version and nobody gains access, but a user who has
  access can still lose it, in every state, and then does not regain it; a command changes who has access exactly if it moves the authority epoch.
\<close>

theorem file_record:
  assumes "file_create cmd ctx = Inr es" and "file_from_created_event (hd es) = Some f0"
    and "f = foldl (execute (file_decide dbg) file_apply) f0 cmds" and "f' = foldl (execute (file_decide dbg) file_apply) f cmds'"
  shows "distinct (file_access f) \<and> (\<forall>v \<in> set (file_versions f). unat (fv_size_bytes v) \<le> 104857600 \<and> \<not> trim_is_empty (fv_content_hash v))
    \<and> prefix (file_versions f) (file_versions f')
    \<and> (file_status f \<noteq> Active \<longrightarrow> file_versions f' = file_versions f \<and> set (file_access f') \<subseteq> set (file_access f))
    \<and> (u \<in> set (file_access f) \<and> is_authorized (ctx_authority ctx') ''file.command'' \<longrightarrow>
        set (file_access (execute (file_decide dbg) file_apply f (RevokeFileAccess u, ctx'))) = set (file_access f) - {u})
    \<and> (set (file_access (execute (file_decide dbg) file_apply f (cmd', ctx'))) \<noteq> set (file_access f)
        \<longleftrightarrow> file_authority_epoch (execute (file_decide dbg) file_apply f (cmd', ctx')) = file_authority_epoch f + 1)"
proof -
  have ok: "file_ok f" using file_run [OF file_created_ok [OF assms(1,2)]] assms(3) by simp
  have "set (file_access (execute (file_decide dbg) file_apply f (cmd', ctx'))) \<noteq> set (file_access f)
      \<longleftrightarrow> file_authority_epoch (execute (file_decide dbg) file_apply f (cmd', ctx')) = file_authority_epoch f + 1"
    using file_step_authority [of dbg f cmd' ctx'] by (cases "file_decide dbg f cmd' ctx'") (auto simp: execute_def)
  moreover have "set (file_access (execute (file_decide dbg) file_apply f (RevokeFileAccess u, ctx'))) = set (file_access f) - {u}"
    if "u \<in> set (file_access f)" "is_authorized (ctx_authority ctx') ''file.command''"
    using that by (auto simp: execute_def file_decide_def file_apply_def Let_def)
  moreover have "\<forall>v \<in> set (file_versions f). unat (fv_size_bytes v) \<le> 104857600 \<and> \<not> trim_is_empty (fv_content_hash v)"
    using ok by (auto simp: file_ok_def MAX_FILE_SIZE_BYTES_def word_le_nat_alt)
  ultimately show ?thesis using file_run [OF ok, of dbg cmds'] ok assms(4) by (simp add: file_ok_def)
qed

section \<open>The account of an upload\<close>

text \<open>The bytes that a sequence of commands brought in: the sizes of the accepted chunks.\<close>

fun accepted_bytes :: "UploadSession \<Rightarrow> (UploadSessionCommand \<times> DecisionContext) list \<Rightarrow> nat" where
  "accepted_bytes u [] = 0"
| "accepted_bytes u ((cmd, ctx) # cmds) =
     (case (cmd, upload_decide u cmd ctx) of (AppendChunk _ n _, Inr _) \<Rightarrow> unat n | _ \<Rightarrow> 0)
     + accepted_bytes (execute upload_decide upload_apply u (cmd, ctx)) cmds"

definition upload_ok :: "UploadSession \<Rightarrow> bool" where
  "upload_ok u \<longleftrightarrow> us_received_bytes u \<le> us_declared_total_size u \<and> us_declared_total_size u \<le> MAX_FILE_SIZE_BYTES
     \<and> us_next_chunk_index u = of_nat (length (us_chunk_hashes u)) \<and> (us_status u = Finalized \<longrightarrow> us_received_bytes u = us_declared_total_size u)"

lemma upload_created_ok:
  assumes "upload_create cmd ctx = Inr es" and "upload_from_created_event (hd es) = Some u"
  shows "upload_ok u \<and> us_received_bytes u = 0"
  using assms by (cases cmd) (auto simp: upload_ok_def not_less split: if_splits)

lemma upload_step_ok:
  assumes "upload_ok u" and "upload_decide u cmd ctx = Inr es"
  shows "upload_ok (fold upload_apply es u)"
  using assms(2)
  by (cases rule: upload_decide_cases) (use assms(1) in \<open>auto simp: upload_ok_def upload_apply_def Let_def algebra_simps\<close>)

lemma upload_finalized_inert: "us_status u = Finalized \<Longrightarrow> \<exists>e. upload_decide u cmd ctx = Inl e"
  by (cases "upload_decide u cmd ctx") (auto elim: upload_decide_cases)

lemma upload_received_step:
  "us_received_bytes (execute upload_decide upload_apply u (cmd, ctx))
     = us_received_bytes u + of_nat (case (cmd, upload_decide u cmd ctx) of (AppendChunk _ n _, Inr _) \<Rightarrow> unat n | _ \<Rightarrow> 0)"
proof (cases "upload_decide u cmd ctx")
  case (Inl e)
  then show ?thesis by (cases cmd) (simp_all add: execute_def)
next
  case (Inr es)
  from Inr show ?thesis
    by (cases rule: upload_decide_cases) (use Inr in \<open>auto simp: execute_def upload_apply_def Let_def\<close>)
qed

lemma upload_received:
  "us_received_bytes (foldl (execute upload_decide upload_apply) u cmds) = us_received_bytes u + of_nat (accepted_bytes u cmds)"
proof (induction cmds arbitrary: u)
  case (Cons c cmds)
  obtain cmd ctx where c: "c = (cmd, ctx)" by (cases c)
  show ?case using Cons [of "execute upload_decide upload_apply u c"] by (simp add: c upload_received_step)
qed simp

lemma accepted_step:
  assumes "upload_ok u" and "\<And>i n h. cmd = AppendChunk i n h \<Longrightarrow> unat n < 2 ^ 63"
  shows "unat (us_received_bytes (execute upload_decide upload_apply u (cmd, ctx)))
    = unat (us_received_bytes u) + (case (cmd, upload_decide u cmd ctx) of (AppendChunk _ n _, Inr _) \<Rightarrow> unat n | _ \<Rightarrow> 0)"
proof -
  have "unat (us_received_bytes u) \<le> 104857600"
    using assms(1) unfolding upload_ok_def MAX_FILE_SIZE_BYTES_def word_le_nat_alt by simp
  then have "unat (us_received_bytes u + n) = unat (us_received_bytes u) + unat n" if "unat n < 2 ^ 63" for n
    using that by (simp add: unat_plus_simple [THEN iffD1] no_olen_add_nat)
  with assms(2) show ?thesis unfolding upload_received_step
    by (cases cmd; cases "upload_decide u cmd ctx") auto
qed

lemma accepted_exact:
  assumes "upload_ok u" and "\<And>i n h ctx. (AppendChunk i n h, ctx) \<in> set cmds \<Longrightarrow> unat n < 2 ^ 63"
  shows "unat (us_received_bytes (foldl (execute upload_decide upload_apply) u cmds)) = unat (us_received_bytes u) + accepted_bytes u cmds"
  using assms
proof (induction cmds arbitrary: u)
  case (Cons c cmds)
  obtain cmd ctx where c: "c = (cmd, ctx)" by (cases c)
  let ?u = "execute upload_decide upload_apply u (cmd, ctx)"
  have ok: "upload_ok ?u"
    using upload_step_ok [OF Cons.prems(1), of cmd ctx] Cons.prems(1) by (cases "upload_decide u cmd ctx") (simp_all add: execute_def)
  have small: "unat n < 2 ^ 63" if "cmd = AppendChunk i n h" for i n h using Cons.prems(2) that c by auto
  have "unat (us_received_bytes (foldl (execute upload_decide upload_apply) ?u cmds)) = unat (us_received_bytes ?u) + accepted_bytes ?u cmds"
    by (rule Cons.IH [OF ok]) (use Cons.prems(2) in auto)
  then show ?case unfolding c using accepted_step [OF Cons.prems(1), of cmd ctx, OF small] by simp
qed simp

text \<open>
  C28. The account of an upload. At every point the received bytes are at most the declared size and that at most 100 MiB, chunks are numbered
  in the order of arrival, a finalized session has received exactly what was declared and changes no more; as long as no chunk announces
  \<open>2^63\<close> bytes or more, the received bytes are the sum of the sizes of the accepted chunks.
\<close>

theorem upload_account:
  assumes "upload_create cmd ctx = Inr es" and "upload_from_created_event (hd es) = Some u0"
    and "u = foldl (execute upload_decide upload_apply) u0 cmds"
  shows "us_received_bytes u \<le> us_declared_total_size u \<and> unat (us_declared_total_size u) \<le> 104857600
    \<and> us_next_chunk_index u = of_nat (length (us_chunk_hashes u))
    \<and> (us_status u = Finalized \<longrightarrow> us_received_bytes u = us_declared_total_size u \<and> foldl (execute upload_decide upload_apply) u cmds' = u)
    \<and> ((\<forall>(c, _) \<in> set cmds. \<forall>i n h. c = AppendChunk i n h \<longrightarrow> unat n < 2 ^ 63) \<longrightarrow> unat (us_received_bytes u) = accepted_bytes u0 cmds)"
proof -
  note new = upload_created_ok [OF assms(1,2)]
  have ok: "upload_ok u" unfolding assms(3) by (rule upload.run_invariant) (use new upload_step_ok in simp_all)
  have "foldl (execute upload_decide upload_apply) u cmds' = u" if "us_status u = Finalized"
    by (rule upload.run_inert) (rule upload_finalized_inert [OF that])
  moreover have "unat (us_received_bytes u) = accepted_bytes u0 cmds"
    if chunks: "\<forall>(c, _) \<in> set cmds. \<forall>i n h. c = AppendChunk i n h \<longrightarrow> unat n < 2 ^ 63"
  proof -
    have "unat n < 2 ^ 63" if "(AppendChunk i n h, ctx) \<in> set cmds" for i n h ctx using that chunks by fastforce
    from accepted_exact [OF conjunct1 [OF new] this] show ?thesis using new assms(3) by simp
  qed
  moreover have "unat (us_declared_total_size u) \<le> 104857600"
    using ok by (simp add: upload_ok_def MAX_FILE_SIZE_BYTES_def word_le_nat_alt)
  ultimately show ?thesis using ok unfolding upload_ok_def by blast
qed

lemma unat_uminus:
  fixes w :: u64
  assumes "w \<noteq> 0"
  shows "unat (- w) = 2 ^ 64 - unat w"
proof -
  have p: "0 < uint w" "uint w < 2 ^ 64" using assms uint_lt2p [of w] unsigned_greater_eq [of w] by (simp_all add: order_less_le unsigned_eq_0_iff)
  have "uint (- w) = (- uint w) mod 2 ^ 64" by (simp add: uint_word_ariths)
  also have "\<dots> = 2 ^ 64 - uint w" using p by (simp add: zmod_zminus1_eq_if)
  finally have "unat (- w) = nat (2 ^ 64 - uint w)" by (simp only: unat_eq_nat_uint)
  also have "\<dots> = nat (2 ^ 64) - nat (uint w)" by (rule nat_diff_distrib') (use p in simp_all)
  finally show ?thesis by (simp only: unat_eq_nat_uint nat_power_eq) simp
qed

text \<open>
  C29. The size check can be passed by overflow. The projected total is computed in \<open>u64\<close>: to a running session with received bytes a chunk of
  \<open>2^64\<close> minus these bytes is accepted, whatever was declared, and sets the account back to zero, after which the declared size can
  be sent once more.
\<close>

theorem upload_size_check_wraps:
  assumes "us_status u = InProgress" and "is_authorized (ctx_authority ctx) ''file.command''" and "\<not> trim_is_empty h"
    and "0 < us_received_bytes u"
  shows "\<exists>u'. u' = execute upload_decide upload_apply u (AppendChunk (us_next_chunk_index u) (- us_received_bytes u) h, ctx)
    \<and> us_received_bytes u' = 0 \<and> us_status u' = InProgress \<and> us_declared_total_size u' = us_declared_total_size u
    \<and> accepted_bytes u [(AppendChunk (us_next_chunk_index u) (- us_received_bytes u) h, ctx)] = 2 ^ 64 - unat (us_received_bytes u)"
proof -
  have "upload_decide u (AppendChunk (us_next_chunk_index u) (- us_received_bytes u) h) ctx
      = Inr [ChunkAccepted (us_next_chunk_index u) (- us_received_bytes u) h (trusted_now ctx)]"
    using assms by (simp add: upload_decide_def content_hash_new_def)
  moreover have "unat (- us_received_bytes u) = 2 ^ 64 - unat (us_received_bytes u)"
    using unat_uminus [of "us_received_bytes u"] assms(4) by (simp add: word_neq_0_conv)
  ultimately show ?thesis by (simp add: execute_def upload_apply_def Let_def assms(1))
qed

section \<open>Witnesses\<close>

definition file_ctx :: "UserId \<Rightarrow> DecisionContext" where
  "file_ctx u = \<lparr>ctx_actor = \<lparr>user_id = u, device_id = 2, actor_organization_id = 3\<rparr>,
     ctx_authority = VerifiedAuthority, trusted_now = 10, policy_outcomes = PolicyDecisionSet, ctx_object_id = (\<lambda>n. 100 + of_nat n)\<rparr>"

lemmas file_eval = file_ctx_def is_authorized_def execute_def agg_simps content_hash_new_def MAX_FILE_SIZE_BYTES_def

theorem file_record_witness:
  "\<exists>f0. file_from_created_event (FileAssetCreated 100 ''a.txt'' ''text/plain'' 1 10) = Some f0
     \<and> set (file_access (execute (file_decide (\<lambda>_. ''user'')) file_apply f0 (RevokeFileAccess 1, file_ctx 1))) = {}
     \<and> prefix (file_versions f0) (file_versions (foldl (execute (file_decide (\<lambda>_. ''user'')) file_apply) f0 [(CreateVersion ''h'' 7, file_ctx 1)]))"
proof -
  have c: "file_create (CreateFileAsset ''a.txt'' ''text/plain'') (file_ctx 1) = Inr [FileAssetCreated 100 ''a.txt'' ''text/plain'' 1 10]"
    by (simp add: file_ctx_def file_name_new_def mime_type_new_def FileName_MAX_LEN_def is_ws3_def)
  obtain f0 where f0: "file_from_created_event (FileAssetCreated 100 ''a.txt'' ''text/plain'' 1 10) = Some f0" by simp
  have "file_access f0 = [1]" "is_authorized (ctx_authority (file_ctx 1)) ''file.command''" using f0 by (auto simp: file_ctx_def is_authorized_def)
  with file_record [OF c, of f0 _ "\<lambda>_. ''user''" "[]" _ "[(CreateVersion ''h'' 7, file_ctx 1)]" 1 "file_ctx 1", OF _ refl refl] f0
  show ?thesis by simp
qed

theorem upload_account_witness:
  "\<exists>u0. upload_from_created_event (UploadStarted 100 5 10 10) = Some u0
     \<and> unat (us_received_bytes (foldl (execute upload_decide upload_apply) u0 [(AppendChunk 0 4 ''h'', file_ctx 1), (AppendChunk 1 7 ''h'', file_ctx 1)])) = 4"
proof -
  have c: "upload_create (StartUpload 5 10) (file_ctx 1) = Inr [UploadStarted 100 5 10 10]"
    by (simp add: file_ctx_def MAX_FILE_SIZE_BYTES_def)
  from upload_account [OF c _ refl, where cmds = "[(AppendChunk 0 4 ''h'', file_ctx 1), (AppendChunk 1 7 ''h'', file_ctx 1)]"]
  show ?thesis by (simp add: file_eval)
qed

theorem upload_size_check_wraps_witness:
  "\<exists>u0 u'. upload_from_created_event (UploadStarted 100 5 10 10) = Some u0
     \<and> u' = foldl (execute upload_decide upload_apply) u0 [(AppendChunk 0 10 ''h'', file_ctx 1), (AppendChunk 1 (- 10) ''h'', file_ctx 1)]
     \<and> us_received_bytes u' = 0 \<and> us_status u' = InProgress"
proof -
  obtain u0 where u0: "upload_from_created_event (UploadStarted 100 5 10 10) = Some u0" by simp
  define u where "u = execute upload_decide upload_apply u0 (AppendChunk 0 10 ''h'', file_ctx 1)"
  have u: "us_status u = InProgress" "us_received_bytes u = 10" "us_next_chunk_index u = 1"
    using u0 by (auto simp: u_def file_eval)
  have "is_authorized (ctx_authority (file_ctx 1)) ''file.command''" by (simp add: file_ctx_def is_authorized_def)
  from upload_size_check_wraps [OF u(1) this, of "''h''"] u
  have "us_received_bytes (execute upload_decide upload_apply u (AppendChunk 1 (- 10) ''h'', file_ctx 1)) = 0
    \<and> us_status (execute upload_decide upload_apply u (AppendChunk 1 (- 10) ''h'', file_ctx 1)) = InProgress" by simp
  with u0 show ?thesis unfolding u_def by simp
qed

end
