(* ===== verification/Client_Commands.thy ===== *)
theory Client_Commands
  imports Command_Pipeline Route_Aggregates Communication_Domain File_Domain
begin

text \<open>
  Commands on a client (\<open>crates/applications/client-composition\<close>): the registry that maps a command type to its handler, the creation and
  decision handlers of the aggregates, the cache of the reporting line that answers who may decide for whom, and the composition of all of
  them (\<open>app_state.rs\<close>).

  A client runs the pipeline of the server against its own database, but looks for recorded answers in a store in memory. \<open>ClientSerde\<close> holds
  the JSON conversions that serde derives for the aggregates and their commands; \<open>ClientEnv\<close> what one dispatch takes from outside: the
  clock, random identifiers and faults of the database (\<open>HandlerEnv\<close>), the store in memory and the strategy for owner decisions.
\<close>

section \<open>Texts of the domain errors\<close>

text \<open>The \<open>Display\<close> forms that thiserror derives.\<close>

fun mission_error_string :: "MissionError \<Rightarrow> string" where
  "mission_error_string (MissionError.InvalidTransition e) = ''Invalid mission status transition: '' @ e"
| "mission_error_string (MissionError.MissingField e) = ''Missing required field: '' @ e"
| "mission_error_string (MissionError.Unauthorized e) = ''Unauthorized: '' @ e"
| "mission_error_string (ClosureCriteriaNotMet e) = ''Closure criteria not met: '' @ e"
| "mission_error_string (InvalidBlueprint e) = ''Blueprint invalid: '' @ e"

fun task_error_string :: "TaskError \<Rightarrow> string" where
  "task_error_string (TaskError.InvalidTransition e) = ''Invalid task status transition: '' @ e"
| "task_error_string (TaskError.MissingField e) = ''Missing required field: '' @ e"
| "task_error_string (TaskError.Unauthorized e) = ''Unauthorized: '' @ e"
| "task_error_string (InvalidDependency e) = ''Invalid dependency: '' @ e"
| "task_error_string (MissingCompletionEvidence e) = ''Completion evidence missing: '' @ e"

fun conversation_error_string :: "(UserId \<Rightarrow> string) \<Rightarrow> ConversationError \<Rightarrow> string" where
  "conversation_error_string dbg (ConversationError.InvalidTransition e) = ''Invalid conversation status transition: '' @ e"
| "conversation_error_string dbg (ConversationError.MissingField e) = ''Missing required field: '' @ e"
| "conversation_error_string dbg (ConversationError.Unauthorized e) = ''Unauthorized: '' @ e"
| "conversation_error_string dbg (AlreadyMember u) = ''Already a member: '' @ dbg u"
| "conversation_error_string dbg (InvalidParentSupergroup e) = ''Invalid parent supergroup reference: '' @ e"
| "conversation_error_string dbg NotSupergroupMember = ''User is not a member of the parent supergroup''"

fun message_error_string :: "MessageError \<Rightarrow> string" where
  "message_error_string (MessageError.InvalidTransition e) = ''Invalid message status transition: '' @ e"
| "message_error_string (InvalidBody e) = ''Invalid message body: '' @ e"
| "message_error_string (InvalidReaction e) = ''Invalid reaction: '' @ e"
| "message_error_string (MessageError.Unauthorized e) = ''Unauthorized: '' @ e"

fun connection_error_string :: "ConnectionRequestError \<Rightarrow> string" where
  "connection_error_string (ConnectionRequestError.InvalidTransition e) = ''Invalid connection request status transition: '' @ e"
| "connection_error_string SelfRequest = ''Cannot send a connection request to yourself''"
| "connection_error_string (ConnectionRequestError.Unauthorized e) = ''Unauthorized: '' @ e"

fun file_error_string :: "FileAssetError \<Rightarrow> string" where
  "file_error_string (FileAssetError.InvalidTransition e) = ''Invalid file asset status transition: '' @ e"
| "file_error_string (FileAssetError.MissingField e) = ''Missing required field: '' @ e"
| "file_error_string (FileAssetError.Unauthorized e) = ''Unauthorized: '' @ e"
| "file_error_string (FileAssetError.FileTooLarge e) = ''File version exceeds the maximum allowed size: '' @ e"
| "file_error_string (InvalidAccessState e) = ''Invalid access grant state: '' @ e"

fun upload_error_string :: "UploadSessionError \<Rightarrow> string" where
  "upload_error_string (UploadSessionError.InvalidTransition e) = ''Invalid upload session status transition: '' @ e"
| "upload_error_string (UploadSessionError.FileTooLarge e) = ''Upload exceeds the maximum allowed size: '' @ e"
| "upload_error_string (InvalidChunk e) = ''Invalid chunk: '' @ e"
| "upload_error_string (Incomplete e) = ''Upload incomplete: '' @ e"
| "upload_error_string (UploadSessionError.Unauthorized e) = ''Unauthorized: '' @ e"

section \<open>Parameters\<close>

record 'v ClientSerde =
  cs_mission :: "(Mission, MissionEvent, 'v) Serde"
  cs_mission_command :: "'v \<Rightarrow> MissionCommand option"
  cs_task :: "(Task, TaskEvent, 'v) Serde"
  cs_task_command :: "'v \<Rightarrow> (TaskCommand) option"
  cs_conversation :: "(Conversation, ConversationEvent, 'v) Serde"
  cs_conversation_command :: "'v \<Rightarrow> (ConversationCommand) option"
  cs_message :: "(Message, MessageEvent, 'v) Serde"
  cs_message_command :: "'v \<Rightarrow> (MessageCommand) option"
  cs_file :: "(FileAsset, FileAssetEvent, 'v) Serde"
  cs_file_command :: "'v \<Rightarrow> (FileAssetCommand) option"
  cs_upload :: "(UploadSession, UploadSessionEvent, 'v) Serde"
  cs_upload_command :: "'v \<Rightarrow> (UploadSessionCommand) option"
  cs_policy :: "('v Policy, 'v PolicyEvent, 'v) Serde"
  cs_policy_command :: "'v \<Rightarrow> ('v PolicyCommand) option"
  cs_hold :: "(LegalHold, LegalHoldEvent, 'v) Serde"
  cs_hold_command :: "'v \<Rightarrow> (LegalHoldCommand) option"
  cs_connection :: "(ConnectionRequest, ConnectionRequestEvent, 'v) Serde"
  cs_connection_command :: "'v \<Rightarrow> (ConnectionRequestCommand) option"
  cs_notification :: "(NotificationAggregate, NotificationEvent, 'v) Serde"
  cs_notification_command :: "'v \<Rightarrow> (NotificationCommand) option"

type_synonym 'v InMemoryIdempotencyStore = "(OperationId, 'v) fmap"

record 'v ClientEnv =
  cl_json :: "'v JsonOps"
  cl_serde :: "'v ClientSerde"
  cl_handler :: "'v HandlerEnv"
  cl_creation_result :: "string \<Rightarrow> OperationId \<Rightarrow> ObjectId \<Rightarrow> 'v"
  cl_user_debug :: "UserId \<Rightarrow> string"
  cl_to_iso :: "u64 \<Rightarrow> string"
  cl_owner_authority :: "UserId \<Rightarrow> UserId \<Rightarrow> bool"
  cl_idempotency :: "'v InMemoryIdempotencyStore"

section \<open>Creation\<close>

text \<open>\<open>CreationPanic\<close> stands for the panics of \<open>events[0]\<close> and \<open>from_created_event\<close>.\<close>

datatype CreationError = CreationDomain string | CreationPersistence string | CreationSerialization | CreationPanic

text \<open>What the creation handlers differ in: the aggregate type and the key of the identifier in the answer.\<close>

record ('a, 'c, 'ev, 'err, 'v) CreationOps =
  co_create :: "'c \<Rightarrow> DecisionContext \<Rightarrow> ('ev list, 'err) result"
  co_from_created_event :: "'ev \<Rightarrow> 'a option"
  co_id :: "'a \<Rightarrow> ObjectId"
  co_error_string :: "'err \<Rightarrow> string"
  co_from_payload :: "'v \<Rightarrow> 'c option"
  co_to_value :: "'a \<Rightarrow> 'v option"
  co_aggregate_type :: string
  co_id_key :: string

definition creation_decision_context :: "'v ClientEnv \<Rightarrow> ActorContext \<Rightarrow> DecisionContext" where
  "creation_decision_context E actor =
     \<lparr>ctx_actor = actor, ctx_authority = VerifiedAuthority, trusted_now = env_trusted_now (cl_handler E),
      policy_outcomes = PolicyDecisionSet, ctx_object_id = env_object_id (cl_handler E)\<rparr>"

definition store_created ::
    "('a, 'c, 'ev, 'err, 'v) CreationOps \<Rightarrow> 'v ClientEnv \<Rightarrow> ActorContext \<Rightarrow> OperationId \<Rightarrow> 'a \<Rightarrow> 'v \<Rightarrow> Db \<Rightarrow> Db \<times> ('v, CreationError) result" where
  "store_created C E actor operation_id aggregate aggregate_state db =
     (case begin_fault (cl_handler E) of
        Some e \<Rightarrow> (db, Inl (CreationPersistence (uow_error_string (CommitFailed (''failed to begin transaction: '' @ e)))))
      | None \<Rightarrow>
          (case repo_commit (cl_json E) (co_aggregate_type C) (env_commit_now (cl_handler E)) aggregate_state []
                  (uow_begin (actor_organization_id actor)) of
             Inl err \<Rightarrow> (db, Inl (CreationPersistence (repository_error_string err)))
           | Inr unit \<Rightarrow>
               let result = cl_creation_result E (co_id_key C) operation_id (co_id C aggregate);
                   unit = register_idempotency_result operation_id result unit
               in case uow_commit (cl_json E) (commit_fault (cl_handler E)) unit db of
                    ((db', _), Inl e) \<Rightarrow> (db', Inl (CreationPersistence (uow_error_string e)))
                  | ((db', _), Inr _) \<Rightarrow> (db', Inr result)))"

definition handle_creation ::
    "('a, 'c, 'ev, 'err, 'v) CreationOps \<Rightarrow> 'v ClientEnv \<Rightarrow> 'v \<Rightarrow> ActorContext \<Rightarrow> OperationId \<Rightarrow> Db \<Rightarrow> Db \<times> ('v, CreationError) result" where
  "handle_creation C E payload actor operation_id db =
     (case co_from_payload C payload of
        None \<Rightarrow> (db, Inl CreationSerialization)
      | Some command \<Rightarrow>
          (case co_create C command (creation_decision_context E actor) of
             Inl err \<Rightarrow> (db, Inl (CreationDomain (co_error_string C err)))
           | Inr events \<Rightarrow>
               (case (case events of [] \<Rightarrow> None | event # _ \<Rightarrow> co_from_created_event C event) of
                  None \<Rightarrow> (db, Inl CreationPanic)
                | Some aggregate \<Rightarrow>
                    (case co_to_value C aggregate of
                       None \<Rightarrow> (db, Inl CreationSerialization)
                     | Some aggregate_state \<Rightarrow> store_created C E actor operation_id aggregate aggregate_state db))))"

definition mission_creation :: "'v ClientEnv \<Rightarrow> (Mission, MissionCommand, MissionEvent, MissionError, 'v) CreationOps" where
  "mission_creation E =
     \<lparr>co_create = mission_create, co_from_created_event = mission_from_created_event, co_id = mission_id, co_error_string = mission_error_string,
      co_from_payload = cs_mission_command (cl_serde E), co_to_value = sd_to_value (cs_mission (cl_serde E)),
      co_aggregate_type = ''mission'', co_id_key = ''mission_id''\<rparr>"

definition task_creation :: "'v ClientEnv \<Rightarrow> (Task, TaskCommand, TaskEvent, TaskError, 'v) CreationOps" where
  "task_creation E =
     \<lparr>co_create = task_create, co_from_created_event = task_from_created_event, co_id = task_id, co_error_string = task_error_string,
      co_from_payload = cs_task_command (cl_serde E), co_to_value = sd_to_value (cs_task (cl_serde E)),
      co_aggregate_type = ''task'', co_id_key = ''task_id''\<rparr>"

definition conversation_creation :: "'v ClientEnv \<Rightarrow> (Conversation, ConversationCommand, ConversationEvent, ConversationError, 'v) CreationOps" where
  "conversation_creation E =
     \<lparr>co_create = conversation_create, co_from_created_event = conversation_from_created_event, co_id = conv_id, co_error_string = conversation_error_string (cl_user_debug E),
      co_from_payload = cs_conversation_command (cl_serde E), co_to_value = sd_to_value (cs_conversation (cl_serde E)),
      co_aggregate_type = ''conversation'', co_id_key = ''conversation_id''\<rparr>"

definition message_creation :: "'v ClientEnv \<Rightarrow> (Message, MessageCommand, MessageEvent, MessageError, 'v) CreationOps" where
  "message_creation E =
     \<lparr>co_create = message_create, co_from_created_event = message_from_created_event, co_id = msg_id, co_error_string = message_error_string,
      co_from_payload = cs_message_command (cl_serde E), co_to_value = sd_to_value (cs_message (cl_serde E)),
      co_aggregate_type = ''message'', co_id_key = ''message_id''\<rparr>"

definition file_creation :: "'v ClientEnv \<Rightarrow> (FileAsset, FileAssetCommand, FileAssetEvent, FileAssetError, 'v) CreationOps" where
  "file_creation E =
     \<lparr>co_create = file_create, co_from_created_event = file_from_created_event, co_id = file_id, co_error_string = file_error_string,
      co_from_payload = cs_file_command (cl_serde E), co_to_value = sd_to_value (cs_file (cl_serde E)),
      co_aggregate_type = ''file_asset'', co_id_key = ''file_asset_id''\<rparr>"

definition upload_creation :: "'v ClientEnv \<Rightarrow> (UploadSession, UploadSessionCommand, UploadSessionEvent, UploadSessionError, 'v) CreationOps" where
  "upload_creation E =
     \<lparr>co_create = upload_create, co_from_created_event = upload_from_created_event, co_id = us_id, co_error_string = upload_error_string,
      co_from_payload = cs_upload_command (cl_serde E), co_to_value = sd_to_value (cs_upload (cl_serde E)),
      co_aggregate_type = ''upload_session'', co_id_key = ''upload_session_id''\<rparr>"

definition policy_creation :: "'v ClientEnv \<Rightarrow> ('v Policy, 'v PolicyCommand, 'v PolicyEvent, PolicyError, 'v) CreationOps" where
  "policy_creation E =
     \<lparr>co_create = policy_create, co_from_created_event = policy_from_created_event, co_id = policy_id, co_error_string = policy_error_string,
      co_from_payload = cs_policy_command (cl_serde E), co_to_value = sd_to_value (cs_policy (cl_serde E)),
      co_aggregate_type = ''policy'', co_id_key = ''policy_id''\<rparr>"

definition hold_creation :: "'v ClientEnv \<Rightarrow> (LegalHold, LegalHoldCommand, LegalHoldEvent, LegalHoldError, 'v) CreationOps" where
  "hold_creation E =
     \<lparr>co_create = hold_create, co_from_created_event = hold_from_created_event, co_id = hold_id, co_error_string = hold_error_string,
      co_from_payload = cs_hold_command (cl_serde E), co_to_value = sd_to_value (cs_hold (cl_serde E)),
      co_aggregate_type = ''legal_hold'', co_id_key = ''legal_hold_id''\<rparr>"

definition connection_creation :: "'v ClientEnv \<Rightarrow> (ConnectionRequest, ConnectionRequestCommand, ConnectionRequestEvent, ConnectionRequestError, 'v) CreationOps" where
  "connection_creation E =
     \<lparr>co_create = connection_create, co_from_created_event = connection_from_created_event, co_id = conn_id, co_error_string = connection_error_string,
      co_from_payload = cs_connection_command (cl_serde E), co_to_value = sd_to_value (cs_connection (cl_serde E)),
      co_aggregate_type = ''connection_request'', co_id_key = ''connection_request_id''\<rparr>"

section \<open>Decisions\<close>

text \<open>The arguments of \<open>handle_decision\<close> besides the payload.\<close>

record DecisionArgs =
  da_target_id :: ObjectId
  da_operation_id :: OperationId
  da_actor :: ActorContext
  da_expected_version :: ObjectVersion
  da_expected_lifecycle_epoch :: LifecycleEpoch
  da_expected_authority_epoch :: AuthorityEpoch
  da_vector_clock :: VectorClock
  da_correlation_id :: CorrelationId

definition mem_new :: "'v InMemoryIdempotencyStore" where
  "mem_new = fmempty"

definition mem_get :: "'v InMemoryIdempotencyStore \<Rightarrow> OperationId \<Rightarrow> 'v option" where
  "mem_get store operation_id = fmlookup store operation_id"

definition mem_put :: "'v InMemoryIdempotencyStore \<Rightarrow> OperationId \<Rightarrow> 'v \<Rightarrow> 'v InMemoryIdempotencyStore" where
  "mem_put store operation_id result = fmupd operation_id result store"

text \<open>
  \<open>api_server::handle_command\<close> with the store in memory: step 1 asks that store, which cannot fail, and the steps after it are those of
  the pipeline, in which the table of recorded answers is only written.
\<close>

definition client_handle_command ::
    "'v ClientEnv \<Rightarrow> ('a, 'c, 'ev, 'err, 'v) AggregateOps \<Rightarrow> ('a, 'c) CommandRequest \<Rightarrow> Db \<Rightarrow> Db \<times> ('v, CommandError) result" where
  "client_handle_command E A req db =
     (case mem_get (cl_idempotency E) (req_operation_id req) of
        Some cached \<Rightarrow> (db, Inr cached)
      | None \<Rightarrow>
          (case handle_prepare (cl_json E) A ((cl_handler E)\<lparr>idempotency_fault := None\<rparr>) req (db\<lparr>idempotency := fmempty\<rparr>) of
             Inl e \<Rightarrow> (db, Inl e)
           | Inr (Cached cached) \<Rightarrow> (db, Inr cached)
           | Inr (Staged unit result) \<Rightarrow> handle_finish (cl_json E) (cl_handler E) unit result db))"

definition handle_decision ::
    "('v \<Rightarrow> 'c option) \<Rightarrow> ('a, 'c, 'ev, 'err, 'v) AggregateOps \<Rightarrow> string \<Rightarrow> ('c \<Rightarrow> (('a \<Rightarrow> UserId) \<times> (UserId \<Rightarrow> UserId \<Rightarrow> bool)) option)
      \<Rightarrow> 'v ClientEnv \<Rightarrow> 'v \<Rightarrow> DecisionArgs \<Rightarrow> Db \<Rightarrow> Db \<times> ('v, CommandError) result" where
  "handle_decision from_payload A aggregate_type owner_check E payload args db =
     (case from_payload payload of
        None \<Rightarrow> (db, Inl Serialization)
      | Some command \<Rightarrow>
          client_handle_command E A
            \<lparr>req_command = command, req_target_id = da_target_id args, req_operation_id = da_operation_id args, req_actor = da_actor args,
             req_expected_version = da_expected_version args, req_expected_lifecycle_epoch = da_expected_lifecycle_epoch args,
             req_expected_authority_epoch = da_expected_authority_epoch args, req_vector_clock = da_vector_clock args,
             req_correlation_id = da_correlation_id args, req_aggregate_type_name = aggregate_type,
             req_owner_check = owner_check command\<rparr> db)"

text \<open>Only these commands decide about the work of somebody else.\<close>

fun mission_owner_gated :: "MissionCommand \<Rightarrow> bool" where
  "mission_owner_gated (RejectApproval _) = True"
| "mission_owner_gated (ActivateMission _) = True"
| "mission_owner_gated _ = False"

fun task_owner_gated :: "TaskCommand \<Rightarrow> bool" where
  "task_owner_gated (ApproveTask _) = True"
| "task_owner_gated (RejectTask _) = True"
| "task_owner_gated _ = False"

definition client_mission_ops :: "'v ClientEnv \<Rightarrow> (Mission, MissionCommand, MissionEvent, MissionError, 'v) AggregateOps" where
  "client_mission_ops E = (let S = cs_mission (cl_serde E)
     in mission_ops (sd_from_value S) (sd_to_value S) (sd_envelope_to_value S) mission_error_string)"

definition client_task_ops :: "'v ClientEnv \<Rightarrow> (Task, TaskCommand, TaskEvent, TaskError, 'v) AggregateOps" where
  "client_task_ops E = (let S = cs_task (cl_serde E)
     in task_ops (sd_from_value S) (sd_to_value S) (sd_envelope_to_value S) task_error_string)"

definition client_conversation_ops :: "'v ClientEnv \<Rightarrow> (Conversation, ConversationCommand, ConversationEvent, ConversationError, 'v) AggregateOps" where
  "client_conversation_ops E = (let S = cs_conversation (cl_serde E)
     in \<lparr>op_version = conv_version, op_lifecycle_epoch = conv_lifecycle_epoch, op_authority_epoch = conv_authority_epoch,
         op_decide = conversation_decide, op_apply = conversation_apply, op_from_value = sd_from_value S, op_to_value = sd_to_value S,
         op_envelope_to_value = sd_envelope_to_value S, op_error_string = conversation_error_string (cl_user_debug E)\<rparr>)"

definition client_message_ops :: "'v ClientEnv \<Rightarrow> (Message, MessageCommand, MessageEvent, MessageError, 'v) AggregateOps" where
  "client_message_ops E = (let S = cs_message (cl_serde E)
     in \<lparr>op_version = msg_version, op_lifecycle_epoch = msg_lifecycle_epoch, op_authority_epoch = msg_authority_epoch,
         op_decide = message_decide, op_apply = message_apply, op_from_value = sd_from_value S, op_to_value = sd_to_value S,
         op_envelope_to_value = sd_envelope_to_value S, op_error_string = message_error_string\<rparr>)"

definition client_file_ops :: "'v ClientEnv \<Rightarrow> (FileAsset, FileAssetCommand, FileAssetEvent, FileAssetError, 'v) AggregateOps" where
  "client_file_ops E = (let S = cs_file (cl_serde E)
     in \<lparr>op_version = file_version, op_lifecycle_epoch = file_lifecycle_epoch, op_authority_epoch = file_authority_epoch,
         op_decide = file_decide (cl_user_debug E), op_apply = file_apply, op_from_value = sd_from_value S, op_to_value = sd_to_value S,
         op_envelope_to_value = sd_envelope_to_value S, op_error_string = file_error_string\<rparr>)"

definition client_upload_ops :: "'v ClientEnv \<Rightarrow> (UploadSession, UploadSessionCommand, UploadSessionEvent, UploadSessionError, 'v) AggregateOps" where
  "client_upload_ops E = (let S = cs_upload (cl_serde E)
     in \<lparr>op_version = us_version, op_lifecycle_epoch = us_lifecycle_epoch, op_authority_epoch = us_authority_epoch,
         op_decide = upload_decide, op_apply = upload_apply, op_from_value = sd_from_value S, op_to_value = sd_to_value S,
         op_envelope_to_value = sd_envelope_to_value S, op_error_string = upload_error_string\<rparr>)"

definition client_connection_ops :: "'v ClientEnv \<Rightarrow> (ConnectionRequest, ConnectionRequestCommand, ConnectionRequestEvent, ConnectionRequestError, 'v) AggregateOps" where
  "client_connection_ops E = (let S = cs_connection (cl_serde E)
     in \<lparr>op_version = conn_version, op_lifecycle_epoch = conn_lifecycle_epoch, op_authority_epoch = conn_authority_epoch,
         op_decide = connection_decide, op_apply = connection_apply, op_from_value = sd_from_value S, op_to_value = sd_to_value S,
         op_envelope_to_value = sd_envelope_to_value S, op_error_string = connection_error_string\<rparr>)"

definition mission_decision :: "'v ClientEnv \<Rightarrow> 'v \<Rightarrow> DecisionArgs \<Rightarrow> Db \<Rightarrow> Db \<times> ('v, CommandError) result" where
  "mission_decision E = handle_decision (cs_mission_command (cl_serde E)) (client_mission_ops E) ''mission''
     (\<lambda>command. if mission_owner_gated command then Some (mission_owner_id, cl_owner_authority E) else None) E"

definition task_decision :: "'v ClientEnv \<Rightarrow> 'v \<Rightarrow> DecisionArgs \<Rightarrow> Db \<Rightarrow> Db \<times> ('v, CommandError) result" where
  "task_decision E = handle_decision (cs_task_command (cl_serde E)) (client_task_ops E) ''task''
     (\<lambda>command. if task_owner_gated command then Some (task_owner_id, cl_owner_authority E) else None) E"

definition conversation_decision :: "'v ClientEnv \<Rightarrow> 'v \<Rightarrow> DecisionArgs \<Rightarrow> Db \<Rightarrow> Db \<times> ('v, CommandError) result" where
  "conversation_decision E = handle_decision (cs_conversation_command (cl_serde E)) (client_conversation_ops E) ''conversation''
     (\<lambda>_. None) E"

definition message_decision :: "'v ClientEnv \<Rightarrow> 'v \<Rightarrow> DecisionArgs \<Rightarrow> Db \<Rightarrow> Db \<times> ('v, CommandError) result" where
  "message_decision E = handle_decision (cs_message_command (cl_serde E)) (client_message_ops E) ''message''
     (\<lambda>_. None) E"

definition file_decision :: "'v ClientEnv \<Rightarrow> 'v \<Rightarrow> DecisionArgs \<Rightarrow> Db \<Rightarrow> Db \<times> ('v, CommandError) result" where
  "file_decision E = handle_decision (cs_file_command (cl_serde E)) (client_file_ops E) ''file_asset''
     (\<lambda>_. None) E"

definition upload_decision :: "'v ClientEnv \<Rightarrow> 'v \<Rightarrow> DecisionArgs \<Rightarrow> Db \<Rightarrow> Db \<times> ('v, CommandError) result" where
  "upload_decision E = handle_decision (cs_upload_command (cl_serde E)) (client_upload_ops E) ''upload_session''
     (\<lambda>_. None) E"

definition policy_decision :: "'v ClientEnv \<Rightarrow> 'v \<Rightarrow> DecisionArgs \<Rightarrow> Db \<Rightarrow> Db \<times> ('v, CommandError) result" where
  "policy_decision E = handle_decision (cs_policy_command (cl_serde E)) (policy_ops (cs_policy (cl_serde E))) ''policy''
     (\<lambda>_. None) E"

definition hold_decision :: "'v ClientEnv \<Rightarrow> 'v \<Rightarrow> DecisionArgs \<Rightarrow> Db \<Rightarrow> Db \<times> ('v, CommandError) result" where
  "hold_decision E = handle_decision (cs_hold_command (cl_serde E)) (hold_ops (cs_hold (cl_serde E))) ''legal_hold''
     (\<lambda>_. None) E"

definition connection_decision :: "'v ClientEnv \<Rightarrow> 'v \<Rightarrow> DecisionArgs \<Rightarrow> Db \<Rightarrow> Db \<times> ('v, CommandError) result" where
  "connection_decision E = handle_decision (cs_connection_command (cl_serde E)) (client_connection_ops E) ''connection_request''
     (\<lambda>_. None) E"

definition notification_decision :: "'v ClientEnv \<Rightarrow> 'v \<Rightarrow> DecisionArgs \<Rightarrow> Db \<Rightarrow> Db \<times> ('v, CommandError) result" where
  "notification_decision E = handle_decision (cs_notification_command (cl_serde E)) (notification_ops (cl_to_iso E) (cs_notification (cl_serde E))) ''notification''
     (\<lambda>_. None) E"

section \<open>The registry\<close>

datatype CommandDispatchError = UnknownCommandType string | PayloadMismatch string | CreationFailed CreationError | DecisionFailed CommandError

datatype 'v RegisteredHandler =
    Creation "'v \<Rightarrow> ActorContext \<Rightarrow> OperationId \<Rightarrow> Db \<Rightarrow> Db \<times> ('v, CreationError) result"
  | Decision "'v \<Rightarrow> DecisionArgs \<Rightarrow> Db \<Rightarrow> Db \<times> ('v, CommandError) result"

type_synonym 'v CommandRegistry = "(string, 'v RegisteredHandler) fmap"

definition registry_new :: "'v CommandRegistry" where
  "registry_new = fmempty"

definition register_creation ::
    "string \<Rightarrow> ('v \<Rightarrow> ActorContext \<Rightarrow> OperationId \<Rightarrow> Db \<Rightarrow> Db \<times> ('v, CreationError) result) \<Rightarrow> 'v CommandRegistry \<Rightarrow> 'v CommandRegistry" where
  "register_creation command_type handler reg = fmupd command_type (Creation handler) reg"

definition register_decision ::
    "string \<Rightarrow> ('v \<Rightarrow> DecisionArgs \<Rightarrow> Db \<Rightarrow> Db \<times> ('v, CommandError) result) \<Rightarrow> 'v CommandRegistry \<Rightarrow> 'v CommandRegistry" where
  "register_decision command_type handler reg = fmupd command_type (Decision handler) reg"

definition decision_args :: "'v CommandEnvelope \<Rightarrow> DecisionArgs" where
  "decision_args envelope =
     \<lparr>da_target_id = ref_id (cmd_target envelope), da_operation_id = cmd_operation_id envelope, da_actor = cmd_actor envelope,
      da_expected_version = cmd_expected_version envelope, da_expected_lifecycle_epoch = cmd_expected_lifecycle_epoch envelope,
      da_expected_authority_epoch = cmd_expected_authority_epoch envelope, da_vector_clock = cmd_vector_clock envelope,
      da_correlation_id = cmd_correlation_id envelope\<rparr>"

definition registry_dispatch :: "'v CommandRegistry \<Rightarrow> 'v CommandEnvelope \<Rightarrow> Db \<Rightarrow> Db \<times> ('v, CommandDispatchError) result" where
  "registry_dispatch reg envelope db =
     (case fmlookup reg (cmd_command_type envelope) of
        None \<Rightarrow> (db, Inl (UnknownCommandType (cmd_command_type envelope)))
      | Some (Creation h) \<Rightarrow>
          (case h (cmd_payload envelope) (cmd_actor envelope) (cmd_operation_id envelope) db of
             (db', Inl e) \<Rightarrow> (db', Inl (CreationFailed e))
           | (db', Inr result) \<Rightarrow> (db', Inr result))
      | Some (Decision h) \<Rightarrow>
          (case h (cmd_payload envelope) (decision_args envelope) db of
             (db', Inl e) \<Rightarrow> (db', Inl (DecisionFailed e))
           | (db', Inr result) \<Rightarrow> (db', Inr result)))"

section \<open>The composition\<close>

definition MISSION_DECISION_COMMANDS :: "string list" where
  "MISSION_DECISION_COMMANDS = [''CreateBlueprintRevision'', ''SubmitBlueprint'', ''RequestApproval'', ''RejectApproval'', ''ActivateMission'', ''PauseMission'', ''OperationalHaltMission'', ''ResumeMission'', ''RestartMission'', ''TriggerReview'', ''CloseMission'', ''ArchiveMission'', ''CancelMission'']"

definition TASK_DECISION_COMMANDS :: "string list" where
  "TASK_DECISION_COMMANDS = [''MarkReady'', ''AssignOwner'', ''ChangePriority'', ''AddDependency'', ''StartTask'', ''PauseTask'', ''BlockTask'', ''ResumeTask'', ''UnblockTask'', ''SubmitCompletion'', ''RejectTask'', ''ApproveTask'', ''CloseTask'', ''ReopenTask'', ''CancelTask'']"

definition CONVERSATION_DECISION_COMMANDS :: "string list" where
  "CONVERSATION_DECISION_COMMANDS = [''AddMember'', ''ArchiveConversation'']"

definition MESSAGE_DECISION_COMMANDS :: "string list" where
  "MESSAGE_DECISION_COMMANDS = [''EditMessage'', ''RedactMessage'', ''AddReaction'', ''RemoveReaction'']"

definition FILE_ASSET_DECISION_COMMANDS :: "string list" where
  "FILE_ASSET_DECISION_COMMANDS = [''CreateVersion'', ''GrantFileAccess'', ''RevokeFileAccess'', ''QuarantineFile'', ''ArchiveFile'']"

definition UPLOAD_SESSION_DECISION_COMMANDS :: "string list" where
  "UPLOAD_SESSION_DECISION_COMMANDS = [''AppendChunk'', ''FinalizeUpload'']"

definition POLICY_DECISION_COMMANDS :: "string list" where
  "POLICY_DECISION_COMMANDS = [''CreatePolicyVersion'', ''PublishPolicyVersion'', ''EvaluatePolicy'', ''RegisterViolation'', ''RetirePolicy'']"

definition LEGAL_HOLD_DECISION_COMMANDS :: "string list" where
  "LEGAL_HOLD_DECISION_COMMANDS = [''ReleaseLegalHold'']"

definition CONNECTION_REQUEST_DECISION_COMMANDS :: "string list" where
  "CONNECTION_REQUEST_DECISION_COMMANDS = [''AcceptConnectionRequest'', ''DeclineConnectionRequest'', ''RevokeConnectionRequest'']"

definition NOTIFICATION_DECISION_COMMANDS :: "string list" where
  "NOTIFICATION_DECISION_COMMANDS = [''Acknowledge'']"

definition app_command_registry :: "'v ClientEnv \<Rightarrow> 'v CommandRegistry" where
  "app_command_registry E =
     (let reg = registry_new;
          reg = register_creation ''CreateMission'' (handle_creation (mission_creation E) E) reg;
          reg = fold (\<lambda>t. register_decision t (mission_decision E)) MISSION_DECISION_COMMANDS reg;
          reg = register_creation ''CreateTask'' (handle_creation (task_creation E) E) reg;
          reg = fold (\<lambda>t. register_decision t (task_decision E)) TASK_DECISION_COMMANDS reg;
          reg = register_creation ''CreateConversation'' (handle_creation (conversation_creation E) E) reg;
          reg = fold (\<lambda>t. register_decision t (conversation_decision E)) CONVERSATION_DECISION_COMMANDS reg;
          reg = register_creation ''PostMessage'' (handle_creation (message_creation E) E) reg;
          reg = fold (\<lambda>t. register_decision t (message_decision E)) MESSAGE_DECISION_COMMANDS reg;
          reg = register_creation ''CreateFileAsset'' (handle_creation (file_creation E) E) reg;
          reg = fold (\<lambda>t. register_decision t (file_decision E)) FILE_ASSET_DECISION_COMMANDS reg;
          reg = register_creation ''StartUpload'' (handle_creation (upload_creation E) E) reg;
          reg = fold (\<lambda>t. register_decision t (upload_decision E)) UPLOAD_SESSION_DECISION_COMMANDS reg;
          reg = register_creation ''CreatePolicy'' (handle_creation (policy_creation E) E) reg;
          reg = fold (\<lambda>t. register_decision t (policy_decision E)) POLICY_DECISION_COMMANDS reg;
          reg = register_creation ''ApplyLegalHold'' (handle_creation (hold_creation E) E) reg;
          reg = fold (\<lambda>t. register_decision t (hold_decision E)) LEGAL_HOLD_DECISION_COMMANDS reg;
          reg = register_creation ''SendConnectionRequest'' (handle_creation (connection_creation E) E) reg;
          reg = fold (\<lambda>t. register_decision t (connection_decision E)) CONNECTION_REQUEST_DECISION_COMMANDS reg;
          reg = fold (\<lambda>t. register_decision t (notification_decision E)) NOTIFICATION_DECISION_COMMANDS reg
      in reg)"

text \<open>The strategy for owner decisions when the client supplied none.\<close>

definition deny_all_owner_authority :: "UserId \<Rightarrow> UserId \<Rightarrow> bool" where
  "deny_all_owner_authority actor owner = False"

definition resolve_owner_authority :: "(UserId \<Rightarrow> UserId \<Rightarrow> bool) option \<Rightarrow> UserId \<Rightarrow> UserId \<Rightarrow> bool" where
  "resolve_owner_authority configured = (case configured of Some authority \<Rightarrow> authority | None \<Rightarrow> deny_all_owner_authority)"

section \<open>The cached reporting line\<close>

record HierarchyUserWire =
  hw_id :: string
  hw_parent_user_id :: "string option"
  hw_is_admin :: bool

record HierarchyEntry =
  he_parent_user_id :: "ObjectId option"
  he_is_admin :: bool

type_synonym u16 = "16 word"

datatype HierarchyError = HierarchyNetwork string | UnexpectedStatus u16 | UnexpectedResponse string | InvalidId string

type_synonym HierarchyCache = "(ObjectId, HierarchyEntry) fmap"

fun parse_wire :: "(string \<Rightarrow> ObjectId option) \<Rightarrow> HierarchyUserWire list \<Rightarrow> HierarchyCache \<Rightarrow> (HierarchyCache, HierarchyError) result" where
  "parse_wire parse_uuid [] parsed = Inr parsed"
| "parse_wire parse_uuid (entry # wire) parsed =
     (case parse_uuid (hw_id entry) of
        None \<Rightarrow> Inl (InvalidId (hw_id entry))
      | Some oid \<Rightarrow>
          (case (case hw_parent_user_id entry of
                   Some raw \<Rightarrow> (case parse_uuid raw of None \<Rightarrow> Inl (InvalidId raw) | Some p \<Rightarrow> Inr (Some p))
                 | None \<Rightarrow> Inr None) of
             Inl e \<Rightarrow> Inl e
           | Inr parent \<Rightarrow>
               parse_wire parse_uuid wire (fmupd oid \<lparr>he_parent_user_id = parent, he_is_admin = hw_is_admin entry\<rparr> parsed)))"

definition replace_from_wire ::
    "(string \<Rightarrow> ObjectId option) \<Rightarrow> HierarchyUserWire list \<Rightarrow> HierarchyCache \<Rightarrow> HierarchyCache \<times> (unit, HierarchyError) result" where
  "replace_from_wire parse_uuid wire cache =
     (case parse_wire parse_uuid wire fmempty of Inl e \<Rightarrow> (cache, Inl e) | Inr parsed \<Rightarrow> (parsed, Inr ()))"

definition load_from_json ::
    "(string \<Rightarrow> ObjectId option) \<Rightarrow> (string \<Rightarrow> (HierarchyUserWire list, string) result) \<Rightarrow> string \<Rightarrow> HierarchyCache
      \<Rightarrow> HierarchyCache \<times> (unit, HierarchyError) result" where
  "load_from_json parse_uuid from_str json cache =
     (case from_str json of Inl e \<Rightarrow> (cache, Inl (UnexpectedResponse e)) | Inr wire \<Rightarrow> replace_from_wire parse_uuid wire cache)"

text \<open>
  The answer of the server to \<open>GET /api/users/hierarchy\<close>: a failed request, or a status and a body that serde decodes or not.
\<close>

type_synonym hierarchy_response = "(u16 \<times> (HierarchyUserWire list, string) result, string) result"

definition hierarchy_refresh :: "(string \<Rightarrow> ObjectId option) \<Rightarrow> hierarchy_response \<Rightarrow> HierarchyCache \<Rightarrow> HierarchyCache \<times> (unit, HierarchyError) result" where
  "hierarchy_refresh parse_uuid response cache =
     (case response of
        Inl e \<Rightarrow> (cache, Inl (HierarchyNetwork e))
      | Inr (status, body) \<Rightarrow>
          if \<not> (200 \<le> status \<and> status < 300) then (cache, Inl (UnexpectedStatus status))
          else (case body of Inl e \<Rightarrow> (cache, Inl (UnexpectedResponse e)) | Inr wire \<Rightarrow> replace_from_wire parse_uuid wire cache))"

definition hierarchy_clear :: "HierarchyCache \<Rightarrow> HierarchyCache" where
  "hierarchy_clear cache = fmempty"

definition is_authorized_to_decide :: "HierarchyCache \<Rightarrow> ObjectId \<Rightarrow> ObjectId \<Rightarrow> bool" where
  "is_authorized_to_decide cache actor_id owner_id =
     (case fmlookup cache actor_id of
        None \<Rightarrow> False
      | Some actor \<Rightarrow>
          if he_is_admin actor then True
          else (case fmlookup cache owner_id of
                  None \<Rightarrow> False
                | Some owner \<Rightarrow> he_parent_user_id owner = Some actor_id))"

section \<open>What a handler does\<close>

text \<open>A command of a client either fails, leaving the database as it was, or is committed by the pipeline.\<close>

lemma client_handle_command_cases [consumes 2]:
  assumes "client_handle_command E A req db = (db', res)" and "cl_idempotency E = mem_new"
  obtains (error) e where "res = Inl e" and "db' = db"
  | (committed) u r u' where "handle_prepare (cl_json E) A ((cl_handler E)\<lparr>idempotency_fault := None\<rparr>) req (db\<lparr>idempotency := fmempty\<rparr>) = Inr (Staged u r)"
      and "res = Inr r" and "uow_commit (cl_json E) (commit_fault (cl_handler E)) u db = ((db', u'), Inr ())"
proof -
  let ?p = "handle_prepare (cl_json E) A ((cl_handler E)\<lparr>idempotency_fault := None\<rparr>) req (db\<lparr>idempotency := fmempty\<rparr>)"
  have new: "mem_get (cl_idempotency E) (req_operation_id req) = None" using assms(2) by (simp add: mem_get_def mem_new_def)
  have "?p \<noteq> Inr (Cached v)" for v
    by (auto simp: handle_prepare_def idempotency_get_def Let_def split: option.splits sum.splits if_splits)
  then consider (err) e where "?p = Inl e" | (stage) u r where "?p = Inr (Staged u r)" by (metis Prepared.exhaust sum.exhaust)
  then show thesis
  proof cases
    case err
    with assms(1) new show ?thesis by (intro error [of e]) (auto simp: client_handle_command_def)
  next
    case stage
    with assms(1) new have fin: "handle_finish (cl_json E) (cl_handler E) u r db = (db', res)" by (auto simp: client_handle_command_def)
    obtain db1 u1 r1 where c: "uow_commit (cl_json E) (commit_fault (cl_handler E)) u db = ((db1, u1), r1)" by (metis surj_pair)
    show ?thesis
    proof (cases r1)
      case (Inl e)
      then have "db1 = db" using c by (auto simp: uow_commit_def Let_def split: if_splits sum.splits)
      with fin c Inl show ?thesis by (intro error [of "Persistence (uow_error_string e)"]) (auto simp: handle_finish_def)
    next
      case (Inr x)
      with fin c show ?thesis by (intro committed [OF stage, of u1]) (auto simp: handle_finish_def)
    qed
  qed
qed

lemma handle_decision_cases [consumes 2]:
  assumes "handle_decision from_payload A ty chk E payload args db = (db', res)" and "cl_idempotency E = mem_new"
  obtains (error) e where "res = Inl e" and "db' = db"
  | (committed) command req u r u' where "from_payload payload = Some command" and "req_command req = command" and "req_target_id req = da_target_id args"
      and "req_actor req = da_actor args" and "req_owner_check req = chk command" and "req_aggregate_type_name req = ty" and "req_operation_id req = da_operation_id args"
      and "handle_prepare (cl_json E) A ((cl_handler E)\<lparr>idempotency_fault := None\<rparr>) req (db\<lparr>idempotency := fmempty\<rparr>) = Inr (Staged u r)"
      and "res = Inr r" and "uow_commit (cl_json E) (commit_fault (cl_handler E)) u db = ((db', u'), Inr ())"
proof (cases "from_payload payload")
  case None
  with assms(1) show ?thesis by (intro error [of Serialization]) (auto simp: handle_decision_def)
next
  case (Some command)
  let ?req = "\<lparr>req_command = command, req_target_id = da_target_id args, req_operation_id = da_operation_id args, req_actor = da_actor args,
    req_expected_version = da_expected_version args, req_expected_lifecycle_epoch = da_expected_lifecycle_epoch args,
    req_expected_authority_epoch = da_expected_authority_epoch args, req_vector_clock = da_vector_clock args,
    req_correlation_id = da_correlation_id args, req_aggregate_type_name = ty, req_owner_check = chk command\<rparr>"
  from Some assms(1) have "client_handle_command E A ?req db = (db', res)" by (simp add: handle_decision_def)
  from this assms(2) show ?thesis
  proof (cases rule: client_handle_command_cases)
    case (error e)
    then show ?thesis by (rule that(1))
  next
    case (committed u r u')
    from Some committed show ?thesis by (intro that(2) [of command ?req u r u']) simp_all
  qed
qed

text \<open>An owner-gated command that commits was decided by somebody with authority over the owner of the loaded aggregate.\<close>

lemma gated_decision:
  assumes "handle_decision from_payload A ty (\<lambda>c. if gated c then Some (owner, authority) else None) E payload args db = (db', Inr v)"
    and "cl_idempotency E = mem_new" and "from_payload payload = Some command" and "gated command"
  shows "\<exists>row state a. fmlookup (aggregates db) (da_target_id args) = Some row \<and> row_aggregate_type row = ty
    \<and> text_to_value (cl_json E) (row_state row) = Some state \<and> op_from_value A state = Some a \<and> authority (user_id (da_actor args)) (owner a)"
  using assms(1,2)
proof (cases rule: handle_decision_cases)
  case (committed command' req u r u')
  from committed(8) obtain row state a where row: "fmlookup (aggregates db) (req_target_id req) = Some row" "row_aggregate_type row = req_aggregate_type_name req"
    "text_to_value (cl_json E) (row_state row) = Some state" "op_from_value A state = Some a" "owner_denied req a = None"
    by (rule handle_prepare_Staged) simp
  moreover have "authority (user_id (req_actor req)) (owner a)"
    using row(5) committed(1,5) assms(3,4) by (simp add: owner_denied_def Let_def split: if_splits)
  ultimately show ?thesis using committed(3,4,6) by auto
qed simp

section \<open>The composed registry\<close>

lemma fold_register_lookup:
  "fmlookup (fold (\<lambda>t. register_decision t h) ts reg) t = (if t \<in> set ts then Some (Decision h) else fmlookup reg t)"
  by (induction ts arbitrary: reg) (auto simp: register_decision_def)

lemma register_creation_lookup: "fmlookup (register_creation t h reg) t' = (if t' = t then Some (Creation h) else fmlookup reg t')"
  by (simp add: register_creation_def)

lemmas decision_commands = MISSION_DECISION_COMMANDS_def TASK_DECISION_COMMANDS_def CONVERSATION_DECISION_COMMANDS_def MESSAGE_DECISION_COMMANDS_def
  FILE_ASSET_DECISION_COMMANDS_def UPLOAD_SESSION_DECISION_COMMANDS_def POLICY_DECISION_COMMANDS_def LEGAL_HOLD_DECISION_COMMANDS_def
  CONNECTION_REQUEST_DECISION_COMMANDS_def NOTIFICATION_DECISION_COMMANDS_def

lemmas registry_lookup = app_command_registry_def Let_def fold_register_lookup register_creation_lookup registry_new_def

text \<open>The registry as a table: every type of command goes to the handler of its aggregate.\<close>

lemma registry_table:
  "fmlookup (app_command_registry E) t = (if t \<in> set NOTIFICATION_DECISION_COMMANDS then Some (Decision (notification_decision E)) else
      if t \<in> set CONNECTION_REQUEST_DECISION_COMMANDS then Some (Decision (connection_decision E)) else
      if t = ''SendConnectionRequest'' then Some (Creation (handle_creation (connection_creation E) E)) else
      if t \<in> set LEGAL_HOLD_DECISION_COMMANDS then Some (Decision (hold_decision E)) else
      if t = ''ApplyLegalHold'' then Some (Creation (handle_creation (hold_creation E) E)) else
      if t \<in> set POLICY_DECISION_COMMANDS then Some (Decision (policy_decision E)) else
      if t = ''CreatePolicy'' then Some (Creation (handle_creation (policy_creation E) E)) else
      if t \<in> set UPLOAD_SESSION_DECISION_COMMANDS then Some (Decision (upload_decision E)) else
      if t = ''StartUpload'' then Some (Creation (handle_creation (upload_creation E) E)) else
      if t \<in> set FILE_ASSET_DECISION_COMMANDS then Some (Decision (file_decision E)) else
      if t = ''CreateFileAsset'' then Some (Creation (handle_creation (file_creation E) E)) else
      if t \<in> set MESSAGE_DECISION_COMMANDS then Some (Decision (message_decision E)) else
      if t = ''PostMessage'' then Some (Creation (handle_creation (message_creation E) E)) else
      if t \<in> set CONVERSATION_DECISION_COMMANDS then Some (Decision (conversation_decision E)) else
      if t = ''CreateConversation'' then Some (Creation (handle_creation (conversation_creation E) E)) else
      if t \<in> set TASK_DECISION_COMMANDS then Some (Decision (task_decision E)) else
      if t = ''CreateTask'' then Some (Creation (handle_creation (task_creation E) E)) else
      if t \<in> set MISSION_DECISION_COMMANDS then Some (Decision (mission_decision E)) else
      if t = ''CreateMission'' then Some (Creation (handle_creation (mission_creation E) E)) else None)"
  by (simp add: registry_lookup)

abbreviation creation_commands :: "string list" where
  "creation_commands \<equiv> [''CreateMission'', ''CreateTask'', ''CreateConversation'', ''PostMessage'', ''CreateFileAsset'', ''StartUpload'',
     ''CreatePolicy'', ''ApplyLegalHold'', ''SendConnectionRequest'']"

lemma command_types_distinct:
  "distinct (MISSION_DECISION_COMMANDS @ TASK_DECISION_COMMANDS @ CONVERSATION_DECISION_COMMANDS @ MESSAGE_DECISION_COMMANDS @ FILE_ASSET_DECISION_COMMANDS
     @ UPLOAD_SESSION_DECISION_COMMANDS @ POLICY_DECISION_COMMANDS @ LEGAL_HOLD_DECISION_COMMANDS @ CONNECTION_REQUEST_DECISION_COMMANDS
     @ NOTIFICATION_DECISION_COMMANDS @ creation_commands)"
  by code_simp

lemma distinct_append_notin: "distinct (xs @ ys) \<Longrightarrow> t \<in> set xs \<Longrightarrow> t \<notin> set ys"
  by auto

lemma distinct_append_tail: "distinct (xs @ ys) \<Longrightarrow> distinct ys"
  by simp

lemmas in_types = set_append list.set Un_iff insert_iff empty_iff de_Morgan_disj simp_thms

lemma registry_mission: "t \<in> set MISSION_DECISION_COMMANDS \<Longrightarrow> fmlookup (app_command_registry E) t = Some (Decision (mission_decision E))"
  using distinct_append_notin [OF command_types_distinct, of t] unfolding registry_table by (simp only: in_types if_False if_True split: if_split)

lemma registry_task: "t \<in> set TASK_DECISION_COMMANDS \<Longrightarrow> fmlookup (app_command_registry E) t = Some (Decision (task_decision E))"
  using distinct_append_notin [OF distinct_append_tail [OF command_types_distinct], of t] unfolding registry_table
  by (simp only: in_types if_False if_True split: if_split)

lemma registry_message: "t \<in> set MESSAGE_DECISION_COMMANDS \<Longrightarrow> fmlookup (app_command_registry E) t = Some (Decision (message_decision E))"
  using distinct_append_notin [OF distinct_append_tail [OF distinct_append_tail [OF distinct_append_tail [OF command_types_distinct]]], of t]
  unfolding registry_table by (simp only: in_types if_False if_True split: if_split)

lemma registry_create_mission: "fmlookup (app_command_registry E) ''CreateMission'' = Some (Creation (handle_creation (mission_creation E) E))"
proof -
  have "list_all (\<lambda>l. ''CreateMission'' \<notin> set l) [NOTIFICATION_DECISION_COMMANDS, CONNECTION_REQUEST_DECISION_COMMANDS, LEGAL_HOLD_DECISION_COMMANDS,
      POLICY_DECISION_COMMANDS, UPLOAD_SESSION_DECISION_COMMANDS, FILE_ASSET_DECISION_COMMANDS, MESSAGE_DECISION_COMMANDS, CONVERSATION_DECISION_COMMANDS,
      TASK_DECISION_COMMANDS, MISSION_DECISION_COMMANDS]" by code_simp
  then show ?thesis unfolding registry_table by simp
qed

lemma dispatch_decision:
  assumes "fmlookup reg (cmd_command_type envelope) = Some (Decision h)" and "registry_dispatch reg envelope db = (db', Inr v)"
  shows "h (cmd_payload envelope) (decision_args envelope) db = (db', Inr v)"
  using assms by (auto simp: registry_dispatch_def split: prod.splits sum.splits)

text \<open>Who may decide for an owner, in terms of the last answer of the server.\<close>

lemma parse_wire_lookup:
  assumes "parse_wire parse_uuid wire parsed = Inr cache" and "fmlookup cache k = Some e"
  shows "fmlookup parsed k = Some e \<or> (\<exists>w \<in> set wire. parse_uuid (hw_id w) = Some k \<and> he_is_admin e = hw_is_admin w
      \<and> he_parent_user_id e = (case hw_parent_user_id w of None \<Rightarrow> None | Some raw \<Rightarrow> parse_uuid raw))"
  using assms
proof (induction wire arbitrary: parsed)
  case (Cons w wire)
  from Cons.prems(1) obtain oid parent where w: "parse_uuid (hw_id w) = Some oid"
    "parse_wire parse_uuid wire (fmupd oid \<lparr>he_parent_user_id = parent, he_is_admin = hw_is_admin w\<rparr> parsed) = Inr cache"
    "parent = (case hw_parent_user_id w of None \<Rightarrow> None | Some raw \<Rightarrow> parse_uuid raw)"
    by (auto split: option.splits sum.splits)
  from Cons.IH [OF w(2) Cons.prems(2)] w(1,3) show ?case by (auto split: if_splits)
qed simp

text \<open>
  C30. On a client, approvals are decided by the managers of the owner. If any registered decision command of missions or tasks succeeds and its
  payload is an owner-gated command (approve or reject a task, activate a mission, reject its approval), then the stored mission or task
  was loaded from the target row, and the actor is an administrator or the direct superior of its owner in the last hierarchy the server
  sent. Since the gate follows the payload, the command type under which it is sent makes no difference; with no
  hierarchy loaded, or after a logout, every such command fails.
\<close>

theorem client_owner_gate:
  assumes mem: "cl_idempotency E = mem_new" and auth: "cl_owner_authority E = resolve_owner_authority (Some (is_authorized_to_decide cache))"
    and cache: "replace_from_wire parse_uuid wire old = (cache, Inr ())"
    and ok: "registry_dispatch (app_command_registry E) envelope db = (db', Inr v)"
  shows "(cmd_command_type envelope \<in> set TASK_DECISION_COMMANDS \<and> cs_task_command (cl_serde E) (cmd_payload envelope) = Some tc \<and> task_owner_gated tc \<longrightarrow>
      (\<exists>row state t w. fmlookup (aggregates db) (ref_id (cmd_target envelope)) = Some row \<and> row_aggregate_type row = ''task''
        \<and> text_to_value (cl_json E) (row_state row) = Some state \<and> sd_from_value (cs_task (cl_serde E)) state = Some t \<and> w \<in> set wire
        \<and> (hw_is_admin w \<and> parse_uuid (hw_id w) = Some (user_id (cmd_actor envelope))
           \<or> parse_uuid (hw_id w) = Some (task_owner_id t) \<and> (\<exists>p. hw_parent_user_id w = Some p \<and> parse_uuid p = Some (user_id (cmd_actor envelope))))))
    \<and> (cmd_command_type envelope \<in> set MISSION_DECISION_COMMANDS \<and> cs_mission_command (cl_serde E) (cmd_payload envelope) = Some mc \<and> mission_owner_gated mc \<longrightarrow>
      (\<exists>row state m w. fmlookup (aggregates db) (ref_id (cmd_target envelope)) = Some row \<and> row_aggregate_type row = ''mission''
        \<and> text_to_value (cl_json E) (row_state row) = Some state \<and> sd_from_value (cs_mission (cl_serde E)) state = Some m \<and> w \<in> set wire
        \<and> (hw_is_admin w \<and> parse_uuid (hw_id w) = Some (user_id (cmd_actor envelope))
           \<or> parse_uuid (hw_id w) = Some (mission_owner_id m) \<and> (\<exists>p. hw_parent_user_id w = Some p \<and> parse_uuid p = Some (user_id (cmd_actor envelope))))))"
proof -
  have parsed: "parse_wire parse_uuid wire fmempty = Inr cache" using cache by (auto simp: replace_from_wire_def split: sum.splits)
  have wire: "\<exists>w \<in> set wire. hw_is_admin w \<and> parse_uuid (hw_id w) = Some actor
      \<or> parse_uuid (hw_id w) = Some owner \<and> (\<exists>p. hw_parent_user_id w = Some p \<and> parse_uuid p = Some actor)"
    if "is_authorized_to_decide cache actor owner" for actor owner
  proof -
    from that consider e where "fmlookup cache actor = Some e" "he_is_admin e" | e where "fmlookup cache owner = Some e" "he_parent_user_id e = Some actor"
      by (auto simp: is_authorized_to_decide_def split: option.splits if_splits)
    then show ?thesis
    proof cases
      case 1
      from parse_wire_lookup [OF parsed 1(1)] 1(2) show ?thesis by auto
    next
      case 2
      from parse_wire_lookup [OF parsed 2(1)] 2(2) show ?thesis by (auto split: option.splits)
    qed
  qed
  have args: "da_target_id (decision_args envelope) = ref_id (cmd_target envelope)" "da_actor (decision_args envelope) = cmd_actor envelope"
    by (simp_all add: decision_args_def)
  have task: "\<exists>row state t w. fmlookup (aggregates db) (ref_id (cmd_target envelope)) = Some row \<and> row_aggregate_type row = ''task''
        \<and> text_to_value (cl_json E) (row_state row) = Some state \<and> sd_from_value (cs_task (cl_serde E)) state = Some t \<and> w \<in> set wire
        \<and> (hw_is_admin w \<and> parse_uuid (hw_id w) = Some (user_id (cmd_actor envelope))
           \<or> parse_uuid (hw_id w) = Some (task_owner_id t) \<and> (\<exists>p. hw_parent_user_id w = Some p \<and> parse_uuid p = Some (user_id (cmd_actor envelope))))"
    if t: "cmd_command_type envelope \<in> set TASK_DECISION_COMMANDS" and c: "cs_task_command (cl_serde E) (cmd_payload envelope) = Some tc" "task_owner_gated tc"
    using gated_decision [OF dispatch_decision [OF registry_task [OF t] ok, unfolded task_decision_def] mem c] wire
    unfolding args auth resolve_owner_authority_def option.case client_task_ops_def Let_def task_ops_def by (simp add: Bex_def) blast
  have mission: "\<exists>row state m w. fmlookup (aggregates db) (ref_id (cmd_target envelope)) = Some row \<and> row_aggregate_type row = ''mission''
        \<and> text_to_value (cl_json E) (row_state row) = Some state \<and> sd_from_value (cs_mission (cl_serde E)) state = Some m \<and> w \<in> set wire
        \<and> (hw_is_admin w \<and> parse_uuid (hw_id w) = Some (user_id (cmd_actor envelope))
           \<or> parse_uuid (hw_id w) = Some (mission_owner_id m) \<and> (\<exists>p. hw_parent_user_id w = Some p \<and> parse_uuid p = Some (user_id (cmd_actor envelope))))"
    if t: "cmd_command_type envelope \<in> set MISSION_DECISION_COMMANDS" and c: "cs_mission_command (cl_serde E) (cmd_payload envelope) = Some mc" "mission_owner_gated mc"
    using gated_decision [OF dispatch_decision [OF registry_mission [OF t] ok, unfolded mission_decision_def] mem c] wire
    unfolding args auth resolve_owner_authority_def option.case client_mission_ops_def Let_def mission_ops_def by (simp add: Bex_def) blast
  from task mission show ?thesis by blast
qed

section \<open>Creation and repetition\<close>

definition creation_row :: "'v JsonOps \<Rightarrow> 'v \<Rightarrow> string \<Rightarrow> OrganizationId \<Rightarrow> AggregateRow \<Rightarrow> bool" where
  "creation_row J state ty org row \<longleftrightarrow> row_aggregate_type row = ty \<and> row_organization_id row = org \<and> row_state row = text_or_braces J state
     \<and> row_version row = json_i64_or_zero J state ''version''"

lemma store_created_ok:
  assumes "store_created C E actor op a state db = (db', Inr result)" and "repo_extract_id_bytes (cl_json E) state ''id'' = Some k"
    and "fmlookup (aggregates db) k = None"
  shows "\<exists>row. creation_row (cl_json E) state (co_aggregate_type C) (actor_organization_id actor) row \<and> aggregates db' = fmupd k row (aggregates db)
    \<and> outbox db' = outbox db \<and> domain_events db' = domain_events db
    \<and> idempotency db' = idem_put (cl_json E) (op, result) (idempotency db) \<and> result = cl_creation_result E (co_id_key C) op (co_id C a)"
proof -
  let ?J = "cl_json E"
  let ?result = "cl_creation_result E (co_id_key C) op (co_id C a)"
  have begun: "begin_fault (cl_handler E) = None" using assms(1) by (cases "begin_fault (cl_handler E)") (simp_all add: store_created_def)
  obtain u where u: "repo_commit ?J (co_aggregate_type C) (env_commit_now (cl_handler E)) state [] (uow_begin (actor_organization_id actor)) = Inr u"
    using assms(1) begun
    by (cases "repo_commit ?J (co_aggregate_type C) (env_commit_now (cl_handler E)) state [] (uow_begin (actor_organization_id actor))") (simp_all add: store_created_def)
  obtain db1 u' r1 where commit: "uow_commit ?J (commit_fault (cl_handler E)) (register_idempotency_result op ?result u) db = ((db1, u'), r1)" by (metis surj_pair)
  have "r1 = Inr () \<and> db1 = db' \<and> result = ?result" using assms(1) begun u commit by (cases r1) (simp_all add: store_created_def Let_def)
  with u commit have c: "repo_commit ?J (co_aggregate_type C) (env_commit_now (cl_handler E)) state [] (uow_begin (actor_organization_id actor)) = Inr u"
    "uow_commit ?J (commit_fault (cl_handler E)) (register_idempotency_result op result u) db = ((db', u'), Inr ())" "result = ?result" by simp_all
  from c(1) assms(2) have u: "staged_upserts u = [\<lparr>up_id = k, up_aggregate_type = co_aggregate_type C, up_organization_id = actor_organization_id actor,
      up_version = json_i64_or_zero ?J state ''version'', up_lifecycle_epoch = json_i64_or_zero ?J state ''lifecycle_epoch'',
      up_authority_epoch = json_i64_or_zero ?J state ''authority_epoch'', up_state = state, up_updated_at_millis = timestamp_to_millis (env_commit_now (cl_handler E))\<rparr>]"
    "staged_outbox u = []" "staged_events u = []" "staged_idempotency u = []"
    by (auto simp: repo_commit_def Let_def stage_aggregate_upsert_def uow_begin_def)
  from uow_commit_Inr [OF c(2)] obtain db1 where db1: "upserts_ok ?J (staged_upserts (register_idempotency_result op result u)) db = Inr db1"
    "aggregates db' = aggregates db1" "domain_events db' = domain_events db @ map (event_row ?J) (staged_events (register_idempotency_result op result u))"
    "outbox db' = outbox db @ staged_outbox (register_idempotency_result op result u)"
    "idempotency db' = fold (idem_put ?J) (staged_idempotency (register_idempotency_result op result u)) (idempotency db)" .
  let ?row = "\<lparr>row_aggregate_type = co_aggregate_type C, row_version = json_i64_or_zero ?J state ''version'',
    row_lifecycle_epoch = json_i64_or_zero ?J state ''lifecycle_epoch'', row_authority_epoch = json_i64_or_zero ?J state ''authority_epoch'',
    row_state = text_or_braces ?J state, row_updated_at = timestamp_to_millis (env_commit_now (cl_handler E)), row_organization_id = actor_organization_id actor\<rparr>"
  have "db1 = db\<lparr>aggregates := fmupd k ?row (aggregates db)\<rparr>"
    using db1(1) u(1) assms(3) by (simp add: register_idempotency_result_def upsert_aggregate_def Let_def)
  then show ?thesis using db1 u c(3) by (intro exI [of _ ?row]) (simp add: register_idempotency_result_def creation_row_def)
qed

lemma handle_creation_Inr:
  assumes "handle_creation C E payload actor op db = (db', Inr result)"
  obtains command es a state where "co_from_payload C payload = Some command" and "co_create C command (creation_decision_context E actor) = Inr es"
    and "es \<noteq> []" and "co_from_created_event C (hd es) = Some a" and "co_to_value C a = Some state" and "store_created C E actor op a state db = (db', Inr result)"
  using assms by (auto simp: handle_creation_def split: option.splits sum.splits list.splits)

text \<open>What every aggregate promises of its constructor: one event, from which the new aggregate is built with the generated identifier.\<close>

locale creation_handler =
  fixes C :: "('a, 'c, 'ev, 'err, 'v) CreationOps"
  assumes created: "co_create C command ctx = Inr es \<Longrightarrow> \<exists>e a. es = [e] \<and> co_from_created_event C e = Some a \<and> co_id C a = ctx_object_id ctx 0"
begin

lemma no_panic: "handle_creation C E payload actor op db \<noteq> (db', Inl CreationPanic)"
proof
  assume h: "handle_creation C E payload actor op db = (db', Inl CreationPanic)"
  then obtain command es where c: "co_from_payload C payload = Some command" "co_create C command (creation_decision_context E actor) = Inr es"
    by (auto simp: handle_creation_def split: option.splits sum.splits)
  with created [OF c(2)] h show False
    by (auto simp: handle_creation_def store_created_def Let_def split: option.splits sum.splits prod.splits)
qed

lemma creation_stores:
  assumes "handle_creation C E payload actor op db = (db', Inr result)" and k: "k = env_object_id (cl_handler E) 0"
    and json: "\<And>a state. co_to_value C a = Some state \<Longrightarrow> repo_extract_id_bytes (cl_json E) state ''id'' = Some (co_id C a)"
    and fresh: "fmlookup (aggregates db) k = None"
  shows "\<exists>row. row_aggregate_type row = co_aggregate_type C \<and> row_organization_id row = actor_organization_id actor
    \<and> aggregates db' = fmupd k row (aggregates db) \<and> outbox db' = outbox db \<and> domain_events db' = domain_events db
    \<and> idempotency db' = idem_put (cl_json E) (op, result) (idempotency db) \<and> result = cl_creation_result E (co_id_key C) op k"
  using assms(1)
proof (rule handle_creation_Inr)
  fix command es a state
  assume h: "co_create C command (creation_decision_context E actor) = Inr es" "co_from_created_event C (hd es) = Some a" "co_to_value C a = Some state"
    and st: "store_created C E actor op a state db = (db', Inr result)"
  have "co_id C a = k" using created [OF h(1)] h(2) by (auto simp: k creation_decision_context_def)
  with store_created_ok [OF st] json [OF h(3)] fresh show ?thesis by (auto simp: creation_row_def)
qed

text \<open>The same operation, sent again, creates another aggregate.\<close>

lemma creation_repeated:
  assumes "handle_creation C E payload actor op db = (db1, Inr r1)" and "handle_creation C E' payload actor op db1 = (db2, Inr r2)"
    and k: "k = env_object_id (cl_handler E) 0" "k' = env_object_id (cl_handler E') 0" and "k \<noteq> k'"
    and json: "\<And>a state. co_to_value C a = Some state \<Longrightarrow> repo_extract_id_bytes (cl_json E) state ''id'' = Some (co_id C a)" "cl_json E' = cl_json E"
    and fresh: "fmlookup (aggregates db) k = None" "fmlookup (aggregates db) k' = None"
  shows "fmdom (aggregates db2) = finsert k (finsert k' (fmdom (aggregates db)))
    \<and> idempotency db2 = idempotency db1 \<and> fmlookup (idempotency db1) op \<noteq> None \<and> r2 = cl_creation_result E' (co_id_key C) op k'"
proof -
  from creation_stores [OF assms(1) k(1) json(1) fresh(1)] obtain row where one: "aggregates db1 = fmupd k row (aggregates db)"
    "idempotency db1 = idem_put (cl_json E) (op, r1) (idempotency db)" by blast
  have fresh1: "fmlookup (aggregates db1) k' = None" using one(1) fresh(2) assms(5) by simp
  from creation_stores [OF assms(2) k(2) _ fresh1] json obtain row' where two: "aggregates db2 = fmupd k' row' (aggregates db1)"
    "idempotency db2 = idem_put (cl_json E) (op, r2) (idempotency db1)" "r2 = cl_creation_result E' (co_id_key C) op k'" by auto
  have "fmlookup (idempotency db1) op \<noteq> None" unfolding one(2) by (auto simp: idem_put_def split: option.splits)
  moreover from this have "idempotency db2 = idempotency db1" unfolding two(2) by (auto simp: idem_put_def split: option.splits)
  ultimately show ?thesis using one(1) two(1,3) by auto
qed

end

interpretation mission_new: creation_handler "mission_creation E" for E
proof
  fix command ctx es
  assume "co_create (mission_creation E) command ctx = Inr es"
  then show "\<exists>e a. es = [e] \<and> co_from_created_event (mission_creation E) e = Some a \<and> co_id (mission_creation E) a = ctx_object_id ctx 0"
    by (cases command) (auto simp: mission_creation_def split: if_splits sum.splits)
qed

interpretation task_new: creation_handler "task_creation E" for E
proof
  fix command ctx es
  assume "co_create (task_creation E) command ctx = Inr es"
  then show "\<exists>e a. es = [e] \<and> co_from_created_event (task_creation E) e = Some a \<and> co_id (task_creation E) a = ctx_object_id ctx 0"
    by (cases command) (auto simp: task_creation_def split: if_splits sum.splits)
qed

interpretation conversation_new: creation_handler "conversation_creation E" for E
proof
  fix command ctx es
  assume "co_create (conversation_creation E) command ctx = Inr es"
  then show "\<exists>e a. es = [e] \<and> co_from_created_event (conversation_creation E) e = Some a \<and> co_id (conversation_creation E) a = ctx_object_id ctx 0"
    by (cases command) (auto simp: conversation_creation_def split: if_splits sum.splits)
qed

interpretation message_new: creation_handler "message_creation E" for E
proof
  fix command ctx es
  assume "co_create (message_creation E) command ctx = Inr es"
  then show "\<exists>e a. es = [e] \<and> co_from_created_event (message_creation E) e = Some a \<and> co_id (message_creation E) a = ctx_object_id ctx 0"
    by (cases command) (auto simp: message_creation_def split: if_splits sum.splits)
qed

interpretation file_new: creation_handler "file_creation E" for E
proof
  fix command ctx es
  assume "co_create (file_creation E) command ctx = Inr es"
  then show "\<exists>e a. es = [e] \<and> co_from_created_event (file_creation E) e = Some a \<and> co_id (file_creation E) a = ctx_object_id ctx 0"
    by (cases command) (auto simp: file_creation_def split: if_splits sum.splits)
qed

interpretation upload_new: creation_handler "upload_creation E" for E
proof
  fix command ctx es
  assume "co_create (upload_creation E) command ctx = Inr es"
  then show "\<exists>e a. es = [e] \<and> co_from_created_event (upload_creation E) e = Some a \<and> co_id (upload_creation E) a = ctx_object_id ctx 0"
    by (cases command) (auto simp: upload_creation_def split: if_splits sum.splits)
qed

interpretation policy_new: creation_handler "policy_creation E" for E
proof
  fix command ctx es
  assume "co_create (policy_creation E) command ctx = Inr es"
  then show "\<exists>e a. es = [e] \<and> co_from_created_event (policy_creation E) e = Some a \<and> co_id (policy_creation E) a = ctx_object_id ctx 0"
    by (cases command) (auto simp: policy_creation_def split: if_splits sum.splits)
qed

interpretation hold_new: creation_handler "hold_creation E" for E
proof
  fix command ctx es
  assume "co_create (hold_creation E) command ctx = Inr es"
  then show "\<exists>e a. es = [e] \<and> co_from_created_event (hold_creation E) e = Some a \<and> co_id (hold_creation E) a = ctx_object_id ctx 0"
    by (cases command) (auto simp: hold_creation_def split: if_splits sum.splits)
qed

interpretation connection_new: creation_handler "connection_creation E" for E
proof
  fix command ctx es
  assume "co_create (connection_creation E) command ctx = Inr es"
  then show "\<exists>e a. es = [e] \<and> co_from_created_event (connection_creation E) e = Some a \<and> co_id (connection_creation E) a = ctx_object_id ctx 0"
    by (cases command) (auto simp: connection_creation_def split: if_splits sum.splits)
qed

text \<open>
  C31. A creation is not idempotent. The handlers record the answer of a creation under its operation id, but no handler asks for it: sent twice with
  the same operation id, a creation command stores two missions, the recorded answer stays that of the first and the second caller gets
  another identifier.
\<close>

theorem creation_not_idempotent:
  assumes ct: "cmd_command_type envelope = ''CreateMission''"
    and first: "registry_dispatch (app_command_registry E) envelope db = (db1, Inr r1)"
    and second: "registry_dispatch (app_command_registry E') envelope db1 = (db2, Inr r2)"
    and E': "E' = E\<lparr>cl_handler := (cl_handler E)\<lparr>env_object_id := ids\<rparr>\<rparr>" and "env_object_id (cl_handler E) 0 \<noteq> ids 0"
    and json: "\<And>a state. sd_to_value (cs_mission (cl_serde E)) a = Some state \<Longrightarrow> repo_extract_id_bytes (cl_json E) state ''id'' = Some (mission_id a)"
    and fresh: "fmlookup (aggregates db) (env_object_id (cl_handler E) 0) = None" "fmlookup (aggregates db) (ids 0) = None"
  shows "fmdom (aggregates db2) = finsert (env_object_id (cl_handler E) 0) (finsert (ids 0) (fmdom (aggregates db)))
    \<and> idempotency db2 = idempotency db1 \<and> fmlookup (idempotency db1) (cmd_operation_id envelope) \<noteq> None
    \<and> r2 = cl_creation_result E ''mission_id'' (cmd_operation_id envelope) (ids 0)"
proof -
  have "handle_creation (mission_creation E) E (cmd_payload envelope) (cmd_actor envelope) (cmd_operation_id envelope) db = (db1, Inr r1)"
    using first ct by (auto simp: registry_dispatch_def registry_create_mission split: prod.splits sum.splits)
  moreover have "mission_creation E' = mission_creation E" by (simp add: E' mission_creation_def)
  then have "handle_creation (mission_creation E) E' (cmd_payload envelope) (cmd_actor envelope) (cmd_operation_id envelope) db1 = (db2, Inr r2)"
    using second ct by (auto simp: registry_dispatch_def registry_create_mission split: prod.splits sum.splits)
  ultimately show ?thesis
    using mission_new.creation_repeated [of E E "cmd_payload envelope" "cmd_actor envelope" "cmd_operation_id envelope" db db1 r1 E' db2 r2
        "env_object_id (cl_handler E) 0" "ids 0"] assms(5) json fresh
    by (simp add: E' mission_creation_def)
qed

section \<open>A decision without events\<close>

context aggregate_root
begin

text \<open>The pipeline writes the state back under a higher version only: a decision without events cannot be committed.\<close>

lemma empty_decision_fails:
  assumes ops: "op_version A = version" "op_decide A = decide" "op_apply A = app" and json: "json_faithful (cl_json E) A agg_id"
    and row: "fmlookup (aggregates db) (da_target_id args) = Some row" "text_to_value (cl_json E) (row_state row) = Some v" "op_from_value A v = Some a"
      "agg_id a = da_target_id args" "row_version row = version a" "unat (version a) < 2 ^ 63"
    and cmd: "from_payload payload = Some command" and empty: "\<And>ctx. ctx_actor ctx = da_actor args \<Longrightarrow> \<forall>es. decide a command ctx = Inr es \<longrightarrow> es = []"
    and mem: "cl_idempotency E = mem_new" and h: "handle_decision from_payload A ty chk E payload args db = (db', res)"
  shows "db' = db \<and> (\<exists>e. res = Inl e)"
  using h mem
proof (cases rule: handle_decision_cases)
  case (committed command' req u r u')
  let ?env = "(cl_handler E)\<lparr>idempotency_fault := None\<rparr>"
  from committed(8) row have st: "handle_stage (cl_json E) A ?env req a (row_version row) = Inr (u, r)"
    by (elim handle_prepare_Staged) (simp add: committed(3))
  from st obtain events state up where s: "decide a (req_command req) (decision_context ?env req) = Inr events"
    "op_to_value A (fold app events a) = Some state" "staged_upserts u = [up]" "txn_open u"
    "repo_extract_id_bytes (cl_json E) state ''id'' = Some (up_id up)" "up_version up = json_i64_or_zero (cl_json E) state ''version''"
    by (elim handle_stage_result) (simp add: ops)
  have "events = []" using empty [of "decision_context ?env req"] s(1) committed(1,2,4) cmd by (simp add: decision_context_def)
  with s json row have up: "up_id up = da_target_id args" "up_version up = row_version row" by (auto simp: json_faithful_def ops)
  have "\<exists>e. handle_finish (cl_json E) (cl_handler E) u r db = (db, Inl (Persistence e))"
    by (rule finish_fails [OF s(3,4)]) (simp add: up row(1), simp add: up)
  then show ?thesis using committed(10) by (auto simp: handle_finish_def)
qed simp

end

text \<open>
  A repeated reaction is an error. Adding a reaction the user already has is decided without an event, so that it should be a no-op; but the
  pipeline writes the unchanged state under the unchanged version, which the version guard of the table refuses: the command fails.
\<close>

theorem repeated_reaction_fails:
  assumes mem: "cl_idempotency E = mem_new" and json: "json_faithful (cl_json E) (client_message_ops E) msg_id"
    and row: "fmlookup (aggregates db) (ref_id (cmd_target envelope)) = Some row" "text_to_value (cl_json E) (row_state row) = Some state"
      "sd_from_value (cs_message (cl_serde E)) state = Some m" "msg_id m = ref_id (cmd_target envelope)" "row_version row = msg_version m"
      "unat (msg_version m) < 2 ^ 63"
    and ct: "cmd_command_type envelope \<in> set MESSAGE_DECISION_COMMANDS" and p: "cs_message_command (cl_serde E) (cmd_payload envelope) = Some (AddReaction s)"
    and dup: "reaction_code_new s = Inr r" "(user_id (cmd_actor envelope), r) \<in> set (msg_reactions m)"
    and d: "registry_dispatch (app_command_registry E) envelope db = (db', res)"
  shows "db' = db \<and> (\<exists>e. res = Inl e)
    \<and> (is_mutable m \<and> is_authorized (ctx_authority ctx) ''communication.command'' \<and> ctx_actor ctx = cmd_actor envelope \<longrightarrow> message_decide m (AddReaction s) ctx = Inr [])"
proof -
  have empty: "\<forall>es. message_decide m (AddReaction s) c = Inr es \<longrightarrow> es = []" if "ctx_actor c = cmd_actor envelope" for c
    using that dup by (auto simp: message_decide_def)
  obtain res' where h: "message_decision E (cmd_payload envelope) (decision_args envelope) db = (db', res')" "\<forall>e. res' = Inl e \<longrightarrow> (\<exists>e. res = Inl e)"
    using d by (auto simp: registry_dispatch_def registry_message [OF ct] split: prod.splits sum.splits)
  have "db' = db \<and> (\<exists>e. res' = Inl e)"
    by (rule message.empty_decision_fails [OF _ _ _ json _ row(2) _ _ row(5,6) p _ mem h(1) [unfolded message_decision_def]])
      (use row empty in \<open>simp_all add: client_message_ops_def Let_def decision_args_def\<close>)
  moreover have "message_decide m (AddReaction s) ctx = Inr []"
    if "is_mutable m" "is_authorized (ctx_authority ctx) ''communication.command''" "ctx_actor ctx = cmd_actor envelope"
    using that dup by (simp add: message_decide_def)
  ultimately show ?thesis using h(2) by blast
qed

section \<open>A sample client\<close>

text \<open>
  JSON values of objects are their identifiers, below 256; every stored version reads as 1. The client knows one task, submitted by user 2, whose
  superior is user 1, one message, and it can create missions 5 and 6.
\<close>

datatype client_value = CObj ObjectId | CArr ObjectId | CByte u64 | CNum

definition client_json :: "client_value JsonOps" where
  "client_json =
     \<lparr>json_get = (\<lambda>v key. case v of CObj k \<Rightarrow> (if key = ''id'' then Some (CArr k) else if key = ''version'' then Some CNum else None) | _ \<Rightarrow> None),
      json_get_0 = (\<lambda>_. None), json_is_null = (\<lambda>_. False),
      json_as_array = (\<lambda>v. case v of CArr k \<Rightarrow> Some [CByte 0, CByte 0, CByte 0, CByte 0, CByte 0, CByte 0, CByte 0, CByte 0,
        CByte 0, CByte 0, CByte 0, CByte 0, CByte 0, CByte 0, CByte 0, CByte (ucast k)] | _ \<Rightarrow> None),
      json_as_u64 = (\<lambda>v. case v of CByte b \<Rightarrow> Some b | _ \<Rightarrow> None), json_as_i64 = (\<lambda>v. if v = CNum then Some 1 else None),
      json_as_str = (\<lambda>_. None), json_null = CNum, value_to_text = (\<lambda>_. Some ''t''), text_to_value = (\<lambda>_. Some (CObj 5))\<rparr>"

definition client_task :: Task where
  "client_task = \<lparr>task_id = 5, task_version = 0, task_lifecycle_epoch = 0, task_authority_epoch = 0,
     task_status = TaskStatus.Submitted, task_mission_id = 7, task_title = ''dig'', task_description = None, task_owner_id = 2,
     task_priority = Normal, task_dependencies = []\<rparr>"

definition client_message :: Message where
  "client_message = \<lparr>msg_id = 5, msg_version = 1, msg_lifecycle_epoch = 0, msg_authority_epoch = 0, msg_status = Posted,
     msg_conversation_id = 7, msg_author_id = 2, msg_body = ''hi'', msg_reactions = [(1, ''0123456789abcdef'')]\<rparr>"

definition no_serde :: "('a, 'ev, client_value) Serde" where
  "no_serde = \<lparr>sd_from_value = (\<lambda>_. None), sd_to_value = (\<lambda>_. None), sd_envelope_to_value = (\<lambda>_. None)\<rparr>"

definition client_serde :: "client_value ClientSerde" where
  "client_serde =
     \<lparr>cs_mission = \<lparr>sd_from_value = (\<lambda>_. None), sd_to_value = (\<lambda>m. if mission_id m \<in> {5, 6} then Some (CObj (mission_id m)) else None),
        sd_envelope_to_value = (\<lambda>_. Some CNum)\<rparr>,
      cs_mission_command = (\<lambda>_. Some (CreateMission ''alpha'' None 1)),
      cs_task = \<lparr>sd_from_value = (\<lambda>_. Some client_task), sd_to_value = (\<lambda>t. if task_id t = 5 \<and> task_version t = 1 then Some (CObj 5) else None),
        sd_envelope_to_value = (\<lambda>_. Some CNum)\<rparr>,
      cs_task_command = (\<lambda>_. Some (ApproveTask ''fine'')),
      cs_conversation = no_serde, cs_conversation_command = (\<lambda>_. None),
      cs_message = \<lparr>sd_from_value = (\<lambda>_. Some client_message), sd_to_value = (\<lambda>m. if msg_id m = 5 \<and> msg_version m = 1 then Some (CObj 5) else None),
        sd_envelope_to_value = (\<lambda>_. Some CNum)\<rparr>,
      cs_message_command = (\<lambda>_. Some (AddReaction ''0123456789abcdef'')),
      cs_file = no_serde, cs_file_command = (\<lambda>_. None), cs_upload = no_serde, cs_upload_command = (\<lambda>_. None),
      cs_policy = no_serde, cs_policy_command = (\<lambda>_. None), cs_hold = no_serde, cs_hold_command = (\<lambda>_. None),
      cs_connection = no_serde, cs_connection_command = (\<lambda>_. None), cs_notification = no_serde, cs_notification_command = (\<lambda>_. None)\<rparr>"

definition client_handler :: "client_value HandlerEnv" where
  "client_handler = \<lparr>env_trusted_now = 10, env_now = 11, env_commit_now = 12, env_object_id = (\<lambda>_. 5), env_event_id = (\<lambda>n. 50 + of_nat n),
     env_replica_id = (\<lambda>_. 1), env_to_vec = (\<lambda>_. Some ''b''), env_id_to_string = (\<lambda>_. ''id''), env_result = (\<lambda>_ _ _ _ _. CNum),
     idempotency_fault = None, load_fault = None, begin_fault = None, commit_fault = (\<lambda>_. None)\<rparr>"

definition client_uuid :: "string \<Rightarrow> ObjectId option" where
  "client_uuid s = (if s = ''m'' then Some 1 else if s = ''o'' then Some 2 else None)"

definition client_wire :: "HierarchyUserWire list" where
  "client_wire = [\<lparr>hw_id = ''m'', hw_parent_user_id = None, hw_is_admin = False\<rparr>, \<lparr>hw_id = ''o'', hw_parent_user_id = Some ''m'', hw_is_admin = False\<rparr>]"

definition client_cache :: HierarchyCache where
  "client_cache = fst (replace_from_wire client_uuid client_wire fmempty)"

definition client_env :: "client_value ClientEnv" where
  "client_env = \<lparr>cl_json = client_json, cl_serde = client_serde, cl_handler = client_handler, cl_creation_result = (\<lambda>_ _ k. CObj k),
     cl_user_debug = (\<lambda>_. ''user''), cl_to_iso = (\<lambda>_. ''now''),
     cl_owner_authority = resolve_owner_authority (Some (is_authorized_to_decide client_cache)), cl_idempotency = mem_new\<rparr>"

definition client_envelope :: "string \<Rightarrow> string \<Rightarrow> ObjectVersion \<Rightarrow> client_value CommandEnvelope" where
  "client_envelope ty agg v =
     \<lparr>cmd_command_id = 1, cmd_operation_id = 9, cmd_command_type = ty, cmd_schema_version = ''1.0'',
      cmd_target = \<lparr>ref_id = 5, ref_type = agg, ref_organization_id = 3\<rparr>, cmd_expected_version = v, cmd_expected_lifecycle_epoch = 0,
      cmd_expected_authority_epoch = 0, cmd_actor = \<lparr>user_id = 1, device_id = 2, actor_organization_id = 3\<rparr>,
      cmd_authority_proof = \<lparr>proof_type = Jwt, proof_scope = \<lparr>scope_organization_id = 3, scope_object_type = agg, scope_object_id = None,
        scope_command_types = [], delegation_depth = 0\<rparr>, proof_issued_at = 0, proof_expires_at = 0, signature = None\<rparr>, cmd_issued_at = 0, cmd_vector_clock = vc_new, cmd_correlation_id = 0, cmd_causation_id = None, cmd_payload = CNum\<rparr>"

definition client_db :: "string \<Rightarrow> ObjectVersion \<Rightarrow> Db" where
  "client_db ty v = \<lparr>aggregates = fmupd 5 \<lparr>row_aggregate_type = ty, row_version = v, row_lifecycle_epoch = 0, row_authority_epoch = 0,
     row_state = ''t'', row_updated_at = 0, row_organization_id = 3\<rparr> fmempty, domain_events = [], outbox = [], idempotency = fmempty\<rparr>"

lemma client_id: "repo_extract_id_bytes client_json (CObj 5) ''id'' = Some 5" "repo_extract_id_bytes client_json (CObj 6) ''id'' = Some 6"
  by (simp_all add: repo_extract_id_bytes_def client_json_def bytes_of_json_def bytes_be_def)

lemma client_json_simps:
  "text_to_value client_json t = Some (CObj 5)" "value_to_text client_json v = Some ''t''" "json_i64_or_zero client_json (CObj k) ''version'' = 1"
  "json_get client_json CNum key = None" "json_get client_json (CObj i) ''version'' = Some CNum"
  by (simp_all add: client_json_def json_i64_or_zero_def)

lemmas client_run_defs = mem_get_def mem_new_def handle_prepare_def idempotency_get_def
  repo_load_def owner_denied_def handle_stage_def decision_context_def agg_simps kernel_simps
  repo_commit_def handle_finish_def uow_commit_def uow_statements_def register_idempotency_result_def register_event_def stage_aggregate_upsert_def
  register_outbox_def uow_begin_def upsert_aggregate_def insert_domain_event_def insert_outbox_message_def insert_idempotency_def
  extract_event_id_def client_id client_json_simps

lemmas client_defs = client_task_def client_message_def client_serde_def client_handler_def client_env_def client_envelope_def client_db_def

lemma client_hierarchy: "replace_from_wire client_uuid client_wire fmempty = (client_cache, Inr ())"
  "is_authorized_to_decide client_cache 1 2"
  by (simp_all add: client_cache_def replace_from_wire_def client_wire_def client_uuid_def is_authorized_to_decide_def)

lemma client_approves:
  "\<exists>db'. registry_dispatch (app_command_registry client_env) (client_envelope ''ApproveTask'' ''task'' 0) (client_db ''task'' 0) = (db', Inr CNum)"
proof -
  have "''ApproveTask'' \<in> set TASK_DECISION_COMMANDS" by code_simp
  note reg = registry_task [OF this, of client_env]
  have "\<exists>db'. task_decision client_env CNum (decision_args (client_envelope ''ApproveTask'' ''task'' 0)) (client_db ''task'' 0) = (db', Inr CNum)"
    using client_hierarchy(2)
    by (simp add: task_decision_def handle_decision_def client_handle_command_def decision_args_def client_task_ops_def task_ops_def
        resolve_owner_authority_def client_run_defs client_defs)
  then show ?thesis by (auto simp: registry_dispatch_def reg client_envelope_def)
qed

theorem client_owner_gate_witness:
  "\<exists>db'. registry_dispatch (app_command_registry client_env) (client_envelope ''ApproveTask'' ''task'' 0) (client_db ''task'' 0) = (db', Inr CNum)
     \<and> (\<exists>w \<in> set client_wire. hw_is_admin w \<or> (\<exists>p. hw_parent_user_id w = Some p \<and> client_uuid p = Some 1))"
proof -
  obtain db' where d: "registry_dispatch (app_command_registry client_env) (client_envelope ''ApproveTask'' ''task'' 0) (client_db ''task'' 0) = (db', Inr CNum)"
    using client_approves by blast
  have mem: "cmd_command_type (client_envelope ''ApproveTask'' ''task'' 0) \<in> set TASK_DECISION_COMMANDS" by code_simp
  have "cs_task_command (cl_serde client_env) (cmd_payload (client_envelope ''ApproveTask'' ''task'' 0)) = Some (ApproveTask ''fine'')"
    "cl_idempotency client_env = mem_new" "cl_owner_authority client_env = resolve_owner_authority (Some (is_authorized_to_decide client_cache))"
    "user_id (cmd_actor (client_envelope ''ApproveTask'' ''task'' 0)) = 1"
    by (simp_all add: client_defs)
  note c = this
  from client_owner_gate [OF c(2,3) client_hierarchy(1) d, where tc = "ApproveTask ''fine''" and mc = "CreateMission [] None 1", THEN conjunct1] mem c(1)
  have "\<exists>w \<in> set client_wire. hw_is_admin w \<or> (\<exists>p. hw_parent_user_id w = Some p \<and> client_uuid p = Some 1)"
    unfolding c(4) by auto
  with d show ?thesis by blast
qed

definition empty_db :: Db where
  "empty_db = \<lparr>aggregates = fmempty, domain_events = [], outbox = [], idempotency = fmempty\<rparr>"

definition client_env6 :: "client_value ClientEnv" where
  "client_env6 = client_env\<lparr>cl_handler := (cl_handler client_env)\<lparr>env_object_id := (\<lambda>_. 6)\<rparr>\<rparr>"

lemmas client_creation_defs = handle_creation_def store_created_def mission_creation_def creation_decision_context_def client_run_defs client_defs

lemma client_creates:
  "\<exists>db1. registry_dispatch (app_command_registry client_env) (client_envelope ''CreateMission'' ''mission'' 0) empty_db = (db1, Inr (CObj 5))
    \<and> (\<exists>db2. registry_dispatch (app_command_registry client_env6) (client_envelope ''CreateMission'' ''mission'' 0) db1 = (db2, Inr (CObj 6)))"
proof -
  let ?actor = "\<lparr>user_id = 1, device_id = 2, actor_organization_id = 3\<rparr>"
  have "\<exists>db1. handle_creation (mission_creation client_env) client_env CNum ?actor 9 empty_db = (db1, Inr (CObj 5))
    \<and> (\<exists>db2. handle_creation (mission_creation client_env6) client_env6 CNum ?actor 9 db1 = (db2, Inr (CObj 6)))"
    by (simp add: client_creation_defs empty_db_def client_env6_def)
  then show ?thesis by (auto simp: registry_dispatch_def registry_create_mission client_envelope_def)
qed

theorem creation_not_idempotent_witness:
  "\<exists>db1 db2. registry_dispatch (app_command_registry client_env) (client_envelope ''CreateMission'' ''mission'' 0) empty_db = (db1, Inr (CObj 5))
    \<and> registry_dispatch (app_command_registry client_env6) (client_envelope ''CreateMission'' ''mission'' 0) db1 = (db2, Inr (CObj 6))
    \<and> fmdom (aggregates db2) = {|5, 6|} \<and> idempotency db2 = idempotency db1"
proof -
  obtain db1 db2 where d: "registry_dispatch (app_command_registry client_env) (client_envelope ''CreateMission'' ''mission'' 0) empty_db = (db1, Inr (CObj 5))"
    "registry_dispatch (app_command_registry client_env6) (client_envelope ''CreateMission'' ''mission'' 0) db1 = (db2, Inr (CObj 6))"
    using client_creates by blast
  have to_value: "repo_extract_id_bytes (cl_json client_env) state ''id'' = Some (mission_id a)"
    if "sd_to_value (cs_mission (cl_serde client_env)) a = Some state" for a state
    using that by (auto simp: client_env_def client_serde_def client_id split: if_splits)
  have "fmdom (aggregates db2) = finsert 5 (finsert 6 (fmdom (aggregates empty_db))) \<and> idempotency db2 = idempotency db1"
    using creation_not_idempotent [OF _ d(1) d(2) client_env6_def _ to_value]
    by (simp add: client_env_def client_handler_def client_envelope_def empty_db_def)
  then have "fmdom (aggregates db2) = {|5, 6|} \<and> idempotency db2 = idempotency db1" by (simp add: empty_db_def)
  with d show ?thesis by blast
qed

theorem repeated_reaction_fails_witness:
  "\<exists>e. registry_dispatch (app_command_registry client_env) (client_envelope ''AddReaction'' ''message'' 1) (client_db ''message'' 1)
      = (client_db ''message'' 1, Inl e)
    \<and> message_decide client_message (AddReaction ''0123456789abcdef'') (creation_decision_context client_env \<lparr>user_id = 1, device_id = 2, actor_organization_id = 3\<rparr>) = Inr []"
proof -
  let ?d = "registry_dispatch (app_command_registry client_env) (client_envelope ''AddReaction'' ''message'' 1) (client_db ''message'' 1)"
  have json: "json_faithful (cl_json client_env) (client_message_ops client_env) msg_id"
    by (auto simp: json_faithful_def client_message_ops_def Let_def client_env_def client_serde_def client_id client_json_simps split: if_splits)
  have ct: "cmd_command_type (client_envelope ''AddReaction'' ''message'' 1) \<in> set MESSAGE_DECISION_COMMANDS" by code_simp
  have r: "reaction_code_new ''0123456789abcdef'' = Inr ''0123456789abcdef''" by code_simp
  have "fst ?d = client_db ''message'' 1 \<and> (\<exists>e. snd ?d = Inl e)
    \<and> (is_mutable client_message \<and> is_authorized (ctx_authority (creation_decision_context client_env \<lparr>user_id = 1, device_id = 2, actor_organization_id = 3\<rparr>)) ''communication.command''
      \<and> ctx_actor (creation_decision_context client_env \<lparr>user_id = 1, device_id = 2, actor_organization_id = 3\<rparr>) = cmd_actor (client_envelope ''AddReaction'' ''message'' 1)
      \<longrightarrow> message_decide client_message (AddReaction ''0123456789abcdef'') (creation_decision_context client_env \<lparr>user_id = 1, device_id = 2, actor_organization_id = 3\<rparr>) = Inr [])"
    by (rule repeated_reaction_fails [OF _ json _ _ _ _ _ _ ct _ r _ prod.collapse [symmetric], where state = "CObj 5" and
          row = "\<lparr>row_aggregate_type = ''message'', row_version = 1, row_lifecycle_epoch = 0, row_authority_epoch = 0,
            row_state = ''t'', row_updated_at = 0, row_organization_id = 3\<rparr>"])
      (simp_all add: client_defs client_json_simps)
  moreover have "is_mutable client_message" by (simp add: client_message_def is_mutable_def)
  ultimately show ?thesis
    by (simp add: creation_decision_context_def client_envelope_def is_authorized_def) (metis prod.collapse)
qed

end
