(* ===== verification/Profile_Domain.thy ===== *)
theory Profile_Domain
  imports Contracts
begin

text \<open>
  Staff profiles (\<open>crates/domains/profile-domain\<close>): identity, organizational information and work statistics of one account. Strings are
  their UTF-8 bytes. Every section is replaced as a whole; an archived profile does not change any more.
\<close>

section \<open>Values\<close>

type_synonym StaffProfileId = ObjectId
type_synonym ProfileOwnerId = UserId

record BasicIdentity =
  bi_full_name :: string
  bi_photo_blob_key :: "string option"
  bi_job_title :: "string option"
  bi_contact_email :: "string option"
  bi_contact_phone :: "string option"

definition basic_identity_new ::
    "string \<Rightarrow> string option \<Rightarrow> string option \<Rightarrow> string option \<Rightarrow> string option \<Rightarrow> (BasicIdentity, string) result" where
  "basic_identity_new full_name photo_blob_key job_title contact_email contact_phone =
     (if trim_is_empty full_name then Inl ''full_name must not be empty''
      else Inr \<lparr>bi_full_name = full_name, bi_photo_blob_key = photo_blob_key, bi_job_title = job_title,
                bi_contact_email = contact_email, bi_contact_phone = contact_phone\<rparr>)"

record OrganizationalInfo =
  oi_department :: "string option"
  oi_class_label :: "string option"
  oi_parent_display_name :: "string option"
  oi_team_memberships :: "string list"

record WorkStats =
  ws_assigned_items_count :: "32 word option"
  ws_completed_items_count :: "32 word option"
  ws_target_summary :: "string option"

definition work_stats_unavailable :: WorkStats where
  "work_stats_unavailable = \<lparr>ws_assigned_items_count = None, ws_completed_items_count = None, ws_target_summary = None\<rparr>"

definition validate_team_name :: "string \<Rightarrow> (string, string) result" where
  "validate_team_name raw =
     (let name = trim raw
      in if name = [] then Inl ''TEAM_NAME_EMPTY''
         else if CHR '';'' \<in> set name then Inl ''TEAM_NAME_CONTAINS_SEMICOLON''
         else Inr name)"

section \<open>The aggregate\<close>

datatype ProfileStatus = Active | Archived

fun profile_status_debug :: "ProfileStatus \<Rightarrow> string" where
  "profile_status_debug Active = ''Active''"
| "profile_status_debug Archived = ''Archived''"

datatype ProfileError = InvalidTransition string | MissingField string | Unauthorized string

fun profile_error_string :: "ProfileError \<Rightarrow> string" where
  "profile_error_string (InvalidTransition s) = ''Invalid profile status transition: '' @ s"
| "profile_error_string (MissingField s) = ''Missing required field: '' @ s"
| "profile_error_string (Unauthorized s) = ''Unauthorized: '' @ s"

datatype ProfileCommand =
    CreateProfile ProfileOwnerId BasicIdentity OrganizationalInfo
  | UpdateBasicIdentity BasicIdentity
  | UpdateOrganizationalInfo OrganizationalInfo
  | UpdateWorkStats WorkStats
  | ArchiveProfile

datatype ProfileEvent =
    ProfileCreated StaffProfileId ProfileOwnerId BasicIdentity OrganizationalInfo UserId Timestamp
  | BasicIdentityUpdated BasicIdentity UserId Timestamp
  | OrganizationalInfoUpdated OrganizationalInfo UserId Timestamp
  | WorkStatsUpdated WorkStats UserId Timestamp
  | ProfileArchived UserId Timestamp

record StaffProfile =
  sp_id :: StaffProfileId
  sp_version :: ObjectVersion
  sp_lifecycle_epoch :: LifecycleEpoch
  sp_authority_epoch :: AuthorityEpoch
  sp_status :: ProfileStatus
  sp_owner_id :: ProfileOwnerId
  sp_identity :: BasicIdentity
  sp_organizational_info :: OrganizationalInfo
  sp_work_stats :: WorkStats

fun profile_create :: "ProfileCommand \<Rightarrow> DecisionContext \<Rightarrow> (ProfileEvent list, ProfileError) result" where
  "profile_create (CreateProfile owner identity info) ctx =
     Inr [ProfileCreated (ctx_object_id ctx 0) owner identity info (user_id (ctx_actor ctx)) (trusted_now ctx)]"
| "profile_create _ _ = Inl (InvalidTransition ''StaffProfile::create() called with a non-CreateProfile command'')"

text \<open>\<open>None\<close> is the panic of an event that is no creation.\<close>

fun profile_from_created_event :: "ProfileEvent \<Rightarrow> StaffProfile option" where
  "profile_from_created_event (ProfileCreated i owner identity info _ _) =
     Some \<lparr>sp_id = i, sp_version = ObjectVersion_INITIAL, sp_lifecycle_epoch = LifecycleEpoch_INITIAL, sp_authority_epoch = AuthorityEpoch_INITIAL,
           sp_status = Active, sp_owner_id = owner, sp_identity = identity, sp_organizational_info = info,
           sp_work_stats = work_stats_unavailable\<rparr>"
| "profile_from_created_event _ = None"

definition profile_invalid :: "StaffProfile \<Rightarrow> string \<Rightarrow> ProfileError" where
  "profile_invalid p command = InvalidTransition (command @ '' from '' @ profile_status_debug (sp_status p))"

definition profile_decide :: "StaffProfile \<Rightarrow> ProfileCommand \<Rightarrow> DecisionContext \<Rightarrow> (ProfileEvent list, ProfileError) result" where
  "profile_decide p command ctx =
     (let actor = user_id (ctx_actor ctx); now = trusted_now ctx
      in if \<not> is_authorized (ctx_authority ctx) ''profile.command'' then Inl (Unauthorized ''actor lacks required authority'')
      else case command of
        CreateProfile _ _ _ \<Rightarrow> Inl (InvalidTransition ''CreateProfile must be dispatched via StaffProfile::create(), not decide()'')
      | UpdateBasicIdentity identity \<Rightarrow>
          (case sp_status p of Active \<Rightarrow> Inr [BasicIdentityUpdated identity actor now] | Archived \<Rightarrow> Inl (profile_invalid p ''UpdateBasicIdentity''))
      | UpdateOrganizationalInfo info \<Rightarrow>
          (case sp_status p of Active \<Rightarrow> Inr [OrganizationalInfoUpdated info actor now]
           | Archived \<Rightarrow> Inl (profile_invalid p ''UpdateOrganizationalInfo''))
      | UpdateWorkStats stats \<Rightarrow>
          (case sp_status p of Active \<Rightarrow> Inr [WorkStatsUpdated stats actor now] | Archived \<Rightarrow> Inl (profile_invalid p ''UpdateWorkStats''))
      | ArchiveProfile \<Rightarrow>
          (case sp_status p of Active \<Rightarrow> Inr [ProfileArchived actor now] | Archived \<Rightarrow> Inl (profile_invalid p ''ArchiveProfile'')))"

fun profile_apply_event :: "ProfileEvent \<Rightarrow> StaffProfile \<Rightarrow> StaffProfile" where
  "profile_apply_event (ProfileCreated _ _ _ _ _ _) p = p"
| "profile_apply_event (BasicIdentityUpdated identity _ _) p = p\<lparr>sp_identity := identity\<rparr>"
| "profile_apply_event (OrganizationalInfoUpdated info _ _) p = p\<lparr>sp_organizational_info := info\<rparr>"
| "profile_apply_event (WorkStatsUpdated stats _ _) p = p\<lparr>sp_work_stats := stats\<rparr>"
| "profile_apply_event (ProfileArchived _ _) p = p\<lparr>sp_status := Archived, sp_lifecycle_epoch := LifecycleEpoch_advance (sp_lifecycle_epoch p)\<rparr>"

definition profile_apply :: "ProfileEvent \<Rightarrow> StaffProfile \<Rightarrow> StaffProfile" where
  "profile_apply e p = (let p' = profile_apply_event e p in p'\<lparr>sp_version := ObjectVersion_next (sp_version p')\<rparr>)"

declare profile_decide_def [agg_simps] profile_apply_def [agg_simps]

section \<open>Laws of the aggregate\<close>

inductive profile_transition :: "ProfileStatus \<Rightarrow> ProfileStatus \<Rightarrow> bool" where
  archive: "profile_transition Active Archived"

inductive_simps profile_transition_simps [simp]: "profile_transition s t"

lemma profile_decide_cases:
  assumes "profile_decide p command ctx = Inr es"
  obtains identity a t where "sp_status p = Active" "command = UpdateBasicIdentity identity" "es = [BasicIdentityUpdated identity a t]"
  | info a t where "sp_status p = Active" "command = UpdateOrganizationalInfo info" "es = [OrganizationalInfoUpdated info a t]"
  | stats a t where "sp_status p = Active" "command = UpdateWorkStats stats" "es = [WorkStatsUpdated stats a t]"
  | a t where "sp_status p = Active" "command = ArchiveProfile" "es = [ProfileArchived a t]"
  using assms by (cases command; cases "sp_status p") (auto simp: profile_decide_def Let_def split: if_splits)

interpretation profile: lifecycle_aggregate sp_id sp_version sp_lifecycle_epoch sp_authority_epoch
    profile_decide profile_apply sp_status profile_transition
proof
  fix e p
  show "sp_id (profile_apply e p) = sp_id p" by (cases e) (simp_all add: profile_apply_def)
  show "sp_version (profile_apply e p) = ObjectVersion_next (sp_version p)" by (cases e) (simp_all add: profile_apply_def)
  show "sp_lifecycle_epoch (profile_apply e p) \<in> {sp_lifecycle_epoch p, LifecycleEpoch_advance (sp_lifecycle_epoch p)}"
    by (cases e) (simp_all add: profile_apply_def)
  show "sp_authority_epoch (profile_apply e p) \<in> {sp_authority_epoch p, AuthorityEpoch_advance (sp_authority_epoch p)}"
    by (cases e) (simp_all add: profile_apply_def)
qed (erule profile_decide_cases; simp add: profile_apply_def kernel_simps)+

interpretation profile_single: single_event_aggregate sp_id sp_version sp_lifecycle_epoch sp_authority_epoch profile_decide profile_apply
  by unfold_locales (erule profile_decide_cases, auto)

section \<open>What a profile becomes\<close>

text \<open>The sections of a profile as a specification: the last accepted replacement of each, until the first archiving.\<close>

fun profile_spec :: "BasicIdentity \<times> OrganizationalInfo \<times> WorkStats \<Rightarrow> ProfileCommand list \<Rightarrow> (BasicIdentity \<times> OrganizationalInfo \<times> WorkStats) \<times> bool" where
  "profile_spec s [] = (s, False)"
| "profile_spec s (ArchiveProfile # _) = (s, True)"
| "profile_spec (i, f, w) (UpdateBasicIdentity i' # cs) = profile_spec (i', f, w) cs"
| "profile_spec (i, f, w) (UpdateOrganizationalInfo f' # cs) = profile_spec (i, f', w) cs"
| "profile_spec (i, f, w) (UpdateWorkStats w' # cs) = profile_spec (i, f, w') cs"
| "profile_spec s (CreateProfile _ _ _ # cs) = profile_spec s cs"

lemma execute_archived: "sp_status p = Archived \<Longrightarrow> execute profile_decide profile_apply p cmd = p"
  by (cases "fst cmd") (auto simp: execute_def profile_decide_def Let_def split: if_splits)

lemma run_archived: "sp_status p = Archived \<Longrightarrow> foldl (execute profile_decide profile_apply) p cmds = p"
  by (induction cmds) (simp_all add: execute_archived)

definition profile_sections :: "StaffProfile \<Rightarrow> BasicIdentity \<times> OrganizationalInfo \<times> WorkStats" where
  "profile_sections p = (sp_identity p, sp_organizational_info p, sp_work_stats p)"

lemma execute_active:
  assumes "sp_status p = Active"
  shows "sp_status (execute profile_decide profile_apply p cmd) = (if fst cmd = ArchiveProfile then Archived else Active)"
    and "profile_spec (profile_sections (execute profile_decide profile_apply p cmd)) cs = profile_spec (profile_sections p) (fst cmd # cs)
      \<or> fst cmd = ArchiveProfile"
    and "fst cmd = ArchiveProfile \<Longrightarrow> profile_sections (execute profile_decide profile_apply p cmd) = profile_sections p"
  using assms
  by (cases "fst cmd"; simp add: execute_def profile_decide_def profile_apply_def profile_sections_def is_authorized_def)+

lemma run_sections:
  assumes "sp_status p = Active"
  shows "(profile_sections (foldl (execute profile_decide profile_apply) p cmds), sp_status (foldl (execute profile_decide profile_apply) p cmds) = Archived)
    = profile_spec (profile_sections p) (map fst cmds)"
  using assms
proof (induction cmds arbitrary: p)
  case (Cons cmd cmds)
  let ?q = "execute profile_decide profile_apply p cmd"
  show ?case
  proof (cases "fst cmd = ArchiveProfile")
    case True
    then show ?thesis using execute_active(1,3) [OF Cons.prems, of cmd] by (simp add: run_archived)
  next
    case False
    then have "sp_status ?q = Active" "profile_spec (profile_sections ?q) (map fst cmds) = profile_spec (profile_sections p) (map fst (cmd # cmds))"
      using execute_active(1,2) [OF Cons.prems, of cmd] by auto
    with Cons.IH [of ?q] show ?thesis by simp
  qed
qed simp

text \<open>
  A profile shows, section by section, the last replacement accepted before it was archived, and nothing else: created profiles start with
  unavailable statistics, an archived one never changes, the account it belongs to stays, and the version counts the accepted commands.
\<close>

theorem profile_shows_last_update:
  assumes "profile_create command ctx = Inr es" and "profile_from_created_event (hd es) = Some p"
    and "q = foldl (execute profile_decide profile_apply) p cmds"
  shows "\<exists>owner identity info. command = CreateProfile owner identity info
    \<and> (profile_sections q, sp_status q = Archived) = profile_spec (identity, info, work_stats_unavailable) (map fst cmds)
    \<and> sp_owner_id q = owner \<and> sp_id q = ctx_object_id ctx 0
    \<and> sp_version q = ObjectVersion_INITIAL + of_nat (event_count profile_decide profile_apply p cmds)
    \<and> (sp_status q = Archived \<longrightarrow> (\<forall>c cx. \<exists>e. profile_decide q c cx = Inl e))"
proof -
  from assms(1) obtain owner identity info where c: "command = CreateProfile owner identity info"
    "es = [ProfileCreated (ctx_object_id ctx 0) owner identity info (user_id (ctx_actor ctx)) (trusted_now ctx)]"
    by (cases command) auto
  with assms(2) have p: "sp_status p = Active" "profile_sections p = (identity, info, work_stats_unavailable)" "sp_owner_id p = owner"
    "sp_id p = ctx_object_id ctx 0" "sp_version p = ObjectVersion_INITIAL"
    by (auto simp: profile_sections_def)
  have owner: "sp_owner_id (foldl (execute profile_decide profile_apply) r cmds) = sp_owner_id r" for r
  proof (induction cmds arbitrary: r)
    case (Cons cmd cmds)
    have "sp_owner_id (execute profile_decide profile_apply r cmd) = sp_owner_id r"
      by (auto simp: execute_def profile_apply_def split: sum.split elim!: profile_decide_cases)
    with Cons show ?case by simp
  qed simp
  have "sp_status q = Archived \<longrightarrow> (\<forall>c cx. \<exists>e. profile_decide q c cx = Inl e)"
    by (auto simp: profile_decide_def Let_def split: ProfileCommand.split)
  with c p run_sections [OF p(1), of cmds] owner [of p] profile.run_id [of p cmds] profile.run_version [of p cmds] show ?thesis
    by (simp add: assms(3))
qed

end
