(* ===== verification/Staff_Import.thy ===== *)
theory Staff_Import
  imports Profile_Domain "HOL-Library.Finite_Map" "HOL-Library.Sublist"
begin

text \<open>
  Lists of staff that enter and leave the API server (\<open>bins/api-server/src/routes/profiles\<close>): generated identifiers (\<open>id_generator.rs\<close>), the
  sheet of staff members (\<open>staff_sheet.rs\<close>) and the rows of the batch import and export (\<open>batch.rs\<close>). Reading a workbook is the work of the
  calamine crate and parsing a UUID that of the uuid crate: parameters, as is the decimal form of an \<open>f64\<close>. Strings are their UTF-8 bytes;
  splitting at a semicolon and looking for ASCII characters are the same on bytes and on characters.
\<close>

section \<open>Strings\<close>

definition SEMI :: char where
  "SEMI = CHR '';''"

fun split_semi :: "string \<Rightarrow> string list" where
  "split_semi [] = [[]]"
| "split_semi (c # s) = (if c = SEMI then [] # split_semi s else case split_semi s of [] \<Rightarrow> [[c]] | w # ws \<Rightarrow> (c # w) # ws)"

fun join_with :: "string \<Rightarrow> string list \<Rightarrow> string" where
  "join_with sep [] = []"
| "join_with sep [t] = t"
| "join_with sep (t # u # ts) = t @ sep @ join_with sep (u # ts)"

definition is_ascii_alphabetic :: "char \<Rightarrow> bool" where
  "is_ascii_alphabetic c \<longleftrightarrow> 65 \<le> code c \<and> code c \<le> 90 \<or> 97 \<le> code c \<and> code c \<le> 122"

definition to_ascii_lowercase :: "char \<Rightarrow> char" where
  "to_ascii_lowercase c = (if 65 \<le> code c \<and> code c \<le> 90 then char_of (code c + 32) else c)"



text \<open>The formats \<open>{:02}\<close> and \<open>{:04}\<close>.\<close>

definition zero_padded :: "nat \<Rightarrow> nat \<Rightarrow> string" where
  "zero_padded w n = replicate (w - length (show_nat n)) (CHR ''0'') @ show_nat n"

section \<open>Generated identifiers\<close>

datatype IdError = NonLatinName | OrderOutOfRange "32 word" | YearOutOfRange int | InvalidDate

definition first_ascii_letter :: "string \<Rightarrow> (char, IdError) result" where
  "first_ascii_letter name =
     (case List.find is_ascii_alphabetic (trim name) of Some c \<Rightarrow> Inr (to_ascii_lowercase c) | None \<Rightarrow> Inl NonLatinName)"

definition initials :: "string \<Rightarrow> string \<Rightarrow> (string, IdError) result" where
  "initials first_name last_name =
     (case first_ascii_letter first_name of
        Inl e \<Rightarrow> Inl e
      | Inr f \<Rightarrow> (case first_ascii_letter last_name of Inl e \<Rightarrow> Inl e | Inr l \<Rightarrow> Inr [f, l]))"

definition check_order :: "32 word \<Rightarrow> (unit, IdError) result" where
  "check_order order = (if 1 \<le> order \<and> order \<le> 9999 then Inr () else Inl (OrderOutOfRange order))"

text \<open>A year is an \<open>i32\<close>; the subtraction happens only in the range.\<close>

definition two_digit_year :: "int \<Rightarrow> (nat, IdError) result" where
  "two_digit_year year = (if 2000 \<le> year \<and> year \<le> 2099 then Inr (nat (year - 2000)) else Inl (YearOutOfRange year))"

definition staff_id :: "int \<Rightarrow> string \<Rightarrow> string \<Rightarrow> 32 word \<Rightarrow> (string, IdError) result" where
  "staff_id year first_name last_name order =
     (case two_digit_year year of
        Inl e \<Rightarrow> Inl e
      | Inr yy \<Rightarrow>
          (case check_order order of
             Inl e \<Rightarrow> Inl e
           | Inr _ \<Rightarrow>
               (case initials first_name last_name of
                  Inl e \<Rightarrow> Inl e
                | Inr ini \<Rightarrow> Inr (''st'' @ zero_padded 2 yy @ ini @ zero_padded 4 (unat order)))))"

definition is_valid_date :: "int \<Rightarrow> 32 word \<Rightarrow> 32 word \<Rightarrow> bool" where
  "is_valid_date year month day =
     (if \<not> (1 \<le> month \<and> month \<le> 12) \<or> day = 0 then False
      else
        let leap = (year mod 4 = 0 \<and> year mod 100 \<noteq> 0) \<or> year mod 400 = 0;
            days = (if month \<in> {1, 3, 5, 7, 8, 10, 12} then 31 else if month \<in> {4, 6, 9, 11} then 30 else if leap then 29 else 28)
        in day \<le> days)"

definition team_id :: "int \<Rightarrow> 32 word \<Rightarrow> 32 word \<Rightarrow> string \<Rightarrow> string \<Rightarrow> 32 word \<Rightarrow> (string, IdError) result" where
  "team_id year month day leader_first leader_last order =
     (case two_digit_year year of
        Inl e \<Rightarrow> Inl e
      | Inr yy \<Rightarrow>
          if \<not> is_valid_date year month day then Inl InvalidDate
          else
            (case check_order order of
               Inl e \<Rightarrow> Inl e
             | Inr _ \<Rightarrow>
                 (case initials leader_first leader_last of
                    Inl e \<Rightarrow> Inl e
                  | Inr ini \<Rightarrow> Inr (''tm'' @ zero_padded 2 yy @ zero_padded 2 (unat month) @ zero_padded 2 (unat day) @ ini @ zero_padded 4 (unat order)))))"

section \<open>The staff sheet\<close>





















section \<open>Rows of the batch import and export\<close>

record PublicProfileDto =
  dto_profile_id :: string
  dto_owner_id :: string
  dto_full_name :: string
  dto_photo_blob_key :: "string option"
  dto_job_title :: "string option"
  dto_contact_email :: "string option"
  dto_contact_phone :: "string option"
  dto_department :: "string option"
  dto_class_label :: "string option"
  dto_parent_display_name :: "string option"
  dto_team_memberships :: "string list"

definition to_public_dto :: "(ObjectId \<Rightarrow> string) \<Rightarrow> StaffProfile \<Rightarrow> PublicProfileDto" where
  "to_public_dto id_to_string profile =
     (let identity = sp_identity profile; org = sp_organizational_info profile
      in \<lparr>dto_profile_id = id_to_string (sp_id profile), dto_owner_id = id_to_string (sp_owner_id profile), dto_full_name = bi_full_name identity,
          dto_photo_blob_key = bi_photo_blob_key identity, dto_job_title = bi_job_title identity, dto_contact_email = bi_contact_email identity,
          dto_contact_phone = bi_contact_phone identity, dto_department = oi_department org, dto_class_label = oi_class_label org,
          dto_parent_display_name = oi_parent_display_name org, dto_team_memberships = oi_team_memberships org\<rparr>)"

record UpsertProfileRequest =
  upr_owner_id :: string
  upr_full_name :: string
  upr_photo_blob_key :: "string option"
  upr_job_title :: "string option"
  upr_contact_email :: "string option"
  upr_contact_phone :: "string option"
  upr_department :: "string option"
  upr_class_label :: "string option"
  upr_parent_display_name :: "string option"
  upr_team_memberships :: "string list"

record ImportExportRow =
  ier_user_id :: string
  ier_full_name :: string
  ier_contact_email :: string
  ier_contact_phone :: string
  ier_job_title :: string
  ier_department :: string
  ier_photo_blob_key :: "string option"
  ier_class_label :: "string option"
  ier_parent_display_name :: "string option"
  ier_team_memberships :: "string list"

definition row_validate :: "(string \<Rightarrow> ObjectId option) \<Rightarrow> ImportExportRow \<Rightarrow> (unit, string) result" where
  "row_validate parse_uuid row =
     (if trim_is_empty (ier_user_id row) then Inl ''user_id is required''
      else if parse_uuid (trim (ier_user_id row)) = None then Inl (''user_id is not a valid UUID: '' @ ier_user_id row)
      else if trim_is_empty (ier_full_name row) then Inl ''full_name is required''
      else if trim_is_empty (ier_contact_email row) then Inl ''contact_email is required''
      else if trim_is_empty (ier_contact_phone row) then Inl ''contact_phone is required''
      else if trim_is_empty (ier_job_title row) then Inl ''job_title is required''
      else if trim_is_empty (ier_department row) then Inl ''department is required''
      else Inr ())"

definition into_upsert_request :: "ImportExportRow \<Rightarrow> UpsertProfileRequest" where
  "into_upsert_request row =
     \<lparr>upr_owner_id = ier_user_id row, upr_full_name = ier_full_name row, upr_photo_blob_key = ier_photo_blob_key row,
      upr_job_title = Some (ier_job_title row), upr_contact_email = Some (ier_contact_email row),
      upr_contact_phone = Some (ier_contact_phone row), upr_department = Some (ier_department row),
      upr_class_label = ier_class_label row, upr_parent_display_name = ier_parent_display_name row,
      upr_team_memberships = ier_team_memberships row\<rparr>"

record CsvRow =
  csv_user_id :: string
  csv_full_name :: string
  csv_contact_email :: string
  csv_contact_phone :: string
  csv_job_title :: string
  csv_department :: string
  csv_photo_blob_key :: string
  csv_class_label :: string
  csv_parent_display_name :: string
  csv_team_memberships :: string

definition empty_to_none :: "string \<Rightarrow> string option" where
  "empty_to_none s = (let trimmed = trim s in if trimmed = [] then None else Some trimmed)"

definition row_from_csv :: "CsvRow \<Rightarrow> ImportExportRow" where
  "row_from_csv row =
     \<lparr>ier_user_id = csv_user_id row, ier_full_name = csv_full_name row, ier_contact_email = csv_contact_email row,
      ier_contact_phone = csv_contact_phone row, ier_job_title = csv_job_title row, ier_department = csv_department row,
      ier_photo_blob_key = empty_to_none (csv_photo_blob_key row), ier_class_label = empty_to_none (csv_class_label row),
      ier_parent_display_name = empty_to_none (csv_parent_display_name row),
      ier_team_memberships = filter (\<lambda>w. w \<noteq> []) (map trim (split_semi (csv_team_memberships row)))\<rparr>"

definition unwrap_or_default :: "string option \<Rightarrow> string" where
  "unwrap_or_default x = (case x of None \<Rightarrow> [] | Some s \<Rightarrow> s)"

definition csv_from_dto :: "PublicProfileDto \<Rightarrow> CsvRow" where
  "csv_from_dto dto =
     \<lparr>csv_user_id = dto_owner_id dto, csv_full_name = dto_full_name dto, csv_contact_email = unwrap_or_default (dto_contact_email dto),
      csv_contact_phone = unwrap_or_default (dto_contact_phone dto), csv_job_title = unwrap_or_default (dto_job_title dto),
      csv_department = unwrap_or_default (dto_department dto), csv_photo_blob_key = unwrap_or_default (dto_photo_blob_key dto),
      csv_class_label = unwrap_or_default (dto_class_label dto), csv_parent_display_name = unwrap_or_default (dto_parent_display_name dto),
      csv_team_memberships = join_with [SEMI] (dto_team_memberships dto)\<rparr>"

section \<open>Trimming and splitting\<close>

lemma trim_is_empty_append: "trim_is_empty s \<Longrightarrow> trim_is_empty t \<Longrightarrow> trim_is_empty (s @ t)"
proof (induction s rule: trim_is_empty.induct)
  case (2 a s)
  show ?case
    using "2.prems" "2.IH" unfolding append_Cons trim_is_empty.simps(2) [of a s] trim_is_empty.simps(2) [of a "s @ t"]
    by (auto simp del: trim_is_empty.simps split: list.splits if_splits)
qed simp

lemma trim_end_split: "\<exists>w. s = trim_end s @ w \<and> trim_is_empty w"
proof (induction s)
  case (Cons a s)
  then show ?case by (cases "trim_is_empty (a # s)") (auto simp del: trim_is_empty.simps(2))
qed simp

lemma trim_end_idem: "trim_end (trim_end s) = trim_end s"
proof (induction s)
  case (Cons a s)
  have "trim_is_empty (a # s)" if blank: "trim_is_empty (a # trim_end s)"
  proof -
    obtain w where w: "trim_end s @ w = s" "trim_is_empty w" using trim_end_split [of s] by metis
    from trim_is_empty_append [OF blank w(2)] show ?thesis by (simp only: append_Cons w(1))
  qed
  with Cons show ?case by (auto simp del: trim_is_empty.simps(2))
qed simp

lemma trim_start_suffix: "suffix (trim_start s) s"
proof (induction s rule: trim_start.induct)
  case (2 a s)
  show ?case
    using "2.IH" unfolding trim_start.simps(2) [of a s]
    by (auto simp del: trim_start.simps simp: suffix_Cons split: list.splits)
qed simp

lemma trim_start_idem: "trim_start (trim_start s) = trim_start s"
proof (induction s rule: trim_start.induct)
  case (2 a s)
  show ?case
  proof (cases "trim_start (a # s) = a # s")
    case False
    with "2.IH" show ?thesis unfolding trim_start.simps(2) [of a s]
      by (auto simp del: trim_start.simps split: list.splits if_splits)
  qed simp
qed simp

text \<open>A prefix of a string that starts with no white space starts with none either.\<close>

lemma trim_start_prefix:
  assumes "trim_start (p @ w) = p @ w"
  shows "trim_start p = p"
proof (cases p)
  case (Cons a q)
  have shorter: "length (trim_start s) \<le> length s" for s using suffix_length_le [OF trim_start_suffix] .
  show ?thesis
  proof (rule ccontr)
    assume "trim_start p \<noteq> p"
    then consider "9 \<le> code a \<and> code a \<le> 13 \<or> code a = 32"
      | b r where "q = b # r" "code a = 194 \<and> (code b = 133 \<or> code b = 160)"
      | b c r where "q = b # c # r" "is_ws3 (code a) (code b) (code c)"
      unfolding Cons trim_start.simps(2) [of a q] by (auto simp del: trim_start.simps split: list.splits if_splits)
    then have "length (trim_start (p @ w)) < length (p @ w)"
    proof cases
      case 1
      then show ?thesis using shorter [of "q @ w"] unfolding Cons append_Cons trim_start.simps(2) [of a "q @ w"] by (simp del: trim_start.simps)
    next
      case (2 b r)
      then show ?thesis using shorter [of "r @ w"] shorter [of "q @ w"] unfolding Cons append_Cons trim_start.simps(2) [of a "q @ w"]
        by (auto simp del: trim_start.simps)
    next
      case (3 b c r)
      then show ?thesis using shorter [of "r @ w"] shorter [of "q @ w"] shorter [of "c # r @ w"] unfolding Cons append_Cons trim_start.simps(2) [of a "q @ w"]
        by (auto simp del: trim_start.simps)
    qed
    with assms show False by simp
  qed
qed simp

lemma trim_idem [simp]: "trim (trim s) = trim s"
proof -
  obtain w where w: "trim_start s = trim_end (trim_start s) @ w" using trim_end_split by blast
  have "trim_start (trim_end (trim_start s)) = trim_end (trim_start s)"
    by (rule trim_start_prefix [of _ w]) (use w trim_start_idem [of s] in simp)
  then show ?thesis by (simp add: trim_def trim_end_idem)
qed

lemma set_trim: "set (trim s) \<subseteq> set s"
proof -
  obtain w where "trim_start s = trim s @ w" using trim_end_split [of "trim_start s"] by (auto simp: trim_def)
  then have "set (trim s) \<subseteq> set (trim_start s)" by (metis Un_upper1 set_append)
  then show ?thesis using set_mono_suffix [OF trim_start_suffix [of s]] by blast
qed

lemma split_semi_pieces: "w \<in> set (split_semi s) \<Longrightarrow> SEMI \<notin> set w"
  by (induction s arbitrary: w) (auto split: list.splits if_splits)

lemma split_semi_single: "SEMI \<notin> set t \<Longrightarrow> split_semi t = [t]"
  by (induction t) auto

lemma split_semi_append: "SEMI \<notin> set t \<Longrightarrow> split_semi (t @ SEMI # s) = t # split_semi s"
  by (induction t) auto

lemma split_join: "ts \<noteq> [] \<Longrightarrow> \<forall>t \<in> set ts. SEMI \<notin> set t \<Longrightarrow> split_semi (join_with [SEMI] ts) = ts"
  by (induction ts rule: induct_list012) (auto simp: split_semi_single split_semi_append)

section \<open>Export and import\<close>

lemma validate_team_name_exact: "validate_team_name t = Inr t \<longleftrightarrow> trim t = t \<and> t \<noteq> [] \<and> SEMI \<notin> set t"
  by (auto simp: validate_team_name_def Let_def SEMI_def)

lemma team_names_roundtrip:
  "filter (\<lambda>w. w \<noteq> []) (map trim (split_semi (join_with [SEMI] ts))) = ts \<longleftrightarrow> (\<forall>t \<in> set ts. validate_team_name t = Inr t)"
proof
  assume same: "filter (\<lambda>w. w \<noteq> []) (map trim (split_semi (join_with [SEMI] ts))) = ts"
  show "\<forall>t \<in> set ts. validate_team_name t = Inr t"
  proof
    fix t
    assume "t \<in> set ts"
    then have "t \<in> set (filter (\<lambda>w. w \<noteq> []) (map trim (split_semi (join_with [SEMI] ts))))" using same by simp
    then obtain w where "w \<in> set (split_semi (join_with [SEMI] ts))" "t = trim w" "t \<noteq> []" by auto
    then show "validate_team_name t = Inr t" using split_semi_pieces set_trim [of w] by (auto simp: validate_team_name_exact)
  qed
next
  assume ok: "\<forall>t \<in> set ts. validate_team_name t = Inr t"
  have all: "map trim ts = ts" "filter (\<lambda>w. w \<noteq> []) ts = ts" using ok by (auto simp: validate_team_name_exact intro: map_idI)
  show "filter (\<lambda>w. w \<noteq> []) (map trim (split_semi (join_with [SEMI] ts))) = ts"
  proof (cases "ts = []")
    case False
    then show ?thesis using split_join [of ts] ok all by (auto simp: validate_team_name_exact)
  qed (simp add: trim_def)
qed

lemma empty_to_none_roundtrip: "empty_to_none (unwrap_or_default x) = x \<longleftrightarrow> (\<forall>s. x = Some s \<longrightarrow> s \<noteq> [] \<and> trim s = s)"
  by (cases x) (auto simp: empty_to_none_def unwrap_or_default_def Let_def trim_def)

text \<open>The request that restores an exported profile.\<close>

definition dto_request :: "PublicProfileDto \<Rightarrow> UpsertProfileRequest" where
  "dto_request dto =
     \<lparr>upr_owner_id = dto_owner_id dto, upr_full_name = dto_full_name dto, upr_photo_blob_key = dto_photo_blob_key dto,
      upr_job_title = dto_job_title dto, upr_contact_email = dto_contact_email dto, upr_contact_phone = dto_contact_phone dto,
      upr_department = dto_department dto, upr_class_label = dto_class_label dto, upr_parent_display_name = dto_parent_display_name dto,
      upr_team_memberships = dto_team_memberships dto\<rparr>"

text \<open>
  C36. A profile exported as CSV is imported as it was exactly when its e-mail, phone, job title and department are set, its optional fields are
  trimmed and not empty, and every team name is one the validation of team names accepts unchanged; and the exported row passes the
  validation of the import exactly when its owner is a UUID and its mandatory fields are not blank.
\<close>

theorem csv_roundtrip:
  "(into_upsert_request (row_from_csv (csv_from_dto dto)) = dto_request dto \<longleftrightarrow>
      dto_contact_email dto \<noteq> None \<and> dto_contact_phone dto \<noteq> None \<and> dto_job_title dto \<noteq> None \<and> dto_department dto \<noteq> None
      \<and> (\<forall>x \<in> {dto_photo_blob_key dto, dto_class_label dto, dto_parent_display_name dto}. \<forall>s. x = Some s \<longrightarrow> s \<noteq> [] \<and> trim s = s)
      \<and> (\<forall>t \<in> set (dto_team_memberships dto). validate_team_name t = Inr t))
    \<and> (row_validate parse_uuid (row_from_csv (csv_from_dto dto)) = Inr () \<longleftrightarrow>
      \<not> trim_is_empty (dto_owner_id dto) \<and> parse_uuid (trim (dto_owner_id dto)) \<noteq> None \<and> \<not> trim_is_empty (dto_full_name dto)
      \<and> (\<forall>x \<in> {dto_contact_email dto, dto_contact_phone dto, dto_job_title dto, dto_department dto}. \<exists>s. x = Some s \<and> \<not> trim_is_empty s))"
proof
  have some: "Some (unwrap_or_default x) = x \<longleftrightarrow> x \<noteq> None" for x by (cases x) (simp_all add: unwrap_or_default_def)
  show "into_upsert_request (row_from_csv (csv_from_dto dto)) = dto_request dto \<longleftrightarrow>
      dto_contact_email dto \<noteq> None \<and> dto_contact_phone dto \<noteq> None \<and> dto_job_title dto \<noteq> None \<and> dto_department dto \<noteq> None
      \<and> (\<forall>x \<in> {dto_photo_blob_key dto, dto_class_label dto, dto_parent_display_name dto}. \<forall>s. x = Some s \<longrightarrow> s \<noteq> [] \<and> trim s = s)
      \<and> (\<forall>t \<in> set (dto_team_memberships dto). validate_team_name t = Inr t)"
    by (simp add: into_upsert_request_def row_from_csv_def csv_from_dto_def dto_request_def some empty_to_none_roundtrip team_names_roundtrip) blast
next
  have blank: "\<not> trim_is_empty (unwrap_or_default x) \<longleftrightarrow> (\<exists>s. x = Some s \<and> \<not> trim_is_empty s)" for x
    by (cases x) (simp_all add: unwrap_or_default_def)
  show "row_validate parse_uuid (row_from_csv (csv_from_dto dto)) = Inr () \<longleftrightarrow>
      \<not> trim_is_empty (dto_owner_id dto) \<and> parse_uuid (trim (dto_owner_id dto)) \<noteq> None \<and> \<not> trim_is_empty (dto_full_name dto)
      \<and> (\<forall>x \<in> {dto_contact_email dto, dto_contact_phone dto, dto_job_title dto, dto_department dto}. \<exists>s. x = Some s \<and> \<not> trim_is_empty s)"
    by (simp add: row_validate_def row_from_csv_def csv_from_dto_def blank [symmetric])
qed

section \<open>Reading the sheet\<close>









section \<open>Identifiers\<close>

definition decimal :: "string \<Rightarrow> nat" where
  "decimal s = foldl (\<lambda>n c. n * 10 + (code c - 48)) 0 s"

lemma decimal_snoc: "decimal (s @ [c]) = decimal s * 10 + (code c - 48)"
  by (simp add: decimal_def)

lemma code_digit: "n < 10 \<Longrightarrow> code (char_of (48 + n)) = 48 + n"
  by simp

lemma decimal_show_nat: "decimal (show_nat n) = n"
proof (induction n rule: show_nat.induct)
  case (1 n)
  show ?case
  proof (cases "n < 10")
    case True
    then show ?thesis by (simp add: show_nat.simps [of n] decimal_def del: show_nat.simps)
  next
    case False
    with 1 show ?thesis by (simp add: show_nat.simps [of n] decimal_snoc del: show_nat.simps)
  qed
qed

lemma show_nat_length: "0 < w \<Longrightarrow> n < 10 ^ w \<Longrightarrow> length (show_nat n) \<le> w"
proof (induction n arbitrary: w rule: show_nat.induct)
  case (1 n)
  show ?case
  proof (cases "n < 10")
    case True
    then show ?thesis using 1(2) by (simp add: show_nat.simps [of n] del: show_nat.simps)
  next
    case False
    then obtain v where v: "w = Suc v" "0 < v" using 1(2,3) by (cases w) (auto, cases "w - 1", auto)
    then have "n div 10 < 10 ^ v" using 1(3) by (simp add: less_mult_imp_div_less mult.commute)
    with 1(1) [OF False v(2)] False v show ?thesis by (simp add: show_nat.simps [of n] del: show_nat.simps)
  qed
qed

lemma zero_padded_length: "0 < w \<Longrightarrow> n < 10 ^ w \<Longrightarrow> length (zero_padded w n) = w"
  using show_nat_length [of w n] by (simp add: zero_padded_def del: show_nat.simps)

lemma decimal_zeros: "decimal (replicate k (CHR ''0'') @ s) = decimal s"
proof -
  have "foldl (\<lambda>n c. n * 10 + (code c - 48)) 0 (replicate k (CHR ''0'')) = 0" by (induction k) simp_all
  then show ?thesis by (simp add: decimal_def)
qed

lemma zero_padded_inj: "zero_padded w m = zero_padded w n \<longleftrightarrow> m = n"
  by (metis decimal_show_nat decimal_zeros zero_padded_def)

lemma initials_length: "initials f l = Inr ini \<Longrightarrow> length ini = 2"
  by (auto simp: initials_def split: sum.splits)

lemma order_bound: "check_order order = Inr u \<Longrightarrow> unat order < 10 ^ 4"
  by (auto simp: check_order_def word_le_nat_alt split: if_splits)

lemma staff_id_parts:
  assumes "staff_id year f l order = Inr s"
  obtains yy ini where "yy < 10 ^ 2" and "year = int yy + 2000" and "initials f l = Inr ini" and "unat order < 10 ^ 4"
    and "s = ''st'' @ zero_padded 2 yy @ ini @ zero_padded 4 (unat order)"
  using assms that [of "nat (year - 2000)"] order_bound [of order]
  by (auto simp: staff_id_def two_digit_year_def split: sum.splits if_splits)

lemma valid_date_bounds:
  assumes "is_valid_date year month day"
  shows "unat month < 10 ^ 2 \<and> unat day < 10 ^ 2"
proof -
  have "month \<le> 12" using assms by (auto simp: is_valid_date_def split: if_splits)
  moreover have "day \<le> 31" using assms by (auto simp: is_valid_date_def Let_def word_le_nat_alt split: if_splits)
  ultimately show ?thesis by (simp add: word_le_nat_alt)
qed

lemma team_id_parts:
  assumes "team_id year month day f l order = Inr s"
  obtains yy ini where "yy < 10 ^ 2" and "year = int yy + 2000" and "initials f l = Inr ini" and "unat order < 10 ^ 4"
    and "unat month < 10 ^ 2" and "unat day < 10 ^ 2"
    and "s = ''tm'' @ zero_padded 2 yy @ zero_padded 2 (unat month) @ zero_padded 2 (unat day) @ ini @ zero_padded 4 (unat order)"
  using assms that [of "nat (year - 2000)"] order_bound [of order] valid_date_bounds [of year month day]
  by (auto simp: team_id_def two_digit_year_def split: sum.splits if_splits)

text \<open>
  Generated identifiers tell apart what they name: a staff identifier has ten characters and determines the year, the initials and the order
  it was made from, a team identifier has fourteen and determines the date, the initials of the leader and the order, and no identifier is both.
\<close>

theorem generated_ids_distinct:
  assumes "staff_id year f l order = Inr s" and "team_id tyear month day tf ll torder = Inr t"
  shows "length s = 10 \<and> length t = 14 \<and> take 2 s = ''st'' \<and> take 2 t = ''tm''
    \<and> (staff_id year' f' l' order' = Inr s \<longrightarrow> year' = year \<and> order' = order \<and> initials f' l' = initials f l)
    \<and> (team_id tyear' month' day' tf' ll' torder' = Inr t
        \<longrightarrow> tyear' = tyear \<and> month' = month \<and> day' = day \<and> torder' = torder \<and> initials tf' ll' = initials tf ll)"
proof -
  obtain yy ini where s: "yy < 10 ^ 2" "year = int yy + 2000" "initials f l = Inr ini" "unat order < 10 ^ 4"
    "s = ''st'' @ zero_padded 2 yy @ ini @ zero_padded 4 (unat order)"
    using assms(1) by (rule staff_id_parts)
  obtain ty ti where t: "ty < 10 ^ 2" "tyear = int ty + 2000" "initials tf ll = Inr ti" "unat torder < 10 ^ 4" "unat month < 10 ^ 2" "unat day < 10 ^ 2"
    "t = ''tm'' @ zero_padded 2 ty @ zero_padded 2 (unat month) @ zero_padded 2 (unat day) @ ti @ zero_padded 4 (unat torder)"
    using assms(2) by (rule team_id_parts)
  have "year' = year \<and> order' = order \<and> initials f' l' = initials f l" if "staff_id year' f' l' order' = Inr s"
    using that
  proof (rule staff_id_parts)
    fix y i
    assume "y < 10 ^ 2" "year' = int y + 2000" "initials f' l' = Inr i" "unat order' < 10 ^ 4" "s = ''st'' @ zero_padded 2 y @ i @ zero_padded 4 (unat order')"
    with s show ?thesis by (simp add: zero_padded_length zero_padded_inj initials_length append_eq_append_conv word_unat_eq_iff)
  qed
  moreover have "tyear' = tyear \<and> month' = month \<and> day' = day \<and> torder' = torder \<and> initials tf' ll' = initials tf ll"
    if "team_id tyear' month' day' tf' ll' torder' = Inr t"
    using that
  proof (rule team_id_parts)
    fix y i
    assume "y < 10 ^ 2" "tyear' = int y + 2000" "initials tf' ll' = Inr i" "unat torder' < 10 ^ 4" "unat month' < 10 ^ 2" "unat day' < 10 ^ 2"
      "t = ''tm'' @ zero_padded 2 y @ zero_padded 2 (unat month') @ zero_padded 2 (unat day') @ i @ zero_padded 4 (unat torder')"
    with t show ?thesis by (simp add: zero_padded_length zero_padded_inj initials_length append_eq_append_conv word_unat_eq_iff)
  qed
  moreover have "length s = 10" "take 2 s = ''st''" using s initials_length [OF s(3)] by (simp_all add: zero_padded_length)
  moreover have "length t = 14" "take 2 t = ''tm''" using t initials_length [OF t(3)] by (simp_all add: zero_padded_length)
  ultimately show ?thesis by blast
qed

section \<open>Sample data\<close>

definition sample_dto :: PublicProfileDto where
  "sample_dto = \<lparr>dto_profile_id = ''p'', dto_owner_id = ''u'', dto_full_name = ''Ann'', dto_photo_blob_key = None, dto_job_title = Some ''dev'',
     dto_contact_email = Some ''a@x'', dto_contact_phone = Some ''5'', dto_department = Some ''it'', dto_class_label = Some ''staff'',
     dto_parent_display_name = None, dto_team_memberships = [''Red'', ''Blue'']\<rparr>"

theorem csv_roundtrip_witness:
  "into_upsert_request (row_from_csv (csv_from_dto sample_dto)) = dto_request sample_dto
    \<and> into_upsert_request (row_from_csv (csv_from_dto (sample_dto\<lparr>dto_team_memberships := [''A;B'']\<rparr>))) \<noteq> dto_request (sample_dto\<lparr>dto_team_memberships := [''A;B'']\<rparr>)
    \<and> row_validate (\<lambda>_. Some 1) (row_from_csv (csv_from_dto sample_dto)) = Inr ()"
proof -
  have names: "validate_team_name ''Red'' = Inr ''Red''" "validate_team_name ''Blue'' = Inr ''Blue''" "validate_team_name ''A;B'' \<noteq> Inr ''A;B''" "trim ''staff'' = ''staff''"
    by code_simp+
  have texts: "\<not> trim_is_empty ''u''" "\<not> trim_is_empty ''Ann''" "\<not> trim_is_empty ''a@x''" "\<not> trim_is_empty ''5''" "\<not> trim_is_empty ''dev''" "\<not> trim_is_empty ''it''"
    by code_simp+
  have "into_upsert_request (row_from_csv (csv_from_dto sample_dto)) = dto_request sample_dto"
    by (rule csv_roundtrip [where dto = sample_dto and parse_uuid = "\<lambda>_. None", THEN conjunct1, THEN iffD2]) (simp add: sample_dto_def names)
  moreover have "into_upsert_request (row_from_csv (csv_from_dto (sample_dto\<lparr>dto_team_memberships := [''A;B'']\<rparr>))) \<noteq> dto_request (sample_dto\<lparr>dto_team_memberships := [''A;B'']\<rparr>)"
    using csv_roundtrip [of "sample_dto\<lparr>dto_team_memberships := [''A;B'']\<rparr>" "\<lambda>_. None"] names(3) by simp
  moreover have "row_validate (\<lambda>_. Some 1) (row_from_csv (csv_from_dto sample_dto)) = Inr ()"
    by (rule csv_roundtrip [where dto = sample_dto and parse_uuid = "\<lambda>_. Some 1", THEN conjunct2, THEN iffD2]) (simp add: sample_dto_def texts del: trim_is_empty.simps)
  ultimately show ?thesis by blast
qed





end
