(* ===== verification/Profile_Routes.thy ===== *)
theory Profile_Routes
  imports Staff_Import Api_Admin Verification_Authority Authority_Proof
begin

text \<open>
  The profile routes of the API server (\<open>bins/api-server/src/routes/profiles/mod.rs\<close> and \<open>batch.rs\<close>) over the SQLite tables. The serialised form
  of a profile (serde), CSV and JSON readers and the multipart decoder are parameters; so are the clock, the generated identifiers and the faults
  of the stores, which an index tells apart: a request with several upserts uses one index per row, and two for the two scans of the table a row makes.
\<close>

section \<open>Environment\<close>

record 'v ProfileEnv =
  pe_from_value :: "'v \<Rightarrow> (StaffProfile, string) result"
  pe_to_value :: "StaffProfile \<Rightarrow> ('v, string) result"
  pe_uuid :: UuidOps
  pe_to_string :: "'v \<Rightarrow> string"
  pe_now :: "nat \<Rightarrow> Timestamp"
  pe_object_id :: "nat \<Rightarrow> ObjectId"
  pe_commit_now :: "nat \<Rightarrow> Timestamp"
  pe_rows_fault :: "nat \<Rightarrow> string option"
  pe_user_fault :: "nat \<Rightarrow> string option"
  pe_begin_fault :: "nat \<Rightarrow> string option"
  pe_commit_fault :: "nat \<Rightarrow> nat \<Rightarrow> string option"
  pe_json_rows :: "string \<Rightarrow> (ImportExportRow list, string) result"
  pe_csv_records :: "string \<Rightarrow> (CsvRow, string) result list"

definition domain_error :: "('sk, 'k, 'g, 'v) AuthEnv \<Rightarrow> string \<Rightarrow> 'v ApiError" where
  "domain_error A message =
     ApiError_new 400 ''PROFILE_DOMAIN_ERROR'' ''VALIDATION'' ''NON_RETRYABLE'' (ae_uuid A 0)
       (jb_object (ae_build A) [(''message'', jb_string (ae_build A) message)])"

definition infrastructure_error :: "('sk, 'k, 'g, 'v) AuthEnv \<Rightarrow> 'v ApiError" where
  "infrastructure_error A =
     ApiError_new 500 ''PROFILE_STORE_UNAVAILABLE'' ''INFRASTRUCTURE'' ''TRANSIENT'' (ae_uuid A 0) (jb_object (ae_build A) [])"

section \<open>Storage helpers\<close>

text \<open>\<open>SELECT state FROM aggregates WHERE organization_id = ? AND aggregate_type = ?\<close> in primary key order; unreadable states are left out.\<close>

definition fetch_staff_profile_rows :: "('sk, 'k, 'g, 'v) AuthEnv \<Rightarrow> 'v ProfileEnv \<Rightarrow> nat \<Rightarrow> OrganizationId \<Rightarrow> Db \<Rightarrow> ('v list, string) result" where
  "fetch_staff_profile_rows A E n org db =
     (case pe_rows_fault E n of
        Some e \<Rightarrow> Inl e
      | None \<Rightarrow>
          Inr (List.map_filter (\<lambda>(_, row). if row_organization_id row = org \<and> row_aggregate_type row = ''staff_profile''
                 then text_to_value (ae_json A) (row_state row) else None) (sorted_list_of_fmap (aggregates db))))"

definition owner_matches :: "('sk, 'k, 'g, 'v) AuthEnv \<Rightarrow> ObjectId \<Rightarrow> 'v \<Rightarrow> bool" where
  "owner_matches A owner row =
     (let owner_bytes = map (\<lambda>b. jb_u64 (ae_build A) (ucast b)) (be_bytes 16 owner)
      in case json_get (ae_json A) row ''owner_id'' of
           None \<Rightarrow> False
         | Some v \<Rightarrow> (case json_as_array (ae_json A) v of None \<Rightarrow> False | Some arr \<Rightarrow> arr = owner_bytes))"

definition find_by_owner ::
    "('sk, 'k, 'g, 'v) AuthEnv \<Rightarrow> 'v ProfileEnv \<Rightarrow> nat \<Rightarrow> OrganizationId \<Rightarrow> string \<Rightarrow> Db \<Rightarrow> (StaffProfile option, 'v ApiError) result" where
  "find_by_owner A E n org owner_id db =
     (case uuid_parse (pe_uuid E) owner_id of
        None \<Rightarrow> Inl (domain_error A ''owner_id is not a valid UUID'')
      | Some owner_uuid \<Rightarrow>
          (case fetch_staff_profile_rows A E n org db of
             Inl _ \<Rightarrow> Inl (infrastructure_error A)
           | Inr rows \<Rightarrow>
               (case List.find (owner_matches A owner_uuid) rows of
                  None \<Rightarrow> Inr None
                | Some row \<Rightarrow> (case pe_from_value E row of Inl _ \<Rightarrow> Inl (infrastructure_error A) | Inr profile \<Rightarrow> Inr (Some profile)))))"

text \<open>\<open>load_profile\<close> has no caller.\<close>

definition load_profile :: "('sk, 'k, 'g, 'v) AuthEnv \<Rightarrow> 'v ProfileEnv \<Rightarrow> string option \<Rightarrow> ObjectId \<Rightarrow> Db \<Rightarrow> (StaffProfile option, 'v ApiError) result" where
  "load_profile A E fault profile_object_id db =
     (case fault of
        Some _ \<Rightarrow> Inl (infrastructure_error A)
      | None \<Rightarrow>
          (case repo_load (ae_json A) ''staff_profile'' profile_object_id db of
             Inl _ \<Rightarrow> Inl (infrastructure_error A)
           | Inr None \<Rightarrow> Inr None
           | Inr (Some loaded) \<Rightarrow>
               (case pe_from_value E (loaded_aggregate loaded) of Inl _ \<Rightarrow> Inl (infrastructure_error A) | Inr profile \<Rightarrow> Inr (Some profile))))"

text \<open>A user id that is no UUID becomes the nil UUID.\<close>

definition actor_context_for :: "'v ProfileEnv \<Rightarrow> string \<Rightarrow> OrganizationId \<Rightarrow> ActorContext" where
  "actor_context_for E user_id_text org =
     \<lparr>user_id = (case uuid_parse (pe_uuid E) user_id_text of Some u \<Rightarrow> u | None \<Rightarrow> 0), device_id = 0, actor_organization_id = org\<rparr>"

definition decision_context_for :: "'v ProfileEnv \<Rightarrow> nat \<Rightarrow> ActorContext \<Rightarrow> DecisionContext" where
  "decision_context_for E n actor =
     \<lparr>ctx_actor = actor, ctx_authority = VerifiedAuthority, trusted_now = pe_now E n, policy_outcomes = PolicyDecisionSet,
      ctx_object_id = (\<lambda>_. pe_object_id E n)\<rparr>"

definition decision_context_for_actor ::
    "('sk, 'k, 'g, 'v) AuthEnv \<Rightarrow> 'v ProfileEnv \<Rightarrow> nat \<Rightarrow> string \<Rightarrow> OrganizationId \<Rightarrow> (DecisionContext, 'v ApiError) result" where
  "decision_context_for_actor A E n user_id_text org =
     (case uuid_parse (pe_uuid E) user_id_text of
        None \<Rightarrow> Inl (domain_error A ''invalid actor user id'')
      | Some _ \<Rightarrow> Inr (decision_context_for E n (actor_context_for E user_id_text org)))"

section \<open>Creating and updating\<close>

definition request_to_identity :: "('sk, 'k, 'g, 'v) AuthEnv \<Rightarrow> UpsertProfileRequest \<Rightarrow> (BasicIdentity, 'v ApiError) result" where
  "request_to_identity A req =
     (case basic_identity_new (upr_full_name req) (upr_photo_blob_key req) (upr_job_title req) (upr_contact_email req) (upr_contact_phone req) of
        Inl e \<Rightarrow> Inl (domain_error A e) | Inr identity \<Rightarrow> Inr identity)"

definition request_to_org_info :: "UpsertProfileRequest \<Rightarrow> OrganizationalInfo" where
  "request_to_org_info req =
     \<lparr>oi_department = upr_department req, oi_class_label = upr_class_label req, oi_parent_display_name = upr_parent_display_name req,
      oi_team_memberships = upr_team_memberships req\<rparr>"

text \<open>
  The two branches of \<open>upsert_profile\<close> up to the new state of the profile. A creation has exactly one event, so that the panic of
  \<open>from_created_event\<close> cannot happen; the model puts an error in its place.
\<close>

definition updated_profile ::
    "('sk, 'k, 'g, 'v) AuthEnv \<Rightarrow> StaffProfile \<Rightarrow> BasicIdentity \<Rightarrow> OrganizationalInfo \<Rightarrow> DecisionContext \<Rightarrow> (StaffProfile, 'v ApiError) result" where
  "updated_profile A existing identity org_info ctx =
     (case profile_decide existing (UpdateBasicIdentity identity) ctx of
        Inl e \<Rightarrow> Inl (domain_error A (profile_error_string e))
      | Inr identity_events \<Rightarrow>
          let updated = fold profile_apply identity_events existing
          in (case profile_decide updated (UpdateOrganizationalInfo org_info) ctx of
                Inl e \<Rightarrow> Inl (domain_error A (profile_error_string e))
              | Inr org_events \<Rightarrow> Inr (fold profile_apply org_events updated)))"

definition created_profile ::
    "('sk, 'k, 'g, 'v) AuthEnv \<Rightarrow> 'v ProfileEnv \<Rightarrow> string \<Rightarrow> BasicIdentity \<Rightarrow> OrganizationalInfo \<Rightarrow> DecisionContext \<Rightarrow> (StaffProfile, 'v ApiError) result" where
  "created_profile A E owner_id identity org_info ctx =
     (case uuid_parse (pe_uuid E) owner_id of
        None \<Rightarrow> Inl (domain_error A ''owner_id is not a valid UUID'')
      | Some owner \<Rightarrow>
          (case profile_create (CreateProfile owner identity org_info) ctx of
             Inl e \<Rightarrow> Inl (domain_error A (profile_error_string e))
           | Inr events \<Rightarrow>
               (case profile_from_created_event (hd events) of None \<Rightarrow> Inl (infrastructure_error A) | Some profile \<Rightarrow> Inr profile)))"

definition store_profile ::
    "('sk, 'k, 'g, 'v) AuthEnv \<Rightarrow> 'v ProfileEnv \<Rightarrow> nat \<Rightarrow> OrganizationId \<Rightarrow> StaffProfile \<Rightarrow> Db \<Rightarrow> Db \<times> (StaffProfile, 'v ApiError) result" where
  "store_profile A E n org profile db =
     (case pe_to_value E profile of
        Inl _ \<Rightarrow> (db, Inl (infrastructure_error A))
      | Inr aggregate_state \<Rightarrow>
          (case pe_begin_fault E n of
             Some _ \<Rightarrow> (db, Inl (infrastructure_error A))
           | None \<Rightarrow>
               (case repo_commit (ae_json A) ''staff_profile'' (pe_commit_now E n) aggregate_state [] (uow_begin org) of
                  Inl _ \<Rightarrow> (db, Inl (infrastructure_error A))
                | Inr unit \<Rightarrow>
                    (case uow_commit (ae_json A) (pe_commit_fault E n) unit db of
                       ((db', _), Inl _) \<Rightarrow> (db', Inl (infrastructure_error A))
                     | ((db', _), Inr _) \<Rightarrow> (db', Inr profile)))))"

definition plan_profile ::
    "('sk, 'k, 'g, 'v) AuthEnv \<Rightarrow> 'v ProfileEnv \<Rightarrow> nat \<Rightarrow> UserId \<Rightarrow> OrganizationId \<Rightarrow> UpsertProfileRequest \<Rightarrow> Db \<Rightarrow> (StaffProfile, 'v ApiError) result" where
  "plan_profile A E n actor org req db =
     (case request_to_identity A req of
        Inl e \<Rightarrow> Inl e
      | Inr identity \<Rightarrow>
          let org_info = request_to_org_info req;
              ctx = decision_context_for E n (actor_context_for E (uuid_to_string (pe_uuid E) actor) org)
          in (case find_by_owner A E (2 * n + 1) org (upr_owner_id req) db of
                Inl e \<Rightarrow> Inl e
              | Inr (Some existing) \<Rightarrow> updated_profile A existing identity org_info ctx
              | Inr None \<Rightarrow> created_profile A E (upr_owner_id req) identity org_info ctx))"

definition upsert_profile ::
    "('sk, 'k, 'g, 'v) AuthEnv \<Rightarrow> 'v ProfileEnv \<Rightarrow> nat \<Rightarrow> UserId \<Rightarrow> OrganizationId \<Rightarrow> UpsertProfileRequest \<Rightarrow> Db \<Rightarrow> Db \<times> (StaffProfile, 'v ApiError) result" where
  "upsert_profile A E n actor org req db =
     (case plan_profile A E n actor org req db of Inl e \<Rightarrow> (db, Inl e) | Inr profile \<Rightarrow> store_profile A E n org profile db)"

section \<open>Routes\<close>

record WorkStatsDto =
  wsd_assigned_items_count :: "32 word option"
  wsd_completed_items_count :: "32 word option"
  wsd_target_summary :: "string option"

definition work_stats_dto :: "WorkStats \<Rightarrow> WorkStatsDto" where
  "work_stats_dto w = \<lparr>wsd_assigned_items_count = ws_assigned_items_count w, wsd_completed_items_count = ws_completed_items_count w,
     wsd_target_summary = ws_target_summary w\<rparr>"

datatype ProfileResponse = ProfileDtoWithStats PublicProfileDto WorkStatsDto | PublicOnly PublicProfileDto

abbreviation id_text :: "'v ProfileEnv \<Rightarrow> ObjectId \<Rightarrow> string" where
  "id_text E \<equiv> uuid_to_string (pe_uuid E)"

definition get_profile ::
    "('sk, 'k, 'g, 'v) AuthEnv \<Rightarrow> 'v ProfileEnv \<Rightarrow> 's RevocationOps \<Rightarrow> 's \<Rightarrow> UserDb \<Rightarrow> string option \<Rightarrow> string \<Rightarrow> Db \<Rightarrow> (ProfileResponse, 'v ApiError) result" where
  "get_profile A E R store udb header owner_id db =
     (case authenticate_headers A R store udb header of
        Inl e \<Rightarrow> Inl e
      | Inr auth \<Rightarrow>
          (case uuid_parse (pe_uuid E) (au_organization_id auth) of
             None \<Rightarrow> Inl (domain_error A ''invalid organization id on token'')
           | Some org \<Rightarrow>
               (case find_by_owner A E 0 org owner_id db of
                  Inl e \<Rightarrow> Inl e
                | Inr None \<Rightarrow>
                    Inl (ApiError_new 404 ''PROFILE_NOT_FOUND'' ''VALIDATION'' ''NON_RETRYABLE'' (ae_uuid A 0) (jb_object (ae_build A) []))
                | Inr (Some profile) \<Rightarrow>
                    (case require_class A R store udb header [TopLevelManager] of
                       Inr _ \<Rightarrow> Inr (ProfileDtoWithStats (to_public_dto (id_text E) profile) (work_stats_dto (sp_work_stats profile)))
                     | Inl _ \<Rightarrow> Inr (PublicOnly (to_public_dto (id_text E) profile))))))"

definition public_profiles :: "'v ProfileEnv \<Rightarrow> 'v list \<Rightarrow> PublicProfileDto list" where
  "public_profiles E rows =
     map (to_public_dto (id_text E)) (List.map_filter (\<lambda>row. case pe_from_value E row of Inl _ \<Rightarrow> None | Inr p \<Rightarrow> Some p) rows)"

definition list_profiles ::
    "('sk, 'k, 'g, 'v) AuthEnv \<Rightarrow> 'v ProfileEnv \<Rightarrow> 's RevocationOps \<Rightarrow> 's \<Rightarrow> UserDb \<Rightarrow> string option \<Rightarrow> Db \<Rightarrow> (PublicProfileDto list, 'v ApiError) result" where
  "list_profiles A E R store udb header db =
     (case authenticate_headers A R store udb header of
        Inl e \<Rightarrow> Inl e
      | Inr auth \<Rightarrow>
          (case uuid_parse (pe_uuid E) (au_organization_id auth) of
             None \<Rightarrow> Inl (domain_error A ''invalid organization id on token'')
           | Some org \<Rightarrow>
               (case fetch_staff_profile_rows A E 0 org db of
                  Inl _ \<Rightarrow> Inl (infrastructure_error A) | Inr rows \<Rightarrow> Inr (public_profiles E rows))))"

text \<open>The administrator of a route as organization and user.\<close>

definition admin_ids :: "('sk, 'k, 'g, 'v) AuthEnv \<Rightarrow> 'v ProfileEnv \<Rightarrow> UserRecord \<Rightarrow> (OrganizationId \<times> UserId, 'v ApiError) result" where
  "admin_ids A E admin =
     (case uuid_parse (pe_uuid E) (u_organization_id admin) of
        None \<Rightarrow> Inl (domain_error A ''invalid organization id'')
      | Some org \<Rightarrow>
          (case uuid_parse (pe_uuid E) (u_user_id admin) of
             None \<Rightarrow> Inl (domain_error A ''invalid admin user id'') | Some user \<Rightarrow> Inr (org, user)))"

definition upsert_profile_route ::
    "('sk, 'k, 'g, 'v) AuthEnv \<Rightarrow> 'v ProfileEnv \<Rightarrow> 's RevocationOps \<Rightarrow> 's \<Rightarrow> UserDb \<Rightarrow> string option \<Rightarrow> UpsertProfileRequest \<Rightarrow> Db
      \<Rightarrow> Db \<times> (PublicProfileDto, 'v ApiError) result" where
  "upsert_profile_route A E R store udb header req db =
     (case require_admin_mutation A R store udb header of
        Inl e \<Rightarrow> (db, Inl e)
      | Inr admin \<Rightarrow>
          (case admin_ids A E admin of
             Inl e \<Rightarrow> (db, Inl e)
           | Inr (org, actor) \<Rightarrow>
               (case upsert_profile A E 0 actor org req db of
                  (db', Inl e) \<Rightarrow> (db', Inl e)
                | (db', Inr profile) \<Rightarrow> (db', Inr (to_public_dto (id_text E) profile)))))"

section \<open>Batch import and export\<close>










text \<open>The answer of the export: the rows before they are written as JSON or CSV.\<close>

datatype ExportBody = ExportJson "PublicProfileDto list" | ExportCsv "CsvRow list"

definition export_profiles ::
    "('sk, 'k, 'g, 'v) AuthEnv \<Rightarrow> 'v ProfileEnv \<Rightarrow> 's RevocationOps \<Rightarrow> 's \<Rightarrow> UserDb \<Rightarrow> string option \<Rightarrow> string option \<Rightarrow> Db \<Rightarrow> (ExportBody, 'v ApiError) result" where
  "export_profiles A E R store udb header format db =
     (case require_admin A R store udb header of
        Inl e \<Rightarrow> Inl e
      | Inr admin \<Rightarrow>
          (case uuid_parse (pe_uuid E) (u_organization_id admin) of
             None \<Rightarrow> Inl (domain_error A ''invalid organization id'')
           | Some org \<Rightarrow>
               (case fetch_staff_profile_rows A E 0 org db of
                  Inl _ \<Rightarrow> Inl (infrastructure_error A)
                | Inr rows \<Rightarrow>
                    let profiles = public_profiles E rows
                    in if (case format of None \<Rightarrow> ''csv'' | Some f \<Rightarrow> f) = ''json'' then Inr (ExportJson profiles)
                       else Inr (ExportCsv (map csv_from_dto profiles)))))"

section \<open>What the store holds\<close>

text \<open>
  What serde and serde_json promise of the serialised profile: it reads back, as value and as text, its identifier and owner are the arrays of
  their sixteen bytes.
\<close>

definition profile_serde_laws :: "('sk, 'k, 'g, 'v) AuthEnv \<Rightarrow> 'v ProfileEnv \<Rightarrow> bool" where
  "profile_serde_laws A E \<longleftrightarrow>
     (\<forall>p v. pe_to_value E p = Inr v \<longrightarrow> pe_from_value E v = Inr p \<and> repo_extract_id_bytes (ae_json A) v ''id'' = Some (sp_id p)
        \<and> text_to_value (ae_json A) (text_or_braces (ae_json A) v) = Some v \<and> (\<forall>u. owner_matches A u v \<longleftrightarrow> u = sp_owner_id p))"

definition profile_row :: "('sk, 'k, 'g, 'v) AuthEnv \<Rightarrow> 'v ProfileEnv \<Rightarrow> ObjectId \<Rightarrow> AggregateRow \<Rightarrow> StaffProfile \<Rightarrow> bool" where
  "profile_row A E k row p \<longleftrightarrow> row_aggregate_type row = ''staff_profile'' \<and> sp_id p = k
     \<and> (\<exists>v. text_to_value (ae_json A) (row_state row) = Some v \<and> pe_to_value E p = Inr v)"

definition profile_at :: "('sk, 'k, 'g, 'v) AuthEnv \<Rightarrow> 'v ProfileEnv \<Rightarrow> Db \<Rightarrow> OrganizationId \<Rightarrow> ObjectId \<Rightarrow> StaffProfile \<Rightarrow> bool" where
  "profile_at A E db org k p \<longleftrightarrow> (\<exists>row. fmlookup (aggregates db) k = Some row \<and> row_organization_id row = org \<and> profile_row A E k row p)"

text \<open>Every stored profile is readable, and no account has two profiles in an organization.\<close>

definition profiles_ok :: "('sk, 'k, 'g, 'v) AuthEnv \<Rightarrow> 'v ProfileEnv \<Rightarrow> Db \<Rightarrow> bool" where
  "profiles_ok A E db \<longleftrightarrow>
     (\<forall>k row. fmlookup (aggregates db) k = Some row \<longrightarrow> row_aggregate_type row = ''staff_profile'' \<longrightarrow> (\<exists>p. profile_row A E k row p))
     \<and> (\<forall>org k k' p p'. profile_at A E db org k p \<longrightarrow> profile_at A E db org k' p' \<longrightarrow> sp_owner_id p = sp_owner_id p' \<longrightarrow> k = k')"

lemma profile_row_unique:
  assumes "profile_serde_laws A E" and "profile_row A E k row p" and "profile_row A E k row p'"
  shows "p = p'"
proof -
  obtain v where "pe_to_value E p = Inr v" "pe_to_value E p' = Inr v" using assms(2,3) by (auto simp: profile_row_def)
  then have "pe_from_value E v = Inr p" "pe_from_value E v = Inr p'" using assms(1) unfolding profile_serde_laws_def by blast+
  then show ?thesis by simp
qed


lemma set_map_filter: "set (List.map_filter f xs) = {y. \<exists>x \<in> set xs. f x = Some y}"
  by (induction xs) (auto simp: map_filter_simps split: option.splits)

lemma fetched_rows:
  assumes "profiles_ok A E db" and "pe_rows_fault E n = None"
  obtains rows where "fetch_staff_profile_rows A E n org db = Inr rows"
    and "\<And>v. v \<in> set rows \<longleftrightarrow> (\<exists>k p. profile_at A E db org k p \<and> pe_to_value E p = Inr v)"
proof -
  define rows where "rows = List.map_filter (\<lambda>(_, row). if row_organization_id row = org \<and> row_aggregate_type row = ''staff_profile''
    then text_to_value (ae_json A) (row_state row) else None) (sorted_list_of_fmap (aggregates db))"
  have mem: "v \<in> set rows \<longleftrightarrow> (\<exists>k row. fmlookup (aggregates db) k = Some row \<and> row_organization_id row = org
      \<and> row_aggregate_type row = ''staff_profile'' \<and> text_to_value (ae_json A) (row_state row) = Some v)" for v
  proof -
    have "v \<in> set rows \<longleftrightarrow> (\<exists>k row. (k, row) \<in> set (sorted_list_of_fmap (aggregates db))
        \<and> (if row_organization_id row = org \<and> row_aggregate_type row = ''staff_profile'' then text_to_value (ae_json A) (row_state row) else None) = Some v)"
      unfolding rows_def set_map_filter by (simp only: mem_Collect_eq Bex_def split_paired_Ex prod.case)
    moreover have "((if c then x else None) = Some v) = (c \<and> x = Some v)" for c x by simp
    ultimately show ?thesis by (simp only: set_sorted_list_of_fmap mem_Collect_eq prod.case conj_assoc)
  qed
  have "v \<in> set rows \<longleftrightarrow> (\<exists>k p. profile_at A E db org k p \<and> pe_to_value E p = Inr v)" for v
  proof
    assume "v \<in> set rows"
    then obtain k row where r: "fmlookup (aggregates db) k = Some row" "row_organization_id row = org" "row_aggregate_type row = ''staff_profile''"
      "text_to_value (ae_json A) (row_state row) = Some v" using mem by blast
    from assms(1) r(1,3) obtain p where "profile_row A E k row p" unfolding profiles_ok_def by blast
    with r show "\<exists>k p. profile_at A E db org k p \<and> pe_to_value E p = Inr v" by (auto simp: profile_at_def profile_row_def)
  next
    assume "\<exists>k p. profile_at A E db org k p \<and> pe_to_value E p = Inr v"
    then obtain k p row w where "fmlookup (aggregates db) k = Some row" "row_organization_id row = org" "row_aggregate_type row = ''staff_profile''"
      "text_to_value (ae_json A) (row_state row) = Some w" "pe_to_value E p = Inr w" "pe_to_value E p = Inr v"
      unfolding profile_at_def profile_row_def by blast
    moreover from this have "w = v" by simp
    ultimately show "v \<in> set rows" unfolding mem by blast
  qed
  moreover have "fetch_staff_profile_rows A E n org db = Inr rows" using assms(2) by (simp add: fetch_staff_profile_rows_def rows_def)
  ultimately show thesis using that by blast
qed

text \<open>The scan finds the profile of an account exactly when there is one.\<close>

lemma find_by_owner_exact:
  assumes laws: "profile_serde_laws A E" and ok: "profiles_ok A E db" and "pe_rows_fault E n = None" and u: "uuid_parse (pe_uuid E) owner = Some u"
  shows "profile_at A E db org k p \<Longrightarrow> sp_owner_id p = u \<Longrightarrow> find_by_owner A E n org owner db = Inr (Some p)"
    and "\<nexists>k p. profile_at A E db org k p \<and> sp_owner_id p = u \<Longrightarrow> find_by_owner A E n org owner db = Inr None"
    and "find_by_owner A E n org owner db = Inr (Some q) \<Longrightarrow> profile_at A E db org (sp_id q) q \<and> sp_owner_id q = u"
proof -
  obtain rows where rows: "fetch_staff_profile_rows A E n org db = Inr rows"
    "\<And>v. v \<in> set rows \<longleftrightarrow> (\<exists>k p. profile_at A E db org k p \<and> pe_to_value E p = Inr v)"
    using fetched_rows [OF ok assms(3)] by metis
  have inv: "owner_matches A u v \<longleftrightarrow> sp_owner_id p = u" "pe_from_value E v = Inr p" if "pe_to_value E p = Inr v" for p v
    using laws that by (auto simp: profile_serde_laws_def)
  have found: "\<exists>k p. profile_at A E db org k p \<and> sp_owner_id p = u \<and> find_by_owner A E n org owner db = Inr (Some p)"
    if "List.find (owner_matches A u) rows = Some v" for v
  proof -
    from that have v: "v \<in> set rows" "owner_matches A u v" by (auto simp: find_Some_iff)
    then obtain k p where "profile_at A E db org k p" "pe_to_value E p = Inr v" using rows(2) by blast
    with v(2) inv that show ?thesis by (auto simp: find_by_owner_def u rows(1))
  qed
  have missing: "find_by_owner A E n org owner db = Inr None \<and> (\<nexists>k p. profile_at A E db org k p \<and> sp_owner_id p = u)"
    if "List.find (owner_matches A u) rows = None"
  proof -
    have "\<not> owner_matches A u v" if "v \<in> set rows" for v using \<open>List.find _ rows = None\<close> that by (auto simp: find_None_iff)
    moreover have "\<exists>v. pe_to_value E p = Inr v \<and> v \<in> set rows" if "profile_at A E db org k p" for k p
      using that rows(2) unfolding profile_at_def profile_row_def by blast
    ultimately show ?thesis using that inv by (auto simp: find_by_owner_def u rows(1)) metis
  qed
  have keys: "sp_id p = k" if "profile_at A E db org k p" for k p using that by (auto simp: profile_at_def profile_row_def)
  have same: "p = q" if pq: "profile_at A E db org k p" "profile_at A E db org k' q" "sp_owner_id p = sp_owner_id q" for k k' p q
  proof -
    have "k = k'" using ok pq unfolding profiles_ok_def by blast
    then show ?thesis using pq profile_row_unique [OF laws] by (auto simp: profile_at_def)
  qed
  show "profile_at A E db org k p \<Longrightarrow> sp_owner_id p = u \<Longrightarrow> find_by_owner A E n org owner db = Inr (Some p)"
    using found missing same by (cases "List.find (owner_matches A u) rows") blast+
  show "\<nexists>k p. profile_at A E db org k p \<and> sp_owner_id p = u \<Longrightarrow> find_by_owner A E n org owner db = Inr None"
    using found missing by (cases "List.find (owner_matches A u) rows") blast+
  show "find_by_owner A E n org owner db = Inr (Some q) \<Longrightarrow> profile_at A E db org (sp_id q) q \<and> sp_owner_id q = u"
    using found missing keys by (cases "List.find (owner_matches A u) rows") fastforce+
qed

section \<open>Upserts\<close>

lemma store_profile_cases:
  assumes "store_profile A E n org p db = (db', res)" and "profile_serde_laws A E"
  obtains (failed) e where "res = Inl e" and "db' = db"
  | (stored) row v where "res = Inr p" and "pe_to_value E p = Inr v" and "aggregates db' = fmupd (sp_id p) row (aggregates db)"
      and "row_state row = text_or_braces (ae_json A) v"
      and "fmlookup (aggregates db) (sp_id p) = None \<Longrightarrow> row_aggregate_type row = ''staff_profile'' \<and> row_organization_id row = org"
      and "\<And>old. fmlookup (aggregates db) (sp_id p) = Some old \<Longrightarrow>
        row_aggregate_type row = row_aggregate_type old \<and> row_organization_id row = row_organization_id old"
proof (cases res)
  case (Inl e)
  have "db' = db" using assms(1) Inl by (auto simp: store_profile_def uow_commit_def Let_def split: sum.splits option.splits prod.splits if_splits)
  with Inl show thesis using failed by blast
next
  case (Inr q)
  let ?J = "ae_json A"
  obtain v u u' where v: "pe_to_value E p = Inr v" "repo_commit ?J ''staff_profile'' (pe_commit_now E n) v [] (uow_begin org) = Inr u"
    "uow_commit ?J (pe_commit_fault E n) u db = ((db', u'), Inr ())" "q = p"
    using assms(1) Inr by (auto simp: store_profile_def split: sum.splits option.splits prod.splits)
  have i: "repo_extract_id_bytes ?J v ''id'' = Some (sp_id p)" using assms(2) v(1) unfolding profile_serde_laws_def by blast
  from v(2) i have ups: "\<exists>up. staged_upserts u = [up] \<and> up_id up = sp_id p \<and> up_aggregate_type up = ''staff_profile'' \<and> up_organization_id up = org \<and> up_state up = v"
    by (auto simp: repo_commit_def Let_def stage_aggregate_upsert_def uow_begin_def)
  then obtain up where up: "staged_upserts u = [up]" "up_id up = sp_id p" "up_aggregate_type up = ''staff_profile''" "up_organization_id up = org" "up_state up = v"
    by blast
  from uow_commit_Inr [OF v(3)] obtain db1 where db1: "upserts_ok ?J [up] db = Inr db1" "aggregates db' = aggregates db1" using up(1) by metis
  show thesis
  proof (cases "fmlookup (aggregates db) (sp_id p)")
    case None
    with db1 up show thesis by (intro stored [OF _ v(1)]) (auto simp: Inr v(4) upsert_aggregate_def Let_def)
  next
    case (Some old)
    let ?row = "old\<lparr>row_version := up_version up, row_lifecycle_epoch := up_lifecycle_epoch up, row_authority_epoch := up_authority_epoch up,
      row_state := text_or_braces ?J v, row_updated_at := up_updated_at_millis up\<rparr>"
    have "aggregates db' = fmupd (sp_id p) ?row (aggregates db)" using db1 up Some by (auto simp: upsert_aggregate_def Let_def split: if_splits)
    from stored [OF _ v(1) this] Some show thesis by (simp add: Inr v(4))
  qed
qed

lemma updated_profile_Inr:
  assumes "updated_profile A existing identity info ctx = Inr p"
  shows "sp_id p = sp_id existing \<and> sp_owner_id p = sp_owner_id existing \<and> sp_identity p = identity \<and> sp_organizational_info p = info
    \<and> sp_work_stats p = sp_work_stats existing \<and> sp_status existing = ProfileStatus.Active \<and> sp_version p = sp_version existing + 2"
  using assms
  by (auto simp: updated_profile_def Let_def profile_apply_def kernel_simps split: sum.splits elim!: profile_decide_cases)

lemma created_profile_Inr:
  assumes "created_profile A E owner identity info ctx = Inr p"
  shows "sp_id p = ctx_object_id ctx 0 \<and> uuid_parse (pe_uuid E) owner = Some (sp_owner_id p) \<and> sp_identity p = identity \<and> sp_organizational_info p = info"
  using assms by (auto simp: created_profile_def split: option.splits)

text \<open>What an upsert plans: the profile the account has, or a new one.\<close>

lemma plan_profile_Inr:
  assumes laws: "profile_serde_laws A E" and ok: "profiles_ok A E db" and "plan_profile A E n actor org req db = Inr p"
  shows "uuid_parse (pe_uuid E) (upr_owner_id req) = Some (sp_owner_id p)" and "request_to_identity A req = Inr (sp_identity p)"
    and "sp_organizational_info p = request_to_org_info req"
    and "(\<exists>q. profile_at A E db org (sp_id p) q \<and> sp_owner_id q = sp_owner_id p)
      \<or> sp_id p = pe_object_id E n \<and> (\<nexists>k q. profile_at A E db org k q \<and> sp_owner_id q = sp_owner_id p)"
proof -
  obtain identity found where h: "request_to_identity A req = Inr identity" "find_by_owner A E (2 * n + 1) org (upr_owner_id req) db = Inr found"
    using assms(3) by (auto simp: plan_profile_def Let_def split: sum.splits)
  let ?ctx = "decision_context_for E n (actor_context_for E (uuid_to_string (pe_uuid E) actor) org)"
  have nofault: "pe_rows_fault E (2 * n + 1) = None"
    using h(2) by (auto simp: find_by_owner_def fetch_staff_profile_rows_def split: option.splits)
  obtain u where u: "uuid_parse (pe_uuid E) (upr_owner_id req) = Some u" using h(2) by (auto simp: find_by_owner_def split: option.splits)
  have "uuid_parse (pe_uuid E) (upr_owner_id req) = Some (sp_owner_id p) \<and> request_to_identity A req = Inr (sp_identity p)
    \<and> sp_organizational_info p = request_to_org_info req
    \<and> ((\<exists>q. profile_at A E db org (sp_id p) q \<and> sp_owner_id q = sp_owner_id p)
      \<or> sp_id p = pe_object_id E n \<and> (\<nexists>k q. profile_at A E db org k q \<and> sp_owner_id q = sp_owner_id p))"
  proof (cases found)
    case None
    then have "created_profile A E (upr_owner_id req) identity (request_to_org_info req) ?ctx = Inr p"
      using assms(3) h by (simp add: plan_profile_def Let_def)
    note created_profile_Inr [OF this]
    moreover have "\<nexists>k q. profile_at A E db org k q \<and> sp_owner_id q = u"
      using find_by_owner_exact(1) [OF laws ok nofault u] h(2) None by force
    ultimately show ?thesis using h(1) u by (simp add: decision_context_for_def)
  next
    case (Some existing)
    then have "updated_profile A existing identity (request_to_org_info req) ?ctx = Inr p"
      using assms(3) h by (simp add: plan_profile_def Let_def)
    note updated_profile_Inr [OF this]
    moreover have "profile_at A E db org (sp_id existing) existing \<and> sp_owner_id existing = u"
      using find_by_owner_exact(3) [OF laws ok nofault u] h(2) Some by blast
    ultimately show ?thesis using h(1) u by auto
  qed
  then show "uuid_parse (pe_uuid E) (upr_owner_id req) = Some (sp_owner_id p)" and "request_to_identity A req = Inr (sp_identity p)"
    and "sp_organizational_info p = request_to_org_info req"
    and "(\<exists>q. profile_at A E db org (sp_id p) q \<and> sp_owner_id q = sp_owner_id p)
      \<or> sp_id p = pe_object_id E n \<and> (\<nexists>k q. profile_at A E db org k q \<and> sp_owner_id q = sp_owner_id p)"
    by blast+
qed

lemma stored_view:
  assumes laws: "profile_serde_laws A E" and "store_profile A E n org p db = (db', Inr q)"
    and target: "(\<exists>q. profile_at A E db org (sp_id p) q) \<or> fmlookup (aggregates db) (sp_id p) = None"
  shows "q = p" and "k \<noteq> sp_id p \<Longrightarrow> fmlookup (aggregates db') k = fmlookup (aggregates db) k"
    and "profile_at A E db' org' k r \<longleftrightarrow> (if k = sp_id p then org' = org \<and> r = p else profile_at A E db org' k r)"
    and "\<exists>row. fmlookup (aggregates db') (sp_id p) = Some row \<and> row_organization_id row = org \<and> profile_row A E (sp_id p) row p"
proof -
  from assms(2) laws have "q = p \<and> (\<exists>row. aggregates db' = fmupd (sp_id p) row (aggregates db) \<and> row_organization_id row = org \<and> profile_row A E (sp_id p) row p)"
  proof (rule store_profile_cases)
    fix row v
    assume s: "Inr q = Inr p" "pe_to_value E p = Inr v" "aggregates db' = fmupd (sp_id p) row (aggregates db)" "row_state row = text_or_braces (ae_json A) v"
      "fmlookup (aggregates db) (sp_id p) = None \<Longrightarrow> row_aggregate_type row = ''staff_profile'' \<and> row_organization_id row = org"
      "\<And>old. fmlookup (aggregates db) (sp_id p) = Some old \<Longrightarrow> row_aggregate_type row = row_aggregate_type old \<and> row_organization_id row = row_organization_id old"
    have ty: "row_aggregate_type row = ''staff_profile'' \<and> row_organization_id row = org"
      using target s(5,6) by (auto simp: profile_at_def profile_row_def)
    have "text_to_value (ae_json A) (row_state row) = Some v" using laws s(2,4) unfolding profile_serde_laws_def by auto
    then have "profile_row A E (sp_id p) row p" using s(2) ty by (simp add: profile_row_def)
    with s(1,3) ty show ?thesis by blast
  qed simp
  then obtain row where row: "q = p" "aggregates db' = fmupd (sp_id p) row (aggregates db)" "row_organization_id row = org" "profile_row A E (sp_id p) row p"
    by blast
  then show "q = p" by simp
  show "k \<noteq> sp_id p \<Longrightarrow> fmlookup (aggregates db') k = fmlookup (aggregates db) k" by (simp add: row(2))
  show "profile_at A E db' org' k r \<longleftrightarrow> (if k = sp_id p then org' = org \<and> r = p else profile_at A E db org' k r)"
    using row profile_row_unique [OF laws row(4)] by (auto simp: profile_at_def)
  show "\<exists>row. fmlookup (aggregates db') (sp_id p) = Some row \<and> row_organization_id row = org \<and> profile_row A E (sp_id p) row p"
    using row by simp
qed


lemma upsert_view:
  assumes laws: "profile_serde_laws A E" and ok: "profiles_ok A E db" and fresh: "fmlookup (aggregates db) (pe_object_id E n) = None"
    and "plan_profile A E n actor org req db = Inr p" and "store_profile A E n org p db = (db', Inr p)"
  shows "k \<noteq> sp_id p \<Longrightarrow> fmlookup (aggregates db') k = fmlookup (aggregates db) k"
    and "profile_at A E db' org' k r \<longleftrightarrow> (if k = sp_id p then org' = org \<and> r = p else profile_at A E db org' k r)"
    and "profiles_ok A E db'"
    and "sp_id p = pe_object_id E n \<or> (\<exists>row. fmlookup (aggregates db) (sp_id p) = Some row \<and> row_organization_id row = org \<and> row_aggregate_type row = ''staff_profile'')"
proof -
  note plan = plan_profile_Inr [OF laws ok assms(4)]
  have target: "(\<exists>q. profile_at A E db org (sp_id p) q) \<or> fmlookup (aggregates db) (sp_id p) = None" using plan(4) fresh by auto
  note view = stored_view [OF laws assms(5) target]
  show "k \<noteq> sp_id p \<Longrightarrow> fmlookup (aggregates db') k = fmlookup (aggregates db) k" by (rule view(2))
  show "profile_at A E db' org' k r \<longleftrightarrow> (if k = sp_id p then org' = org \<and> r = p else profile_at A E db org' k r)" by (rule view(3))
  have readable: "\<exists>r. profile_row A E k row r"
    if "fmlookup (aggregates db') k = Some row" "row_aggregate_type row = ''staff_profile''" for k row
    using that view(2) [of k] view(4) ok unfolding profiles_ok_def by (cases "k = sp_id p") auto
  have alone: "k = sp_id p" if "profile_at A E db org k r" "sp_owner_id r = sp_owner_id p" for k r
    using plan(4) that ok unfolding profiles_ok_def by metis
  have "k = k'" if "profile_at A E db' org' k r" "profile_at A E db' org' k' r'" "sp_owner_id r = sp_owner_id r'" for org' k k' r r'
    using that alone ok unfolding view(3) profiles_ok_def by (auto split: if_splits)
  with readable show "profiles_ok A E db'" unfolding profiles_ok_def by blast
  show "sp_id p = pe_object_id E n \<or> (\<exists>row. fmlookup (aggregates db) (sp_id p) = Some row \<and> row_organization_id row = org \<and> row_aggregate_type row = ''staff_profile'')"
    using plan(4) by (auto simp: profile_at_def profile_row_def)
qed



section \<open>Reading and importing\<close>

text \<open>
  C34. Who sees what of a profile: the answer describes a profile stored for the account in the organization of the caller, and it contains the work
  statistics only if the caller's account is active and an administrator or a top-level manager.
\<close>

theorem profile_visibility:
  assumes laws: "profile_serde_laws A E" and ok: "profiles_ok A E db" and g: "get_profile A E R store udb header owner_id db = Inr answer"
  shows "\<exists>auth org p. authenticate_headers A R store udb header = Inr auth \<and> uuid_parse (pe_uuid E) (au_organization_id auth) = Some org
    \<and> profile_at A E db org (sp_id p) p \<and> uuid_parse (pe_uuid E) owner_id = Some (sp_owner_id p)
    \<and> (answer = PublicOnly (to_public_dto (id_text E) p)
      \<or> answer = ProfileDtoWithStats (to_public_dto (id_text E) p) (work_stats_dto (sp_work_stats p))
        \<and> (\<exists>user. find_by_id (\<lambda>_. ae_user_fault A 1) (au_user_id auth) udb = Inr (Some user) \<and> u_is_active user
            \<and> (u_is_admin user \<or> u_class user = Some TopLevelManager)))"
proof -
  obtain auth org p where h: "authenticate_headers A R store udb header = Inr auth" "uuid_parse (pe_uuid E) (au_organization_id auth) = Some org"
    "find_by_owner A E 0 org owner_id db = Inr (Some p)"
    using g by (auto simp: get_profile_def split: sum.splits option.splits)
  have fault: "pe_rows_fault E 0 = None" using h(3) by (auto simp: find_by_owner_def fetch_staff_profile_rows_def split: option.splits)
  obtain u where u: "uuid_parse (pe_uuid E) owner_id = Some u" using h(3) by (auto simp: find_by_owner_def split: option.splits)
  have p: "profile_at A E db org (sp_id p) p \<and> sp_owner_id p = u" by (rule find_by_owner_exact(3) [OF laws ok fault u h(3)])
  have "answer = PublicOnly (to_public_dto (id_text E) p)
      \<or> answer = ProfileDtoWithStats (to_public_dto (id_text E) p) (work_stats_dto (sp_work_stats p))
        \<and> (\<exists>user. find_by_id (\<lambda>_. ae_user_fault A 1) (au_user_id auth) udb = Inr (Some user) \<and> u_is_active user
            \<and> (u_is_admin user \<or> u_class user = Some TopLevelManager))"
  proof (cases "require_class A R store udb header [TopLevelManager]")
    case (Inl e)
    then show ?thesis using g h by (simp add: get_profile_def)
  next
    case (Inr user)
    then have "find_by_id (\<lambda>_. ae_user_fault A 1) (au_user_id auth) udb = Inr (Some user)" "u_is_active user"
      "u_is_admin user \<or> u_class user = Some TopLevelManager"
      using h(1) by (auto simp: require_class_def authenticated_admin_candidate_def Let_def split: sum.splits option.splits if_splits)
    with g h Inr show ?thesis by (simp add: get_profile_def)
  qed
  with h p u show ?thesis by metis
qed









section \<open>A sample store\<close>

text \<open>Two serialised profiles of the account with UUID 8, whose identifiers are 0 and 1; the first is what the sample request creates.\<close>

definition prof_json :: "string JsonOps" where
  "prof_json = toy_json\<lparr>
     json_get := (\<lambda>v k. if k = ''owner_id'' then Some ''O'' else if k = ''id'' then Some (if v = ''p'' then ''ip'' else ''iq'') else Some k),
     json_as_array := (\<lambda>w. if w = ''O'' then Some (map (\<lambda>b. [char_of (unat b)]) (be_bytes 16 (8 :: ObjectId)))
       else Some [''z'', ''z'', ''z'', ''z'', ''z'', ''z'', ''z'', ''z'', ''z'', ''z'', ''z'', ''z'', ''z'', ''z'', ''z'', if w = ''ip'' then ''z'' else ''1'']),
     json_as_u64 := (\<lambda>w. Some (if w = ''1'' then 1 else 0))\<rparr>"

definition prof_auth :: "(8 word, 8 word, bytes, string) AuthEnv" where
  "prof_auth = (toy_env root_user Admin)\<lparr>ae_json := prof_json, ae_build := toy_build\<lparr>jb_u64 := (\<lambda>n. [char_of (unat n)])\<rparr>\<rparr>"

definition prof_req :: UpsertProfileRequest where
  "prof_req = \<lparr>upr_owner_id = ''b'', upr_full_name = ''Bob'', upr_photo_blob_key = None, upr_job_title = Some ''dev'', upr_contact_email = Some ''b@x'',
     upr_contact_phone = Some ''5'', upr_department = Some ''it'', upr_class_label = None, upr_parent_display_name = None, upr_team_memberships = [''A'']\<rparr>"

definition prof_p :: StaffProfile where
  "prof_p = \<lparr>sp_id = 0, sp_version = ObjectVersion_INITIAL, sp_lifecycle_epoch = LifecycleEpoch_INITIAL, sp_authority_epoch = AuthorityEpoch_INITIAL,
     sp_status = ProfileStatus.Active, sp_owner_id = 8,
     sp_identity = \<lparr>bi_full_name = ''Bob'', bi_photo_blob_key = None, bi_job_title = Some ''dev'', bi_contact_email = Some ''b@x'', bi_contact_phone = Some ''5''\<rparr>,
     sp_organizational_info = \<lparr>oi_department = Some ''it'', oi_class_label = None, oi_parent_display_name = None, oi_team_memberships = [''A'']\<rparr>,
     sp_work_stats = work_stats_unavailable\<rparr>"

definition prof_q :: StaffProfile where
  "prof_q = prof_p\<lparr>sp_id := 1\<rparr>"

definition prof_csv :: "string \<Rightarrow> CsvRow" where
  "prof_csv i = \<lparr>csv_user_id = i, csv_full_name = ''Bob'', csv_contact_email = ''b@x'', csv_contact_phone = ''5'', csv_job_title = ''dev'',
     csv_department = ''it'', csv_photo_blob_key = [], csv_class_label = [], csv_parent_display_name = [], csv_team_memberships = ''A''\<rparr>"

definition prof_env :: "string ProfileEnv" where
  "prof_env =
     \<lparr>pe_from_value = (\<lambda>v. if v = ''p'' then Inr prof_p else if v = ''q'' then Inr prof_q else Inl []),
      pe_to_value = (\<lambda>p. if p = prof_p then Inr ''p'' else if p = prof_q then Inr ''q'' else Inl []),
      pe_uuid = \<lparr>uuid_to_string = (\<lambda>u. if u = 8 then ''b'' else ''r''), uuid_parse = (\<lambda>s. if s = ''b'' then Some 8 else if s = ''r'' then Some 9 else if s = ''org'' then Some 3 else None)\<rparr>,
      pe_to_string = id, pe_now = (\<lambda>_. 5), pe_object_id = of_nat, pe_commit_now = (\<lambda>_. 6), pe_rows_fault = (\<lambda>_. None), pe_user_fault = (\<lambda>_. None),
      pe_begin_fault = (\<lambda>_. None), pe_commit_fault = (\<lambda>_ _. None), pe_json_rows = (\<lambda>_. Inl []),
      pe_csv_records = (\<lambda>_. [Inr (prof_csv ''b''), Inr (prof_csv '' '')])\<rparr>"

definition prof_db :: Db where
  "prof_db = \<lparr>aggregates = fmempty, domain_events = [], outbox = [], idempotency = fmempty\<rparr>"

lemma prof_json_of: "ae_json prof_auth = prof_json" "jb_u64 (ae_build prof_auth) n = [char_of (unat n)]"
  by (simp_all add: prof_auth_def)

lemma prof_ne: "prof_p \<noteq> prof_q" "prof_q \<noteq> prof_p"
  by (simp_all add: prof_p_def prof_q_def)

lemma prof_ids: "repo_extract_id_bytes prof_json ''p'' ''id'' = Some 0" "repo_extract_id_bytes prof_json ''q'' ''id'' = Some 1"
  by (simp_all add: repo_extract_id_bytes_def prof_json_def bytes_of_json_def bytes_be_def)

lemma prof_owner: "owner_matches prof_auth u v \<longleftrightarrow> u = 8"
proof -
  have char: "unat b = unat c" if "(char_of (unat b) :: char) = char_of (unat c)" for b c :: "8 word"
  proof -
    have "unat b < 256" "unat c < 256" using unsigned_less [of b, where 'a = nat] unsigned_less [of c, where 'a = nat] by simp_all
    with arg_cong [OF that, of "of_char :: char \<Rightarrow> nat"] show ?thesis by simp
  qed
  have "inj (\<lambda>b :: 8 word. [char_of (unat b) :: char])" by (rule injI) (use char in \<open>simp add: word_unat_eq_iff\<close>)
  then have "map (\<lambda>b. [char_of (unat b)]) (be_bytes 16 u) = map (\<lambda>b. [char_of (unat b) :: char]) (be_bytes 16 (8 :: ObjectId)) \<longleftrightarrow> be_bytes 16 u = be_bytes 16 (8 :: ObjectId)"
    by (simp add: inj_map_eq_map)
  also have "\<dots> \<longleftrightarrow> u = 8" using be_bytes_inj [of 16 u 8] by auto
  finally have bytes: "map (\<lambda>b. [char_of (unat b)]) (be_bytes 16 u) = map (\<lambda>b. [char_of (unat b) :: char]) (be_bytes 16 (8 :: ObjectId)) \<longleftrightarrow> u = 8" .
  have "unat (ucast b :: u64) = unat b" for b :: "8 word"
    using unsigned_less [of b, where 'a = nat] by (simp add: unsigned_ucast_eq take_bit_nat_eq_self)
  with bytes show ?thesis by (auto simp: owner_matches_def prof_json_of prof_json_def)
qed

lemma prof_laws: "profile_serde_laws prof_auth prof_env"
  unfolding profile_serde_laws_def prof_owner prof_json_of
  by (auto simp: prof_env_def prof_ids prof_ne split: if_splits)
    (auto simp: prof_p_def prof_q_def prof_json_def toy_json_def)

lemma prof_db_ok: "profiles_ok prof_auth prof_env prof_db" "fmlookup (aggregates prof_db) k = None"
  by (simp_all add: profiles_ok_def profile_at_def prof_db_def)

lemma prof_scan: "find_by_owner prof_auth prof_env n org ''b'' prof_db = Inr None"
  by (simp add: find_by_owner_def fetch_staff_profile_rows_def prof_env_def prof_db_def sorted_list_of_fmap_def List.map_filter_def sorted_list_of_fset.rep_eq)

lemma prof_plan: "plan_profile prof_auth prof_env 0 actor 3 prof_req prof_db = Inr prof_p" "plan_profile prof_auth prof_env 1 actor 3 prof_req prof_db = Inr prof_q"
proof -
  have req: "upr_owner_id prof_req = ''b''" "request_to_identity prof_auth prof_req = Inr (sp_identity prof_p)" "request_to_org_info prof_req = sp_organizational_info prof_p"
    by (simp_all add: prof_req_def request_to_identity_def basic_identity_new_def prof_p_def request_to_org_info_def is_ws3_def)
  have u: "uuid_parse (pe_uuid prof_env) ''b'' = Some 8" "pe_object_id prof_env = of_nat" by (simp_all add: prof_env_def)
  show "plan_profile prof_auth prof_env 0 actor 3 prof_req prof_db = Inr prof_p" "plan_profile prof_auth prof_env 1 actor 3 prof_req prof_db = Inr prof_q"
    by (simp_all add: plan_profile_def req prof_scan created_profile_def u decision_context_for_def) (simp_all add: prof_p_def prof_q_def)
qed

lemma prof_store:
  "\<exists>db1. store_profile prof_auth prof_env 0 3 prof_p prof_db = (db1, Inr prof_p) \<and> (\<exists>db2. store_profile prof_auth prof_env 1 3 prof_q db1 = (db2, Inr prof_q))"
proof -
  have J: "json_i64_or_zero prof_json v k = 1" for v k
    by (simp add: json_i64_or_zero_def prof_json_def toy_json_def)
  have E: "pe_to_value prof_env prof_p = Inr ''p''" "pe_to_value prof_env prof_q = Inr ''q''" "pe_begin_fault prof_env n = None" "pe_commit_fault prof_env n = (\<lambda>_. None)" for n
    using prof_ne by (simp_all add: prof_env_def)
  show ?thesis
    by (simp add: store_profile_def E prof_json_of prof_db_def repo_commit_def prof_ids J uow_commit_def uow_statements_def stage_aggregate_upsert_def uow_begin_def upsert_aggregate_def)
qed



text \<open>Authentication reads only the algorithm of a token's header from its JSON.\<close>

lemma authenticate_other_json:
  assumes "authenticate_headers E R store db header = Inr auth" and "\<And>v. json_get J v ''alg'' = json_get (ae_json E) v ''alg''"
    and "json_as_str J = json_as_str (ae_json E)"
  shows "authenticate_headers (E\<lparr>ae_json := J, ae_build := B\<rparr>) R store db header = Inr auth"
proof -
  have dec: "decode_claims (E\<lparr>ae_json := J, ae_build := B\<rparr>) token = decode_claims E token" for token
  proof -
    have "jwt_decode_at J (ae_crypto E) (ae_from_slice E) c t n = jwt_decode_at (ae_json E) (ae_crypto E) (ae_from_slice E) c t n" for c t n
      by (simp only: jwt_decode_at_def assms(2,3))
    then show ?thesis by (simp add: decode_claims_def split: sum.split)
  qed
  have valid: "validate_token (E\<lparr>ae_json := J, ae_build := B\<rparr>) 0 R store token ''access'' = Inr claims"
    if "validate_token E 0 R store token ''access'' = Inr claims" for token claims
    using that by (auto simp: validate_token_def dec token_hash_def Let_def split: option.splits if_splits sum.splits)
  obtain token claims where t: "(case header of None \<Rightarrow> None | Some h \<Rightarrow> strip_bearer h) = Some token" "validate_token E 0 R store token ''access'' = Inr claims"
    using assms(1) by (auto simp: authenticate_headers_def split: option.splits sum.splits)
  show ?thesis
    using assms(1) unfolding authenticate_headers_def t(1) option.case t(2) valid [OF t(2)] sum.case
    by (auto simp: revalidate_token_principal_def split: option.splits sum.splits if_splits)
qed

lemma prof_header:
  "\<exists>auth. authenticate_headers prof_auth (toy_rev (\<lambda>_. None)) fresh_store admin_db root_header = Inr auth
    \<and> au_user_id auth = ''r'' \<and> au_organization_id auth = ''org'' \<and> au_client_type auth = Admin"
proof -
  have "authenticate_headers (toy_env root_user Admin) (toy_rev (\<lambda>_. None)) fresh_store admin_db root_header
     = Inr \<lparr>au_user_id = ''r'', au_username = u_username root_user, au_organization_id = u_organization_id root_user,
           au_token = resp_access_token (toy_response root_user Admin), au_scope = tc_scope (toy_claims root_user Admin True), au_client_type = Admin\<rparr>"
    using toy_authenticate [of root_user admin_db Admin] root_find unfolding root_header_def by simp
  from authenticate_other_json [OF this, of prof_json] show ?thesis
    unfolding prof_auth_def by (simp add: prof_json_def toy_json_def)
qed

lemma prof_candidate:
  "\<exists>auth. authenticated_admin_candidate prof_auth (toy_rev (\<lambda>_. None)) fresh_store admin_db root_header = Inr (auth, root_user) \<and> au_client_type auth = Admin"
  using prof_header by (auto simp: authenticated_admin_candidate_def prof_auth_def root_find)

lemma prof_admin: "require_admin_mutation prof_auth (toy_rev (\<lambda>_. None)) fresh_store admin_db root_header = Inr root_user"
    "require_class prof_auth (toy_rev (\<lambda>_. None)) fresh_store admin_db root_header [TopLevelManager] = Inr root_user"
  using prof_candidate
  by (auto simp: require_admin_mutation_def require_class_def require_active_admin_def require_capability_def FULL_CAPABILITIES_def)

theorem profile_visibility_witness:
  "\<exists>db stats. get_profile prof_auth prof_env (toy_rev (\<lambda>_. None)) fresh_store admin_db root_header ''b'' db
      = Inr (ProfileDtoWithStats (to_public_dto (id_text prof_env) prof_p) stats)
    \<and> (\<exists>user. find_by_id (\<lambda>_. None) ''r'' admin_db = Inr (Some user) \<and> (u_is_admin user \<or> u_class user = Some TopLevelManager))"
proof -
  obtain db where s: "store_profile prof_auth prof_env 0 3 prof_p prof_db = (db, Inr prof_p)" using prof_store by blast
  note view = upsert_view [OF prof_laws prof_db_ok(1) prof_db_ok(2) prof_plan(1) s]
  have at: "profile_at prof_auth prof_env db 3 0 prof_p" using view(2) [of 3 0 prof_p] by (simp add: prof_p_def)
  have "find_by_owner prof_auth prof_env 0 3 ''b'' db = Inr (Some prof_p)"
    by (rule find_by_owner_exact(1) [OF prof_laws view(3) _ _ at]) (simp_all add: prof_env_def prof_p_def)
  moreover obtain auth where auth: "authenticate_headers prof_auth (toy_rev (\<lambda>_. None)) fresh_store admin_db root_header = Inr auth"
    "au_user_id auth = ''r''" "au_organization_id auth = ''org''" using prof_header by blast
  moreover have "uuid_parse (pe_uuid prof_env) ''org'' = Some 3" by (simp add: prof_env_def)
  ultimately have g: "get_profile prof_auth prof_env (toy_rev (\<lambda>_. None)) fresh_store admin_db root_header ''b'' db
      = Inr (ProfileDtoWithStats (to_public_dto (id_text prof_env) prof_p) (work_stats_dto (sp_work_stats prof_p)))"
    by (simp add: get_profile_def prof_admin(2))
  have "ae_user_fault prof_auth 1 = None" by (simp add: prof_auth_def)
  with profile_visibility [OF prof_laws view(3) g] auth have "\<exists>user. find_by_id (\<lambda>_. None) ''r'' admin_db = Inr (Some user) \<and> (u_is_admin user \<or> u_class user = Some TopLevelManager)"
    by auto
  with g show ?thesis by blast
qed




end
