(* ===== verification/Spec2Isabelle.thy ===== *)
theory Spec2Isabelle
  imports Crdt_Gc Sync_Session Command_Pipeline Verification_Authority Policy_Domain Command_Security Outbox_Relay Worker_Jobs
    Communication_Domain File_Domain Client_Commands Profile_Routes
begin

text \<open>
  Verification of the Onyx Framework: an offline-first work management platform written in Rust
  (paths below are relative to \<open>src/crates\<close>).

  \<^bold>\<open>The program and its parts.\<close> Domain aggregates (missions, tasks, \<dots>) are event-sourced state machines: a
  command is decided into events or a domain error, events are applied to the state. On the server the command
  pipeline loads an aggregate, checks the caller's expected version and epochs, lets the aggregate decide, and writes
  the new state, its events, the outgoing messages and the recorded answer in one database transaction. Between
  replicas, the synchronisation engine exchanges operations stamped with vector clocks; concurrent writes are merged by
  replicated data types where the field allows it and become conflict records otherwise.

  \<^bold>\<open>Theories, in the order of their imports.\<close>
  \<^item> \<open>Prelude\<close>: names of machine types, lemmas on finite maps, sorted lists and words, the collections of rewrite rules.
  \<^item> \<open>Convergence\<close>: the contract of a state-based merge (locale) and what replicas get from it: the states of replicas
    that received the same set of states agree, whatever the order and multiplicity of delivery.
  \<^item> \<open>Kernel\<close> (\<open>kernel/platform-kernel\<close>): identifiers, versions, epochs, time, authority, and vector clocks:
    \<open>compare\<close> is the causal order, \<open>merge\<close> its join, the JSON form round-trips.
  \<^item> \<open>Crdt_Core\<close>, \<open>Crdt_Or_Set\<close>, \<open>Crdt_Pn_Counter\<close>, \<open>Crdt_Registers\<close>, \<open>Crdt_Rga\<close>, \<open>Crdt_Gc\<close> (\<open>synchronization/crdt\<close>):
    the \<open>Crdt\<close> trait as a locale and its six implementations: observed-remove set, counter, last-writer-wins and
    multi-value registers, append-only log, sequence; and the tombstone collector.
  \<^item> \<open>Sync_Merge\<close>, \<open>Sync_Session\<close> (\<open>synchronization/synchronization-domain\<close>): field metadata and the merge
    dispatcher; conflict records, the guard on conflicted aggregates, and the session with its exchange and
    reconciliation phases.
  \<^item> \<open>Contracts\<close> (\<open>kernel/platform-contracts\<close>, \<open>kernel/platform-contracts-ext\<close>): domain errors, event and command
    envelopes, and the \<open>AggregateRoot\<close> trait as the locales \<open>aggregate_root\<close> and \<open>lifecycle_aggregate\<close>: what holds of
    every aggregate after any sequence of commands.
  \<^item> \<open>Mission_Domain\<close>, \<open>Work_Domain\<close> (\<open>domains/mission-domain\<close>, \<open>domains/work-domain\<close>): the two central aggregates
    with all commands and events, interpreted as lifecycle aggregates over the ruled transition tables.
  \<^item> \<open>Persistence_Sqlite\<close> (\<open>infrastructure/persistence-sqlite\<close>): tables, the guarded upsert, the unit of work and the
    repository.
  \<^item> \<open>Command_Handler\<close>, \<open>Command_Pipeline\<close> (\<open>bins/api-server/src/command_handler.rs\<close>): the generic pipeline, the
    locale of aggregates that decide one event at a time, and its use on missions and tasks.

  \<^bold>\<open>How the code is represented.\<close> A struct is a record, an enum a datatype with the source's constructors, a
  \<open>BTreeMap\<close>/\<open>HashMap\<close> a finite map, a \<open>BTreeSet\<close>/\<open>HashSet\<close> a finite set, \<open>Result\<close> a sum with the error on the left,
  \<open>u64\<close>/\<open>i64\<close>/\<open>u32\<close> words of that width; \<open>+\<close> on them wraps as it does in the release build, and where an
  operation depends on staying in range the theorem has the bound as a hypothesis. A method with \<open>&mut self\<close> takes
  the state as an argument and returns it updated, together with its result.

  \<^bold>\<open>Parameters.\<close> Code outside the repository is an argument of the definitions that use it: the rendering and parsing
  of uuids (\<open>Kernel\<close>), JSON encoding of values (\<open>Sync_Merge\<close>, \<open>Command_Handler\<close>), errors raised by the database
  engine (\<open>Persistence_Sqlite\<close>), random identifiers and clock readings. Properties that need a law of such a
  parameter name it as a hypothesis (for instance that decoding inverts encoding) and have a witness with a concrete
  instance.

  \<^bold>\<open>Fuel and bounds.\<close> No definition uses fuel: every loop is a structural recursion, a fold or, for the walk of
  \<open>to_vec\<close> over the atoms of a sequence, a recursion with a termination proof. Database versions are \<open>i64\<close> columns
  compared as signed numbers; theorems about them assume versions below \<open>2 ^ 63\<close>.

  \<^bold>\<open>Findings.\<close> \<open>reconcile_misses_conflict\<close>, \<open>gc_ignores_missing_entries\<close>, \<open>lww_changed_flag\<close>,
  \<open>mv_set_keeps_dominated_versions\<close> and \<open>rga_tombstone_clocks_diverge\<close> state behaviour that differs from what the
  documentation of the code says.

  \<^bold>\<open>Not modelled.\<close> Network transports, HTTP routing, user interface shells, foreign-function bindings, cryptography
  and password hashing (I/O or third-party code around the parts above); the PostgreSQL adapter (the same statements
  as the SQLite one in another dialect). Planned next: the outbox, inbox and dead-letter stores with their leases, the
  policy, to-do, communication, file and profile aggregates on the locales of \<open>Contracts\<close>, the rate limiter, and the
  escalation service.
\<close>

end
